(* ===== verification/Prelude.thy ===== *)
theory Prelude
  imports Main "HOL-Library.Char_ord" "HOL-Library.List_Lexorder" "HOL-Library.Multiset"
begin

text \<open>
  Shared vocabulary of the development: Python exceptions as values, the result
  type \<open>'a res\<close> of fallible operations, sequences of checks in the order the code
  performs them, and the generic list lemmas the components share.

  A Python function that may raise returns \<open>py_exn + 'a\<close>; \<open>Inl e\<close> is the raise.
  The exception carries the static part of the message the source raises with;
  interpolated values (\<open>{name!r}\<close>) are left out.  The collection \<open>res_iff\<close> holds the
  facts that read a successful result back into the checks that passed.
\<close>

section \<open>Exceptions and results\<close>

datatype py_exn =
    ValueError string
  | TypeError string
  | KeyError string
  | OverflowError string
  | StoreError string
  | RunnerProtocolError string
  | CacheMiss string
  | KnowledgePackError string
  | StagingError string
  | StaticAggregateError string
  | IntegrityError string

type_synonym 'a res = "py_exn + 'a"

named_theorems res_iff

fun bindR :: "'a res \<Rightarrow> ('a \<Rightarrow> 'b res) \<Rightarrow> 'b res" where
  "bindR (Inl e) f = Inl e"
| "bindR (Inr x) f = f x"

definition mapr :: "('a \<Rightarrow> 'b) \<Rightarrow> 'a res \<Rightarrow> 'b res" where
  "mapr f m = bindR m (\<lambda>x. Inr (f x))"

definition is_ok :: "'a res \<Rightarrow> bool" where
  "is_ok m = (case m of Inl _ \<Rightarrow> False | Inr _ \<Rightarrow> True)"

definition reject :: "bool \<Rightarrow> string \<Rightarrow> unit res" where
  "reject c msg = (if c then Inl (ValueError msg) else Inr ())"

definition reject_with :: "bool \<Rightarrow> py_exn \<Rightarrow> unit res" where
  "reject_with c e = (if c then Inl e else Inr ())"

fun checks :: "unit res list \<Rightarrow> 'a \<Rightarrow> 'a res" where
  "checks [] x = Inr x"
| "checks (c # cs) x = (case c of Inl e \<Rightarrow> Inl e | Inr _ \<Rightarrow> checks cs x)"

fun forR :: "('a \<Rightarrow> unit res) \<Rightarrow> 'a list \<Rightarrow> unit res" where
  "forR f [] = Inr ()"
| "forR f (x # xs) = (case f x of Inl e \<Rightarrow> Inl e | Inr _ \<Rightarrow> forR f xs)"

fun mapR :: "('a \<Rightarrow> 'b res) \<Rightarrow> 'a list \<Rightarrow> 'b list res" where
  "mapR f [] = Inr []"
| "mapR f (x # xs) = bindR (f x) (\<lambda>y. bindR (mapR f xs) (\<lambda>ys. Inr (y # ys)))"

fun foldR :: "('s \<Rightarrow> 'a \<Rightarrow> 's res) \<Rightarrow> 's \<Rightarrow> 'a list \<Rightarrow> 's res" where
  "foldR f s [] = Inr s"
| "foldR f s (x # xs) = bindR (f s x) (\<lambda>s'. foldR f s' xs)"

text \<open>The first of a list of optional errors, as a chain of \<open>if ...: return error\<close>.\<close>

fun first_some :: "'e option list \<Rightarrow> 'e option" where
  "first_some [] = None"
| "first_some (None # es) = first_some es"
| "first_some (Some e # es) = Some e"

definition opt_any :: "('a \<Rightarrow> bool) \<Rightarrow> 'a option \<Rightarrow> bool" where
  "opt_any p v = (case v of None \<Rightarrow> False | Some x \<Rightarrow> p x)"

lemma opt_any_iff [simp]: "opt_any p v \<longleftrightarrow> (\<exists>x. v = Some x \<and> p x)"
  by (cases v) (simp_all add: opt_any_def)

definition err_if :: "bool \<Rightarrow> string \<Rightarrow> string option" where
  "err_if c msg = (if c then Some msg else None)"

lemma mapR_cong [fundef_cong]:
  "xs = ys \<Longrightarrow> (\<And>x. x \<in> set ys \<Longrightarrow> f x = g x) \<Longrightarrow> mapR f xs = mapR g ys"
  by (induction xs arbitrary: ys) auto

lemma forR_cong [fundef_cong]:
  "xs = ys \<Longrightarrow> (\<And>x. x \<in> set ys \<Longrightarrow> f x = g x) \<Longrightarrow> forR f xs = forR g ys"
  by (induction xs arbitrary: ys) (auto split: sum.split)

lemma bindR_Inr_iff [res_iff]: "bindR m f = Inr y \<longleftrightarrow> (\<exists>x. m = Inr x \<and> f x = Inr y)"
  by (cases m) auto

lemma bindR_Inl_iff: "bindR m f = Inl e \<longleftrightarrow> m = Inl e \<or> (\<exists>x. m = Inr x \<and> f x = Inl e)"
  by (cases m) auto

lemma mapr_Inr_iff [res_iff]: "mapr f m = Inr y \<longleftrightarrow> (\<exists>x. m = Inr x \<and> y = f x)"
  by (cases m) (auto simp: mapr_def)

lemma mapr_Inr [simp]: "mapr f (Inr x) = Inr (f x)" "mapr f (Inl e) = Inl e"
  by (simp_all add: mapr_def)

lemma is_ok_iff: "is_ok m \<longleftrightarrow> (\<exists>x. m = Inr x)"
  by (cases m) (auto simp: is_ok_def)

lemma is_ok_simps [simp]: "is_ok (Inr x)" "\<not> is_ok (Inl e)"
  by (simp_all add: is_ok_def)

lemma reject_Inr_iff [res_iff]: "reject c msg = Inr u \<longleftrightarrow> \<not> c"
  by (simp add: reject_def)

lemma reject_with_Inr_iff [res_iff]: "reject_with c e = Inr u \<longleftrightarrow> \<not> c"
  by (simp add: reject_with_def)

lemma checks_Nil_iff [res_iff]: "checks [] x = Inr y \<longleftrightarrow> y = x"
  by auto

lemma checks_Cons_iff [res_iff]:
  "checks (c # cs) x = Inr y \<longleftrightarrow> c = Inr () \<and> checks cs x = Inr y"
  by (auto split: sum.splits)

lemma checks_Inr_same: "checks cs x = Inr y \<Longrightarrow> y = x"
  by (induction cs) (auto split: sum.splits)

lemma checks_iff: "checks cs x = Inr y \<longleftrightarrow> y = x \<and> (\<forall>c \<in> set cs. c = Inr ())"
  by (induction cs) (auto split: sum.splits)

lemma checks_append_iff [res_iff]:
  "checks (cs @ ds) x = Inr y \<longleftrightarrow> checks cs () = Inr () \<and> checks ds x = Inr y"
  by (auto simp: checks_iff)

lemma forR_Inr_iff [res_iff]: "forR f xs = Inr u \<longleftrightarrow> (\<forall>x \<in> set xs. f x = Inr ())"
  by (induction xs) (auto split: sum.splits)

lemma mapR_Inr_iff: "mapR f xs = Inr ys \<longleftrightarrow> list_all2 (\<lambda>x y. f x = Inr y) xs ys"
proof (induction xs arbitrary: ys)
  case Nil
  show ?case by auto
next
  case (Cons x xs)
  show ?case by (cases ys) (auto simp: res_iff Cons.IH)
qed

lemma mapR_Inr_const: "(\<And>x. x \<in> set xs \<Longrightarrow> f x = Inr (g x)) \<Longrightarrow> mapR f xs = Inr (map g xs)"
  by (induction xs) auto

lemma mapR_length: "mapR f xs = Inr ys \<Longrightarrow> length ys = length xs"
  by (auto simp: mapR_Inr_iff dest: list_all2_lengthD)

lemma mapR_set: "mapR f xs = Inr ys \<Longrightarrow> y \<in> set ys \<Longrightarrow> \<exists>x \<in> set xs. f x = Inr y"
  by (induction xs arbitrary: ys) (auto simp: res_iff)

lemma mapR_idem:
  assumes "\<And>x y. x \<in> set xs \<Longrightarrow> f x = Inr y \<Longrightarrow> f y = Inr y" and "mapR f xs = Inr ys"
  shows "mapR f ys = Inr ys"
  using assms
proof (induction xs arbitrary: ys)
  case Nil
  then show ?case by simp
next
  case (Cons x xs)
  then obtain z zs where "f x = Inr z" "mapR f xs = Inr zs" "ys = z # zs"
    by (auto simp: res_iff)
  moreover from this have "f z = Inr z"
    using Cons.prems(1) by (meson list.set_intros(1))
  moreover have "mapR f zs = Inr zs"
    by (rule Cons.IH) (use Cons.prems(1) \<open>mapR f xs = Inr zs\<close> in auto)
  ultimately show ?case by simp
qed

lemma foldR_append:
  "foldR f s (xs @ ys) = bindR (foldR f s xs) (\<lambda>s'. foldR f s' ys)"
proof (induction xs arbitrary: s)
  case Nil
  show ?case by simp
next
  case (Cons x xs)
  show ?case by (cases "f s x") (simp_all add: Cons.IH)
qed

lemma foldR_invariant:
  assumes "foldR f s xs = Inr t" and "P s"
    and "\<And>s x s'. x \<in> set xs \<Longrightarrow> P s \<Longrightarrow> f s x = Inr s' \<Longrightarrow> P s'"
  shows "P t"
  using assms
proof (induction xs arbitrary: s)
  case Nil
  then show ?case by simp
next
  case (Cons x xs)
  from Cons.prems(1) obtain s' where s': "f s x = Inr s'" "foldR f s' xs = Inr t"
    by (auto simp: res_iff)
  then have "P s'" using Cons.prems(2,3) by (meson list.set_intros(1))
  with s'(2) show ?case
    by (rule Cons.IH) (use Cons.prems(3) in auto)
qed

lemma first_some_None_iff [res_iff]:
  "first_some (e # es) = None \<longleftrightarrow> e = None \<and> first_some es = None"
  by (cases e) auto

lemma first_some_all: "first_some es = None \<longleftrightarrow> (\<forall>e \<in> set es. e = None)"
  by (induction es rule: first_some.induct) auto

lemma err_if_None_iff [res_iff]: "err_if c msg = None \<longleftrightarrow> \<not> c"
  by (simp add: err_if_def)

section \<open>Lists used as Python collections\<close>

text \<open>Python's \<open>len(set(xs)) != len(xs)\<close> tests and \<open>sorted(xs)\<close>, \<open>sorted(set(xs))\<close>.\<close>

definition has_duplicates :: "'a list \<Rightarrow> bool" where
  "has_duplicates xs = (length (remdups xs) \<noteq> length xs)"

definition sorted_set :: "'a::linorder list \<Rightarrow> 'a list" where
  "sorted_set xs = sort (remdups xs)"

lemma has_duplicates_iff [simp]: "has_duplicates xs \<longleftrightarrow> \<not> distinct xs"
proof -
  have "length (remdups xs) = length xs \<longleftrightarrow> distinct xs"
    by (metis distinct_remdups length_remdups_eq remdups_id_iff_distinct)
  then show ?thesis by (simp add: has_duplicates_def)
qed

lemma set_sorted_set [simp]: "set (sorted_set xs) = set xs"
  by (simp add: sorted_set_def)

lemma sorted_sorted_set [simp]: "sorted (sorted_set xs)"
  by (simp add: sorted_set_def)

lemma distinct_sorted_set [simp]: "distinct (sorted_set xs)"
  by (simp add: sorted_set_def)

lemma sorted_set_unique: "set xs = set ys \<Longrightarrow> sorted_set xs = sorted_set ys"
  by (rule sorted_distinct_set_unique) simp_all

lemma sort_key_idem [simp]: "sort_key f (sort_key f xs) = sort_key f xs"
  by (simp add: sort_key_id_if_sorted)

lemma sort_key_perm:
  assumes "mset xs = mset ys" and "distinct (map f xs)"
  shows "sort_key f xs = sort_key f ys"
  by (rule sort_key_inj_key_eq) (use assms in \<open>auto simp: distinct_map\<close>)

text \<open>
  \<open>fixed f x\<close>: the normaliser \<open>f\<close> accepts \<open>x\<close> and leaves it alone.  The facts in
  \<open>idem_dest\<close> say that what a normaliser returns is fixed; used as destruction rules
  they leave \<open>fixed\<close> facts behind, which instances of \<open>fixedD\<close> turn into rewrite rules
  for running the constructor again.
\<close>

named_theorems idem_dest

definition fixed :: "('a \<Rightarrow> 'a res) \<Rightarrow> 'a \<Rightarrow> bool" where
  "fixed f x = (f x = Inr x)"

lemma fixedD: "fixed f x \<Longrightarrow> f x = Inr x"
  by (simp add: fixed_def)

lemma fixed_mapR: "(\<And>x y. f x = Inr y \<Longrightarrow> fixed f y) \<Longrightarrow> mapR f xs = Inr ys \<Longrightarrow> fixed (mapR f) ys"
  unfolding fixed_def by (rule mapR_idem)

text \<open>A chain of checks is read through the iff rules above, and only evaluated on demand.\<close>

declare checks.simps(2) [simp del] forR.simps(2) [simp del]

lemmas checks_eval = checks.simps(2) forR.simps(2) reject_def reject_with_def

end
