(* ===== verification/PyStr.thy ===== *)
theory PyStr
  imports Prelude
begin

text \<open>
  The string operations of Python the program uses.  A string is a list of \<open>char\<close>
  read as code points U+0000 to U+00FF, so \<open>length\<close> is Python's \<open>len\<close> and the
  order of \<open>string\<close> (\<open>List_Lexorder\<close>, \<open>Char_ord\<close>) is Python's.  Within that range
  \<open>casefold\<close>, \<open>lower\<close> and \<open>strip\<close> are Python's, but for U+00B5, whose folding
  leaves the range and which the model keeps.
\<close>

section \<open>Characters\<close>

abbreviation code :: "char \<Rightarrow> nat" where
  "code c \<equiv> of_char c"

definition in_range :: "nat \<Rightarrow> nat \<Rightarrow> char \<Rightarrow> bool" where
  "in_range lo hi c = (lo \<le> code c \<and> code c \<le> hi)"

definition is_digit :: "char \<Rightarrow> bool" where
  "is_digit c = in_range 48 57 c"

definition is_upper :: "char \<Rightarrow> bool" where
  "is_upper c = in_range 65 90 c"

definition is_lower :: "char \<Rightarrow> bool" where
  "is_lower c = in_range 97 122 c"

definition is_alpha :: "char \<Rightarrow> bool" where
  "is_alpha c = (is_upper c \<or> is_lower c)"

definition is_alnum :: "char \<Rightarrow> bool" where
  "is_alnum c = (is_alpha c \<or> is_digit c)"

definition is_hex :: "char \<Rightarrow> bool" where
  "is_hex c = (is_digit c \<or> in_range 97 102 c \<or> in_range 65 70 c)"

definition is_hex_lower :: "char \<Rightarrow> bool" where
  "is_hex_lower c = (is_digit c \<or> in_range 97 102 c)"

definition is_space :: "char \<Rightarrow> bool" where
  "is_space c = (in_range 9 13 c \<or> in_range 28 32 c \<or> code c = 133 \<or> code c = 160)"

abbreviation nul :: char where
  "nul \<equiv> CHR 0x00"

abbreviation backslash :: char where
  "backslash \<equiv> CHR 0x5C"

abbreviation slash :: char where
  "slash \<equiv> CHR ''/''"

lemmas char_class_defs = in_range_def is_digit_def is_upper_def is_lower_def is_alpha_def
  is_alnum_def is_hex_def is_hex_lower_def is_space_def

section \<open>Case, stripping, prefixes\<close>

definition lower_char :: "char \<Rightarrow> char" where
  "lower_char c =
     (if in_range 65 90 c \<or> (in_range 192 222 c \<and> code c \<noteq> 215)
      then char_of (code c + 32) else c)"

definition lower :: "string \<Rightarrow> string" where
  "lower s = map lower_char s"

definition casefold_char :: "char \<Rightarrow> string" where
  "casefold_char c = (if code c = 223 then ''ss'' else [lower_char c])"

definition casefold :: "string \<Rightarrow> string" where
  "casefold s = concat (map casefold_char s)"

definition lstrip :: "string \<Rightarrow> string" where
  "lstrip s = dropWhile is_space s"

definition strip :: "string \<Rightarrow> string" where
  "strip s = rev (lstrip (rev (lstrip s)))"

definition starts_with :: "string \<Rightarrow> string \<Rightarrow> bool" where
  "starts_with p s = (take (length p) s = p)"

definition ends_with :: "string \<Rightarrow> string \<Rightarrow> bool" where
  "ends_with p s = starts_with (rev p) (rev s)"

definition starts_with_any :: "string list \<Rightarrow> string \<Rightarrow> bool" where
  "starts_with_any ps s = list_ex (\<lambda>p. starts_with p s) ps"

definition has_nul :: "string \<Rightarrow> bool" where
  "has_nul s = (nul \<in> set s)"

definition is_blank :: "string \<Rightarrow> bool" where
  "is_blank s = (strip s = [])"

definition replace_char :: "char \<Rightarrow> char \<Rightarrow> string \<Rightarrow> string" where
  "replace_char a b s = map (\<lambda>c. if c = a then b else c) s"

fun split_on :: "char \<Rightarrow> string \<Rightarrow> string list" where
  "split_on d [] = [[]]"
| "split_on d (c # cs) =
     (if c = d then [] # split_on d cs
      else (case split_on d cs of [] \<Rightarrow> [[c]] | p # ps \<Rightarrow> (c # p) # ps))"

fun join_with :: "string \<Rightarrow> string list \<Rightarrow> string" where
  "join_with d [] = []"
| "join_with d [p] = p"
| "join_with d (p # q # ps) = p @ d @ join_with d (q # ps)"

text \<open>
  \<open>pattern.search\<close> for a pattern that looks at the character before the match and at
  the text from the match on: it is tried at every position, the end included.
\<close>

fun search_from :: "(char option \<Rightarrow> string \<Rightarrow> bool) \<Rightarrow> char option \<Rightarrow> string \<Rightarrow> bool" where
  "search_from p prev [] = p prev []"
| "search_from p prev (c # cs) = (p prev (c # cs) \<or> search_from p (Some c) cs)"

definition search :: "(char option \<Rightarrow> string \<Rightarrow> bool) \<Rightarrow> string \<Rightarrow> bool" where
  "search p s = search_from p None s"

text \<open>\<open>re.fullmatch(r"[0-9a-fA-F]{64}", s)\<close> and its lower-case form.\<close>

definition is_sha256 :: "string \<Rightarrow> bool" where
  "is_sha256 s = (length s = 64 \<and> list_all is_hex s)"

definition is_sha256_lower :: "string \<Rightarrow> bool" where
  "is_sha256_lower s = (length s = 64 \<and> list_all is_hex_lower s)"

section \<open>Decimal numerals\<close>

definition digit_char :: "nat \<Rightarrow> char" where
  "digit_char d = char_of (48 + d)"

fun show_nat :: "nat \<Rightarrow> string" where
  "show_nat n = (if n < 10 then [digit_char n] else show_nat (n div 10) @ [digit_char (n mod 10)])"

declare show_nat.simps [simp del]

definition show_int :: "int \<Rightarrow> string" where
  "show_int i = (if i < 0 then CHR ''-'' # show_nat (nat (- i)) else show_nat (nat i))"

definition read_nat :: "string \<Rightarrow> nat" where
  "read_nat s = foldl (\<lambda>a c. 10 * a + (code c - 48)) 0 s"

section \<open>Lemmas\<close>

lemma code_char_of [simp]: "n < 256 \<Longrightarrow> code (char_of n) = n"
  by simp

lemma code_less [simp]: "code c < 256"
  using nat_of_char_less_256 by simp

lemma lower_char_idem [simp]: "lower_char (lower_char c) = lower_char c"
proof -
  have "code c < 256" by simp
  then show ?thesis by (auto simp: lower_char_def in_range_def)
qed

lemma lower_idem [simp]: "lower (lower s) = lower s"
  by (simp add: lower_def comp_def)

lemma length_lower [simp]: "length (lower s) = length s"
  by (simp add: lower_def)

lemma lower_char_not_223: "code (lower_char c) = 223 \<longleftrightarrow> code c = 223"
proof -
  have "code c < 256" by simp
  then show ?thesis by (auto simp: lower_char_def in_range_def)
qed

lemma casefold_append: "casefold (s @ t) = casefold s @ casefold t"
  by (simp add: casefold_def)

lemma casefold_casefold_char: "casefold (casefold_char c) = casefold_char c"
proof (cases "code c = 223")
  case True
  have "casefold_char (CHR ''s'') = ''s''"
    by (simp add: casefold_char_def lower_char_def in_range_def)
  with True show ?thesis by (simp add: casefold_char_def [of c] casefold_def)
next
  case False
  then show ?thesis
    by (simp add: casefold_char_def casefold_def lower_char_not_223)
qed

lemma casefold_idem [simp]: "casefold (casefold s) = casefold s"
proof (induction s)
  case Nil
  show ?case by (simp add: casefold_def)
next
  case (Cons c cs)
  have "casefold (c # cs) = casefold_char c @ casefold cs" by (simp add: casefold_def)
  with Cons.IH show ?case by (simp add: casefold_append casefold_casefold_char)
qed

lemma lstrip_fixed: "lstrip s = s \<longleftrightarrow> s = [] \<or> \<not> is_space (hd s)"
proof (cases s)
  case (Cons c cs)
  have "length (dropWhile is_space cs) \<le> length cs" by (rule length_dropWhile_le)
  then have "dropWhile is_space cs \<noteq> c # cs" by auto
  with Cons show ?thesis by (simp add: lstrip_def)
qed (simp add: lstrip_def)

lemma lstrip_lstrip [simp]: "lstrip (lstrip s) = lstrip s"
  by (simp add: lstrip_def)

lemma lstrip_rev_lstrip_rev: "lstrip s = s \<Longrightarrow> lstrip (rev (lstrip (rev s))) = rev (lstrip (rev s))"
proof -
  assume s: "lstrip s = s"
  obtain p where "rev s = p @ lstrip (rev s)"
    unfolding lstrip_def by (metis takeWhile_dropWhile_id)
  then have "s = rev (lstrip (rev s)) @ rev p" by (metis rev_append rev_rev_ident)
  then have "rev (lstrip (rev s)) = [] \<or> hd (rev (lstrip (rev s))) = hd s" by (metis hd_append2)
  with s show ?thesis
    unfolding lstrip_fixed by (metis (no_types) \<open>s = rev (lstrip (rev s)) @ rev p\<close> append_is_Nil_conv)
qed

lemma strip_strip [simp]: "strip (strip s) = strip s"
  using lstrip_rev_lstrip_rev [of "lstrip s"] by (simp add: strip_def)

lemma is_hex_lower_char: "is_hex c \<Longrightarrow> is_hex_lower (lower_char c)"
  by (auto simp: lower_char_def char_class_defs)

lemma lower_char_hex_lower: "is_hex_lower c \<Longrightarrow> lower_char c = c"
  by (auto simp: lower_char_def char_class_defs)

lemma is_hex_lower_imp: "is_hex_lower c \<Longrightarrow> is_hex c"
  by (auto simp: char_class_defs)

lemma is_sha256_lower_lower: "is_sha256 s \<Longrightarrow> is_sha256_lower (lower s)"
  by (auto simp: is_sha256_def is_sha256_lower_def lower_def list_all_iff is_hex_lower_char)

lemma lower_sha256_lower: "is_sha256_lower s \<Longrightarrow> lower s = s"
  by (auto simp: is_sha256_lower_def lower_def list_all_iff lower_char_hex_lower intro: map_idI)

lemma is_sha256_lower_imp: "is_sha256_lower s \<Longrightarrow> is_sha256 s"
  by (auto simp: is_sha256_def is_sha256_lower_def list_all_iff is_hex_lower_imp)

lemma is_sha256_lower_of_sha256 [simp]: "is_sha256 s \<Longrightarrow> is_sha256 (lower s)"
  by (simp add: is_sha256_lower_imp is_sha256_lower_lower)

lemma casefold_sha256_lower: "is_sha256_lower s \<Longrightarrow> casefold s = s"
proof -
  have *: "casefold_char c = [c]" if "is_hex_lower c" for c
    using that lower_char_hex_lower [OF that]
    by (auto simp: casefold_char_def char_class_defs)
  assume "is_sha256_lower s"
  then have "list_all is_hex_lower s" by (simp add: is_sha256_lower_def)
  then show ?thesis
    by (induction s) (auto simp: casefold_def *)
qed

lemma split_on_not_Nil [simp]: "split_on d s \<noteq> []"
  by (induction s) (auto split: list.splits)

lemma join_split: "join_with [d] (split_on d s) = s"
proof (induction s)
  case Nil
  show ?case by simp
next
  case (Cons c cs)
  show ?case
  proof (cases "c = d")
    case True
    have "join_with [d] ([] # split_on d cs) = d # join_with [d] (split_on d cs)"
      by (cases "split_on d cs") simp_all
    with True Cons.IH show ?thesis by simp
  next
    case False
    obtain p ps where "split_on d cs = p # ps" by (cases "split_on d cs") simp_all
    with False Cons.IH show ?thesis by (cases ps) auto
  qed
qed

lemma split_on_no_sep: "p \<in> set (split_on d s) \<Longrightarrow> d \<notin> set p"
  by (induction s arbitrary: p) (auto split: list.splits if_splits)

lemma split_on_single: "d \<notin> set p \<Longrightarrow> split_on d p = [p]"
  by (induction p) auto

lemma split_on_append_sep: "split_on d (p @ d # s) = split_on d p @ split_on d s"
  by (induction p) (auto split: list.split)

lemma split_join:
  assumes "ps \<noteq> []" and "\<And>p. p \<in> set ps \<Longrightarrow> d \<notin> set p"
  shows "split_on d (join_with [d] ps) = ps"
  using assms
proof (induction ps rule: induct_list012)
  case (3 p q ps)
  then show ?case by (simp add: split_on_append_sep split_on_single)
qed (simp_all add: split_on_single)

lemma replace_char_id: "a \<notin> set s \<Longrightarrow> replace_char a b s = s"
  by (auto simp: replace_char_def intro: map_idI)

lemma replace_char_notin: "a \<noteq> b \<Longrightarrow> a \<notin> set (replace_char a b s)"
  by (auto simp: replace_char_def)

lemma starts_with_append [simp]: "starts_with p (p @ s)"
  by (simp add: starts_with_def)

lemma starts_with_iff: "starts_with p s \<longleftrightarrow> (\<exists>r. s = p @ r)"
proof
  assume "starts_with p s"
  then have "s = p @ drop (length p) s"
    by (metis append_take_drop_id starts_with_def)
  then show "\<exists>r. s = p @ r" ..
qed (auto simp: starts_with_def)

lemma digit_char_code [simp]: "d < 10 \<Longrightarrow> code (digit_char d) = 48 + d"
  by (simp add: digit_char_def)

lemma is_digit_digit_char [simp]: "d < 10 \<Longrightarrow> is_digit (digit_char d)"
  by (simp add: is_digit_def in_range_def)

lemma show_nat_not_Nil [simp]: "show_nat n \<noteq> []"
  by (subst show_nat.simps) simp

lemma show_nat_digits: "c \<in> set (show_nat n) \<Longrightarrow> is_digit c"
proof (induction n arbitrary: c rule: show_nat.induct)
  case (1 n)
  show ?case
  proof (cases "n < 10")
    case True
    with 1(2) show ?thesis by (subst (asm) show_nat.simps) simp
  next
    case False
    with 1(2) have "c \<in> set (show_nat (n div 10)) \<or> c = digit_char (n mod 10)"
      by (subst (asm) show_nat.simps) auto
    with 1(1)[OF False] show ?thesis by auto
  qed
qed

lemma read_nat_snoc: "read_nat (s @ [c]) = 10 * read_nat s + (code c - 48)"
  by (simp add: read_nat_def)

lemma read_show_nat [simp]: "read_nat (show_nat n) = n"
proof (induction n rule: show_nat.induct)
  case (1 n)
  show ?case
  proof (cases "n < 10")
    case True
    then show ?thesis by (subst show_nat.simps) (simp add: read_nat_def)
  next
    case False
    with 1 show ?thesis by (subst show_nat.simps) (simp add: read_nat_snoc)
  qed
qed

lemma show_nat_inj: "show_nat m = show_nat n \<Longrightarrow> m = n"
  by (metis read_show_nat)

lemma minus_not_show_nat: "CHR ''-'' # s \<noteq> show_nat n"
proof
  assume "CHR ''-'' # s = show_nat n"
  then have "CHR ''-'' \<in> set (show_nat n)" by (metis list.set_intros(1))
  then have "is_digit (CHR ''-'')" by (rule show_nat_digits)
  then show False by (simp add: char_class_defs)
qed

lemma show_int_inj: "show_int i = show_int j \<Longrightarrow> i = j"
  using minus_not_show_nat minus_not_show_nat [symmetric]
  by (auto simp: show_int_def dest!: show_nat_inj split: if_splits)

end
