(* ===== verification/Sha256.thy ===== *)
theory Sha256
  imports PyStr "HOL-Library.Word"
begin

text \<open>
  \<open>hashlib.sha256(text.encode("utf-8")).hexdigest()\<close> of the standard library, written
  out on 32-bit words as FIPS 180-4 defines it.  The development uses of it only that
  it is a function into lower-case 64-digit hexadecimal strings; no property assumes
  that it has no collisions.
\<close>

unbundle bit_operations_syntax

section \<open>UTF-8 of the modelled code points\<close>

definition utf8_char :: "char \<Rightarrow> nat list" where
  "utf8_char c = (if code c < 128 then [code c] else [192 + code c div 64, 128 + code c mod 64])"

definition utf8 :: "string \<Rightarrow> nat list" where
  "utf8 s = concat (map utf8_char s)"

section \<open>The compression function\<close>

type_synonym w32 = "32 word"

definition rotr :: "nat \<Rightarrow> w32 \<Rightarrow> w32" where
  "rotr n x = drop_bit n x OR push_bit (32 - n) x"

definition round_constants :: "w32 list" where
  "round_constants =
    [1116352408, 1899447441, 3049323471, 3921009573, 961987163, 1508970993, 2453635748, 2870763221,
     3624381080, 310598401, 607225278, 1426881987, 1925078388, 2162078206, 2614888103, 3248222580,
     3835390401, 4022224774, 264347078, 604807628, 770255983, 1249150122, 1555081692, 1996064986,
     2554220882, 2821834349, 2952996808, 3210313671, 3336571891, 3584528711, 113926993, 338241895,
     666307205, 773529912, 1294757372, 1396182291, 1695183700, 1986661051, 2177026350, 2456956037,
     2730485921, 2820302411, 3259730800, 3345764771, 3516065817, 3600352804, 4094571909, 275423344,
     430227734, 506948616, 659060556, 883997877, 958139571, 1322822218, 1537002063, 1747873779,
     1955562222, 2024104815, 2227730452, 2361852424, 2428436474, 2756734187, 3204031479, 3329325298]"

definition initial_state :: "w32 list" where
  "initial_state =
    [1779033703, 3144134277, 1013904242, 2773480762, 1359893119, 2600822924, 528734635, 1541459225]"

fun bytes_to_words :: "nat list \<Rightarrow> w32 list" where
  "bytes_to_words (a # b # c # d # bs) =
     word_of_nat (((a * 256 + b) * 256 + c) * 256 + d) # bytes_to_words bs"
| "bytes_to_words _ = []"

text \<open>The message schedule keeps the last sixteen words, newest first.\<close>

fun extend_schedule :: "nat \<Rightarrow> w32 list \<Rightarrow> w32 list" where
  "extend_schedule 0 ws = rev ws"
| "extend_schedule (Suc n) ws =
     (let w15 = ws ! 14; w2 = ws ! 1;
          s0 = rotr 7 w15 XOR rotr 18 w15 XOR drop_bit 3 w15;
          s1 = rotr 17 w2 XOR rotr 19 w2 XOR drop_bit 10 w2
      in extend_schedule n ((ws ! 15 + s0 + ws ! 6 + s1) # ws))"

fun compress_round :: "w32 list \<Rightarrow> w32 \<times> w32 \<Rightarrow> w32 list" where
  "compress_round [a, b, c, d, e, f, g, h] (k, w) =
     (let s1 = rotr 6 e XOR rotr 11 e XOR rotr 25 e;
          ch = (e AND f) XOR (NOT e AND g);
          t1 = h + s1 + ch + k + w;
          s0 = rotr 2 a XOR rotr 13 a XOR rotr 22 a;
          maj = (a AND b) XOR (a AND c) XOR (b AND c);
          t2 = s0 + maj
      in [t1 + t2, a, b, c, d + t1, e, f, g])"
| "compress_round st _ = st"

definition compress :: "w32 list \<Rightarrow> nat list \<Rightarrow> w32 list" where
  "compress st block =
     map2 (+) st (foldl compress_round st
       (zip round_constants (extend_schedule 48 (rev (bytes_to_words block)))))"

section \<open>Padding and the digest\<close>

definition length_bytes :: "nat \<Rightarrow> nat list" where
  "length_bytes n = map (\<lambda>i. (8 * n) div 256 ^ i mod 256) [7, 6, 5, 4, 3, 2, 1, 0]"

definition pad_message :: "nat list \<Rightarrow> nat list" where
  "pad_message bs =
     bs @ [128] @ replicate ((119 - length bs mod 64) mod 64) 0 @ length_bytes (length bs)"

function digest_blocks :: "w32 list \<Rightarrow> nat list \<Rightarrow> w32 list" where
  "digest_blocks st bs = (if bs = [] then st else digest_blocks (compress st (take 64 bs)) (drop 64 bs))"
  by pat_completeness auto
termination
  by (relation "measure (\<lambda>(st, bs). length bs)") (auto simp: length_greater_0_conv)

declare digest_blocks.simps [simp del]

definition hex_digit :: "nat \<Rightarrow> char" where
  "hex_digit d = (if d < 10 then char_of (48 + d) else char_of (87 + d))"

definition hex_word :: "w32 \<Rightarrow> string" where
  "hex_word w = map (\<lambda>i. hex_digit (unat w div 16 ^ i mod 16)) [7, 6, 5, 4, 3, 2, 1, 0]"

definition sha256_hex :: "string \<Rightarrow> string" where
  "sha256_hex s = concat (map hex_word (digest_blocks initial_state (pad_message (utf8 s))))"

section \<open>Shape of the digest\<close>

lemma length_compress_round [simp]: "length (compress_round st kw) = length st"
  by (induction st kw rule: compress_round.induct) (simp_all add: Let_def)

lemma length_foldl_compress [simp]: "length (foldl compress_round st kws) = length st"
  by (induction kws arbitrary: st) simp_all

lemma length_compress [simp]: "length (compress st block) = length st"
  by (simp add: compress_def)

lemma length_digest_blocks [simp]: "length (digest_blocks st bs) = length st"
proof (induction st bs rule: digest_blocks.induct)
  case (1 st bs)
  then show ?case by (subst digest_blocks.simps) simp
qed

lemma is_hex_lower_hex_digit [simp]: "d < 16 \<Longrightarrow> is_hex_lower (hex_digit d)"
  by (auto simp: hex_digit_def char_class_defs)

lemma length_hex_word [simp]: "length (hex_word w) = 8"
  by (simp add: hex_word_def)

lemma hex_word_chars: "list_all is_hex_lower (hex_word w)"
  by (simp add: hex_word_def)

lemma sha256_hex_shape [simp]: "is_sha256_lower (sha256_hex s)"
proof -
  let ?ws = "digest_blocks initial_state (pad_message (utf8 s))"
  have "length (concat (map hex_word ws)) = 8 * length ws" for ws
    by (induction ws) simp_all
  moreover have "list_all is_hex_lower (concat (map hex_word ws))" for ws
    by (induction ws) (simp_all add: hex_word_chars)
  moreover have "length ?ws = 8"
    by (simp add: initial_state_def)
  ultimately show ?thesis
    by (simp add: is_sha256_lower_def sha256_hex_def)
qed

lemma length_sha256_hex [simp]: "length (sha256_hex s) = 64"
  using sha256_hex_shape by (simp add: is_sha256_lower_def)

end
