(* ===== verification/PyValue.thy ===== *)
theory PyValue
  imports Complex_Main Sha256 "HOL-Library.AList"
begin

text \<open>
  Python values as the data contracts meet them, and the canonical serialisation of
  \<open>hlsgraph/model.py\<close>: \<open>json_ready\<close>, \<open>canonical_json\<close>, \<open>stable_hash\<close>,
  \<open>stable_id\<close> and \<open>reject_embedded_body_fields\<close>.

  A member of a \<open>ValueEnum\<close> is a \<open>str\<close> equal to its value and is the string here; a
  dataclass instance is \<open>PObj\<close> with its fields in declaration order.  A finite float
  is sign, decimal mantissa and exponent of its shortest decimal (what \<open>repr\<close>
  prints), so equality of the model is identity of the float.
\<close>

section \<open>Values\<close>

datatype pyfloat = FFin bool nat int | FInf bool | FNan

datatype pykey = KStr string | KInt int | KBool bool | KNone

datatype pyval =
    PNone
  | PBool bool
  | PInt int
  | PFloat pyfloat
  | PStr string
  | PList "pyval list"
  | PTuple "pyval list"
  | PSet "pyval list"
  | PDict "(pykey \<times> pyval) list"
  | PObj "(string \<times> pyval) list"

datatype json =
    JNull
  | JBool bool
  | JInt int
  | JFloat pyfloat
  | JStr string
  | JArr "json list"
  | JObj "(string \<times> json) list"

type_synonym pydict = "(pykey \<times> pyval) list"

fun key_str :: "pykey \<Rightarrow> string" where
  "key_str (KStr s) = s"
| "key_str (KInt i) = show_int i"
| "key_str (KBool b) = (if b then ''True'' else ''False'')"
| "key_str KNone = ''None''"

text \<open>\<open>d.get(key)\<close>, \<open>key in d\<close>, and a dict built from pairs (a later duplicate
  overwrites the value and keeps the position).\<close>

definition dget :: "pydict \<Rightarrow> string \<Rightarrow> pyval" where
  "dget d k = (case map_of d (KStr k) of None \<Rightarrow> PNone | Some v \<Rightarrow> v)"

definition dhas :: "pydict \<Rightarrow> string \<Rightarrow> bool" where
  "dhas d k = (map_of d (KStr k) \<noteq> None)"

definition dict_of_pairs :: "('k \<times> 'v) list \<Rightarrow> ('k \<times> 'v) list" where
  "dict_of_pairs ps = foldl (\<lambda>d kv. AList.update (fst kv) (snd kv) d) [] ps"

definition pdict :: "(string \<times> pyval) list \<Rightarrow> pyval" where
  "pdict ps = PDict (map (\<lambda>kv. (KStr (fst kv), snd kv)) ps)"

fun is_str :: "pyval \<Rightarrow> bool" where
  "is_str (PStr _) = True"
| "is_str _ = False"

fun is_bool :: "pyval \<Rightarrow> bool" where
  "is_bool (PBool _) = True"
| "is_bool _ = False"

fun is_list :: "pyval \<Rightarrow> bool" where
  "is_list (PList _) = True"
| "is_list _ = False"

fun is_dict :: "pyval \<Rightarrow> bool" where
  "is_dict (PDict _) = True"
| "is_dict _ = False"

fun is_seq :: "pyval \<Rightarrow> bool" where
  "is_seq (PList _) = True"
| "is_seq (PTuple _) = True"
| "is_seq _ = False"

fun str_of :: "pyval \<Rightarrow> string" where
  "str_of (PStr s) = s"
| "str_of _ = []"

fun items_of :: "pyval \<Rightarrow> pyval list" where
  "items_of (PList xs) = xs"
| "items_of (PTuple xs) = xs"
| "items_of (PSet xs) = xs"
| "items_of _ = []"

fun dict_items :: "pyval \<Rightarrow> pydict" where
  "dict_items (PDict kvs) = kvs"
| "dict_items _ = []"

text \<open>\<open>isinstance(v, int) and not isinstance(v, bool)\<close> with a bound on the value.\<close>

fun is_int_where :: "(int \<Rightarrow> bool) \<Rightarrow> pyval \<Rightarrow> bool" where
  "is_int_where p (PInt i) = p i"
| "is_int_where p _ = False"

fun truthy :: "pyval \<Rightarrow> bool" where
  "truthy PNone = False"
| "truthy (PBool b) = b"
| "truthy (PInt i) = (i \<noteq> 0)"
| "truthy (PFloat (FFin _ m _)) = (m \<noteq> 0)"
| "truthy (PFloat _) = True"
| "truthy (PStr s) = (s \<noteq> [])"
| "truthy (PList xs) = (xs \<noteq> [])"
| "truthy (PTuple xs) = (xs \<noteq> [])"
| "truthy (PSet xs) = (xs \<noteq> [])"
| "truthy (PDict kvs) = (kvs \<noteq> [])"
| "truthy (PObj _) = True"

definition opt_str :: "string option \<Rightarrow> pyval" where
  "opt_str s = (case s of None \<Rightarrow> PNone | Some x \<Rightarrow> PStr x)"

definition str_list :: "string list \<Rightarrow> pyval" where
  "str_list xs = PList (map PStr xs)"

section \<open>Numbers\<close>

definition fin_val :: "bool \<Rightarrow> nat \<Rightarrow> int \<Rightarrow> rat" where
  "fin_val neg m e =
     (if neg then -1 else 1) * of_nat m * (if 0 \<le> e then 10 ^ nat e else 1 / 10 ^ nat (- e))"

text \<open>The numeric value of an \<open>int\<close> or a finite \<open>float\<close>; \<open>None\<close> for everything else.\<close>

fun num_val :: "pyval \<Rightarrow> rat option" where
  "num_val (PInt i) = Some (of_int i)"
| "num_val (PFloat (FFin neg m e)) = Some (fin_val neg m e)"
| "num_val _ = None"

definition float_repr :: "bool \<Rightarrow> nat \<Rightarrow> int \<Rightarrow> string" where
  "float_repr neg m e =
     (let ds = show_nat m; n = int (length ds); pt = n + e;
          body =
            (if m = 0 then ''0.0''
             else if - 4 < pt \<and> pt \<le> 16 then
               (if pt \<le> 0 then ''0.'' @ replicate (nat (- pt)) (CHR ''0'') @ ds
                else if pt < n then take (nat pt) ds @ ''.'' @ drop (nat pt) ds
                else ds @ replicate (nat (pt - n)) (CHR ''0'') @ ''.0'')
             else (let x = pt - 1; xs = show_nat (nat \<bar>x\<bar>)
                   in take 1 ds @ (if n = 1 then [] else ''.'' @ drop 1 ds) @ ''e''
                      @ (if x < 0 then ''-'' else ''+'')
                      @ (if length xs < 2 then CHR ''0'' # xs else xs)))
      in if neg then CHR ''-'' # body else body)"

section \<open>\<open>json.dumps(..., ensure_ascii=False, sort_keys=True, allow_nan=False)\<close>\<close>

definition hex4 :: "nat \<Rightarrow> string" where
  "hex4 n = [CHR ''0'', CHR ''0'', hex_digit (n div 16), hex_digit (n mod 16)]"

definition escape_char :: "char \<Rightarrow> string" where
  "escape_char c =
     (if c = CHR 0x22 then [backslash, CHR 0x22]
      else if c = backslash then [backslash, backslash]
      else if code c = 10 then backslash # ''n''
      else if code c = 13 then backslash # ''r''
      else if code c = 9 then backslash # ''t''
      else if code c = 12 then backslash # ''f''
      else if code c = 8 then backslash # ''b''
      else if code c < 32 then backslash # CHR ''u'' # hex4 (code c)
      else [c])"

definition quote :: "string \<Rightarrow> string" where
  "quote s = CHR 0x22 # concat (map escape_char s) @ [CHR 0x22]"

fun dumps :: "json \<Rightarrow> string res" where
  "dumps JNull = Inr ''null''"
| "dumps (JBool b) = Inr (if b then ''true'' else ''false'')"
| "dumps (JInt i) = Inr (show_int i)"
| "dumps (JFloat (FFin neg m e)) = Inr (float_repr neg m e)"
| "dumps (JFloat _) = Inl (ValueError ''Out of range float values are not JSON compliant'')"
| "dumps (JStr s) = Inr (quote s)"
| "dumps (JArr xs) = mapr (\<lambda>ss. ''['' @ join_with '','' ss @ '']'') (mapR dumps xs)"
| "dumps (JObj kvs) =
     mapr (\<lambda>ps. ''{'' @ join_with '','' (map (\<lambda>p. quote (fst p) @ '':'' @ snd p) (sort_key fst ps)) @ ''}'')
       (mapR (\<lambda>kv. mapr (Pair (fst kv)) (dumps (snd kv))) kvs)"

fun json_ready :: "pyval \<Rightarrow> json res" where
  "json_ready PNone = Inr JNull"
| "json_ready (PBool b) = Inr (JBool b)"
| "json_ready (PInt i) = Inr (JInt i)"
| "json_ready (PFloat f) = Inr (JFloat f)"
| "json_ready (PStr s) = Inr (JStr s)"
| "json_ready (PList xs) = mapr JArr (mapR json_ready xs)"
| "json_ready (PTuple xs) = mapr JArr (mapR json_ready xs)"
| "json_ready (PSet xs) =
     bindR (mapR json_ready xs) (\<lambda>js.
       mapr (\<lambda>ps. JArr (map snd (sort_key fst ps)))
         (mapR (\<lambda>j. mapr (\<lambda>s. (s, j)) (dumps j)) js))"
| "json_ready (PDict kvs) =
     mapr (\<lambda>ps. JObj (dict_of_pairs ps))
       (mapR (\<lambda>kv. mapr (Pair (key_str (fst kv))) (json_ready (snd kv))) kvs)"
| "json_ready (PObj kvs) =
     mapr JObj (mapR (\<lambda>kv. mapr (Pair (fst kv)) (json_ready (snd kv))) kvs)"

definition canonical_json :: "pyval \<Rightarrow> string res" where
  "canonical_json v = bindR (json_ready v) dumps"

definition stable_hash :: "pyval \<Rightarrow> string res" where
  "stable_hash v = mapr sha256_hex (canonical_json v)"

definition stable_id_n :: "string \<Rightarrow> pyval \<Rightarrow> nat \<Rightarrow> string res" where
  "stable_id_n prefix v n = mapr (\<lambda>h. prefix @ ''_'' @ take n h) (stable_hash v)"

definition stable_id :: "string \<Rightarrow> pyval \<Rightarrow> string res" where
  "stable_id prefix v = stable_id_n prefix v 24"

text \<open>The value \<open>json.loads\<close> rebuilds, and what \<open>json_ready\<close> returns, as a Python value.\<close>

fun of_json :: "json \<Rightarrow> pyval" where
  "of_json JNull = PNone"
| "of_json (JBool b) = PBool b"
| "of_json (JInt i) = PInt i"
| "of_json (JFloat f) = PFloat f"
| "of_json (JStr s) = PStr s"
| "of_json (JArr xs) = PList (map of_json xs)"
| "of_json (JObj kvs) = PDict (map (\<lambda>kv. (KStr (fst kv), of_json (snd kv))) kvs)"

section \<open>Embedded bodies\<close>

definition EMBEDDED_BODY_FIELDS :: "string list" where
  "EMBEDDED_BODY_FIELDS =
    [''body'', ''chunks'', ''content'', ''document_text'', ''extracted_text'', ''file_content'',
     ''full_text'', ''page_text'', ''pages'', ''pdf_base64'', ''private_payload'', ''raw_content'',
     ''raw_dump'', ''raw_source'', ''raw_text'', ''snippet'', ''source_code'', ''source_text'',
     ''vendor_dump'']"

definition body_key :: "pykey \<Rightarrow> bool" where
  "body_key k = (replace_char (CHR ''-'') (CHR ''_'') (casefold (strip (key_str k)))
     \<in> set EMBEDDED_BODY_FIELDS)"

fun reject_embedded_body_fields :: "pyval \<Rightarrow> unit res" where
  "reject_embedded_body_fields (PDict kvs) =
     forR (\<lambda>kv. if body_key (fst kv)
               then Inl (ValueError ''may contain an embedded body; store an ArtifactRef instead'')
               else reject_embedded_body_fields (snd kv)) kvs"
| "reject_embedded_body_fields (PList xs) = forR reject_embedded_body_fields xs"
| "reject_embedded_body_fields (PTuple xs) = forR reject_embedded_body_fields xs"
| "reject_embedded_body_fields _ = Inr ()"

end
