(* ===== verification/Canonical.thy ===== *)
theory Canonical
  imports PyValue
begin

text \<open>
  What the canonical serialisation promises: values whose text is equal are equal up
  to the order of object keys, the text does not depend on that order nor on the order
  of a set, and the guard against embedded bodies looks at every key of a value.
\<close>

section \<open>Normal form and the text of a normal form\<close>

text \<open>\<open>plain\<close>: no float below, and object keys distinct as in every Python dict.\<close>

fun plain :: "json \<Rightarrow> bool" where
  "plain (JFloat _) = False"
| "plain (JArr xs) = list_all plain xs"
| "plain (JObj kvs) = (distinct (map fst kvs) \<and> list_all (\<lambda>kv. plain (snd kv)) kvs)"
| "plain _ = True"

fun normal :: "json \<Rightarrow> json" where
  "normal (JArr xs) = JArr (map normal xs)"
| "normal (JObj kvs) = JObj (sort_key fst (map (\<lambda>kv. (fst kv, normal (snd kv))) kvs))"
| "normal v = v"

fun emit :: "json \<Rightarrow> string" where
  "emit JNull = ''null''"
| "emit (JBool b) = (if b then ''true'' else ''false'')"
| "emit (JInt i) = show_int i"
| "emit (JFloat _) = []"
| "emit (JStr s) = quote s"
| "emit (JArr xs) = ''['' @ join_with '','' (map emit xs) @ '']''"
| "emit (JObj kvs) = ''{'' @ join_with '','' (map (\<lambda>kv. quote (fst kv) @ '':'' @ emit (snd kv)) kvs) @ ''}''"

lemma insort_key_map_snd:
  "map (\<lambda>kv. (fst kv, f (snd kv))) (insort_key fst x xs) =
   insort_key fst (fst x, f (snd x)) (map (\<lambda>kv. (fst kv, f (snd kv))) xs)"
  by (induction xs) auto

lemma sort_key_map_snd:
  "sort_key fst (map (\<lambda>kv. (fst kv, f (snd kv))) xs) = map (\<lambda>kv. (fst kv, f (snd kv))) (sort_key fst xs)"
  by (induction xs) (simp_all add: insort_key_map_snd)

lemma plain_normal: "plain v \<Longrightarrow> plain (normal v)"
proof (induction v)
  case (JObj kvs)
  let ?n = "map (\<lambda>kv. (fst kv, normal (snd kv))) kvs"
  have "mset (map fst (sort_key fst ?n)) = mset (map fst ?n)"
    by (simp only: mset_map mset_sort)
  also have "map fst ?n = map fst kvs" by (simp add: comp_def)
  finally have "distinct (map fst (sort_key fst ?n))"
    using JObj.prems mset_eq_imp_distinct_iff by (metis plain.simps(3))
  moreover have "list_all (\<lambda>kv. plain (snd kv)) ?n"
    using JObj by (fastforce simp: list_all_iff snds.simps)
  ultimately show ?case by (simp add: list_all_iff)
qed (auto simp: list_all_iff)

lemma dumps_emit: "plain v \<Longrightarrow> dumps v = Inr (emit (normal v))"
proof (induction v)
  case (JArr xs)
  then have "mapR dumps xs = Inr (map (\<lambda>x. emit (normal x)) xs)"
    by (intro mapR_Inr_const) (auto simp: list_all_iff)
  then show ?case by (simp add: comp_def)
next
  case (JObj kvs)
  have 1: "mapR (\<lambda>kv. mapr (Pair (fst kv)) (dumps (snd kv))) kvs
      = Inr (map (\<lambda>kv. (fst kv, emit (normal (snd kv)))) kvs)"
    by (intro mapR_Inr_const) (use JObj in \<open>fastforce simp: list_all_iff snds.simps\<close>)
  have 2: "sort_key fst (map (\<lambda>kv. (fst kv, emit (normal (snd kv)))) kvs)
      = map (\<lambda>kv. (fst kv, emit (snd kv))) (sort_key fst (map (\<lambda>kv. (fst kv, normal (snd kv))) kvs))"
    using sort_key_map_snd [of emit "map (\<lambda>kv. (fst kv, normal (snd kv))) kvs"]
    by (simp add: comp_def)
  show ?case
    unfolding dumps.simps 1 mapr_Inr 2 normal.simps emit.simps by (simp add: comp_def)
qed simp_all

section \<open>Reading the text back\<close>

definition follow :: "string \<Rightarrow> bool" where
  "follow r = (case r of [] \<Rightarrow> True | c # _ \<Rightarrow> c \<in> {CHR '','', CHR '']'', CHR ''}''})"

definition hex_value :: "char \<Rightarrow> nat" where
  "hex_value c = (if code c < 58 then code c - 48 else code c - 87)"

fun unescape :: "string \<Rightarrow> (char \<times> string) option" where
  "unescape [] = None"
| "unescape (a # rest) =
     (if a \<noteq> backslash then (if a = CHR 0x22 then None else Some (a, rest))
      else case rest of
        [] \<Rightarrow> None
      | b # rest' \<Rightarrow>
          if b = CHR ''u'' then
            (case rest' of h3 # h2 # h1 # h0 # r \<Rightarrow> Some (char_of (16 * hex_value h1 + hex_value h0), r)
             | _ \<Rightarrow> None)
          else if b = CHR ''n'' then Some (char_of (10::nat), rest')
          else if b = CHR ''r'' then Some (char_of (13::nat), rest')
          else if b = CHR ''t'' then Some (char_of (9::nat), rest')
          else if b = CHR ''f'' then Some (char_of (12::nat), rest')
          else if b = CHR ''b'' then Some (char_of (8::nat), rest')
          else Some (b, rest'))"

declare unescape.simps(2) [simp del]

lemma hex_value_hex_digit: "d < 16 \<Longrightarrow> hex_value (hex_digit d) = d"
  by (simp add: hex_digit_def hex_value_def)

lemma unescape_escape: "unescape (escape_char c @ r) = Some (c, r)"
proof (cases "c = CHR 0x22 \<or> c = backslash \<or> code c \<in> {10, 13, 9, 12, 8}")
  case True
  have *: "char_of n = c" if "code c = n" for n
    using that by auto
  from True show ?thesis
    by (auto simp: escape_char_def unescape.simps(2) *)
next
  case False
  show ?thesis
  proof (cases "code c < 32")
    case True
    have "16 * (code c div 16) + code c mod 16 = code c" by simp
    moreover have "hex_value (hex_digit (code c div 16)) = code c div 16"
      and "hex_value (hex_digit (code c mod 16)) = code c mod 16"
      using True by (auto intro!: hex_value_hex_digit)
    ultimately show ?thesis
      using False True by (simp add: escape_char_def hex4_def unescape.simps(2))
  next
    case False': False
    then have "escape_char c = [c]" using False by (simp add: escape_char_def)
    then show ?thesis using False by (simp add: unescape.simps(2))
  qed
qed

lemma unescape_quote_char: "unescape (CHR 0x22 # r) = None"
  by (simp add: unescape.simps(2))

lemma quote_cancel_body:
  "concat (map escape_char s) @ CHR 0x22 # r = concat (map escape_char t) @ CHR 0x22 # u
   \<Longrightarrow> s = t \<and> r = u"
proof (induction s arbitrary: t)
  case Nil
  show ?case
  proof (cases t)
    case Nil
    with Nil.prems show ?thesis by simp
  next
    case (Cons d t')
    have "unescape (CHR 0x22 # r) = unescape (escape_char d @ concat (map escape_char t') @ CHR 0x22 # u)"
      using Nil.prems Cons by simp
    then show ?thesis by (simp add: unescape_quote_char unescape_escape)
  qed
next
  case (Cons c s)
  show ?case
  proof (cases t)
    case Nil
    have "unescape (escape_char c @ concat (map escape_char s) @ CHR 0x22 # r) = unescape (CHR 0x22 # u)"
      using Cons.prems Nil by simp
    then show ?thesis by (simp add: unescape_quote_char unescape_escape)
  next
    case t: (Cons d t')
    have "unescape (escape_char c @ concat (map escape_char s) @ CHR 0x22 # r)
        = unescape (escape_char d @ concat (map escape_char t') @ CHR 0x22 # u)"
      using Cons.prems t by simp
    then show ?thesis using Cons.IH [of t'] t by (simp add: unescape_escape)
  qed
qed

lemma quote_cancel: "quote s @ r = quote t @ u \<Longrightarrow> s = t \<and> r = u"
  by (rule quote_cancel_body) (simp add: quote_def)

lemma hd_quote [simp]: "hd (quote s) = CHR 0x22" "quote s \<noteq> []" "hd (quote s @ r) = CHR 0x22"
  by (simp_all add: quote_def)

section \<open>The text determines the value\<close>

definition tail_text :: "('a \<Rightarrow> string) \<Rightarrow> 'a list \<Rightarrow> string" where
  "tail_text f xs = concat (map (\<lambda>x. CHR '','' # f x) xs)"

lemma join_tail: "join_with '','' (map f (x # xs)) = f x @ tail_text f xs"
  by (induction xs arbitrary: x) (simp_all add: tail_text_def)

lemma follow_tail: "e \<in> {CHR '']'', CHR ''}''} \<Longrightarrow> follow (tail_text f xs @ e # r)"
  by (cases xs) (auto simp: tail_text_def follow_def)

definition cancels :: "('a \<Rightarrow> string) \<Rightarrow> ('a \<Rightarrow> bool) \<Rightarrow> 'a \<Rightarrow> bool" where
  "cancels f ok x \<longleftrightarrow>
     (\<forall>y r s. ok y \<longrightarrow> follow r \<longrightarrow> follow s \<longrightarrow> f x @ r = f y @ s \<longrightarrow> x = y \<and> r = s)"

lemma cancelsD:
  "cancels f ok x \<Longrightarrow> ok y \<Longrightarrow> follow r \<Longrightarrow> follow s \<Longrightarrow> f x @ r = f y @ s \<Longrightarrow> x = y \<and> r = s"
  by (simp add: cancels_def)

lemma tail_cancel:
  assumes "\<forall>x \<in> set xs. cancels f ok x" and "\<forall>y \<in> set ys. ok y" and e: "e \<in> {CHR '']'', CHR ''}''}"
    and "tail_text f xs @ e # r = tail_text f ys @ e # s"
  shows "xs = ys \<and> r = s"
  using assms(1,2,4)
proof (induction xs arbitrary: ys)
  case Nil
  with e show ?case by (cases ys) (auto simp: tail_text_def)
next
  case (Cons x xs)
  show ?case
  proof (cases ys)
    case Nil
    with Cons.prems e show ?thesis by (auto simp: tail_text_def)
  next
    case ys: (Cons y ys')
    have "f x @ tail_text f xs @ e # r = f y @ tail_text f ys' @ e # s"
      using Cons.prems(3) ys by (simp add: tail_text_def)
    then have "x = y \<and> tail_text f xs @ e # r = tail_text f ys' @ e # s"
      by (rule cancelsD [where ok = ok, rotated 4]) (use Cons.prems ys e in \<open>auto intro: follow_tail\<close>)
    then show ?thesis using Cons.IH [of ys'] Cons.prems ys by simp
  qed
qed

lemma join_cancel:
  assumes c: "\<forall>x \<in> set xs. cancels f ok x" and ok: "\<forall>y \<in> set ys. ok y"
    and e: "e \<in> {CHR '']'', CHR ''}''}"
    and hd: "\<And>x u. x \<in> set xs \<union> set ys \<Longrightarrow> hd (f x @ u) \<noteq> e"
    and eq: "join_with '','' (map f xs) @ e # r = join_with '','' (map f ys) @ e # s"
  shows "xs = ys \<and> r = s"
proof (cases xs)
  case Nil
  show ?thesis
  proof (cases ys)
    case Nil
    with \<open>xs = []\<close> eq show ?thesis by simp
  next
    case ys: (Cons y ys')
    have "e # r = f y @ tail_text f ys' @ e # s"
      using eq Nil unfolding ys join_tail by simp
    then have "hd (f y @ tail_text f ys' @ e # s) = e" by (metis list.sel(1))
    with hd ys show ?thesis by simp
  qed
next
  case xs: (Cons x xs')
  show ?thesis
  proof (cases ys)
    case Nil
    have "e # s = f x @ tail_text f xs' @ e # r"
      using eq Nil unfolding xs join_tail by simp
    then have "hd (f x @ tail_text f xs' @ e # r) = e" by (metis list.sel(1))
    with hd xs show ?thesis by simp
  next
    case ys: (Cons y ys')
    have "f x @ tail_text f xs' @ e # r = f y @ tail_text f ys' @ e # s"
      using eq unfolding xs ys join_tail by simp
    then have "x = y \<and> tail_text f xs' @ e # r = tail_text f ys' @ e # s"
      by (rule cancelsD [where ok = ok, rotated 4]) (use c ok xs ys e in \<open>auto intro: follow_tail\<close>)
    moreover have "xs' = ys' \<and> r = s"
      by (rule tail_cancel [of xs' f ok ys' e]) (use c ok xs ys e calculation in auto)
    ultimately show ?thesis using xs ys by simp
  qed
qed

lemma emit_simps:
  "emit (JArr xs) @ r = CHR ''['' # join_with '','' (map emit xs) @ CHR '']'' # r"
  "emit (JObj kvs) @ r = CHR ''{'' # join_with '','' (map (\<lambda>kv. quote (fst kv) @ '':'' @ emit (snd kv)) kvs) @ CHR ''}'' # r"
  by simp_all

text \<open>The first character tells the constructors apart.\<close>

definition int_char :: "char \<Rightarrow> bool" where
  "int_char c = (c = CHR ''-'' \<or> is_digit c)"

lemma int_char_facts [simp]:
  "int_char (CHR ''-'')" "is_digit c \<Longrightarrow> int_char c"
  "\<not> int_char (CHR ''n'')" "\<not> int_char (CHR ''t'')" "\<not> int_char (CHR ''f'')" "\<not> int_char (CHR 0x22)"
  "\<not> int_char (CHR ''['')" "\<not> int_char (CHR ''{'')" "\<not> int_char (CHR '','')" "\<not> int_char (CHR '']'')"
  "\<not> int_char (CHR ''}'')"
  by (auto simp: int_char_def char_class_defs)

lemma show_int_chars: "c \<in> set (show_int i) \<Longrightarrow> int_char c"
  by (auto simp: show_int_def dest: show_nat_digits split: if_splits)

lemma show_int_not_Nil [simp]: "show_int i \<noteq> []"
  by (simp add: show_int_def)

lemma hd_show_int [simp]: "int_char (hd (show_int i))"
  by (rule show_int_chars [OF hd_in_set]) simp

lemma show_int_cancel:
  assumes "show_int i @ r = show_int j @ s" and "follow r" and "follow s"
  shows "i = j \<and> r = s"
proof -
  have *: "takeWhile int_char (show_int k @ u) = show_int k" if "follow u" for k u
    using that by (cases u) (auto simp: follow_def takeWhile_append show_int_chars)
  from assms have "show_int i = show_int j" by (metis *)
  then show ?thesis using assms(1) by (auto dest: show_int_inj)
qed

fun head_ok :: "json \<Rightarrow> char \<Rightarrow> bool" where
  "head_ok JNull c = (c = CHR ''n'')"
| "head_ok (JBool b) c = (c = (if b then CHR ''t'' else CHR ''f''))"
| "head_ok (JInt i) c = int_char c"
| "head_ok (JFloat _) c = False"
| "head_ok (JStr s) c = (c = CHR 0x22)"
| "head_ok (JArr _) c = (c = CHR ''['')"
| "head_ok (JObj _) c = (c = CHR ''{'')"

lemma head_emit: "plain v \<Longrightarrow> head_ok v (hd (emit v @ r))"
  by (cases v) auto

lemma head_emit_eq: "x = emit w @ s \<Longrightarrow> plain w \<Longrightarrow> head_ok w (hd x)"
  by (simp add: head_emit)

lemma hd_emit_not_close:
  "plain v \<Longrightarrow> e \<in> {CHR '']'', CHR ''}''} \<Longrightarrow> hd (emit v @ r) \<noteq> e"
  using head_emit [of v r] by (cases v; auto; metis hd_show_int int_char_facts(10,11))

lemma emit_cancel:
  "plain v \<Longrightarrow> plain w \<Longrightarrow> follow r \<Longrightarrow> follow s \<Longrightarrow> emit v @ r = emit w @ s \<Longrightarrow> v = w \<and> r = s"
proof (induction v arbitrary: w r s)
  case JNull
  have "head_ok w (CHR ''n'')" using head_emit_eq [OF JNull.prems(5,2)] by simp
  then have "w = JNull" by (cases w) (auto split: if_splits)
  with JNull show ?case by simp
next
  case (JBool b)
  have "head_ok w (if b then CHR ''t'' else CHR ''f'')"
    using head_emit_eq [OF JBool.prems(5,2)] by (cases b) simp_all
  then have "w = JBool b" by (cases w) (auto split: if_splits)
  with JBool show ?case by simp
next
  case (JInt i)
  have "head_ok w (hd (show_int i @ r))" using head_emit_eq [OF JInt.prems(5,2)] by simp
  then have "head_ok w (hd (show_int i))" by simp
  moreover have "int_char (hd (show_int i))" by simp
  ultimately obtain j where "w = JInt j" by (cases w) (auto split: if_splits)
  with JInt.prems show_int_cancel [of i r j s] show ?case by simp
next
  case (JFloat f)
  then show ?case by simp
next
  case (JStr t)
  have "head_ok w (hd (quote t @ r))" using head_emit_eq [OF JStr.prems(5,2)] by simp
  then obtain u where "w = JStr u" by (cases w) (auto split: if_splits)
  with JStr.prems quote_cancel [of t r u s] show ?case by simp
next
  case (JArr xs)
  have "head_ok w (CHR ''['')" using head_emit_eq [OF JArr.prems(5,2)] by simp
  then obtain ys where w: "w = JArr ys" by (cases w) (auto split: if_splits)
  have "xs = ys \<and> r = s"
  proof (rule join_cancel [of xs emit plain ys "CHR '']''"])
    show "\<forall>x \<in> set xs. cancels emit plain x"
      using JArr by (auto simp: cancels_def list_all_iff)
    show "\<forall>y \<in> set ys. plain y" using JArr.prems w by (simp add: list_all_iff)
    show "hd (emit x @ u) \<noteq> CHR '']''" if "x \<in> set xs \<union> set ys" for x u
      using that JArr.prems w by (intro hd_emit_not_close) (auto simp: list_all_iff)
    show "join_with '','' (map emit xs) @ CHR '']'' # r = join_with '','' (map emit ys) @ CHR '']'' # s"
      using JArr.prems(5) unfolding w emit_simps by simp
  qed simp
  then show ?case by (simp add: w)
next
  case (JObj kvs)
  have "head_ok w (CHR ''{'')" using head_emit_eq [OF JObj.prems(5,2)] by simp
  then obtain ys where w: "w = JObj ys" by (cases w) (auto split: if_splits)
  let ?f = "\<lambda>kv. quote (fst kv) @ '':'' @ emit (snd kv)"
  have "kvs = ys \<and> r = s"
  proof (rule join_cancel [of kvs ?f "\<lambda>kv. plain (snd kv)" ys "CHR ''}''"])
    show "\<forall>x \<in> set kvs. cancels ?f (\<lambda>kv. plain (snd kv)) x"
    proof
      fix x assume x: "x \<in> set kvs"
      have p: "plain (snd x)" using x JObj.prems by (simp add: list_all_iff)
      have IH: "snd x = snd y \<and> u = v"
        if "plain (snd y)" "follow u" "follow v" "emit (snd x) @ u = emit (snd y) @ v" for y u v
        using JObj.IH [of x "snd x" "snd y" u v] x p that by (cases x) auto
      show "cancels ?f (\<lambda>kv. plain (snd kv)) x"
        unfolding cancels_def
      proof (intro allI impI)
        fix y u v
        assume y: "plain (snd y)" "follow u" "follow v" and eq: "?f x @ u = ?f y @ v"
        then have "fst x = fst y \<and> CHR '':'' # emit (snd x) @ u = CHR '':'' # emit (snd y) @ v"
          by (intro quote_cancel) simp
        with IH [OF y] show "x = y \<and> u = v" by (simp add: prod_eq_iff)
      qed
    qed
    show "\<forall>y \<in> set ys. plain (snd y)" using JObj.prems w by (simp add: list_all_iff)
    show "join_with '','' (map ?f kvs) @ CHR ''}'' # r = join_with '','' (map ?f ys) @ CHR ''}'' # s"
      using JObj.prems(5) unfolding w emit_simps by simp
  qed simp_all
  then show ?case by (simp add: w)
qed

section \<open>Order of keys and of set elements\<close>

lemma dumps_normal_iff:
  assumes "plain v" and "plain w"
  shows "dumps v = dumps w \<longleftrightarrow> normal v = normal w"
proof
  assume "dumps v = dumps w"
  then have "emit (normal v) @ [] = emit (normal w) @ []"
    using assms by (simp add: dumps_emit)
  then show "normal v = normal w"
    by (intro emit_cancel [of _ _ "[]" "[]", THEN conjunct1])
       (use assms in \<open>simp_all add: plain_normal follow_def\<close>)
qed (use assms in \<open>simp add: dumps_emit\<close>)

lemma normal_JObj_perm:
  "mset kvs = mset kvs' \<Longrightarrow> distinct (map fst kvs) \<Longrightarrow> normal (JObj kvs) = normal (JObj kvs')"
  by (simp, rule sort_key_perm) (simp_all add: comp_def)

lemma map_fst_sort_key: "map fst (sort_key fst ps) = sort (map fst ps)"
  by (rule properties_for_sort [symmetric]) simp_all

lemma mapR_dumps_snd:
  "mapR (\<lambda>j. mapr (\<lambda>s. (s, j)) (dumps j)) js = Inr ps \<Longrightarrow> p \<in> set ps \<Longrightarrow> dumps (snd p) = Inr (fst p)"
  by (drule (1) mapR_set) (auto simp: res_iff)

lemma canonical_json_PSet:
  "canonical_json (PSet xs) =
     bindR (mapR json_ready xs) (\<lambda>js. bindR (mapR dumps js) (\<lambda>ss. Inr (''['' @ join_with '','' (sort ss) @ '']'')))"
proof (cases "mapR json_ready xs")
  case (Inr js)
  let ?g = "\<lambda>j. mapr (\<lambda>s. (s, j)) (dumps j)"
  have err: "mapR ?g js = Inl e \<longleftrightarrow> mapR dumps js = Inl e" for e js
  proof (induction js)
    case (Cons j js)
    then show ?case by (cases "dumps j") (auto simp: bindR_Inl_iff)
  qed simp
  show ?thesis
  proof (cases "mapR ?g js")
    case (Inl e)
    with err [of js e] Inr show ?thesis by (simp add: canonical_json_def)
  next
    case ps: (Inr ps)
    have "mapR dumps js = Inr (map fst ps)"
      using ps by (auto simp: mapR_Inr_iff list_all2_map2 res_iff elim!: list_all2_mono)
    moreover have "mapR dumps (map snd (sort_key fst ps)) = Inr (map fst (sort_key fst ps))"
      using mapR_dumps_snd [OF ps] by (auto simp: mapR_Inr_iff list_all2_map1 list_all2_map2 list_all2_same)
    ultimately show ?thesis
      using Inr ps by (simp add: canonical_json_def map_fst_sort_key)
  qed
qed (simp add: canonical_json_def)

lemma mapR_perm:
  assumes "mapR f xs = Inr ys" and "mset xs' = mset xs"
  obtains ys' where "mapR f xs' = Inr ys'" and "mset ys' = mset ys"
proof -
  let ?g = "\<lambda>x. case f x of Inr y \<Rightarrow> y | Inl _ \<Rightarrow> undefined"
  have "\<forall>x \<in> set xs. \<exists>y. f x = Inr y"
    using assms(1) by (induction xs arbitrary: ys) (auto simp: res_iff)
  then have *: "x \<in> set xs \<Longrightarrow> f x = Inr (?g x)" for x by (auto split: sum.split)
  have "set xs' = set xs" using assms(2) by (rule mset_eq_setD)
  then have "mapR f xs' = Inr (map ?g xs')" by (intro mapR_Inr_const) (auto intro: *)
  moreover have "mapR f xs = Inr (map ?g xs)" by (intro mapR_Inr_const) (rule *)
  then have "mset (map ?g xs') = mset ys" using assms by simp
  ultimately show thesis by (rule that)
qed

section \<open>The value read back from its JSON\<close>

text \<open>\<open>dict_json\<close>: every object has distinct keys, as everything \<open>json_ready\<close> returns
  for a value whose dataclass fields are distinct (\<open>fields_distinct\<close>).\<close>

fun dict_json :: "json \<Rightarrow> bool" where
  "dict_json (JArr xs) = list_all dict_json xs"
| "dict_json (JObj kvs) = (distinct (map fst kvs) \<and> list_all (\<lambda>kv. dict_json (snd kv)) kvs)"
| "dict_json _ = True"

fun fields_distinct :: "pyval \<Rightarrow> bool" where
  "fields_distinct (PList xs) = list_all fields_distinct xs"
| "fields_distinct (PTuple xs) = list_all fields_distinct xs"
| "fields_distinct (PSet xs) = list_all fields_distinct xs"
| "fields_distinct (PDict kvs) = list_all (\<lambda>kv. fields_distinct (snd kv)) kvs"
| "fields_distinct (PObj kvs) = (distinct (map fst kvs) \<and> list_all (\<lambda>kv. fields_distinct (snd kv)) kvs)"
| "fields_distinct _ = True"

lemma update_new: "k \<notin> fst ` set d \<Longrightarrow> AList.update k v d = d @ [(k, v)]"
  by (induction d) auto

lemma dict_of_pairs_distinct_aux:
  "distinct (map fst (d @ ps)) \<Longrightarrow> foldl (\<lambda>d kv. AList.update (fst kv) (snd kv) d) d ps = d @ ps"
  by (induction ps arbitrary: d) (auto simp: update_new)

lemma dict_of_pairs_distinct: "distinct (map fst ps) \<Longrightarrow> dict_of_pairs ps = ps"
  unfolding dict_of_pairs_def using dict_of_pairs_distinct_aux [of "[]" ps] by simp

lemma dict_of_pairs_aux:
  "distinct (map fst d) \<Longrightarrow> list_all (\<lambda>kv. P (snd kv)) d \<Longrightarrow> list_all (\<lambda>kv. P (snd kv)) ps \<Longrightarrow>
   distinct (map fst (foldl (\<lambda>d kv. AList.update (fst kv) (snd kv) d) d ps)) \<and>
   list_all (\<lambda>kv. P (snd kv)) (foldl (\<lambda>d kv. AList.update (fst kv) (snd kv) d) d ps)"
proof (induction ps arbitrary: d)
  case (Cons p ps)
  have "list_all (\<lambda>kv. P (snd kv)) (AList.update (fst p) (snd p) d)" if "P (snd p)"
    using Cons.prems(2) that by (induction d) auto
  then show ?case using Cons by (simp add: distinct_update)
qed simp

lemma dict_of_pairs_ok:
  "list_all (\<lambda>kv. P (snd kv)) ps \<Longrightarrow>
   distinct (map fst (dict_of_pairs ps)) \<and> list_all (\<lambda>kv. P (snd kv)) (dict_of_pairs ps)"
  unfolding dict_of_pairs_def by (rule dict_of_pairs_aux) simp_all

lemma json_ready_of_json: "dict_json j \<Longrightarrow> json_ready (of_json j) = Inr j"
proof (induction j)
  case (JArr xs)
  have "mapR json_ready (map of_json xs) = Inr xs"
    using JArr by (induction xs) auto
  then show ?case by simp
next
  case (JObj kvs)
  have "mapR (\<lambda>kv. mapr (Pair (key_str (fst kv))) (json_ready (snd kv)))
      (map (\<lambda>kv. (KStr (fst kv), of_json (snd kv))) kvs) = Inr kvs"
    using JObj by (induction kvs) fastforce+
  then show ?case using JObj.prems by (simp add: dict_of_pairs_distinct)
qed simp_all

lemma mapR_all:
  "mapR f xs = Inr ys \<Longrightarrow> (\<And>x y. x \<in> set xs \<Longrightarrow> f x = Inr y \<Longrightarrow> P y) \<Longrightarrow> list_all P ys"
  by (auto simp: list_all_iff dest!: mapR_set)

lemma json_ready_dict_json: "fields_distinct v \<Longrightarrow> json_ready v = Inr j \<Longrightarrow> dict_json j"
proof (induction v arbitrary: j)
  case (PList xs)
  then show ?case by (fastforce simp: res_iff list_all_iff dest: mapR_set)
next
  case (PTuple xs)
  then show ?case by (fastforce simp: res_iff list_all_iff dest: mapR_set)
next
  case (PSet xs)
  then obtain js ps where js: "mapR json_ready xs = Inr js"
    and ps: "mapR (\<lambda>j. mapr (\<lambda>s. (s, j)) (dumps j)) js = Inr ps"
    and j: "j = JArr (map snd (sort_key fst ps))"
    by (auto simp: res_iff)
  have "list_all dict_json js"
    using js by (rule mapR_all) (use PSet in \<open>auto simp: list_all_iff\<close>)
  then have "list_all (\<lambda>p. dict_json (snd p)) ps"
    using ps by (intro mapR_all [OF ps]) (auto simp: res_iff list_all_iff)
  then show ?case by (simp add: j list_all_iff)
next
  case (PDict kvs)
  then obtain ps where ps: "mapR (\<lambda>kv. mapr (Pair (key_str (fst kv))) (json_ready (snd kv))) kvs = Inr ps"
    and j: "j = JObj (dict_of_pairs ps)"
    by (auto simp: res_iff)
  have "list_all (\<lambda>p. dict_json (snd p)) ps"
    by (rule mapR_all [OF ps]) (use PDict in \<open>fastforce simp: res_iff list_all_iff snds.simps\<close>)
  then show ?case using dict_of_pairs_ok j by simp
next
  case (PObj kvs)
  then obtain ps where ps: "mapR (\<lambda>kv. mapr (Pair (fst kv)) (json_ready (snd kv))) kvs = Inr ps"
    and j: "j = JObj ps"
    by (auto simp: res_iff)
  have "list_all (\<lambda>p. dict_json (snd p)) ps"
    by (rule mapR_all [OF ps]) (use PObj in \<open>fastforce simp: res_iff list_all_iff snds.simps\<close>)
  moreover have "map fst ps = map fst kvs"
    using ps by (induction kvs arbitrary: ps) (auto simp: res_iff)
  ultimately show ?case using j PObj.prems by simp
qed auto

section \<open>Keys the body guard visits\<close>

inductive visited_key :: "pyval \<Rightarrow> pykey \<Rightarrow> bool" where
  "(k, v) \<in> set kvs \<Longrightarrow> visited_key (PDict kvs) k"
| "(k', v) \<in> set kvs \<Longrightarrow> visited_key v k \<Longrightarrow> visited_key (PDict kvs) k"
| "v \<in> set xs \<Longrightarrow> visited_key v k \<Longrightarrow> visited_key (PList xs) k"
| "v \<in> set xs \<Longrightarrow> visited_key v k \<Longrightarrow> visited_key (PTuple xs) k"

inductive_simps visited_key_simps:
  "visited_key (PDict kvs) k" "visited_key (PList xs) k" "visited_key (PTuple xs) k"
  "visited_key PNone k" "visited_key (PBool b) k" "visited_key (PInt i) k" "visited_key (PFloat f) k"
  "visited_key (PStr s) k" "visited_key (PSet xs) k" "visited_key (PObj fs) k"

lemma reject_embedded_iff:
  "reject_embedded_body_fields v = Inr u \<longleftrightarrow> \<not> (\<exists>k. visited_key v k \<and> body_key k)"
proof (induction v arbitrary: u)
  case (PDict kvs)
  then have "reject_embedded_body_fields (snd kv) = Inr w \<longleftrightarrow> \<not> (\<exists>k. visited_key (snd kv) k \<and> body_key k)"
    if "kv \<in> set kvs" for kv w
    using that by (cases kv) (fastforce simp: snds.simps)
  then show ?case
    by (auto simp: res_iff visited_key_simps split: if_splits) fastforce+
qed (auto simp: res_iff visited_key_simps)

lemma canonical_json_PDict_perm:
  assumes dist: "distinct (map (\<lambda>kv. key_str (fst kv)) kvs)"
    and ok: "canonical_json (PDict kvs) = Inr s" and perm: "mset kvs' = mset kvs"
  shows "canonical_json (PDict kvs') = Inr s"
proof -
  let ?f = "\<lambda>kv. mapr (Pair (key_str (fst kv))) (json_ready (snd kv))"
  let ?g = "\<lambda>kv. mapr (Pair (fst kv)) (dumps (snd kv))"
  have keys: "map fst ps = map (\<lambda>kv. key_str (fst kv)) xs" if "mapR ?f xs = Inr ps" for xs ps
    using that by (induction xs arbitrary: ps) (auto simp: res_iff)
  have dkeys: "map fst ts = map fst ps" if "mapR ?g ps = Inr ts" for ps :: "(string \<times> json) list" and ts
    using that by (induction ps arbitrary: ts) (auto simp: res_iff)
  from ok obtain ps where ps: "mapR ?f kvs = Inr ps" and d: "dumps (JObj (dict_of_pairs ps)) = Inr s"
    by (auto simp: canonical_json_def res_iff)
  have dps: "distinct (map fst ps)" using keys [OF ps] dist by simp
  obtain ps' where ps': "mapR ?f kvs' = Inr ps'" "mset ps' = mset ps"
    using mapR_perm [OF ps perm] by metis
  have dps': "distinct (map fst ps')"
    using dps ps'(2) by (metis mset_eq_imp_distinct_iff mset_map)
  from d dps obtain ts where ts: "mapR ?g ps = Inr ts"
    and s: "s = ''{'' @ join_with '','' (map (\<lambda>p. quote (fst p) @ '':'' @ snd p) (sort_key fst ts)) @ ''}''"
    by (auto simp: dict_of_pairs_distinct res_iff)
  obtain ts' where ts': "mapR ?g ps' = Inr ts'" "mset ts' = mset ts"
    using mapR_perm [OF ts ps'(2)] by metis
  have "sort_key fst ts' = sort_key fst ts"
    by (rule sort_key_perm) (use ts' dkeys [OF ts'(1)] dps' in simp_all)
  then show ?thesis
    using ps'(1) ts'(1) dps' by (simp add: canonical_json_def dict_of_pairs_distinct s)
qed

section \<open>Properties\<close>

text \<open>C18: two JSON values (no floats, distinct object keys) have the same canonical text
  exactly when they are the same value up to the order of object keys at every depth.\<close>
theorem canonical_text_iff_same_value:
  assumes "plain v" and "plain w"
  shows "dumps v = dumps w \<longleftrightarrow> normal v = normal w"
  using assms by (rule dumps_normal_iff)

theorem canonical_text_iff_same_value_witness:
  "dumps (JObj [(''b'', JInt 1), (''a'', JArr [JNull, JStr ''x''])])
   = dumps (JObj [(''a'', JArr [JNull, JStr ''x'']), (''b'', JInt 1)])"
  by (subst canonical_text_iff_same_value) simp_all

text \<open>The identity of a mapping does not depend on the insertion order of its keys.\<close>
theorem stable_hash_key_order:
  assumes "distinct (map (\<lambda>kv. key_str (fst kv)) kvs)"
    and "stable_hash (PDict kvs) = Inr h" and "mset kvs' = mset kvs"
  shows "stable_hash (PDict kvs') = Inr h"
proof -
  from assms(2) obtain s where s: "canonical_json (PDict kvs) = Inr s" and h: "h = sha256_hex s"
    by (auto simp: stable_hash_def res_iff)
  have "canonical_json (PDict kvs') = Inr s"
    using assms(1) s assms(3) by (rule canonical_json_PDict_perm)
  with h show ?thesis by (simp add: stable_hash_def)
qed

theorem stable_hash_key_order_witness:
  "stable_hash (PDict [(KStr ''b'', PInt 1), (KStr ''a'', PNone)])
   = stable_hash (PDict [(KStr ''a'', PNone), (KStr ''b'', PInt 1)])"
proof -
  have "\<exists>h. stable_hash (PDict [(KStr ''a'', PNone), (KStr ''b'', PInt 1)]) = Inr h"
    by (simp add: stable_hash_def canonical_json_def dict_of_pairs_def)
  then obtain h where h: "stable_hash (PDict [(KStr ''a'', PNone), (KStr ''b'', PInt 1)]) = Inr h" ..
  then show ?thesis
    using stable_hash_key_order [OF _ h, of "[(KStr ''b'', PInt 1), (KStr ''a'', PNone)]"] by simp
qed

text \<open>The identity of a set does not depend on the order its elements are met in.\<close>
theorem stable_hash_set_order:
  assumes "stable_hash (PSet xs) = Inr h" and "mset ys = mset xs"
  shows "stable_hash (PSet ys) = Inr h"
proof -
  from assms(1) obtain js ss where js: "mapR json_ready xs = Inr js" and ss: "mapR dumps js = Inr ss"
    and h: "h = sha256_hex (''['' @ join_with '','' (sort ss) @ '']'')"
    by (auto simp: stable_hash_def canonical_json_PSet res_iff)
  obtain js' where js': "mapR json_ready ys = Inr js'" "mset js' = mset js"
    using mapR_perm [OF js assms(2)] by metis
  obtain ss' where ss': "mapR dumps js' = Inr ss'" "mset ss' = mset ss"
    using mapR_perm [OF ss js'(2)] by metis
  have "sort ss' = sort ss"
    by (rule properties_for_sort [symmetric]) (simp_all add: ss'(2))
  with js' ss' h show ?thesis by (simp add: stable_hash_def canonical_json_PSet)
qed

theorem stable_hash_set_order_witness:
  "stable_hash (PSet [PStr ''b'', PStr ''a'']) = stable_hash (PSet [PStr ''a'', PStr ''b''])"
proof -
  have "\<exists>h. stable_hash (PSet [PStr ''a'', PStr ''b'']) = Inr h"
    by (simp add: stable_hash_def canonical_json_PSet)
  then obtain h where h: "stable_hash (PSet [PStr ''a'', PStr ''b'']) = Inr h" ..
  with stable_hash_set_order [OF h, of "[PStr ''b'', PStr ''a'']"] show ?thesis by simp
qed

text \<open>A value rebuilt from its JSON form has the JSON form it came from, so an
  identity recomputed from a stored payload is the identity computed before storing.\<close>
theorem json_ready_roundtrip:
  assumes "fields_distinct v" and "json_ready v = Inr j"
  shows "json_ready (of_json j) = Inr j"
  using assms by (intro json_ready_of_json json_ready_dict_json)

theorem json_ready_roundtrip_witness:
  "json_ready (of_json (JObj [(''a'', JArr [JInt 1, JBool True]), (''None'', JNull)]))
   = Inr (JObj [(''a'', JArr [JInt 1, JBool True]), (''None'', JNull)])"
  by (rule json_ready_roundtrip
        [of "PDict [(KStr ''a'', PTuple [PInt 1, PBool True]), (KNone, PNone)]"])
     (simp_all add: dict_of_pairs_def)

text \<open>C32: the guard against embedded bodies accepts a value exactly when no key of a
  mapping reachable through mappings, lists and tuples names a body field.\<close>
theorem embedded_body_guard_exact:
  "is_ok (reject_embedded_body_fields v) \<longleftrightarrow> \<not> (\<exists>k. visited_key v k \<and> body_key k)"
  by (auto simp: is_ok_iff reject_embedded_iff)

end
