(* ===== verification/ModelBase.thy ===== *)
theory ModelBase
  imports Canonical
begin

text \<open>
  The validators every data contract of \<open>hlsgraph/model.py\<close> is built from: the closed
  enumerations, \<open>require_fact_authority\<close>, \<open>require_namespaced\<close>, the path patterns and
  \<open>require_safe_anchor_text\<close>, \<open>safe_relative_path\<close>,
  \<open>require_nonnegative_finite_map\<close> and the knowledge constraint grammar.

  A \<open>ValueEnum\<close> is a \<open>str\<close>; a member is its value here, an enumeration the list of
  its values, and \<open>enum_value\<close> the conversion that raises on anything else.
\<close>

section \<open>Enumerations\<close>

definition AuthorityClass :: "string list" where
  "AuthorityClass =
    [''declared_constraint'', ''static_fact'', ''compiler_decision'', ''tool_observation'',
     ''verification_evidence'', ''physical_measurement'', ''derived_fact'', ''knowledge_rule'',
     ''prediction_hypothesis'', ''synthetic'']"

definition NON_FACT_AUTHORITIES :: "string list" where
  "NON_FACT_AUTHORITIES = [''knowledge_rule'', ''prediction_hypothesis'']"

definition Stage :: "string list" where
  "Stage =
    [''source'', ''ast'', ''mlir'', ''hls_ir'', ''llvm'', ''schedule'', ''rtl'', ''post_synth'',
     ''post_place'', ''post_route'', ''csim'', ''cosim'', ''hardware_runtime'', ''unknown'']"

definition AccessPolicy :: "string list" where
  "AccessPolicy = [''private'', ''project'', ''public'']"

definition RetentionPolicy :: "string list" where
  "RetentionPolicy = [''external'', ''managed'', ''ephemeral'']"

definition Completeness :: "string list" where
  "Completeness = [''complete'', ''partial'', ''missing'', ''ambiguous'']"

definition EvidenceKind :: "string list" where
  "EvidenceKind = [''observation'', ''derivation'', ''artifact'', ''entity_anchor'', ''relation'']"

definition ActionMaterializationStatus :: "string list" where
  "ActionMaterializationStatus = [''materialized'', ''no_op'', ''failed'']"

definition RunStatus :: "string list" where
  "RunStatus = [''queued'', ''running'', ''succeeded'', ''failed'', ''cached'', ''skipped'', ''cancelled'']"

definition FailureClass :: "string list" where
  "FailureClass =
    [''none'', ''input'', ''design_compile'', ''correctness'', ''resource'', ''timing'', ''license'',
     ''infrastructure'', ''infra_resource_guard'', ''ssh'', ''timeout'', ''benchmark'',
     ''unsupported'', ''cancelled'']"

definition GateKind :: "string list" where
  "GateKind = [''correctness'', ''resource_fits'', ''post_route_timing'']"

definition GateStatus :: "string list" where
  "GateStatus = [''pass'', ''fail'', ''unknown'']"

definition VerificationKind :: "string list" where
  "VerificationKind = [''csim'', ''rtl_cosim'', ''assertion'', ''formal'', ''mismatch'', ''deadlock'']"

definition DiagnosticSeverity :: "string list" where
  "DiagnosticSeverity = [''info'', ''warning'', ''error'', ''critical'']"

definition enum_value :: "string list \<Rightarrow> string \<Rightarrow> unit res" where
  "enum_value members v = reject (v \<notin> set members) ''is not a valid enumeration value''"

definition require_fact_authority :: "string \<Rightarrow> unit res" where
  "require_fact_authority a =
     reject (a \<in> set NON_FACT_AUTHORITIES)
       ''authority; knowledge rules and predictions require dedicated envelope types''"

section \<open>Identifiers and digests\<close>

definition namespaced_char :: "char \<Rightarrow> bool" where
  "namespaced_char c = (is_alnum c \<or> c \<in> {CHR ''_'', CHR ''.'', CHR '':'', CHR ''-''})"

fun is_namespaced :: "string \<Rightarrow> bool" where
  "is_namespaced [] = False"
| "is_namespaced (c # cs) = (is_alnum c \<and> list_all namespaced_char cs)"

definition require_namespaced :: "string \<Rightarrow> unit res" where
  "require_namespaced s = reject (\<not> is_namespaced s) ''must be a non-empty namespaced identifier''"

section \<open>Host-absolute paths in anchor text\<close>

definition not_before :: "(char \<Rightarrow> bool) \<Rightarrow> char option \<Rightarrow> bool" where
  "not_before p prev = (case prev of None \<Rightarrow> True | Some c \<Rightarrow> \<not> p c)"

definition at_sep :: "char \<Rightarrow> bool" where
  "at_sep c = (c = slash \<or> c = backslash)"

fun windows_absolute_at :: "char option \<Rightarrow> string \<Rightarrow> bool" where
  "windows_absolute_at prev (a # b # c # _) =
     (not_before (\<lambda>x. is_alnum x \<or> x \<in> {CHR ''+'', CHR ''.'', CHR ''_'', CHR ''-''}) prev
      \<and> is_alpha a \<and> b = CHR '':'' \<and> at_sep c)"
| "windows_absolute_at _ _ = False"

fun unc_absolute_at :: "char option \<Rightarrow> string \<Rightarrow> bool" where
  "unc_absolute_at prev (a # b # rest) =
     (not_before (\<lambda>x. is_alnum x \<or> at_sep x
                    \<or> x \<in> {CHR ''+'', CHR ''.'', CHR ''_'', CHR '':'', CHR ''-''}) prev
      \<and> a = b \<and> at_sep a \<and> (case rest of [] \<Rightarrow> True | c # _ \<Rightarrow> \<not> at_sep c))"
| "unc_absolute_at _ _ = False"

fun posix_absolute_at :: "char option \<Rightarrow> string \<Rightarrow> bool" where
  "posix_absolute_at prev (a # rest) =
     (not_before (\<lambda>x. is_alnum x \<or> x \<in> {CHR ''_'', CHR '':'', slash}) prev
      \<and> a = slash \<and> (case rest of [] \<Rightarrow> True | c # _ \<Rightarrow> \<not> (c = slash \<or> is_space c)))"
| "posix_absolute_at _ _ = False"

fun rooted_windows_at :: "char option \<Rightarrow> string \<Rightarrow> bool" where
  "rooted_windows_at prev (a # rest) =
     (not_before (\<lambda>x. is_alnum x \<or> at_sep x \<or> x \<in> {CHR ''_'', CHR '':''}) prev
      \<and> a = backslash \<and> (case rest of [] \<Rightarrow> True | c # _ \<Rightarrow> \<not> (c = backslash \<or> is_space c)))"
| "rooted_windows_at _ _ = False"

definition has_absolute_path :: "string \<Rightarrow> bool" where
  "has_absolute_path s =
     (search windows_absolute_at s \<or> search unc_absolute_at s
      \<or> search posix_absolute_at s \<or> search rooted_windows_at s)"

text \<open>\<open>require_safe_anchor_text\<close>: \<open>None\<close> passes, an absolute path becomes a digest.\<close>

definition require_safe_anchor_text :: "nat \<Rightarrow> pyval \<Rightarrow> pyval res" where
  "require_safe_anchor_text max_length v =
     (case v of
        PNone \<Rightarrow> Inr PNone
      | PStr s \<Rightarrow>
          if strip s = [] \<or> has_nul s \<or> length s > max_length
          then Inl (ValueError ''must be a bounded non-empty string without NUL or None'')
          else if has_absolute_path s then Inr (PStr (''redacted.sha256:'' @ sha256_hex s))
          else Inr (PStr s)
      | _ \<Rightarrow> Inl (ValueError ''must be a bounded non-empty string without NUL or None''))"

section \<open>Project-relative paths\<close>

fun has_drive :: "string \<Rightarrow> bool" where
  "has_drive (a # b # _) = (is_alpha a \<and> b = CHR '':'')"
| "has_drive _ = False"

definition unsafe_part :: "string \<Rightarrow> bool" where
  "unsafe_part part = (part \<in> {[], ''.'', ''..''})"

definition safe_relative_path :: "string \<Rightarrow> string res" where
  "safe_relative_path v =
     (let normalized = replace_char backslash slash v in
      if normalized = [] \<or> has_nul normalized \<or> starts_with [slash] normalized \<or> has_drive normalized
      then Inl (ValueError ''must be project-relative'')
      else if list_ex unsafe_part (split_on slash normalized)
      then Inl (ValueError ''contains an unsafe path component'')
      else Inr normalized)"

text \<open>\<open>if path: path = safe_relative_path(path)\<close>.\<close>

definition opt_relative_path :: "string option \<Rightarrow> string option res" where
  "opt_relative_path p =
     (case p of Some (c # cs) \<Rightarrow> mapr Some (safe_relative_path (c # cs)) | _ \<Rightarrow> Inr p)"

section \<open>Timestamps\<close>

text \<open>\<open>datetime.fromisoformat\<close> is a parameter of the contracts that call it: \<open>None\<close> when
  it raises, \<open>Some None\<close> for a value without a timezone, otherwise the instant.\<close>

type_synonym iso_parser = "string \<Rightarrow> int option option"

definition zulu_offset :: "string \<Rightarrow> string" where
  "zulu_offset s = (if ends_with ''Z'' s then butlast s @ ''+00:00'' else s)"

section \<open>Finite non-negative maps\<close>

text \<open>\<open>float(item)\<close> of an \<open>int\<close> raises \<open>OverflowError\<close> from \<open>2^1024 - 2^970\<close> on,
  where rounding would leave the range of a double.\<close>

definition float_overflows :: "int \<Rightarrow> bool" where
  "float_overflows i = (\<bar>i\<bar> \<ge> 2 ^ 1024 - 2 ^ 970)"

fun nonnegative_finite :: "pyval \<Rightarrow> unit res" where
  "nonnegative_finite (PInt i) =
     (if float_overflows i then Inl (OverflowError ''int too large to convert to float'')
      else reject (i < 0) ''must be a finite non-negative number'')"
| "nonnegative_finite (PFloat (FFin neg m e)) =
     reject (neg \<and> m \<noteq> 0) ''must be a finite non-negative number''"
| "nonnegative_finite _ = Inl (ValueError ''must be a finite non-negative number'')"

fun nonblank_key :: "pykey \<Rightarrow> bool" where
  "nonblank_key (KStr s) = (strip s \<noteq> [])"
| "nonblank_key _ = False"

definition require_nonnegative_finite_map :: "pydict \<Rightarrow> unit res" where
  "require_nonnegative_finite_map d =
     forR (\<lambda>kv. if \<not> nonblank_key (fst kv) then Inl (ValueError ''keys must be non-empty strings'')
               else nonnegative_finite (snd kv)) d"

text \<open>Comparing a number with \<open>0\<close>: \<open>p\<close> is asked about the sign.  No comparison holds of
  a NaN, and what is not a number raises \<open>TypeError\<close>.\<close>

fun compare_zero :: "(int \<Rightarrow> bool) \<Rightarrow> pyval \<Rightarrow> bool res" where
  "compare_zero p (PInt i) = Inr (p (sgn i))"
| "compare_zero p (PBool b) = Inr (p (if b then 1 else 0))"
| "compare_zero p (PFloat (FFin neg m e)) = Inr (p (if m = 0 then 0 else if neg then -1 else 1))"
| "compare_zero p (PFloat (FInf neg)) = Inr (p (if neg then -1 else 1))"
| "compare_zero p (PFloat FNan) = Inr False"
| "compare_zero p _ = Inl (TypeError ''not supported between instances'')"

section \<open>The knowledge constraint grammar\<close>

definition KNOWLEDGE_CONSTRAINT_OPERATORS :: "string list" where
  "KNOWLEDGE_CONSTRAINT_OPERATORS = [''equals'', ''one_of'', ''min_version'', ''max_version'', ''required'']"

fun validate_scalar :: "pyval \<Rightarrow> unit res" where
  "validate_scalar (PStr s) =
     (let folded = casefold s in
      if folded \<in> {''true'', ''false''}
      then Inl (ValueError ''must use a JSON boolean, not a boolean-like string'')
      else reject (starts_with ''hlsgraph.__context_bool__.'' folded) ''uses a reserved run-time token'')"
| "validate_scalar (PDict _) = Inl (ValueError ''must be a scalar JSON value'')"
| "validate_scalar (PList _) = Inl (ValueError ''must be a scalar JSON value'')"
| "validate_scalar (PTuple _) = Inl (ValueError ''must be a scalar JSON value'')"
| "validate_scalar _ = Inr ()"

definition known_operator :: "pykey \<Rightarrow> bool" where
  "known_operator k = (\<exists>s \<in> set KNOWLEDGE_CONSTRAINT_OPERATORS. k = KStr s)"

text \<open>\<open>sorted(unknown)\<close> of the message compares the keys with each other.\<close>

fun key_class :: "pykey \<Rightarrow> nat" where
  "key_class (KStr _) = 0"
| "key_class (KInt _) = 1"
| "key_class (KBool _) = 1"
| "key_class KNone = 2"

definition unsupported_operators :: "pykey list \<Rightarrow> unit res" where
  "unsupported_operators unknown =
     (if unknown = [] then Inr ()
      else if list_all (\<lambda>k. key_class k = key_class (hd unknown)) unknown
      then Inl (ValueError ''has unsupported operators'')
      else Inl (TypeError ''not supported between instances''))"

definition validate_choices :: "pyval \<Rightarrow> unit res" where
  "validate_choices choices =
     (case choices of
        PList (x # xs) \<Rightarrow> forR validate_scalar (x # xs)
      | _ \<Rightarrow> Inl (ValueError ''must be a non-empty JSON array''))"

definition validate_constraint :: "pyval \<Rightarrow> unit res" where
  "validate_constraint v =
     (case v of
        PList _ \<Rightarrow> Inl (ValueError ''alternatives require explicit one_of'')
      | PTuple _ \<Rightarrow> Inl (ValueError ''alternatives require explicit one_of'')
      | PDict d \<Rightarrow>
          checks
            [unsupported_operators (filter (\<lambda>k. \<not> known_operator k) (map fst d)),
             reject (d = []) ''must declare an operator'',
             reject (dhas d ''required'' \<and> dget d ''required'' \<noteq> PBool True) ''only accepts JSON true'',
             (if dhas d ''equals'' then validate_scalar (dget d ''equals'') else Inr ()),
             (if dhas d ''one_of'' then validate_choices (dget d ''one_of'') else Inr ()),
             forR (\<lambda>operator. if dhas d operator then validate_scalar (dget d operator) else Inr ())
               [''min_version'', ''max_version'']] ()
      | _ \<Rightarrow> validate_scalar v)"

fun nonempty_key :: "pykey \<Rightarrow> bool" where
  "nonempty_key (KStr s) = (s \<noteq> [])"
| "nonempty_key _ = False"

definition validate_knowledge_constraints :: "pyval \<Rightarrow> unit res" where
  "validate_knowledge_constraints constraints =
     (case constraints of
        PDict d \<Rightarrow>
          forR (\<lambda>kv. if \<not> nonempty_key (fst kv) then Inl (ValueError ''keys must be non-empty strings'')
                    else validate_constraint (snd kv)) d
      | _ \<Rightarrow> Inl (ValueError ''must be an object''))"

section \<open>Identities\<close>

text \<open>\<open>if not self.id: self.id = stable_id(prefix, payload, n)\<close>, and the contracts whose
  given id must be the computed one.\<close>

definition default_id_n :: "string \<Rightarrow> string \<Rightarrow> pyval \<Rightarrow> nat \<Rightarrow> string res" where
  "default_id_n i prefix payload n = (if i = [] then stable_id_n prefix payload n else Inr i)"

definition default_id :: "string \<Rightarrow> string \<Rightarrow> pyval \<Rightarrow> string res" where
  "default_id i prefix payload = default_id_n i prefix payload 24"

definition closed_id_n :: "string \<Rightarrow> string \<Rightarrow> pyval \<Rightarrow> nat \<Rightarrow> string \<Rightarrow> string res" where
  "closed_id_n i prefix payload n msg =
     bindR (stable_id_n prefix payload n) (\<lambda>expected.
     checks [reject (i \<noteq> [] \<and> i \<noteq> expected) msg] expected)"

definition closed_id :: "string \<Rightarrow> string \<Rightarrow> pyval \<Rightarrow> string \<Rightarrow> string res" where
  "closed_id i prefix payload msg = closed_id_n i prefix payload 24 msg"

text \<open>An optional identifier that must be namespaced when present.\<close>

definition opt_namespaced :: "string option \<Rightarrow> unit res" where
  "opt_namespaced s = (case s of None \<Rightarrow> Inr () | Some x \<Rightarrow> require_namespaced x)"

section \<open>Lemmas\<close>

declare reject_embedded_body_fields.simps [simp del]

lemma default_id_n_not_Nil [idem_dest]: "default_id_n i p v n = Inr j \<Longrightarrow> j \<noteq> []"
  by (auto simp: default_id_n_def stable_id_n_def res_iff split: if_splits)

lemma default_id_not_Nil [idem_dest]: "default_id i p v = Inr j \<Longrightarrow> j \<noteq> []"
  unfolding default_id_def by (rule default_id_n_not_Nil)

lemma default_id_keep [simp]:
  "j \<noteq> [] \<Longrightarrow> default_id_n j p v n = Inr j" "j \<noteq> [] \<Longrightarrow> default_id j p v = Inr j"
  by (simp_all add: default_id_n_def default_id_def)

lemma closed_id_n_iff [res_iff]:
  "closed_id_n i p v n m = Inr j \<longleftrightarrow> stable_id_n p v n = Inr j \<and> (i = [] \<or> i = j)"
  by (auto simp: closed_id_n_def res_iff)

lemma closed_id_iff [res_iff]:
  "closed_id i p v m = Inr j \<longleftrightarrow> stable_id p v = Inr j \<and> (i = [] \<or> i = j)"
  by (auto simp: closed_id_def stable_id_def res_iff)

lemma opt_namespaced_iff [res_iff]:
  "opt_namespaced s = Inr u \<longleftrightarrow> (\<forall>x. s = Some x \<longrightarrow> is_namespaced x)"
  by (cases s) (simp_all add: opt_namespaced_def require_namespaced_def res_iff)

lemma enum_value_iff [res_iff]: "enum_value ms v = Inr u \<longleftrightarrow> v \<in> set ms"
  by (simp add: enum_value_def res_iff)

lemma require_fact_authority_iff [res_iff]:
  "require_fact_authority a = Inr u \<longleftrightarrow> a \<notin> set NON_FACT_AUTHORITIES"
  by (simp add: require_fact_authority_def res_iff)

lemma require_namespaced_iff [res_iff]: "require_namespaced s = Inr u \<longleftrightarrow> is_namespaced s"
  by (simp add: require_namespaced_def res_iff)

declare is_namespaced.simps [simp del]

lemmas namespaced_eval = is_namespaced.simps namespaced_char_def char_class_defs

text \<open>A search for any of the four patterns needs a separator in the text.\<close>

lemma search_from_sep:
  assumes "\<And>q r. p q r \<Longrightarrow> \<exists>c \<in> set r. at_sep c"
  shows "search_from p prev s \<Longrightarrow> \<exists>c \<in> set s. at_sep c"
proof (induction s arbitrary: prev)
  case Nil
  with assms [of prev "[]"] show ?case by simp
next
  case (Cons c s)
  then show ?case using assms [of prev "c # s"] by auto
qed

lemma has_absolute_path_sep: "has_absolute_path s \<Longrightarrow> \<exists>c \<in> set s. at_sep c"
proof -
  have "\<exists>c \<in> set r. at_sep c" if "windows_absolute_at q r" for q r
    using that by (cases "(q, r)" rule: windows_absolute_at.cases) auto
  moreover have "\<exists>c \<in> set r. at_sep c" if "unc_absolute_at q r" for q r
    using that by (cases "(q, r)" rule: unc_absolute_at.cases) auto
  moreover have "\<exists>c \<in> set r. at_sep c" if "posix_absolute_at q r" for q r
    using that by (cases r) (auto simp: at_sep_def)
  moreover have "\<exists>c \<in> set r. at_sep c" if "rooted_windows_at q r" for q r
    using that by (cases r) (auto simp: at_sep_def)
  ultimately show "has_absolute_path s \<Longrightarrow> \<exists>c \<in> set s. at_sep c"
    unfolding has_absolute_path_def search_def
    by (elim disjE) (erule search_from_sep [rotated], blast)+
qed

lemma at_sep_not_hex: "is_hex_lower c \<Longrightarrow> \<not> at_sep c"
  by (auto simp: at_sep_def char_class_defs)

lemma redacted_no_sep: "c \<in> set (''redacted.sha256:'' @ sha256_hex s) \<Longrightarrow> \<not> at_sep c"
proof -
  assume "c \<in> set (''redacted.sha256:'' @ sha256_hex s)"
  then consider "c \<in> set ''redacted.sha256:''" | "c \<in> set (sha256_hex s)"
    unfolding set_append by blast
  then show ?thesis
  proof cases
    case 1
    then show ?thesis by (auto simp: at_sep_def)
  next
    case 2
    have "list_all is_hex_lower (sha256_hex s)" using sha256_hex_shape by (simp add: is_sha256_lower_def)
    with 2 show ?thesis by (simp add: list_all_iff at_sep_not_hex)
  qed
qed

lemma redacted_not_blank: "strip (''redacted.sha256:'' @ t) \<noteq> []"
proof -
  have "strip (c # t) \<noteq> []" if "\<not> is_space c" for c t
    using that by (auto simp: strip_def lstrip_def)
  then show ?thesis by (simp add: char_class_defs)
qed

lemma nul_not_hex: "is_hex_lower c \<Longrightarrow> c \<noteq> nul"
  by (auto simp: char_class_defs)

lemma redacted_no_nul: "\<not> has_nul (''redacted.sha256:'' @ sha256_hex s)"
proof -
  have "list_all is_hex_lower (sha256_hex s)" using sha256_hex_shape by (simp add: is_sha256_lower_def)
  then have "nul \<notin> set (sha256_hex s)" using nul_not_hex by (auto simp: list_all_iff)
  then show ?thesis by (simp add: has_nul_def)
qed

lemma require_safe_anchor_text_cases:
  assumes "require_safe_anchor_text n v = Inr w"
  obtains "v = PNone" "w = PNone"
    | s t where "v = PStr s" "w = PStr t" "\<not> has_absolute_path t" "strip t \<noteq> []" "\<not> has_nul t"
        "has_absolute_path s \<longrightarrow> t = ''redacted.sha256:'' @ sha256_hex s"
        "\<not> has_absolute_path s \<longrightarrow> t = s" "length t \<le> n \<or> length t = 80"
proof (cases v)
  case PNone
  with assms that(1) show ?thesis by (simp add: require_safe_anchor_text_def)
next
  case (PStr s)
  show ?thesis
  proof (cases "has_absolute_path s")
    case True
    let ?t = "''redacted.sha256:'' @ sha256_hex s"
    have "\<not> has_absolute_path ?t" using has_absolute_path_sep redacted_no_sep by blast
    then show ?thesis
      using assms PStr True redacted_not_blank redacted_no_nul
      by (intro that(2) [of s ?t]) (simp_all add: require_safe_anchor_text_def split: if_splits)
  next
    case False
    with assms PStr show ?thesis
      by (intro that(2) [of s s]) (simp_all add: require_safe_anchor_text_def split: if_splits)
  qed
qed (use assms in \<open>simp_all add: require_safe_anchor_text_def\<close>)

lemma require_safe_anchor_text_idem:
  assumes "require_safe_anchor_text n v = Inr w" and "80 \<le> n"
  shows "require_safe_anchor_text n w = Inr w"
  using assms(1)
proof (cases rule: require_safe_anchor_text_cases)
  case (2 s t)
  with assms show ?thesis by (auto simp: require_safe_anchor_text_def)
qed (simp add: require_safe_anchor_text_def)

lemma safe_relative_path_iff:
  "safe_relative_path v = Inr n \<longleftrightarrow>
     n = replace_char backslash slash v \<and> \<not> has_nul n \<and> \<not> has_drive n
     \<and> (\<forall>p \<in> set (split_on slash n). \<not> unsafe_part p)"
proof -
  let ?n = "replace_char backslash slash v"
  have "?n = [] \<or> starts_with [slash] ?n \<Longrightarrow> [] \<in> set (split_on slash ?n)"
    by (cases ?n) (auto simp: starts_with_def)
  moreover have "unsafe_part []" by (simp add: unsafe_part_def)
  ultimately show ?thesis
    unfolding safe_relative_path_def Let_def list_ex_iff by (smt (verit) Inl_Inr_False sum.inject(2))
qed

lemma safe_relative_path_idem: "safe_relative_path v = Inr n \<Longrightarrow> safe_relative_path n = Inr n"
  by (auto simp: safe_relative_path_iff replace_char_id replace_char_notin)

lemma safe_relative_path_no_backslash: "safe_relative_path v = Inr n \<Longrightarrow> backslash \<notin> set n"
  by (auto simp: safe_relative_path_iff replace_char_notin)

lemma safe_relative_path_fixed [idem_dest]:
  "safe_relative_path v = Inr n \<Longrightarrow> fixed safe_relative_path n"
  unfolding fixed_def by (rule safe_relative_path_idem)

lemma mapR_safe_relative_path_fixed [idem_dest]:
  "mapR safe_relative_path xs = Inr ys \<Longrightarrow> fixed (mapR safe_relative_path) ys"
  by (rule fixed_mapR) (rule safe_relative_path_fixed)

lemma require_safe_anchor_text_fixed [idem_dest]:
  "require_safe_anchor_text n v = Inr w \<Longrightarrow> 80 \<le> n \<Longrightarrow> fixed (require_safe_anchor_text n) w"
  unfolding fixed_def by (rule require_safe_anchor_text_idem)

lemma opt_relative_path_fixed [idem_dest]:
  "opt_relative_path p = Inr q \<Longrightarrow> fixed opt_relative_path q"
proof (cases p)
  case (Some s)
  assume eq: "opt_relative_path p = Inr q"
  show ?thesis
  proof (cases s)
    case Nil
    with Some eq show ?thesis by (auto simp: opt_relative_path_def fixed_def)
  next
    case (Cons c cs)
    with Some eq obtain n where q: "q = Some n" and n: "safe_relative_path (c # cs) = Inr n"
      by (auto simp: opt_relative_path_def res_iff)
    then have "safe_relative_path n = Inr n" by (blast intro: safe_relative_path_idem)
    with q show ?thesis by (cases n) (simp_all add: opt_relative_path_def fixed_def)
  qed
qed (auto simp: opt_relative_path_def fixed_def)

lemmas base_fixed [simp] =
  fixedD [of opt_relative_path]
  fixedD [of safe_relative_path] fixedD [of "mapR safe_relative_path"]
  fixedD [of "require_safe_anchor_text n" for n]

section \<open>Properties\<close>

text \<open>The directory a relative path leads to, component by component, as a file system
  resolves it: \<open>..\<close> leaves the directory.\<close>

fun walk :: "string list \<Rightarrow> string list \<Rightarrow> string list" where
  "walk dir [] = dir"
| "walk dir (p # ps) =
     (if p = [] \<or> p = ''.'' then walk dir ps
      else if p = ''..'' then walk (butlast dir) ps
      else walk (dir @ [p]) ps)"

lemma walk_safe: "\<forall>p \<in> set ps. \<not> unsafe_part p \<Longrightarrow> walk dir ps = dir @ ps"
  by (induction ps arbitrary: dir) (auto simp: unsafe_part_def)

text \<open>C31: a path that \<open>safe_relative_path\<close> accepts never leaves the project root, at no
  point of its resolution, and accepting it again changes nothing.\<close>
theorem safe_relative_path_contained:
  assumes "safe_relative_path v = Inr n"
  shows "walk dir (take k (split_on slash n)) = dir @ take k (split_on slash n)
         \<and> backslash \<notin> set n \<and> \<not> has_drive n \<and> safe_relative_path n = Inr n"
proof -
  have "\<forall>p \<in> set (take k (split_on slash n)). \<not> unsafe_part p"
    using assms by (auto simp: safe_relative_path_iff dest: in_set_takeD)
  then have "walk dir (take k (split_on slash n)) = dir @ take k (split_on slash n)"
    by (rule walk_safe)
  moreover have "\<not> has_drive n" using assms unfolding safe_relative_path_iff by blast
  ultimately show ?thesis
    using assms by (simp add: safe_relative_path_idem safe_relative_path_no_backslash)
qed

theorem safe_relative_path_contained_witness:
  "walk [''root''] (take 2 (split_on slash ''src/a.cpp'')) = [''root'', ''src'', ''a.cpp'']"
proof -
  have "safe_relative_path (''src'' @ [backslash] @ ''a.cpp'') = Inr ''src/a.cpp''"
    by (simp add: safe_relative_path_def replace_char_def has_nul_def starts_with_def unsafe_part_def)
  from safe_relative_path_contained [OF this, of "[''root'']" 2] show ?thesis by simp
qed

text \<open>Whatever anchor text is kept shows no host-absolute path, an absolute one is
  replaced by the digest of the text, and a kept text is kept unchanged the next time.\<close>
theorem anchor_text_redacted:
  assumes "require_safe_anchor_text n (PStr s) = Inr w" and "80 \<le> n"
  shows "\<exists>t. w = PStr t \<and> \<not> has_absolute_path t
           \<and> t = (if has_absolute_path s then ''redacted.sha256:'' @ sha256_hex s else s)
           \<and> require_safe_anchor_text n (PStr t) = Inr (PStr t)"
proof -
  from assms(1) obtain t where "w = PStr t" "\<not> has_absolute_path t"
      "t = (if has_absolute_path s then ''redacted.sha256:'' @ sha256_hex s else s)"
    by (cases rule: require_safe_anchor_text_cases) (auto split: if_splits)
  with require_safe_anchor_text_idem [OF assms] show ?thesis by metis
qed

theorem anchor_text_redacted_witness:
  "require_safe_anchor_text 512 (PStr (''redacted.sha256:'' @ sha256_hex ''/home/u''))
   = Inr (PStr (''redacted.sha256:'' @ sha256_hex ''/home/u''))"
proof -
  have abs: "has_absolute_path ''/home/u''" by code_simp
  have "strip ''/home/u'' \<noteq> []" "\<not> has_nul ''/home/u''" by code_simp+
  then have
    "require_safe_anchor_text 512 (PStr ''/home/u'') = Inr (PStr (''redacted.sha256:'' @ sha256_hex ''/home/u''))"
    using abs by (simp add: require_safe_anchor_text_def)
  from anchor_text_redacted [OF this] obtain t where
    "t = ''redacted.sha256:'' @ sha256_hex ''/home/u''"
    "require_safe_anchor_text 512 (PStr t) = Inr (PStr t)"
    using abs by (simp only: if_True) force
  then show ?thesis by simp
qed

end
