(* ===== verification/Contract.thy ===== *)
theory Contract
  imports ModelBase
begin

text \<open>
  What the store asks of a data contract.  The locale \<open>normaliser\<close> is the interface of
  a constructor whose results are accepted unchanged; \<open>content_addressed\<close> adds the id of a
  content-addressed record.  The client is \<open>_revalidate_model\<close> of
  \<open>hlsgraph/store/sqlite.py\<close>, which every write goes through: it rebuilds the value,
  demands that nothing was normalised, and rebuilds it once more with the id cleared.
  The model's records interpret the locales in the theories that define them.
\<close>

definition as_store_error :: "'a res \<Rightarrow> 'a res" where
  "as_store_error m =
     (case m of
        Inl (KeyError s) \<Rightarrow> Inl (StoreError (''invalid: '' @ s))
      | Inl (TypeError s) \<Rightarrow> Inl (StoreError (''invalid: '' @ s))
      | Inl (ValueError s) \<Rightarrow> Inl (StoreError (''invalid: '' @ s))
      | _ \<Rightarrow> m)"

definition revalidate_model ::
  "('a \<Rightarrow> 'a res) \<Rightarrow> ('a \<Rightarrow> string) \<Rightarrow> (string \<Rightarrow> 'a \<Rightarrow> 'a) \<Rightarrow> 'a \<Rightarrow> 'a res" where
  "revalidate_model build get_id set_id v =
     as_store_error
       (bindR (build v) (\<lambda>rebuilt.
        bindR (reject (rebuilt \<noteq> v) ''payload is not in canonical normalized form'') (\<lambda>_.
        bindR (build (set_id [] v)) (\<lambda>expected.
        bindR (reject (get_id v \<noteq> get_id expected) ''stable id does not match'') (\<lambda>_.
        Inr rebuilt)))))"

definition optR :: "('a \<Rightarrow> 'a res) \<Rightarrow> 'a option \<Rightarrow> 'a option res" where
  "optR f v = (case v of None \<Rightarrow> Inr None | Some x \<Rightarrow> mapr Some (f x))"

lemma as_store_error_Inr_iff [res_iff]: "as_store_error m = Inr x \<longleftrightarrow> m = Inr x"
  by (auto simp: as_store_error_def split: sum.splits py_exn.splits)

lemma optR_Inr_iff:
  "optR f v = Inr w \<longleftrightarrow> (v = None \<and> w = None) \<or> (\<exists>x y. v = Some x \<and> w = Some y \<and> f x = Inr y)"
  by (cases v) (auto simp: optR_def res_iff)

text \<open>\<open>from_dict\<close> builds a nested field with \<open>nest\<close> and then the record around it.\<close>

lemma nested_idem_gen:
  assumes "bindR (nest (get x)) (\<lambda>n. build (put n x)) = Inr y"
    and "\<And>n m. nest n = Inr m \<Longrightarrow> nest m = Inr m"
    and "\<And>n x y. nest n = Inr n \<Longrightarrow> build (put n x) = Inr y \<Longrightarrow> nest (get y) = Inr (get y) \<and> build y = Inr y"
    and "\<And>x. put (get x) x = x"
  shows "bindR (nest (get y)) (\<lambda>n. build (put n y)) = Inr y"
proof -
  from assms(1) obtain n where n: "nest (get x) = Inr n" and y: "build (put n x) = Inr y"
    by (auto simp: res_iff)
  have "nest (get y) = Inr (get y) \<and> build y = Inr y" by (rule assms(3) [OF assms(2) [OF n] y])
  then show ?thesis using assms(4) [of y] by simp
qed

lemma nested_idem:
  assumes "bindR (nest (get x)) (\<lambda>n. build (put n x)) = Inr y"
    and "\<And>n m. nest n = Inr m \<Longrightarrow> nest m = Inr m"
    and "\<And>x y. build x = Inr y \<Longrightarrow> build y = Inr y \<and> get y = get x"
    and "\<And>n x. get (put n x) = n" and "\<And>x. put (get x) x = x"
  shows "bindR (nest (get y)) (\<lambda>n. build (put n y)) = Inr y"
  using assms(1,2) by (rule nested_idem_gen) (use assms(3-5) in fastforce)+

lemma mapR_fixed_iff: "mapR f xs = Inr xs \<longleftrightarrow> (\<forall>x \<in> set xs. f x = Inr x)"
  by (simp add: mapR_Inr_iff list_all2_same)

section \<open>The interfaces\<close>

locale normaliser =
  fixes build :: "'a \<Rightarrow> 'a res"
  assumes idem: "build x = Inr y \<Longrightarrow> build y = Inr y"
begin

lemma built_fixed: "build x = Inr y \<Longrightarrow> fixed build y"
  unfolding fixed_def by (rule idem)

lemma built_list_fixed: "mapR build xs = Inr ys \<Longrightarrow> fixed (mapR build) ys"
  by (rule fixed_mapR) (rule built_fixed)

lemma built_option_fixed: "optR build v = Inr w \<Longrightarrow> fixed (optR build) w"
proof (cases v)
  case (Some x)
  assume "optR build v = Inr w"
  with Some obtain y where "w = Some y" "build x = Inr y" by (auto simp: optR_def mapr_Inr_iff)
  moreover from this have "build y = Inr y" using idem by metis
  ultimately show ?thesis by (simp add: fixed_def optR_def)
qed (simp add: fixed_def optR_def)

lemma built_list_idem: "mapR build xs = Inr ys \<Longrightarrow> mapR build ys = Inr ys"
  using built_list_fixed by (simp add: fixed_def)

lemma built_option_idem: "optR build v = Inr w \<Longrightarrow> optR build w = Inr w"
  using built_option_fixed by (simp add: fixed_def)

lemma fixed_iff_built: "fixed build y \<longleftrightarrow> (\<exists>x. build x = Inr y)"
  unfolding fixed_def using idem by metis

end

text \<open>A constructor that only checks.\<close>

lemma normaliser_checks:
  assumes "\<And>x. build x = checks (cs x) x"
  shows "normaliser build"
proof
  show "build y = Inr y" if "build x = Inr y" for x y
    using that checks_Inr_same [of "cs x" x y] assms by simp
qed

locale content_addressed = normaliser build for build :: "'a \<Rightarrow> 'a res" +
  fixes get_id :: "'a \<Rightarrow> string" and set_id :: "string \<Rightarrow> 'a \<Rightarrow> 'a"
  assumes set_get: "set_id (get_id x) x = x"
    and id_only: "build x = Inr y \<Longrightarrow> build (set_id [] x) = Inr z \<Longrightarrow> z = set_id (get_id z) y"
begin

lemma revalidate_iff:
  "revalidate_model build get_id set_id v = Inr r \<longleftrightarrow> r = v \<and> build (set_id [] v) = Inr v"
proof
  assume "revalidate_model build get_id set_id v = Inr r"
  then obtain e where v: "build v = Inr v" and r: "r = v"
    and e: "build (set_id [] v) = Inr e" and "get_id v = get_id e"
    by (auto simp: revalidate_model_def res_iff)
  moreover have "e = set_id (get_id e) v" by (rule id_only [OF v e])
  ultimately have "e = v" using set_get by metis
  with r e show "r = v \<and> build (set_id [] v) = Inr v" by simp
next
  assume "r = v \<and> build (set_id [] v) = Inr v"
  moreover from this have "build v = Inr v" using idem by metis
  ultimately show "revalidate_model build get_id set_id v = Inr r"
    by (simp add: revalidate_model_def reject_def as_store_error_def)
qed

lemma revalidated_content_addressed:
  assumes "revalidate_model build get_id set_id v = Inr r"
    and "revalidate_model build get_id set_id w = Inr s"
    and "set_id [] v = set_id [] w"
  shows "v = w"
  using assms by (simp add: revalidate_iff)

end

end
