(* ===== verification/Model_Core.thy ===== *)
theory Model_Core
  imports Contract
begin

text \<open>
  The references every other contract is built from (\<open>hlsgraph/model.py\<close>):
  \<open>SourceAnchor\<close>, \<open>EvidenceRef\<close>, \<open>ArtifactRef\<close> and the semantic compatibility
  records.  A dataclass is a record whose fields carry a short prefix; \<open>X_init\<close> is its
  \<open>__post_init__\<close>: it returns the normalised instance or the exception, and \<open>X_val\<close>
  is the instance as \<open>json_ready\<close> sees it.  The collection \<open>init_defs\<close> opens the
  constructors, \<open>identity_defs\<close> the payloads their ids are computed from.
\<close>

named_theorems init_defs
named_theorems identity_defs

section \<open>SourceAnchor\<close>

record SourceAnchor =
  sa_artifact_id :: pyval
  sa_start_line :: pyval
  sa_start_column :: pyval
  sa_end_line :: pyval
  sa_end_column :: pyval
  sa_symbol :: pyval
  sa_ir_location :: pyval
  sa_mapping_kind :: pyval
  sa_ambiguity :: pyval

definition SourceAnchor_val :: "SourceAnchor \<Rightarrow> pyval" where
  "SourceAnchor_val a = PObj
     [(''artifact_id'', sa_artifact_id a), (''start_line'', sa_start_line a),
      (''start_column'', sa_start_column a), (''end_line'', sa_end_line a),
      (''end_column'', sa_end_column a), (''symbol'', sa_symbol a),
      (''ir_location'', sa_ir_location a), (''mapping_kind'', sa_mapping_kind a),
      (''ambiguity'', sa_ambiguity a)]"

definition positive_or_none :: "pyval \<Rightarrow> bool" where
  "positive_or_none v = (v = PNone \<or> is_int_where (\<lambda>i. 1 \<le> i) v)"

definition SourceAnchor_init :: "SourceAnchor \<Rightarrow> SourceAnchor res" where
  "SourceAnchor_init a =
     bindR (checks
       [reject (\<not> is_str (sa_artifact_id a)) ''anchor artifact_id must be a string'',
        require_namespaced (str_of (sa_artifact_id a)),
        forR (\<lambda>v. reject (\<not> positive_or_none v) ''must be a positive integer or None'')
          [sa_start_line a, sa_start_column a, sa_end_line a, sa_end_column a]] ()) (\<lambda>_.
     bindR (require_safe_anchor_text 512 (sa_symbol a)) (\<lambda>symbol.
     bindR (require_safe_anchor_text 1024 (sa_ir_location a)) (\<lambda>ir_location.
     bindR (require_safe_anchor_text 256 (sa_mapping_kind a)) (\<lambda>mapping_kind.
     bindR (require_safe_anchor_text 1024 (sa_ambiguity a)) (\<lambda>ambiguity.
     Inr (a\<lparr>sa_symbol := symbol, sa_ir_location := ir_location,
            sa_mapping_kind := mapping_kind, sa_ambiguity := ambiguity\<rparr>))))))"

declare SourceAnchor_init_def [init_defs]

lemma SourceAnchor_idem: "SourceAnchor_init a = Inr b \<Longrightarrow> SourceAnchor_init b = Inr b"
  by (auto simp: init_defs res_iff dest!: idem_dest)

interpretation anchor: normaliser SourceAnchor_init
  by unfold_locales (rule SourceAnchor_idem)

lemmas anchor_fixed [idem_dest] =
  anchor.built_fixed anchor.built_list_fixed anchor.built_option_fixed

lemmas anchor_fixedD [simp] =
  fixedD [of SourceAnchor_init] fixedD [of "mapR SourceAnchor_init"] fixedD [of "optR SourceAnchor_init"]

section \<open>EvidenceRef\<close>

record EvidenceRef =
  er_kind :: string
  er_target_id :: string
  er_snapshot_id :: "string option"
  er_anchor :: "SourceAnchor option"
  er_id :: string

definition opt_anchor :: "SourceAnchor option \<Rightarrow> pyval" where
  "opt_anchor a = (case a of None \<Rightarrow> PNone | Some x \<Rightarrow> SourceAnchor_val x)"

definition EvidenceRef_val :: "EvidenceRef \<Rightarrow> pyval" where
  "EvidenceRef_val e = PObj
     [(''kind'', PStr (er_kind e)), (''target_id'', PStr (er_target_id e)),
      (''snapshot_id'', opt_str (er_snapshot_id e)), (''anchor'', opt_anchor (er_anchor e)),
      (''id'', PStr (er_id e))]"

definition evidence_anchor_check :: "EvidenceRef \<Rightarrow> unit res" where
  "evidence_anchor_check e =
     (if er_kind e \<in> {''observation'', ''derivation''}
      then reject (er_anchor e \<noteq> None) ''evidence cannot carry an artifact/entity anchor''
      else if er_kind e = ''artifact''
      then reject (case er_anchor e of None \<Rightarrow> False
                   | Some a \<Rightarrow> sa_artifact_id a \<noteq> PStr (er_target_id e))
             ''artifact evidence anchor must name the target artifact''
      else reject (er_kind e \<notin> {''entity_anchor'', ''relation''}) ''unsupported evidence kind'')"

definition EvidenceRef_identity :: "EvidenceRef \<Rightarrow> pyval" where
  "EvidenceRef_identity e = pdict
     [(''kind'', PStr (er_kind e)), (''target'', PStr (er_target_id e)),
      (''snapshot'', opt_str (er_snapshot_id e)), (''anchor'', opt_anchor (er_anchor e))]"

definition EvidenceRef_init :: "EvidenceRef \<Rightarrow> EvidenceRef res" where
  "EvidenceRef_init e =
     bindR (checks
       [enum_value EvidenceKind (er_kind e),
        require_namespaced (er_target_id e),
        opt_namespaced (er_snapshot_id e),
        evidence_anchor_check e] ()) (\<lambda>_.
     bindR (closed_id (er_id e) ''evidence_ref'' (EvidenceRef_identity e)
       ''evidence reference stable id does not match'') (\<lambda>expected_id.
     Inr (e\<lparr>er_id := expected_id\<rparr>)))"

declare EvidenceRef_init_def [init_defs] EvidenceRef_identity_def [identity_defs]
  evidence_anchor_check_def [identity_defs]

lemma EvidenceRef_id_only [simp]:
  "EvidenceRef_identity (e\<lparr>er_id := i\<rparr>) = EvidenceRef_identity e"
  "evidence_anchor_check (e\<lparr>er_id := i\<rparr>) = evidence_anchor_check e"
  by (simp_all add: identity_defs cong: option.case_cong)

lemma EvidenceRef_idem: "EvidenceRef_init e = Inr f \<Longrightarrow> EvidenceRef_init f = Inr f"
  by (auto simp: init_defs res_iff)

lemma EvidenceRef_init_iff:
  "EvidenceRef_init e = Inr f \<longleftrightarrow>
     er_kind e \<in> set EvidenceKind \<and> is_namespaced (er_target_id e)
     \<and> (\<forall>x. er_snapshot_id e = Some x \<longrightarrow> is_namespaced x) \<and> evidence_anchor_check e = Inr ()
     \<and> (\<exists>i. stable_id ''evidence_ref'' (EvidenceRef_identity e) = Inr i \<and> (er_id e = [] \<or> er_id e = i)
            \<and> f = e\<lparr>er_id := i\<rparr>)"
  by (auto simp: EvidenceRef_init_def res_iff)

text \<open>\<open>from_dict\<close> of what \<open>json_ready\<close> returns for an instance: the nested contracts are
  built again, then the instance.\<close>

definition EvidenceRef_from_dict :: "EvidenceRef \<Rightarrow> EvidenceRef res" where
  "EvidenceRef_from_dict e =
     bindR (optR SourceAnchor_init (er_anchor e)) (\<lambda>a. EvidenceRef_init (e\<lparr>er_anchor := a\<rparr>))"

lemma EvidenceRef_anchor: "EvidenceRef_init e = Inr f \<Longrightarrow> er_anchor f = er_anchor e"
  by (auto simp: EvidenceRef_init_def res_iff)

lemmas EvidenceRef_defs = EvidenceRef_from_dict_def EvidenceRef_init_def

interpretation evidence: content_addressed EvidenceRef_from_dict er_id "\<lambda>i. er_id_update (\<lambda>_. i)"
proof unfold_locales
  fix e f g :: EvidenceRef
  show "EvidenceRef_from_dict e = Inr f \<Longrightarrow> EvidenceRef_from_dict f = Inr f"
    unfolding EvidenceRef_from_dict_def
    by (erule nested_idem) (simp_all add: anchor.built_option_idem EvidenceRef_idem EvidenceRef_anchor)
qed (auto simp: EvidenceRef_defs res_iff)

lemmas evidence_fixed [idem_dest] = evidence.built_fixed evidence.built_list_fixed

lemmas evidence_fixedD [simp] =
  fixedD [of EvidenceRef_from_dict] fixedD [of "mapR EvidenceRef_from_dict"]

section \<open>ArtifactRef\<close>

record ArtifactRef =
  ar_kind :: string
  ar_uri :: string
  ar_sha256 :: string
  ar_size :: int
  ar_id :: string
  ar_media_type :: "string option"
  ar_role :: "string option"
  ar_license :: "string option"
  ar_producer_run_id :: "string option"
  ar_retention :: string
  ar_access :: string
  ar_metadata :: pydict

definition ArtifactRef_identity :: "ArtifactRef \<Rightarrow> pyval" where
  "ArtifactRef_identity r = pdict
     [(''kind'', PStr (ar_kind r)), (''uri'', PStr (ar_uri r)), (''sha256'', PStr (ar_sha256 r)),
      (''size'', PInt (ar_size r)), (''media_type'', opt_str (ar_media_type r)),
      (''role'', opt_str (ar_role r)), (''license'', opt_str (ar_license r)),
      (''producer_run_id'', opt_str (ar_producer_run_id r)), (''retention'', PStr (ar_retention r)),
      (''access'', PStr (ar_access r)), (''metadata'', PDict (ar_metadata r))]"

definition ArtifactRef_init :: "ArtifactRef \<Rightarrow> ArtifactRef res" where
  "ArtifactRef_init r =
     bindR (require_namespaced (ar_kind r)) (\<lambda>_.
     bindR (safe_relative_path (ar_uri r)) (\<lambda>uri.
     bindR (checks
       [reject (\<not> is_sha256 (ar_sha256 r)) ''artifact sha256 must contain 64 hexadecimal characters'',
        reject (ar_size r < 0) ''artifact size must be non-negative'',
        enum_value RetentionPolicy (ar_retention r),
        enum_value AccessPolicy (ar_access r),
        reject_embedded_body_fields (PDict (ar_metadata r))]
       (r\<lparr>ar_uri := uri, ar_sha256 := lower (ar_sha256 r)\<rparr>)) (\<lambda>r.
     bindR (default_id (ar_id r) ''artifact'' (ArtifactRef_identity r)) (\<lambda>i.
     Inr (r\<lparr>ar_id := i\<rparr>)))))"

declare ArtifactRef_init_def [init_defs] ArtifactRef_identity_def [identity_defs]

lemma ArtifactRef_idem: "ArtifactRef_init r = Inr s \<Longrightarrow> ArtifactRef_init s = Inr s"
  by (auto simp: init_defs res_iff dest!: idem_dest)

interpretation artifact: content_addressed ArtifactRef_init ar_id "\<lambda>i. ar_id_update (\<lambda>_. i)"
proof unfold_locales
  show "ArtifactRef_init r = Inr s \<Longrightarrow> ArtifactRef_init s = Inr s" for r s by (rule ArtifactRef_idem)
qed (auto simp: ArtifactRef_init_def res_iff)

section \<open>Semantic compatibility\<close>

record LanguageSpecCompatibility =
  ls_family :: string
  ls_revision :: string
  ls_compatibility_contract :: string

definition LanguageSpecCompatibility_init :: "LanguageSpecCompatibility \<Rightarrow> LanguageSpecCompatibility res" where
  "LanguageSpecCompatibility_init l =
     checks [require_namespaced (ls_family l), require_namespaced (ls_revision l),
             require_namespaced (ls_compatibility_contract l)] l"

definition LanguageSpecCompatibility_val :: "LanguageSpecCompatibility \<Rightarrow> pyval" where
  "LanguageSpecCompatibility_val l = PObj
     [(''family'', PStr (ls_family l)), (''revision'', PStr (ls_revision l)),
      (''compatibility_contract'', PStr (ls_compatibility_contract l))]"

record ArtifactSemanticClaim =
  sc_artifact_id :: string
  sc_artifact_revision :: string
  sc_adapter_contract :: string
  sc_adapter_version :: pyval
  sc_language_spec_contracts :: "LanguageSpecCompatibility list"

definition nonblank_str :: "pyval \<Rightarrow> bool" where
  "nonblank_str v = (is_str v \<and> strip (str_of v) \<noteq> [])"

definition ArtifactSemanticClaim_init :: "ArtifactSemanticClaim \<Rightarrow> ArtifactSemanticClaim res" where
  "ArtifactSemanticClaim_init c =
     (let values = sc_language_spec_contracts c in
      checks
        [require_namespaced (sc_artifact_id c),
         require_namespaced (sc_artifact_revision c),
         require_namespaced (sc_adapter_contract c),
         reject (\<not> nonblank_str (sc_adapter_version c)) ''semantic claim adapter_version is required'',
         reject (values = []) ''semantic claim requires a language specification contract'',
         reject (has_duplicates (map ls_family values))
           ''semantic claim language specification families must be unique'']
        (c\<lparr>sc_language_spec_contracts := sort_key ls_family values\<rparr>))"

record ArtifactSemanticAttestation =
  sm_snapshot_id :: string
  sm_artifact_id :: string
  sm_artifact_kind :: string
  sm_artifact_sha256 :: string
  sm_artifact_revision :: string
  sm_extraction_hash :: string
  sm_extractor_name :: string
  sm_extractor_version :: pyval
  sm_extractor_identity :: string
  sm_adapter_contract :: string
  sm_adapter_version :: pyval
  sm_language_spec_contracts :: "LanguageSpecCompatibility list"
  sm_attestation_contract :: string
  sm_origin_kind :: string
  sm_id :: string

definition ArtifactSemanticAttestation_identity :: "ArtifactSemanticAttestation \<Rightarrow> pyval" where
  "ArtifactSemanticAttestation_identity s = pdict
     [(''snapshot_id'', PStr (sm_snapshot_id s)), (''artifact_id'', PStr (sm_artifact_id s)),
      (''artifact_kind'', PStr (sm_artifact_kind s)), (''artifact_sha256'', PStr (sm_artifact_sha256 s)),
      (''artifact_revision'', PStr (sm_artifact_revision s)),
      (''extraction_hash'', PStr (sm_extraction_hash s)),
      (''extractor_name'', PStr (sm_extractor_name s)), (''extractor_version'', sm_extractor_version s),
      (''extractor_identity'', PStr (sm_extractor_identity s)),
      (''adapter_contract'', PStr (sm_adapter_contract s)), (''adapter_version'', sm_adapter_version s),
      (''language_spec_contracts'',
         PTuple (map LanguageSpecCompatibility_val (sm_language_spec_contracts s))),
      (''attestation_contract'', PStr (sm_attestation_contract s)),
      (''origin_kind'', PStr (sm_origin_kind s))]"

definition ArtifactSemanticAttestation_init ::
  "ArtifactSemanticAttestation \<Rightarrow> ArtifactSemanticAttestation res" where
  "ArtifactSemanticAttestation_init s =
     bindR (checks
       [require_namespaced (sm_snapshot_id s), require_namespaced (sm_artifact_id s),
        require_namespaced (sm_artifact_kind s),
        reject (\<not> is_sha256 (sm_artifact_sha256 s)) ''semantic attestation artifact_sha256 must be SHA-256'',
        require_namespaced (sm_artifact_revision s),
        reject (\<not> is_sha256 (sm_extraction_hash s)) ''semantic attestation extraction_hash must be SHA-256'',
        reject (\<not> is_sha256 (sm_extractor_identity s))
          ''semantic attestation extractor_identity must be SHA-256'',
        require_namespaced (sm_extractor_name s),
        reject (\<not> nonblank_str (sm_extractor_version s)) ''semantic attestation extractor_version is required'',
        require_namespaced (sm_adapter_contract s),
        reject (\<not> nonblank_str (sm_adapter_version s)) ''semantic attestation adapter_version is required'',
        require_namespaced (sm_attestation_contract s),
        reject (sm_origin_kind s \<noteq> ''immutable_extraction_manifest'')
          ''unsupported semantic attestation origin_kind'',
        reject (sm_language_spec_contracts s = [])
          ''semantic attestation requires a language specification contract'',
        reject (has_duplicates (map ls_family (sm_language_spec_contracts s)))
          ''semantic attestation language specification families must be unique'']
       (s\<lparr>sm_artifact_sha256 := lower (sm_artifact_sha256 s),
          sm_extraction_hash := lower (sm_extraction_hash s),
          sm_extractor_identity := lower (sm_extractor_identity s),
          sm_language_spec_contracts := sort_key ls_family (sm_language_spec_contracts s)\<rparr>)) (\<lambda>s.
     bindR (closed_id (sm_id s) ''semantic_attestation'' (ArtifactSemanticAttestation_identity s)
       ''semantic attestation stable id does not match'') (\<lambda>expected.
     Inr (s\<lparr>sm_id := expected\<rparr>)))"

declare LanguageSpecCompatibility_init_def [init_defs] ArtifactSemanticClaim_init_def [init_defs]
  ArtifactSemanticAttestation_init_def [init_defs]
  ArtifactSemanticAttestation_identity_def [identity_defs]

lemma LanguageSpecCompatibility_idem:
  "LanguageSpecCompatibility_init l = Inr m \<Longrightarrow> LanguageSpecCompatibility_init m = Inr m"
  by (auto simp: init_defs res_iff)

lemma sort_key_Nil_iff [simp]: "sort_key f xs = [] \<longleftrightarrow> xs = []"
  by (metis length_0_conv length_sort)

lemma distinct_map_sort_key [simp]: "distinct (map g (sort_key f xs)) \<longleftrightarrow> distinct (map g xs)"
  by (metis mset_eq_imp_distinct_iff mset_map mset_sort)

lemma ArtifactSemanticClaim_idem:
  "ArtifactSemanticClaim_init c = Inr d \<Longrightarrow> ArtifactSemanticClaim_init d = Inr d"
  by (auto simp: init_defs res_iff Let_def)

lemma ArtifactSemanticAttestation_idem:
  "ArtifactSemanticAttestation_init s = Inr t \<Longrightarrow> ArtifactSemanticAttestation_init t = Inr t"
  by (auto simp: init_defs res_iff identity_defs)

interpretation attestation: content_addressed ArtifactSemanticAttestation_init sm_id "\<lambda>i. sm_id_update (\<lambda>_. i)"
proof unfold_locales
  show "ArtifactSemanticAttestation_init r = Inr s \<Longrightarrow> ArtifactSemanticAttestation_init s = Inr s" for r s
    by (rule ArtifactSemanticAttestation_idem)
qed (auto simp: ArtifactSemanticAttestation_init_def res_iff identity_defs)

end
