(* ===== verification/Model_Manifest.thy ===== *)
theory Model_Manifest
  imports Model_Core
begin

text \<open>
  The project manifest (\<open>hlsgraph/model.py\<close>): build context, target, constraints,
  toolchains, declared tool outputs, the manifest that ties stages, toolchains and
  outputs together, \<open>toolchain_for_stage\<close>, and the design snapshot it is hashed into.
  A \<open>dict\<close> with string keys is an association list in insertion order.
\<close>

section \<open>Build and target\<close>

record TranslationUnit =
  tu_file :: string
  tu_directory :: string
  tu_arguments :: "string list"
  tu_output :: "string option"

definition TranslationUnit_init :: "TranslationUnit \<Rightarrow> TranslationUnit res" where
  "TranslationUnit_init t =
     bindR (safe_relative_path (tu_file t)) (\<lambda>f.
     bindR (if tu_directory t \<in> {[], ''.''} then Inr (tu_directory t)
            else safe_relative_path (tu_directory t)) (\<lambda>d.
     Inr (t\<lparr>tu_file := f, tu_directory := d\<rparr>)))"

definition TranslationUnit_val :: "TranslationUnit \<Rightarrow> pyval" where
  "TranslationUnit_val t = PObj
     [(''file'', PStr (tu_file t)), (''directory'', PStr (tu_directory t)),
      (''arguments'', str_list (tu_arguments t)), (''output'', opt_str (tu_output t))]"

record BuildContext =
  bc_top :: string
  bc_language :: string
  bc_translation_units :: "TranslationUnit list"
  bc_include_dirs :: "string list"
  bc_defines :: pydict
  bc_cflags :: "string list"
  bc_config_files :: "string list"
  bc_tcl_files :: "string list"
  bc_testbench_files :: "string list"
  bc_golden_files :: "string list"
  bc_dependencies :: "pyval list"
  bc_flow_target :: string
  bc_compile_commands :: "string option"

definition BuildContext_init :: "BuildContext \<Rightarrow> BuildContext res" where
  "BuildContext_init b =
     bindR (reject (bc_top b = []) ''build.top is required'') (\<lambda>_.
     bindR (mapR safe_relative_path (bc_include_dirs b)) (\<lambda>include_dirs.
     bindR (mapR safe_relative_path (bc_config_files b)) (\<lambda>config_files.
     bindR (mapR safe_relative_path (bc_tcl_files b)) (\<lambda>tcl_files.
     bindR (mapR safe_relative_path (bc_testbench_files b)) (\<lambda>testbench_files.
     bindR (mapR safe_relative_path (bc_golden_files b)) (\<lambda>golden_files.
     bindR (opt_relative_path (bc_compile_commands b)) (\<lambda>compile_commands.
     checks [reject_embedded_body_fields (PList (bc_dependencies b))]
       (b\<lparr>bc_include_dirs := include_dirs, bc_config_files := config_files,
          bc_tcl_files := tcl_files, bc_testbench_files := testbench_files,
          bc_golden_files := golden_files, bc_compile_commands := compile_commands\<rparr>))))))))"

definition BuildContext_val :: "BuildContext \<Rightarrow> pyval" where
  "BuildContext_val b = PObj
     [(''top'', PStr (bc_top b)), (''language'', PStr (bc_language b)),
      (''translation_units'', PList (map TranslationUnit_val (bc_translation_units b))),
      (''include_dirs'', str_list (bc_include_dirs b)), (''defines'', PDict (bc_defines b)),
      (''cflags'', str_list (bc_cflags b)), (''config_files'', str_list (bc_config_files b)),
      (''tcl_files'', str_list (bc_tcl_files b)), (''testbench_files'', str_list (bc_testbench_files b)),
      (''golden_files'', str_list (bc_golden_files b)), (''dependencies'', PList (bc_dependencies b)),
      (''flow_target'', PStr (bc_flow_target b)), (''compile_commands'', opt_str (bc_compile_commands b))]"

record ClockConstraint =
  cc_name :: string
  cc_period_ns :: pyval
  cc_uncertainty_ns :: pyval
  cc_source :: "string option"

definition ClockConstraint_init :: "ClockConstraint \<Rightarrow> ClockConstraint res" where
  "ClockConstraint_init c =
     bindR (compare_zero (\<lambda>s. s \<le> 0) (cc_period_ns c)) (\<lambda>bad_period.
     bindR (if bad_period then Inr True else compare_zero (\<lambda>s. s < 0) (cc_uncertainty_ns c)) (\<lambda>bad.
     checks [reject bad ''clock period must be positive and uncertainty non-negative''] c))"

definition ClockConstraint_val :: "ClockConstraint \<Rightarrow> pyval" where
  "ClockConstraint_val c = PObj
     [(''name'', PStr (cc_name c)), (''period_ns'', cc_period_ns c),
      (''uncertainty_ns'', cc_uncertainty_ns c), (''source'', opt_str (cc_source c))]"

record TargetProfile =
  tp_vendor :: string
  tp_part :: "string option"
  tp_package :: "string option"
  tp_speed_grade :: "string option"
  tp_board :: "string option"
  tp_platform :: "string option"
  tp_platform_hash :: "string option"
  tp_capacities :: pydict
  tp_reserved_resources :: pydict
  tp_clocks :: "ClockConstraint list"
  tp_memory_topology :: "pyval list"
  tp_metadata :: pydict

definition exceeds_capacity :: "pydict \<Rightarrow> pykey \<times> pyval \<Rightarrow> bool" where
  "exceeds_capacity capacities kv =
     (case map_of capacities (fst kv) of
        None \<Rightarrow> False
      | Some cap \<Rightarrow> (case (num_val (snd kv), num_val cap) of
            (Some r, Some c) \<Rightarrow> c < r
          | _ \<Rightarrow> False))"

definition TargetProfile_init :: "TargetProfile \<Rightarrow> TargetProfile res" where
  "TargetProfile_init t =
     checks
       [require_nonnegative_finite_map (tp_capacities t),
        require_nonnegative_finite_map (tp_reserved_resources t),
        forR (\<lambda>kv. reject (exceeds_capacity (tp_capacities t) kv) ''target reserved resource exceeds capacity'')
          (tp_reserved_resources t),
        reject_embedded_body_fields (PList (tp_memory_topology t)),
        reject_embedded_body_fields (PDict (tp_metadata t))] t"

definition TargetProfile_val :: "TargetProfile \<Rightarrow> pyval" where
  "TargetProfile_val t = PObj
     [(''vendor'', PStr (tp_vendor t)), (''part'', opt_str (tp_part t)),
      (''package'', opt_str (tp_package t)), (''speed_grade'', opt_str (tp_speed_grade t)),
      (''board'', opt_str (tp_board t)), (''platform'', opt_str (tp_platform t)),
      (''platform_hash'', opt_str (tp_platform_hash t)), (''capacities'', PDict (tp_capacities t)),
      (''reserved_resources'', PDict (tp_reserved_resources t)),
      (''clocks'', PList (map ClockConstraint_val (tp_clocks t))),
      (''memory_topology'', PList (tp_memory_topology t)), (''metadata'', PDict (tp_metadata t))]"

record ConstraintSet =
  cs_performance :: pydict
  cs_resources :: pydict
  cs_power :: pydict
  cs_numerical :: pydict
  cs_interfaces :: pydict
  cs_xdc_files :: "string list"
  cs_assumptions :: "string list"

definition ConstraintSet_init :: "ConstraintSet \<Rightarrow> ConstraintSet res" where
  "ConstraintSet_init c =
     bindR (mapR safe_relative_path (cs_xdc_files c)) (\<lambda>xdc_files.
     checks
       (require_nonnegative_finite_map (cs_resources c)
        # map (\<lambda>d. reject_embedded_body_fields (PDict d))
            [cs_performance c, cs_power c, cs_numerical c, cs_interfaces c])
       (c\<lparr>cs_xdc_files := xdc_files\<rparr>))"

definition ConstraintSet_val :: "ConstraintSet \<Rightarrow> pyval" where
  "ConstraintSet_val c = PObj
     [(''performance'', PDict (cs_performance c)), (''resources'', PDict (cs_resources c)),
      (''power'', PDict (cs_power c)), (''numerical'', PDict (cs_numerical c)),
      (''interfaces'', PDict (cs_interfaces c)), (''xdc_files'', str_list (cs_xdc_files c)),
      (''assumptions'', str_list (cs_assumptions c))]"

section \<open>Toolchains and declared outputs\<close>

record ToolchainContext =
  tc_id :: string
  tc_vendor :: string
  tc_name :: string
  tc_version :: string
  tc_build :: "string option"
  tc_executable :: "string option"
  tc_environment_hash :: "string option"
  tc_metadata :: pydict

definition ToolchainContext_init :: "ToolchainContext \<Rightarrow> ToolchainContext res" where
  "ToolchainContext_init t =
     checks [require_namespaced (tc_id t), reject_embedded_body_fields (PDict (tc_metadata t))] t"

definition ToolchainContext_val :: "ToolchainContext \<Rightarrow> pyval" where
  "ToolchainContext_val t = PObj
     [(''id'', PStr (tc_id t)), (''vendor'', PStr (tc_vendor t)), (''name'', PStr (tc_name t)),
      (''version'', PStr (tc_version t)), (''build'', opt_str (tc_build t)),
      (''executable'', opt_str (tc_executable t)),
      (''environment_hash'', opt_str (tc_environment_hash t)), (''metadata'', PDict (tc_metadata t))]"

record ToolOutputSpec =
  os_path :: string
  os_kind :: string
  os_role :: string
  os_access :: string
  os_license :: "string option"
  os_required :: bool
  os_consumed_by :: "string list"
  os_metadata :: pydict

definition ToolOutputSpec_init :: "ToolOutputSpec \<Rightarrow> ToolOutputSpec res" where
  "ToolOutputSpec_init s =
     bindR (safe_relative_path (os_path s)) (\<lambda>path.
     checks
       [require_namespaced (os_kind s), require_namespaced (os_role s),
        enum_value AccessPolicy (os_access s),
        forR require_namespaced (os_consumed_by s),
        reject (has_duplicates (os_consumed_by s)) ''tool output consumed_by stages must be unique'',
        reject_embedded_body_fields (PDict (os_metadata s))]
       (s\<lparr>os_path := path\<rparr>))"

definition ToolOutputSpec_val :: "ToolOutputSpec \<Rightarrow> pyval" where
  "ToolOutputSpec_val s = PObj
     [(''path'', PStr (os_path s)), (''kind'', PStr (os_kind s)), (''role'', PStr (os_role s)),
      (''access'', PStr (os_access s)), (''license'', opt_str (os_license s)),
      (''required'', PBool (os_required s)), (''consumed_by'', str_list (os_consumed_by s)),
      (''metadata'', PDict (os_metadata s))]"

section \<open>The manifest\<close>

record ProjectManifest =
  pm_project_id :: string
  pm_name :: string
  pm_build :: BuildContext
  pm_target :: TargetProfile
  pm_constraints :: ConstraintSet
  pm_toolchains :: "ToolchainContext list"
  pm_artifact_paths :: "pyval list"
  pm_stage_commands :: "(string \<times> pyval list) list"
  pm_stage_outputs :: "(string \<times> ToolOutputSpec list) list"
  pm_stage_toolchains :: "(string \<times> string) list"
  pm_schema_version :: string
  pm_metadata :: pydict

definition declared_stages :: "ProjectManifest \<Rightarrow> string set" where
  "declared_stages m = fst ` set (pm_stage_commands m)"

definition validate_stage_command :: "string \<times> pyval list \<Rightarrow> unit res" where
  "validate_stage_command sc =
     checks [require_namespaced (fst sc),
             reject (snd sc = [] \<or> \<not> list_all (\<lambda>x. is_str x \<and> str_of x \<noteq> []) (snd sc))
               ''stage command must be a non-empty argv list''] ()"

definition validate_stage_output :: "ProjectManifest \<Rightarrow> string \<times> ToolOutputSpec list \<Rightarrow> unit res" where
  "validate_stage_output m so =
     checks
       [require_namespaced (fst so),
        reject (fst so \<notin> declared_stages m) ''stage outputs have no matching stage command'',
        reject (has_duplicates (map os_path (snd so))) ''stage outputs contain duplicate paths'',
        reject (\<exists>item \<in> set (snd so). \<exists>consumer \<in> set (os_consumed_by item). consumer \<notin> declared_stages m)
          ''stage outputs reference unknown consumer stages: '',
        reject (\<exists>item \<in> set (snd so). fst so \<in> set (os_consumed_by item))
          ''stage outputs cannot be consumed by the same stage''] ()"

definition output_paths :: "ProjectManifest \<Rightarrow> string list" where
  "output_paths m = map os_path (concat (map snd (pm_stage_outputs m)))"

definition validate_stage_toolchains :: "ProjectManifest \<Rightarrow> unit res" where
  "validate_stage_toolchains m =
     (let toolchain_ids = map tc_id (pm_toolchains m) in
      checks
        [forR require_namespaced toolchain_ids,
         reject (has_duplicates toolchain_ids) ''toolchain IDs must be unique'',
         forR (\<lambda>st. checks
             [require_namespaced (fst st), require_namespaced (snd st),
              reject (fst st \<notin> declared_stages m) ''stage toolchain has no matching stage command'',
              reject (snd st \<notin> set toolchain_ids) ''stage toolchain references unknown toolchain''] ())
           (pm_stage_toolchains m),
         reject (pm_stage_commands m \<noteq> [] \<and> toolchain_ids = [])
           ''stage commands require at least one declared toolchain'',
         reject (length toolchain_ids > 1
                 \<and> \<not> declared_stages m \<subseteq> fst ` set (pm_stage_toolchains m))
           ''multiple toolchains require an explicit stage_toolchains mapping for: ''] ())"

definition ProjectManifest_init :: "ProjectManifest \<Rightarrow> ProjectManifest res" where
  "ProjectManifest_init m =
     checks
       [require_namespaced (pm_project_id m),
        reject (pm_name m = []) ''manifest name is required'',
        reject_embedded_body_fields (PDict (pm_metadata m)),
        forR validate_stage_command (pm_stage_commands m),
        forR (validate_stage_output m) (pm_stage_outputs m),
        reject (has_duplicates (output_paths m)) ''tool output paths must be globally unique across stages'',
        validate_stage_toolchains m] m"

definition toolchain_for_stage :: "ProjectManifest \<Rightarrow> string \<Rightarrow> ToolchainContext res" where
  "toolchain_for_stage m stage =
     bindR (checks
       [require_namespaced stage,
        reject (stage \<notin> declared_stages m) ''manifest has no command for stage'',
        validate_stage_toolchains m] ()) (\<lambda>_.
     case map_of (pm_stage_toolchains m) stage of
       Some selected \<Rightarrow>
         (case filter (\<lambda>t. tc_id t = selected) (pm_toolchains m) of
            [t] \<Rightarrow> Inr t
          | _ \<Rightarrow> Inl (ValueError ''stage does not resolve to one toolchain''))
     | None \<Rightarrow>
         (case pm_toolchains m of
            [t] \<Rightarrow> Inr t
          | [] \<Rightarrow> Inl (ValueError ''stage has no declared toolchain'')
          | _ \<Rightarrow> Inl (ValueError ''stage requires an explicit stage_toolchains mapping'')))"

text \<open>\<open>json_ready(self)\<close> followed by \<open>from_dict\<close>: every nested contract is built again
  before the manifest itself is checked.\<close>

definition ProjectManifest_rebuild :: "ProjectManifest \<Rightarrow> ProjectManifest res" where
  "ProjectManifest_rebuild m =
     bindR (mapR TranslationUnit_init (bc_translation_units (pm_build m))) (\<lambda>units.
     bindR (BuildContext_init ((pm_build m)\<lparr>bc_translation_units := units\<rparr>)) (\<lambda>build.
     bindR (mapR ClockConstraint_init (tp_clocks (pm_target m))) (\<lambda>clocks.
     bindR (TargetProfile_init ((pm_target m)\<lparr>tp_clocks := clocks\<rparr>)) (\<lambda>target.
     bindR (ConstraintSet_init (pm_constraints m)) (\<lambda>constraints.
     bindR (mapR ToolchainContext_init (pm_toolchains m)) (\<lambda>toolchains.
     bindR (mapR (\<lambda>so. mapr (Pair (fst so)) (mapR ToolOutputSpec_init (snd so))) (pm_stage_outputs m)) (\<lambda>outputs.
     ProjectManifest_init
       (m\<lparr>pm_build := build, pm_target := target, pm_constraints := constraints,
          pm_toolchains := toolchains, pm_stage_outputs := outputs\<rparr>))))))))"

definition ProjectManifest_identity_payload :: "ProjectManifest \<Rightarrow> pyval res" where
  "ProjectManifest_identity_payload m =
     bindR (ProjectManifest_rebuild m) (\<lambda>_. Inr (pdict
       [(''project_id'', PStr (pm_project_id m)), (''name'', PStr (pm_name m)),
        (''build'', BuildContext_val (pm_build m)), (''target'', TargetProfile_val (pm_target m)),
        (''constraints'', ConstraintSet_val (pm_constraints m)),
        (''toolchains'', PList (map ToolchainContext_val (pm_toolchains m))),
        (''artifact_paths'', PList (pm_artifact_paths m)),
        (''stage_commands'', pdict (map (\<lambda>sc. (fst sc, PList (snd sc))) (pm_stage_commands m))),
        (''stage_outputs'',
           pdict (map (\<lambda>so. (fst so, PList (map ToolOutputSpec_val (snd so)))) (pm_stage_outputs m))),
        (''stage_toolchains'', pdict (map (\<lambda>st. (fst st, PStr (snd st))) (pm_stage_toolchains m))),
        (''schema_version'', PStr (pm_schema_version m))]))"

section \<open>DesignSnapshot\<close>

record DesignSnapshot =
  ds_project_id :: string
  ds_manifest_hash :: string
  ds_artifact_hashes :: "(string \<times> string) list"
  ds_build_hash :: string
  ds_target_hash :: string
  ds_constraint_hash :: string
  ds_toolchain_hash :: string
  ds_extraction_hash :: string
  ds_id :: string
  ds_parent_snapshot_id :: "string option"
  ds_action_id :: "string option"
  ds_created_at :: string
  ds_metadata :: pydict

definition DesignSnapshot_identity :: "DesignSnapshot \<Rightarrow> pyval" where
  "DesignSnapshot_identity s = pdict
     [(''project_id'', PStr (ds_project_id s)), (''manifest_hash'', PStr (ds_manifest_hash s)),
      (''artifact_hashes'', pdict (map (\<lambda>kv. (fst kv, PStr (snd kv))) (sort_key fst (ds_artifact_hashes s)))),
      (''build_hash'', PStr (ds_build_hash s)), (''target_hash'', PStr (ds_target_hash s)),
      (''constraint_hash'', PStr (ds_constraint_hash s)),
      (''toolchain_hash'', PStr (ds_toolchain_hash s)),
      (''extraction_hash'', PStr (ds_extraction_hash s)), (''action_id'', opt_str (ds_action_id s))]"

definition DesignSnapshot_init :: "DesignSnapshot \<Rightarrow> DesignSnapshot res" where
  "DesignSnapshot_init s =
     bindR (reject_embedded_body_fields (PDict (ds_metadata s))) (\<lambda>_.
     bindR (default_id_n (ds_id s) ''snapshot'' (DesignSnapshot_identity s) 32) (\<lambda>i.
     Inr (s\<lparr>ds_id := i\<rparr>)))"

declare TranslationUnit_init_def [init_defs] BuildContext_init_def [init_defs]
  ClockConstraint_init_def [init_defs] TargetProfile_init_def [init_defs]
  ConstraintSet_init_def [init_defs] ToolchainContext_init_def [init_defs]
  ToolOutputSpec_init_def [init_defs] ProjectManifest_init_def [init_defs]
  DesignSnapshot_init_def [init_defs] DesignSnapshot_identity_def [identity_defs]

section \<open>Lemmas\<close>

lemma TranslationUnit_idem: "TranslationUnit_init t = Inr u \<Longrightarrow> TranslationUnit_init u = Inr u"
  by (auto simp: init_defs res_iff split: if_splits dest!: idem_dest)

lemma BuildContext_idem: "BuildContext_init b = Inr c \<Longrightarrow> BuildContext_init c = Inr c"
  by (auto simp: init_defs res_iff dest!: idem_dest)

lemma ClockConstraint_same: "ClockConstraint_init c = Inr d \<Longrightarrow> d = c"
  unfolding ClockConstraint_init_def bindR_Inr_iff by (blast dest: checks_Inr_same)

lemma ClockConstraint_idem: "ClockConstraint_init c = Inr d \<Longrightarrow> ClockConstraint_init d = Inr d"
  using ClockConstraint_same by blast

lemma TargetProfile_idem: "TargetProfile_init t = Inr u \<Longrightarrow> TargetProfile_init u = Inr u"
  by (auto simp: init_defs res_iff)

lemma ConstraintSet_idem: "ConstraintSet_init c = Inr d \<Longrightarrow> ConstraintSet_init d = Inr d"
  by (auto simp: init_defs res_iff dest!: idem_dest)

lemma ToolchainContext_idem: "ToolchainContext_init t = Inr u \<Longrightarrow> ToolchainContext_init u = Inr u"
  by (auto simp: init_defs res_iff)

lemma ToolOutputSpec_idem: "ToolOutputSpec_init s = Inr t \<Longrightarrow> ToolOutputSpec_init t = Inr t"
  by (auto simp: init_defs res_iff dest!: idem_dest)

lemma ProjectManifest_idem: "ProjectManifest_init m = Inr n \<Longrightarrow> ProjectManifest_init n = Inr n"
  by (auto simp: init_defs checks_iff)

lemma DesignSnapshot_idem: "DesignSnapshot_init s = Inr t \<Longrightarrow> DesignSnapshot_init t = Inr t"
  by (auto simp: init_defs res_iff dest!: idem_dest)

lemma ProjectManifest_init_iff:
  "ProjectManifest_init m = Inr n \<longleftrightarrow>
     n = m \<and> is_namespaced (pm_project_id m) \<and> pm_name m \<noteq> []
     \<and> reject_embedded_body_fields (PDict (pm_metadata m)) = Inr ()
     \<and> (\<forall>sc \<in> set (pm_stage_commands m). validate_stage_command sc = Inr ())
     \<and> (\<forall>so \<in> set (pm_stage_outputs m). validate_stage_output m so = Inr ())
     \<and> distinct (output_paths m) \<and> validate_stage_toolchains m = Inr ()"
  by (auto simp: init_defs res_iff)

lemma validate_stage_toolchains_iff:
  "validate_stage_toolchains m = Inr u \<longleftrightarrow>
     (\<forall>t \<in> set (pm_toolchains m). is_namespaced (tc_id t)) \<and> distinct (map tc_id (pm_toolchains m))
     \<and> (\<forall>st \<in> set (pm_stage_toolchains m).
          is_namespaced (fst st) \<and> is_namespaced (snd st) \<and> fst st \<in> declared_stages m
          \<and> snd st \<in> tc_id ` set (pm_toolchains m))
     \<and> (pm_stage_commands m = [] \<or> pm_toolchains m \<noteq> [])
     \<and> (length (pm_toolchains m) > 1 \<longrightarrow> declared_stages m \<subseteq> fst ` set (pm_stage_toolchains m))"
  by (simp add: validate_stage_toolchains_def Let_def res_iff)

lemma filter_distinct_singleton:
  "distinct (map f xs) \<Longrightarrow> x \<in> set xs \<Longrightarrow> filter (\<lambda>y. f y = f x) xs = [x]"
  by (induction xs) (auto simp: filter_empty_conv, metis imageI)

lemma toolchain_for_stage_total:
  assumes m: "ProjectManifest_init m = Inr n" and st: "stage \<in> declared_stages m"
  shows "\<exists>t \<in> set (pm_toolchains m). toolchain_for_stage m stage = Inr t
           \<and> (\<forall>i. map_of (pm_stage_toolchains m) stage = Some i \<longrightarrow> tc_id t = i)"
proof -
  have vt: "validate_stage_toolchains m = Inr ()" and
    cmds: "\<forall>sc \<in> set (pm_stage_commands m). validate_stage_command sc = Inr ()"
    using m by (simp_all add: ProjectManifest_init_iff)
  note v = vt [unfolded validate_stage_toolchains_iff]
  have ns: "is_namespaced stage"
    using cmds st by (auto simp: declared_stages_def validate_stage_command_def res_iff)
  have pre: "toolchain_for_stage m stage =
     (case map_of (pm_stage_toolchains m) stage of
       Some selected \<Rightarrow>
         (case filter (\<lambda>t. tc_id t = selected) (pm_toolchains m) of
            [t] \<Rightarrow> Inr t
          | _ \<Rightarrow> Inl (ValueError ''stage does not resolve to one toolchain''))
     | None \<Rightarrow>
         (case pm_toolchains m of
            [t] \<Rightarrow> Inr t
          | [] \<Rightarrow> Inl (ValueError ''stage has no declared toolchain'')
          | _ \<Rightarrow> Inl (ValueError ''stage requires an explicit stage_toolchains mapping'')))"
    using ns st vt by (simp add: toolchain_for_stage_def checks_eval require_namespaced_def)
  show ?thesis
  proof (cases "map_of (pm_stage_toolchains m) stage")
    case (Some i)
    then have "(stage, i) \<in> set (pm_stage_toolchains m)" by (rule map_of_SomeD)
    then obtain t where t: "t \<in> set (pm_toolchains m)" "tc_id t = i" using v by force
    then have "filter (\<lambda>t. tc_id t = i) (pm_toolchains m) = [t]"
      using v filter_distinct_singleton [of tc_id] by metis
    with Some t show ?thesis unfolding pre by (intro bexI [of _ t]) simp_all
  next
    case None
    then have "stage \<notin> fst ` set (pm_stage_toolchains m)" by (simp add: map_of_eq_None_iff)
    then have "\<not> length (pm_toolchains m) > 1" using v st by blast
    moreover have "pm_toolchains m \<noteq> []" using v st by (auto simp: declared_stages_def)
    ultimately obtain t where "pm_toolchains m = [t]"
      by (cases "pm_toolchains m") auto
    with None show ?thesis unfolding pre by simp
  qed
qed

interpretation snapshot: content_addressed DesignSnapshot_init ds_id "\<lambda>i. ds_id_update (\<lambda>_. i)"
proof unfold_locales
  show "DesignSnapshot_init s = Inr t \<Longrightarrow> DesignSnapshot_init t = Inr t" for s t by (rule DesignSnapshot_idem)
qed (auto simp: DesignSnapshot_init_def res_iff identity_defs)

section \<open>Properties\<close>

text \<open>A small manifest: two stages, two toolchains, one output handed from one stage to the other.\<close>

definition witness_manifest :: ProjectManifest where
  "witness_manifest =
     \<lparr>pm_project_id = ''p'', pm_name = ''n'',
      pm_build = \<lparr>bc_top = ''t'', bc_language = ''c'', bc_translation_units = [], bc_include_dirs = [],
        bc_defines = [], bc_cflags = [], bc_config_files = [], bc_tcl_files = [], bc_testbench_files = [],
        bc_golden_files = [], bc_dependencies = [], bc_flow_target = ''v'', bc_compile_commands = None\<rparr>,
      pm_target = \<lparr>tp_vendor = ''v'', tp_part = None, tp_package = None, tp_speed_grade = None,
        tp_board = None, tp_platform = None, tp_platform_hash = None, tp_capacities = [],
        tp_reserved_resources = [], tp_clocks = [], tp_memory_topology = [], tp_metadata = []\<rparr>,
      pm_constraints = \<lparr>cs_performance = [], cs_resources = [], cs_power = [], cs_numerical = [],
        cs_interfaces = [], cs_xdc_files = [], cs_assumptions = []\<rparr>,
      pm_toolchains =
        [\<lparr>tc_id = ''x'', tc_vendor = ''v'', tc_name = ''n'', tc_version = ''1'', tc_build = None,
          tc_executable = None, tc_environment_hash = None, tc_metadata = []\<rparr>,
         \<lparr>tc_id = ''y'', tc_vendor = ''v'', tc_name = ''n'', tc_version = ''1'', tc_build = None,
          tc_executable = None, tc_environment_hash = None, tc_metadata = []\<rparr>],
      pm_artifact_paths = [],
      pm_stage_commands = [(''csim'', [PStr ''r'']), (''post_route'', [PStr ''r'']), (''lint'', [PStr ''r''])],
      pm_stage_outputs =
        [(''csim'', [\<lparr>os_path = ''o'', os_kind = ''amd.vitis.csim_result'', os_role = ''r'',
           os_access = ''private'', os_license = None, os_required = True, os_consumed_by = [''post_route''],
           os_metadata = []\<rparr>]),
         (''post_route'', [\<lparr>os_path = ''q'', os_kind = ''amd.vivado.post_route_timing'', os_role = ''r'',
           os_access = ''private'', os_license = None, os_required = True, os_consumed_by = [],
           os_metadata = []\<rparr>])],
      pm_stage_toolchains = [(''csim'', ''y''), (''post_route'', ''y''), (''lint'', ''y'')],
      pm_schema_version = ''1'', pm_metadata = []\<rparr>"

lemma witness_names:
  "is_namespaced ''p''" "is_namespaced ''csim''" "is_namespaced ''post_route''" "is_namespaced ''lint''"
  "is_namespaced ''x''" "is_namespaced ''y''"
  by code_simp+

lemma witness_manifest_built: "ProjectManifest_init witness_manifest = Inr witness_manifest"
  by (simp add: ProjectManifest_init_iff witness_manifest_def witness_names declared_stages_def
      validate_stage_command_def validate_stage_output_def output_paths_def validate_stage_toolchains_def
      checks_eval require_namespaced_def reject_embedded_body_fields.simps)

text \<open>Every stage a manifest declares a command for resolves to exactly one of its
  toolchains, the mapped one when the manifest maps the stage.\<close>
theorem every_stage_has_a_toolchain:
  assumes "ProjectManifest_init m = Inr n" and "stage \<in> declared_stages m"
  shows "\<exists>t \<in> set (pm_toolchains m). toolchain_for_stage m stage = Inr t
           \<and> (\<forall>i. map_of (pm_stage_toolchains m) stage = Some i \<longrightarrow> tc_id t = i)"
  using assms by (rule toolchain_for_stage_total)

theorem every_stage_has_a_toolchain_witness:
  "\<exists>t. toolchain_for_stage witness_manifest ''csim'' = Inr t \<and> tc_id t = ''y''"
proof -
  have "''csim'' \<in> declared_stages witness_manifest"
    by (simp add: declared_stages_def witness_manifest_def)
  from every_stage_has_a_toolchain [OF witness_manifest_built this]
  show ?thesis by (auto simp: witness_manifest_def)
qed

lemma distinct_concat_owner:
  assumes "distinct (map f (concat (map snd ps)))"
    and "(s, xs) \<in> set ps" "(t, ys) \<in> set ps" "x \<in> set xs" "y \<in> set ys" "f x = f y"
  shows "s = t \<and> x = y"
  using assms
proof (induction ps)
  case (Cons p ps)
  have inj: "f a = f b \<Longrightarrow> a \<in> set (snd p) \<Longrightarrow> b \<in> set (snd p) \<Longrightarrow> a = b" for a b
    using Cons.prems(1) by (auto simp: distinct_map dest: inj_onD)
  have apart: "f a \<noteq> f b" if "a \<in> set (snd p)" "b \<in> set zs" "(z, zs) \<in> set ps" for a b z zs
    using Cons.prems(1) that by (fastforce simp: image_def)
  have rest: "distinct (map f (concat (map snd ps)))" using Cons.prems(1) by simp
  consider "(s, xs) = p" "(t, ys) = p" | "(s, xs) = p" "(t, ys) \<in> set ps"
    | "(s, xs) \<in> set ps" "(t, ys) = p" | "(s, xs) \<in> set ps" "(t, ys) \<in> set ps"
    using Cons.prems(2,3) by auto
  then show ?case
  proof cases
    case 1
    then show ?thesis using inj [of x y] Cons.prems(4-6) by (metis Pair_inject snd_conv)
  next
    case 2
    then show ?thesis using apart [of x y ys t] Cons.prems(4-6) by (metis snd_conv)
  next
    case 3
    then show ?thesis using apart [of y x xs s] Cons.prems(4-6) by (metis snd_conv)
  next
    case 4
    then show ?thesis using Cons.IH [OF rest] Cons.prems(4-6) by blast
  qed
qed simp

text \<open>A declared output path has one owner: two declarations of the same path are the
  same declaration of the same stage, and its consumers are other declared stages.\<close>
theorem output_path_has_one_owner:
  assumes "ProjectManifest_init m = Inr n"
    and "(s, xs) \<in> set (pm_stage_outputs m)" "x \<in> set xs"
    and "(t, ys) \<in> set (pm_stage_outputs m)" "y \<in> set ys" "os_path x = os_path y"
  shows "s = t \<and> x = y \<and> s \<in> declared_stages m
         \<and> (\<forall>c \<in> set (os_consumed_by x). c \<in> declared_stages m \<and> c \<noteq> s)"
proof -
  have d: "distinct (map os_path (concat (map snd (pm_stage_outputs m))))"
    and v: "validate_stage_output m (s, xs) = Inr ()"
    using assms(1,2) by (auto simp: ProjectManifest_init_iff output_paths_def)
  have "s = t \<and> x = y"
    by (rule distinct_concat_owner [OF d assms(2,4,3,5,6)])
  then show ?thesis using v assms(3) by (auto simp: validate_stage_output_def res_iff)
qed

theorem output_path_has_one_owner_witness:
  "''csim'' \<in> declared_stages witness_manifest
   \<and> list_all (\<lambda>c. c \<noteq> ''csim'') (os_consumed_by (hd (snd (hd (pm_stage_outputs witness_manifest)))))"
proof -
  let ?so = "hd (pm_stage_outputs witness_manifest)"
  have "(''csim'', snd ?so) \<in> set (pm_stage_outputs witness_manifest)" "hd (snd ?so) \<in> set (snd ?so)"
    by (simp_all add: witness_manifest_def)
  from output_path_has_one_owner [OF witness_manifest_built this this]
  show ?thesis by (simp add: list_all_iff)
qed

end
