(* ===== verification/Model_Facts.thy ===== *)
theory Model_Facts
  imports Model_Manifest
begin

text \<open>
  Deterministic facts and the actions that produce them (\<open>hlsgraph/model.py\<close>):
  variant actions and their materialisations, correspondences, entities and relations,
  observations with their parser commitments, derivations, diagnostics, gates and
  verification results.  \<open>datetime.fromisoformat\<close> is the parameter \<open>parse_iso\<close>.
\<close>

section \<open>Actions\<close>

record VariantAction =
  va_parent_snapshot_id :: string
  va_kind :: string
  va_scope_id :: "string option"
  va_delta :: pydict
  va_proposer :: string
  va_id :: string
  va_rationale :: "string option"
  va_created_at :: string

definition VariantAction_identity :: "VariantAction \<Rightarrow> pyval" where
  "VariantAction_identity a = pdict
     [(''parent'', PStr (va_parent_snapshot_id a)), (''kind'', PStr (va_kind a)),
      (''scope'', opt_str (va_scope_id a)), (''delta'', PDict (va_delta a)),
      (''proposer'', PStr (va_proposer a))]"

definition VariantAction_init :: "VariantAction \<Rightarrow> VariantAction res" where
  "VariantAction_init a =
     bindR (checks [require_namespaced (va_kind a), reject_embedded_body_fields (PDict (va_delta a))] ()) (\<lambda>_.
     bindR (default_id (va_id a) ''action'' (VariantAction_identity a)) (\<lambda>i.
     Inr (a\<lparr>va_id := i\<rparr>)))"

record ActionMaterialization =
  am_action_id :: string
  am_parent_snapshot_id :: string
  am_status :: string
  am_id :: string
  am_result_snapshot_id :: "string option"
  am_diagnostic_ids :: "string list"
  am_evidence_refs :: "EvidenceRef list"
  am_attempted_at :: pyval
  am_metadata :: pydict

definition ActionMaterialization_identity :: "ActionMaterialization \<Rightarrow> pyval" where
  "ActionMaterialization_identity a = pdict
     [(''action'', PStr (am_action_id a)), (''parent'', PStr (am_parent_snapshot_id a)),
      (''status'', PStr (am_status a)), (''result'', opt_str (am_result_snapshot_id a)),
      (''diagnostics'', str_list (am_diagnostic_ids a)),
      (''evidence'', PList (map EvidenceRef_val (am_evidence_refs a))),
      (''attempted_at'', am_attempted_at a), (''metadata'', PDict (am_metadata a))]"

definition status_contract :: "ActionMaterialization \<Rightarrow> unit res" where
  "status_contract a =
     (if am_status a = ''materialized''
      then reject (am_result_snapshot_id a = None) ''materialized action requires a result_snapshot_id''
      else if am_status a = ''no_op''
      then checks [reject (am_result_snapshot_id a \<noteq> None) ''no-op action cannot have a result snapshot'',
                   reject (am_diagnostic_ids a = []) ''no-op action requires at least one diagnostic''] ()
      else if am_status a = ''failed''
      then reject (am_diagnostic_ids a = []) ''failed action requires at least one diagnostic''
      else Inr ())"

definition timestamp_contract :: "iso_parser \<Rightarrow> pyval \<Rightarrow> unit res" where
  "timestamp_contract parse_iso v =
     checks
       [reject (\<not> is_str v \<or> str_of v = [] \<or> length (str_of v) > 64 \<or> has_nul (str_of v))
          ''materialization attempted_at must be a bounded timestamp'',
        reject (parse_iso (zulu_offset (str_of v)) = None) ''materialization attempted_at must be ISO-8601'',
        reject (parse_iso (zulu_offset (str_of v)) = Some None)
          ''materialization attempted_at must include a timezone''] ()"

definition ActionMaterialization_init ::
  "iso_parser \<Rightarrow> ActionMaterialization \<Rightarrow> ActionMaterialization res" where
  "ActionMaterialization_init parse_iso a =
     bindR (checks
       [require_namespaced (am_action_id a),
        require_namespaced (am_parent_snapshot_id a),
        enum_value ActionMaterializationStatus (am_status a),
        opt_namespaced (am_result_snapshot_id a),
        reject (am_result_snapshot_id a = Some (am_parent_snapshot_id a))
          ''a materialization result must differ from its parent snapshot'',
        forR require_namespaced (am_diagnostic_ids a),
        reject (has_duplicates (am_diagnostic_ids a)) ''materialization diagnostic_ids must be unique'',
        reject (has_duplicates (map er_id (am_evidence_refs a))) ''materialization evidence_refs must be unique'',
        status_contract a,
        timestamp_contract parse_iso (am_attempted_at a),
        reject_embedded_body_fields (PDict (am_metadata a))]
       (a\<lparr>am_diagnostic_ids := sort (am_diagnostic_ids a),
          am_evidence_refs := sort_key er_id (am_evidence_refs a)\<rparr>)) (\<lambda>a.
     bindR (default_id (am_id a) ''materialization'' (ActionMaterialization_identity a)) (\<lambda>i.
     Inr (a\<lparr>am_id := i\<rparr>)))"

section \<open>EntityCorrespondence\<close>

record EntityCorrespondence =
  ec_source_snapshot_id :: string
  ec_source_entity_id :: string
  ec_target_snapshot_id :: string
  ec_target_entity_id :: string
  ec_kind :: string
  ec_producer :: string
  ec_producer_version :: string
  ec_evidence_refs :: "EvidenceRef list"
  ec_id :: string
  ec_authority :: string
  ec_completeness :: string
  ec_metadata :: pydict

definition EntityCorrespondence_identity :: "EntityCorrespondence \<Rightarrow> pyval" where
  "EntityCorrespondence_identity c = pdict
     [(''source_snapshot'', PStr (ec_source_snapshot_id c)),
      (''source_entity'', PStr (ec_source_entity_id c)),
      (''target_snapshot'', PStr (ec_target_snapshot_id c)),
      (''target_entity'', PStr (ec_target_entity_id c)),
      (''kind'', PStr (ec_kind c)), (''producer'', PStr (ec_producer c)),
      (''producer_version'', PStr (ec_producer_version c)),
      (''evidence'', PList (map EvidenceRef_val (ec_evidence_refs c))),
      (''authority'', PStr (ec_authority c)), (''completeness'', PStr (ec_completeness c)),
      (''metadata'', PDict (ec_metadata c))]"

text \<open>\<open>EvidenceRef(kind, target_id, snapshot_id, anchor)\<close>: the reference rebuilt in a snapshot.\<close>

definition evidence_in :: "string \<Rightarrow> EvidenceRef \<Rightarrow> EvidenceRef res" where
  "evidence_in snapshot e = EvidenceRef_init (e\<lparr>er_snapshot_id := Some snapshot, er_id := []\<rparr>)"

definition qualify_evidence :: "EntityCorrespondence \<Rightarrow> EvidenceRef \<Rightarrow> EvidenceRef res" where
  "qualify_evidence c e =
     (case er_snapshot_id e of
        Some s \<Rightarrow>
          if s \<noteq> ec_source_snapshot_id c \<and> s \<noteq> ec_target_snapshot_id c
          then Inl (ValueError ''correspondence evidence must belong to a source or target snapshot'')
          else Inr e
      | None \<Rightarrow>
          if ec_source_snapshot_id c \<noteq> ec_target_snapshot_id c
          then Inl (ValueError ''cross-snapshot correspondence evidence must set snapshot_id explicitly'')
          else evidence_in (ec_source_snapshot_id c) e)"

definition EntityCorrespondence_init :: "EntityCorrespondence \<Rightarrow> EntityCorrespondence res" where
  "EntityCorrespondence_init c =
     bindR (checks
       [require_namespaced (ec_source_snapshot_id c), require_namespaced (ec_source_entity_id c),
        require_namespaced (ec_target_snapshot_id c), require_namespaced (ec_target_entity_id c),
        require_namespaced (ec_kind c), require_namespaced (ec_producer c),
        require_namespaced (ec_producer_version c),
        reject (ec_source_snapshot_id c = ec_target_snapshot_id c
                \<and> ec_source_entity_id c = ec_target_entity_id c)
          ''a correspondence must connect two distinct entity records'',
        enum_value AuthorityClass (ec_authority c),
        require_fact_authority (ec_authority c),
        enum_value Completeness (ec_completeness c),
        reject (ec_completeness c = ''missing'')
          ''a missing correspondence must be represented by a diagnostic'',
        reject (ec_evidence_refs c = []) ''a correspondence must cite at least one evidence_ref''] ()) (\<lambda>_.
     bindR (mapR (qualify_evidence c) (ec_evidence_refs c)) (\<lambda>values.
     bindR (checks
       [reject (has_duplicates (map er_id values)) ''correspondence evidence_refs must be unique'',
        reject_embedded_body_fields (PDict (ec_metadata c))]
       (c\<lparr>ec_evidence_refs := sort_key er_id values\<rparr>)) (\<lambda>c.
     bindR (default_id (ec_id c) ''correspondence'' (EntityCorrespondence_identity c)) (\<lambda>i.
     Inr (c\<lparr>ec_id := i\<rparr>)))))"

section \<open>Entities and relations\<close>

record Entity =
  en_kind :: string
  en_name :: string
  en_snapshot_id :: string
  en_id :: string
  en_qualified_name :: "string option"
  en_authority :: string
  en_stage :: string
  en_attrs :: pydict
  en_anchors :: "SourceAnchor list"
  en_aliases :: "string list"
  en_completeness :: string

definition qualified_or_name :: "Entity \<Rightarrow> string" where
  "qualified_or_name e = (case en_qualified_name e of Some (c # cs) \<Rightarrow> c # cs | _ \<Rightarrow> en_name e)"

definition Entity_identity :: "Entity \<Rightarrow> pyval" where
  "Entity_identity e = pdict
     [(''snapshot'', PStr (en_snapshot_id e)), (''kind'', PStr (en_kind e)),
      (''name'', PStr (qualified_or_name e)), (''stage'', PStr (en_stage e)),
      (''authority'', PStr (en_authority e))]"

definition Entity_init :: "Entity \<Rightarrow> Entity res" where
  "Entity_init e =
     bindR (checks
       [require_namespaced (en_kind e), require_namespaced (en_stage e),
        enum_value AuthorityClass (en_authority e), require_fact_authority (en_authority e),
        enum_value Completeness (en_completeness e),
        reject_embedded_body_fields (PDict (en_attrs e)),
        reject (en_name e = []) ''entity name is required''] ()) (\<lambda>_.
     bindR (default_id (en_id e) ''entity'' (Entity_identity e)) (\<lambda>i.
     Inr (e\<lparr>en_id := i\<rparr>)))"

record Relation =
  rl_src :: string
  rl_dst :: string
  rl_kind :: string
  rl_snapshot_id :: string
  rl_id :: string
  rl_authority :: string
  rl_stage :: string
  rl_attrs :: pydict
  rl_anchors :: "SourceAnchor list"
  rl_mapping_kind :: "string option"
  rl_completeness :: string

definition Relation_identity :: "Relation \<Rightarrow> pyval" where
  "Relation_identity r = pdict
     [(''snapshot'', PStr (rl_snapshot_id r)), (''src'', PStr (rl_src r)), (''dst'', PStr (rl_dst r)),
      (''kind'', PStr (rl_kind r)), (''attrs'', PDict (rl_attrs r)),
      (''mapping'', opt_str (rl_mapping_kind r)), (''stage'', PStr (rl_stage r)),
      (''authority'', PStr (rl_authority r)), (''anchors'', PList (map SourceAnchor_val (rl_anchors r))),
      (''completeness'', PStr (rl_completeness r))]"

definition Relation_init :: "Relation \<Rightarrow> Relation res" where
  "Relation_init r =
     bindR (checks
       [require_namespaced (rl_kind r), require_namespaced (rl_stage r),
        enum_value AuthorityClass (rl_authority r), require_fact_authority (rl_authority r),
        enum_value Completeness (rl_completeness r),
        reject_embedded_body_fields (PDict (rl_attrs r))] ()) (\<lambda>_.
     bindR (default_id (rl_id r) ''relation'' (Relation_identity r)) (\<lambda>i.
     Inr (r\<lparr>rl_id := i\<rparr>)))"

section \<open>Observations\<close>

record ObservationSource =
  so_artifact_id :: string
  so_artifact_sha256 :: string
  so_parser_name :: string
  so_parser_version :: string
  so_payload_sha256 :: string
  so_binding_sha256 :: string
  so_contract :: string

definition ObservationSource_val :: "ObservationSource \<Rightarrow> pyval" where
  "ObservationSource_val s = PObj
     [(''artifact_id'', PStr (so_artifact_id s)), (''artifact_sha256'', PStr (so_artifact_sha256 s)),
      (''parser_name'', PStr (so_parser_name s)), (''parser_version'', PStr (so_parser_version s)),
      (''payload_sha256'', PStr (so_payload_sha256 s)), (''binding_sha256'', PStr (so_binding_sha256 s)),
      (''contract'', PStr (so_contract s))]"

definition ObservationSource_init :: "ObservationSource \<Rightarrow> ObservationSource res" where
  "ObservationSource_init s =
     checks
       [require_namespaced (so_artifact_id s), require_namespaced (so_parser_name s),
        require_namespaced (so_contract s),
        reject (so_contract s \<noteq> ''hlsgraph.observation_source.v1'') ''unsupported observation source contract'',
        reject (strip (so_parser_version s) = []) ''observation source parser_version must be non-empty'',
        forR (\<lambda>h. reject (\<not> is_sha256 h) ''observation source digest must be SHA-256'')
          [so_artifact_sha256 s, so_payload_sha256 s, so_binding_sha256 s]]
       (s\<lparr>so_parser_version := strip (so_parser_version s),
          so_artifact_sha256 := lower (so_artifact_sha256 s),
          so_payload_sha256 := lower (so_payload_sha256 s),
          so_binding_sha256 := lower (so_binding_sha256 s)\<rparr>)"

definition source_payload :: "string \<Rightarrow> pyval \<Rightarrow> string option \<Rightarrow> pyval" where
  "source_payload predicate v u =
     pdict [(''predicate'', PStr predicate), (''value'', v), (''unit'', opt_str u)]"

definition source_binding :: "string \<Rightarrow> string \<Rightarrow> string \<Rightarrow> string \<Rightarrow> string \<Rightarrow> string \<Rightarrow> pyval" where
  "source_binding contract artifact_id artifact_sha256 parser_name parser_version payload_sha256 = pdict
     [(''contract'', PStr contract), (''artifact_id'', PStr artifact_id),
      (''artifact_sha256'', PStr artifact_sha256), (''parser_name'', PStr parser_name),
      (''parser_version'', PStr parser_version), (''payload_sha256'', PStr payload_sha256)]"

definition ObservationSource_validation_error ::
  "ObservationSource \<Rightarrow> string \<Rightarrow> pyval \<Rightarrow> string option \<Rightarrow> string option res" where
  "ObservationSource_validation_error s predicate v u =
     bindR (stable_hash (source_payload predicate v u)) (\<lambda>expected_payload.
     if so_payload_sha256 s \<noteq> expected_payload
     then Inr (Some ''parser source payload does not match predicate/value/unit'')
     else
       bindR (stable_hash (source_binding (so_contract s) (so_artifact_id s) (so_artifact_sha256 s)
                (so_parser_name s) (so_parser_version s) (so_payload_sha256 s))) (\<lambda>expected_binding.
       Inr (err_if (so_binding_sha256 s \<noteq> expected_binding)
              ''parser source binding does not match its artifact and payload'')))"

definition observation_source_commitment ::
  "ArtifactRef \<Rightarrow> string \<Rightarrow> string \<Rightarrow> string \<Rightarrow> pyval \<Rightarrow> string option \<Rightarrow> ObservationSource res" where
  "observation_source_commitment artifact parser_name parser_version predicate v u =
     (let version = strip parser_version in
      bindR (reject (version = []) ''observation source parser_version must be non-empty'') (\<lambda>_.
      bindR (stable_hash (source_payload predicate v u)) (\<lambda>payload_sha256.
      bindR (stable_hash (source_binding ''hlsgraph.observation_source.v1'' (ar_id artifact)
               (ar_sha256 artifact) parser_name version payload_sha256)) (\<lambda>binding_sha256.
      ObservationSource_init
        \<lparr>so_artifact_id = ar_id artifact, so_artifact_sha256 = ar_sha256 artifact,
         so_parser_name = parser_name, so_parser_version = version,
         so_payload_sha256 = payload_sha256, so_binding_sha256 = binding_sha256,
         so_contract = ''hlsgraph.observation_source.v1''\<rparr>))))"

record Observation =
  ob_snapshot_id :: string
  ob_subject_id :: string
  ob_predicate :: string
  ob_value :: pyval
  ob_stage :: string
  ob_authority :: string
  ob_id :: string
  ob_unit :: "string option"
  ob_run_id :: "string option"
  ob_artifact_id :: "string option"
  ob_anchor :: "SourceAnchor option"
  ob_completeness :: string
  ob_workload_id :: "string option"
  ob_observed_at :: "string option"
  ob_metadata :: pydict
  ob_source :: "ObservationSource option"

definition Observation_identity :: "Observation \<Rightarrow> pyval" where
  "Observation_identity b = pdict
     ([(''snapshot'', PStr (ob_snapshot_id b)), (''subject'', PStr (ob_subject_id b)),
       (''predicate'', PStr (ob_predicate b)), (''value'', ob_value b), (''unit'', opt_str (ob_unit b)),
       (''stage'', PStr (ob_stage b)), (''authority'', PStr (ob_authority b)),
       (''run'', opt_str (ob_run_id b)), (''artifact'', opt_str (ob_artifact_id b)),
       (''workload'', opt_str (ob_workload_id b)), (''anchor'', opt_anchor (ob_anchor b)),
       (''completeness'', PStr (ob_completeness b)), (''observed_at'', opt_str (ob_observed_at b)),
       (''metadata'', PDict (ob_metadata b))]
      @ (case ob_source b of None \<Rightarrow> [] | Some s \<Rightarrow> [(''source'', ObservationSource_val s)]))"

definition anchor_matches :: "Observation \<Rightarrow> bool" where
  "anchor_matches b =
     (case (ob_artifact_id b, ob_anchor b) of
        (Some i, Some a) \<Rightarrow> sa_artifact_id a = PStr i
      | _ \<Rightarrow> True)"

definition observation_source_check :: "Observation \<Rightarrow> unit res" where
  "observation_source_check b =
     (case ob_source b of
        None \<Rightarrow> Inr ()
      | Some s \<Rightarrow>
          (case (ob_artifact_id b, ob_anchor b) of
             (Some i, Some a) \<Rightarrow>
               if so_artifact_id s \<noteq> i \<or> PStr (so_artifact_id s) \<noteq> sa_artifact_id a
               then Inl (ValueError ''parser-issued observation source must name the canonical artifact'')
               else bindR (ObservationSource_validation_error s (ob_predicate b) (ob_value b) (ob_unit b))
                      (\<lambda>err. case err of None \<Rightarrow> Inr () | Some e \<Rightarrow> Inl (ValueError e))
           | _ \<Rightarrow> Inl (ValueError ''parser-issued observation source requires one artifact_id and anchor'')))"

definition Observation_init :: "Observation \<Rightarrow> Observation res" where
  "Observation_init b =
     bindR (checks
       [require_namespaced (ob_predicate b), require_namespaced (ob_stage b),
        enum_value AuthorityClass (ob_authority b), require_fact_authority (ob_authority b),
        enum_value Completeness (ob_completeness b),
        reject_embedded_body_fields (PDict (ob_metadata b)),
        reject (\<not> anchor_matches b) ''observation artifact_id must match its anchor artifact_id'',
        observation_source_check b] ()) (\<lambda>_.
     bindR (stable_id ''observation'' (Observation_identity b)) (\<lambda>expected_id.
     bindR (reject (ob_source b \<noteq> None \<and> ob_id b \<noteq> [] \<and> ob_id b \<noteq> expected_id)
              ''typed observation stable id does not match'') (\<lambda>_.
     Inr (if ob_id b = [] then b\<lparr>ob_id := expected_id\<rparr> else b))))"

section \<open>Derivations\<close>

record Derivation =
  dv_snapshot_id :: string
  dv_subject_id :: string
  dv_predicate :: string
  dv_value :: pyval
  dv_algorithm :: string
  dv_algorithm_version :: string
  dv_input_observation_ids :: "string list"
  dv_id :: string
  dv_unit :: "string option"
  dv_stage :: string
  dv_authority :: string
  dv_completeness :: string
  dv_metadata :: pydict
  dv_evidence_refs :: "EvidenceRef list"

definition is_observation_of :: "Derivation \<Rightarrow> EvidenceRef \<Rightarrow> bool" where
  "is_observation_of d e = (er_kind e = ''observation'' \<and> er_snapshot_id e = Some (dv_snapshot_id d))"

definition localize_evidence :: "Derivation \<Rightarrow> EvidenceRef \<Rightarrow> EvidenceRef res" where
  "localize_evidence d e =
     (case er_snapshot_id e of Some _ \<Rightarrow> Inr e | None \<Rightarrow> evidence_in (dv_snapshot_id d) e)"

definition observation_ref :: "Derivation \<Rightarrow> string \<Rightarrow> EvidenceRef res" where
  "observation_ref d observation_id = EvidenceRef_init
     \<lparr>er_kind = ''observation'', er_target_id = observation_id,
      er_snapshot_id = Some (dv_snapshot_id d), er_anchor = None, er_id = []\<rparr>"

definition projected_ids :: "Derivation \<Rightarrow> EvidenceRef list \<Rightarrow> string list" where
  "projected_ids d refs =
     sorted_set (map er_target_id (filter (\<lambda>e. is_observation_of d e \<and> er_anchor e = None) refs))"

definition legacy_only :: "Derivation \<Rightarrow> bool" where
  "legacy_only d =
     (dv_input_observation_ids d \<noteq> []
      \<and> length (dv_input_observation_ids d) = length (dv_evidence_refs d)
      \<and> list_all (\<lambda>e. is_observation_of d e \<and> er_anchor e = None) (dv_evidence_refs d))"

definition Derivation_identity :: "Derivation \<Rightarrow> pyval" where
  "Derivation_identity d = pdict
     ([(''snapshot'', PStr (dv_snapshot_id d)), (''subject'', PStr (dv_subject_id d)),
       (''predicate'', PStr (dv_predicate d)), (''algorithm'', PStr (dv_algorithm d)),
       (''version'', PStr (dv_algorithm_version d))]
      @ (if legacy_only d then [(''inputs'', str_list (sort (dv_input_observation_ids d)))]
         else [(''evidence_refs'', PList (map EvidenceRef_val (dv_evidence_refs d)))]))"

text \<open>The evidence a derivation ends up with: its own references, moved into the snapshot,
  and one observation reference for every legacy id they do not cite yet.\<close>

definition normalize_evidence :: "Derivation \<Rightarrow> EvidenceRef list res" where
  "normalize_evidence d =
     bindR (mapR (localize_evidence d) (dv_evidence_refs d)) (\<lambda>normalized.
     (let observation_targets = map er_target_id (filter (is_observation_of d) normalized);
          fresh = filter (\<lambda>i. i \<notin> set observation_targets) (sort (dv_input_observation_ids d)) in
      bindR (mapR (observation_ref d) fresh) (\<lambda>added.
      Inr (sort_key er_id (normalized @ added)))))"

definition Derivation_init :: "Derivation \<Rightarrow> Derivation res" where
  "Derivation_init d =
     bindR (checks
       [require_namespaced (dv_predicate d), require_namespaced (dv_stage d),
        enum_value AuthorityClass (dv_authority d), require_fact_authority (dv_authority d),
        enum_value Completeness (dv_completeness d),
        reject_embedded_body_fields (PDict (dv_metadata d)),
        forR require_namespaced (dv_input_observation_ids d),
        reject (has_duplicates (dv_input_observation_ids d)) ''derivation input_observation_ids must be unique'',
        forR (\<lambda>e. reject (er_snapshot_id e \<notin> {None, Some (dv_snapshot_id d)})
                    ''derivation evidence must belong to its snapshot'') (dv_evidence_refs d)] ()) (\<lambda>_.
     bindR (normalize_evidence d) (\<lambda>refs.
     bindR (checks
       [reject (has_duplicates (map er_id refs)) ''derivation evidence_refs must be unique'',
        reject (\<not> set (dv_input_observation_ids d) \<subseteq> set (projected_ids d refs))
          ''legacy derivation observations conflict with evidence_refs'',
        reject (refs = []) ''a derivation must cite at least one evidence_ref'']
       (d\<lparr>dv_evidence_refs := refs, dv_input_observation_ids := projected_ids d refs\<rparr>)) (\<lambda>d.
     bindR (default_id (dv_id d) ''derivation'' (Derivation_identity d)) (\<lambda>i.
     Inr (d\<lparr>dv_id := i\<rparr>)))))"

section \<open>Diagnostics, gates, verification\<close>

definition MAX_DIAGNOSTIC_MESSAGE_CHARS :: nat where
  "MAX_DIAGNOSTIC_MESSAGE_CHARS = 2048"

record Diagnostic =
  dg_snapshot_id :: string
  dg_code :: string
  dg_severity :: string
  dg_message :: pyval
  dg_id :: string
  dg_stage :: string
  dg_run_id :: "string option"
  dg_subject_id :: "string option"
  dg_artifact_id :: "string option"
  dg_anchor :: "SourceAnchor option"
  dg_guidance :: "string option"
  dg_metadata :: pydict

definition Diagnostic_identity :: "Diagnostic \<Rightarrow> pyval" where
  "Diagnostic_identity d = pdict
     [(''snapshot'', PStr (dg_snapshot_id d)), (''code'', PStr (dg_code d)), (''message'', dg_message d),
      (''stage'', PStr (dg_stage d)), (''run'', opt_str (dg_run_id d)),
      (''subject'', opt_str (dg_subject_id d))]"

definition Diagnostic_init :: "Diagnostic \<Rightarrow> Diagnostic res" where
  "Diagnostic_init d =
     bindR (checks
       [require_namespaced (dg_code d), require_namespaced (dg_stage d),
        reject (\<not> nonblank_str (dg_message d)) ''diagnostic message must be a non-empty string'',
        reject (length (str_of (dg_message d)) > MAX_DIAGNOSTIC_MESSAGE_CHARS)
          ''diagnostic message exceeds characters'',
        enum_value DiagnosticSeverity (dg_severity d),
        reject_embedded_body_fields (PDict (dg_metadata d))] ()) (\<lambda>_.
     bindR (default_id (dg_id d) ''diagnostic'' (Diagnostic_identity d)) (\<lambda>i.
     Inr (d\<lparr>dg_id := i\<rparr>)))"

record GateResult =
  gr_kind :: string
  gr_status :: string
  gr_evidence_ids :: "string list"
  gr_reason :: "string option"

definition GateResult_init :: "GateResult \<Rightarrow> GateResult res" where
  "GateResult_init g =
     checks
       [enum_value GateKind (gr_kind g), enum_value GateStatus (gr_status g),
        reject (gr_status g = ''pass'' \<and> gr_evidence_ids g = [])
          ''a passing gate must cite at least one evidence_id''] g"

record VerificationResult =
  vr_snapshot_id :: string
  vr_kind :: string
  vr_status :: string
  vr_id :: string
  vr_run_id :: "string option"
  vr_workload_id :: "string option"
  vr_evidence_ids :: "string list"
  vr_details :: pydict

definition VerificationResult_identity :: "VerificationResult \<Rightarrow> pyval" where
  "VerificationResult_identity v = pdict
     [(''snapshot'', PStr (vr_snapshot_id v)), (''kind'', PStr (vr_kind v)),
      (''run'', opt_str (vr_run_id v)), (''workload'', opt_str (vr_workload_id v)),
      (''evidence'', str_list (sort (vr_evidence_ids v)))]"

definition VerificationResult_init :: "VerificationResult \<Rightarrow> VerificationResult res" where
  "VerificationResult_init v =
     bindR (checks
       [enum_value VerificationKind (vr_kind v), enum_value GateStatus (vr_status v),
        reject_embedded_body_fields (PDict (vr_details v)),
        reject (vr_run_id v \<in> {None, Some []} \<and> vr_evidence_ids v = [])
          ''a verification result must cite a run or evidence'',
        reject (vr_status v = ''pass'' \<and> vr_evidence_ids v = [])
          ''a passing verification must cite non-run report evidence''] ()) (\<lambda>_.
     bindR (default_id (vr_id v) ''verification'' (VerificationResult_identity v)) (\<lambda>i.
     Inr (v\<lparr>vr_id := i\<rparr>)))"

section \<open>Rebuilding from a payload\<close>

text \<open>\<open>from_dict\<close> of an instance's own JSON: nested references first.\<close>

definition ActionMaterialization_from_dict ::
  "iso_parser \<Rightarrow> ActionMaterialization \<Rightarrow> ActionMaterialization res" where
  "ActionMaterialization_from_dict parse_iso a =
     bindR (mapR EvidenceRef_from_dict (am_evidence_refs a)) (\<lambda>refs.
     ActionMaterialization_init parse_iso (a\<lparr>am_evidence_refs := refs\<rparr>))"

definition EntityCorrespondence_from_dict :: "EntityCorrespondence \<Rightarrow> EntityCorrespondence res" where
  "EntityCorrespondence_from_dict c =
     bindR (mapR EvidenceRef_from_dict (ec_evidence_refs c)) (\<lambda>refs.
     EntityCorrespondence_init (c\<lparr>ec_evidence_refs := refs\<rparr>))"

definition Entity_from_dict :: "Entity \<Rightarrow> Entity res" where
  "Entity_from_dict e =
     bindR (mapR SourceAnchor_init (en_anchors e)) (\<lambda>anchors. Entity_init (e\<lparr>en_anchors := anchors\<rparr>))"

definition Relation_from_dict :: "Relation \<Rightarrow> Relation res" where
  "Relation_from_dict r =
     bindR (mapR SourceAnchor_init (rl_anchors r)) (\<lambda>anchors. Relation_init (r\<lparr>rl_anchors := anchors\<rparr>))"

definition Observation_from_dict :: "Observation \<Rightarrow> Observation res" where
  "Observation_from_dict b =
     bindR (optR SourceAnchor_init (ob_anchor b)) (\<lambda>anchor.
     bindR (optR ObservationSource_init (ob_source b)) (\<lambda>source.
     Observation_init (b\<lparr>ob_anchor := anchor, ob_source := source\<rparr>)))"

definition Derivation_from_dict :: "Derivation \<Rightarrow> Derivation res" where
  "Derivation_from_dict d =
     bindR (mapR EvidenceRef_from_dict (dv_evidence_refs d)) (\<lambda>refs.
     Derivation_init (d\<lparr>dv_evidence_refs := refs\<rparr>))"

definition Diagnostic_from_dict :: "Diagnostic \<Rightarrow> Diagnostic res" where
  "Diagnostic_from_dict d =
     bindR (optR SourceAnchor_init (dg_anchor d)) (\<lambda>anchor. Diagnostic_init (d\<lparr>dg_anchor := anchor\<rparr>))"

section \<open>Every fact contract is a content-addressed normaliser\<close>

lemma distinct_map_insort_sort [simp]: "set (sort_key f xs) = set xs"
  by simp

interpretation action: content_addressed VariantAction_init va_id "\<lambda>i. va_id_update (\<lambda>_. i)"
  by unfold_locales
     (auto simp: VariantAction_init_def VariantAction_identity_def res_iff dest!: idem_dest)

lemma status_contract_cong [simp]:
  "status_contract (a\<lparr>am_id := i\<rparr>) = status_contract a"
  by (simp add: status_contract_def)

lemma status_contract_sorted:
  "status_contract (a\<lparr>am_diagnostic_ids := sort ds, am_evidence_refs := rs\<rparr>)
   = status_contract (a\<lparr>am_diagnostic_ids := ds\<rparr>)"
  by (simp add: status_contract_def)

lemma ActionMaterialization_init_iff:
  "ActionMaterialization_init p a = Inr b \<longleftrightarrow>
     (\<exists>i. is_namespaced (am_action_id a) \<and> is_namespaced (am_parent_snapshot_id a)
        \<and> am_status a \<in> set ActionMaterializationStatus
        \<and> (\<forall>x. am_result_snapshot_id a = Some x \<longrightarrow> is_namespaced x \<and> x \<noteq> am_parent_snapshot_id a)
        \<and> (\<forall>x \<in> set (am_diagnostic_ids a). is_namespaced x) \<and> distinct (am_diagnostic_ids a)
        \<and> distinct (map er_id (am_evidence_refs a)) \<and> status_contract a = Inr ()
        \<and> timestamp_contract p (am_attempted_at a) = Inr ()
        \<and> reject_embedded_body_fields (PDict (am_metadata a)) = Inr ()
        \<and> default_id (am_id a) ''materialization''
            (ActionMaterialization_identity (a\<lparr>am_diagnostic_ids := sort (am_diagnostic_ids a),
               am_evidence_refs := sort_key er_id (am_evidence_refs a)\<rparr>)) = Inr i
        \<and> b = a\<lparr>am_diagnostic_ids := sort (am_diagnostic_ids a),
               am_evidence_refs := sort_key er_id (am_evidence_refs a), am_id := i\<rparr>)"
  by (auto simp: ActionMaterialization_init_def res_iff)

interpretation materialization:
  content_addressed "ActionMaterialization_from_dict p" am_id "\<lambda>i. am_id_update (\<lambda>_. i)" for p
proof unfold_locales
  have idem: "ActionMaterialization_init p b = Inr b" if "ActionMaterialization_init p a = Inr b" for a b
    using that
    by (auto simp: ActionMaterialization_init_iff status_contract_def dest!: idem_dest)
  show "ActionMaterialization_from_dict p b = Inr b" if "ActionMaterialization_from_dict p a = Inr b" for a b
    using that unfolding ActionMaterialization_from_dict_def
  proof (rule nested_idem_gen)
    show "mapR EvidenceRef_from_dict (am_evidence_refs y) = Inr (am_evidence_refs y)
          \<and> ActionMaterialization_init p y = Inr y"
      if "mapR EvidenceRef_from_dict n = Inr n" "ActionMaterialization_init p (x\<lparr>am_evidence_refs := n\<rparr>) = Inr y"
      for n x y
      using idem [OF that(2)] that by (auto simp: mapR_fixed_iff ActionMaterialization_init_iff)
  qed (auto intro: evidence.built_list_idem)
qed (auto simp: ActionMaterialization_from_dict_def ActionMaterialization_init_iff
       ActionMaterialization_identity_def status_contract_def res_iff)

lemma evidence_in_iff:
  "evidence_in s e = Inr f \<Longrightarrow> er_snapshot_id f = Some s \<and> er_anchor f = er_anchor e \<and> er_kind f = er_kind e
     \<and> er_target_id f = er_target_id e \<and> EvidenceRef_init f = Inr f"
  by (auto simp: evidence_in_def EvidenceRef_init_iff)

lemma evidence_in_rebuilds:
  assumes "EvidenceRef_from_dict e = Inr e" and "evidence_in s e = Inr f"
  shows "EvidenceRef_from_dict f = Inr f"
proof -
  have "optR SourceAnchor_init (er_anchor e) = Inr (er_anchor e)"
    using assms(1) EvidenceRef_anchor by (fastforce simp: EvidenceRef_from_dict_def res_iff)
  then have "optR SourceAnchor_init (er_anchor f) = Inr (er_anchor f)" and "EvidenceRef_init f = Inr f"
    using evidence_in_iff [OF assms(2)] by simp_all
  then show ?thesis by (simp add: EvidenceRef_from_dict_def)
qed

lemma qualify_evidence_cong [simp]:
  "qualify_evidence (c\<lparr>ec_evidence_refs := rs\<rparr>) = qualify_evidence c"
  "qualify_evidence (c\<lparr>ec_evidence_refs := rs, ec_id := i\<rparr>) = qualify_evidence c"
  "qualify_evidence (c\<lparr>ec_id := i, ec_evidence_refs := rs\<rparr>) = qualify_evidence c"
  "qualify_evidence (c\<lparr>ec_id := i\<rparr>) = qualify_evidence c"
  by (auto simp: qualify_evidence_def fun_eq_iff split: option.split)

lemma qualify_evidence_fixed:
  "qualify_evidence c e = Inr f \<Longrightarrow>
   qualify_evidence c f = Inr f \<and> (EvidenceRef_from_dict e = Inr e \<longrightarrow> EvidenceRef_from_dict f = Inr f)"
  using evidence_in_rebuilds
  by (auto simp: qualify_evidence_def split: option.splits if_splits dest!: evidence_in_iff)

lemma EntityCorrespondence_idem:
  assumes refs: "mapR EvidenceRef_from_dict (ec_evidence_refs c) = Inr (ec_evidence_refs c)"
    and c: "EntityCorrespondence_init c = Inr d"
  shows "mapR EvidenceRef_from_dict (ec_evidence_refs d) = Inr (ec_evidence_refs d)
         \<and> EntityCorrespondence_init d = Inr d"
proof -
  from c obtain vs i where v: "mapR (qualify_evidence c) (ec_evidence_refs c) = Inr vs"
    and d: "d = c\<lparr>ec_evidence_refs := sort_key er_id vs, ec_id := i\<rparr>"
    and i: "default_id (ec_id c) ''correspondence''
              (EntityCorrespondence_identity (c\<lparr>ec_evidence_refs := sort_key er_id vs\<rparr>)) = Inr i"
    by (auto simp: EntityCorrespondence_init_def res_iff)
  have "qualify_evidence c e = Inr e \<and> EvidenceRef_from_dict e = Inr e" if "e \<in> set vs" for e
    using mapR_set [OF v that] refs qualify_evidence_fixed by (auto simp: mapR_fixed_iff)
  then have "mapR (qualify_evidence c) (sort_key er_id vs) = Inr (sort_key er_id vs)"
    and "mapR EvidenceRef_from_dict (sort_key er_id vs) = Inr (sort_key er_id vs)"
    by (simp_all add: mapR_fixed_iff)
  moreover have "vs \<noteq> []" using c v by (auto simp: EntityCorrespondence_init_def res_iff dest: mapR_length)
  ultimately show ?thesis
    using c v i by (auto simp: EntityCorrespondence_init_def res_iff d dest!: idem_dest)
qed

interpretation correspondence:
  content_addressed EntityCorrespondence_from_dict ec_id "\<lambda>i. ec_id_update (\<lambda>_. i)"
proof unfold_locales
  show "EntityCorrespondence_from_dict d = Inr d" if "EntityCorrespondence_from_dict c = Inr d" for c d
    using that unfolding EntityCorrespondence_from_dict_def
  proof (rule nested_idem_gen)
    show "mapR EvidenceRef_from_dict (ec_evidence_refs y) = Inr (ec_evidence_refs y)
          \<and> EntityCorrespondence_init y = Inr y"
      if "mapR EvidenceRef_from_dict n = Inr n" "EntityCorrespondence_init (x\<lparr>ec_evidence_refs := n\<rparr>) = Inr y"
      for n x y
      using EntityCorrespondence_idem [OF _ that(2)] that(1) by simp
  qed (auto intro: evidence.built_list_idem)
qed (auto simp: EntityCorrespondence_from_dict_def EntityCorrespondence_init_def
       EntityCorrespondence_identity_def res_iff)

lemma Entity_init_iff:
  "Entity_init e = Inr f \<longleftrightarrow>
     is_namespaced (en_kind e) \<and> is_namespaced (en_stage e) \<and> en_authority e \<in> set AuthorityClass
     \<and> en_authority e \<notin> set NON_FACT_AUTHORITIES \<and> en_completeness e \<in> set Completeness
     \<and> reject_embedded_body_fields (PDict (en_attrs e)) = Inr () \<and> en_name e \<noteq> []
     \<and> (\<exists>i. default_id (en_id e) ''entity'' (Entity_identity e) = Inr i \<and> f = e\<lparr>en_id := i\<rparr>)"
  by (auto simp: Entity_init_def res_iff)

interpretation entity: content_addressed Entity_from_dict en_id "\<lambda>i. en_id_update (\<lambda>_. i)"
proof unfold_locales
  show "Entity_from_dict f = Inr f" if "Entity_from_dict e = Inr f" for e f
    using that unfolding Entity_from_dict_def
    by (rule nested_idem) (auto simp: anchor.built_list_idem Entity_init_iff dest!: idem_dest)
qed (auto simp: Entity_from_dict_def Entity_init_iff Entity_identity_def qualified_or_name_def res_iff
       cong: option.case_cong)

lemma Relation_init_iff:
  "Relation_init r = Inr s \<longleftrightarrow>
     is_namespaced (rl_kind r) \<and> is_namespaced (rl_stage r) \<and> rl_authority r \<in> set AuthorityClass
     \<and> rl_authority r \<notin> set NON_FACT_AUTHORITIES \<and> rl_completeness r \<in> set Completeness
     \<and> reject_embedded_body_fields (PDict (rl_attrs r)) = Inr ()
     \<and> (\<exists>i. default_id (rl_id r) ''relation'' (Relation_identity r) = Inr i \<and> s = r\<lparr>rl_id := i\<rparr>)"
  by (auto simp: Relation_init_def res_iff)

interpretation relation: content_addressed Relation_from_dict rl_id "\<lambda>i. rl_id_update (\<lambda>_. i)"
proof unfold_locales
  show "Relation_from_dict s = Inr s" if "Relation_from_dict r = Inr s" for r s
    using that unfolding Relation_from_dict_def
    by (rule nested_idem) (auto simp: anchor.built_list_idem Relation_init_iff dest!: idem_dest)
qed (auto simp: Relation_from_dict_def Relation_init_iff Relation_identity_def res_iff)

lemma ObservationSource_idem: "ObservationSource_init s = Inr t \<Longrightarrow> ObservationSource_init t = Inr t"
  by (auto simp: ObservationSource_init_def res_iff)

interpretation obs_source: normaliser ObservationSource_init
  by unfold_locales (rule ObservationSource_idem)

text \<open>An observation's checks do not look at its id.\<close>

lemma Observation_id_only [simp]:
  "Observation_identity (b\<lparr>ob_id := i\<rparr>) = Observation_identity b"
  "anchor_matches (b\<lparr>ob_id := i\<rparr>) = anchor_matches b"
  "observation_source_check (b\<lparr>ob_id := i\<rparr>) = observation_source_check b"
  by (simp_all add: Observation_identity_def anchor_matches_def observation_source_check_def
        cong: option.case_cong if_cong)

lemma Observation_init_iff:
  "Observation_init b = Inr c \<longleftrightarrow>
     is_namespaced (ob_predicate b) \<and> is_namespaced (ob_stage b) \<and> ob_authority b \<in> set AuthorityClass
     \<and> ob_authority b \<notin> set NON_FACT_AUTHORITIES \<and> ob_completeness b \<in> set Completeness
     \<and> reject_embedded_body_fields (PDict (ob_metadata b)) = Inr () \<and> anchor_matches b
     \<and> observation_source_check b = Inr ()
     \<and> (\<exists>i. stable_id ''observation'' (Observation_identity b) = Inr i
            \<and> (ob_source b = None \<or> ob_id b = [] \<or> ob_id b = i)
            \<and> c = (if ob_id b = [] then b\<lparr>ob_id := i\<rparr> else b))"
  by (auto simp: Observation_init_def res_iff)

lemma Observation_idem:
  "Observation_init b = Inr c \<Longrightarrow>
   Observation_init c = Inr c \<and> ob_anchor c = ob_anchor b \<and> ob_source c = ob_source b"
  by (auto simp: Observation_init_iff split: if_splits)

interpretation observation: content_addressed Observation_from_dict ob_id "\<lambda>i. ob_id_update (\<lambda>_. i)"
proof unfold_locales
  fix b c d
  show "Observation_from_dict c = Inr c" if b: "Observation_from_dict b = Inr c"
  proof -
    from b obtain a s where "optR SourceAnchor_init (ob_anchor b) = Inr a"
      and "optR ObservationSource_init (ob_source b) = Inr s"
      and c: "Observation_init (b\<lparr>ob_anchor := a, ob_source := s\<rparr>) = Inr c"
      by (auto simp: Observation_from_dict_def res_iff)
    moreover from Observation_idem [OF c] have "ob_anchor c = a" "ob_source c = s" "Observation_init c = Inr c"
      by simp_all
    ultimately have "optR SourceAnchor_init (ob_anchor c) = Inr (ob_anchor c)"
      "optR ObservationSource_init (ob_source c) = Inr (ob_source c)"
      using anchor.built_option_idem obs_source.built_option_idem by metis+
    with \<open>Observation_init c = Inr c\<close> show ?thesis by (simp add: Observation_from_dict_def)
  qed
  show "b\<lparr>ob_id := ob_id b\<rparr> = b" by simp
  assume b: "Observation_from_dict b = Inr c" and d: "Observation_from_dict (b\<lparr>ob_id := []\<rparr>) = Inr d"
  from b obtain a s where as: "optR SourceAnchor_init (ob_anchor b) = Inr a"
    "optR ObservationSource_init (ob_source b) = Inr s"
    and c: "Observation_init (b\<lparr>ob_anchor := a, ob_source := s\<rparr>) = Inr c"
    by (auto simp: Observation_from_dict_def res_iff)
  let ?b = "b\<lparr>ob_anchor := a, ob_source := s\<rparr>"
  have "Observation_init (?b\<lparr>ob_id := []\<rparr>) = Inr d"
  proof -
    have eq: "b\<lparr>ob_id := [], ob_anchor := a, ob_source := s\<rparr> = ?b\<lparr>ob_id := []\<rparr>" by simp
    have "Observation_init (b\<lparr>ob_id := [], ob_anchor := a, ob_source := s\<rparr>) = Inr d"
      using d as by (simp add: Observation_from_dict_def)
    then show ?thesis unfolding eq .
  qed
  with c show "d = c\<lparr>ob_id := ob_id d\<rparr>"
    unfolding Observation_init_iff by (auto split: if_splits)
qed

interpretation diagnostic: content_addressed Diagnostic_from_dict dg_id "\<lambda>i. dg_id_update (\<lambda>_. i)"
proof unfold_locales
  show "Diagnostic_from_dict e = Inr e" if "Diagnostic_from_dict d = Inr e" for d e
    using that unfolding Diagnostic_from_dict_def
    by (rule nested_idem) (auto simp: anchor.built_option_idem Diagnostic_init_def res_iff dest!: idem_dest)
qed (auto simp: Diagnostic_from_dict_def Diagnostic_init_def Diagnostic_identity_def res_iff)

interpretation verification: content_addressed VerificationResult_init vr_id "\<lambda>i. vr_id_update (\<lambda>_. i)"
  by unfold_locales
     (auto simp: VerificationResult_init_def VerificationResult_identity_def res_iff dest!: idem_dest)

interpretation gate: normaliser GateResult_init
  by (rule normaliser_checks) (rule GateResult_init_def)

section \<open>Derivations normalise to their projection\<close>

lemma Derivation_cong [simp]:
  "is_observation_of (d\<lparr>dv_evidence_refs := rs\<rparr>) = is_observation_of d"
  "is_observation_of (d\<lparr>dv_input_observation_ids := xs\<rparr>) = is_observation_of d"
  "is_observation_of (d\<lparr>dv_id := i\<rparr>) = is_observation_of d"
  "localize_evidence (d\<lparr>dv_evidence_refs := rs\<rparr>) = localize_evidence d"
  "localize_evidence (d\<lparr>dv_input_observation_ids := xs\<rparr>) = localize_evidence d"
  "localize_evidence (d\<lparr>dv_id := i\<rparr>) = localize_evidence d"
  "observation_ref (d\<lparr>dv_evidence_refs := rs\<rparr>) = observation_ref d"
  "observation_ref (d\<lparr>dv_input_observation_ids := xs\<rparr>) = observation_ref d"
  "observation_ref (d\<lparr>dv_id := i\<rparr>) = observation_ref d"
  by (auto simp: fun_eq_iff is_observation_of_def localize_evidence_def observation_ref_def split: option.split)

lemma projected_ids_cong [simp]:
  "projected_ids (d\<lparr>dv_evidence_refs := rs\<rparr>) = projected_ids d"
  "projected_ids (d\<lparr>dv_input_observation_ids := xs\<rparr>) = projected_ids d"
  "projected_ids (d\<lparr>dv_id := i\<rparr>) = projected_ids d"
  by (simp_all add: fun_eq_iff projected_ids_def)

lemma normalize_evidence_dv_id [simp]: "normalize_evidence (d\<lparr>dv_id := i\<rparr>) = normalize_evidence d"
  by (simp add: normalize_evidence_def)

lemma observation_ref_iff:
  "observation_ref d i = Inr e \<Longrightarrow> EvidenceRef_from_dict e = Inr e \<and> is_observation_of d e
     \<and> er_anchor e = None \<and> er_target_id e = i"
  by (auto simp: observation_ref_def EvidenceRef_init_iff EvidenceRef_from_dict_def is_observation_of_def
        optR_def identity_defs)

lemma localize_evidence_iff:
  "localize_evidence d e = Inr f \<Longrightarrow>
     (\<exists>s. er_snapshot_id f = Some s) \<and> localize_evidence d f = Inr f
     \<and> (er_snapshot_id e \<in> {None, Some (dv_snapshot_id d)} \<longrightarrow> er_snapshot_id f = Some (dv_snapshot_id d))
     \<and> (EvidenceRef_from_dict e = Inr e \<longrightarrow> EvidenceRef_from_dict f = Inr f)"
  using evidence_in_rebuilds
  by (auto simp: localize_evidence_def split: option.splits dest!: evidence_in_iff)

text \<open>Everything the normalisation returns is in the snapshot and rebuilds to itself.\<close>

lemma normalize_evidence_members:
  assumes n: "normalize_evidence d = Inr refs" and "e \<in> set refs"
    and snap: "\<forall>e \<in> set (dv_evidence_refs d). er_snapshot_id e \<in> {None, Some (dv_snapshot_id d)}"
  shows "er_snapshot_id e = Some (dv_snapshot_id d) \<and> localize_evidence d e = Inr e
         \<and> (mapR EvidenceRef_from_dict (dv_evidence_refs d) = Inr (dv_evidence_refs d)
            \<longrightarrow> EvidenceRef_from_dict e = Inr e)"
proof -
  from n obtain ls os xs where ls: "mapR (localize_evidence d) (dv_evidence_refs d) = Inr ls"
    and os: "mapR (observation_ref d) xs = Inr os" and refs: "refs = sort_key er_id (ls @ os)"
    by (auto simp: normalize_evidence_def Let_def res_iff)
  from \<open>e \<in> set refs\<close> refs consider "e \<in> set ls" | "e \<in> set os" by auto
  then show ?thesis
  proof cases
    case 1
    then obtain e' where "e' \<in> set (dv_evidence_refs d)" "localize_evidence d e' = Inr e"
      using mapR_set [OF ls] by blast
    with localize_evidence_iff snap show ?thesis by (fastforce simp: mapR_fixed_iff)
  next
    case 2
    then obtain i where "observation_ref d i = Inr e" using mapR_set [OF os] by blast
    with observation_ref_iff show ?thesis
      by (fastforce simp: is_observation_of_def localize_evidence_def)
  qed
qed

lemma normalize_evidence_sorted: "normalize_evidence d = Inr refs \<Longrightarrow> sort_key er_id refs = refs"
  by (auto simp: normalize_evidence_def Let_def res_iff)

text \<open>References already in the snapshot, with legacy ids they cite, are left alone.\<close>

lemma normalize_evidence_closed:
  assumes "\<forall>e \<in> set refs. localize_evidence d e = Inr e" and "sort_key er_id refs = refs"
    and "set xs \<subseteq> set (projected_ids d refs)"
  shows "normalize_evidence (d\<lparr>dv_evidence_refs := refs, dv_input_observation_ids := xs\<rparr>) = Inr refs"
proof -
  have "mapR (localize_evidence d) refs = Inr refs" using assms(1) by (simp add: mapR_fixed_iff)
  moreover have "filter (\<lambda>i. i \<notin> set (map er_target_id (filter (is_observation_of d) refs))) (sort xs) = []"
    using assms(3) by (auto simp: filter_empty_conv projected_ids_def)
  ultimately show ?thesis
    using assms(2) by (simp add: normalize_evidence_def Let_def del: set_map set_filter)
qed

lemma Derivation_init_iff:
  "Derivation_init d = Inr e \<longleftrightarrow>
     is_namespaced (dv_predicate d) \<and> is_namespaced (dv_stage d) \<and> dv_authority d \<in> set AuthorityClass
     \<and> dv_authority d \<notin> set NON_FACT_AUTHORITIES \<and> dv_completeness d \<in> set Completeness
     \<and> reject_embedded_body_fields (PDict (dv_metadata d)) = Inr ()
     \<and> (\<forall>x \<in> set (dv_input_observation_ids d). is_namespaced x) \<and> distinct (dv_input_observation_ids d)
     \<and> (\<forall>e \<in> set (dv_evidence_refs d). er_snapshot_id e \<in> {None, Some (dv_snapshot_id d)})
     \<and> (\<exists>refs i. normalize_evidence d = Inr refs \<and> distinct (map er_id refs) \<and> refs \<noteq> []
          \<and> set (dv_input_observation_ids d) \<subseteq> set (projected_ids d refs)
          \<and> default_id (dv_id d) ''derivation'' (Derivation_identity
              (d\<lparr>dv_evidence_refs := refs, dv_input_observation_ids := projected_ids d refs\<rparr>)) = Inr i
          \<and> e = d\<lparr>dv_evidence_refs := refs, dv_input_observation_ids := projected_ids d refs, dv_id := i\<rparr>)"
  by (simp add: Derivation_init_def res_iff) blast

lemma from_dict_namespaced: "EvidenceRef_from_dict e = Inr e \<Longrightarrow> is_namespaced (er_target_id e)"
  by (auto simp: EvidenceRef_from_dict_def EvidenceRef_init_iff res_iff)

lemma projected_idsD: "x \<in> set (projected_ids d refs) \<Longrightarrow> \<exists>e \<in> set refs. x = er_target_id e"
  by (auto simp: projected_ids_def)

lemma Derivation_idem:
  assumes fixed: "mapR EvidenceRef_from_dict (dv_evidence_refs d) = Inr (dv_evidence_refs d)"
    and d: "Derivation_init d = Inr e"
  shows "mapR EvidenceRef_from_dict (dv_evidence_refs e) = Inr (dv_evidence_refs e) \<and> Derivation_init e = Inr e"
proof -
  from d obtain refs i where n: "normalize_evidence d = Inr refs" and ok: "distinct (map er_id refs)" "refs \<noteq> []"
    and i: "default_id (dv_id d) ''derivation'' (Derivation_identity
              (d\<lparr>dv_evidence_refs := refs, dv_input_observation_ids := projected_ids d refs\<rparr>)) = Inr i"
    and e: "e = d\<lparr>dv_evidence_refs := refs, dv_input_observation_ids := projected_ids d refs, dv_id := i\<rparr>"
    and snap: "\<forall>e \<in> set (dv_evidence_refs d). er_snapshot_id e \<in> {None, Some (dv_snapshot_id d)}"
    unfolding Derivation_init_iff by blast
  have mem: "er_snapshot_id r = Some (dv_snapshot_id d)" "localize_evidence d r = Inr r"
    "EvidenceRef_from_dict r = Inr r" if "r \<in> set refs" for r
    using normalize_evidence_members [OF n that snap] fixed by simp_all
  have "normalize_evidence e = Inr refs"
    unfolding e normalize_evidence_dv_id
    by (rule normalize_evidence_closed) (use mem(2) normalize_evidence_sorted [OF n] in simp_all)
  moreover have "\<forall>x \<in> set (projected_ids d refs). is_namespaced x"
    using mem(3) from_dict_namespaced projected_idsD by metis
  moreover have "distinct (projected_ids d refs)" by (simp add: projected_ids_def)
  moreover have "i \<noteq> []" using default_id_not_Nil [OF i] .
  ultimately have "Derivation_init e = Inr e"
    using d mem(1) ok unfolding Derivation_init_iff by (auto simp: e)
  with mem(3) show ?thesis by (simp add: e mapR_fixed_iff)
qed

lemma Derivation_from_dict_parts:
  assumes "Derivation_from_dict d = Inr e"
  shows "mapR EvidenceRef_from_dict (dv_evidence_refs e) = Inr (dv_evidence_refs e) \<and> Derivation_init e = Inr e"
proof -
  from assms obtain rs where "mapR EvidenceRef_from_dict (dv_evidence_refs d) = Inr rs"
    and "Derivation_init (d\<lparr>dv_evidence_refs := rs\<rparr>) = Inr e"
    by (auto simp: Derivation_from_dict_def res_iff)
  then show ?thesis
    using Derivation_idem [of "d\<lparr>dv_evidence_refs := rs\<rparr>" e] evidence.built_list_idem by simp
qed

lemma Derivation_init_self:
  assumes "Derivation_init e = Inr e"
  shows "normalize_evidence e = Inr (dv_evidence_refs e)"
    and "dv_input_observation_ids e = projected_ids e (dv_evidence_refs e)"
    and "dv_id e \<noteq> []" and "distinct (map er_id (dv_evidence_refs e)) \<and> dv_evidence_refs e \<noteq> []"
proof -
  from assms obtain refs i where n: "normalize_evidence e = Inr refs"
    and ok: "distinct (map er_id refs) \<and> refs \<noteq> []"
    and i: "default_id (dv_id e) ''derivation'' (Derivation_identity
        (e\<lparr>dv_evidence_refs := refs, dv_input_observation_ids := projected_ids e refs\<rparr>)) = Inr i"
    and e: "e = e\<lparr>dv_evidence_refs := refs, dv_input_observation_ids := projected_ids e refs, dv_id := i\<rparr>"
    unfolding Derivation_init_iff by blast
  have "dv_evidence_refs e = refs" by (subst e) simp
  moreover have "dv_input_observation_ids e = projected_ids e refs" by (subst e) simp
  moreover have "dv_id e = i" by (subst e) simp
  ultimately show "normalize_evidence e = Inr (dv_evidence_refs e)"
    "dv_input_observation_ids e = projected_ids e (dv_evidence_refs e)" "dv_id e \<noteq> []"
    "distinct (map er_id (dv_evidence_refs e)) \<and> dv_evidence_refs e \<noteq> []"
    using n ok default_id_not_Nil [OF i] by simp_all
qed

interpretation derivation: content_addressed Derivation_from_dict dv_id "\<lambda>i. dv_id_update (\<lambda>_. i)"
proof unfold_locales
  show "Derivation_from_dict e = Inr e" if "Derivation_from_dict d = Inr e" for d e
    using that unfolding Derivation_from_dict_def
  proof (rule nested_idem_gen)
    show "mapR EvidenceRef_from_dict (dv_evidence_refs y) = Inr (dv_evidence_refs y) \<and> Derivation_init y = Inr y"
      if "mapR EvidenceRef_from_dict n = Inr n" "Derivation_init (x\<lparr>dv_evidence_refs := n\<rparr>) = Inr y" for n x y
      using Derivation_idem [OF _ that(2)] that(1) by simp
  qed (auto intro: evidence.built_list_idem)
next
  fix d e f
  assume "Derivation_from_dict d = Inr e" and "Derivation_from_dict (d\<lparr>dv_id := []\<rparr>) = Inr f"
  then obtain rs where e: "Derivation_init (d\<lparr>dv_evidence_refs := rs\<rparr>) = Inr e"
    and f: "Derivation_init (d\<lparr>dv_id := [], dv_evidence_refs := rs\<rparr>) = Inr f"
    by (auto simp: Derivation_from_dict_def res_iff)
  have swap: "d\<lparr>dv_id := [], dv_evidence_refs := rs\<rparr> = d\<lparr>dv_evidence_refs := rs, dv_id := []\<rparr>" by simp
  from e f [unfolded swap] show "f = e\<lparr>dv_id := dv_id f\<rparr>"
    unfolding Derivation_init_iff normalize_evidence_dv_id by auto
qed simp

section \<open>Properties\<close>

text \<open>The legacy list of observation ids of a derivation is a projection of its
  evidence: dropping it and rebuilding gives the same derivation, id included, so a
  derivation has one identity whichever way its observations are cited.\<close>
theorem derivation_legacy_ids_redundant:
  assumes "Derivation_from_dict d = Inr e"
  shows "Derivation_from_dict (e\<lparr>dv_input_observation_ids := []\<rparr>) = Inr e
         \<and> dv_input_observation_ids e = projected_ids e (dv_evidence_refs e)
         \<and> (\<forall>r \<in> set (dv_evidence_refs e). er_snapshot_id r = Some (dv_snapshot_id e))"
proof -
  have R: "mapR EvidenceRef_from_dict (dv_evidence_refs e) = Inr (dv_evidence_refs e)"
    and e: "Derivation_init e = Inr e"
    using Derivation_from_dict_parts [OF assms] by simp_all
  note self = Derivation_init_self [OF e]
  have snap: "\<forall>r \<in> set (dv_evidence_refs e). er_snapshot_id r \<in> {None, Some (dv_snapshot_id e)}"
    using e unfolding Derivation_init_iff by blast
  have mem: "er_snapshot_id r = Some (dv_snapshot_id e)" "localize_evidence e r = Inr r"
    if "r \<in> set (dv_evidence_refs e)" for r
    using normalize_evidence_members [OF self(1) that snap] by simp_all
  have "normalize_evidence (e\<lparr>dv_evidence_refs := dv_evidence_refs e, dv_input_observation_ids := []\<rparr>)
      = Inr (dv_evidence_refs e)"
    by (rule normalize_evidence_closed) (use mem normalize_evidence_sorted [OF self(1)] in simp_all)
  then have "normalize_evidence (e\<lparr>dv_input_observation_ids := []\<rparr>) = Inr (dv_evidence_refs e)" by simp
  moreover note self(3)
  ultimately have "Derivation_init (e\<lparr>dv_input_observation_ids := []\<rparr>) = Inr e"
    using e unfolding Derivation_init_iff by (simp add: self(2,3)) (use self(4) in simp)
  with R mem self(2) show ?thesis by (simp add: Derivation_from_dict_def)
qed

definition witness_derivation :: Derivation where
  "witness_derivation =
     \<lparr>dv_snapshot_id = ''s1'', dv_subject_id = ''e1'', dv_predicate = ''latency'', dv_value = PInt 3,
      dv_algorithm = ''sum'', dv_algorithm_version = ''1'', dv_input_observation_ids = [''o1''],
      dv_id = ''derivation_1'', dv_unit = None, dv_stage = ''schedule'', dv_authority = ''derived_fact'',
      dv_completeness = ''complete'', dv_metadata = [], dv_evidence_refs = []\<rparr>"

lemma namespaced_examples [simp]:
  "is_namespaced ''s1''" "is_namespaced ''o1''" "is_namespaced ''latency''" "is_namespaced ''schedule''"
  "is_namespaced ''a1''" "is_namespaced ''report''" "is_namespaced ''parser''"
  by code_simp+

lemma reject_embedded_Nil [simp]: "reject_embedded_body_fields (PDict []) = Inr ()"
  by (simp add: reject_embedded_body_fields.simps)

lemma stable_id_total: "json_ready v = Inr j \<Longrightarrow> dumps j = Inr t \<Longrightarrow> stable_id p v = Inr (p @ ''_'' @ take 24 (sha256_hex t))"
  by (simp add: stable_id_def stable_id_n_def stable_hash_def canonical_json_def)

lemma witness_observation_ref: "\<exists>e. observation_ref witness_derivation ''o1'' = Inr e"
proof -
  have "\<exists>j t. json_ready (pdict [(''kind'', PStr ''observation''), (''target'', PStr ''o1''),
      (''snapshot'', PStr ''s1''), (''anchor'', PNone)]) = Inr j \<and> dumps j = Inr t"
    by (simp add: pdict_def dict_of_pairs_def)
  then show ?thesis
    by (auto simp: observation_ref_def witness_derivation_def EvidenceRef_init_iff EvidenceRef_identity_def
          opt_str_def opt_anchor_def evidence_anchor_check_def reject_def EvidenceKind_def dest: stable_id_total)
qed

lemma witness_derivation_built: "\<exists>e. Derivation_from_dict witness_derivation = Inr e"
proof -
  obtain r where r: "observation_ref witness_derivation ''o1'' = Inr r" using witness_observation_ref ..
  note iff = observation_ref_iff [OF r]
  have "normalize_evidence witness_derivation = Inr [r]"
    using r by (simp add: normalize_evidence_def witness_derivation_def)
  moreover have "projected_ids witness_derivation [r] = [''o1'']"
    using iff by (simp add: projected_ids_def sorted_set_def)
  ultimately have "\<exists>e. Derivation_init witness_derivation = Inr e"
    by (simp add: Derivation_init_iff witness_derivation_def AuthorityClass_def NON_FACT_AUTHORITIES_def
          Completeness_def)
  moreover have "witness_derivation\<lparr>dv_evidence_refs := []\<rparr> = witness_derivation"
    by (simp add: witness_derivation_def)
  ultimately show ?thesis by (simp add: Derivation_from_dict_def witness_derivation_def)
qed

theorem derivation_legacy_ids_redundant_witness:
  "\<exists>e. Derivation_from_dict witness_derivation = Inr e
     \<and> Derivation_from_dict (e\<lparr>dv_input_observation_ids := []\<rparr>) = Inr e"
  using witness_derivation_built derivation_legacy_ids_redundant by blast

text \<open>C33: the write boundary of the store accepts a fact exactly when it is what its own
  constructor makes of its content: nothing left to normalise, and the id recomputed.\<close>
theorem store_accepts_content_addressed_facts:
  "(revalidate_model ArtifactRef_init ar_id (\<lambda>i. ar_id_update (\<lambda>_. i)) a = Inr a'
      \<longleftrightarrow> a' = a \<and> ArtifactRef_init (a\<lparr>ar_id := []\<rparr>) = Inr a)
   \<and> (revalidate_model Entity_from_dict en_id (\<lambda>i. en_id_update (\<lambda>_. i)) e = Inr e'
      \<longleftrightarrow> e' = e \<and> Entity_from_dict (e\<lparr>en_id := []\<rparr>) = Inr e)
   \<and> (revalidate_model Relation_from_dict rl_id (\<lambda>i. rl_id_update (\<lambda>_. i)) r = Inr r'
      \<longleftrightarrow> r' = r \<and> Relation_from_dict (r\<lparr>rl_id := []\<rparr>) = Inr r)
   \<and> (revalidate_model Observation_from_dict ob_id (\<lambda>i. ob_id_update (\<lambda>_. i)) b = Inr b'
      \<longleftrightarrow> b' = b \<and> Observation_from_dict (b\<lparr>ob_id := []\<rparr>) = Inr b)
   \<and> (revalidate_model Derivation_from_dict dv_id (\<lambda>i. dv_id_update (\<lambda>_. i)) d = Inr d'
      \<longleftrightarrow> d' = d \<and> Derivation_from_dict (d\<lparr>dv_id := []\<rparr>) = Inr d)"
  by (intro conjI) (rule artifact.revalidate_iff entity.revalidate_iff relation.revalidate_iff
        observation.revalidate_iff derivation.revalidate_iff)+

lemma strip_Nil_iff: "strip (strip s) = [] \<longleftrightarrow> strip s = []"
  by simp

lemma stable_hash_lower: "stable_hash v = Inr h \<Longrightarrow> is_sha256 h \<and> lower h = h"
  by (auto simp: stable_hash_def res_iff is_sha256_lower_imp lower_sha256_lower)

text \<open>C34: the commitment a parser issues for a report verifies against the predicate,
  value and unit it was issued for, and against no value that hashes differently.\<close>
theorem observation_commitment_verifies:
  assumes "ArtifactRef_init a = Inr a"
    and "observation_source_commitment a parser version predicate v u = Inr s"
  shows "ObservationSource_validation_error s predicate v u = Inr None
         \<and> (\<forall>q w t. ObservationSource_validation_error s q w t = Inr None
              \<longrightarrow> stable_hash (source_payload q w t) = stable_hash (source_payload predicate v u))"
proof -
  have sha: "lower (ar_sha256 a) = ar_sha256 a"
    using assms(1) by (auto simp: ArtifactRef_init_def res_iff) (metis ArtifactRef.select_convs(3) ArtifactRef.surjective ArtifactRef.update_convs(2,3,5) lower_idem)
  from assms(2) obtain p b where p: "stable_hash (source_payload predicate v u) = Inr p"
    and b: "stable_hash (source_binding ''hlsgraph.observation_source.v1'' (ar_id a) (ar_sha256 a)
              parser (strip version) p) = Inr b"
    and s: "s = \<lparr>so_artifact_id = ar_id a, so_artifact_sha256 = ar_sha256 a, so_parser_name = parser,
              so_parser_version = strip version, so_payload_sha256 = p, so_binding_sha256 = b,
              so_contract = ''hlsgraph.observation_source.v1''\<rparr>"
    using sha by (auto simp: observation_source_commitment_def Let_def ObservationSource_init_def res_iff
        dest: stable_hash_lower)
  have "ObservationSource_validation_error s predicate v u = Inr None"
    using p b by (simp add: ObservationSource_validation_error_def s err_if_def)
  moreover have "stable_hash (source_payload q w t) = Inr p"
    if "ObservationSource_validation_error s q w t = Inr None" for q w t
    using that by (auto simp: ObservationSource_validation_error_def s res_iff split: if_splits)
  ultimately show ?thesis using p by simp
qed

definition witness_artifact :: ArtifactRef where
  "witness_artifact =
     \<lparr>ar_kind = ''report'', ar_uri = ''r'', ar_sha256 = replicate 64 (CHR ''a''), ar_size = 1,
      ar_id = ''a1'', ar_media_type = None, ar_role = None, ar_license = None,
      ar_producer_run_id = None, ar_retention = ''external'', ar_access = ''private'', ar_metadata = []\<rparr>"

lemma witness_artifact_built: "ArtifactRef_init witness_artifact = Inr witness_artifact"
proof -
  have "safe_relative_path ''r'' = Inr ''r''" by code_simp
  moreover have "is_sha256_lower (replicate 64 (CHR ''a''))" by code_simp
  ultimately show ?thesis
    by (simp add: ArtifactRef_init_def witness_artifact_def checks_eval require_namespaced_def enum_value_def
          RetentionPolicy_def AccessPolicy_def lower_sha256_lower is_sha256_lower_imp)
qed

theorem observation_commitment_verifies_witness:
  "\<exists>s. observation_source_commitment witness_artifact ''parser'' '' 1'' ''latency'' (PStr ''x'') None = Inr s
     \<and> ObservationSource_validation_error s ''latency'' (PStr ''x'') None = Inr None"
proof -
  have "\<exists>s. observation_source_commitment witness_artifact ''parser'' '' 1'' ''latency'' (PStr ''x'') None = Inr s"
  proof -
    have total: "\<exists>h. stable_hash (source_payload ''latency'' (PStr ''x'') None) = Inr h"
      by (simp add: stable_hash_def canonical_json_def source_payload_def pdict_def dict_of_pairs_def opt_str_def)
    have total': "\<exists>h. stable_hash (source_binding c i a q w y) = Inr h" for c i a q w y
      by (simp add: stable_hash_def canonical_json_def source_binding_def pdict_def dict_of_pairs_def)
    have "strip '' 1'' = ''1''" "is_namespaced ''hlsgraph.observation_source.v1''" "strip ''1'' = ''1''"
      by code_simp+
    moreover have "is_sha256 (replicate 64 (CHR ''a''))" by code_simp
    moreover obtain h where h: "stable_hash (source_payload ''latency'' (PStr ''x'') None) = Inr h"
      using total ..
    moreover obtain g where "stable_hash (source_binding ''hlsgraph.observation_source.v1'' ''a1''
        (replicate 64 (CHR ''a'')) ''parser'' ''1'' h) = Inr g" using total' ..
    ultimately show ?thesis
      by (simp add: observation_source_commitment_def witness_artifact_def ObservationSource_init_def checks_eval
            require_namespaced_def stable_hash_lower Let_def)
  qed
  then show ?thesis using observation_commitment_verifies [OF witness_artifact_built] by blast
qed

text \<open>Every reference of a correspondence names one of its two snapshots, whatever
  the references it was built from left open.\<close>
theorem correspondence_evidence_qualified:
  assumes "EntityCorrespondence_init c = Inr d" and "r \<in> set (ec_evidence_refs d)"
  shows "er_snapshot_id r \<in> {Some (ec_source_snapshot_id d), Some (ec_target_snapshot_id d)}
         \<and> ec_completeness d \<noteq> ''missing'' \<and> ec_authority d \<notin> set NON_FACT_AUTHORITIES"
proof -
  from assms(1) obtain vs i where v: "mapR (qualify_evidence c) (ec_evidence_refs c) = Inr vs"
    and d: "d = c\<lparr>ec_evidence_refs := sort_key er_id vs, ec_id := i\<rparr>"
    and ok: "ec_completeness c \<noteq> ''missing''" "ec_authority c \<notin> set NON_FACT_AUTHORITIES"
    by (auto simp: EntityCorrespondence_init_def res_iff)
  from assms(2) d obtain r' where "qualify_evidence c r' = Inr r"
    using mapR_set [OF v] by auto
  then have "er_snapshot_id r \<in> {Some (ec_source_snapshot_id c), Some (ec_target_snapshot_id c)}"
    by (auto simp: qualify_evidence_def split: option.splits if_splits dest!: evidence_in_iff)
  with ok d show ?thesis by simp
qed

theorem correspondence_evidence_qualified_witness:
  "er_snapshot_id \<lparr>er_kind = ''relation'', er_target_id = ''a1'', er_snapshot_id = Some ''s1'', er_anchor = None,
      er_id = ''o1''\<rparr> \<in> {Some ''s1'', Some ''a1''}"
proof -
  let ?r = "\<lparr>er_kind = ''relation'', er_target_id = ''a1'', er_snapshot_id = Some ''s1'', er_anchor = None,
      er_id = ''o1''\<rparr>"
  let ?c = "\<lparr>ec_source_snapshot_id = ''s1'', ec_source_entity_id = ''a1'', ec_target_snapshot_id = ''a1'',
      ec_target_entity_id = ''a1'', ec_kind = ''report'', ec_producer = ''parser'', ec_producer_version = ''s1'',
      ec_evidence_refs = [?r], ec_id = ''o1'', ec_authority = ''derived_fact'', ec_completeness = ''complete'',
      ec_metadata = []\<rparr>"
  have "EntityCorrespondence_init ?c = Inr ?c"
    by (simp add: EntityCorrespondence_init_def checks_eval require_namespaced_def enum_value_def
        require_fact_authority_def AuthorityClass_def NON_FACT_AUTHORITIES_def Completeness_def
        qualify_evidence_def)
  from correspondence_evidence_qualified [OF this, of ?r] show ?thesis by simp
qed

end
