(* ===== verification/Model_Run.thy ===== *)
theory Model_Run
  imports Model_Facts
begin

text \<open>
  Tool runs and the attestations of their execution (\<open>hlsgraph/model.py\<close>): \<open>ToolRun\<close>
  with the contract of an \<open>infra_resource_guard\<close> event, declared and attested outputs,
  \<open>ExecutionAttestation\<close> and \<open>ExecutionCommitReceipt\<close>.
\<close>

section \<open>ToolRun\<close>

record ToolRun =
  tr_snapshot_id :: string
  tr_stage :: string
  tr_backend :: string
  tr_request_hash :: string
  tr_id :: string
  tr_toolchain_id :: "string option"
  tr_status :: string
  tr_command :: "string list"
  tr_working_directory :: "string option"
  tr_environment_hash :: "string option"
  tr_input_artifact_ids :: "string list"
  tr_output_artifact_ids :: "string list"
  tr_diagnostics :: "string list"
  tr_gates :: "GateResult list"
  tr_failure_class :: string
  tr_exit_code :: pyval
  tr_attempt :: pyval
  tr_started_at :: pyval
  tr_finished_at :: pyval
  tr_elapsed_s :: pyval
  tr_message :: pyval
  tr_metadata :: pydict

definition run_ids_check :: "string list \<Rightarrow> unit res" where
  "run_ids_check ids =
     checks [reject ([] \<in> set ids) ''must contain only non-empty string IDs'',
             forR require_namespaced ids] ()"

definition run_timestamp :: "iso_parser \<Rightarrow> pyval \<Rightarrow> int option res" where
  "run_timestamp parse_iso v =
     (case v of
        PNone \<Rightarrow> Inr None
      | PStr s \<Rightarrow>
          if length s > 64 \<or> has_nul s
          then Inl (ValueError ''must be a bounded ISO-8601 timestamp or None'')
          else (case parse_iso (zulu_offset s) of
                  None \<Rightarrow> Inl (ValueError ''must be a bounded ISO-8601 timestamp or None'')
                | Some None \<Rightarrow> Inl (ValueError ''must include a timezone'')
                | Some (Some t) \<Rightarrow> Inr (Some t))
      | _ \<Rightarrow> Inl (ValueError ''must be a bounded ISO-8601 timestamp or None''))"

definition run_times_check :: "iso_parser \<Rightarrow> ToolRun \<Rightarrow> unit res" where
  "run_times_check parse_iso r =
     bindR (run_timestamp parse_iso (tr_started_at r)) (\<lambda>started.
     bindR (run_timestamp parse_iso (tr_finished_at r)) (\<lambda>finished.
     reject (case (started, finished) of (Some s, Some f) \<Rightarrow> f < s | _ \<Rightarrow> False)
       ''run finished_at cannot precede started_at''))"

definition preflight_rejection :: "pydict \<Rightarrow> bool" where
  "preflight_rejection m =
     (dget m ''resource_guard_configured'' = PBool True \<and> dget m ''resource_guard_checked'' = PBool True
      \<and> dget m ''resource_guard_passed'' = PBool False \<and> dget m ''fresh_execution'' = PBool False)"

definition runtime_rejection :: "pydict \<Rightarrow> bool" where
  "runtime_rejection m =
     (dget m ''runtime_guard_configured'' = PBool True \<and> dget m ''runtime_guard_checked'' = PBool True
      \<and> dget m ''runtime_guard_passed'' = PBool False \<and> dget m ''runtime_guard_triggered'' = PBool True
      \<and> dget m ''fresh_execution'' = PBool True)"

definition guard_contract :: "ToolRun \<Rightarrow> unit res" where
  "guard_contract r =
     (let m = tr_metadata r in
      reject
        (tr_failure_class r = ''infra_resource_guard''
         \<and> (tr_status r \<noteq> ''failed''
            \<or> \<not> (preflight_rejection m \<or> runtime_rejection m)
            \<or> dget m ''fresh_tool_truth'' \<noteq> PBool False
            \<or> dget m ''tool_truth'' \<noteq> PBool False
            \<or> dget m ''authority'' \<noteq> PStr ''infrastructure''
            \<or> tr_output_artifact_ids r \<noteq> []))
        ''infra_resource_guard requires a failed, non-tool, structured resource-guard provenance event'')"

text \<open>The fingerprint of the runner, when the metadata carries one, is stored in lower case.\<close>

definition fingerprint_check :: "pydict \<Rightarrow> unit res" where
  "fingerprint_check m =
     reject (dhas m ''runner_fingerprint''
             \<and> \<not> (is_str (dget m ''runner_fingerprint'') \<and> is_sha256 (str_of (dget m ''runner_fingerprint''))))
       ''run metadata.runner_fingerprint must be a 64-character SHA-256 digest''"

definition lower_fingerprint :: "pydict \<Rightarrow> pydict" where
  "lower_fingerprint m =
     (if dhas m ''runner_fingerprint''
      then AList.update (KStr ''runner_fingerprint'') (PStr (lower (str_of (dget m ''runner_fingerprint'')))) m
      else m)"

definition ToolRun_identity :: "ToolRun \<Rightarrow> pyval" where
  "ToolRun_identity r = pdict
     [(''snapshot'', PStr (tr_snapshot_id r)), (''stage'', PStr (tr_stage r)),
      (''backend'', PStr (tr_backend r)), (''request'', PStr (tr_request_hash r)),
      (''attempt'', tr_attempt r), (''started_at'', tr_started_at r)]"

definition ToolRun_shape :: "iso_parser \<Rightarrow> ToolRun \<Rightarrow> unit res" where
  "ToolRun_shape parse_iso r =
     checks
       [require_namespaced (tr_snapshot_id r), require_namespaced (tr_backend r),
        require_namespaced (tr_stage r),
        reject (\<not> is_sha256 (tr_request_hash r)) ''run request_hash must be a 64-character SHA-256 digest'',
        (if tr_id r = [] then Inr () else require_namespaced (tr_id r)),
        opt_namespaced (tr_toolchain_id r),
        reject (opt_any (\<lambda>w. strip w = [] \<or> has_nul w) (tr_working_directory r))
          ''run working_directory must be a non-empty string without NUL'',
        reject (opt_any (\<lambda>h. \<not> is_sha256 h) (tr_environment_hash r))
          ''run environment_hash must be a 64-character SHA-256 digest'',
        reject (list_ex (\<lambda>a. strip a = [] \<or> has_nul a) (tr_command r))
          ''run command must be a list of non-empty strings without NUL'',
        forR run_ids_check [tr_input_artifact_ids r, tr_output_artifact_ids r, tr_diagnostics r],
        reject (\<not> is_int_where (\<lambda>i. 1 \<le> i \<and> i \<le> 2147483647) (tr_attempt r))
          ''run attempt must be a positive 32-bit integer'',
        reject (tr_exit_code r \<noteq> PNone \<and> \<not> is_int_where (\<lambda>_. True) (tr_exit_code r))
          ''run exit_code must be an integer or None'',
        (if tr_elapsed_s r = PNone then Inr () else nonnegative_finite (tr_elapsed_s r)),
        run_times_check parse_iso r,
        reject (tr_message r \<noteq> PNone \<and> \<not> (is_str (tr_message r) \<and> \<not> has_nul (str_of (tr_message r))))
          ''run message must be a string without NUL or None'',
        fingerprint_check (tr_metadata r),
        enum_value RunStatus (tr_status r),
        enum_value FailureClass (tr_failure_class r)] ()"

definition ToolRun_init :: "iso_parser \<Rightarrow> ToolRun \<Rightarrow> ToolRun res" where
  "ToolRun_init parse_iso r =
     bindR (ToolRun_shape parse_iso r) (\<lambda>_.
     bindR (checks
       [guard_contract r, reject_embedded_body_fields (PDict (tr_metadata r))]
       (r\<lparr>tr_request_hash := lower (tr_request_hash r),
          tr_environment_hash := map_option lower (tr_environment_hash r),
          tr_metadata := lower_fingerprint (tr_metadata r)\<rparr>)) (\<lambda>r.
     bindR (default_id (tr_id r) ''run'' (ToolRun_identity r)) (\<lambda>i.
     Inr (r\<lparr>tr_id := i\<rparr>))))"

definition ToolRun_from_dict :: "iso_parser \<Rightarrow> ToolRun \<Rightarrow> ToolRun res" where
  "ToolRun_from_dict parse_iso r =
     bindR (mapR GateResult_init (tr_gates r)) (\<lambda>gates. ToolRun_init parse_iso (r\<lparr>tr_gates := gates\<rparr>))"

section \<open>Declared and attested outputs\<close>

record ExecutionDeclaredOutput =
  xd_path :: string
  xd_kind :: string
  xd_required :: pyval
  xd_max_bytes :: pyval

definition ExecutionDeclaredOutput_val :: "ExecutionDeclaredOutput \<Rightarrow> pyval" where
  "ExecutionDeclaredOutput_val d = PObj
     [(''path'', PStr (xd_path d)), (''kind'', PStr (xd_kind d)), (''required'', xd_required d),
      (''max_bytes'', xd_max_bytes d)]"

definition ExecutionDeclaredOutput_init :: "ExecutionDeclaredOutput \<Rightarrow> ExecutionDeclaredOutput res" where
  "ExecutionDeclaredOutput_init d =
     bindR (safe_relative_path (xd_path d)) (\<lambda>path.
     checks
       [require_namespaced (xd_kind d),
        reject (\<not> is_bool (xd_required d)) ''execution declared output required must be boolean'',
        reject (\<not> is_int_where (\<lambda>i. 0 \<le> i) (xd_max_bytes d))
          ''execution declared output max_bytes must be non-negative'']
       (d\<lparr>xd_path := path\<rparr>))"

record ExecutionOutputAttestation =
  xo_artifact_id :: string
  xo_path :: string
  xo_kind :: string
  xo_sha256 :: string
  xo_size :: pyval

definition ExecutionOutputAttestation_val :: "ExecutionOutputAttestation \<Rightarrow> pyval" where
  "ExecutionOutputAttestation_val a = PObj
     [(''artifact_id'', PStr (xo_artifact_id a)), (''path'', PStr (xo_path a)), (''kind'', PStr (xo_kind a)),
      (''sha256'', PStr (xo_sha256 a)), (''size'', xo_size a)]"

definition ExecutionOutputAttestation_init ::
  "ExecutionOutputAttestation \<Rightarrow> ExecutionOutputAttestation res" where
  "ExecutionOutputAttestation_init a =
     bindR (require_namespaced (xo_artifact_id a)) (\<lambda>_.
     bindR (safe_relative_path (xo_path a)) (\<lambda>path.
     (let digest = casefold (xo_sha256 a) in
      checks
        [require_namespaced (xo_kind a),
         reject (\<not> is_sha256_lower digest) ''execution output sha256 must be SHA-256'',
         reject (\<not> is_int_where (\<lambda>i. 0 \<le> i) (xo_size a)) ''execution output size must be non-negative'']
        (a\<lparr>xo_path := path, xo_sha256 := digest\<rparr>))))"

section \<open>Attestation and receipt\<close>

record ExecutionAttestation =
  xa_run_id :: string
  xa_snapshot_id :: string
  xa_stage :: string
  xa_runner_identity :: string
  xa_runner_authority :: string
  xa_runner_fingerprint :: string
  xa_request_hash :: string
  xa_run_payload_hash :: string
  xa_manifest_hash :: string
  xa_build_hash :: string
  xa_target_hash :: string
  xa_constraint_hash :: string
  xa_toolchain_hash :: string
  xa_toolchain_id :: string
  xa_declared_outputs :: "ExecutionDeclaredOutput list"
  xa_outputs :: "ExecutionOutputAttestation list"
  xa_protocol_version :: string
  xa_validator :: string
  xa_id :: string

definition ExecutionAttestation_identity :: "ExecutionAttestation \<Rightarrow> pyval" where
  "ExecutionAttestation_identity a = pdict
     [(''run_id'', PStr (xa_run_id a)), (''snapshot_id'', PStr (xa_snapshot_id a)),
      (''stage'', PStr (xa_stage a)), (''runner_identity'', PStr (xa_runner_identity a)),
      (''runner_authority'', PStr (xa_runner_authority a)),
      (''runner_fingerprint'', PStr (xa_runner_fingerprint a)),
      (''request_hash'', PStr (xa_request_hash a)), (''run_payload_hash'', PStr (xa_run_payload_hash a)),
      (''manifest_hash'', PStr (xa_manifest_hash a)), (''build_hash'', PStr (xa_build_hash a)),
      (''target_hash'', PStr (xa_target_hash a)), (''constraint_hash'', PStr (xa_constraint_hash a)),
      (''toolchain_hash'', PStr (xa_toolchain_hash a)), (''toolchain_id'', PStr (xa_toolchain_id a)),
      (''declared_outputs'', PTuple (map ExecutionDeclaredOutput_val (xa_declared_outputs a))),
      (''outputs'', PTuple (map ExecutionOutputAttestation_val (xa_outputs a))),
      (''protocol_version'', PStr (xa_protocol_version a)), (''validator'', PStr (xa_validator a))]"

definition digest_check :: "string \<Rightarrow> unit res" where
  "digest_check h = reject (\<not> is_sha256_lower (casefold h)) ''must be SHA-256''"

definition ExecutionAttestation_init :: "ExecutionAttestation \<Rightarrow> ExecutionAttestation res" where
  "ExecutionAttestation_init a =
     bindR (checks
       [forR require_namespaced
          [xa_run_id a, xa_snapshot_id a, xa_stage a, xa_runner_identity a, xa_runner_authority a,
           xa_toolchain_id a, xa_protocol_version a, xa_validator a],
        forR digest_check
          [xa_runner_fingerprint a, xa_request_hash a, xa_run_payload_hash a, xa_manifest_hash a,
           xa_build_hash a, xa_target_hash a, xa_constraint_hash a, xa_toolchain_hash a],
        reject (has_duplicates (map xd_path (xa_declared_outputs a)))
          ''execution attestation declarations must have unique paths'',
        reject (has_duplicates (map xo_path (xa_outputs a)))
          ''execution attestation outputs must have unique paths'',
        reject (has_duplicates (map xo_artifact_id (xa_outputs a)))
          ''execution attestation outputs must have unique artifact IDs'']
       (a\<lparr>xa_runner_fingerprint := casefold (xa_runner_fingerprint a),
          xa_request_hash := casefold (xa_request_hash a),
          xa_run_payload_hash := casefold (xa_run_payload_hash a),
          xa_manifest_hash := casefold (xa_manifest_hash a),
          xa_build_hash := casefold (xa_build_hash a),
          xa_target_hash := casefold (xa_target_hash a),
          xa_constraint_hash := casefold (xa_constraint_hash a),
          xa_toolchain_hash := casefold (xa_toolchain_hash a),
          xa_declared_outputs := sort_key xd_path (xa_declared_outputs a),
          xa_outputs := sort_key xo_path (xa_outputs a)\<rparr>)) (\<lambda>a.
     bindR (closed_id_n (xa_id a) ''execution_attestation'' (ExecutionAttestation_identity a) 32
       ''execution attestation stable id does not match'') (\<lambda>expected.
     Inr (a\<lparr>xa_id := expected\<rparr>)))"

definition ExecutionAttestation_from_dict :: "ExecutionAttestation \<Rightarrow> ExecutionAttestation res" where
  "ExecutionAttestation_from_dict a =
     bindR (mapR ExecutionDeclaredOutput_init (xa_declared_outputs a)) (\<lambda>declared.
     bindR (mapR ExecutionOutputAttestation_init (xa_outputs a)) (\<lambda>outputs.
     ExecutionAttestation_init (a\<lparr>xa_declared_outputs := declared, xa_outputs := outputs\<rparr>)))"

record ExecutionCommitReceipt =
  xr_attestation_id :: string
  xr_run_id :: string
  xr_snapshot_id :: string
  xr_run_payload_hash :: string
  xr_attestation_payload_hash :: string
  xr_receipt_contract :: string
  xr_validator :: string
  xr_id :: string

definition ExecutionCommitReceipt_identity :: "ExecutionCommitReceipt \<Rightarrow> pyval" where
  "ExecutionCommitReceipt_identity r = pdict
     [(''attestation_id'', PStr (xr_attestation_id r)), (''run_id'', PStr (xr_run_id r)),
      (''snapshot_id'', PStr (xr_snapshot_id r)), (''run_payload_hash'', PStr (xr_run_payload_hash r)),
      (''attestation_payload_hash'', PStr (xr_attestation_payload_hash r)),
      (''receipt_contract'', PStr (xr_receipt_contract r)), (''validator'', PStr (xr_validator r))]"

definition ExecutionCommitReceipt_init :: "ExecutionCommitReceipt \<Rightarrow> ExecutionCommitReceipt res" where
  "ExecutionCommitReceipt_init r =
     bindR (checks
       [forR require_namespaced
          [xr_attestation_id r, xr_run_id r, xr_snapshot_id r, xr_receipt_contract r, xr_validator r],
        forR digest_check [xr_run_payload_hash r, xr_attestation_payload_hash r]]
       (r\<lparr>xr_run_payload_hash := casefold (xr_run_payload_hash r),
          xr_attestation_payload_hash := casefold (xr_attestation_payload_hash r)\<rparr>)) (\<lambda>r.
     bindR (closed_id_n (xr_id r) ''execution_receipt'' (ExecutionCommitReceipt_identity r) 32
       ''execution receipt stable id does not match'') (\<lambda>expected.
     Inr (r\<lparr>xr_id := expected\<rparr>)))"

section \<open>Every run contract is a content-addressed normaliser\<close>

lemma dget_update: "dget (AList.update (KStr k) v m) j = (if j = k then v else dget m j)"
  by (simp add: dget_def update_conv)

lemma dhas_update: "dhas (AList.update (KStr k) v m) j \<longleftrightarrow> j = k \<or> dhas m j"
  by (simp add: dhas_def update_conv)

lemma dget_lower_fingerprint:
  "dget (lower_fingerprint m) k =
     (if k = ''runner_fingerprint'' \<and> dhas m k then PStr (lower (str_of (dget m k))) else dget m k)"
  by (auto simp: lower_fingerprint_def dget_update)

lemma dhas_lower_fingerprint: "dhas (lower_fingerprint m) k \<longleftrightarrow> dhas m k"
  by (auto simp: lower_fingerprint_def dhas_update)

lemma fingerprint_check_iff:
  "fingerprint_check m = Inr u \<longleftrightarrow> (dhas m ''runner_fingerprint'' \<longrightarrow>
     (\<exists>h. dget m ''runner_fingerprint'' = PStr h \<and> is_sha256 h))"
  by (cases "dget m ''runner_fingerprint''") (auto simp: fingerprint_check_def res_iff)

lemma lower_fingerprint_idem [simp]: "lower_fingerprint (lower_fingerprint m) = lower_fingerprint m"
proof (cases "dhas m ''runner_fingerprint''")
  case True
  let ?v = "PStr (lower (str_of (dget m ''runner_fingerprint'')))"
  have "lower_fingerprint m = AList.update (KStr ''runner_fingerprint'') ?v m"
    using True by (simp add: lower_fingerprint_def)
  moreover have "lower_fingerprint (AList.update (KStr ''runner_fingerprint'') ?v m)
      = AList.update (KStr ''runner_fingerprint'') ?v (AList.update (KStr ''runner_fingerprint'') ?v m)"
    by (simp add: lower_fingerprint_def dhas_update dget_update)
  ultimately show ?thesis by (simp add: update_triv update_conv)
qed (simp add: lower_fingerprint_def)

lemma fingerprint_check_lower: "fingerprint_check m = Inr () \<Longrightarrow> fingerprint_check (lower_fingerprint m) = Inr ()"
  by (auto simp: fingerprint_check_iff dhas_lower_fingerprint dget_lower_fingerprint)

lemma set_update: "set (AList.update k v m) \<subseteq> insert (k, v) (set m)"
  by (induction m) auto

lemma reject_embedded_update:
  assumes "reject_embedded_body_fields (PDict m) = Inr ()" and "dhas m k"
  shows "reject_embedded_body_fields (PDict (AList.update (KStr k) (PStr t) m)) = Inr ()"
proof -
  from assms(2) obtain v where "(KStr k, v) \<in> set m" by (auto simp: dhas_def dest: map_of_SomeD)
  with assms(1) have "\<not> body_key (KStr k)"
    by (force simp: reject_embedded_body_fields.simps res_iff split: if_splits)
  then show ?thesis
    using assms(1) set_update [of "KStr k" "PStr t" m]
    by (fastforce simp: reject_embedded_body_fields.simps res_iff split: if_splits)
qed

lemma guard_contract_fields:
  "tr_metadata s = lower_fingerprint (tr_metadata r) \<Longrightarrow> tr_failure_class s = tr_failure_class r \<Longrightarrow>
   tr_status s = tr_status r \<Longrightarrow> tr_output_artifact_ids s = tr_output_artifact_ids r \<Longrightarrow>
   guard_contract s = guard_contract r"
  by (simp add: guard_contract_def preflight_rejection_def runtime_rejection_def dget_lower_fingerprint Let_def)

lemma stable_id_namespaced:
  assumes "is_namespaced p" and "stable_id_n p v n = Inr i"
  shows "is_namespaced i"
proof -
  from assms(2) obtain t where i: "i = p @ ''_'' @ take n (sha256_hex t)"
    by (auto simp: stable_id_n_def stable_hash_def res_iff)
  have hex: "namespaced_char c" if "is_hex_lower c" for c
    using that by (auto simp: namespaced_char_def char_class_defs)
  have "list_all is_hex_lower (sha256_hex t)" using sha256_hex_shape by (simp add: is_sha256_lower_def)
  then have "list_all namespaced_char (take n (sha256_hex t))"
    using hex by (auto simp: list_all_iff dest: in_set_takeD)
  moreover have "namespaced_char (CHR ''_'')" by (simp add: namespaced_char_def)
  ultimately show ?thesis
    using assms(1) unfolding i by (cases p) (simp_all add: is_namespaced.simps)
qed

lemma default_id_namespaced:
  "is_namespaced p \<Longrightarrow> default_id i p v = Inr j \<Longrightarrow> i \<noteq> [] \<longrightarrow> is_namespaced i \<Longrightarrow> is_namespaced j"
  by (auto simp: default_id_def default_id_n_def intro: stable_id_namespaced split: if_splits)

lemma run_times_check_fields:
  "tr_started_at s = tr_started_at r \<Longrightarrow> tr_finished_at s = tr_finished_at r \<Longrightarrow>
   run_times_check p s = run_times_check p r"
  by (simp add: run_times_check_def)

lemma ToolRun_init_iff:
  "ToolRun_init p r = Inr s \<longleftrightarrow>
     ToolRun_shape p r = Inr () \<and> guard_contract r = Inr ()
     \<and> reject_embedded_body_fields (PDict (tr_metadata r)) = Inr ()
     \<and> (\<exists>i. default_id (tr_id r) ''run'' (ToolRun_identity
              (r\<lparr>tr_request_hash := lower (tr_request_hash r)\<rparr>)) = Inr i
          \<and> s = r\<lparr>tr_request_hash := lower (tr_request_hash r),
                  tr_environment_hash := map_option lower (tr_environment_hash r),
                  tr_metadata := lower_fingerprint (tr_metadata r), tr_id := i\<rparr>)"
  by (auto simp: ToolRun_init_def res_iff ToolRun_identity_def)

lemma ToolRun_idem: "ToolRun_init p r = Inr s \<Longrightarrow> ToolRun_init p s = Inr s \<and> tr_gates s = tr_gates r"
proof -
  assume r: "ToolRun_init p r = Inr s"
  then obtain i where i: "default_id (tr_id r) ''run'' (ToolRun_identity
              (r\<lparr>tr_request_hash := lower (tr_request_hash r)\<rparr>)) = Inr i"
    and s: "s = r\<lparr>tr_request_hash := lower (tr_request_hash r),
                  tr_environment_hash := map_option lower (tr_environment_hash r),
                  tr_metadata := lower_fingerprint (tr_metadata r), tr_id := i\<rparr>"
    and shape: "ToolRun_shape p r = Inr ()" and guard: "guard_contract r = Inr ()"
    and body: "reject_embedded_body_fields (PDict (tr_metadata r)) = Inr ()"
    unfolding ToolRun_init_iff by blast
  have "i \<noteq> []" by (rule default_id_not_Nil [OF i])
  have "is_namespaced ''run''" by code_simp
  then have "is_namespaced i"
    using default_id_namespaced [OF _ i] shape by (auto simp: ToolRun_shape_def res_iff split: if_splits)
  then have "ToolRun_shape p s = Inr ()"
    using shape run_times_check_fields [of s r p]
    by (auto simp: ToolRun_shape_def res_iff s fingerprint_check_lower)
  moreover have "guard_contract s = Inr ()"
    using guard guard_contract_fields [of s r] by (simp add: s)
  moreover have "reject_embedded_body_fields (PDict (tr_metadata s)) = Inr ()"
    using body reject_embedded_update by (simp add: s lower_fingerprint_def)
  ultimately show ?thesis
    unfolding ToolRun_init_iff using \<open>i \<noteq> []\<close> by (auto simp: s option.map_comp comp_def)
qed

interpretation run: content_addressed "ToolRun_from_dict p" tr_id "\<lambda>i. tr_id_update (\<lambda>_. i)" for p
proof unfold_locales
  show "ToolRun_from_dict p s = Inr s" if "ToolRun_from_dict p r = Inr s" for r s
    using that unfolding ToolRun_from_dict_def
    by (rule nested_idem) (auto simp: gate.built_list_idem dest: ToolRun_idem)
qed (auto simp: ToolRun_from_dict_def ToolRun_init_iff ToolRun_identity_def res_iff)

interpretation declared_output: normaliser ExecutionDeclaredOutput_init
  by unfold_locales (auto simp: ExecutionDeclaredOutput_init_def res_iff dest!: idem_dest)

lemma casefold_digest: "is_sha256_lower (casefold h) \<Longrightarrow> casefold (casefold h) = casefold h"
  by (rule casefold_sha256_lower)

interpretation output_attestation: normaliser ExecutionOutputAttestation_init
  by unfold_locales (auto simp: ExecutionOutputAttestation_init_def Let_def res_iff dest!: idem_dest)

interpretation receipt: content_addressed ExecutionCommitReceipt_init xr_id "\<lambda>i. xr_id_update (\<lambda>_. i)"
  by unfold_locales
     (auto simp: ExecutionCommitReceipt_init_def ExecutionCommitReceipt_identity_def digest_check_def res_iff)

lemma ExecutionAttestation_idem:
  "ExecutionAttestation_init a = Inr b \<Longrightarrow> ExecutionAttestation_init b = Inr b
     \<and> xa_declared_outputs b = sort_key xd_path (xa_declared_outputs a)
     \<and> xa_outputs b = sort_key xo_path (xa_outputs a)"
  by (auto simp: ExecutionAttestation_init_def ExecutionAttestation_identity_def digest_check_def res_iff)

interpretation execution: content_addressed ExecutionAttestation_from_dict xa_id "\<lambda>i. xa_id_update (\<lambda>_. i)"
proof unfold_locales
  fix a b c
  show "ExecutionAttestation_from_dict b = Inr b" if a: "ExecutionAttestation_from_dict a = Inr b"
  proof -
    from a obtain ds os where ds: "mapR ExecutionDeclaredOutput_init (xa_declared_outputs a) = Inr ds"
      and os: "mapR ExecutionOutputAttestation_init (xa_outputs a) = Inr os"
      and b: "ExecutionAttestation_init (a\<lparr>xa_declared_outputs := ds, xa_outputs := os\<rparr>) = Inr b"
      by (auto simp: ExecutionAttestation_from_dict_def res_iff)
    have "mapR ExecutionDeclaredOutput_init ds = Inr ds" "mapR ExecutionOutputAttestation_init os = Inr os"
      using declared_output.built_list_idem [OF ds] output_attestation.built_list_idem [OF os] .
    then have "mapR ExecutionDeclaredOutput_init (xa_declared_outputs b) = Inr (xa_declared_outputs b)"
      and "mapR ExecutionOutputAttestation_init (xa_outputs b) = Inr (xa_outputs b)"
      using ExecutionAttestation_idem [OF b] by (simp_all add: mapR_fixed_iff)
    moreover have "ExecutionAttestation_init b = Inr b" using ExecutionAttestation_idem [OF b] by simp
    ultimately show ?thesis by (simp add: ExecutionAttestation_from_dict_def)
  qed
  show "a\<lparr>xa_id := xa_id a\<rparr> = a" by simp
  assume a: "ExecutionAttestation_from_dict a = Inr b"
    and c: "ExecutionAttestation_from_dict (a\<lparr>xa_id := []\<rparr>) = Inr c"
  then show "c = b\<lparr>xa_id := xa_id c\<rparr>"
    by (auto simp: ExecutionAttestation_from_dict_def ExecutionAttestation_init_def
        ExecutionAttestation_identity_def res_iff)
qed

section \<open>Properties\<close>

text \<open>C21: a run classified as a resource-guard event is a failed run that carries no tool
  truth, no output and one of the two documented guard provenances.\<close>
theorem resource_guard_is_not_tool_truth:
  assumes "ToolRun_init p r = Inr s" and "tr_failure_class s = ''infra_resource_guard''"
  shows "tr_status s = ''failed'' \<and> tr_output_artifact_ids s = []
         \<and> dget (tr_metadata s) ''tool_truth'' = PBool False
         \<and> dget (tr_metadata s) ''fresh_tool_truth'' = PBool False
         \<and> dget (tr_metadata s) ''authority'' = PStr ''infrastructure''
         \<and> (preflight_rejection (tr_metadata s) \<or> runtime_rejection (tr_metadata s))"
proof -
  have "guard_contract s = Inr ()"
    using ToolRun_idem [OF assms(1)] by (simp add: ToolRun_init_iff)
  with assms(2) show ?thesis by (auto simp: guard_contract_def Let_def res_iff)
qed

definition witness_guard_run :: ToolRun where
  "witness_guard_run =
     \<lparr>tr_snapshot_id = ''s1'', tr_stage = ''schedule'', tr_backend = ''parser'',
      tr_request_hash = replicate 64 (CHR ''a''), tr_id = ''a1'', tr_toolchain_id = None,
      tr_status = ''failed'', tr_command = [], tr_working_directory = None, tr_environment_hash = None,
      tr_input_artifact_ids = [], tr_output_artifact_ids = [], tr_diagnostics = [], tr_gates = [],
      tr_failure_class = ''infra_resource_guard'', tr_exit_code = PNone, tr_attempt = PInt 1,
      tr_started_at = PNone, tr_finished_at = PNone, tr_elapsed_s = PNone, tr_message = PNone,
      tr_metadata =
        [(KStr ''resource_guard_configured'', PBool True), (KStr ''resource_guard_checked'', PBool True),
         (KStr ''resource_guard_passed'', PBool False), (KStr ''fresh_execution'', PBool False),
         (KStr ''fresh_tool_truth'', PBool False), (KStr ''tool_truth'', PBool False),
         (KStr ''authority'', PStr ''infrastructure'')]\<rparr>"

lemma witness_guard_run_built: "ToolRun_init p witness_guard_run = Inr witness_guard_run"
proof -
  have sha: "is_sha256_lower (replicate 64 (CHR ''a''))" by code_simp
  have body: "reject_embedded_body_fields (PDict (tr_metadata witness_guard_run)) = Inr ()" by code_simp
  have "ToolRun_shape p witness_guard_run = Inr ()"
    by (simp add: ToolRun_shape_def witness_guard_run_def checks_eval require_namespaced_def opt_namespaced_def
        run_ids_check_def run_times_check_def run_timestamp_def fingerprint_check_def dhas_def enum_value_def
        RunStatus_def FailureClass_def is_sha256_lower_imp [OF sha])
  moreover have "guard_contract witness_guard_run = Inr ()"
    by (simp add: guard_contract_def witness_guard_run_def preflight_rejection_def dget_def reject_def Let_def)
  moreover have "lower_fingerprint (tr_metadata witness_guard_run) = tr_metadata witness_guard_run"
    by (simp add: lower_fingerprint_def witness_guard_run_def dhas_def)
  ultimately show ?thesis
    using body by (simp add: ToolRun_init_iff) (simp add: witness_guard_run_def lower_sha256_lower [OF sha])
qed

theorem resource_guard_is_not_tool_truth_witness:
  "dget (tr_metadata witness_guard_run) ''tool_truth'' = PBool False"
  using resource_guard_is_not_tool_truth [OF witness_guard_run_built]
  by (simp add: witness_guard_run_def)

text \<open>C35: the write boundary accepts a run, an execution attestation, a commit receipt or a
  verification exactly when its constructor rebuilds it from its content, id included.\<close>
theorem store_accepts_content_addressed_runs:
  "(revalidate_model (ToolRun_from_dict p) tr_id (\<lambda>i. tr_id_update (\<lambda>_. i)) r = Inr r'
      \<longleftrightarrow> r' = r \<and> ToolRun_from_dict p (r\<lparr>tr_id := []\<rparr>) = Inr r)
   \<and> (revalidate_model ExecutionAttestation_from_dict xa_id (\<lambda>i. xa_id_update (\<lambda>_. i)) a = Inr a'
      \<longleftrightarrow> a' = a \<and> ExecutionAttestation_from_dict (a\<lparr>xa_id := []\<rparr>) = Inr a)
   \<and> (revalidate_model ExecutionCommitReceipt_init xr_id (\<lambda>i. xr_id_update (\<lambda>_. i)) c = Inr c'
      \<longleftrightarrow> c' = c \<and> ExecutionCommitReceipt_init (c\<lparr>xr_id := []\<rparr>) = Inr c)
   \<and> (revalidate_model VerificationResult_init vr_id (\<lambda>i. vr_id_update (\<lambda>_. i)) v = Inr v'
      \<longleftrightarrow> v' = v \<and> VerificationResult_init (v\<lparr>vr_id := []\<rparr>) = Inr v)"
  by (intro conjI) (rule run.revalidate_iff execution.revalidate_iff receipt.revalidate_iff verification.revalidate_iff)+

end
