(* ===== verification/Model_Knowledge.thy ===== *)
theory Model_Knowledge
  imports Model_Run "HOL-Library.Product_Lexorder"
begin

text \<open>
  The knowledge contracts of \<open>hlsgraph/model.py\<close>: rules, bindings, the coverage of
  supported targets and of document sections, and the coverage manifest with its
  review-readiness.  Tuples used as sort keys are compared lexicographically
  (\<open>Product_Lexorder\<close>), as Python compares them.
\<close>

section \<open>Rules and bindings\<close>

record KnowledgeRule =
  kr_document_id :: string
  kr_document_version :: string
  kr_section :: string
  kr_rule_id :: string
  kr_title :: string
  kr_applicability :: pyval
  kr_condition :: pyval
  kr_effect :: pydict
  kr_citation_url :: string
  kr_summary :: "string option"
  kr_license_note :: "string option"
  kr_metadata :: pydict

definition KnowledgeRule_init :: "KnowledgeRule \<Rightarrow> KnowledgeRule res" where
  "KnowledgeRule_init k =
     checks
       [require_namespaced (kr_document_id k), require_namespaced (kr_rule_id k),
        reject (\<not> is_dict (kr_applicability k)) ''knowledge applicability must be an object'',
        forR (\<lambda>kv. reject (is_seq (snd kv)) ''alternatives require explicit one_of'')
          (dict_items (kr_applicability k)),
        validate_knowledge_constraints (kr_condition k),
        forR reject_embedded_body_fields
          [kr_applicability k, kr_condition k, PDict (kr_effect k), PDict (kr_metadata k)],
        reject (opt_any (\<lambda>s. length s > 500) (kr_summary k))
          ''knowledge rule summary must be at most 500 characters''] k"

definition KnowledgeRule_id :: "KnowledgeRule \<Rightarrow> string" where
  "KnowledgeRule_id k = kr_document_id k @ '':'' @ kr_document_version k @ '':'' @ kr_rule_id k"

definition BUILTIN_KNOWLEDGE_TARGET_KINDS :: "string list" where
  "BUILTIN_KNOWLEDGE_TARGET_KINDS =
    [''predicate'', ''directive_kind'', ''artifact_kind'', ''gate_kind'', ''diagnostic_code'',
     ''entity_kind'', ''relation_kind'']"

definition target_kind_check :: "string \<Rightarrow> unit res" where
  "target_kind_check k =
     (if k \<in> set BUILTIN_KNOWLEDGE_TARGET_KINDS then Inr () else require_namespaced k)"

record KnowledgeBinding =
  kb_knowledge_rule_id :: string
  kb_target_kind :: string
  kb_target :: string
  kb_required_context :: pyval
  kb_producer :: string
  kb_producer_version :: string
  kb_id :: string
  kb_metadata :: pydict

definition KnowledgeBinding_identity :: "KnowledgeBinding \<Rightarrow> pyval" where
  "KnowledgeBinding_identity b = pdict
     [(''rule'', PStr (kb_knowledge_rule_id b)), (''target_kind'', PStr (kb_target_kind b)),
      (''target'', PStr (kb_target b)), (''required_context'', kb_required_context b),
      (''producer'', PStr (kb_producer b)), (''producer_version'', PStr (kb_producer_version b))]"

definition KnowledgeBinding_init :: "KnowledgeBinding \<Rightarrow> KnowledgeBinding res" where
  "KnowledgeBinding_init b =
     bindR (checks
       [require_namespaced (kb_knowledge_rule_id b),
        target_kind_check (kb_target_kind b),
        require_namespaced (kb_target b), require_namespaced (kb_producer b),
        reject (strip (kb_producer_version b) = []) ''knowledge binding producer_version is required'',
        reject (\<not> is_dict (kb_required_context b)) ''knowledge binding required_context must be an object'',
        validate_knowledge_constraints (kb_required_context b),
        reject_embedded_body_fields (kb_required_context b),
        reject_embedded_body_fields (PDict (kb_metadata b))] ()) (\<lambda>_.
     bindR (closed_id (kb_id b) ''knowledge_binding'' (KnowledgeBinding_identity b)
       ''knowledge binding stable id does not match'') (\<lambda>expected.
     Inr (b\<lparr>kb_id := expected\<rparr>)))"

section \<open>Coverage\<close>

definition CoverageStatus :: "string list" where
  "CoverageStatus = [''rule'', ''citation_only'', ''not_applicable'', ''deferred'']"

definition TargetCoverageStatus :: "string list" where
  "TargetCoverageStatus = [''bound'', ''no_normative'']"

definition bounded_rationale :: "string option \<Rightarrow> bool" where
  "bounded_rationale r =
     (case r of None \<Rightarrow> True | Some s \<Rightarrow> strip s \<noteq> [] \<and> length s \<le> 500 \<and> \<not> has_nul s)"

record KnowledgeTargetCoverage =
  kt_target_kind :: string
  kt_target :: string
  kt_status :: string
  kt_binding_ids :: "string list"
  kt_rationale :: "string option"
  kt_id :: string

definition KnowledgeTargetCoverage_val :: "KnowledgeTargetCoverage \<Rightarrow> pyval" where
  "KnowledgeTargetCoverage_val t = PObj
     [(''target_kind'', PStr (kt_target_kind t)), (''target'', PStr (kt_target t)),
      (''status'', PStr (kt_status t)), (''binding_ids'', str_list (kt_binding_ids t)),
      (''rationale'', opt_str (kt_rationale t)), (''id'', PStr (kt_id t))]"

definition KnowledgeTargetCoverage_identity :: "KnowledgeTargetCoverage \<Rightarrow> pyval" where
  "KnowledgeTargetCoverage_identity t = pdict
     [(''target_kind'', PStr (kt_target_kind t)), (''target'', PStr (kt_target t)),
      (''status'', PStr (kt_status t)), (''bindings'', str_list (kt_binding_ids t)),
      (''rationale'', opt_str (kt_rationale t))]"

definition KnowledgeTargetCoverage_init :: "KnowledgeTargetCoverage \<Rightarrow> KnowledgeTargetCoverage res" where
  "KnowledgeTargetCoverage_init t =
     bindR (checks
       [target_kind_check (kt_target_kind t),
        require_namespaced (kt_target t),
        enum_value TargetCoverageStatus (kt_status t),
        forR require_namespaced (kt_binding_ids t),
        reject (has_duplicates (kt_binding_ids t)) ''knowledge target coverage binding_ids must be unique'',
        reject (kt_status t = ''bound'' \<and> kt_binding_ids t = [])
          ''bound knowledge target coverage requires a binding'',
        reject (kt_status t = ''no_normative'' \<and> kt_binding_ids t \<noteq> [])
          ''no_normative knowledge target coverage cannot reference bindings'',
        reject (kt_status t = ''no_normative'' \<and> kt_rationale t = None)
          ''no_normative knowledge target coverage requires a rationale'',
        reject (\<not> bounded_rationale (kt_rationale t))
          ''knowledge target coverage rationale must be a bounded non-empty string'']
       (t\<lparr>kt_binding_ids := sort (kt_binding_ids t)\<rparr>)) (\<lambda>t.
     bindR (closed_id (kt_id t) ''knowledge_target_coverage'' (KnowledgeTargetCoverage_identity t)
       ''knowledge target coverage stable id does not match'') (\<lambda>expected.
     Inr (t\<lparr>kt_id := expected\<rparr>)))"

record CoverageEntry =
  ce_document_id :: string
  ce_document_version :: string
  ce_section :: string
  ce_status :: string
  ce_rule_ids :: "string list"
  ce_binding_ids :: "string list"
  ce_rationale :: "string option"
  ce_id :: string

definition CoverageEntry_val :: "CoverageEntry \<Rightarrow> pyval" where
  "CoverageEntry_val e = PObj
     [(''document_id'', PStr (ce_document_id e)), (''document_version'', PStr (ce_document_version e)),
      (''section'', PStr (ce_section e)), (''status'', PStr (ce_status e)),
      (''rule_ids'', str_list (ce_rule_ids e)), (''binding_ids'', str_list (ce_binding_ids e)),
      (''rationale'', opt_str (ce_rationale e)), (''id'', PStr (ce_id e))]"

definition CoverageEntry_identity :: "CoverageEntry \<Rightarrow> pyval" where
  "CoverageEntry_identity e = pdict
     [(''document'', PStr (ce_document_id e)), (''version'', PStr (ce_document_version e)),
      (''section'', PStr (ce_section e)), (''status'', PStr (ce_status e)),
      (''rules'', str_list (ce_rule_ids e)), (''bindings'', str_list (ce_binding_ids e)),
      (''rationale'', opt_str (ce_rationale e))]"

definition coverage_ids_check :: "string list \<Rightarrow> unit res" where
  "coverage_ids_check ids =
     checks [forR require_namespaced ids, reject (has_duplicates ids) ''must be unique''] ()"

definition CoverageEntry_init :: "CoverageEntry \<Rightarrow> CoverageEntry res" where
  "CoverageEntry_init e =
     bindR (checks
       [require_namespaced (ce_document_id e),
        reject (strip (ce_document_version e) = []) ''coverage document_version is required'',
        reject (strip (ce_section e) = [] \<or> length (ce_section e) > 512 \<or> has_nul (ce_section e))
          ''coverage section must be a bounded non-empty string'',
        enum_value CoverageStatus (ce_status e),
        coverage_ids_check (ce_rule_ids e), coverage_ids_check (ce_binding_ids e),
        reject (ce_status e = ''rule'' \<and> ce_rule_ids e = [])
          ''rule coverage requires at least one knowledge rule'',
        reject (ce_status e \<noteq> ''rule'' \<and> ce_rule_ids e \<noteq> [])
          ''only rule coverage may reference knowledge rules'',
        reject (ce_status e \<noteq> ''rule'' \<and> ce_binding_ids e \<noteq> [])
          ''only rule coverage may reference knowledge bindings'',
        reject (ce_status e \<noteq> ''rule'' \<and> ce_rationale e = None)
          ''non-rule coverage requires an explicit rationale'',
        reject (\<not> bounded_rationale (ce_rationale e)) ''coverage rationale must be a bounded paraphrase or None'']
       (e\<lparr>ce_rule_ids := sort (ce_rule_ids e), ce_binding_ids := sort (ce_binding_ids e)\<rparr>)) (\<lambda>e.
     bindR (closed_id (ce_id e) ''coverage_entry'' (CoverageEntry_identity e)
       ''coverage entry stable id does not match'') (\<lambda>expected.
     Inr (e\<lparr>ce_id := expected\<rparr>)))"

section \<open>The coverage manifest\<close>

record CoverageManifest =
  cm_pack_id :: string
  cm_coverage_scope :: string
  cm_entries :: "CoverageEntry list"
  cm_target_inventory :: "KnowledgeTargetCoverage list"
  cm_target_registry_version :: string
  cm_review_status :: string
  cm_reviewers :: "string list"
  cm_source_hashes :: "(string \<times> string) list"
  cm_review_evidence :: pydict
  cm_schema_version :: string
  cm_id :: string
  cm_metadata :: pydict

definition section_key :: "CoverageEntry \<Rightarrow> string \<times> string \<times> string" where
  "section_key e = (ce_document_id e, ce_document_version e, casefold (ce_section e))"

definition target_key :: "KnowledgeTargetCoverage \<Rightarrow> string \<times> string" where
  "target_key t = (kt_target_kind t, kt_target t)"

definition entry_order :: "CoverageEntry \<Rightarrow> string \<times> string \<times> string \<times> string" where
  "entry_order e = (ce_document_id e, ce_document_version e, casefold (ce_section e), ce_id e)"

definition target_order :: "KnowledgeTargetCoverage \<Rightarrow> string \<times> string \<times> string" where
  "target_order t = (kt_target_kind t, kt_target t, kt_id t)"

definition REVIEW_STATUSES :: "string list" where
  "REVIEW_STATUSES =
    [''unreviewed'', ''maintainer_reviewed'', ''human_reviewed'', ''machine_repeated_reviewed'',
     ''machine_cross_reviewed'']"

definition required_review_evidence :: "string \<Rightarrow> (string \<times> bool) list" where
  "required_review_evidence status =
     [(''independent_invocations'', True), (''citation_verified'', True), (''review_agreement'', True),
      (''unresolved_conflicts'', False)]
     @ (if status = ''machine_repeated_reviewed''
        then [(''same_model_repeated_review'', True), (''distinct_model_families'', False)]
        else [(''distinct_model_families'', True)])"

definition machine_review_check :: "CoverageManifest \<Rightarrow> unit res" where
  "machine_review_check m =
     (if cm_review_status m \<in> {''machine_repeated_reviewed'', ''machine_cross_reviewed''}
      then checks
        [reject (length (cm_reviewers m) < 2) ''coverage requires two review invocations'',
         reject (cm_source_hashes m = []) ''coverage requires verified source hashes'',
         reject (list_ex (\<lambda>kb. dget (cm_review_evidence m) (fst kb) \<noteq> PBool (snd kb))
                  (required_review_evidence (cm_review_status m)))
           ''coverage requires truthful independent review provenance''] ()
      else Inr ())"

definition CoverageManifest_identity :: "CoverageManifest \<Rightarrow> pyval" where
  "CoverageManifest_identity m = pdict
     [(''pack'', PStr (cm_pack_id m)), (''scope'', PStr (cm_coverage_scope m)),
      (''entries'', PList (map CoverageEntry_val (cm_entries m))),
      (''target_inventory'', PList (map KnowledgeTargetCoverage_val (cm_target_inventory m))),
      (''target_registry_version'', PStr (cm_target_registry_version m)),
      (''review_status'', PStr (cm_review_status m)), (''reviewers'', str_list (cm_reviewers m)),
      (''source_hashes'', pdict (map (\<lambda>kv. (fst kv, PStr (snd kv))) (cm_source_hashes m))),
      (''review_evidence'', PDict (cm_review_evidence m)), (''schema_version'', PStr (cm_schema_version m))]"

definition CoverageManifest_init :: "CoverageManifest \<Rightarrow> CoverageManifest res" where
  "CoverageManifest_init m =
     bindR (checks
       [require_namespaced (cm_pack_id m), require_namespaced (cm_coverage_scope m),
        require_namespaced (cm_target_registry_version m),
        reject (cm_schema_version m \<noteq> ''1.0'') ''unsupported coverage manifest schema'',
        reject (has_duplicates (map section_key (cm_entries m)))
          ''coverage manifest contains duplicate document sections'',
        reject (has_duplicates (map target_key (cm_target_inventory m)))
          ''coverage manifest contains duplicate supported targets'',
        reject (cm_review_status m \<notin> set REVIEW_STATUSES) 
          ''coverage review_status must be unreviewed, maintainer_reviewed, human_reviewed, machine_repeated_reviewed, or machine_cross_reviewed'',
        reject (list_ex (\<lambda>r. strip r = [] \<or> has_nul r) (cm_reviewers m) \<or> has_duplicates (cm_reviewers m))
          ''coverage reviewers must be unique non-empty strings'',
        forR (\<lambda>kv. checks
            [reject (strip (fst kv) = []) ''coverage source hash keys must be non-empty strings'',
             reject (\<not> is_sha256_lower (snd kv)) ''coverage source hashes must be lowercase SHA-256 values''] ())
          (cm_source_hashes m),
        reject_embedded_body_fields (PDict (cm_review_evidence m)),
        machine_review_check m,
        reject_embedded_body_fields (PDict (cm_metadata m))]
       (m\<lparr>cm_entries := sort_key entry_order (cm_entries m),
          cm_target_inventory := sort_key target_order (cm_target_inventory m),
          cm_reviewers := sort (cm_reviewers m)\<rparr>)) (\<lambda>m.
     bindR (closed_id (cm_id m) ''coverage'' (CoverageManifest_identity m)
       ''coverage manifest stable id does not match'') (\<lambda>expected.
     Inr (m\<lparr>cm_id := expected\<rparr>)))"

definition coverage_complete :: "CoverageManifest \<Rightarrow> bool" where
  "coverage_complete m =
     (cm_entries m \<noteq> [] \<and> list_all (\<lambda>e. ce_status e \<noteq> ''deferred'') (cm_entries m))"

definition review_ready :: "CoverageManifest \<Rightarrow> bool" where
  "review_ready m = (coverage_complete m \<and> cm_review_status m \<noteq> ''unreviewed'')"

definition CoverageManifest_from_dict :: "CoverageManifest \<Rightarrow> CoverageManifest res" where
  "CoverageManifest_from_dict m =
     bindR (mapR CoverageEntry_init (cm_entries m)) (\<lambda>entries.
     bindR (mapR KnowledgeTargetCoverage_init (cm_target_inventory m)) (\<lambda>targets.
     CoverageManifest_init (m\<lparr>cm_entries := entries, cm_target_inventory := targets\<rparr>)))"

section \<open>Every knowledge contract is a content-addressed normaliser\<close>

interpretation rule: normaliser KnowledgeRule_init
  by (rule normaliser_checks) (rule KnowledgeRule_init_def)

interpretation binding: content_addressed KnowledgeBinding_init kb_id "\<lambda>i. kb_id_update (\<lambda>_. i)"
  by unfold_locales (auto simp: KnowledgeBinding_init_def KnowledgeBinding_identity_def res_iff)

interpretation target_coverage:
  content_addressed KnowledgeTargetCoverage_init kt_id "\<lambda>i. kt_id_update (\<lambda>_. i)"
  by unfold_locales
     (auto simp: KnowledgeTargetCoverage_init_def KnowledgeTargetCoverage_identity_def res_iff)

lemma CoverageEntry_init_iff:
  "CoverageEntry_init e = Inr f \<longleftrightarrow>
     is_namespaced (ce_document_id e) \<and> strip (ce_document_version e) \<noteq> []
     \<and> \<not> (strip (ce_section e) = [] \<or> length (ce_section e) > 512 \<or> has_nul (ce_section e))
     \<and> ce_status e \<in> set CoverageStatus
     \<and> coverage_ids_check (ce_rule_ids e) = Inr () \<and> coverage_ids_check (ce_binding_ids e) = Inr ()
     \<and> (ce_status e = ''rule'') = (ce_rule_ids e \<noteq> [])
     \<and> (ce_status e \<noteq> ''rule'' \<longrightarrow> ce_binding_ids e = [] \<and> ce_rationale e \<noteq> None)
     \<and> bounded_rationale (ce_rationale e)
     \<and> (\<exists>i. stable_id ''coverage_entry'' (CoverageEntry_identity
              (e\<lparr>ce_rule_ids := sort (ce_rule_ids e), ce_binding_ids := sort (ce_binding_ids e)\<rparr>)) = Inr i
          \<and> (ce_id e = [] \<or> ce_id e = i)
          \<and> f = e\<lparr>ce_rule_ids := sort (ce_rule_ids e), ce_binding_ids := sort (ce_binding_ids e), ce_id := i\<rparr>)"
  by (simp add: CoverageEntry_init_def res_iff) blast

lemma coverage_ids_check_sort [simp]: "coverage_ids_check (sort ids) = Inr () \<longleftrightarrow> coverage_ids_check ids = Inr ()"
  by (simp add: coverage_ids_check_def res_iff)

lemma sort_Nil_iff [simp]: "sort xs = [] \<longleftrightarrow> xs = []"
  by (rule sort_key_Nil_iff)

interpretation coverage_entry: content_addressed CoverageEntry_init ce_id "\<lambda>i. ce_id_update (\<lambda>_. i)"
proof unfold_locales
  show "CoverageEntry_init f = Inr f" if "CoverageEntry_init e = Inr f" for e f
    using that unfolding CoverageEntry_init_iff
    by (elim exE conjE) (simp add: CoverageEntry_identity_def)
next
  show "g = f\<lparr>ce_id := ce_id g\<rparr>" if "CoverageEntry_init e = Inr f" "CoverageEntry_init (e\<lparr>ce_id := []\<rparr>) = Inr g"
    for e f g
    using that unfolding CoverageEntry_init_iff by (elim exE conjE) simp
qed simp

lemma machine_review_check_fields:
  "cm_review_status n = cm_review_status m \<Longrightarrow> length (cm_reviewers n) = length (cm_reviewers m) \<Longrightarrow>
   cm_source_hashes n = cm_source_hashes m \<Longrightarrow> cm_review_evidence n = cm_review_evidence m \<Longrightarrow>
   machine_review_check n = machine_review_check m"
  by (simp add: machine_review_check_def)

lemma CoverageManifest_init_iff:
  "CoverageManifest_init m = Inr n \<longleftrightarrow>
     is_namespaced (cm_pack_id m) \<and> is_namespaced (cm_coverage_scope m)
     \<and> is_namespaced (cm_target_registry_version m) \<and> cm_schema_version m = ''1.0''
     \<and> distinct (map section_key (cm_entries m)) \<and> distinct (map target_key (cm_target_inventory m))
     \<and> cm_review_status m \<in> set REVIEW_STATUSES
     \<and> (\<forall>r \<in> set (cm_reviewers m). strip r \<noteq> [] \<and> \<not> has_nul r) \<and> distinct (cm_reviewers m)
     \<and> (\<forall>kv \<in> set (cm_source_hashes m). strip (fst kv) \<noteq> [] \<and> is_sha256_lower (snd kv))
     \<and> reject_embedded_body_fields (PDict (cm_review_evidence m)) = Inr ()
     \<and> machine_review_check m = Inr () \<and> reject_embedded_body_fields (PDict (cm_metadata m)) = Inr ()
     \<and> (\<exists>i. let m' = m\<lparr>cm_entries := sort_key entry_order (cm_entries m),
                   cm_target_inventory := sort_key target_order (cm_target_inventory m),
                   cm_reviewers := sort (cm_reviewers m)\<rparr> in
            stable_id ''coverage'' (CoverageManifest_identity m') = Inr i
            \<and> (cm_id m = [] \<or> cm_id m = i) \<and> n = m'\<lparr>cm_id := i\<rparr>)"
  by (simp add: CoverageManifest_init_def res_iff Let_def list_ex_iff) (simp only: eq_commute [of n])

lemma CoverageManifest_identity_fields:
  "CoverageManifest_identity (m\<lparr>cm_id := i\<rparr>) = CoverageManifest_identity m"
  by (simp add: CoverageManifest_identity_def)

lemma CoverageManifest_idem:
  assumes "CoverageManifest_init m = Inr n"
  shows "CoverageManifest_init n = Inr n
     \<and> cm_entries n = sort_key entry_order (cm_entries m)
     \<and> cm_target_inventory n = sort_key target_order (cm_target_inventory m)"
proof -
  let ?m = "m\<lparr>cm_entries := sort_key entry_order (cm_entries m),
              cm_target_inventory := sort_key target_order (cm_target_inventory m),
              cm_reviewers := sort (cm_reviewers m)\<rparr>"
  from assms obtain i where i: "stable_id ''coverage'' (CoverageManifest_identity ?m) = Inr i"
    and n: "n = ?m\<lparr>cm_id := i\<rparr>"
    unfolding CoverageManifest_init_iff Let_def by blast
  have mr: "machine_review_check n = machine_review_check m"
    by (rule machine_review_check_fields) (simp_all add: n)
  have self: "n\<lparr>cm_entries := sort_key entry_order (cm_entries n),
              cm_target_inventory := sort_key target_order (cm_target_inventory n),
              cm_reviewers := sort (cm_reviewers n)\<rparr> = n"
    by (simp add: n)
  have "stable_id ''coverage'' (CoverageManifest_identity n) = Inr i"
    using i by (simp add: n CoverageManifest_identity_fields)
  then have "CoverageManifest_init n = Inr n"
    using assms mr unfolding CoverageManifest_init_iff Let_def self by (simp add: n)
  then show ?thesis by (simp add: n)
qed

interpretation coverage: content_addressed CoverageManifest_from_dict cm_id "\<lambda>i. cm_id_update (\<lambda>_. i)"
proof unfold_locales
  fix a b c
  show "CoverageManifest_from_dict b = Inr b" if a: "CoverageManifest_from_dict a = Inr b"
  proof -
    from a obtain es ts where es: "mapR CoverageEntry_init (cm_entries a) = Inr es"
      and ts: "mapR KnowledgeTargetCoverage_init (cm_target_inventory a) = Inr ts"
      and b: "CoverageManifest_init (a\<lparr>cm_entries := es, cm_target_inventory := ts\<rparr>) = Inr b"
      by (auto simp: CoverageManifest_from_dict_def res_iff)
    have "mapR CoverageEntry_init es = Inr es" "mapR KnowledgeTargetCoverage_init ts = Inr ts"
      using coverage_entry.built_list_idem [OF es] target_coverage.built_list_idem [OF ts] .
    then have "mapR CoverageEntry_init (cm_entries b) = Inr (cm_entries b)"
      and "mapR KnowledgeTargetCoverage_init (cm_target_inventory b) = Inr (cm_target_inventory b)"
      using CoverageManifest_idem [OF b] by (simp_all add: mapR_fixed_iff)
    moreover have "CoverageManifest_init b = Inr b" using CoverageManifest_idem [OF b] by simp
    ultimately show ?thesis by (simp add: CoverageManifest_from_dict_def)
  qed
  show "a\<lparr>cm_id := cm_id a\<rparr> = a" by simp
  assume a: "CoverageManifest_from_dict a = Inr b" and c: "CoverageManifest_from_dict (a\<lparr>cm_id := []\<rparr>) = Inr c"
  then show "c = b\<lparr>cm_id := cm_id c\<rparr>"
    unfolding CoverageManifest_from_dict_def bindR_Inr_iff CoverageManifest_init_iff Let_def
    by (elim exE conjE) simp
qed

section \<open>Properties\<close>


definition witness_entry :: CoverageEntry where
  "witness_entry =
     \<lparr>ce_document_id = ''a1'', ce_document_version = ''1'', ce_section = ''1'', ce_status = ''rule'',
      ce_rule_ids = [''o1''], ce_binding_ids = [], ce_rationale = None, ce_id = []\<rparr>"

definition witness_coverage :: CoverageManifest where
  "witness_coverage =
     \<lparr>cm_pack_id = ''a1'', cm_coverage_scope = ''s1'', cm_entries = [witness_entry], cm_target_inventory = [],
      cm_target_registry_version = ''s1'', cm_review_status = ''human_reviewed'', cm_reviewers = [],
      cm_source_hashes = [], cm_review_evidence = [], cm_schema_version = ''1.0'', cm_id = [], cm_metadata = []\<rparr>"

lemma witness_entry_built:
  "\<exists>i. CoverageEntry_init witness_entry = Inr (witness_entry\<lparr>ce_id := i\<rparr>)"
proof -
  have "\<exists>j t. json_ready (CoverageEntry_identity witness_entry) = Inr j \<and> dumps j = Inr t"
    by (simp add: CoverageEntry_identity_def witness_entry_def pdict_def dict_of_pairs_def str_list_def opt_str_def)
  then obtain i where i: "stable_id ''coverage_entry'' (CoverageEntry_identity witness_entry) = Inr i"
    using stable_id_total by blast
  have strip1: "strip ''1'' = ''1''" by code_simp
  have same: "witness_entry\<lparr>ce_rule_ids := sort (ce_rule_ids witness_entry),
      ce_binding_ids := sort (ce_binding_ids witness_entry)\<rparr> = witness_entry"
    by (simp add: witness_entry_def)
  have "CoverageEntry_init witness_entry
      = Inr (witness_entry\<lparr>ce_rule_ids := sort (ce_rule_ids witness_entry),
          ce_binding_ids := sort (ce_binding_ids witness_entry), ce_id := i\<rparr>)"
    unfolding CoverageEntry_init_iff same
    using i strip1
    by (simp add: witness_entry_def CoverageStatus_def coverage_ids_check_def bounded_rationale_def checks_eval
        require_namespaced_def has_nul_def)
  then show ?thesis unfolding same by blast
qed

lemma witness_coverage_built: "\<exists>n. CoverageManifest_from_dict witness_coverage = Inr n \<and> review_ready n"
proof -
  obtain i where i: "CoverageEntry_init witness_entry = Inr (witness_entry\<lparr>ce_id := i\<rparr>)"
    using witness_entry_built ..
  let ?m = "witness_coverage\<lparr>cm_entries := [witness_entry\<lparr>ce_id := i\<rparr>]\<rparr>"
  have "\<exists>j t. json_ready (CoverageManifest_identity ?m) = Inr j \<and> dumps j = Inr t"
    by (simp add: CoverageManifest_identity_def witness_coverage_def CoverageEntry_val_def witness_entry_def
        pdict_def dict_of_pairs_def str_list_def opt_str_def)
  then obtain k where k: "stable_id ''coverage'' (CoverageManifest_identity ?m) = Inr k"
    using stable_id_total by blast
  have same: "?m\<lparr>cm_entries := sort_key entry_order (cm_entries ?m),
      cm_target_inventory := sort_key target_order (cm_target_inventory ?m),
      cm_reviewers := sort (cm_reviewers ?m)\<rparr> = ?m"
    by (simp add: witness_coverage_def)
  have "CoverageManifest_init ?m = Inr (?m\<lparr>cm_id := k\<rparr>)"
    unfolding CoverageManifest_init_iff Let_def same
    using k by (simp add: witness_coverage_def REVIEW_STATUSES_def machine_review_check_def)
  moreover have "?m\<lparr>cm_target_inventory := []\<rparr> = ?m" by (simp add: witness_coverage_def)
  ultimately have "CoverageManifest_from_dict witness_coverage = Inr (?m\<lparr>cm_id := k\<rparr>)"
    using i by (simp add: CoverageManifest_from_dict_def witness_coverage_def)
  moreover have "review_ready (?m\<lparr>cm_id := k\<rparr>)"
    by (simp add: review_ready_def coverage_complete_def witness_coverage_def witness_entry_def)
  ultimately show ?thesis by blast
qed


end
