(* ===== verification/Model_Dataset.thy ===== *)
theory Model_Dataset
  imports Model_Knowledge
begin

text \<open>
  The remaining contracts of \<open>hlsgraph/model.py\<close>: the private index manifest, the
  prediction envelope, labels, the dataset manifest and \<open>artifact_hash_map\<close>.
\<close>

section \<open>The private knowledge index\<close>

record LocalKnowledgeIndexManifest =
  lk_project_id :: string
  lk_document_hashes :: "(string \<times> string) list"
  lk_chunk_count :: pyval
  lk_index_sha256 :: string
  lk_parser_id :: string
  lk_parser_version :: string
  lk_chunker_id :: string
  lk_chunker_version :: string
  lk_storage_uri :: string
  lk_fts_enabled :: bool
  lk_parser_fingerprint :: "string option"
  lk_embedder_id :: "string option"
  lk_embedder_version :: "string option"
  lk_embedder_fingerprint :: "string option"
  lk_schema_version :: string
  lk_created_at :: string
  lk_content_embedded_in_canonical :: pyval
  lk_id :: string
  lk_metadata :: pydict

definition opt_sha256_lower :: "string option \<Rightarrow> bool" where
  "opt_sha256_lower h = (case h of None \<Rightarrow> True | Some x \<Rightarrow> is_sha256_lower x)"

definition LocalKnowledgeIndexManifest_identity :: "LocalKnowledgeIndexManifest \<Rightarrow> pyval" where
  "LocalKnowledgeIndexManifest_identity m = pdict
     [(''project'', PStr (lk_project_id m)),
      (''documents'', pdict (map (\<lambda>kv. (fst kv, PStr (snd kv))) (lk_document_hashes m))),
      (''chunks'', lk_chunk_count m), (''index_sha256'', PStr (lk_index_sha256 m)),
      (''parser'', PList [PStr (lk_parser_id m), PStr (lk_parser_version m), opt_str (lk_parser_fingerprint m)]),
      (''chunker'', PList [PStr (lk_chunker_id m), PStr (lk_chunker_version m)]),
      (''embedder'', PList [opt_str (lk_embedder_id m), opt_str (lk_embedder_version m),
         opt_str (lk_embedder_fingerprint m)]),
      (''schema_version'', PStr (lk_schema_version m))]"

definition LocalKnowledgeIndexManifest_init ::
  "LocalKnowledgeIndexManifest \<Rightarrow> LocalKnowledgeIndexManifest res" where
  "LocalKnowledgeIndexManifest_init m =
     bindR (checks
       [require_namespaced (lk_project_id m),
        reject (lk_schema_version m \<noteq> ''1.0'') ''unsupported local knowledge manifest schema''] ()) (\<lambda>_.
     bindR (safe_relative_path (lk_storage_uri m)) (\<lambda>storage_uri.
     bindR (checks
       [forR (\<lambda>kv. checks
            [reject (strip (fst kv) = [] \<or> has_nul (fst kv))
               ''local knowledge document keys must be non-empty strings'',
             reject (\<not> is_sha256_lower (snd kv)) ''local knowledge document hashes must be lowercase SHA-256''] ())
          (lk_document_hashes m),
        reject (\<not> is_int_where (\<lambda>i. 0 \<le> i) (lk_chunk_count m))
          ''local knowledge chunk_count must be non-negative'',
        reject (\<not> is_sha256_lower (lk_index_sha256 m)) ''local knowledge index_sha256 must be lowercase SHA-256'',
        require_namespaced (lk_parser_id m), require_namespaced (lk_chunker_id m),
        reject (strip (lk_parser_version m) = []) ''local knowledge parser_version is required'',
        reject (strip (lk_chunker_version m) = []) ''local knowledge chunker_version is required'',
        reject (\<not> opt_sha256_lower (lk_parser_fingerprint m)) ''local knowledge parser_fingerprint must be SHA-256'',
        reject ((lk_embedder_id m = None) \<noteq> (lk_embedder_version m = None))
          ''local knowledge embedder id and version must be set together'',
        opt_namespaced (lk_embedder_id m),
        reject (\<not> opt_sha256_lower (lk_embedder_fingerprint m))
          ''local knowledge embedder fingerprint must be SHA-256'',
        reject (lk_content_embedded_in_canonical m \<noteq> PBool False)
          ''private knowledge content cannot be embedded in the canonical store'',
        reject_embedded_body_fields (PDict (lk_metadata m))]
       (m\<lparr>lk_storage_uri := storage_uri\<rparr>)) (\<lambda>m.
     bindR (closed_id (lk_id m) ''local_knowledge_index'' (LocalKnowledgeIndexManifest_identity m)
       ''local knowledge index stable id does not match'') (\<lambda>expected.
     Inr (m\<lparr>lk_id := expected\<rparr>)))))"

section \<open>Predictions\<close>

record PredictionEnvelope =
  pe_snapshot_id :: string
  pe_subject_id :: string
  pe_predicate :: string
  pe_value :: pyval
  pe_model_id :: string
  pe_model_version :: string
  pe_input_schema_version :: string
  pe_id :: string
  pe_unit :: "string option"
  pe_trainset_hash :: "string option"
  pe_uncertainty :: pyval
  pe_applicability :: pydict
  pe_ood :: pydict
  pe_created_at :: string
  pe_metadata :: pydict
  pe_action_id :: "string option"

definition PredictionEnvelope_identity :: "PredictionEnvelope \<Rightarrow> pyval" where
  "PredictionEnvelope_identity p = pdict
     ([(''snapshot'', PStr (pe_snapshot_id p)), (''subject'', PStr (pe_subject_id p)),
       (''predicate'', PStr (pe_predicate p)), (''model'', PStr (pe_model_id p)),
       (''version'', PStr (pe_model_version p)), (''input_schema_version'', PStr (pe_input_schema_version p)),
       (''trainset_hash'', opt_str (pe_trainset_hash p)), (''value'', pe_value p), (''unit'', opt_str (pe_unit p)),
       (''uncertainty'', pe_uncertainty p), (''applicability'', PDict (pe_applicability p)),
       (''ood'', PDict (pe_ood p)), (''metadata'', PDict (pe_metadata p))]
      @ (case pe_action_id p of None \<Rightarrow> [] | Some a \<Rightarrow> [(''action_id'', PStr a)]))"

definition PredictionEnvelope_init :: "PredictionEnvelope \<Rightarrow> PredictionEnvelope res" where
  "PredictionEnvelope_init p =
     bindR (checks
       [require_namespaced (pe_predicate p),
        reject_embedded_body_fields (pe_uncertainty p),
        reject_embedded_body_fields (PDict (pe_applicability p)),
        reject_embedded_body_fields (PDict (pe_ood p)),
        reject_embedded_body_fields (PDict (pe_metadata p)),
        reject (opt_any (\<lambda>a. strip a = []) (pe_action_id p))
          ''prediction action_id must be a non-empty string or None''] ()) (\<lambda>_.
     bindR (default_id (pe_id p) ''prediction'' (PredictionEnvelope_identity p)) (\<lambda>i.
     Inr (p\<lparr>pe_id := i\<rparr>)))"

section \<open>Labels and datasets\<close>

record LabelSpec =
  lb_label_id :: string
  lb_snapshot_id :: string
  lb_observation_id :: "string option"
  lb_predicate :: string
  lb_stage :: string
  lb_unit :: "string option"
  lb_mask :: bool
  lb_missing_reason :: "string option"
  lb_censored :: bool
  lb_unbounded :: bool

definition LabelSpec_init :: "LabelSpec \<Rightarrow> LabelSpec res" where
  "LabelSpec_init l =
     checks
       [require_namespaced (lb_label_id l), require_namespaced (lb_snapshot_id l),
        opt_namespaced (lb_observation_id l),
        require_namespaced (lb_predicate l), require_namespaced (lb_stage l),
        reject (opt_any (\<lambda>u. strip u = [] \<or> length u > 64 \<or> has_nul u) (lb_unit l))
          ''label unit must be a bounded non-empty string or None'',
        opt_namespaced (lb_missing_reason l),
        reject (lb_mask l \<and> lb_observation_id l \<in> {None, Some []})
          ''a present label must reference an observation'',
        reject (lb_mask l \<and> lb_missing_reason l \<noteq> None) ''a present label cannot declare a missing_reason'',
        reject (\<not> lb_mask l \<and> lb_observation_id l \<noteq> None) ''a masked label cannot reference an observation'',
        reject (\<not> lb_mask l \<and> lb_missing_reason l = None)
          ''a masked label must declare a namespaced missing_reason''] l"

record DatasetManifest =
  dm_dataset_id :: string
  dm_feature_schema_version :: string
  dm_snapshot_ids :: "string list"
  dm_feature_stages :: "string list"
  dm_feature_attribute_allowlist :: "string list"
  dm_feature_evidence_predicates :: "string list"
  dm_entity_correspondence_kinds :: "string list"
  dm_labels :: "LabelSpec list"
  dm_splits :: "(string \<times> string) list"
  dm_kernel_families :: "(string \<times> string) list"
  dm_dedup_groups :: "(string \<times> string) list"
  dm_licenses :: "(string \<times> string) list"
  dm_metadata :: pydict

definition DatasetManifest_init :: "DatasetManifest \<Rightarrow> DatasetManifest res" where
  "DatasetManifest_init d =
     checks
       [require_namespaced (dm_dataset_id d),
        forR (\<lambda>vs. checks [forR require_namespaced vs,
                            reject (has_duplicates vs) ''dataset values must be unique''] ())
          [dm_feature_evidence_predicates d, dm_entity_correspondence_kinds d],
        reject_embedded_body_fields (PDict (dm_metadata d))] d"

definition hash_artifact_bytes :: "nat list \<Rightarrow> string" where
  "hash_artifact_bytes data = concat (map hex_word (digest_blocks initial_state (pad_message data)))"

definition artifact_hash_map :: "ArtifactRef list \<Rightarrow> (string \<times> string) list" where
  "artifact_hash_map artifacts =
     dict_of_pairs (map (\<lambda>a. (ar_uri a, ar_sha256 a)) (sort_key ar_uri artifacts))"

section \<open>Content-addressed normalisers\<close>

interpretation local_index: content_addressed LocalKnowledgeIndexManifest_init lk_id "\<lambda>i. lk_id_update (\<lambda>_. i)"
proof unfold_locales
  show "LocalKnowledgeIndexManifest_init n = Inr n" if "LocalKnowledgeIndexManifest_init m = Inr n" for m n
    using that unfolding LocalKnowledgeIndexManifest_init_def res_iff
    by (elim exE conjE) (frule safe_relative_path_fixed,
      clarsimp simp: res_iff LocalKnowledgeIndexManifest_identity_def)
next
  show "g = f\<lparr>lk_id := lk_id g\<rparr>"
    if "LocalKnowledgeIndexManifest_init e = Inr f" "LocalKnowledgeIndexManifest_init (e\<lparr>lk_id := []\<rparr>) = Inr g"
    for e f g
    using that unfolding LocalKnowledgeIndexManifest_init_def res_iff by (elim exE conjE) clarsimp
qed simp

lemma PredictionEnvelope_identity_id [simp]:
  "PredictionEnvelope_identity (p\<lparr>pe_id := i\<rparr>) = PredictionEnvelope_identity p"
  by (simp add: PredictionEnvelope_identity_def)

interpretation prediction: content_addressed PredictionEnvelope_init pe_id "\<lambda>i. pe_id_update (\<lambda>_. i)"
  by unfold_locales (auto simp: PredictionEnvelope_init_def res_iff dest!: idem_dest)

interpretation label: normaliser LabelSpec_init
  by (rule normaliser_checks) (rule LabelSpec_init_def)

interpretation dataset: normaliser DatasetManifest_init
  by (rule normaliser_checks) (rule DatasetManifest_init_def)

lemma artifact_hash_map_perm:
  assumes "mset bs = mset as" and "distinct (map ar_uri as)"
  shows "artifact_hash_map bs = artifact_hash_map as"
  using sort_key_perm [OF assms(1) [symmetric] assms(2)] by (simp add: artifact_hash_map_def)

section \<open>Properties\<close>

text \<open>A label is either present and names an observation, or masked with a reason.\<close>
theorem label_present_or_explained:
  assumes "LabelSpec_init l = Inr k"
  shows "k = l \<and> (if lb_mask l then lb_missing_reason l = None \<and> (\<exists>i. lb_observation_id l = Some i \<and> is_namespaced i)
                  else lb_observation_id l = None \<and> (\<exists>r. lb_missing_reason l = Some r \<and> is_namespaced r))"
proof (cases "lb_mask l")
  case True
  with assms show ?thesis
    by (cases "lb_observation_id l") (auto simp: LabelSpec_init_def res_iff)
next
  case False
  with assms show ?thesis
    by (cases "lb_missing_reason l") (auto simp: LabelSpec_init_def res_iff)
qed

theorem label_present_or_explained_witness:
  "lb_observation_id \<lparr>lb_label_id = ''a1'', lb_snapshot_id = ''s1'', lb_observation_id = Some ''o1'',
     lb_predicate = ''latency'', lb_stage = ''schedule'', lb_unit = None, lb_mask = True,
     lb_missing_reason = None, lb_censored = False, lb_unbounded = False\<rparr> = Some ''o1''"
proof -
  let ?l = "\<lparr>lb_label_id = ''a1'', lb_snapshot_id = ''s1'', lb_observation_id = Some ''o1'',
     lb_predicate = ''latency'', lb_stage = ''schedule'', lb_unit = None, lb_mask = True,
     lb_missing_reason = None, lb_censored = False, lb_unbounded = False\<rparr>"
  have "LabelSpec_init ?l = Inr ?l"
    by (simp add: LabelSpec_init_def checks_eval require_namespaced_def opt_namespaced_def)
  from label_present_or_explained [OF this] show ?thesis by simp
qed

end
