(* ===== verification/Graph.thy ===== *)
theory Graph
  imports Model_Facts
begin

text \<open>
  The canonical architecture graph (\<open>hlsgraph/graph.py\<close>).  The dicts of the graph are
  association lists in insertion order (\<open>AList.update\<close> keeps the place of a key, as a
  Python dict does); \<open>to_dict\<close> applies \<open>json_ready\<close> to each part.  The theory shows that
  the graphs reached by the two insertion operations are well formed and only grow, that
  the breadth-first \<open>traverse\<close> returns the ball around its start, and that the graph
  hash does not depend on insertion order.
\<close>

section \<open>State and operations\<close>

definition SCHEMA_VERSION :: string where
  "SCHEMA_VERSION = ''0.3.0''"

definition SUPPORTED_GRAPH_SCHEMA_VERSIONS :: "string list" where
  "SUPPORTED_GRAPH_SCHEMA_VERSIONS = [''0.2.0'', SCHEMA_VERSION]"

record CanonicalGraph =
  cg_snapshot_id :: string
  cg_entities :: "(string \<times> Entity) list"
  cg_relations :: "(string \<times> Relation) list"
  cg_metadata :: pydict
  cg_schema_version :: string

definition CanonicalGraph_init :: "CanonicalGraph \<Rightarrow> CanonicalGraph res" where
  "CanonicalGraph_init g = checks
     [reject (cg_schema_version g \<notin> set SUPPORTED_GRAPH_SCHEMA_VERSIONS)
        ''canonical graph schema is not supported by this build'',
      reject (cg_snapshot_id g = []) ''canonical graph snapshot_id is required'',
      reject_embedded_body_fields (PDict (cg_metadata g))] g"

definition graph_fact_authority :: "string \<Rightarrow> unit res" where
  "graph_fact_authority a = reject (a \<in> set NON_FACT_AUTHORITIES)
     ''knowledge and predictions must remain in their dedicated envelopes''"

definition Entity_val :: "Entity \<Rightarrow> pyval" where
  "Entity_val e = PObj
     [(''kind'', PStr (en_kind e)), (''name'', PStr (en_name e)),
      (''snapshot_id'', PStr (en_snapshot_id e)), (''id'', PStr (en_id e)),
      (''qualified_name'', opt_str (en_qualified_name e)), (''authority'', PStr (en_authority e)),
      (''stage'', PStr (en_stage e)), (''attrs'', PDict (en_attrs e)),
      (''anchors'', PList (map SourceAnchor_val (en_anchors e))),
      (''aliases'', str_list (en_aliases e)), (''completeness'', PStr (en_completeness e))]"

definition Relation_val :: "Relation \<Rightarrow> pyval" where
  "Relation_val r = PObj
     [(''src'', PStr (rl_src r)), (''dst'', PStr (rl_dst r)), (''kind'', PStr (rl_kind r)),
      (''snapshot_id'', PStr (rl_snapshot_id r)), (''id'', PStr (rl_id r)),
      (''authority'', PStr (rl_authority r)), (''stage'', PStr (rl_stage r)),
      (''attrs'', PDict (rl_attrs r)), (''anchors'', PList (map SourceAnchor_val (rl_anchors r))),
      (''mapping_kind'', opt_str (rl_mapping_kind r)), (''completeness'', PStr (rl_completeness r))]"

text \<open>\<open>canonical_json(previous) != canonical_json(new)\<close>, evaluated only when there is a previous.\<close>

definition same_canonical :: "pyval option \<Rightarrow> pyval \<Rightarrow> string \<Rightarrow> unit res" where
  "same_canonical previous v msg =
     (case previous of None \<Rightarrow> Inr ()
      | Some p \<Rightarrow> bindR (canonical_json p) (\<lambda>a. bindR (canonical_json v) (\<lambda>b. reject (a \<noteq> b) msg)))"

definition add_entity :: "CanonicalGraph \<Rightarrow> Entity \<Rightarrow> CanonicalGraph res" where
  "add_entity g e = checks
     [reject (en_snapshot_id e \<noteq> cg_snapshot_id g) ''entity belongs to a different snapshot'',
      graph_fact_authority (en_authority e),
      same_canonical (map_option Entity_val (map_of (cg_entities g) (en_id e))) (Entity_val e)
        ''conflicting entity with stable id'']
     (g\<lparr>cg_entities := AList.update (en_id e) e (cg_entities g)\<rparr>)"

definition has_entity :: "CanonicalGraph \<Rightarrow> string \<Rightarrow> bool" where
  "has_entity g i = (map_of (cg_entities g) i \<noteq> None)"

definition add_relation :: "bool \<Rightarrow> CanonicalGraph \<Rightarrow> Relation \<Rightarrow> CanonicalGraph res" where
  "add_relation allow_dangling g r = checks
     [reject (rl_snapshot_id r \<noteq> cg_snapshot_id g) ''relation belongs to a different snapshot'',
      graph_fact_authority (rl_authority r),
      reject (\<not> allow_dangling \<and> (\<not> has_entity g (rl_src r) \<or> \<not> has_entity g (rl_dst r)))
        ''relation endpoints must exist'',
      same_canonical (map_option Relation_val (map_of (cg_relations g) (rl_id r))) (Relation_val r)
        ''conflicting relation with stable id'']
     (g\<lparr>cg_relations := AList.update (rl_id r) r (cg_relations g)\<rparr>)"

definition by_kind :: "CanonicalGraph \<Rightarrow> string \<Rightarrow> Entity list" where
  "by_kind g k = sort_key en_id (filter (\<lambda>e. en_kind e = k) (map snd (cg_entities g)))"

definition end_at :: "CanonicalGraph \<Rightarrow> Relation \<Rightarrow> string \<Rightarrow> (Relation \<times> Entity) list" where
  "end_at g r i = (case map_of (cg_entities g) i of None \<Rightarrow> [] | Some e \<Rightarrow> [(r, e)])"

definition ends_of :: "CanonicalGraph \<Rightarrow> string \<Rightarrow> string \<Rightarrow> Relation \<Rightarrow> (Relation \<times> Entity) list" where
  "ends_of g v direction r =
     (if direction \<in> {''out'', ''both''} \<and> rl_src r = v then end_at g r (rl_dst r) else [])
     @ (if direction \<in> {''in'', ''both''} \<and> rl_dst r = v then end_at g r (rl_src r) else [])"

definition neighbors ::
  "CanonicalGraph \<Rightarrow> string \<Rightarrow> string list \<Rightarrow> string \<Rightarrow> (Relation \<times> Entity) list res" where
  "neighbors g direction kinds v =
     checks [reject (direction \<notin> {''in'', ''out'', ''both''}) ''direction must be in, out, or both'']
       (concat (map (ends_of g v direction)
          (filter (\<lambda>r. kinds = [] \<or> rl_kind r \<in> set kinds)
             (sort_key rl_id (map snd (cg_relations g))))))"

type_synonym frontier = "(string \<times> nat) list"

text \<open>The loop state of \<open>traverse\<close>: the queue, \<open>seen\<close> and \<open>used_relations\<close>.\<close>

type_synonym search_state = "frontier \<times> string list \<times> (string \<times> Relation) list"

definition discover :: "nat \<Rightarrow> search_state \<Rightarrow> Relation \<times> Entity \<Rightarrow> search_state" where
  "discover level st re =
     (case st of (queue, seen, used) \<Rightarrow>
        (if en_id (snd re) \<in> set seen then (queue, seen, AList.update (rl_id (fst re)) (fst re) used) else
           (queue @ [(en_id (snd re), Suc level)], seen @ [en_id (snd re)],
            AList.update (rl_id (fst re)) (fst re) used)))"

definition progress :: "string set \<Rightarrow> search_state \<Rightarrow> search_state \<Rightarrow> bool" where
  "progress U st st' \<longleftrightarrow> card (U - set (fst (snd st'))) < card (U - set (fst (snd st)))
     \<or> fst (snd st') = fst (snd st) \<and> fst st' = fst st"

lemma progress_trans: "progress U a b \<Longrightarrow> progress U b c \<Longrightarrow> progress U a c"
  unfolding progress_def by (elim disjE conjE) simp_all

lemma progress_discover:
  assumes "en_id (snd re) \<in> U" and "finite U"
  shows "progress U st (discover l st re)"
proof (cases st)
  case (fields queue seen used)
  show ?thesis
  proof (cases "en_id (snd re) \<in> set seen")
    case False
    with assms have "card (U - insert (en_id (snd re)) (set seen)) < card (U - set seen)"
      by (intro psubset_card_mono) auto
    with False fields show ?thesis by (simp add: discover_def progress_def)
  qed (simp add: fields discover_def progress_def)
qed

lemma progress_discover_all:
  "\<forall>re \<in> set ns. en_id (snd re) \<in> U \<Longrightarrow> finite U \<Longrightarrow> progress U st (foldl (discover l) st ns)"
proof (induction ns arbitrary: st)
  case Nil
  show ?case by (simp add: progress_def)
next
  case (Cons re ns)
  have "progress U st (discover l st re)"
    by (rule progress_discover) (use Cons.prems in simp_all)
  moreover have "progress U (discover l st re) (foldl (discover l) (discover l st re) ns)"
    by (rule Cons.IH) (use Cons.prems in simp_all)
  ultimately show ?case unfolding foldl_Cons by (rule progress_trans)
qed

lemma set_end_at: "(r, e) \<in> set (end_at g x i) \<longleftrightarrow> r = x \<and> map_of (cg_entities g) i = Some e"
  by (cases "map_of (cg_entities g) i") (auto simp: end_at_def)

lemma ends_of_iff:
  "(r, e) \<in> set (ends_of g v d x) \<longleftrightarrow> r = x \<and>
     (d \<in> {''out'', ''both''} \<and> rl_src x = v \<and> map_of (cg_entities g) (rl_dst x) = Some e
      \<or> d \<in> {''in'', ''both''} \<and> rl_dst x = v \<and> map_of (cg_entities g) (rl_src x) = Some e)"
  by (auto simp: ends_of_def set_end_at)

lemma neighbors_iff:
  assumes "neighbors g d ks v = Inr ns"
  shows "(r, e) \<in> set ns \<longleftrightarrow> r \<in> snd ` set (cg_relations g) \<and> (ks = [] \<or> rl_kind r \<in> set ks)
           \<and> (r, e) \<in> set (ends_of g v d r)"
  using assms by (auto simp: neighbors_def checks_iff ends_of_iff)

lemma neighbors_entities:
  assumes "neighbors g d ks v = Inr ns" and "(r, e) \<in> set ns"
  shows "e \<in> snd ` set (cg_entities g)"
  using assms(2) unfolding neighbors_iff [OF assms(1)] ends_of_iff
  by (auto dest: map_of_SomeD intro: rev_image_eqI)

text \<open>The \<open>while queue\<close> loop: each round shrinks the undiscovered entities or the queue.\<close>

function traverse_loop ::
  "CanonicalGraph \<Rightarrow> string \<Rightarrow> string list \<Rightarrow> nat \<Rightarrow> search_state \<Rightarrow> search_state res" where
  "traverse_loop g d ks depth ([], seen, used) = Inr ([], seen, used)"
| "traverse_loop g d ks depth ((v, level) # queue, seen, used) =
     (if depth \<le> level then traverse_loop g d ks depth (queue, seen, used)
      else case neighbors g d ks v of
        Inl e \<Rightarrow> Inl e
      | Inr ns \<Rightarrow> traverse_loop g d ks depth (foldl (discover level) (queue, seen, used) ns))"
  by pat_completeness auto
termination
proof (relation "measures [\<lambda>(g, d, ks, n, q, seen, used). card (en_id ` snd ` set (cg_entities g) - set seen),
    \<lambda>(g, d, ks, n, q, seen, used). length q]", goal_cases)
  case (3 g d ks depth v level queue seen used ns)
  have "\<forall>re \<in> set ns. en_id (snd re) \<in> en_id ` snd ` set (cg_entities g)"
    using neighbors_entities [OF 3(2)] by fastforce
  from progress_discover_all [OF this, of "(queue, seen, used)" level] show ?case
    by (cases "foldl (discover level) (queue, seen, used) ns") (auto simp: progress_def)
qed auto

text \<open>\<open>[self.entities[item] for item in sorted(seen)]\<close>.\<close>

definition sorted_entities :: "CanonicalGraph \<Rightarrow> string list \<Rightarrow> Entity list res" where
  "sorted_entities g ids =
     mapR (\<lambda>i. case map_of (cg_entities g) i of None \<Rightarrow> Inl (KeyError i) | Some e \<Rightarrow> Inr e) (sort ids)"

definition traverse ::
  "CanonicalGraph \<Rightarrow> string \<Rightarrow> int \<Rightarrow> string \<Rightarrow> string list \<Rightarrow> (Entity list \<times> Relation list) res" where
  "traverse g start depth direction kinds =
     bindR (checks
       [reject_with (\<not> has_entity g start) (KeyError start),
        reject (depth < 0 \<or> 32 < depth) ''depth must be in 0..32''] ()) (\<lambda>_.
     bindR (traverse_loop g direction kinds (nat depth) ([(start, 0)], [start], [])) (\<lambda>(_, seen, used).
     mapr (\<lambda>es. (es, map snd (sort_key fst used))) (sorted_entities g seen)))"

definition to_dict :: "CanonicalGraph \<Rightarrow> pyval res" where
  "to_dict g =
     bindR (json_ready (PDict (cg_metadata g))) (\<lambda>m.
     bindR (mapR (\<lambda>e. json_ready (Entity_val (snd e))) (sort_key fst (cg_entities g))) (\<lambda>es.
     bindR (mapR (\<lambda>r. json_ready (Relation_val (snd r))) (sort_key fst (cg_relations g))) (\<lambda>rs.
     Inr (pdict
       [(''schema_version'', PStr (cg_schema_version g)), (''snapshot_id'', PStr (cg_snapshot_id g)),
        (''metadata'', of_json m), (''entities'', PList (map of_json es)),
        (''relations'', PList (map of_json rs))]))))"

definition graph_hash :: "CanonicalGraph \<Rightarrow> string res" where
  "graph_hash g = bindR (to_dict g) stable_hash"

text \<open>The argument of \<open>from_dict\<close>, its contract payloads read as records.\<close>

record GraphDict =
  gd_schema_version :: "string option"
  gd_snapshot_id :: string
  gd_metadata :: pydict
  gd_entities :: "Entity list"
  gd_relations :: "Relation list"

definition empty_graph :: "string \<Rightarrow> pydict \<Rightarrow> string \<Rightarrow> CanonicalGraph" where
  "empty_graph snapshot m version =
     \<lparr>cg_snapshot_id = snapshot, cg_entities = [], cg_relations = [], cg_metadata = m,
      cg_schema_version = version\<rparr>"

definition CanonicalGraph_from_dict :: "GraphDict \<Rightarrow> CanonicalGraph res" where
  "CanonicalGraph_from_dict d =
     (case gd_schema_version d of
        None \<Rightarrow> Inl (ValueError ''canonical graph schema_version is required'')
      | Some version \<Rightarrow>
          bindR (CanonicalGraph_init (empty_graph (gd_snapshot_id d) (gd_metadata d) version)) (\<lambda>g.
          bindR (foldR (\<lambda>g e. bindR (Entity_from_dict e) (add_entity g)) g (gd_entities d)) (\<lambda>g.
          foldR (\<lambda>g r. bindR (Relation_from_dict r) (add_relation False g)) g (gd_relations d))))"

definition count_kinds :: "string list \<Rightarrow> (string \<times> nat) list" where
  "count_kinds ks = foldl (\<lambda>d k. AList.update k (case map_of d k of None \<Rightarrow> 1 | Some n \<Rightarrow> n + 1) d) [] ks"

record GraphStats =
  gs_entities :: nat
  gs_relations :: nat
  gs_entity_kinds :: "(string \<times> nat) list"
  gs_relation_kinds :: "(string \<times> nat) list"
  gs_graph_hash :: string

definition stats :: "CanonicalGraph \<Rightarrow> GraphStats res" where
  "stats g = mapr (\<lambda>h.
     \<lparr>gs_entities = length (cg_entities g), gs_relations = length (cg_relations g),
      gs_entity_kinds = sort_key fst (count_kinds (map (en_kind \<circ> snd) (cg_entities g))),
      gs_relation_kinds = sort_key fst (count_kinds (map (rl_kind \<circ> snd) (cg_relations g))),
      gs_graph_hash = h\<rparr>) (graph_hash g)"

section \<open>Well-formed graphs and growth\<close>

definition keyed_by :: "('a \<Rightarrow> string) \<Rightarrow> (string \<times> 'a) list \<Rightarrow> bool" where
  "keyed_by f al \<longleftrightarrow> distinct (map fst al) \<and> list_all (\<lambda>kv. f (snd kv) = fst kv) al"

definition entity_ok :: "CanonicalGraph \<Rightarrow> Entity \<Rightarrow> bool" where
  "entity_ok g e \<longleftrightarrow> en_snapshot_id e = cg_snapshot_id g \<and> en_authority e \<notin> set NON_FACT_AUTHORITIES"

definition relation_ok :: "CanonicalGraph \<Rightarrow> Relation \<Rightarrow> bool" where
  "relation_ok g r \<longleftrightarrow> rl_snapshot_id r = cg_snapshot_id g \<and> rl_authority r \<notin> set NON_FACT_AUTHORITIES
     \<and> has_entity g (rl_src r) \<and> has_entity g (rl_dst r)"

definition graph_wf :: "CanonicalGraph \<Rightarrow> bool" where
  "graph_wf g \<longleftrightarrow> keyed_by en_id (cg_entities g) \<and> keyed_by rl_id (cg_relations g)
     \<and> list_all (\<lambda>kv. entity_ok g (snd kv)) (cg_entities g)
     \<and> list_all (\<lambda>kv. relation_ok g (snd kv)) (cg_relations g)"

inductive graph_step :: "CanonicalGraph \<Rightarrow> CanonicalGraph \<Rightarrow> bool" where
  entity_added: "add_entity g e = Inr h \<Longrightarrow> graph_step g h"
| relation_added: "add_relation False g r = Inr h \<Longrightarrow> graph_step g h"

inductive_cases graph_stepE: "graph_step g h"

lemma set_update_keyed:
  assumes "distinct (map fst al)"
  shows "set (AList.update k v al) = insert (k, v) {kv \<in> set al. fst kv \<noteq> k}"
  using assms by (induction al) (auto simp: image_iff)

lemma list_all_update:
  "distinct (map fst al) \<Longrightarrow> list_all P al \<Longrightarrow> P (k, v) \<Longrightarrow> list_all P (AList.update k v al)"
  by (auto simp: list_all_iff set_update_keyed)

lemma keyed_by_update: "keyed_by f al \<Longrightarrow> keyed_by f (AList.update (f v) v al)"
  by (simp add: keyed_by_def distinct_update list_all_update)

lemma keyed_by_lookup: "keyed_by f al \<Longrightarrow> map_of al k = Some v \<Longrightarrow> f v = k"
  by (auto simp: keyed_by_def list_all_iff dest!: map_of_SomeD)

lemma keyed_by_key: "keyed_by f al \<Longrightarrow> kv \<in> set al \<Longrightarrow> f (snd kv) = fst kv"
  by (simp add: keyed_by_def list_all_iff)

lemma keyed_by_member: "keyed_by f al \<Longrightarrow> v \<in> snd ` set al \<longleftrightarrow> map_of al (f v) = Some v"
  by (auto simp: keyed_by_def list_all_iff dest!: map_of_SomeD intro: rev_image_eqI)

lemma keyed_by_inj: "keyed_by f al \<Longrightarrow> inj_on f (snd ` set al)"
  by (rule inj_onI) (simp add: keyed_by_member)

lemma add_entity_iff:
  "add_entity g e = Inr h \<longleftrightarrow> entity_ok g e
     \<and> same_canonical (map_option Entity_val (map_of (cg_entities g) (en_id e))) (Entity_val e)
         ''conflicting entity with stable id'' = Inr ()
     \<and> h = g\<lparr>cg_entities := AList.update (en_id e) e (cg_entities g)\<rparr>"
  by (auto simp: add_entity_def graph_fact_authority_def entity_ok_def res_iff)

lemma add_relation_iff:
  "add_relation False g r = Inr h \<longleftrightarrow> relation_ok g r
     \<and> same_canonical (map_option Relation_val (map_of (cg_relations g) (rl_id r))) (Relation_val r)
         ''conflicting relation with stable id'' = Inr ()
     \<and> h = g\<lparr>cg_relations := AList.update (rl_id r) r (cg_relations g)\<rparr>"
  by (auto simp: add_relation_def graph_fact_authority_def relation_ok_def res_iff)

lemma same_canonical_iff:
  "same_canonical p v msg = Inr () \<longleftrightarrow>
     (\<forall>x. p = Some x \<longrightarrow> (\<exists>t. canonical_json x = Inr t \<and> canonical_json v = Inr t))"
  by (cases p) (auto simp: same_canonical_def res_iff)

lemma graph_wf_step:
  assumes "graph_step g h" and "graph_wf g"
  shows "graph_wf h"
  using assms(1)
proof cases
  case (entity_added e)
  then have e: "entity_ok g e" and h: "h = g\<lparr>cg_entities := AList.update (en_id e) e (cg_entities g)\<rparr>"
    by (auto simp: add_entity_iff)
  have "relation_ok h r" if "relation_ok g r" for r
    using that by (auto simp: h relation_ok_def has_entity_def update_conv')
  moreover have "entity_ok h x = entity_ok g x" for x by (simp add: h entity_ok_def)
  ultimately show ?thesis using e assms(2)
    by (auto simp: graph_wf_def h keyed_by_update keyed_by_def [of en_id "cg_entities g"]
        intro!: list_all_update elim: list.pred_mono_strong)
next
  case (relation_added r)
  then have r: "relation_ok g r" and h: "h = g\<lparr>cg_relations := AList.update (rl_id r) r (cg_relations g)\<rparr>"
    by (auto simp: add_relation_iff)
  have "relation_ok h x = relation_ok g x" "entity_ok h y = entity_ok g y" for x y
    by (simp_all add: h relation_ok_def entity_ok_def has_entity_def)
  then show ?thesis using r assms(2)
    by (auto simp: graph_wf_def h keyed_by_update keyed_by_def [of rl_id "cg_relations g"]
        intro!: list_all_update)
qed

lemma graph_wf_steps: "graph_step\<^sup>*\<^sup>* g h \<Longrightarrow> graph_wf g \<Longrightarrow> graph_wf h"
  by (induction rule: rtranclp_induct) (auto intro: graph_wf_step)

text \<open>What a reader can have seen of a graph, and that it is never taken back.\<close>

definition entity_view :: "CanonicalGraph \<Rightarrow> string \<Rightarrow> string res option" where
  "entity_view g i = map_option (\<lambda>e. canonical_json (Entity_val e)) (map_of (cg_entities g) i)"

definition relation_view :: "CanonicalGraph \<Rightarrow> string \<Rightarrow> string res option" where
  "relation_view g i = map_option (\<lambda>r. canonical_json (Relation_val r)) (map_of (cg_relations g) i)"

lemma views_grow_step:
  assumes "graph_step g h"
  shows "entity_view g \<subseteq>\<^sub>m entity_view h \<and> relation_view g \<subseteq>\<^sub>m relation_view h"
  using assms
  by cases (auto simp: add_entity_iff add_relation_iff same_canonical_iff map_le_def entity_view_def
      relation_view_def update_conv')

lemma views_grow:
  "graph_step\<^sup>*\<^sup>* g h \<Longrightarrow> entity_view g \<subseteq>\<^sub>m entity_view h \<and> relation_view g \<subseteq>\<^sub>m relation_view h"
  by (induction rule: rtranclp_induct) (auto dest: views_grow_step intro: map_le_trans)




section \<open>The search is the ball around its start\<close>

definition linked_by :: "CanonicalGraph \<Rightarrow> string \<Rightarrow> string list \<Rightarrow> Relation \<Rightarrow> string \<Rightarrow> string \<Rightarrow> bool" where
  "linked_by g d ks r v w \<longleftrightarrow> r \<in> snd ` set (cg_relations g) \<and> (ks = [] \<or> rl_kind r \<in> set ks) \<and> has_entity g w
     \<and> (d \<in> {''out'', ''both''} \<and> rl_src r = v \<and> rl_dst r = w \<or> d \<in> {''in'', ''both''} \<and> rl_dst r = v \<and> rl_src r = w)"

definition linked :: "CanonicalGraph \<Rightarrow> string \<Rightarrow> string list \<Rightarrow> string \<Rightarrow> string \<Rightarrow> bool" where
  "linked g d ks v w \<longleftrightarrow> (\<exists>r. linked_by g d ks r v w)"

fun ball :: "(string \<Rightarrow> string \<Rightarrow> bool) \<Rightarrow> string \<Rightarrow> nat \<Rightarrow> string set" where
  "ball R s 0 = {s}"
| "ball R s (Suc n) = ball R s n \<union> {w. \<exists>v \<in> ball R s n. R v w}"

definition inner :: "(string \<Rightarrow> string \<Rightarrow> bool) \<Rightarrow> string \<Rightarrow> nat \<Rightarrow> string set" where
  "inner R s n = (case n of 0 \<Rightarrow> {} | Suc m \<Rightarrow> ball R s m)"

lemma ball_iff: "w \<in> ball R s n \<longleftrightarrow> (\<exists>m \<le> n. (R ^^ m) s w)"
proof (induction n arbitrary: w)
  case (Suc n)
  have "w \<in> ball R s (Suc n) \<longleftrightarrow> (\<exists>m \<le> n. (R ^^ m) s w) \<or> (\<exists>m \<le> n. (R ^^ Suc m) s w)"
  proof -
    have "w \<in> ball R s (Suc n) \<longleftrightarrow> w \<in> ball R s n \<or> (\<exists>v. v \<in> ball R s n \<and> R v w)" by auto
    also have "\<dots> \<longleftrightarrow> (\<exists>m \<le> n. (R ^^ m) s w) \<or> (\<exists>v. (\<exists>m \<le> n. (R ^^ m) s v) \<and> R v w)"
      by (simp only: Suc.IH)
    also have "(\<exists>v. (\<exists>m \<le> n. (R ^^ m) s v) \<and> R v w) \<longleftrightarrow> (\<exists>m \<le> n. (R ^^ Suc m) s w)"
      by (simp add: relcompp_apply) blast
    finally show ?thesis .
  qed
  also have "\<dots> \<longleftrightarrow> (\<exists>m \<le> Suc n. (R ^^ m) s w)"
  proof
    assume "\<exists>m \<le> Suc n. (R ^^ m) s w"
    then obtain m where m: "m \<le> Suc n" "(R ^^ m) s w" by blast
    show "(\<exists>m \<le> n. (R ^^ m) s w) \<or> (\<exists>m \<le> n. (R ^^ Suc m) s w)"
    proof (cases m)
      case 0
      with m show ?thesis by blast
    next
      case (Suc k)
      with m show ?thesis by (metis Suc_le_mono)
    qed
  qed (meson le_SucI Suc_le_mono)
  finally show ?case .
qed auto

lemma ball_mono: "m \<le> n \<Longrightarrow> ball R s m \<subseteq> ball R s n"
  by (meson ball_iff le_trans subsetI)

lemma ball_start [simp]: "s \<in> ball R s n"
  by (auto simp: ball_iff intro!: exI [of _ 0])

lemma ball_closed:
  assumes "\<And>v w. v \<in> ball R s l \<Longrightarrow> R v w \<Longrightarrow> w \<in> ball R s l" and "l \<le> n"
  shows "ball R s n = ball R s l"
  using assms(2) by (induction n rule: dec_induct) (use assms(1) in auto)

lemma inner_iff: "v \<in> inner R s n \<longleftrightarrow> (\<exists>m < n. (R ^^ m) s v)"
  by (cases n) (auto simp: inner_def ball_iff less_Suc_eq_le)

text \<open>The loop invariant: the queue holds the rest of level \<open>l\<close> and the part of level
  \<open>l + 1\<close> found so far; \<open>P\<close> are the nodes already expanded.\<close>

definition layer ::
  "(string \<Rightarrow> string \<Rightarrow> bool) \<Rightarrow> (string \<Rightarrow> Relation set) \<Rightarrow> string \<Rightarrow> nat \<Rightarrow> nat \<Rightarrow> string set \<Rightarrow> string set
    \<Rightarrow> string set \<Rightarrow> string set \<Rightarrow> Relation set \<Rightarrow> bool" where
  "layer R T s depth l A B P seen used \<longleftrightarrow>
     l \<le> depth \<and> seen = ball R s l \<union> B \<and> A \<subseteq> ball R s l \<and> B \<subseteq> ball R s (Suc l)
     \<and> (B \<noteq> {} \<longrightarrow> l < depth)
     \<and> (l < depth \<longrightarrow> P \<union> A = ball R s l) \<and> (l = depth \<longrightarrow> P = inner R s depth)
     \<and> (\<forall>v \<in> P. \<forall>w. R v w \<longrightarrow> w \<in> seen)
     \<and> used = (\<Union>v \<in> P. T v)"

definition at_level :: "nat \<Rightarrow> string list \<Rightarrow> frontier" where
  "at_level l vs = map (\<lambda>v. (v, l)) vs"

definition search_inv ::
  "(string \<Rightarrow> string \<Rightarrow> bool) \<Rightarrow> (string \<Rightarrow> Relation set) \<Rightarrow> string \<Rightarrow> nat \<Rightarrow> search_state \<Rightarrow> bool" where
  "search_inv R T s depth st \<longleftrightarrow> (case st of (queue, seen, used) \<Rightarrow>
     (\<exists>l A B P. queue = at_level l A @ at_level (Suc l) B
        \<and> layer R T s depth l (set A) (set B) P (set seen) (snd ` set used))
     \<and> distinct seen \<and> keyed_by rl_id used)"

lemma layer_shift:
  assumes "layer R T s depth l {} B P seen used" and "B \<noteq> {}"
  shows "layer R T s depth (Suc l) B {} P seen used"
proof -
  note L = assms(1) [unfolded layer_def]
  have l: "l < depth" using L assms(2) by blast
  then have P: "P = ball R s l" using L by simp
  have seen: "seen = ball R s l \<union> B" and B: "B \<subseteq> ball R s (Suc l)" using L by blast+
  have "ball R s (Suc l) \<subseteq> seen" using L P by auto
  moreover have "seen \<subseteq> ball R s (Suc l)" unfolding seen using B by simp
  ultimately have *: "ball R s (Suc l) = seen" by (rule antisym)
  have "P = inner R s depth" if "Suc l = depth"
    using that P by (simp add: inner_def flip: that)
  moreover have "\<forall>v \<in> P. \<forall>w. R v w \<longrightarrow> w \<in> seen" and "used = (\<Union>v \<in> P. T v)" using L by blast+
  ultimately show ?thesis unfolding layer_def * using l P seen by (intro conjI impI) auto
qed

lemma layer_expand:
  assumes "layer R T s depth l (insert v A) B P seen used" and "l < depth"
    and "new \<subseteq> {w. R v w}" and "{w. R v w} \<subseteq> seen \<union> new"
  shows "layer R T s depth l A (B \<union> new) (insert v P) (seen \<union> new) (used \<union> T v)"
proof -
  note L = assms(1) [unfolded layer_def]
  have v: "v \<in> ball R s l" using L by blast
  have "new \<subseteq> ball R s (Suc l)" using assms(3) v by auto
  then have "B \<union> new \<subseteq> ball R s (Suc l)" using L by blast
  then show ?thesis unfolding layer_def using L assms(2,4) by blast
qed

lemma layer_skip:
  assumes "layer R T s depth l (insert v A) B P seen used" and "depth \<le> l"
  shows "layer R T s depth l A B P seen used"
  using assms unfolding layer_def by (elim conjE, intro conjI impI) (assumption | simp)+

lemma layer_done:
  assumes "layer R T s depth l {} {} P seen used"
  shows "seen = ball R s depth \<and> used = (\<Union>v \<in> inner R s depth. T v)"
proof -
  note L = assms [unfolded layer_def]
  show ?thesis
  proof (cases "l < depth")
    case True
    then have P: "P = ball R s l" "seen = ball R s l" using L by simp_all
    have closed: "ball R s n = ball R s l" if "l \<le> n" for n
      using L that unfolding P by (intro ball_closed) blast+
    have "inner R s depth = ball R s l"
      using True closed [of "depth - 1"] by (cases depth) (auto simp: inner_def)
    then show ?thesis using L True P closed [of depth] by simp
  next
    case False
    then have "l = depth" using L by simp
    with L show ?thesis by simp
  qed
qed

lemma discover_all:
  assumes "foldl (discover l) (queue, seen, used) ns = (queue', seen', used')"
    and "keyed_by rl_id used" and "distinct seen" and "inj_on rl_id (snd ` set used \<union> fst ` set ns)"
  shows "\<exists>new. queue' = queue @ map (\<lambda>v. (v, Suc l)) new \<and> set new \<subseteq> en_id ` snd ` set ns
       \<and> set seen' = set seen \<union> set new \<and> en_id ` snd ` set ns \<subseteq> set seen' \<and> distinct seen'
       \<and> keyed_by rl_id used' \<and> snd ` set used' = snd ` set used \<union> fst ` set ns"
  using assms
proof (induction ns arbitrary: queue seen used)
  case (Cons re ns)
  obtain r e where re: "re = (r, e)" by fastforce
  define used1 where "used1 = AList.update (rl_id r) r used"
  define new1 where "new1 = (if en_id e \<in> set seen then [] else [en_id e])"
  have d: "discover l (queue, seen, used) re
      = (queue @ map (\<lambda>v. (v, Suc l)) new1, seen @ new1, used1)"
    by (simp add: discover_def re used1_def new1_def)
  have u: "snd ` set used1 = insert r (snd ` set used)"
  proof -
    have set1: "set used1 = insert (rl_id r, r) {kv \<in> set used. fst kv \<noteq> rl_id r}"
      unfolding used1_def using Cons.prems(2) by (intro set_update_keyed) (simp add: keyed_by_def)
    have "snd kv = r" if "kv \<in> set used" "fst kv = rl_id r" for kv
    proof -
      have "rl_id (snd kv) = rl_id r"
        using that keyed_by_key [OF Cons.prems(2) that(1)] by simp
      moreover have "snd kv \<in> snd ` set used" using that(1) by (rule imageI)
      ultimately show ?thesis using inj_onD [OF Cons.prems(4)] by (simp add: re)
    qed
    note eq = this
    have "snd ` set used1 = insert r (snd ` {kv \<in> set used. fst kv \<noteq> rl_id r})"
      using set1 by simp
    also have "\<dots> = insert r (snd ` set used)" using eq by blast
    finally show ?thesis .
  qed
  have "\<exists>new. queue' = (queue @ map (\<lambda>v. (v, Suc l)) new1) @ map (\<lambda>v. (v, Suc l)) new
       \<and> set new \<subseteq> en_id ` snd ` set ns
       \<and> set seen' = set (seen @ new1) \<union> set new \<and> en_id ` snd ` set ns \<subseteq> set seen' \<and> distinct seen'
       \<and> keyed_by rl_id used' \<and> snd ` set used' = snd ` set used1 \<union> fst ` set ns"
  proof (rule Cons.IH)
    show "foldl (discover l) (queue @ map (\<lambda>v. (v, Suc l)) new1, seen @ new1, used1) ns
        = (queue', seen', used')"
      using Cons.prems(1) d by simp
    show "keyed_by rl_id used1" unfolding used1_def by (rule keyed_by_update) (rule Cons.prems(2))
    show "distinct (seen @ new1)" using Cons.prems(3) by (simp add: new1_def)
    show "inj_on rl_id (snd ` set used1 \<union> fst ` set ns)"
      using Cons.prems(4) by (simp add: u re Un_commute)
  qed
  then obtain new where "queue' = (queue @ map (\<lambda>v. (v, Suc l)) new1) @ map (\<lambda>v. (v, Suc l)) new"
    "set new \<subseteq> en_id ` snd ` set ns" "set seen' = set (seen @ new1) \<union> set new"
    "en_id ` snd ` set ns \<subseteq> set seen'" "distinct seen'" "keyed_by rl_id used'"
    "snd ` set used' = snd ` set used1 \<union> fst ` set ns" by (elim exE conjE) (rule that)
  note new = this
  show ?case
  proof (intro exI conjI)
    show "queue' = queue @ map (\<lambda>v. (v, Suc l)) (new1 @ new)" by (simp add: new(1))
    show "set (new1 @ new) \<subseteq> en_id ` snd ` set (re # ns)" using new(2) by (auto simp: re new1_def)
    show "set seen' = set seen \<union> set (new1 @ new)" by (simp add: new(3) Un_assoc)
    have "en_id e \<in> set seen'" by (simp add: new(3) new1_def)
    with new(4) show "en_id ` snd ` set (re # ns) \<subseteq> set seen'" by (simp add: re)
    show "snd ` set used' = snd ` set used \<union> fst ` set (re # ns)" by (simp add: new(7) u re)
    show "distinct seen'" by (rule new(5))
    show "keyed_by rl_id used'" by (rule new(6))
  qed
next
  case Nil
  then show ?case by (intro exI [of _ "[]"]) simp
qed

definition touched :: "CanonicalGraph \<Rightarrow> string \<Rightarrow> string list \<Rightarrow> string \<Rightarrow> Relation set" where
  "touched g d ks v = {r. \<exists>w. linked_by g d ks r v w}"

lemma neighbors_sets:
  assumes "graph_wf g" and "neighbors g d ks v = Inr ns"
  shows "fst ` set ns = touched g d ks v" and "en_id ` snd ` set ns = {w. linked g d ks v w}"
proof -
  have key: "map_of (cg_entities g) i = Some e \<Longrightarrow> en_id e = i" for i e
    using assms(1) keyed_by_lookup [of en_id "cg_entities g"] by (simp add: graph_wf_def)
  have iff: "linked_by g d ks r v w \<longleftrightarrow> (\<exists>e. (r, e) \<in> set ns \<and> en_id e = w)" for r w
    unfolding neighbors_iff [OF assms(2)] ends_of_iff linked_by_def has_entity_def
    using key by (auto; metis)
  show "fst ` set ns = touched g d ks v"
    unfolding touched_def iff by force
  show "en_id ` snd ` set ns = {w. linked g d ks v w}"
    unfolding linked_def iff by force
qed

lemma search_inv_pop:
  assumes "search_inv R T s depth ((v, level) # queue, seen, used)"
  obtains A B P where "queue = at_level level A @ at_level (Suc level) B"
    and "layer R T s depth level (insert v (set A)) (set B) P (set seen) (snd ` set used)"
    and "distinct seen" and "keyed_by rl_id used"
proof -
  from assms obtain l A B P where q: "(v, level) # queue = at_level l A @ at_level (Suc l) B"
    and lay: "layer R T s depth l (set A) (set B) P (set seen) (snd ` set used)"
    and d: "distinct seen" "keyed_by rl_id used"
    unfolding search_inv_def by (simp only: prod.case) (elim exE conjE, rule that)
  show thesis
  proof (cases A)
    case (Cons a A')
    with q have "queue = at_level level A' @ at_level (Suc level) B" "v = a" "level = l"
      by (auto simp: at_level_def)
    with Cons lay d show ?thesis by (intro that) auto
  next
    case Nil
    with q obtain b B' where B: "B = b # B'" and "queue = at_level (Suc l) B'" "v = b" "level = Suc l"
      by (cases B) (auto simp: at_level_def)
    moreover have "layer R T s depth (Suc l) (set B) {} P (set seen) (snd ` set used)"
      using lay Nil B by (intro layer_shift) simp_all
    ultimately show ?thesis using d by (intro that [of B' "[]"]) (auto simp: at_level_def)
  qed
qed

lemma traverse_loop_ball:
  assumes "graph_wf g" and "traverse_loop g d ks depth st = Inr (q', seen', used')"
    and "search_inv (linked g d ks) (touched g d ks) s depth st"
  shows "set seen' = ball (linked g d ks) s depth
    \<and> snd ` set used' = (\<Union>v \<in> inner (linked g d ks) s depth. touched g d ks v)
    \<and> distinct seen' \<and> keyed_by rl_id used'"
  using assms
proof (induction g d ks depth st rule: traverse_loop.induct)
  case (1 g d ks depth seen used)
  then obtain l A B P where q: "[] = at_level l A @ at_level (Suc l) B"
    and lay: "layer (linked g d ks) (touched g d ks) s depth l (set A) (set B) P (set seen) (snd ` set used)"
    and d: "distinct seen" "keyed_by rl_id used"
    unfolding search_inv_def by (simp only: prod.case) (elim exE conjE, rule that)
  from q have "A = []" "B = []" by (auto simp: at_level_def)
  with lay have "layer (linked g d ks) (touched g d ks) s depth l {} {} P (set seen) (snd ` set used)" by simp
  from layer_done [OF this] d 1(2) show ?case by simp
next
  case (2 g d ks depth v level queue seen used)
  let ?R = "linked g d ks" and ?T = "touched g d ks"
  from 2(5) obtain A B P where q: "queue = at_level level A @ at_level (Suc level) B"
    and lay: "layer (linked g d ks) (touched g d ks) s depth level (insert v (set A)) (set B) P
                (set seen) (snd ` set used)"
    and d: "distinct seen" "keyed_by rl_id used" by (rule search_inv_pop)
  show ?case
  proof (cases "depth \<le> level")
    case True
    with lay have "layer ?R ?T s depth level (set A) (set B) P (set seen) (snd ` set used)"
      by (rule layer_skip)
    with q d have "search_inv ?R ?T s depth (queue, seen, used)" unfolding search_inv_def by auto
    moreover have "traverse_loop g d ks depth (queue, seen, used) = Inr (q', seen', used')"
      using 2(4) True by simp
    ultimately show ?thesis using 2(1) [OF True 2(3)] by blast
  next
    case False
    with 2(4) obtain ns where ns: "neighbors g d ks v = Inr ns"
      and loop: "traverse_loop g d ks depth (foldl (discover level) (queue, seen, used) ns) = Inr (q', seen', used')"
      by (auto split: sum.splits)
    obtain queue1 seen1 used1 where st: "foldl (discover level) (queue, seen, used) ns = (queue1, seen1, used1)"
      by (cases "foldl (discover level) (queue, seen, used) ns")
    have "snd ` set used \<union> fst ` set ns \<subseteq> snd ` set (cg_relations g)"
    proof -
      have "snd ` set used = (\<Union>v \<in> P. ?T v)" using lay unfolding layer_def by blast
      then show ?thesis unfolding neighbors_sets(1) [OF 2(3) ns] by (auto simp: touched_def linked_by_def)
    qed
    then have inj: "inj_on rl_id (snd ` set used \<union> fst ` set ns)"
      using 2(3) keyed_by_inj inj_on_subset by (metis graph_wf_def)
    obtain new where new: "queue1 = queue @ map (\<lambda>v. (v, Suc level)) new" "set new \<subseteq> {w. ?R v w}"
      "set seen1 = set seen \<union> set new" "{w. ?R v w} \<subseteq> set seen1" "distinct seen1"
      "keyed_by rl_id used1" "snd ` set used1 = snd ` set used \<union> ?T v"
      using discover_all [OF st d(2,1) inj] unfolding neighbors_sets [OF 2(3) ns] by blast
    have "layer ?R ?T s depth level (set A) (set B \<union> set new) (insert v P) (set seen \<union> set new)
            (snd ` set used \<union> ?T v)"
      using lay False new(2,4) unfolding new(3) by (intro layer_expand) simp_all
    moreover have "queue1 = at_level level A @ at_level (Suc level) (B @ new)"
      by (simp add: new(1) q at_level_def)
    ultimately have "\<exists>l A B P. queue1 = at_level l A @ at_level (Suc l) B
        \<and> layer ?R ?T s depth l (set A) (set B) P (set seen1) (snd ` set used1)"
      unfolding new(3,7) by (metis set_append)
    with new(5,6) have "search_inv ?R ?T s depth (queue1, seen1, used1)" unfolding search_inv_def by simp
    then show ?thesis using 2(2) [OF False ns 2(3)] loop unfolding st by blast
  qed
qed

lemma search_inv_start: "search_inv R T s depth ([(s, 0)], [s], [])"
proof -
  have "layer R T s depth 0 {s} {} {} {s} {}"
    unfolding layer_def inner_def by (auto split: nat.splits)
  then show ?thesis unfolding search_inv_def prod.case
    by (intro conjI exI [of _ 0] exI [of _ "[s]"] exI [of _ "[]"] exI [of _ "{}"])
      (simp_all add: keyed_by_def at_level_def)
qed

lemma sorted_entities_ids:
  assumes "graph_wf g" and "sorted_entities g ids = Inr es"
  shows "map en_id es = sort ids"
proof -
  have key: "map_of (cg_entities g) i = Some e \<Longrightarrow> en_id e = i" for i e
    using assms(1) keyed_by_lookup [of en_id "cg_entities g"] by (simp add: graph_wf_def)
  have "mapR (\<lambda>i. case map_of (cg_entities g) i of None \<Rightarrow> Inl (KeyError i) | Some e \<Rightarrow> Inr e) is = Inr es
      \<Longrightarrow> map en_id es = is" for "is"
    by (induction "is" arbitrary: es) (auto simp: res_iff key split: option.splits)
  then show ?thesis using assms(2) by (simp add: sorted_entities_def)
qed

text \<open>C13: \<open>traverse\<close> is the ball of the given radius: the entities returned are exactly
  those joined to the start by at most \<open>depth\<close> links of the chosen direction and kinds,
  each once and in the order of their ids, and the relations returned are exactly the links
  leaving an entity at a distance below \<open>depth\<close>.\<close>

theorem traverse_is_the_ball:
  assumes "graph_wf g" and "traverse g start depth d ks = Inr (es, rs)"
  shows "0 \<le> depth \<and> depth \<le> 32
    \<and> en_id ` set es = {w. \<exists>m \<le> nat depth. (linked g d ks ^^ m) start w}
    \<and> set rs = {r. \<exists>m < nat depth. \<exists>v w. (linked g d ks ^^ m) start v \<and> linked_by g d ks r v w}
    \<and> sorted (map en_id es) \<and> distinct es \<and> sorted (map rl_id rs) \<and> distinct rs"
proof -
  from assms(2) obtain q seen used where depth: "0 \<le> depth" "depth \<le> 32"
    and loop: "traverse_loop g d ks (nat depth) ([(start, 0)], [start], []) = Inr (q, seen, used)"
    and es: "sorted_entities g seen = Inr es" and rs: "rs = map snd (sort_key fst used)"
    unfolding traverse_def by (auto simp: res_iff)
  from traverse_loop_ball [OF assms(1) loop search_inv_start]
  have seen: "set seen = ball (linked g d ks) start (nat depth)" "distinct seen"
    and used: "snd ` set used = (\<Union>v \<in> inner (linked g d ks) start (nat depth). touched g d ks v)"
      "keyed_by rl_id used" by auto
  have ids: "map en_id es = sort seen" by (rule sorted_entities_ids [OF assms(1) es])
  then have "distinct es" "sorted (map en_id es)" "en_id ` set es = set seen"
    using seen(2) by (simp_all add: distinct_map flip: set_map) (metis distinct_map distinct_sort)
  moreover have "map rl_id rs = map fst (sort_key fst used)"
    unfolding rs using used(2) keyed_by_key by fastforce
  then have "sorted (map rl_id rs)" "distinct (map rl_id rs)"
    using used(2) by (simp_all add: keyed_by_def distinct_map)
  moreover from this have "distinct rs" by (simp add: distinct_map)
  moreover have "set rs = snd ` set used" by (simp add: rs)
  moreover have "snd ` set used
      = {r. \<exists>m < nat depth. \<exists>v w. (linked g d ks ^^ m) start v \<and> linked_by g d ks r v w}"
    unfolding used(1) UNION_eq Bex_def inner_iff touched_def mem_Collect_eq by blast
  moreover have "set seen = {w. \<exists>m \<le> nat depth. (linked g d ks ^^ m) start w}"
    unfolding seen(1) by (simp add: set_eq_iff ball_iff)
  ultimately show ?thesis using depth by (intro conjI) simp_all
qed

lemma traverse_loop_total:
  "d \<in> {''in'', ''out'', ''both''} \<Longrightarrow> \<exists>q seen used. traverse_loop g d ks depth st = Inr (q, seen, used)"
proof (induction g d ks depth st rule: traverse_loop.induct)
  case (2 g d ks depth v level queue seen used)
  have "\<exists>ns. neighbors g d ks v = Inr ns"
    using 2(3) by (auto simp: neighbors_def checks_iff res_iff)
  then obtain ns where ns: "neighbors g d ks v = Inr ns" ..
  show ?case
    using 2(1,2) 2(3) ns by (cases "depth \<le> level") simp_all
qed simp

text \<open>C29: the search always returns: in a well-formed graph every query with a known start,
  a depth in 0..32 and a valid direction gives a result.\<close>

theorem traverse_returns:
  assumes "graph_wf g" and "has_entity g start" and "0 \<le> depth" and "depth \<le> 32"
    and "d \<in> {''in'', ''out'', ''both''}"
  shows "\<exists>es rs. traverse g start depth d ks = Inr (es, rs)"
proof -
  obtain q seen used where loop:
    "traverse_loop g d ks (nat depth) ([(start, 0)], [start], []) = Inr (q, seen, used)"
    using traverse_loop_total [OF assms(5)] by blast
  from traverse_loop_ball [OF assms(1) loop search_inv_start]
  have seen: "set seen = ball (linked g d ks) start (nat depth)" by simp
  have "has_entity g w" if "w \<in> ball (linked g d ks) start n" for w n
    using that by (induction n arbitrary: w) (use assms(2) in \<open>auto simp: linked_def linked_by_def\<close>)
  then have "\<And>i. i \<in> set (sort seen) \<Longrightarrow> has_entity g i" using seen by simp
  then have "sorted_entities g seen = Inr (map (\<lambda>i. the (map_of (cg_entities g) i)) (sort seen))"
    unfolding sorted_entities_def by (intro mapR_Inr_const) (fastforce simp: has_entity_def)
  then show ?thesis
    using assms(2-4) loop by (auto simp: traverse_def checks_eval)
qed

section \<open>Serialisation\<close>

lemma sorted_dict_eq:
  assumes "map_of al = map_of bl" and "distinct (map fst al)" and "distinct (map fst bl)"
  shows "sort_key fst al = sort_key fst bl"
proof (rule sort_key_perm)
  have "(k, v) \<in> set al \<longleftrightarrow> (k, v) \<in> set bl" for k v
    using map_of_eq_Some_iff [OF assms(2), of k v] map_of_eq_Some_iff [OF assms(3), of k v] assms(1) by simp
  then have "set al = set bl" by (auto simp: set_eq_iff)
  moreover have "distinct al" "distinct bl" using assms(2,3) by (auto simp: distinct_map)
  ultimately show "mset al = mset bl" by (simp add: set_eq_iff_mset_eq_distinct)
qed (fact assms(2))

lemma to_dict_cong:
  assumes "keyed_by en_id (cg_entities g)" "keyed_by en_id (cg_entities h)"
    and "keyed_by rl_id (cg_relations g)" "keyed_by rl_id (cg_relations h)"
    and "map_of (cg_entities g) = map_of (cg_entities h)"
    and "map_of (cg_relations g) = map_of (cg_relations h)"
    and "cg_snapshot_id g = cg_snapshot_id h" "cg_metadata g = cg_metadata h"
    and "cg_schema_version g = cg_schema_version h"
  shows "to_dict g = to_dict h"
proof -
  have "sort_key fst (cg_entities g) = sort_key fst (cg_entities h)"
    "sort_key fst (cg_relations g) = sort_key fst (cg_relations h)"
    using assms by (auto simp: keyed_by_def intro!: sorted_dict_eq)
  then show ?thesis using assms(7-9) by (simp add: to_dict_def)
qed

text \<open>What \<open>from_dict\<close> is given when it reads back the output of \<open>to_dict\<close>.\<close>

definition graph_content :: "CanonicalGraph \<Rightarrow> GraphDict" where
  "graph_content g =
     \<lparr>gd_schema_version = Some (cg_schema_version g), gd_snapshot_id = cg_snapshot_id g,
      gd_metadata = cg_metadata g, gd_entities = map snd (sort_key fst (cg_entities g)),
      gd_relations = map snd (sort_key fst (cg_relations g))\<rparr>"

lemma update_fresh: "k \<notin> fst ` set al \<Longrightarrow> AList.update k v al = al @ [(k, v)]"
  by (induction al) auto

lemma read_entities:
  assumes "list_all (\<lambda>kv. Entity_from_dict (snd kv) = Inr (snd kv) \<and> entity_ok g (snd kv)) al"
    and "keyed_by en_id (cg_entities g @ al)"
  shows "foldR (\<lambda>g e. bindR (Entity_from_dict e) (add_entity g)) g (map snd al)
         = Inr (g\<lparr>cg_entities := cg_entities g @ al\<rparr>)"
  using assms
proof (induction al arbitrary: g)
  case (Cons kv al)
  have k: "en_id (snd kv) = fst kv" "fst kv \<notin> fst ` set (cg_entities g)"
    using Cons.prems(2) by (auto simp: keyed_by_def)
  then have "map_of (cg_entities g) (fst kv) = None" by (simp add: map_of_eq_None_iff)
  then have "add_entity g (snd kv) = Inr (g\<lparr>cg_entities := cg_entities g @ [kv]\<rparr>)"
    using Cons.prems(1) k by (simp add: add_entity_iff same_canonical_def update_fresh)
  moreover have "foldR (\<lambda>g e. bindR (Entity_from_dict e) (add_entity g)) (g\<lparr>cg_entities := cg_entities g @ [kv]\<rparr>)
      (map snd al) = Inr (g\<lparr>cg_entities := cg_entities g @ [kv]\<rparr>\<lparr>cg_entities := (cg_entities g @ [kv]) @ al\<rparr>)"
    using Cons.IH [of "g\<lparr>cg_entities := cg_entities g @ [kv]\<rparr>"] Cons.prems by (simp add: entity_ok_def)
  ultimately show ?case using Cons.prems(1) by simp
qed simp

lemma read_relations:
  assumes "list_all (\<lambda>kv. Relation_from_dict (snd kv) = Inr (snd kv) \<and> relation_ok g (snd kv)) al"
    and "keyed_by rl_id (cg_relations g @ al)"
  shows "foldR (\<lambda>g r. bindR (Relation_from_dict r) (add_relation False g)) g (map snd al)
         = Inr (g\<lparr>cg_relations := cg_relations g @ al\<rparr>)"
  using assms
proof (induction al arbitrary: g)
  case (Cons kv al)
  have k: "rl_id (snd kv) = fst kv" "fst kv \<notin> fst ` set (cg_relations g)"
    using Cons.prems(2) by (auto simp: keyed_by_def)
  then have "map_of (cg_relations g) (fst kv) = None" by (simp add: map_of_eq_None_iff)
  then have "add_relation False g (snd kv) = Inr (g\<lparr>cg_relations := cg_relations g @ [kv]\<rparr>)"
    using Cons.prems(1) k by (simp add: add_relation_iff same_canonical_def update_fresh)
  moreover have "foldR (\<lambda>g r. bindR (Relation_from_dict r) (add_relation False g))
      (g\<lparr>cg_relations := cg_relations g @ [kv]\<rparr>) (map snd al)
      = Inr (g\<lparr>cg_relations := cg_relations g @ [kv]\<rparr>\<lparr>cg_relations := (cg_relations g @ [kv]) @ al\<rparr>)"
    using Cons.IH [of "g\<lparr>cg_relations := cg_relations g @ [kv]\<rparr>"] Cons.prems
    by (simp add: relation_ok_def has_entity_def)
  ultimately show ?case using Cons.prems(1) by simp
qed simp

lemma keyed_by_sorted: "keyed_by f (sort_key fst al) = keyed_by f al"
proof -
  have "distinct (map fst (sort_key fst al)) = distinct (map fst al)"
    by (metis mset_eq_imp_distinct_iff mset_map mset_sort)
  then show ?thesis by (simp add: keyed_by_def list_all_iff)
qed

lemma map_of_sorted: "distinct (map fst al) \<Longrightarrow> map_of (sort_key fst al) = map_of al"
proof -
  assume d: "distinct (map fst al)"
  then have "distinct (map fst (sort_key fst al))"
    by (metis mset_eq_imp_distinct_iff mset_map mset_sort)
  then have "map_of (sort_key fst al) k = Some v \<longleftrightarrow> map_of al k = Some v" for k v
    using d by simp
  then show "map_of (sort_key fst al) = map_of al" by (metis option.exhaust ext)
qed

lemma from_dict_content:
  assumes "CanonicalGraph_init g = Inr g" and "graph_wf g"
    and "list_all (\<lambda>kv. Entity_from_dict (snd kv) = Inr (snd kv)) (cg_entities g)"
    and "list_all (\<lambda>kv. Relation_from_dict (snd kv) = Inr (snd kv)) (cg_relations g)"
  shows "CanonicalGraph_from_dict (graph_content g)
    = Inr (g\<lparr>cg_entities := sort_key fst (cg_entities g), cg_relations := sort_key fst (cg_relations g)\<rparr>)"
proof -
  let ?e = "empty_graph (cg_snapshot_id g) (cg_metadata g) (cg_schema_version g)"
  let ?es = "sort_key fst (cg_entities g)" and ?rs = "sort_key fst (cg_relations g)"
  have "CanonicalGraph_init ?e = Inr ?e"
    using assms(1) by (simp add: CanonicalGraph_init_def empty_graph_def checks_iff)
  moreover have "foldR (\<lambda>g e. bindR (Entity_from_dict e) (add_entity g)) ?e (map snd ?es)
      = Inr (?e\<lparr>cg_entities := cg_entities ?e @ ?es\<rparr>)"
    using assms(2,3) by (intro read_entities)
      (auto simp: empty_graph_def keyed_by_sorted graph_wf_def list_all_iff entity_ok_def)
  moreover have "foldR (\<lambda>g r. bindR (Relation_from_dict r) (add_relation False g))
      (?e\<lparr>cg_entities := ?es\<rparr>) (map snd ?rs)
      = Inr (?e\<lparr>cg_entities := ?es\<rparr>\<lparr>cg_relations := cg_relations (?e\<lparr>cg_entities := ?es\<rparr>) @ ?rs\<rparr>)"
    using assms(2,4) by (intro read_relations)
      (auto simp: empty_graph_def keyed_by_sorted graph_wf_def list_all_iff relation_ok_def
        has_entity_def map_of_sorted keyed_by_def simp del: map_of_eq_Some_iff)
  ultimately show ?thesis
    by (simp add: CanonicalGraph_from_dict_def graph_content_def empty_graph_def)
qed


lemma count_kinds_lookup:
  "map_of (count_kinds ks) k = (if k \<in> set ks then Some (count_list ks k) else None)"
proof (induction ks arbitrary: k rule: rev_induct)
  case (snoc x ks)
  have "count_kinds (ks @ [x]) = AList.update x (case map_of (count_kinds ks) x of None \<Rightarrow> 1 | Some n \<Rightarrow> n + 1)
      (count_kinds ks)" by (simp add: count_kinds_def)
  moreover have "map_of (count_kinds ks) x = (if x \<in> set ks then Some (count_list ks x) else None)"
    by (rule snoc.IH)
  ultimately show ?case by (simp add: snoc.IH update_conv')
qed (simp add: count_kinds_def)

lemma count_kinds_distinct: "distinct (map fst (count_kinds ks))"
  by (induction ks rule: rev_induct) (simp_all add: count_kinds_def distinct_update)

text \<open>C32: \<open>stats\<close> counts what \<open>by_kind\<close> lists: each kind that occurs is counted with the
  length of its list, and no other kind appears.\<close>

theorem stats_count_by_kind:
  assumes "stats g = Inr st"
  shows "map_of (gs_entity_kinds st) k = (if by_kind g k = [] then None else Some (length (by_kind g k)))
    \<and> gs_entities st = length (cg_entities g) \<and> sorted (map fst (gs_entity_kinds st))"
proof -
  let ?ks = "map (en_kind \<circ> snd) (cg_entities g)"
  have st: "gs_entity_kinds st = sort_key fst (count_kinds ?ks)" "gs_entities st = length (cg_entities g)"
    using assms by (auto simp: stats_def mapr_Inr_iff)
  have len: "length (by_kind g k) = count_list ?ks k"
    by (simp add: by_kind_def count_list_eq_length_filter filter_map comp_def eq_commute)
  have "by_kind g k = [] \<longleftrightarrow> k \<notin> set ?ks"
    using len by (metis count_notin count_list_0_iff length_0_conv)
  then show ?thesis
    by (simp only: st map_of_sorted [OF count_kinds_distinct] count_kinds_lookup len) simp
qed

section \<open>A concrete graph\<close>

definition witness_entity :: "string \<Rightarrow> Entity" where
  "witness_entity i =
     \<lparr>en_kind = ''hls.function'', en_name = ''f'', en_snapshot_id = ''s'', en_id = i,
      en_qualified_name = None, en_authority = ''static_fact'', en_stage = ''source'', en_attrs = [],
      en_anchors = [], en_aliases = [], en_completeness = ''complete''\<rparr>"

definition witness_relation :: Relation where
  "witness_relation =
     \<lparr>rl_src = ''a'', rl_dst = ''b'', rl_kind = ''hls.calls'', rl_snapshot_id = ''s'', rl_id = ''r'',
      rl_authority = ''static_fact'', rl_stage = ''source'', rl_attrs = [], rl_anchors = [],
      rl_mapping_kind = None, rl_completeness = ''complete''\<rparr>"

definition witness_graph :: CanonicalGraph where
  "witness_graph =
     \<lparr>cg_snapshot_id = ''s'', cg_entities = [(''b'', witness_entity ''b''), (''a'', witness_entity ''a'')],
      cg_relations = [(''r'', witness_relation)], cg_metadata = [], cg_schema_version = ''0.3.0''\<rparr>"

lemma witness_graph_wf: "graph_wf witness_graph"
  by (simp add: witness_graph_def witness_entity_def witness_relation_def graph_wf_def keyed_by_def
      entity_ok_def relation_ok_def has_entity_def NON_FACT_AUTHORITIES_def)

lemma witness_graph_init: "CanonicalGraph_init witness_graph = Inr witness_graph"
  by (simp add: CanonicalGraph_init_def witness_graph_def SUPPORTED_GRAPH_SCHEMA_VERSIONS_def
      SCHEMA_VERSION_def checks_eval)

lemma witness_entity_fixed: "i \<noteq> [] \<Longrightarrow> Entity_from_dict (witness_entity i) = Inr (witness_entity i)"
  by (simp add: Entity_from_dict_def Entity_init_def witness_entity_def checks_eval require_namespaced_def
      namespaced_eval enum_value_def require_fact_authority_def default_id_def default_id_n_def AuthorityClass_def
      Completeness_def NON_FACT_AUTHORITIES_def)

theorem traverse_is_the_ball_witness:
  "en_id ` {witness_entity ''a'', witness_entity ''b''}
   = {w. \<exists>m \<le> nat 1. (linked witness_graph ''both'' [] ^^ m) ''a'' w}"
proof -
  have "traverse witness_graph ''a'' 1 ''both'' []
      = Inr ([witness_entity ''a'', witness_entity ''b''], [witness_relation])"
    by code_simp
  from traverse_is_the_ball [OF witness_graph_wf this] show ?thesis by simp
qed

lemma witness_relation_fixed: "Relation_from_dict witness_relation = Inr witness_relation"
  by (simp add: Relation_from_dict_def Relation_init_def witness_relation_def checks_eval require_namespaced_def
      namespaced_eval enum_value_def require_fact_authority_def default_id_def default_id_n_def
      AuthorityClass_def Completeness_def NON_FACT_AUTHORITIES_def)

theorem traverse_returns_witness:
  "\<exists>es rs. traverse witness_graph ''a'' 2 ''out'' [''hls.calls''] = Inr (es, rs)"
  by (rule traverse_returns [OF witness_graph_wf]) (simp_all add: has_entity_def witness_graph_def)



theorem stats_count_by_kind_witness:
  "\<exists>st. stats witness_graph = Inr st \<and> map_of (gs_entity_kinds st) ''hls.function'' = Some 2"
proof -
  have "is_ok (to_dict witness_graph)" by code_simp
  then obtain d where d: "to_dict witness_graph = Inr d" by (auto simp: is_ok_iff)
  have "is_ok (bindR (to_dict witness_graph) canonical_json)" by code_simp
  then obtain t where "canonical_json d = Inr t" by (auto simp: is_ok_iff d)
  then have "graph_hash witness_graph = Inr (sha256_hex t)"
    by (simp add: graph_hash_def stable_hash_def d)
  then obtain st where st: "stats witness_graph = Inr st" by (auto simp: stats_def mapr_def)
  have "length (by_kind witness_graph ''hls.function'') = 2" "by_kind witness_graph ''hls.function'' \<noteq> []"
    by code_simp+
  with stats_count_by_kind [OF st, of "''hls.function''"] st show ?thesis by auto
qed

end
