(* ===== verification/PyEq.thy ===== *)
theory PyEq
  imports ModelBase
begin

text \<open>
  Comparison of Python values and functions that return \<open>str | None\<close>.

  \<open>py_eq\<close> is \<open>==\<close>: numbers compare by value across \<open>bool\<close>, \<open>int\<close> and \<open>float\<close>, NaN
  is unequal to everything, sequences compare by type and item, dicts and sets without
  regard to order.  \<open>hashable\<close> says whether a value can be looked up in a set; the lookup
  of any other value raises \<open>TypeError\<close>.  A \<open>verdict\<close> is the result of a checking
  function: an exception, \<open>Some reason\<close>, or \<open>None\<close>.
\<close>

section \<open>Equality\<close>

fun number_of :: "pyval \<Rightarrow> rat option" where
  "number_of (PBool b) = Some (if b then 1 else 0)"
| "number_of v = num_val v"

fun key_number :: "pykey \<Rightarrow> int option" where
  "key_number (KInt i) = Some i"
| "key_number (KBool b) = Some (if b then 1 else 0)"
| "key_number _ = None"

definition key_eq :: "pykey \<Rightarrow> pykey \<Rightarrow> bool" where
  "key_eq j k \<longleftrightarrow> j = k \<or> key_number j \<noteq> None \<and> key_number j = key_number k"

fun py_eq :: "pyval \<Rightarrow> pyval \<Rightarrow> bool" where
  "py_eq PNone v = (v = PNone)"
| "py_eq (PStr s) v = (v = PStr s)"
| "py_eq (PFloat (FInf b)) v = (v = PFloat (FInf b))"
| "py_eq (PFloat FNan) v = False"
| "py_eq (PFloat (FFin n m e)) v = (number_of v = Some (fin_val n m e))"
| "py_eq (PInt i) v = (number_of v = Some (of_int i))"
| "py_eq (PBool b) v = (number_of v = Some (if b then 1 else 0))"
| "py_eq (PList xs) v = (case v of PList ys \<Rightarrow> list_all2 py_eq xs ys | _ \<Rightarrow> False)"
| "py_eq (PTuple xs) v = (case v of PTuple ys \<Rightarrow> list_all2 py_eq xs ys | _ \<Rightarrow> False)"
| "py_eq (PSet xs) v =
     (case v of PSet ys \<Rightarrow> length xs = length ys \<and> list_all (\<lambda>x. list_ex (py_eq x) ys) xs | _ \<Rightarrow> False)"
| "py_eq (PDict kvs) v =
     (case v of
        PDict lws \<Rightarrow> length kvs = length lws
          \<and> list_all (\<lambda>kv. list_ex (\<lambda>lw. key_eq (fst kv) (fst lw) \<and> py_eq (snd kv) (snd lw)) lws) kvs
      | _ \<Rightarrow> False)"
| "py_eq (PObj kvs) v =
     (case v of
        PObj lws \<Rightarrow> list_all2 (\<lambda>kv lw. fst kv = fst lw \<and> py_eq (snd kv) (snd lw)) kvs lws
      | _ \<Rightarrow> False)"

fun hashable :: "pyval \<Rightarrow> bool" where
  "hashable (PList _) = False"
| "hashable (PSet _) = False"
| "hashable (PDict _) = False"
| "hashable (PTuple xs) = list_all hashable xs"
| "hashable _ = True"

text \<open>\<open>v in {strings}\<close>.\<close>

definition in_strings :: "pyval \<Rightarrow> string list \<Rightarrow> bool res" where
  "in_strings v ss =
     (if hashable v then Inr (is_str v \<and> str_of v \<in> set ss) else Inl (TypeError ''unhashable type''))"

section \<open>Verdicts\<close>

type_synonym verdict = "string option res"

fun verdicts :: "verdict list \<Rightarrow> verdict" where
  "verdicts [] = Inr None"
| "verdicts (v # vs) = (case v of Inr None \<Rightarrow> verdicts vs | _ \<Rightarrow> v)"

definition blame :: "bool \<Rightarrow> string \<Rightarrow> verdict" where
  "blame c msg = Inr (err_if c msg)"

named_theorems verdict_iff

lemma verdicts_Nil_iff [verdict_iff]: "verdicts [] = Inr None"
  by simp

lemma verdicts_Cons_iff [verdict_iff]:
  "verdicts (v # vs) = Inr None \<longleftrightarrow> v = Inr None \<and> verdicts vs = Inr None"
  by (simp split: sum.split option.split)

lemma blame_iff [verdict_iff]: "blame c msg = Inr None \<longleftrightarrow> \<not> c"
  by (simp add: blame_def err_if_def)

declare verdicts.simps(2) [simp del]

lemmas verdict_eval = verdicts.simps(2) blame_def err_if_def

text \<open>\<open>except (KeyError, TypeError, ValueError)\<close>, subclasses included.\<close>

fun lookup_or_value_error :: "py_exn \<Rightarrow> bool" where
  "lookup_or_value_error (OverflowError _) = False"
| "lookup_or_value_error (StoreError _) = False"
| "lookup_or_value_error (IntegrityError _) = False"
| "lookup_or_value_error _ = True"

section \<open>Lemmas\<close>

lemma py_eq_str [simp]: "py_eq v (PStr s) \<longleftrightarrow> v = PStr s"
proof (cases v)
  case (PFloat f)
  then show ?thesis by (cases f) simp_all
qed auto

lemma py_eq_None [simp]: "py_eq v PNone \<longleftrightarrow> v = PNone"
proof (cases v)
  case (PFloat f)
  then show ?thesis by (cases f) simp_all
qed simp_all

lemma in_strings_True [res_iff]: "in_strings v ss = Inr b \<longleftrightarrow> hashable v \<and> (b \<longleftrightarrow> (\<exists>s \<in> set ss. v = PStr s))"
  by (cases v) (auto simp: in_strings_def)

end
