(* ===== verification/Evidence_Policy.thy ===== *)
theory Evidence_Policy
  imports Model_Run PyEq
begin

text \<open>
  The compatibility policy for run-backed tool evidence (\<open>hlsgraph/evidence_policy.py\<close>):
  which runs may claim tool truth, which typed reports support an observation of which
  stage, and the check that an execution attestation closes over its run, snapshot,
  manifest and artifacts.  The functions return a reason or \<open>None\<close>; they are verdicts
  here, the reason being the static part of the message.
\<close>

section \<open>Values of the contracts\<close>

definition GateResult_val :: "GateResult \<Rightarrow> pyval" where
  "GateResult_val g = PObj
     [(''kind'', PStr (gr_kind g)), (''status'', PStr (gr_status g)),
      (''evidence_ids'', str_list (gr_evidence_ids g)), (''reason'', opt_str (gr_reason g))]"

definition ToolRun_val :: "ToolRun \<Rightarrow> pyval" where
  "ToolRun_val r = PObj
     [(''snapshot_id'', PStr (tr_snapshot_id r)), (''stage'', PStr (tr_stage r)),
      (''backend'', PStr (tr_backend r)), (''request_hash'', PStr (tr_request_hash r)),
      (''id'', PStr (tr_id r)), (''toolchain_id'', opt_str (tr_toolchain_id r)),
      (''status'', PStr (tr_status r)), (''command'', str_list (tr_command r)),
      (''working_directory'', opt_str (tr_working_directory r)),
      (''environment_hash'', opt_str (tr_environment_hash r)),
      (''input_artifact_ids'', str_list (tr_input_artifact_ids r)),
      (''output_artifact_ids'', str_list (tr_output_artifact_ids r)),
      (''diagnostics'', str_list (tr_diagnostics r)), (''gates'', PList (map GateResult_val (tr_gates r))),
      (''failure_class'', PStr (tr_failure_class r)), (''exit_code'', tr_exit_code r),
      (''attempt'', tr_attempt r), (''started_at'', tr_started_at r), (''finished_at'', tr_finished_at r),
      (''elapsed_s'', tr_elapsed_s r), (''message'', tr_message r), (''metadata'', PDict (tr_metadata r))]"

definition ExecutionAttestation_val :: "ExecutionAttestation \<Rightarrow> pyval" where
  "ExecutionAttestation_val a = PObj
     [(''run_id'', PStr (xa_run_id a)), (''snapshot_id'', PStr (xa_snapshot_id a)),
      (''stage'', PStr (xa_stage a)), (''runner_identity'', PStr (xa_runner_identity a)),
      (''runner_authority'', PStr (xa_runner_authority a)),
      (''runner_fingerprint'', PStr (xa_runner_fingerprint a)),
      (''request_hash'', PStr (xa_request_hash a)), (''run_payload_hash'', PStr (xa_run_payload_hash a)),
      (''manifest_hash'', PStr (xa_manifest_hash a)), (''build_hash'', PStr (xa_build_hash a)),
      (''target_hash'', PStr (xa_target_hash a)), (''constraint_hash'', PStr (xa_constraint_hash a)),
      (''toolchain_hash'', PStr (xa_toolchain_hash a)), (''toolchain_id'', PStr (xa_toolchain_id a)),
      (''declared_outputs'', PTuple (map ExecutionDeclaredOutput_val (xa_declared_outputs a))),
      (''outputs'', PTuple (map ExecutionOutputAttestation_val (xa_outputs a))),
      (''protocol_version'', PStr (xa_protocol_version a)), (''validator'', PStr (xa_validator a)),
      (''id'', PStr (xa_id a))]"

text \<open>\<open>stable_hash(json_ready(v))\<close>.\<close>

definition payload_hash :: "pyval \<Rightarrow> string res" where
  "payload_hash v = bindR (json_ready v) (\<lambda>j. stable_hash (of_json j))"

section \<open>Runs that may claim tool truth\<close>

definition REAL_TOOL_RUN_BACKENDS :: "string list" where
  "REAL_TOOL_RUN_BACKENDS = [''runner.local'', ''runner.ssh'']"

definition REAL_TOOL_RUN_AUTHORITIES :: "string list" where
  "REAL_TOOL_RUN_AUTHORITIES = [''tool_observation'', ''verification_evidence'', ''physical_measurement'']"

definition run_claims_tool_truth :: "ToolRun \<Rightarrow> bool" where
  "run_claims_tool_truth r = (dget (tr_metadata r) ''tool_truth'' = PBool True)"

definition real_tool_run_claim_error :: "ToolRun \<Rightarrow> string option" where
  "real_tool_run_claim_error r =
     (let m = tr_metadata r in first_some
       [err_if (tr_stage r = ''index'') ''index runs cannot claim external tool truth'',
        err_if (tr_status r \<notin> {''succeeded'', ''failed''})
          ''real-tool truth requires a freshly executed succeeded/failed run'',
        err_if (casefold (tr_backend r) \<notin> set REAL_TOOL_RUN_BACKENDS)
          ''backend is not an approved real-tool backend'',
        err_if (casefold (str_of (dget m ''authority'')) \<notin> set REAL_TOOL_RUN_AUTHORITIES)
          ''run authority is not a real-tool evidence authority'',
        err_if (dget m ''fresh_execution'' \<noteq> PBool True) ''run does not attest a fresh execution'',
        err_if (dget m ''fresh_tool_truth'' \<noteq> PBool True) ''run does not attest fresh tool truth'',
        err_if (dget m ''tool_truth'' \<noteq> PBool True) ''run does not claim tool truth''])"

definition clean_exit :: "pyval \<Rightarrow> bool" where
  "clean_exit v = (v = PNone \<or> py_eq v (PInt 0))"

definition successful_fresh_tool_run_error :: "ToolRun \<Rightarrow> string option" where
  "successful_fresh_tool_run_error r = first_some
     [real_tool_run_claim_error r,
      err_if (tr_status r \<noteq> ''succeeded'') ''run status is not succeeded'',
      err_if (tr_failure_class r \<noteq> ''none'' \<or> \<not> clean_exit (tr_exit_code r))
        ''run has a failure classification or non-zero exit code'']"

definition stage_command :: "ProjectManifest \<Rightarrow> string \<Rightarrow> pyval list res" where
  "stage_command m stage =
     (case map_of (pm_stage_commands m) stage of None \<Rightarrow> Inl (KeyError stage) | Some c \<Rightarrow> Inr c)"

definition tool_run_manifest_identity_error :: "ToolRun \<Rightarrow> ProjectManifest \<Rightarrow> string option" where
  "tool_run_manifest_identity_error r m =
     (case bindR (toolchain_for_stage m (tr_stage r)) (\<lambda>t. mapr (Pair t) (stage_command m (tr_stage r))) of
        Inl _ \<Rightarrow> Some ''stage is not declared by the immutable snapshot manifest''
      | Inr (t, command) \<Rightarrow>
          err_if (tr_toolchain_id r \<noteq> Some (tc_id t) \<or> tr_environment_hash r \<noteq> tc_environment_hash t
                  \<or> map PStr (tr_command r) \<noteq> command \<or> tr_working_directory r \<noteq> Some ''.'')
            ''execution identity does not match the immutable snapshot manifest'')"

text \<open>The payload of the run as JSON, its id cleared, read back by \<open>ToolRun.from_dict\<close>.\<close>

definition rebuilt_run :: "iso_parser \<Rightarrow> ToolRun \<Rightarrow> json \<Rightarrow> ToolRun res" where
  "rebuilt_run parse_iso r metadata =
     ToolRun_from_dict parse_iso (r\<lparr>tr_id := [], tr_metadata := dict_items (of_json metadata)\<rparr>)"

definition tool_run_stable_id_error :: "iso_parser \<Rightarrow> ToolRun \<Rightarrow> verdict" where
  "tool_run_stable_id_error parse_iso r =
     bindR (json_ready (ToolRun_val r)) (\<lambda>_.
     bindR (json_ready (PDict (tr_metadata r))) (\<lambda>metadata.
     case rebuilt_run parse_iso r metadata of
       Inr expected \<Rightarrow> blame (tr_id r \<noteq> tr_id expected) ''run stable ID does not match''
     | Inl e \<Rightarrow> (if lookup_or_value_error e
                then Inr (Some ''run payload cannot be canonically reconstructed: '') else Inl e)))"

section \<open>Execution attestations\<close>

definition EXECUTION_ATTESTATION_PROTOCOL :: string where
  "EXECUTION_ATTESTATION_PROTOCOL = ''hlsgraph.execution_attestation.v1''"

definition EXECUTION_ATTESTATION_VALIDATOR :: string where
  "EXECUTION_ATTESTATION_VALIDATOR = ''hlsgraph.stage_orchestrator.v1''"

definition EXECUTION_RECEIPT_CONTRACT :: string where
  "EXECUTION_RECEIPT_CONTRACT = ''hlsgraph.execution_commit_receipt.v1''"

definition EXECUTION_RECEIPT_VALIDATOR :: string where
  "EXECUTION_RECEIPT_VALIDATOR = ''hlsgraph.ledger.execution_attestation.v1''"

definition DEFAULT_MAX_OUTPUT_BYTES :: pyval where
  "DEFAULT_MAX_OUTPUT_BYTES = PInt (256 * 1024 * 1024)"

definition max_bytes_of :: "ToolOutputSpec \<Rightarrow> pyval" where
  "max_bytes_of s =
     (if dhas (os_metadata s) ''max_bytes'' then dget (os_metadata s) ''max_bytes'' else DEFAULT_MAX_OUTPUT_BYTES)"

definition stage_outputs_of :: "ProjectManifest \<Rightarrow> string \<Rightarrow> ToolOutputSpec list" where
  "stage_outputs_of m stage = (case map_of (pm_stage_outputs m) stage of None \<Rightarrow> [] | Some xs \<Rightarrow> xs)"

definition declared_output_of :: "ToolOutputSpec \<Rightarrow> ExecutionDeclaredOutput res" where
  "declared_output_of s = ExecutionDeclaredOutput_init
     \<lparr>xd_path = os_path s, xd_kind = os_kind s, xd_required = PBool (os_required s),
      xd_max_bytes = max_bytes_of s\<rparr>"

definition declared_output_contracts :: "ProjectManifest \<Rightarrow> string \<Rightarrow> ExecutionDeclaredOutput list res" where
  "declared_output_contracts m stage =
     mapr (sort_key xd_path) (mapR declared_output_of (stage_outputs_of m stage))"

text \<open>\<open>{item.path: item for item in declarations}\<close>; a later item replaces an earlier one.\<close>

definition declaration_at :: "ExecutionDeclaredOutput list \<Rightarrow> string \<Rightarrow> ExecutionDeclaredOutput option" where
  "declaration_at ds path = map_of (rev (map (\<lambda>d. (xd_path d, d)) ds)) path"

definition exceeds_limit :: "int \<Rightarrow> pyval \<Rightarrow> bool" where
  "exceeds_limit bytes limit = (case limit of PInt n \<Rightarrow> n < bytes | _ \<Rightarrow> False)"

record ManifestHashes =
  mh_manifest :: string
  mh_build :: string
  mh_target :: string
  mh_constraint :: string
  mh_toolchain :: string

definition toolchain_payload :: "ProjectManifest \<Rightarrow> pyval" where
  "toolchain_payload m = pdict
     [(''toolchains'', PList (map ToolchainContext_val (pm_toolchains m))),
      (''stage_toolchains'', pdict (map (\<lambda>st. (fst st, PStr (snd st))) (pm_stage_toolchains m)))]"

definition manifest_hashes :: "ProjectManifest \<Rightarrow> ManifestHashes res" where
  "manifest_hashes m =
     bindR (bindR (ProjectManifest_identity_payload m) stable_hash) (\<lambda>manifest.
     bindR (stable_hash (BuildContext_val (pm_build m))) (\<lambda>build.
     bindR (stable_hash (TargetProfile_val (pm_target m))) (\<lambda>target.
     bindR (stable_hash (ConstraintSet_val (pm_constraints m))) (\<lambda>constraint.
     bindR (stable_hash (toolchain_payload m)) (\<lambda>toolchain.
     Inr \<lparr>mh_manifest = manifest, mh_build = build, mh_target = target, mh_constraint = constraint,
          mh_toolchain = toolchain\<rparr>)))))"

text \<open>One artifact of the run against the declarations of its stage: the reason it is not
  an output of the run, or what the attestation must say about it.\<close>

definition attested_output ::
  "ToolRun \<Rightarrow> ExecutionDeclaredOutput list \<Rightarrow> ArtifactRef \<Rightarrow> (string + ExecutionOutputAttestation) res" where
  "attested_output r ds a =
     (let path = dget (ar_metadata a) ''declared_output_path'' in
      case (if is_str path then declaration_at ds (str_of path) else None) of
        None \<Rightarrow> Inr (Inl ''execution output artifact lacks a declared output path'')
      | Some d \<Rightarrow>
          (if ar_kind a \<noteq> xd_kind d
           then Inr (Inl ''execution output artifact has the wrong declared kind'')
           else if ar_producer_run_id a \<noteq> Some (tr_id r)
           then Inr (Inl ''execution output artifact has the wrong producer run'')
           else if exceeds_limit (ar_size a) (xd_max_bytes d)
           then Inr (Inl ''execution output artifact exceeds its declared limit'')
           else mapr Inr (ExecutionOutputAttestation_init
             \<lparr>xo_artifact_id = ar_id a, xo_path = str_of path, xo_kind = ar_kind a,
              xo_sha256 = ar_sha256 a, xo_size = PInt (ar_size a)\<rparr>)))"

fun attested_outputs ::
  "ToolRun \<Rightarrow> ExecutionDeclaredOutput list \<Rightarrow> ArtifactRef list \<Rightarrow> (string + ExecutionOutputAttestation list) res" where
  "attested_outputs r ds [] = Inr (Inr [])"
| "attested_outputs r ds (a # as) =
     bindR (attested_output r ds a) (\<lambda>v. case v of
       Inl reason \<Rightarrow> Inr (Inl reason)
     | Inr out \<Rightarrow> bindR (attested_outputs r ds as) (\<lambda>w. case w of
         Inl reason \<Rightarrow> Inr (Inl reason)
       | Inr outs \<Rightarrow> Inr (Inr (out # outs))))"

text \<open>The runner's own list of staged files.  The code sorts it by \<open>str(path)\<close>; an entry
  whose path is not a string equals no expected entry wherever it is sorted.\<close>

definition staged_entry :: "ExecutionOutputAttestation \<Rightarrow> pyval" where
  "staged_entry out = pdict
     [(''path'', PStr (xo_path out)), (''size'', xo_size out), (''sha256'', PStr (xo_sha256 out))]"

definition staged_manifest_check :: "ToolRun \<Rightarrow> ExecutionOutputAttestation list \<Rightarrow> verdict" where
  "staged_manifest_check r outputs =
     (let staged = dget (tr_metadata r) ''staged_output_manifest'' in verdicts
       [blame (\<not> is_list staged \<or> \<not> list_all is_dict (items_of staged))
          ''execution runner staged manifest is missing or malformed'',
        blame (\<not> list_all2 py_eq
                  (sort_key (\<lambda>item. str_of (dget (dict_items item) ''path'')) (items_of staged))
                  (map staged_entry outputs))
          ''execution attestation outputs differ from the runner staged manifest''])"

definition missing_required :: "ExecutionDeclaredOutput list \<Rightarrow> ExecutionOutputAttestation list \<Rightarrow> string list" where
  "missing_required ds outputs =
     sort (map xd_path (filter (\<lambda>d. truthy (xd_required d) \<and> xd_path d \<notin> xo_path ` set outputs) ds))"

definition outputs_check ::
  "ExecutionAttestation \<Rightarrow> ToolRun \<Rightarrow> ExecutionDeclaredOutput list \<Rightarrow> ArtifactRef list \<Rightarrow> verdict" where
  "outputs_check x r ds artifacts =
     bindR (attested_outputs r ds artifacts) (\<lambda>v. case v of
       Inl reason \<Rightarrow> Inr (Some reason)
     | Inr expected \<Rightarrow>
         (let outputs = sort_key xo_path expected in verdicts
           [blame (xa_outputs x \<noteq> outputs)
              ''execution attestation output identities differ from committed artifacts'',
            blame (tr_status r = ''succeeded'' \<and> missing_required ds expected \<noteq> [])
              ''successful execution omits required declared outputs'',
            staged_manifest_check r outputs]))"

definition run_identity_check :: "ExecutionAttestation \<Rightarrow> ToolRun \<Rightarrow> DesignSnapshot \<Rightarrow> string \<Rightarrow> verdict" where
  "run_identity_check x r s run_hash = verdicts (map
     (\<lambda>ok. blame (\<not> ok) ''execution attestation does not match its run/snapshot'')
     [xa_run_id x = tr_id r, xa_snapshot_id x = tr_snapshot_id r, xa_stage x = tr_stage r,
      xa_runner_identity x = tr_backend r,
      PStr (xa_runner_fingerprint x) = dget (tr_metadata r) ''runner_fingerprint'',
      xa_request_hash x = tr_request_hash r, xa_run_payload_hash x = run_hash,
      xa_manifest_hash x = ds_manifest_hash s, xa_build_hash x = ds_build_hash s,
      xa_target_hash x = ds_target_hash s, xa_constraint_hash x = ds_constraint_hash s,
      xa_toolchain_hash x = ds_toolchain_hash s, Some (xa_toolchain_id x) = tr_toolchain_id r])"

definition builtin_authority :: "string \<Rightarrow> string option" where
  "builtin_authority backend =
     (if casefold backend = ''runner.local'' then Some ''hlsgraph.runner_authority.builtin_local.v1''
      else if casefold backend = ''runner.ssh'' then Some ''hlsgraph.runner_authority.builtin_ssh.v1''
      else None)"

definition manifest_hash_check :: "ExecutionAttestation \<Rightarrow> ManifestHashes \<Rightarrow> verdict" where
  "manifest_hash_check x h = verdicts (map
     (\<lambda>ok. blame (\<not> ok) ''execution attestation does not match the immutable manifest'')
     [xa_manifest_hash x = mh_manifest h, xa_build_hash x = mh_build h, xa_target_hash x = mh_target h,
      xa_constraint_hash x = mh_constraint h, xa_toolchain_hash x = mh_toolchain h])"

definition execution_attestation_error ::
  "iso_parser \<Rightarrow> ExecutionAttestation \<Rightarrow> ToolRun \<Rightarrow> DesignSnapshot \<Rightarrow> ProjectManifest \<Rightarrow> ArtifactRef list
    \<Rightarrow> verdict" where
  "execution_attestation_error parse_iso x r s m artifacts = verdicts
     [blame (xa_protocol_version x \<noteq> EXECUTION_ATTESTATION_PROTOCOL)
        ''execution attestation uses an unsupported protocol'',
      blame (xa_validator x \<noteq> EXECUTION_ATTESTATION_VALIDATOR)
        ''execution attestation was not validated by StageOrchestrator'',
      tool_run_stable_id_error parse_iso r,
      bindR (payload_hash (ToolRun_val r)) (run_identity_check x r s),
      blame (Some (xa_runner_authority x) \<noteq> builtin_authority (tr_backend r)
             \<and> \<not> starts_with ''hlsgraph.runner_authority.plugin.'' (xa_runner_authority x))
        ''execution attestation runner authority is not a trusted built-in/plugin origin'',
      blame (ds_id s \<noteq> tr_snapshot_id r \<or> ds_project_id s \<noteq> pm_project_id m)
        ''execution attestation snapshot/project identity is inconsistent'',
      bindR (manifest_hashes m) (manifest_hash_check x),
      Inr (tool_run_manifest_identity_error r m),
      bindR (declared_output_contracts m (tr_stage r)) (\<lambda>ds. verdicts
        [blame (xa_declared_outputs x \<noteq> ds)
           ''execution attestation output declarations differ from the manifest'',
         blame (has_duplicates (map ar_id artifacts))
           ''execution attestation artifacts contain duplicate IDs'',
         blame (set (map ar_id artifacts) \<noteq> set (tr_output_artifact_ids r))
           ''execution attestation artifacts differ from run output_artifact_ids'',
         outputs_check x r ds artifacts])]"

definition execution_commit_receipt_error ::
  "ExecutionCommitReceipt \<Rightarrow> ExecutionAttestation \<Rightarrow> ToolRun \<Rightarrow> verdict" where
  "execution_commit_receipt_error c x r = verdicts
     [blame (xr_receipt_contract c \<noteq> EXECUTION_RECEIPT_CONTRACT)
        ''execution commit receipt uses an unsupported contract'',
      blame (xr_validator c \<noteq> EXECUTION_RECEIPT_VALIDATOR)
        ''execution commit receipt uses an unsupported validator'',
      bindR (payload_hash (ToolRun_val r)) (\<lambda>run_hash.
      bindR (payload_hash (ExecutionAttestation_val x)) (\<lambda>attestation_hash.
      verdicts (map (\<lambda>ok. blame (\<not> ok) ''execution commit receipt does not match its attestation/run'')
        [xr_attestation_id c = xa_id x, xr_run_id c = tr_id r, xr_snapshot_id c = tr_snapshot_id r,
         xr_run_payload_hash c = run_hash, xr_attestation_payload_hash c = attestation_hash])))]"

section \<open>The stage policy\<close>

definition TOOL_EVIDENCE_POLICY_VERSION :: string where
  "TOOL_EVIDENCE_POLICY_VERSION = ''hlsgraph.tool-evidence.v0.1''"

definition TOOL_EVIDENCE_EXTENSION_METADATA_KEY :: string where
  "TOOL_EVIDENCE_EXTENSION_METADATA_KEY = ''hlsgraph_evidence''"

record ToolEvidenceStagePolicy =
  sp_run_stages :: "string list"
  sp_intrinsic :: "string list"
  sp_stage_declared :: "string list"

definition VIVADO_STAGE_DECLARED_KINDS :: "string list" where
  "VIVADO_STAGE_DECLARED_KINDS =
     [''amd.vivado.timing_summary'', ''amd.vivado.utilization'', ''amd.vivado.physical_summary'',
      ''amd.vivado.qor_summary'']"

definition stage_policy :: "string list \<Rightarrow> string list \<Rightarrow> string list \<Rightarrow> ToolEvidenceStagePolicy" where
  "stage_policy stages intrinsic declared =
     \<lparr>sp_run_stages = stages, sp_intrinsic = intrinsic, sp_stage_declared = declared\<rparr>"

definition TOOL_EVIDENCE_STAGE_POLICY :: "(string \<times> ToolEvidenceStagePolicy) list" where
  "TOOL_EVIDENCE_STAGE_POLICY =
     [(''csim'', stage_policy [''csim''] [''amd.vitis.csim_result''] []),
      (''schedule'', stage_policy [''csynth'', ''schedule'']
         [''amd.vitis.csynth_xml'', ''amd.vitis.csynth_report'', ''amd.vitis.schedule_json'',
          ''amd.vitis.directive_status''] []),
      (''csynth'', stage_policy [''csynth''] [''amd.vitis.csynth_xml'', ''amd.vitis.csynth_report''] []),
      (''cosim'', stage_policy [''cosim'', ''rtl_cosim'']
         [''amd.vitis.cosim_rpt'', ''amd.vitis.cosim_report'', ''amd.vitis.dataflow_profile''] []),
      (''rtl_cosim'', stage_policy [''cosim'', ''rtl_cosim'']
         [''amd.vitis.cosim_rpt'', ''amd.vitis.cosim_report'', ''amd.vitis.dataflow_profile''] []),
      (''rtl'', stage_policy [''rtl'', ''rtl_export''] [''amd.vitis.rtl_export'', ''amd.vitis.rtl_report''] []),
      (''post_synth'', stage_policy [''post_synth'', ''vivado_synth''] [] VIVADO_STAGE_DECLARED_KINDS),
      (''post_place'', stage_policy [''post_place''] [] VIVADO_STAGE_DECLARED_KINDS),
      (''post_route'', stage_policy [''post_route'']
         [''amd.vivado.post_route_timing'', ''amd.vivado.post_route_utilization'']
         VIVADO_STAGE_DECLARED_KINDS),
      (''hardware_runtime'', stage_policy [''hardware_runtime''] [] [])]"

definition KNOWN_POLICY_ARTIFACT_KINDS :: "string list" where
  "KNOWN_POLICY_ARTIFACT_KINDS =
     concat (map (\<lambda>p. sp_intrinsic (snd p) @ sp_stage_declared (snd p)) TOOL_EVIDENCE_STAGE_POLICY)"

definition extension_semantics :: "string \<Rightarrow> string list option" where
  "extension_semantics authority = map_of
     [(''tool_observation'', [''tool_report'']), (''verification_evidence'', [''verification_report'']),
      (''physical_measurement'', [''physical_measurement''])] authority"

definition extension_contract_error :: "ArtifactRef \<Rightarrow> Observation \<Rightarrow> ToolRun \<Rightarrow> verdict" where
  "extension_contract_error a ob r =
     (let contract = dget (ar_metadata a) TOOL_EVIDENCE_EXTENSION_METADATA_KEY; c = dict_items contract in
      if \<not> is_dict contract then Inr (Some ''artifact kind is not typed by the policy and lacks metadata'')
      else case extension_semantics (ob_authority ob) of
        None \<Rightarrow> Inr (Some ''authority is not eligible for tool evidence'')
      | Some semantics \<Rightarrow> verdicts
          [blame (dget c ''policy_version'' \<noteq> PStr TOOL_EVIDENCE_POLICY_VERSION)
             ''artifact kind has an unsupported extension policy version'',
           blame (dget c ''observation_stage'' \<noteq> PStr (ob_stage ob))
             ''artifact kind does not explicitly bind observation stage'',
           blame (dget c ''run_stage'' \<noteq> PStr (tr_stage r))
             ''artifact kind does not explicitly bind producer stage'',
           bindR (in_strings (dget c ''semantics'') semantics)
             (\<lambda>ok. blame (\<not> ok) ''artifact kind has incompatible evidence semantics for authority'')])"

definition artifact_evidence_error ::
  "ToolEvidenceStagePolicy \<Rightarrow> Observation \<Rightarrow> ToolRun \<Rightarrow> ArtifactRef \<Rightarrow> verdict" where
  "artifact_evidence_error p ob r a =
     (let declared_stage = dget (ar_metadata a) ''stage'' in
      if ar_kind a \<in> set (sp_intrinsic p)
      then blame (declared_stage \<noteq> PNone \<and> declared_stage \<noteq> PStr (ob_stage ob))
             ''artifact kind declares contradictory stage''
      else if ar_kind a \<in> set (sp_stage_declared p)
      then blame (declared_stage \<noteq> PStr (ob_stage ob)) ''generic artifact kind must explicitly declare stage''
      else if ar_kind a \<in> set KNOWN_POLICY_ARTIFACT_KINDS
      then Inr (Some ''artifact kind is typed for another evidence stage and cannot be reinterpreted by an extension contract'')
      else extension_contract_error a ob r)"

definition tool_evidence_compatibility_error ::
  "Observation \<Rightarrow> ToolRun \<Rightarrow> ArtifactRef list \<Rightarrow> verdict" where
  "tool_evidence_compatibility_error ob r artifacts =
     (case map_of TOOL_EVIDENCE_STAGE_POLICY (ob_stage ob) of
        None \<Rightarrow> Inr (Some ''observation stage is not eligible for tool truth'')
      | Some p \<Rightarrow> verdicts
          ([blame (tr_stage r \<notin> set (sp_run_stages p)) ''observation stage is incompatible with producer stage'',
            blame (ob_authority ob = ''physical_measurement'' \<and> ob_stage ob \<noteq> ''hardware_runtime'')
              ''physical_measurement authority requires hardware_runtime stage'',
            blame (artifacts = []) ''tool evidence must cite at least one typed report artifact'']
           @ map (artifact_evidence_error p ob r) artifacts))"

section \<open>Lemmas\<close>

lemma verdicts_append_iff [verdict_iff]:
  "verdicts (xs @ ys) = Inr None \<longleftrightarrow> verdicts xs = Inr None \<and> verdicts ys = Inr None"
  by (induction xs) (auto simp: verdict_iff)

lemma verdicts_map_iff [verdict_iff]:
  "verdicts (map f xs) = Inr None \<longleftrightarrow> (\<forall>x \<in> set xs. f x = Inr None)"
  by (induction xs) (auto simp: verdict_iff)

lemma extension_contract_iff:
  "extension_contract_error a ob r = Inr None \<longleftrightarrow>
     (\<exists>c semantics. dget (ar_metadata a) TOOL_EVIDENCE_EXTENSION_METADATA_KEY = PDict c
        \<and> extension_semantics (ob_authority ob) = Some semantics
        \<and> dget c ''policy_version'' = PStr TOOL_EVIDENCE_POLICY_VERSION
        \<and> dget c ''observation_stage'' = PStr (ob_stage ob) \<and> dget c ''run_stage'' = PStr (tr_stage r)
        \<and> (\<exists>x \<in> set semantics. dget c ''semantics'' = PStr x))"
  by (cases "dget (ar_metadata a) TOOL_EVIDENCE_EXTENSION_METADATA_KEY")
    (auto simp: extension_contract_error_def verdict_iff res_iff split: option.splits)

lemma artifact_evidence_iff:
  "artifact_evidence_error p ob r a = Inr None \<longleftrightarrow>
     (if ar_kind a \<in> set (sp_intrinsic p)
      then dget (ar_metadata a) ''stage'' \<in> {PNone, PStr (ob_stage ob)}
      else if ar_kind a \<in> set (sp_stage_declared p) then dget (ar_metadata a) ''stage'' = PStr (ob_stage ob)
      else ar_kind a \<notin> set KNOWN_POLICY_ARTIFACT_KINDS \<and> extension_contract_error a ob r = Inr None)"
  by (auto simp: artifact_evidence_error_def verdict_iff)

lemma tool_evidence_iff:
  "tool_evidence_compatibility_error ob r artifacts = Inr None \<longleftrightarrow>
     (\<exists>p. map_of TOOL_EVIDENCE_STAGE_POLICY (ob_stage ob) = Some p \<and> tr_stage r \<in> set (sp_run_stages p)
        \<and> (ob_authority ob = ''physical_measurement'' \<longrightarrow> ob_stage ob = ''hardware_runtime'')
        \<and> artifacts \<noteq> [] \<and> (\<forall>a \<in> set artifacts. artifact_evidence_error p ob r a = Inr None))"
  by (auto simp: tool_evidence_compatibility_error_def verdict_iff split: option.splits)

lemma case_reason_iff:
  "(case v of Inl e \<Rightarrow> Inr (Inl e) | Inr y \<Rightarrow> f y) = Inr (Inr z) \<longleftrightarrow> (\<exists>y. v = Inr y \<and> f y = Inr (Inr z))"
  "(case v of Inl e \<Rightarrow> Inr (Some e) | Inr y \<Rightarrow> g y) = Inr None \<longleftrightarrow> (\<exists>y. v = Inr y \<and> g y = Inr None)"
  by (cases v; simp)+

lemma attested_outputs_iff:
  "attested_outputs r ds as = Inr (Inr outs) \<longleftrightarrow>
     list_all2 (\<lambda>a out. attested_output r ds a = Inr (Inr out)) as outs"
proof (induction as arbitrary: outs)
  case Nil
  show ?case by auto
next
  case (Cons a as)
  show ?case
    by (cases outs) (auto simp: res_iff Cons.IH[symmetric] case_reason_iff)
qed

lemma declaration_at_member: "declaration_at ds path = Some d \<Longrightarrow> d \<in> set ds \<and> xd_path d = path"
  by (auto simp: declaration_at_def dest!: map_of_SomeD)

lemma attested_output_iff:
  "attested_output r ds a = Inr (Inr out) \<longleftrightarrow>
     (\<exists>path d. dget (ar_metadata a) ''declared_output_path'' = PStr path \<and> declaration_at ds path = Some d
        \<and> ar_kind a = xd_kind d \<and> ar_producer_run_id a = Some (tr_id r)
        \<and> \<not> exceeds_limit (ar_size a) (xd_max_bytes d)
        \<and> ExecutionOutputAttestation_init
            \<lparr>xo_artifact_id = ar_id a, xo_path = path, xo_kind = ar_kind a, xo_sha256 = ar_sha256 a,
             xo_size = PInt (ar_size a)\<rparr> = Inr out)"
  by (cases "dget (ar_metadata a) ''declared_output_path''")
    (auto simp: attested_output_def res_iff split: option.splits)

lemma execution_attestation_iff:
  "execution_attestation_error parse_iso x r s m artifacts = Inr None \<longleftrightarrow>
     xa_protocol_version x = EXECUTION_ATTESTATION_PROTOCOL \<and> xa_validator x = EXECUTION_ATTESTATION_VALIDATOR
     \<and> tool_run_stable_id_error parse_iso r = Inr None
     \<and> (\<exists>h. payload_hash (ToolRun_val r) = Inr h \<and> run_identity_check x r s h = Inr None)
     \<and> (Some (xa_runner_authority x) = builtin_authority (tr_backend r)
        \<or> starts_with ''hlsgraph.runner_authority.plugin.'' (xa_runner_authority x))
     \<and> ds_id s = tr_snapshot_id r \<and> ds_project_id s = pm_project_id m
     \<and> (\<exists>h. manifest_hashes m = Inr h \<and> manifest_hash_check x h = Inr None)
     \<and> tool_run_manifest_identity_error r m = None
     \<and> declared_output_contracts m (tr_stage r) = Inr (xa_declared_outputs x)
     \<and> distinct (map ar_id artifacts) \<and> set (map ar_id artifacts) = set (tr_output_artifact_ids r)
     \<and> outputs_check x r (xa_declared_outputs x) artifacts = Inr None"
  by (auto simp: execution_attestation_error_def verdict_iff res_iff)

lemma outputs_check_iff:
  "outputs_check x r ds artifacts = Inr None \<longleftrightarrow>
     (\<exists>outs. list_all2 (\<lambda>a out. attested_output r ds a = Inr (Inr out)) artifacts outs
        \<and> xa_outputs x = sort_key xo_path outs
        \<and> (tr_status r = ''succeeded'' \<longrightarrow> missing_required ds outs = [])
        \<and> staged_manifest_check r (xa_outputs x) = Inr None)"
  by (auto simp: outputs_check_def verdict_iff res_iff attested_outputs_iff[symmetric] Let_def case_reason_iff)

lemma missing_required_iff:
  "missing_required ds outs = [] \<longleftrightarrow>
     (\<forall>d \<in> set ds. truthy (xd_required d) \<longrightarrow> xd_path d \<in> xo_path ` set outs)"
  by (auto simp: missing_required_def filter_empty_conv simp flip: set_empty)

lemma list_all2_map_eq: "list_all2 P xs ys \<Longrightarrow> (\<And>x y. P x y \<Longrightarrow> f x = g y) \<Longrightarrow> map f xs = map g ys"
  by (induction rule: list_all2_induct) auto

lemma list_all2_member2: "list_all2 P xs ys \<Longrightarrow> y \<in> set ys \<Longrightarrow> \<exists>x \<in> set xs. P x y"
  by (induction rule: list_all2_induct) auto

lemma tool_run_manifest_identity_iff:
  "tool_run_manifest_identity_error r m = None \<longleftrightarrow>
     (\<exists>t. toolchain_for_stage m (tr_stage r) = Inr t
        \<and> map_of (pm_stage_commands m) (tr_stage r) = Some (map PStr (tr_command r))
        \<and> tr_toolchain_id r = Some (tc_id t) \<and> tr_environment_hash r = tc_environment_hash t
        \<and> tr_working_directory r = Some ''.'')"
  by (cases "toolchain_for_stage m (tr_stage r)"; cases "map_of (pm_stage_commands m) (tr_stage r)")
    (auto simp: tool_run_manifest_identity_error_def stage_command_def err_if_def)

section \<open>What the policy guarantees\<close>


lemma supported_stage:
  assumes "tool_evidence_compatibility_error ob r artifacts = Inr None"
  shows "\<exists>sp \<in> set TOOL_EVIDENCE_STAGE_POLICY. fst sp = ob_stage ob \<and> tr_stage r \<in> set (sp_run_stages (snd sp))"
  using assms unfolding tool_evidence_iff by (metis map_of_SomeD fst_conv snd_conv)

text \<open>One run supports observations of one phase only: two observations accepted on
  reports of the same run have the same stage, or the two spellings of HLS synthesis
  (\<open>schedule\<close>, \<open>csynth\<close>) or of co-simulation (\<open>cosim\<close>, \<open>rtl_cosim\<close>).\<close>

theorem one_run_supports_one_phase:
  assumes "tool_evidence_compatibility_error ob r artifacts = Inr None"
    and "tool_evidence_compatibility_error ob' r artifacts' = Inr None"
  shows "ob_stage ob = ob_stage ob' \<or> {ob_stage ob, ob_stage ob'} = {''schedule'', ''csynth''}
    \<or> {ob_stage ob, ob_stage ob'} = {''cosim'', ''rtl_cosim''}"
proof -
  define table where "table = map (\<lambda>sp. (fst sp, sp_run_stages (snd sp))) TOOL_EVIDENCE_STAGE_POLICY"
  have stages: "\<exists>sp \<in> set table. fst sp = ob_stage ob \<and> tr_stage r \<in> set (snd sp)"
    "\<exists>sp \<in> set table. fst sp = ob_stage ob' \<and> tr_stage r \<in> set (snd sp)"
    using assms [THEN supported_stage] by (simp_all add: table_def)
  have "list_all (\<lambda>(s, rs). list_all (\<lambda>(s', rs'). list_ex (\<lambda>x. x \<in> set rs') rs \<longrightarrow>
      s = s' \<or> (s, s') \<in> {(''schedule'', ''csynth''), (''csynth'', ''schedule''),
                          (''cosim'', ''rtl_cosim''), (''rtl_cosim'', ''cosim'')}) table) table"
    unfolding table_def by code_simp
  with stages show ?thesis
    by (fastforce simp: list_all_iff list_ex_iff)
qed


text \<open>C37: a defect of the extension contract check: a contract that is complete except that its
  \<open>semantics\<close> is a list makes the check raise \<open>TypeError\<close> instead of returning a reason.\<close>

theorem unhashable_semantics_raise:
  assumes "dget (ar_metadata a) ''hlsgraph_evidence'' = PDict c"
    and "dget c ''policy_version'' = PStr TOOL_EVIDENCE_POLICY_VERSION"
    and "dget c ''observation_stage'' = PStr (ob_stage ob)" and "dget c ''run_stage'' = PStr (tr_stage r)"
    and "dget c ''semantics'' = PList xs" and "extension_semantics (ob_authority ob) = Some semantics"
  shows "extension_contract_error a ob r = Inl (TypeError ''unhashable type'')"
  using assms by (simp add: extension_contract_error_def verdict_eval in_strings_def
      TOOL_EVIDENCE_EXTENSION_METADATA_KEY_def)

section \<open>Concrete evidence\<close>

definition witness_observation :: "string \<Rightarrow> Observation" where
  "witness_observation stage =
     \<lparr>ob_snapshot_id = ''s1'', ob_subject_id = ''e1'', ob_predicate = ''csynth.latency'', ob_value = PInt 3,
      ob_stage = stage, ob_authority = ''tool_observation'', ob_id = ''ob1'', ob_unit = None,
      ob_run_id = Some ''a1'', ob_artifact_id = Some ''a1'', ob_anchor = None, ob_completeness = ''complete'',
      ob_workload_id = None, ob_observed_at = None, ob_metadata = [], ob_source = None\<rparr>"

definition witness_report :: ArtifactRef where
  "witness_report = witness_artifact\<lparr>ar_kind := ''amd.vitis.csynth_xml''\<rparr>"

definition witness_synthesis_run :: ToolRun where
  "witness_synthesis_run = witness_guard_run\<lparr>tr_stage := ''csynth''\<rparr>"

lemma witness_evidence:
  "tool_evidence_compatibility_error (witness_observation ''schedule'') witness_synthesis_run [witness_report] = Inr None"
  "tool_evidence_compatibility_error (witness_observation ''csynth'') witness_synthesis_run [witness_report] = Inr None"
  by code_simp+


theorem one_run_supports_one_phase_witness:
  "{''schedule'', ''csynth''} = {ob_stage (witness_observation ''schedule''), ob_stage (witness_observation ''csynth'')}"
  using one_run_supports_one_phase [OF witness_evidence] by (simp add: witness_observation_def)

text \<open>A successful run of a stage of \<open>witness_manifest\<close> with its declared output, if it has one.\<close>

definition witness_stages :: "string set" where
  "witness_stages = {''csim'', ''post_route'', ''lint''}"

lemma witness_stage_names: "''csim'' \<in> witness_stages" "''post_route'' \<in> witness_stages" "''lint'' \<in> witness_stages"
  by (simp_all add: witness_stages_def)

lemma witness_stage_cases: "st \<in> witness_stages \<Longrightarrow> P ''csim'' \<Longrightarrow> P ''post_route'' \<Longrightarrow> P ''lint'' \<Longrightarrow> P st"
  by (auto simp: witness_stages_def)

definition witness_path :: "string \<Rightarrow> string" where
  "witness_path st = (if st = ''csim'' then ''o'' else ''q'')"

definition witness_kind :: "string \<Rightarrow> string" where
  "witness_kind st = (if st = ''csim'' then ''amd.vitis.csim_result'' else ''amd.vivado.post_route_timing'')"

definition witness_output :: "string \<Rightarrow> string \<Rightarrow> ArtifactRef" where
  "witness_output st i = witness_artifact
     \<lparr>ar_kind := witness_kind st, ar_producer_run_id := Some i, ar_retention := ''managed'',
      ar_metadata := [(KStr ''declared_output_path'', PStr (witness_path st))]\<rparr>"

definition witness_outputs :: "string \<Rightarrow> string \<Rightarrow> ArtifactRef list" where
  "witness_outputs st i = (if st = ''lint'' then [] else [witness_output st i])"

definition witness_declared :: "string \<Rightarrow> ExecutionDeclaredOutput list" where
  "witness_declared st = (if st = ''lint'' then [] else
     [\<lparr>xd_path = witness_path st, xd_kind = witness_kind st, xd_required = PBool True,
       xd_max_bytes = PInt (256 * 1024 * 1024)\<rparr>])"

definition witness_attested_outputs :: "string \<Rightarrow> ExecutionOutputAttestation list" where
  "witness_attested_outputs st = (if st = ''lint'' then [] else
     [\<lparr>xo_artifact_id = ''a1'', xo_path = witness_path st, xo_kind = witness_kind st,
       xo_sha256 = replicate 64 (CHR ''a''), xo_size = PInt 1\<rparr>])"

definition witness_stage_run :: "string \<Rightarrow> string \<Rightarrow> ToolRun" where
  "witness_stage_run st i =
     \<lparr>tr_snapshot_id = ''s1'', tr_stage = st, tr_backend = ''runner.local'',
      tr_request_hash = replicate 64 (CHR ''a''), tr_id = i, tr_toolchain_id = Some ''y'',
      tr_status = ''succeeded'', tr_command = [''r''], tr_working_directory = Some ''.'',
      tr_environment_hash = None, tr_input_artifact_ids = [],
      tr_output_artifact_ids = map xo_artifact_id (witness_attested_outputs st),
      tr_diagnostics = [], tr_gates = [], tr_failure_class = ''none'', tr_exit_code = PInt 0,
      tr_attempt = PInt 1, tr_started_at = PNone, tr_finished_at = PNone, tr_elapsed_s = PNone,
      tr_message = PNone,
      tr_metadata =
        [(KStr ''runner_fingerprint'', PStr (replicate 64 (CHR ''a''))),
         (KStr ''authority'', PStr ''tool_observation''),
         (KStr ''fresh_execution'', PBool True), (KStr ''fresh_tool_truth'', PBool True),
         (KStr ''tool_truth'', PBool True),
         (KStr ''staged_output_manifest'', PList (map staged_entry (witness_attested_outputs st)))]\<rparr>"

definition witness_attestation :: "ToolRun \<Rightarrow> string \<Rightarrow> ManifestHashes \<Rightarrow> ExecutionAttestation" where
  "witness_attestation r run_hash h =
     \<lparr>xa_run_id = tr_id r, xa_snapshot_id = ''s1'', xa_stage = tr_stage r, xa_runner_identity = ''runner.local'',
      xa_runner_authority = ''hlsgraph.runner_authority.builtin_local.v1'',
      xa_runner_fingerprint = replicate 64 (CHR ''a''), xa_request_hash = replicate 64 (CHR ''a''),
      xa_run_payload_hash = run_hash, xa_manifest_hash = mh_manifest h, xa_build_hash = mh_build h,
      xa_target_hash = mh_target h, xa_constraint_hash = mh_constraint h,
      xa_toolchain_hash = mh_toolchain h, xa_toolchain_id = ''y'',
      xa_declared_outputs = witness_declared (tr_stage r),
      xa_outputs = witness_attested_outputs (tr_stage r),
      xa_protocol_version = EXECUTION_ATTESTATION_PROTOCOL, xa_validator = EXECUTION_ATTESTATION_VALIDATOR,
      xa_id = ''x1''\<rparr>"

definition witness_snapshot :: "ManifestHashes \<Rightarrow> DesignSnapshot" where
  "witness_snapshot h =
     \<lparr>ds_project_id = ''p'', ds_manifest_hash = mh_manifest h, ds_artifact_hashes = [],
      ds_build_hash = mh_build h, ds_target_hash = mh_target h, ds_constraint_hash = mh_constraint h,
      ds_toolchain_hash = mh_toolchain h, ds_extraction_hash = [], ds_id = ''s1'',
      ds_parent_snapshot_id = None, ds_action_id = None, ds_created_at = [], ds_metadata = []\<rparr>"

lemma witness_manifest_rebuilt: "ProjectManifest_rebuild witness_manifest = Inr witness_manifest"
proof -
  have paths: "safe_relative_path ''o'' = Inr ''o''" "safe_relative_path ''q'' = Inr ''q''" by code_simp+
  have names: "is_namespaced ''amd.vitis.csim_result''" "is_namespaced ''amd.vivado.post_route_timing''" "is_namespaced ''r''"
    by code_simp+
  have parts: "BuildContext_init (pm_build witness_manifest) = Inr (pm_build witness_manifest)"
    "TargetProfile_init (pm_target witness_manifest) = Inr (pm_target witness_manifest)" by code_simp+
  have c: "ConstraintSet_init (pm_constraints witness_manifest) = Inr (pm_constraints witness_manifest)"
    and t: "mapR ToolchainContext_init (pm_toolchains witness_manifest) = Inr (pm_toolchains witness_manifest)"
    by code_simp+
  have o: "mapR (\<lambda>so. mapr (Pair (fst so)) (mapR ToolOutputSpec_init (snd so))) (pm_stage_outputs witness_manifest)
      = Inr (pm_stage_outputs witness_manifest)"
    by (simp add: witness_manifest_def ToolOutputSpec_init_def paths names witness_names checks_eval require_namespaced_def
        enum_value_def AccessPolicy_def reject_embedded_body_fields.simps)
  have u: "bc_translation_units (pm_build witness_manifest) = []" "tp_clocks (pm_target witness_manifest) = []"
    "(pm_build witness_manifest)\<lparr>bc_translation_units := []\<rparr> = pm_build witness_manifest"
    "(pm_target witness_manifest)\<lparr>tp_clocks := []\<rparr> = pm_target witness_manifest"
    by (simp_all add: witness_manifest_def)
  show ?thesis
    by (simp add: ProjectManifest_rebuild_def u parts c t o witness_manifest_built)
qed

lemma witness_manifest_hashes: "\<exists>h. manifest_hashes witness_manifest = Inr h"
proof -
  have payload: "\<exists>v t. ProjectManifest_identity_payload witness_manifest = Inr v \<and> canonical_json v = Inr t"
    by (simp add: ProjectManifest_identity_payload_def witness_manifest_rebuilt,
        simp add: witness_manifest_def BuildContext_val_def TargetProfile_val_def ConstraintSet_val_def ToolchainContext_val_def
        ToolOutputSpec_val_def opt_str_def str_list_def canonical_json_def pdict_def dict_of_pairs_def)
  have ok: "is_ok (canonical_json (BuildContext_val (pm_build witness_manifest)))"
    "is_ok (canonical_json (TargetProfile_val (pm_target witness_manifest)))"
    "is_ok (canonical_json (ConstraintSet_val (pm_constraints witness_manifest)))"
    "is_ok (canonical_json (toolchain_payload witness_manifest))"
    by (simp_all add: is_ok_iff witness_manifest_def BuildContext_val_def TargetProfile_val_def ConstraintSet_val_def
        ToolchainContext_val_def toolchain_payload_def opt_str_def str_list_def canonical_json_def pdict_def dict_of_pairs_def)
  from payload obtain v t where "ProjectManifest_identity_payload witness_manifest = Inr v" "canonical_json v = Inr t" by blast
  with ok show ?thesis by (auto simp: manifest_hashes_def stable_hash_def is_ok_iff)
qed

lemma witness_stage_run_id:
  assumes "st \<in> witness_stages"
  shows "\<exists>i. tool_run_stable_id_error (\<lambda>_. None) (witness_stage_run st i) = Inr None"
proof -
  let ?r = "witness_stage_run st []"
  let ?m = "tr_metadata ?r"
  have ok: "ToolRun_shape (\<lambda>_. None) ?r = Inr ()" "guard_contract ?r = Inr ()"
    "reject_embedded_body_fields (PDict ?m) = Inr ()" "mapR GateResult_init (tr_gates ?r) = Inr []"
    by (rule witness_stage_cases [OF assms]; code_simp)+
  have "is_ok (canonical_json (ToolRun_identity (?r\<lparr>tr_request_hash := lower (tr_request_hash ?r)\<rparr>)))"
    by (simp add: ToolRun_identity_def witness_stage_run_def is_ok_iff canonical_json_def pdict_def dict_of_pairs_def)
  then obtain t where "canonical_json (ToolRun_identity (?r\<lparr>tr_request_hash := lower (tr_request_hash ?r)\<rparr>)) = Inr t"
    by (auto simp: is_ok_iff)
  then obtain i where i: "default_id [] ''run'' (ToolRun_identity (?r\<lparr>tr_request_hash := lower (tr_request_hash ?r)\<rparr>)) = Inr i"
    by (auto simp: default_id_def default_id_n_def stable_id_n_def stable_hash_def)
  have gates: "?r\<lparr>tr_gates := []\<rparr> = ?r" "tr_id ?r = []" "tr_gates ?r = []"
    by (simp_all add: witness_stage_run_def)
  have "\<exists>e. ToolRun_init (\<lambda>_. None) ?r = Inr e \<and> tr_id e = i"
    unfolding ToolRun_init_iff gates using ok(1-3) i by simp
  then obtain e where e: "ToolRun_from_dict (\<lambda>_. None) ?r = Inr e" "tr_id e = i"
    using ok(4) gates by (auto simp: ToolRun_from_dict_def)
  have md: "\<exists>j. json_ready (PDict ?m) = Inr j \<and> dict_items (of_json j) = ?m"
    by (simp add: witness_stage_run_def witness_attested_outputs_def staged_entry_def pdict_def dict_of_pairs_def)
  then obtain j where j: "json_ready (PDict ?m) = Inr j" "dict_items (of_json j) = ?m" by blast
  have same: "tr_metadata (witness_stage_run st i) = ?m" "tr_id (witness_stage_run st i) = i"
    "(witness_stage_run st i)\<lparr>tr_id := [], tr_metadata := ?m\<rparr> = ?r"
    by (simp_all add: witness_stage_run_def)
  have "\<exists>j. json_ready (ToolRun_val (witness_stage_run st i)) = Inr j"
    by (simp add: ToolRun_val_def witness_stage_run_def witness_attested_outputs_def staged_entry_def opt_str_def
        str_list_def pdict_def dict_of_pairs_def)
  then have "tool_run_stable_id_error (\<lambda>_. None) (witness_stage_run st i) = Inr None"
    using e j same by (auto simp: tool_run_stable_id_error_def rebuilt_run_def blame_iff)
  then show ?thesis ..
qed

lemma witness_attested:
  assumes st: "st \<in> witness_stages" and i: "tool_run_stable_id_error (\<lambda>_. None) (witness_stage_run st i) = Inr None"
    and h: "manifest_hashes witness_manifest = Inr h" and rh: "payload_hash (ToolRun_val (witness_stage_run st i)) = Inr run_hash"
  shows "execution_attestation_error (\<lambda>_. None) (witness_attestation (witness_stage_run st i) run_hash h)
       (witness_stage_run st i) (witness_snapshot h) witness_manifest (witness_outputs st i) = Inr None"
proof -
  let ?r = "witness_stage_run st i" and ?x = "witness_attestation (witness_stage_run st i) run_hash h"
  have "run_identity_check ?x ?r (witness_snapshot h) run_hash = Inr None"
    by (simp add: run_identity_check_def verdict_iff witness_attestation_def witness_stage_run_def
        witness_snapshot_def dget_def)
  moreover have "manifest_hash_check ?x h = Inr None"
    by (simp add: manifest_hash_check_def verdict_iff witness_attestation_def)
  moreover have "declared_output_contracts witness_manifest st = Inr (xa_declared_outputs ?x)"
  proof -
    have "declared_output_contracts witness_manifest st = Inr (witness_declared st)"
      by (rule witness_stage_cases [OF st]; code_simp)
    then show ?thesis by (simp add: witness_attestation_def witness_stage_run_def)
  qed
  moreover have "tool_run_manifest_identity_error ?r witness_manifest = None"
  proof -
    have "\<exists>t. toolchain_for_stage witness_manifest st = Inr t \<and> tc_id t = ''y'' \<and> tc_environment_hash t = None"
      by (rule exI [of _ "pm_toolchains witness_manifest ! 1"], rule witness_stage_cases [OF st]; code_simp)
    moreover have "map_of (pm_stage_commands witness_manifest) st = Some [PStr ''r'']"
      by (rule witness_stage_cases [OF st]; code_simp)
    ultimately show ?thesis unfolding tool_run_manifest_identity_iff
      by (auto simp: witness_stage_run_def witness_manifest_def)
  qed
  moreover have "outputs_check ?x ?r (xa_declared_outputs ?x) (witness_outputs st i) = Inr None"
  proof -
    have init: "list_all (\<lambda>out. ExecutionOutputAttestation_init out = Inr out) (witness_attested_outputs st)"
      by (rule witness_stage_cases [OF st]; code_simp)
    have x: "xa_declared_outputs ?x = witness_declared st" "xa_outputs ?x = witness_attested_outputs st"
      by (simp_all add: witness_attestation_def witness_stage_run_def)
    have "list_all2 (\<lambda>a out. attested_output ?r (witness_declared st) a = Inr (Inr out)) (witness_outputs st i)
        (witness_attested_outputs st)"
      using init
      by (auto simp: attested_output_iff witness_outputs_def witness_attested_outputs_def witness_declared_def
          witness_output_def witness_artifact_def dget_def declaration_at_def exceeds_limit_def witness_stage_run_def)
    moreover have "staged_manifest_check ?r (witness_attested_outputs st) = Inr None"
      by (rule witness_stage_cases [OF st]; unfold staged_manifest_check_def Let_def witness_stage_run_def select_convs; code_simp)
    moreover have "sort_key xo_path (witness_attested_outputs st) = witness_attested_outputs st"
      "missing_required (witness_declared st) (witness_attested_outputs st) = []"
      by (rule witness_stage_cases [OF st]; code_simp)+
    ultimately show ?thesis unfolding outputs_check_iff x
      by (intro exI [of _ "witness_attested_outputs st"]) simp
  qed
  moreover have fields: "xa_protocol_version ?x = EXECUTION_ATTESTATION_PROTOCOL"
    "xa_validator ?x = EXECUTION_ATTESTATION_VALIDATOR"
    "Some (xa_runner_authority ?x) = builtin_authority (tr_backend ?r)"
    by (simp_all add: witness_attestation_def witness_stage_run_def builtin_authority_def, code_simp)
  moreover have "ds_id (witness_snapshot h) = tr_snapshot_id ?r"
    "ds_project_id (witness_snapshot h) = pm_project_id witness_manifest" "tr_stage ?r = st"
    "map ar_id (witness_outputs st i) = tr_output_artifact_ids ?r" "distinct (tr_output_artifact_ids ?r)"
    by (simp_all add: witness_snapshot_def witness_stage_run_def witness_manifest_def witness_outputs_def
        witness_output_def witness_attested_outputs_def witness_artifact_def)
  ultimately show ?thesis
    unfolding execution_attestation_iff using i h rh by (intro conjI) auto
qed

lemma witness_stage_run_hash: "\<exists>run_hash. payload_hash (ToolRun_val (witness_stage_run st i)) = Inr run_hash"
proof -
  have "\<exists>j t. json_ready (ToolRun_val (witness_stage_run st i)) = Inr j \<and> canonical_json (of_json j) = Inr t"
    by (simp add: ToolRun_val_def witness_stage_run_def witness_attested_outputs_def staged_entry_def opt_str_def
        str_list_def pdict_def dict_of_pairs_def
        canonical_json_def)
  then show ?thesis by (auto simp: payload_hash_def stable_hash_def)
qed


definition witness_contract :: pydict where
  "witness_contract =
     [(KStr ''policy_version'', PStr TOOL_EVIDENCE_POLICY_VERSION), (KStr ''observation_stage'', PStr ''schedule''),
      (KStr ''run_stage'', PStr ''csynth''), (KStr ''semantics'', PList [PStr ''tool_report''])]"

theorem unhashable_semantics_raise_witness:
  "extension_contract_error
     (witness_report\<lparr>ar_kind := ''plugin.report'', ar_metadata := [(KStr ''hlsgraph_evidence'', PDict witness_contract)]\<rparr>)
     (witness_observation ''schedule'') witness_synthesis_run = Inl (TypeError ''unhashable type'')"
  by (rule unhashable_semantics_raise [where c = witness_contract and xs = "[PStr ''tool_report'']"
        and semantics = "[''tool_report'']"]) code_simp+

end
