(* ===== verification/Runner_Model.thy ===== *)
theory Runner_Model
  imports Evidence_Policy "HOL-Library.Product_Lexorder"
begin

text \<open>
  The runner protocol (\<open>hlsgraph/runner/core.py\<close>, \<open>hlsgraph/runner/staging.py\<close>): portable
  staging paths, resource guards and monitors with their results, runner inputs and
  declared outputs, and the tool run request with its cache key.  The value fields the code
  checks with \<open>isinstance\<close> are dynamic values.
\<close>

definition refuse :: "bool \<Rightarrow> string \<Rightarrow> unit res" where
  "refuse c msg = reject_with c (RunnerProtocolError msg)"

lemma refuse_iff [res_iff]: "refuse c msg = Inr u \<longleftrightarrow> \<not> c"
  by (simp add: refuse_def res_iff)

section \<open>Portable paths\<close>

definition WINDOWS_RESERVED :: "string list" where
  "WINDOWS_RESERVED =
     [''con'', ''prn'', ''aux'', ''nul''] @ map (\<lambda>i. ''com'' @ show_nat i) [1..<10]
     @ map (\<lambda>i. ''lpt'' @ show_nat i) [1..<10]"

definition nonportable_char :: "char \<Rightarrow> bool" where
  "nonportable_char c \<longleftrightarrow> code c < 32 \<or> c \<in> {CHR ''<'', CHR ''>'', CHR '':'', CHR 0x22, CHR ''|'', CHR ''?'', CHR ''*''}"

definition nonportable_component :: "string \<Rightarrow> bool" where
  "nonportable_component s \<longleftrightarrow>
     list_ex nonportable_char s \<or> ends_with '' '' s \<or> ends_with ''.'' s
     \<or> casefold (takeWhile (\<lambda>c. c \<noteq> CHR ''.'') s) \<in> set WINDOWS_RESERVED"

definition runner_relative_path :: "string \<Rightarrow> string res" where
  "runner_relative_path v =
     (case safe_relative_path v of
        Inl (ValueError msg) \<Rightarrow> Inl (StagingError msg)
      | Inl e \<Rightarrow> Inl e
      | Inr normalized \<Rightarrow>
          (if list_ex nonportable_component (split_on slash normalized)
           then Inl (StagingError ''contains a non-portable path component'') else Inr normalized))"

definition protocol_path :: "string \<Rightarrow> string res" where
  "protocol_path v =
     (case runner_relative_path v of Inl (StagingError msg) \<Rightarrow> Inl (RunnerProtocolError msg) | r \<Rightarrow> r)"

section \<open>Guards and monitors\<close>

text \<open>\<open>isinstance(v, (int, float))\<close>, not a \<open>bool\<close>, finite and positive.\<close>

fun positive_finite :: "string \<Rightarrow> pyval \<Rightarrow> unit res" where
  "positive_finite msg (PInt i) =
     (if float_overflows i then Inl (OverflowError ''int too large to convert to float'') else refuse (i \<le> 0) msg)"
| "positive_finite msg (PFloat (FFin neg m e)) = refuse (neg \<or> m = 0) msg"
| "positive_finite msg _ = refuse True msg"

definition argv_item :: "pyval \<Rightarrow> bool" where
  "argv_item v \<longleftrightarrow> is_str v \<and> str_of v \<noteq> [] \<and> \<not> has_nul (str_of v)"

text \<open>\<open>tuple(self.argv)\<close> of a sequence; a \<open>str\<close> is refused before.\<close>

definition argv_items :: "pyval \<Rightarrow> pyval list res" where
  "argv_items v =
     (case v of
        PStr _ \<Rightarrow> Inl (RunnerProtocolError ''argv must be a sequence, not a string'')
      | PList xs \<Rightarrow> Inr xs | PTuple xs \<Rightarrow> Inr xs | PSet xs \<Rightarrow> Inr xs
      | PDict kvs \<Rightarrow> Inr (map (\<lambda>kv. case fst kv of KStr s \<Rightarrow> PStr s | KInt i \<Rightarrow> PInt i | KBool b \<Rightarrow> PBool b | KNone \<Rightarrow> PNone) kvs)
      | _ \<Rightarrow> Inl (TypeError ''object is not iterable''))"

record ResourceGuard =
  rg_argv :: pyval
  rg_timeout_s :: pyval

definition ResourceGuard_init :: "ResourceGuard \<Rightarrow> ResourceGuard res" where
  "ResourceGuard_init g =
     bindR (argv_items (rg_argv g)) (\<lambda>xs.
     checks
       [refuse (xs = [] \<or> \<not> list_all argv_item xs) ''resource guard argv must be non-empty strings without NUL'',
        positive_finite ''resource guard timeout_s must be positive and finite'' (rg_timeout_s g)]
       (g\<lparr>rg_argv := PTuple xs\<rparr>))"

definition is_int :: "pyval \<Rightarrow> bool" where
  "is_int v = is_int_where (\<lambda>_. True) v"

record ResourceGuardResult =
  gs_checked :: pyval
  gs_passed :: pyval
  gs_exit_code :: pyval

definition ResourceGuardResult_init :: "ResourceGuardResult \<Rightarrow> ResourceGuardResult res" where
  "ResourceGuardResult_init g =
     (let checked = (gs_checked g = PBool True); passed = (gs_passed g = PBool True); exit = gs_exit_code g in
      checks
        [refuse (\<not> is_bool (gs_checked g) \<or> \<not> is_bool (gs_passed g)) ''resource guard checked/passed must be boolean'',
         refuse (passed \<and> \<not> checked) ''an unchecked resource guard cannot pass'',
         refuse (exit \<noteq> PNone \<and> \<not> is_int exit) ''resource guard exit_code must be an integer or None'',
         refuse (\<not> checked \<and> exit \<noteq> PNone) ''an unchecked resource guard cannot have an exit code'',
         refuse (passed \<and> exit \<noteq> PInt 0) ''a passing resource guard requires exit code zero'',
         refuse (checked \<and> \<not> passed \<and> exit = PInt 0) ''a rejected resource guard cannot have exit code zero''] g)"

definition resource_guard_metadata :: "ResourceGuardResult option \<Rightarrow> pydict" where
  "resource_guard_metadata r =
     [(KStr ''resource_guard_configured'', PBool (r \<noteq> None)),
      (KStr ''resource_guard_checked'', PBool (opt_any (\<lambda>g. gs_checked g = PBool True) r)),
      (KStr ''resource_guard_passed'', PBool (opt_any (\<lambda>g. gs_passed g = PBool True) r))]"

definition PROCESS_GROUP_PID_TOKEN :: string where
  "PROCESS_GROUP_PID_TOKEN = ''{process_group_pid}''"

record RuntimeResourceMonitor =
  rm_argv :: pyval
  rm_interval_s :: pyval
  rm_timeout_s :: pyval
  rm_resource_exit_codes :: "pyval list"

definition int_value :: "pyval \<Rightarrow> int" where
  "int_value v = (case v of PInt i \<Rightarrow> i | _ \<Rightarrow> 0)"

definition RuntimeResourceMonitor_init :: "RuntimeResourceMonitor \<Rightarrow> RuntimeResourceMonitor res" where
  "RuntimeResourceMonitor_init r =
     bindR (argv_items (rm_argv r)) (\<lambda>xs.
     checks
       [refuse (xs = [] \<or> \<not> list_all argv_item xs)
          ''runtime resource monitor argv must be non-empty strings without NUL'',
        refuse (count_list xs (PStr PROCESS_GROUP_PID_TOKEN) \<noteq> 1)
          ''runtime resource monitor argv must contain exactly one {process_group_pid} item'',
        positive_finite ''runtime resource monitor must be positive and finite'' (rm_interval_s r),
        positive_finite ''runtime resource monitor must be positive and finite'' (rm_timeout_s r),
        refuse (list_ex (\<lambda>c. \<not> is_int c \<or> c = PInt 0) (rm_resource_exit_codes r))
          ''runtime resource monitor resource_exit_codes must be non-zero integers'']
       (r\<lparr>rm_argv := PTuple xs,
          rm_resource_exit_codes := map PInt (sorted_set (map int_value (rm_resource_exit_codes r)))\<rparr>))"

definition argv_for_process_group :: "RuntimeResourceMonitor \<Rightarrow> pyval \<Rightarrow> pyval list res" where
  "argv_for_process_group r pid = checks
     [refuse (\<not> is_int_where (\<lambda>i. 0 < i) pid) ''tool process-group PID must be a positive integer'']
     (map (\<lambda>x. if x = PStr PROCESS_GROUP_PID_TOKEN then PStr (show_int (int_value pid)) else x)
        (items_of (rm_argv r)))"

definition failure_for_exit :: "RuntimeResourceMonitor \<Rightarrow> pyval \<Rightarrow> string" where
  "failure_for_exit r exit =
     (if exit \<in> set (rm_resource_exit_codes r) then ''resource'' else ''infra_resource_guard'')"

record RuntimeResourceMonitorResult =
  mr_checked :: pyval
  mr_passed :: pyval
  mr_triggered :: pyval
  mr_exit_code :: pyval
  mr_failure_class :: "string option"

definition RuntimeResourceMonitorResult_init ::
  "RuntimeResourceMonitorResult \<Rightarrow> RuntimeResourceMonitorResult res" where
  "RuntimeResourceMonitorResult_init r =
     (let checked = (mr_checked r = PBool True); passed = (mr_passed r = PBool True);
          triggered = (mr_triggered r = PBool True); exit = mr_exit_code r; failure = mr_failure_class r in
      checks
        [refuse (\<not> is_bool (mr_checked r) \<or> \<not> is_bool (mr_passed r) \<or> \<not> is_bool (mr_triggered r))
           ''runtime resource monitor checked/passed/triggered must be boolean'',
         refuse (passed \<and> (\<not> checked \<or> triggered))
           ''a passing runtime resource monitor must be checked and not triggered'',
         refuse (triggered \<and> (\<not> checked \<or> passed))
           ''a triggered runtime resource monitor must be checked and not pass'',
         refuse (exit \<noteq> PNone \<and> \<not> is_int exit) ''runtime resource monitor exit_code must be an integer or None'',
         refuse (\<not> checked \<and> exit \<noteq> PNone) ''an unchecked runtime resource monitor cannot have an exit code'',
         refuse (passed \<and> exit \<noteq> PInt 0) ''a passing runtime resource monitor requires exit code zero'',
         refuse (triggered \<and> exit = PInt 0) ''a triggered runtime resource monitor cannot have exit code zero'',
         refuse (opt_any (\<lambda>f. f \<notin> set FailureClass) failure) ''invalid runtime resource monitor failure_class'',
         (if triggered
          then refuse (failure \<notin> {Some ''infra_resource_guard'', Some ''infrastructure'', Some ''resource''})
                 ''triggered runtime monitor requires a trusted guard/resource failure class''
          else refuse (failure \<noteq> None) ''an untriggered runtime monitor cannot have a failure class'')] r)"

definition runtime_guard_metadata :: "RuntimeResourceMonitorResult option \<Rightarrow> pydict" where
  "runtime_guard_metadata r =
     [(KStr ''runtime_guard_configured'', PBool (r \<noteq> None)),
      (KStr ''runtime_guard_checked'', PBool (opt_any (\<lambda>m. mr_checked m = PBool True) r)),
      (KStr ''runtime_guard_passed'', PBool (opt_any (\<lambda>m. mr_passed m = PBool True) r)),
      (KStr ''runtime_guard_triggered'', PBool (opt_any (\<lambda>m. mr_triggered m = PBool True) r))]"

section \<open>Inputs, outputs and requests\<close>

record RunnerInput =
  ri_artifact_id :: string
  ri_source_path :: string
  ri_staged_path :: string
  ri_sha256 :: string
  ri_size :: pyval

definition RunnerInput_init :: "RunnerInput \<Rightarrow> RunnerInput res" where
  "RunnerInput_init i =
     bindR (refuse (ri_artifact_id i = []) ''runner input artifact_id is required'') (\<lambda>_.
     bindR (protocol_path (ri_source_path i)) (\<lambda>source.
     bindR (protocol_path (ri_staged_path i)) (\<lambda>staged.
     (let digest = casefold (ri_sha256 i) in
      checks
        [refuse (\<not> is_sha256_lower digest) ''runner input sha256 must contain 64 hexadecimal characters'',
         refuse (\<not> is_int_where (\<lambda>n. 0 \<le> n) (ri_size i)) ''runner input size must be a non-negative integer'']
        (i\<lparr>ri_source_path := source, ri_staged_path := staged, ri_sha256 := digest\<rparr>)))))"

definition RunnerInput_identity_payload :: "RunnerInput \<Rightarrow> pyval" where
  "RunnerInput_identity_payload i = pdict
     [(''artifact_id'', PStr (ri_artifact_id i)), (''source_path'', PStr (ri_source_path i)),
      (''staged_path'', PStr (ri_staged_path i)), (''sha256'', PStr (ri_sha256 i)), (''size'', ri_size i)]"

record DeclaredOutput =
  do_path :: string
  do_required :: pyval
  do_max_bytes :: pyval

definition DeclaredOutput_init :: "DeclaredOutput \<Rightarrow> DeclaredOutput res" where
  "DeclaredOutput_init d =
     bindR (protocol_path (do_path d)) (\<lambda>path.
     checks
       [refuse (\<not> is_bool (do_required d)) ''declared output required must be boolean'',
        refuse (\<not> is_int_where (\<lambda>n. 0 \<le> n) (do_max_bytes d)) ''declared output max_bytes must be non-negative'']
       (d\<lparr>do_path := path\<rparr>))"

definition DeclaredOutput_identity_payload :: "DeclaredOutput \<Rightarrow> pyval" where
  "DeclaredOutput_identity_payload d = pdict
     [(''path'', PStr (do_path d)), (''required'', do_required d), (''max_bytes'', do_max_bytes d)]"

text \<open>\<open>local_path\<close> is the absolute path the runner reports; \<open>Path.absolute\<close> is left to the OS.\<close>

record StagedOutput =
  so_path :: string
  so_local_path :: string
  so_size :: pyval
  so_sha256 :: string

definition StagedOutput_init :: "StagedOutput \<Rightarrow> StagedOutput res" where
  "StagedOutput_init s =
     bindR (protocol_path (so_path s)) (\<lambda>path.
     (let digest = casefold (so_sha256 s) in
      checks
        [refuse (\<not> is_int_where (\<lambda>n. 0 \<le> n) (so_size s)) ''staged output size must be non-negative'',
         refuse (\<not> is_sha256_lower digest) ''staged output sha256 must contain 64 hexadecimal characters'']
        (s\<lparr>so_path := path, so_sha256 := digest\<rparr>)))"

definition PROTOCOL_VERSION :: string where
  "PROTOCOL_VERSION = ''hlsgraph.runner.v2''"

definition RUNNER_MEASURED_METADATA_KEYS :: "string list" where
  "RUNNER_MEASURED_METADATA_KEYS =
     [''authority'', ''bootstrap_environment_hash'', ''execution_enabled'',
      ''expected_remote_environment_hash'', ''failure_type'', ''fresh_execution'',
      ''fresh_tool_truth'', ''inherited_environment_hash'', ''input_mismatch_ids'',
      ''input_validation_failed'', ''output_embedded'', ''remote_environment_verified'',
      ''remote_inputs_verified'', ''resource_guard_checked'', ''resource_guard_configured'',
      ''resource_guard_passed'', ''runtime_guard_checked'', ''runtime_guard_configured'',
      ''runtime_guard_passed'', ''runtime_guard_triggered'', ''runtime_guard_exit_code'',
      ''runtime_guard_failure_class'', ''runtime_guard_process_group_pid'', ''runtime_resource_guard'',
      ''runtime_resource_monitor'', ''remote_project_root'', ''replayed_from_run_id'',
      ''replayed_request_hash'', ''runner_fingerprint'', ''ssh_host'', ''stderr_bytes'',
      ''stderr_sha256'', ''snapshot_stale'', ''staged_output_manifest'', ''staging_isolated'',
      ''stdout_bytes'', ''stdout_sha256'', ''tool_truth'']"

record ToolRunRequest =
  rq_snapshot_id :: string
  rq_stage :: string
  rq_argv :: "pyval list"
  rq_working_directory :: string
  rq_environment :: "(string \<times> pyval) list"
  rq_environment_hash :: "string option"
  rq_toolchain_id :: "string option"
  rq_input_artifact_ids :: "string list"
  rq_inputs :: "RunnerInput list"
  rq_declared_outputs :: "DeclaredOutput list"
  rq_timeout_s :: pyval
  rq_nonzero_failure :: string
  rq_metadata :: pydict
  rq_protocol_version :: string

fun portable_identifier :: "string \<Rightarrow> bool" where
  "portable_identifier [] = False"
| "portable_identifier (c # cs) =
     ((is_alpha c \<or> c = CHR ''_'') \<and> list_all (\<lambda>d. is_alnum d \<or> d = CHR ''_'') cs)"

definition contains_path :: "string \<Rightarrow> string \<Rightarrow> bool" where
  "contains_path path other = starts_with (path @ ''/'') other"

fun nested_paths :: "string list \<Rightarrow> bool" where
  "nested_paths [] = False"
| "nested_paths (p # ps) = (list_ex (\<lambda>q. contains_path p q \<or> contains_path q p) ps \<or> nested_paths ps)"

definition measured_keys :: "pydict \<Rightarrow> string list" where
  "measured_keys m =
     sort (filter (\<lambda>k. k \<in> set RUNNER_MEASURED_METADATA_KEYS)
       (concat (map (\<lambda>kv. case fst kv of KStr s \<Rightarrow> [s] | _ \<Rightarrow> []) m)))"

definition request_path_checks :: "ToolRunRequest \<Rightarrow> unit res" where
  "request_path_checks q =
     (let input_ids = map ri_artifact_id (rq_inputs q); input_paths = map ri_staged_path (rq_inputs q);
          output_paths = map do_path (rq_declared_outputs q) in
      checks
        [refuse (sort input_ids \<noteq> sort (rq_input_artifact_ids q))
           ''runner inputs must exactly match input_artifact_ids'',
         refuse (has_duplicates input_ids) ''runner input artifact IDs must be unique'',
         refuse (has_duplicates input_paths) ''runner input staged paths must be unique'',
         refuse (has_duplicates output_paths) ''declared output paths must be unique'',
         refuse (list_ex (\<lambda>p. p \<in> set output_paths) input_paths)
           ''runner input and declared output paths must be disjoint'',
         refuse (nested_paths (input_paths @ output_paths))
           ''runner input/output file paths cannot contain one another''] ())"

definition ToolRunRequest_init :: "ToolRunRequest \<Rightarrow> ToolRunRequest res" where
  "ToolRunRequest_init q =
     bindR (checks
       [refuse (rq_protocol_version q \<noteq> PROTOCOL_VERSION) ''runner protocol mismatch'',
        refuse (rq_snapshot_id q = [] \<or> rq_stage q = []) ''snapshot_id and stage are required'',
        refuse (rq_argv q = [] \<or> \<not> list_all argv_item (rq_argv q))
          ''argv must be a non-empty list of strings without NUL'',
        bindR (compare_zero (\<lambda>s. s \<le> 0) (rq_timeout_s q)) (\<lambda>bad. refuse bad ''timeout_s must be positive''),
        refuse (list_ex (\<lambda>kv. \<not> portable_identifier (fst kv)) (rq_environment q))
          ''environment variable names must be portable identifiers'',
        refuse (list_ex (\<lambda>kv. \<not> is_str (snd kv) \<or> has_nul (str_of (snd kv))) (rq_environment q))
          ''environment values must be strings without NUL''] ()) (\<lambda>_.
     bindR (if rq_working_directory q \<noteq> ''.'' then protocol_path (rq_working_directory q)
            else Inr (rq_working_directory q)) (\<lambda>directory.
     bindR (checks
       [refuse (measured_keys (rq_metadata q) \<noteq> []) ''request metadata uses runner-measured keys: '',
        enum_value FailureClass (rq_nonzero_failure q),
        refuse (rq_nonzero_failure q \<in> {''infra_resource_guard'', ''resource''})
          ''resource guard failure classes are runner-owned and cannot be a stage nonzero_failure''] ()) (\<lambda>_.
     checks [request_path_checks q] (q\<lparr>rq_working_directory := directory\<rparr>))))"

definition cache_key :: "ToolRunRequest \<Rightarrow> string \<Rightarrow> string res" where
  "cache_key q runner_fingerprint = stable_hash (pdict
     [(''protocol'', PStr (rq_protocol_version q)), (''snapshot'', PStr (rq_snapshot_id q)),
      (''stage'', PStr (rq_stage q)), (''argv'', PList (rq_argv q)), (''cwd'', PStr (rq_working_directory q)),
      (''environment'', pdict (sort_key fst (rq_environment q))),
      (''environment_hash'', opt_str (rq_environment_hash q)), (''toolchain'', opt_str (rq_toolchain_id q)),
      (''inputs'', str_list (sort (rq_input_artifact_ids q))),
      (''input_manifest'', PList (map RunnerInput_identity_payload
         (sort_key (\<lambda>i. (ri_staged_path i, ri_artifact_id i)) (rq_inputs q)))),
      (''declared_outputs'', PList (map DeclaredOutput_identity_payload (sort_key do_path (rq_declared_outputs q)))),
      (''timeout_s'', rq_timeout_s q), (''nonzero_failure'', PStr (rq_nonzero_failure q)),
      (''metadata'', PDict (rq_metadata q)), (''runner'', PStr runner_fingerprint)])"

section \<open>The protocol types are normalisers\<close>

lemma runner_relative_path_iff:
  "runner_relative_path v = Inr w \<longleftrightarrow>
     safe_relative_path v = Inr w \<and> \<not> list_ex nonportable_component (split_on slash w)"
  by (auto simp: runner_relative_path_def split: sum.splits py_exn.splits)

lemma runner_relative_path_idem: "runner_relative_path v = Inr w \<Longrightarrow> runner_relative_path w = Inr w"
  using safe_relative_path_fixed fixedD by (metis runner_relative_path_iff)

lemma protocol_path_iff: "protocol_path v = Inr w \<longleftrightarrow> runner_relative_path v = Inr w"
  by (auto simp: protocol_path_def split: sum.splits py_exn.splits)

lemma protocol_path_fixed [idem_dest]: "protocol_path v = Inr w \<Longrightarrow> fixed protocol_path w"
  by (auto simp: protocol_path_iff fixed_def dest: runner_relative_path_idem)

lemma fixed_protocol_path [simp]: "fixed protocol_path w \<Longrightarrow> protocol_path w = Inr w"
  by (rule fixedD)

interpretation guard: normaliser ResourceGuard_init
proof
  show "ResourceGuard_init y = Inr y" if "ResourceGuard_init x = Inr y" for x y
    using that by (auto simp: ResourceGuard_init_def res_iff argv_items_def)
qed

interpretation guard_result: normaliser ResourceGuardResult_init
  by (rule normaliser_checks) (simp add: ResourceGuardResult_init_def Let_def)

interpretation monitor_result: normaliser RuntimeResourceMonitorResult_init
  by (rule normaliser_checks) (simp add: RuntimeResourceMonitorResult_init_def Let_def)

interpretation declared: normaliser DeclaredOutput_init
proof
  show "DeclaredOutput_init y = Inr y" if "DeclaredOutput_init x = Inr y" for x y
    using that by (auto simp: DeclaredOutput_init_def res_iff dest!: idem_dest)
qed

interpretation runner_input: normaliser RunnerInput_init
proof
  show "RunnerInput_init y = Inr y" if "RunnerInput_init x = Inr y" for x y
    using that by (auto simp: RunnerInput_init_def res_iff Let_def dest!: idem_dest)
qed

interpretation staged: normaliser StagedOutput_init
proof
  show "StagedOutput_init y = Inr y" if "StagedOutput_init x = Inr y" for x y
    using that by (auto simp: StagedOutput_init_def res_iff Let_def dest!: idem_dest)
qed

lemma sorted_set_idem [simp]: "sorted_set (sorted_set xs) = sorted_set xs"
  by (rule sorted_set_unique) simp

lemma exit_codes_int: "\<not> list_ex (\<lambda>c. \<not> is_int c \<or> c = PInt 0) cs \<Longrightarrow>
    \<not> list_ex (\<lambda>c. \<not> is_int c \<or> c = PInt 0) (map PInt (sorted_set (map int_value cs)))"
proof -
  assume "\<not> list_ex (\<lambda>c. \<not> is_int c \<or> c = PInt 0) cs"
  then have "c \<in> set cs \<Longrightarrow> \<exists>i. c = PInt i \<and> i \<noteq> 0" for c
    by (cases c) (auto simp: list_ex_iff is_int_def)
  then show ?thesis by (fastforce simp: list_ex_iff is_int_def int_value_def)
qed

interpretation monitor: normaliser RuntimeResourceMonitor_init
proof
  have codes: "map int_value (map PInt xs) = xs" for xs
    by (induction xs) (simp_all add: int_value_def)
  show "RuntimeResourceMonitor_init y = Inr y" if "RuntimeResourceMonitor_init x = Inr y" for x y
    using that exit_codes_int [of "rm_resource_exit_codes x"]
    by (auto simp: RuntimeResourceMonitor_init_def res_iff codes argv_items_def simp del: list.map_comp map_map)
qed

interpretation request: normaliser ToolRunRequest_init
proof
  show "ToolRunRequest_init y = Inr y" if "ToolRunRequest_init x = Inr y" for x y
    using that by (auto simp: ToolRunRequest_init_def res_iff request_path_checks_def split: if_splits dest!: idem_dest)
qed

section \<open>What an accepted request guarantees\<close>

lemma nested_paths_iff:
  "\<not> nested_paths ps \<Longrightarrow> i < length ps \<Longrightarrow> j < length ps \<Longrightarrow> i \<noteq> j \<Longrightarrow> \<not> contains_path (ps ! i) (ps ! j)"
proof (induction ps arbitrary: i j)
  case (Cons p ps)
  then have ps: "q \<in> set ps \<Longrightarrow> \<not> contains_path p q \<and> \<not> contains_path q p" for q
    by (auto simp: list_ex_iff)
  show ?case using Cons ps by (cases i; cases j) auto
qed simp

lemma not_nested_distinct:
  assumes "\<not> nested_paths ps" and "distinct ps" and "p \<in> set ps" and "q \<in> set ps" and "p \<noteq> q"
  shows "\<not> contains_path p q"
  using assms nested_paths_iff by (metis in_set_conv_nth)

lemma ToolRunRequest_init_checked:
  "ToolRunRequest_init q = Inr r \<Longrightarrow> request_path_checks q = Inr () \<and> rq_inputs r = rq_inputs q
     \<and> rq_declared_outputs r = rq_declared_outputs q \<and> rq_input_artifact_ids r = rq_input_artifact_ids q
     \<and> rq_metadata r = rq_metadata q \<and> measured_keys (rq_metadata q) = []"
  by (auto simp: ToolRunRequest_init_def res_iff)

text \<open>C30: the files of an accepted request cannot overlay one another: the staged input
  paths and declared output paths are pairwise different and none lies below another, the
  inputs are exactly the declared input artifacts, and the request metadata cannot seed a
  key a runner measures.\<close>

theorem request_files_are_disjoint:
  assumes "ToolRunRequest_init q = Inr r"
  shows "distinct (map ri_staged_path (rq_inputs r) @ map do_path (rq_declared_outputs r))
    \<and> (\<forall>p q. p \<in> set (map ri_staged_path (rq_inputs r) @ map do_path (rq_declared_outputs r))
         \<longrightarrow> q \<in> set (map ri_staged_path (rq_inputs r) @ map do_path (rq_declared_outputs r))
         \<longrightarrow> p \<noteq> q \<longrightarrow> \<not> contains_path p q)
    \<and> mset (map ri_artifact_id (rq_inputs r)) = mset (rq_input_artifact_ids r)
    \<and> (\<forall>k \<in> set RUNNER_MEASURED_METADATA_KEYS. \<not> dhas (rq_metadata r) k)"
proof -
  let ?ps = "map ri_staged_path (rq_inputs r) @ map do_path (rq_declared_outputs r)"
  have same: "request_path_checks q = Inr ()" "rq_inputs r = rq_inputs q"
    "rq_declared_outputs r = rq_declared_outputs q" "rq_input_artifact_ids r = rq_input_artifact_ids q"
    "rq_metadata r = rq_metadata q" "measured_keys (rq_metadata q) = []"
    using ToolRunRequest_init_checked [OF assms] by auto
  then have d: "distinct ?ps" and n: "\<not> nested_paths ?ps"
    and s: "sort (map ri_artifact_id (rq_inputs r)) = sort (rq_input_artifact_ids r)"
    by (auto simp: request_path_checks_def Let_def res_iff list_ex_iff)
  have "mset (map ri_artifact_id (rq_inputs r)) = mset (rq_input_artifact_ids r)"
    using s by (metis mset_sort)
  moreover have "\<not> dhas (rq_metadata r) k" if k: "k \<in> set RUNNER_MEASURED_METADATA_KEYS" for k
  proof
    assume "dhas (rq_metadata r) k"
    then obtain v where "(KStr k, v) \<in> set (rq_metadata q)"
      by (auto simp: dhas_def same dest: map_of_SomeD)
    then have "k \<in> set (measured_keys (rq_metadata q))"
      using k by (force simp: measured_keys_def)
    with same(6) show False by simp
  qed
  ultimately show ?thesis using d not_nested_distinct [OF n d] by blast
qed

text \<open>The cache key does not depend on the order in which the environment, the inputs
  or the declared outputs of an accepted request are listed.\<close>

theorem cache_key_order:
  assumes "ToolRunRequest_init q = Inr r"
    and "mset (rq_inputs r') = mset (rq_inputs r)" and "mset (rq_declared_outputs r') = mset (rq_declared_outputs r)"
    and "mset (rq_input_artifact_ids r') = mset (rq_input_artifact_ids r)"
    and "mset (rq_environment r') = mset (rq_environment r)" and "distinct (map fst (rq_environment r))"
    and "r'\<lparr>rq_inputs := [], rq_declared_outputs := [], rq_input_artifact_ids := [], rq_environment := []\<rparr>
       = r\<lparr>rq_inputs := [], rq_declared_outputs := [], rq_input_artifact_ids := [], rq_environment := []\<rparr>"
  shows "cache_key r' fingerprint = cache_key r fingerprint"
proof -
  have d: "distinct (map ri_staged_path (rq_inputs r))" "distinct (map do_path (rq_declared_outputs r))"
    using ToolRunRequest_init_checked [OF assms(1)]
    by (auto simp: request_path_checks_def Let_def res_iff list_ex_iff)
  have "distinct (map (\<lambda>i. (ri_staged_path i, ri_artifact_id i)) (rq_inputs r))"
    using d(1) by (simp add: distinct_map inj_on_def)
  then have "sort_key (\<lambda>i. (ri_staged_path i, ri_artifact_id i)) (rq_inputs r')
      = sort_key (\<lambda>i. (ri_staged_path i, ri_artifact_id i)) (rq_inputs r)"
    using assms(2) by (intro sort_key_perm [symmetric]) simp_all
  moreover have "sort_key do_path (rq_declared_outputs r') = sort_key do_path (rq_declared_outputs r)"
    using assms(3) d(2) by (intro sort_key_perm [symmetric]) simp_all
  moreover have "sort (rq_input_artifact_ids r') = sort (rq_input_artifact_ids r)"
    using assms(4) by (intro properties_for_sort) simp_all
  moreover have "sort_key fst (rq_environment r') = sort_key fst (rq_environment r)"
    using assms(5,6) by (intro sort_key_perm [symmetric]) simp_all
  moreover have "rq_protocol_version r' = rq_protocol_version r" "rq_snapshot_id r' = rq_snapshot_id r"
    "rq_stage r' = rq_stage r" "rq_argv r' = rq_argv r" "rq_working_directory r' = rq_working_directory r"
    "rq_environment_hash r' = rq_environment_hash r" "rq_toolchain_id r' = rq_toolchain_id r"
    "rq_timeout_s r' = rq_timeout_s r" "rq_nonzero_failure r' = rq_nonzero_failure r"
    "rq_metadata r' = rq_metadata r"
    using assms(7) by (cases r; cases r'; simp)+
  ultimately show ?thesis by (simp add: cache_key_def)
qed

section \<open>A concrete request\<close>

definition witness_input :: "string \<Rightarrow> string \<Rightarrow> RunnerInput" where
  "witness_input i path = \<lparr>ri_artifact_id = i, ri_source_path = path, ri_staged_path = path,
     ri_sha256 = replicate 64 (CHR ''a''), ri_size = PInt 3\<rparr>"

definition witness_request :: ToolRunRequest where
  "witness_request =
     \<lparr>rq_snapshot_id = ''s1'', rq_stage = ''s'', rq_argv = [PStr ''r''], rq_working_directory = ''.'',
      rq_environment = [(''A'', PStr ''1''), (''B'', PStr ''2'')], rq_environment_hash = None,
      rq_toolchain_id = Some ''y'', rq_input_artifact_ids = [''a1'', ''a2''],
      rq_inputs = [witness_input ''a1'' ''in/a.cpp'', witness_input ''a2'' ''in/b.cpp''],
      rq_declared_outputs = [\<lparr>do_path = ''out/o'', do_required = PBool True, do_max_bytes = PInt 9\<rparr>],
      rq_timeout_s = PInt 60, rq_nonzero_failure = ''design_compile'', rq_metadata = [],
      rq_protocol_version = ''hlsgraph.runner.v2''\<rparr>"

lemma witness_request_built: "ToolRunRequest_init witness_request = Inr witness_request"
  by code_simp

theorem request_files_are_disjoint_witness:
  "distinct [''in/a.cpp'', ''in/b.cpp'', ''out/o''] \<and> \<not> dhas (rq_metadata witness_request) ''tool_truth''"
  using request_files_are_disjoint [OF witness_request_built]
  by (simp add: witness_request_def witness_input_def RUNNER_MEASURED_METADATA_KEYS_def)

theorem cache_key_order_witness:
  "cache_key (witness_request
      \<lparr>rq_environment := [(''B'', PStr ''2''), (''A'', PStr ''1'')], rq_input_artifact_ids := [''a2'', ''a1''],
       rq_inputs := [witness_input ''a2'' ''in/b.cpp'', witness_input ''a1'' ''in/a.cpp'']\<rparr>) ''f''
   = cache_key witness_request ''f''"
  by (rule cache_key_order [OF witness_request_built]) (simp_all add: witness_request_def)

end
