(* ===== verification/PyRepr.thy ===== *)
theory PyRepr
  imports PyEq
begin

text \<open>
  \<open>repr\<close> and \<open>str\<close> of Python values, and \<open>any\<close> and \<open>all\<close> over a test that may raise.
  Escapes are those of \<open>repr\<close> for code points below U+0100; a set prints in the order its
  items are given, and a dataclass, whose class the value does not record, as \<open>object\<close>.
\<close>

section \<open>Text of values\<close>

definition printable :: "char \<Rightarrow> bool" where
  "printable c \<longleftrightarrow> in_range 32 126 c \<or> (in_range 161 255 c \<and> code c \<noteq> 173)"

definition repr_char :: "char \<Rightarrow> char \<Rightarrow> string" where
  "repr_char q c =
     (if c = q \<or> c = backslash then [backslash, c]
      else if code c = 9 then backslash # ''t''
      else if code c = 10 then backslash # ''n''
      else if code c = 13 then backslash # ''r''
      else if printable c then [c]
      else [backslash, CHR ''x'', hex_digit (code c div 16), hex_digit (code c mod 16)])"

abbreviation single_quote :: char where
  "single_quote \<equiv> CHR 0x27"

abbreviation double_quote :: char where
  "double_quote \<equiv> CHR 0x22"

definition repr_str :: "string \<Rightarrow> string" where
  "repr_str s =
     (let q = (if single_quote \<in> set s \<and> double_quote \<notin> set s then double_quote else single_quote)
      in q # concat (map (repr_char q) s) @ [q])"

fun repr_key :: "pykey \<Rightarrow> string" where
  "repr_key (KStr s) = repr_str s"
| "repr_key (KInt i) = show_int i"
| "repr_key (KBool b) = (if b then ''True'' else ''False'')"
| "repr_key KNone = ''None''"

fun py_repr :: "pyval \<Rightarrow> string" where
  "py_repr PNone = ''None''"
| "py_repr (PBool b) = (if b then ''True'' else ''False'')"
| "py_repr (PInt i) = show_int i"
| "py_repr (PFloat (FFin n m e)) = float_repr n m e"
| "py_repr (PFloat (FInf n)) = (if n then ''-inf'' else ''inf'')"
| "py_repr (PFloat FNan) = ''nan''"
| "py_repr (PStr s) = repr_str s"
| "py_repr (PList xs) = ''['' @ join_with '', '' (map py_repr xs) @ '']''"
| "py_repr (PTuple xs) =
     ''('' @ join_with '', '' (map py_repr xs) @ (if length xs = 1 then '',)'' else '')'')"
| "py_repr (PSet xs) = (if xs = [] then ''set()'' else ''{'' @ join_with '', '' (map py_repr xs) @ ''}'')"
| "py_repr (PDict kvs) =
     ''{'' @ join_with '', '' (map (\<lambda>kv. repr_key (fst kv) @ '': '' @ py_repr (snd kv)) kvs) @ ''}''"
| "py_repr (PObj kvs) =
     ''object('' @ join_with '', '' (map (\<lambda>kv. fst kv @ ''='' @ py_repr (snd kv)) kvs) @ '')''"

definition py_str :: "pyval \<Rightarrow> string" where
  "py_str v = (case v of PStr s \<Rightarrow> s | _ \<Rightarrow> py_repr v)"

section \<open>Quantifiers over tests that may raise\<close>

fun anyR :: "('a \<Rightarrow> bool res) \<Rightarrow> 'a list \<Rightarrow> bool res" where
  "anyR f [] = Inr False"
| "anyR f (x # xs) = bindR (f x) (\<lambda>b. if b then Inr True else anyR f xs)"

fun allR :: "('a \<Rightarrow> bool res) \<Rightarrow> 'a list \<Rightarrow> bool res" where
  "allR f [] = Inr True"
| "allR f (x # xs) = bindR (f x) (\<lambda>b. if b then allR f xs else Inr False)"

lemma anyR_cong [fundef_cong]: "xs = ys \<Longrightarrow> (\<And>x. x \<in> set ys \<Longrightarrow> f x = g x) \<Longrightarrow> anyR f xs = anyR g ys"
  by (induction ys arbitrary: xs) (auto intro!: arg_cong2 [of _ _ _ _ bindR])

lemma allR_cong [fundef_cong]: "xs = ys \<Longrightarrow> (\<And>x. x \<in> set ys \<Longrightarrow> f x = g x) \<Longrightarrow> allR f xs = allR g ys"
  by (induction ys arbitrary: xs) (auto intro!: arg_cong2 [of _ _ _ _ bindR])

lemma anyR_True: "anyR f xs = Inr True \<Longrightarrow> \<exists>x \<in> set xs. f x = Inr True"
  by (induction xs) (auto simp: bindR_Inr_iff split: if_splits)

lemma anyR_pure: "(\<And>x. x \<in> set xs \<Longrightarrow> f x = Inr (p x)) \<Longrightarrow> anyR f xs = Inr (list_ex p xs)"
  by (induction xs) auto

lemma allR_True: "allR f xs = Inr True \<longleftrightarrow> (\<forall>x \<in> set xs. f x = Inr True)"
  by (induction xs) (auto simp: bindR_Inr_iff split: if_splits)

end
