(* ===== verification/Orchestrator.thy ===== *)
theory Orchestrator
  imports Runner_Model PyRepr
begin

text \<open>
  The stage orchestrator (\<open>StageOrchestrator\<close> of \<open>hlsgraph/runner/core.py\<close>): validation
  of an untrusted runner's response, execution of a sequence of stages with the gates they
  report, and the verdict \<open>verified\<close>; the capability issued for a tool-truth run, its
  one-shot authorization and the registry the ledger consumes it from; the replay and fake
  runners.

  A runner is untrusted code: it is the parameter \<open>RunnerSPI\<close>, a record of functions on a
  state of its own.  Reading a staged file is the parameter \<open>read_file\<close> (the operating
  system): it returns size, digest and path of the bytes, or the error.
\<close>

section \<open>Executions\<close>

record ExecutionCapability =
  ca_snapshot :: DesignSnapshot
  ca_manifest :: ProjectManifest
  ca_request_hash :: string
  ca_run_id :: string
  ca_runner_authority :: string
  ca_runner_identity :: string
  ca_runner_fingerprint :: string
  ca_used :: bool

record RunnerExecution =
  re_run :: ToolRun
  re_staged_outputs :: "StagedOutput list"
  re_staging_directory :: "string option"
  re_resource_guard :: "ResourceGuardResult option"
  re_runtime_monitor :: "RuntimeResourceMonitorResult option"
  re_capability :: "ExecutionCapability option"

record 'w RunnerSPI =
  spi_name :: "'w \<Rightarrow> string"
  spi_fingerprint :: "'w \<Rightarrow> string"
  spi_authority :: "'w \<Rightarrow> string option"
  spi_capabilities :: "'w \<Rightarrow> pyval"
  spi_execute :: "'w \<Rightarrow> ToolRunRequest \<Rightarrow> ('w \<times> RunnerExecution) res"

text \<open>\<open>read_verified_file(directory, path, expected_size, expected_sha256, max_bytes)\<close>.\<close>

type_synonym file_reader =
  "string \<Rightarrow> string \<Rightarrow> pyval \<Rightarrow> string \<Rightarrow> pyval \<Rightarrow> (pyval \<times> string \<times> string) res"

section \<open>Validation of a response\<close>

definition fake_or_replay :: "string \<Rightarrow> bool" where
  "fake_or_replay backend \<longleftrightarrow> casefold backend \<in> {''runner.fake'', ''runner.replay''}"

definition mget :: "RunnerExecution \<Rightarrow> string \<Rightarrow> pyval" where
  "mget x k = dget (tr_metadata (re_run x)) k"

definition identity_matches :: "ToolRunRequest \<Rightarrow> ToolRun \<Rightarrow> string \<Rightarrow> string \<Rightarrow> string \<Rightarrow> bool" where
  "identity_matches q r name fingerprint request_hash \<longleftrightarrow>
     tr_snapshot_id r = rq_snapshot_id q \<and> tr_stage r = rq_stage q \<and> tr_backend r = name
     \<and> tr_request_hash r = request_hash \<and> tr_toolchain_id r = rq_toolchain_id q
     \<and> map PStr (tr_command r) = rq_argv q \<and> tr_working_directory r = Some (rq_working_directory q)
     \<and> tr_environment_hash r = rq_environment_hash q \<and> tr_input_artifact_ids r = rq_input_artifact_ids q
     \<and> dget (tr_metadata r) ''runner_fingerprint'' = PStr fingerprint
     \<and> list_all (\<lambda>kv. case map_of (tr_metadata r) (fst kv) of None \<Rightarrow> False | Some v \<Rightarrow> py_eq v (snd kv))
         (rq_metadata q)"

definition rebuilt_id :: "iso_parser \<Rightarrow> ToolRun \<Rightarrow> string res" where
  "rebuilt_id parse_iso r =
     bindR (json_ready (ToolRun_val r)) (\<lambda>_.
     bindR (json_ready (PDict (tr_metadata r))) (\<lambda>metadata.
     mapr tr_id (rebuilt_run parse_iso r metadata)))"

definition terminal_check :: "ToolRun \<Rightarrow> unit res" where
  "terminal_check r =
     (if tr_status r \<in> {''succeeded'', ''cached''}
      then refuse (tr_failure_class r \<noteq> ''none'' \<or> \<not> clean_exit (tr_exit_code r))
             ''successful/cached runner response has a failure class or non-zero exit''
      else if tr_status r \<in> {''failed'', ''skipped''}
      then refuse (tr_failure_class r = ''none'') ''failed/skipped runner response lacks a failure class''
      else refuse True ''runner response must be terminal'')"

definition truth_flags_check :: "ToolRun \<Rightarrow> unit res" where
  "truth_flags_check r =
     (let m = tr_metadata r in checks
       [refuse (dget m ''fresh_tool_truth'' = PBool True
                \<and> (dget m ''fresh_execution'' \<noteq> PBool True \<or> dget m ''tool_truth'' \<noteq> PBool True
                   \<or> fake_or_replay (tr_backend r) \<or> tr_status r \<notin> {''succeeded'', ''failed''}))
          ''fresh_tool_truth is inconsistent with runner provenance'',
        forR (\<lambda>k. refuse (\<not> is_bool (dget m k)) ''runner response metadata must be boolean'')
          [''fresh_execution'', ''fresh_tool_truth'', ''tool_truth''],
        refuse (tr_status r = ''cached'' \<and> dget m ''fresh_execution'' = PBool True)
          ''cached runner response cannot claim fresh execution''] ())"

definition metadata_agrees :: "pydict \<Rightarrow> pydict \<Rightarrow> bool" where
  "metadata_agrees m expected = list_all (\<lambda>kv. py_eq (dget m (key_str (fst kv))) (snd kv)) expected"

definition infrastructure_provenance :: "RunnerExecution \<Rightarrow> bool" where
  "infrastructure_provenance x \<longleftrightarrow>
     tr_status (re_run x) = ''failed'' \<and> mget x ''fresh_tool_truth'' = PBool False
     \<and> mget x ''tool_truth'' = PBool False \<and> mget x ''authority'' = PStr ''infrastructure''
     \<and> re_staged_outputs x = [] \<and> tr_output_artifact_ids (re_run x) = []"

definition monitor_triggered :: "RunnerExecution \<Rightarrow> bool" where
  "monitor_triggered x = opt_any (\<lambda>m. mr_triggered m = PBool True) (re_runtime_monitor x)"

definition guard_check :: "pydict \<Rightarrow> RunnerExecution \<Rightarrow> unit res" where
  "guard_check capabilities x =
     (let r = re_run x; guard_failure = (tr_failure_class r = ''infra_resource_guard'') in
      case re_resource_guard x of
        None \<Rightarrow> checks
          [refuse (guard_failure \<and> \<not> monitor_triggered x) ''resource-guard failure requires a structured runner result'',
           refuse (list_ex (\<lambda>k. mget x k = PBool True)
               [''resource_guard_configured'', ''resource_guard_checked'', ''resource_guard_passed''])
             ''resource-guard metadata requires a structured runner result''] ()
      | Some g \<Rightarrow> checks
          [refuse (dget capabilities ''can_report_resource_guard'' \<noteq> PBool True)
             ''runner is not trusted to report resource-guard results'',
           refuse (fake_or_replay (tr_backend r)) ''fake/replay runners cannot report resource-guard results'',
           refuse (\<not> metadata_agrees (tr_metadata r) (resource_guard_metadata (Some g)))
             ''runner resource-guard metadata disagrees with its structured result'',
           (if gs_checked g \<noteq> PBool True
            then refuse (guard_failure \<or> mget x ''fresh_execution'' = PBool True)
                   ''unchecked resource guard cannot classify or precede tool execution''
            else if gs_passed g = PBool True
            then refuse (guard_failure \<and> \<not> monitor_triggered x)
                   ''passing resource guard cannot classify a stage failure''
            else refuse (\<not> infrastructure_provenance x \<or> \<not> guard_failure
                         \<or> \<not> py_eq (tr_exit_code r) (gs_exit_code g)
                         \<or> mget x ''fresh_execution'' \<noteq> PBool False)
                   ''resource-guard rejection has inconsistent provenance'')] ())"

definition guard_rejected :: "RunnerExecution \<Rightarrow> bool" where
  "guard_rejected x =
     opt_any (\<lambda>g. gs_checked g = PBool True \<and> gs_passed g \<noteq> PBool True) (re_resource_guard x)"

definition guard_not_passed :: "RunnerExecution \<Rightarrow> bool" where
  "guard_not_passed x = opt_any (\<lambda>g. gs_passed g \<noteq> PBool True) (re_resource_guard x)"

definition monitor_check :: "pydict \<Rightarrow> RunnerExecution \<Rightarrow> unit res" where
  "monitor_check capabilities x =
     (let r = re_run x; failure = tr_failure_class r in
      case re_runtime_monitor x of
        None \<Rightarrow> checks
          [refuse (failure = ''infra_resource_guard'' \<and> \<not> guard_rejected x)
             ''runtime resource-guard failure requires a structured runner result'',
           refuse (list_ex (\<lambda>k. mget x k = PBool True)
               [''runtime_guard_configured'', ''runtime_guard_checked'', ''runtime_guard_passed'',
                ''runtime_guard_triggered''])
             ''runtime-guard metadata requires a structured runner result'',
           refuse (failure = ''resource'') ''resource failure requires a trusted runtime monitor mapping''] ()
      | Some m \<Rightarrow> checks
          [refuse (dget capabilities ''can_report_runtime_resource_guard'' \<noteq> PBool True)
             ''runner is not trusted to report runtime resource-guard results'',
           refuse (fake_or_replay (tr_backend r)) ''fake/replay runners cannot report runtime resource-guard results'',
           refuse (\<not> metadata_agrees (tr_metadata r) (runtime_guard_metadata (Some m)))
             ''runner runtime-guard metadata disagrees with its structured result'',
           (if mr_checked m \<noteq> PBool True
            then refuse (mr_passed m = PBool True \<or> mr_triggered m = PBool True
                         \<or> mget x ''fresh_execution'' = PBool True \<or> failure = ''resource'')
                   ''unchecked runtime resource monitor cannot precede tool execution''
            else if mr_passed m = PBool True
            then refuse (mr_triggered m = PBool True \<or> failure \<in> {''infra_resource_guard'', ''resource''})
                   ''passing runtime resource monitor cannot classify a guard failure''
            else refuse (mr_triggered m \<noteq> PBool True \<or> \<not> infrastructure_provenance x
                         \<or> Some failure \<noteq> mr_failure_class m
                         \<or> \<not> py_eq (tr_exit_code r) (mr_exit_code m)
                         \<or> mget x ''fresh_execution'' \<noteq> PBool True \<or> guard_not_passed x)
                   ''runtime resource-guard trigger has inconsistent provenance'')] ())"

text \<open>\<open>{item.path: item for item in request.declared_outputs}\<close>.\<close>

definition output_declaration :: "ToolRunRequest \<Rightarrow> string \<Rightarrow> DeclaredOutput option" where
  "output_declaration q path = map_of (rev (map (\<lambda>d. (do_path d, d)) (rq_declared_outputs q))) path"

definition staging_error_as_protocol :: "'a res \<Rightarrow> 'a res" where
  "staging_error_as_protocol m = (case m of Inl (StagingError s) \<Rightarrow> Inl (RunnerProtocolError s) | _ \<Rightarrow> m)"

definition staged_output_check ::
  "file_reader \<Rightarrow> ToolRunRequest \<Rightarrow> RunnerExecution \<Rightarrow> StagedOutput \<Rightarrow> unit res" where
  "staged_output_check read_file q x item =
     (case (output_declaration q (so_path item), re_staging_directory x) of
        (None, _) \<Rightarrow> Inl (KeyError (so_path item))
      | (Some d, directory) \<Rightarrow>
          bindR (refuse (exceeds_limit (int_value (so_size item)) (do_max_bytes d))
            ''runner response exceeds declared output byte limit'') (\<lambda>_.
          case directory of
            None \<Rightarrow> Inl (RunnerProtocolError ''staged outputs require a staging directory'')
          | Some dir \<Rightarrow>
              bindR (staging_error_as_protocol
                (read_file dir (so_path item) (so_size item) (so_sha256 item) (do_max_bytes d)))
                (\<lambda>(bytes, digest, path).
                  refuse (path \<noteq> so_local_path item \<or> bytes \<noteq> so_size item \<or> digest \<noteq> so_sha256 item)
                    ''runner staged output identity mismatch'')))"

definition validate_response ::
  "iso_parser \<Rightarrow> file_reader \<Rightarrow> ToolRunRequest \<Rightarrow> RunnerExecution \<Rightarrow> string \<Rightarrow> string \<Rightarrow> pydict \<Rightarrow> string option
    \<Rightarrow> unit res" where
  "validate_response parse_iso read_file q x fingerprint name capabilities authority =
     (let r = re_run x; paths = map so_path (re_staged_outputs x) in
      bindR (cache_key q fingerprint) (\<lambda>request_hash.
      bindR (rebuilt_id parse_iso r) (\<lambda>expected_id.
      checks
        [refuse (\<not> identity_matches q r name fingerprint request_hash \<or> expected_id \<noteq> tr_id r)
           ''runner response identity mismatch: '',
         refuse (has_duplicates (tr_input_artifact_ids r) \<or> has_duplicates (tr_output_artifact_ids r)
                 \<or> list_ex (\<lambda>i. i \<in> set (tr_output_artifact_ids r)) (tr_input_artifact_ids r))
           ''runner response artifact lists are not unique and disjoint'',
         terminal_check r, truth_flags_check r, guard_check capabilities x, monitor_check capabilities x,
         refuse (has_duplicates paths) ''runner response contains duplicate staged outputs'',
         refuse (list_ex (\<lambda>p. output_declaration q p = None) paths)
           ''runner response contains an undeclared staged output'',
         refuse (fake_or_replay (tr_backend r) \<and> paths \<noteq> [])
           ''fake/replay runners cannot return staged tool outputs'',
         forR (staged_output_check read_file q x) (re_staged_outputs x),
         refuse (mget x ''tool_truth'' = PBool True
                 \<and> (dget capabilities ''can_produce_tool_truth'' \<noteq> PBool True \<or> authority = None
                    \<or> fake_or_replay (tr_backend r)))
           ''runner is not trusted to produce tool-truth provenance''] ())))"

section \<open>Capabilities and authorizations\<close>

definition expected_declarations :: "ProjectManifest \<Rightarrow> string \<Rightarrow> DeclaredOutput list res" where
  "expected_declarations m stage =
     mapR (\<lambda>s. DeclaredOutput_init
       \<lparr>do_path = os_path s, do_required = PBool (os_required s), do_max_bytes = max_bytes_of s\<rparr>)
       (stage_outputs_of m stage)"

definition expected_output_metadata :: "ProjectManifest \<Rightarrow> string \<Rightarrow> pyval" where
  "expected_output_metadata m stage = PList (map (\<lambda>s. pdict
     [(''path'', PStr (os_path s)), (''kind'', PStr (os_kind s)), (''required'', PBool (os_required s)),
      (''consumed_by'', str_list (os_consumed_by s))]) (stage_outputs_of m stage))"

definition stage_identity :: "ProjectManifest \<Rightarrow> string \<Rightarrow> (ToolchainContext \<times> pyval list) res" where
  "stage_identity m stage =
     (case bindR (toolchain_for_stage m stage) (\<lambda>t. mapr (Pair t) (stage_command m stage)) of
        Inl e \<Rightarrow> Inl (if lookup_or_value_error e
                     then RunnerProtocolError ''execution stage lacks an immutable manifest identity'' else e)
      | Inr tc \<Rightarrow> Inr tc)"

definition validate_context ::
  "iso_parser \<Rightarrow> ExecutionCapability \<Rightarrow> ToolRunRequest \<Rightarrow> ToolRun \<Rightarrow> unit res" where
  "validate_context parse_iso c q r =
     (let s = ca_snapshot c; m = ca_manifest c in
      bindR (refuse (ds_id s \<noteq> rq_snapshot_id q \<or> tr_snapshot_id r \<noteq> ds_id s)
        ''execution context snapshot identity mismatch'') (\<lambda>_.
      bindR (manifest_hashes m) (\<lambda>h.
      bindR (stage_identity m (rq_stage q)) (\<lambda>(t, command).
      bindR (expected_declarations m (rq_stage q)) (\<lambda>declarations.
      bindR (tool_run_stable_id_error parse_iso r) (\<lambda>stable_error.
      refuse
        (mh_manifest h \<noteq> ds_manifest_hash s \<or> mh_build h \<noteq> ds_build_hash s \<or> mh_target h \<noteq> ds_target_hash s
         \<or> mh_constraint h \<noteq> ds_constraint_hash s \<or> mh_toolchain h \<noteq> ds_toolchain_hash s
         \<or> ds_project_id s \<noteq> pm_project_id m
         \<or> rq_toolchain_id q \<noteq> Some (tc_id t) \<or> rq_environment_hash q \<noteq> tc_environment_hash t
         \<or> rq_argv q \<noteq> command \<or> rq_working_directory q \<noteq> ''.''
         \<or> map DeclaredOutput_identity_payload (rq_declared_outputs q) \<noteq> map DeclaredOutput_identity_payload declarations
         \<or> \<not> py_eq (dget (rq_metadata q) ''declared_outputs'') (expected_output_metadata m (rq_stage q))
         \<or> dget (rq_metadata q) ''project_id'' \<noteq> PStr (pm_project_id m)
         \<or> ca_request_hash c \<noteq> tr_request_hash r \<or> ca_run_id c \<noteq> tr_id r \<or> stable_error \<noteq> None)
        ''execution pipeline context mismatch: ''))))))"

text \<open>The constructor freezes snapshot and manifest by a canonical round trip.\<close>

definition issue_capability ::
  "iso_parser \<Rightarrow> DesignSnapshot \<Rightarrow> ProjectManifest \<Rightarrow> ToolRunRequest \<Rightarrow> ToolRun \<Rightarrow> string \<Rightarrow> string \<Rightarrow> string
    \<Rightarrow> ExecutionCapability res" where
  "issue_capability parse_iso s m q r identity authority fingerprint =
     bindR (DesignSnapshot_init s) (\<lambda>snapshot.
     bindR (ProjectManifest_rebuild m) (\<lambda>manifest.
     bindR (cache_key q fingerprint) (\<lambda>request_hash.
     (let c = \<lparr>ca_snapshot = snapshot, ca_manifest = manifest, ca_request_hash = request_hash,
               ca_run_id = tr_id r, ca_runner_authority = authority, ca_runner_identity = identity,
               ca_runner_fingerprint = fingerprint, ca_used = False\<rparr>
      in mapr (\<lambda>_. c) (validate_context parse_iso c q r)))))"

text \<open>An authorization is an object: its identity is the number \<open>eca_object\<close> it was
  allocated with.  The registry maps attestation ids to the live object.\<close>

record ExecutionCommitAuthorization =
  eca_attestation :: ExecutionAttestation
  eca_object :: nat

record AuthorizationRegistry =
  az_active :: "(string \<times> ExecutionCommitAuthorization) list"
  az_next :: nat

definition commit_attestation ::
  "iso_parser \<Rightarrow> ExecutionCapability \<Rightarrow> ToolRun \<Rightarrow> ArtifactRef list \<Rightarrow> ExecutionAttestation res" where
  "commit_attestation parse_iso c r artifacts =
     (let m = tr_metadata r; s = ca_snapshot c in
      bindR (checks
        [refuse (ca_used c) ''execution capability was already used'',
         refuse (tr_id r \<noteq> ca_run_id c \<or> tr_snapshot_id r \<noteq> ds_id s \<or> tr_backend r \<noteq> ca_runner_identity c
                 \<or> tr_request_hash r \<noteq> ca_request_hash c
                 \<or> dget m ''runner_fingerprint'' \<noteq> PStr (ca_runner_fingerprint c))
           ''run changed after orchestrator validation'',
         refuse (dget m ''tool_truth'' \<noteq> PBool True \<or> dget m ''fresh_execution'' \<noteq> PBool True
                 \<or> dget m ''fresh_tool_truth'' \<noteq> PBool True)
           ''only fresh tool-truth runs can be authorized''] ()) (\<lambda>_.
      bindR (tool_run_stable_id_error parse_iso r) (\<lambda>stable_error.
      bindR (case stable_error of None \<Rightarrow> Inr () | Some e \<Rightarrow> Inl (RunnerProtocolError e)) (\<lambda>_.
      bindR (mapR declared_output_of (stage_outputs_of (ca_manifest c) (tr_stage r))) (\<lambda>declarations.
      bindR (mapR (\<lambda>a. ExecutionOutputAttestation_init
          \<lparr>xo_artifact_id = ar_id a, xo_path = (let v = dget (ar_metadata a) ''declared_output_path'' in
             if dhas (ar_metadata a) ''declared_output_path'' then py_str v else []), xo_kind = ar_kind a, xo_sha256 = ar_sha256 a, xo_size = PInt (ar_size a)\<rparr>) artifacts) (\<lambda>outputs.
      bindR (case tr_toolchain_id r of None \<Rightarrow> Inl (RunnerProtocolError ''tool-truth run lacks an immutable toolchain ID'')
             | Some t \<Rightarrow> Inr t) (\<lambda>toolchain.
      bindR (payload_hash (ToolRun_val r)) (\<lambda>run_hash.
      bindR (ExecutionAttestation_init
        \<lparr>xa_run_id = tr_id r, xa_snapshot_id = tr_snapshot_id r, xa_stage = tr_stage r,
         xa_runner_identity = tr_backend r, xa_runner_authority = ca_runner_authority c,
         xa_runner_fingerprint = ca_runner_fingerprint c, xa_request_hash = tr_request_hash r,
         xa_run_payload_hash = run_hash, xa_manifest_hash = ds_manifest_hash s, xa_build_hash = ds_build_hash s,
         xa_target_hash = ds_target_hash s, xa_constraint_hash = ds_constraint_hash s,
         xa_toolchain_hash = ds_toolchain_hash s, xa_toolchain_id = toolchain,
         xa_declared_outputs = declarations, xa_outputs = outputs,
         xa_protocol_version = EXECUTION_ATTESTATION_PROTOCOL, xa_validator = EXECUTION_ATTESTATION_VALIDATOR,
         xa_id = []\<rparr>) (\<lambda>attestation.
      bindR (execution_attestation_error parse_iso attestation r s (ca_manifest c) artifacts) (\<lambda>error.
      case error of
        Some e \<Rightarrow> Inl (RunnerProtocolError (''invalid execution attestation: '' @ e))
      | None \<Rightarrow> Inr attestation))))))))))"

definition authorize ::
  "iso_parser \<Rightarrow> ExecutionCapability \<Rightarrow> ToolRun \<Rightarrow> ArtifactRef list \<Rightarrow> AuthorizationRegistry
    \<Rightarrow> ExecutionCommitAuthorization res \<times> ExecutionCapability \<times> AuthorizationRegistry" where
  "authorize parse_iso c r artifacts z =
     (case commit_attestation parse_iso c r artifacts of
        Inl e \<Rightarrow> (Inl e, c, z)
      | Inr x \<Rightarrow>
          (let a = \<lparr>eca_attestation = x, eca_object = az_next z\<rparr>; z' = z\<lparr>az_next := Suc (az_next z)\<rparr> in
           if map_of (az_active z) (xa_id x) \<noteq> None
           then (Inl (RunnerProtocolError ''duplicate active execution authorization''), c\<lparr>ca_used := True\<rparr>, z')
           else (Inr a, c\<lparr>ca_used := True\<rparr>, z'\<lparr>az_active := AList.update (xa_id x) a (az_active z)\<rparr>)))"

definition consume_execution_authorization ::
  "ExecutionCommitAuthorization \<Rightarrow> AuthorizationRegistry \<Rightarrow> ExecutionAttestation res \<times> AuthorizationRegistry" where
  "consume_execution_authorization a z =
     (let i = xa_id (eca_attestation a); z' = z\<lparr>az_active := AList.delete i (az_active z)\<rparr> in
      if map_option eca_object (map_of (az_active z) i) = Some (eca_object a)
      then (Inr (eca_attestation a), z')
      else (Inl (RunnerProtocolError ''execution authorization is unknown, copied, or already consumed''), z'))"

section \<open>Executing the stages\<close>

definition status_priority :: "string \<Rightarrow> nat" where
  "status_priority s = (if s = ''pass'' then 0 else if s = ''unknown'' then 1 else 2)"

definition merge_status :: "string option \<Rightarrow> string \<Rightarrow> string" where
  "merge_status previous current =
     (case previous of
        None \<Rightarrow> current
      | Some p \<Rightarrow> (if status_priority current > status_priority p then current else p))"

text \<open>The dicts of the loop: per gate kind, and per stage for correctness checks.\<close>

record StageState =
  st_gates :: "(string \<times> string) list"
  st_checks :: "(string \<times> string) list"
  st_gate_truth :: "(string \<times> bool) list"
  st_gate_evidence :: "(string \<times> bool) list"
  st_check_truth :: "(string \<times> bool) list"
  st_check_evidence :: "(string \<times> bool) list"
  st_campaign :: "(string \<times> string option) list"

definition and_at :: "string \<Rightarrow> bool \<Rightarrow> (string \<times> bool) list \<Rightarrow> (string \<times> bool) list" where
  "and_at k b al = AList.update k ((case map_of al k of None \<Rightarrow> True | Some c \<Rightarrow> c) \<and> b) al"

definition merge_at :: "string \<Rightarrow> string \<Rightarrow> (string \<times> string) list \<Rightarrow> (string \<times> string) list" where
  "merge_at k s al = AList.update k (merge_status (map_of al k) s) al"

definition evidence_present :: "GateResult \<Rightarrow> bool" where
  "evidence_present g \<longleftrightarrow> gr_status g \<noteq> ''pass'' \<or> gr_evidence_ids g \<noteq> []"

type_synonym evidence_validator = "(ToolRun \<Rightarrow> string \<Rightarrow> bool) option"

definition evidence_trusted :: "evidence_validator \<Rightarrow> ToolRun \<Rightarrow> GateResult \<Rightarrow> bool" where
  "evidence_trusted validator r g \<longleftrightarrow>
     gr_evidence_ids g \<noteq> [] \<and> opt_any (\<lambda>v. list_all (v r) (gr_evidence_ids g)) validator"

definition gate_is_true :: "evidence_validator \<Rightarrow> ToolRun \<Rightarrow> GateResult \<Rightarrow> bool" where
  "gate_is_true validator r g \<longleftrightarrow>
     dget (tr_metadata r) ''tool_truth'' = PBool True \<and> dget (tr_metadata r) ''authority'' \<noteq> PStr ''synthetic''
     \<and> (gr_status g \<noteq> ''pass'' \<or> evidence_trusted validator r g)"

text \<open>\<open>metadata.get("campaign_id") or metadata.get("workload_id")\<close>, when a non-empty string.\<close>

definition campaign_of :: "ToolRun \<Rightarrow> string option" where
  "campaign_of r =
     (let a = dget (tr_metadata r) ''campaign_id''; v = (if truthy a then a else dget (tr_metadata r) ''workload_id'')
      in if is_str v \<and> str_of v \<noteq> [] then Some (str_of v) else None)"

definition is_check_stage :: "string \<Rightarrow> bool" where
  "is_check_stage s \<longleftrightarrow> s \<in> {''csim'', ''rtl_cosim''}"

definition take_gate :: "evidence_validator \<Rightarrow> ToolRun \<Rightarrow> string \<Rightarrow> StageState \<Rightarrow> GateResult \<Rightarrow> StageState" where
  "take_gate validator r stage st g =
     (let k = gr_kind g; truth = gate_is_true validator r g; present = evidence_present g;
          st' = st\<lparr>st_gates := merge_at k (gr_status g) (st_gates st),
                  st_gate_truth := and_at k truth (st_gate_truth st),
                  st_gate_evidence := and_at k present (st_gate_evidence st)\<rparr>
      in if k = ''correctness'' \<and> is_check_stage stage
         then st'\<lparr>st_checks := merge_at stage (gr_status g) (st_checks st'),
                  st_check_truth := and_at stage truth (st_check_truth st'),
                  st_check_evidence := and_at stage present (st_check_evidence st'),
                  st_campaign := AList.update stage (campaign_of r) (st_campaign st')\<rparr>
         else st')"

definition capabilities_check :: "'w RunnerSPI \<Rightarrow> 'w \<Rightarrow> unit res" where
  "capabilities_check spi w =
     (let c = dict_items (spi_capabilities spi w) in refuse
       (\<not> is_dict (spi_capabilities spi w) \<or> dget c ''protocol_version'' \<noteq> PStr PROTOCOL_VERSION
        \<or> dget c ''name'' \<noteq> PStr (spi_name spi w) \<or> dget c ''fingerprint'' \<noteq> PStr (spi_fingerprint spi w)
        \<or> \<not> is_bool (dget c ''can_report_resource_guard'')
        \<or> \<not> is_bool (dget c ''can_report_runtime_resource_guard''))
       ''runner capabilities do not match runner-v2 identity'')"

record Orchestrator =
  or_parse_iso :: iso_parser
  or_read_file :: file_reader
  or_validator :: evidence_validator
  or_context :: "(DesignSnapshot \<times> ProjectManifest) option"

definition attach_capability ::
  "Orchestrator \<Rightarrow> ToolRunRequest \<Rightarrow> string \<Rightarrow> string option \<Rightarrow> string \<Rightarrow> RunnerExecution \<Rightarrow> RunnerExecution res" where
  "attach_capability orc q name authority fingerprint x =
     (case (or_context orc, authority) of
        (Some (s, m), Some a) \<Rightarrow>
          (if mget x ''tool_truth'' = PBool True
           then mapr (\<lambda>c. x\<lparr>re_capability := Some c\<rparr>)
                  (issue_capability (or_parse_iso orc) s m q (re_run x) name a fingerprint)
           else Inr x)
      | _ \<Rightarrow> Inr x)"

definition run_stage ::
  "Orchestrator \<Rightarrow> 'w RunnerSPI \<Rightarrow> 'w \<Rightarrow> ToolRunRequest \<Rightarrow> ('w \<times> RunnerExecution) res" where
  "run_stage orc spi w q =
     bindR (capabilities_check spi w) (\<lambda>_.
     bindR (spi_execute spi w q) (\<lambda>(w', x).
     bindR (validate_response (or_parse_iso orc) (or_read_file orc) q x (spi_fingerprint spi w) (spi_name spi w)
              (dict_items (spi_capabilities spi w)) (spi_authority spi w)) (\<lambda>_.
     mapr (Pair w') (attach_capability orc q (spi_name spi w) (spi_authority spi w) (spi_fingerprint spi w) x))))"

record StageResult =
  sr_gates :: "(string \<times> string) list"
  sr_checks :: "(string \<times> string) list"
  sr_gates_complete :: bool
  sr_tool_truth :: bool
  sr_verified :: bool
  sr_stopped :: "string option"
  sr_executions :: "RunnerExecution list"

text \<open>The loop over the requests: the executions so far, the dicts, and whether and
  where it stopped.  A runner that failed contributes no gates.\<close>

fun execute_stages ::
  "Orchestrator \<Rightarrow> 'w RunnerSPI \<Rightarrow> 'w \<Rightarrow> StageState \<Rightarrow> ToolRunRequest list
    \<Rightarrow> (RunnerExecution list \<times> StageState \<times> bool \<times> string option) res" where
  "execute_stages orc spi w st [] = Inr ([], st, False, None)"
| "execute_stages orc spi w st (q # qs) =
     bindR (run_stage orc spi w q) (\<lambda>(w', x).
     (let r = re_run x in
      if tr_status r \<notin> {''succeeded'', ''cached''} then Inr ([x], st, True, Some (rq_stage q))
      else (let st' = foldl (take_gate (or_validator orc) r (rq_stage q)) st (tr_gates r) in
            if list_ex (\<lambda>g. gr_status g = ''fail'') (tr_gates r) then Inr ([x], st', False, Some (rq_stage q))
            else mapr (\<lambda>(xs, rest). (x # xs, rest)) (execute_stages orc spi w' st' qs))))"

definition required_gates :: "string list" where
  "required_gates = [''correctness'', ''resource_fits'', ''post_route_timing'']"

definition required_checks :: "string list" where
  "required_checks = [''csim'', ''rtl_cosim'']"

definition campaign_complete :: "StageState \<Rightarrow> bool" where
  "campaign_complete st \<longleftrightarrow>
     list_all (\<lambda>k. opt_any (\<lambda>c. c \<noteq> None) (map_of (st_campaign st) k)) required_checks
     \<and> map_of (st_campaign st) ''csim'' = map_of (st_campaign st) ''rtl_cosim''"

definition all_true :: "string list \<Rightarrow> (string \<times> bool) list \<Rightarrow> bool" where
  "all_true ks al = list_all (\<lambda>k. map_of al k = Some True) ks"

definition all_pass :: "string list \<Rightarrow> (string \<times> string) list \<Rightarrow> bool" where
  "all_pass ks al = list_all (\<lambda>k. map_of al k = Some ''pass'') ks"

definition gates_complete :: "StageState \<Rightarrow> bool" where
  "gates_complete st \<longleftrightarrow>
     all_true required_gates (st_gate_evidence st) \<and> all_true required_checks (st_check_evidence st)
     \<and> campaign_complete st \<and> all_pass required_gates (st_gates st) \<and> all_pass required_checks (st_checks st)"

definition gates_true :: "StageState \<Rightarrow> bool" where
  "gates_true st \<longleftrightarrow> all_true required_gates (st_gate_truth st) \<and> all_true required_checks (st_check_truth st)"

definition empty_state :: StageState where
  "empty_state = \<lparr>st_gates = [], st_checks = [], st_gate_truth = [], st_gate_evidence = [],
     st_check_truth = [], st_check_evidence = [], st_campaign = []\<rparr>"

definition execute :: "Orchestrator \<Rightarrow> 'w RunnerSPI \<Rightarrow> 'w \<Rightarrow> ToolRunRequest list \<Rightarrow> StageResult res" where
  "execute orc spi w qs =
     mapr (\<lambda>(xs, st, failed, stopped).
       \<lparr>sr_gates = st_gates st, sr_checks = st_checks st, sr_gates_complete = gates_complete st,
        sr_tool_truth = gates_true st, sr_verified = gates_complete st \<and> gates_true st \<and> \<not> failed,
        sr_stopped = stopped, sr_executions = xs\<rparr>)
       (execute_stages orc spi w empty_state qs)"

section \<open>The replay and fake runners\<close>

definition dict_union :: "pydict \<Rightarrow> pydict \<Rightarrow> pydict" where
  "dict_union a b = foldl (\<lambda>d kv. AList.update (fst kv) (snd kv) d) a b"

text \<open>The provenance both runners put on top of everything else.\<close>

definition no_tool_provenance :: "string \<Rightarrow> string \<Rightarrow> pydict" where
  "no_tool_provenance fingerprint authority =
     [(KStr ''fresh_execution'', PBool False), (KStr ''fresh_tool_truth'', PBool False),
      (KStr ''runner_fingerprint'', PStr fingerprint), (KStr ''authority'', PStr authority),
      (KStr ''tool_truth'', PBool False), (KStr ''staging_isolated'', PBool False),
      (KStr ''staged_output_manifest'', PList [])]"

definition bare_execution :: "ToolRun \<Rightarrow> RunnerExecution" where
  "bare_execution r = \<lparr>re_run = r, re_staged_outputs = [], re_staging_directory = None,
     re_resource_guard = None, re_runtime_monitor = None, re_capability = None\<rparr>"

definition replay_fingerprint :: "string \<Rightarrow> string res" where
  "replay_fingerprint source = stable_hash (pdict
     [(''backend'', PStr ''runner.replay''), (''protocol'', PStr PROTOCOL_VERSION), (''source_runner'', PStr source)])"

definition replayable :: "ToolRunRequest \<Rightarrow> string \<Rightarrow> string \<Rightarrow> ToolRun \<Rightarrow> bool" where
  "replayable q source key r \<longleftrightarrow>
     tr_request_hash r = key \<and> tr_snapshot_id r = rq_snapshot_id q \<and> tr_stage r = rq_stage q
     \<and> dget (tr_metadata r) ''runner_fingerprint'' = PStr source \<and> tr_status r \<in> {''succeeded'', ''cached''}
     \<and> tr_failure_class r = ''none'' \<and> clean_exit (tr_exit_code r)"

definition request_run :: "ToolRunRequest \<Rightarrow> string \<Rightarrow> string \<Rightarrow> ToolRun" where
  "request_run q backend request_hash =
     \<lparr>tr_snapshot_id = rq_snapshot_id q, tr_stage = rq_stage q, tr_backend = backend,
      tr_request_hash = request_hash, tr_id = [], tr_toolchain_id = rq_toolchain_id q, tr_status = ''queued'',
      tr_command = map str_of (rq_argv q), tr_working_directory = Some (rq_working_directory q),
      tr_environment_hash = rq_environment_hash q, tr_input_artifact_ids = rq_input_artifact_ids q,
      tr_output_artifact_ids = [], tr_diagnostics = [], tr_gates = [], tr_failure_class = ''none'',
      tr_exit_code = PNone, tr_attempt = PInt 1, tr_started_at = PNone, tr_finished_at = PNone,
      tr_elapsed_s = PNone, tr_message = PNone, tr_metadata = []\<rparr>"

definition replay_execute ::
  "iso_parser \<Rightarrow> (string \<times> ToolRun) list \<Rightarrow> string \<Rightarrow> ToolRunRequest \<Rightarrow> RunnerExecution res" where
  "replay_execute parse_iso runs source q =
     bindR (cache_key q source) (\<lambda>key.
     case map_of runs key of
       None \<Rightarrow> Inl (CacheMiss key)
     | Some original \<Rightarrow>
         bindR (reject_with (\<not> replayable q source key original) (CacheMiss key)) (\<lambda>_.
         bindR (replay_fingerprint source) (\<lambda>fingerprint.
         bindR (cache_key q fingerprint) (\<lambda>request_hash.
         mapr bare_execution (ToolRun_init parse_iso ((request_run q ''runner.replay'' request_hash)
           \<lparr>tr_status := ''cached'', tr_output_artifact_ids := tr_output_artifact_ids original,
            tr_diagnostics := tr_diagnostics original, tr_gates := tr_gates original,
            tr_failure_class := tr_failure_class original, tr_exit_code := tr_exit_code original,
            tr_started_at := tr_started_at original, tr_finished_at := tr_finished_at original,
            tr_elapsed_s := PFloat (FFin False 0 0), tr_message := tr_message original,
            tr_metadata := dict_union (tr_metadata original)
              ([(KStr ''replayed_from_run_id'', PStr (tr_id original)),
                (KStr ''replayed_request_hash'', PStr (tr_request_hash original))]
               @ resource_guard_metadata None @ runtime_guard_metadata None
               @ no_tool_provenance fingerprint ''replay'')\<rparr>))))))"

record FakeOutcome =
  fo_status :: string
  fo_failure_class :: string
  fo_exit_code :: pyval
  fo_gates :: "GateResult list"
  fo_message :: pyval
  fo_output_artifact_ids :: "string list"
  fo_metadata :: pydict

definition default_outcome :: FakeOutcome where
  "default_outcome = \<lparr>fo_status = ''succeeded'', fo_failure_class = ''none'', fo_exit_code = PInt 0, fo_gates = [],
     fo_message = PNone, fo_output_artifact_ids = [], fo_metadata = []\<rparr>"

definition unmeasured :: "pydict \<Rightarrow> pydict" where
  "unmeasured m = filter (\<lambda>kv. case fst kv of KStr k \<Rightarrow> k \<notin> set RUNNER_MEASURED_METADATA_KEYS | _ \<Rightarrow> True) m"

definition fake_fingerprint :: "string res" where
  "fake_fingerprint = stable_hash (pdict
     [(''backend'', PStr ''runner.fake''), (''protocol'', PStr PROTOCOL_VERSION), (''mode'', PStr ''synthetic'')])"

text \<open>The script is consumed from the front, stage by stage; \<open>started\<close> and \<open>finished\<close> are
  the two readings of \<open>utc_now\<close>.\<close>

type_synonym fake_script = "(string \<times> FakeOutcome list) list"

definition next_outcome :: "fake_script \<Rightarrow> string \<Rightarrow> FakeOutcome \<times> fake_script" where
  "next_outcome script stage =
     (case map_of script stage of
        Some (out # outs) \<Rightarrow> (out, AList.update stage outs script)
      | _ \<Rightarrow> (default_outcome, script))"

definition fake_execute ::
  "iso_parser \<Rightarrow> string \<Rightarrow> string \<Rightarrow> fake_script \<Rightarrow> ToolRunRequest \<Rightarrow> (fake_script \<times> RunnerExecution) res" where
  "fake_execute parse_iso started finished script q =
     (let (out, script') = next_outcome script (rq_stage q);
          failure = (if fo_failure_class out \<in> {''infra_resource_guard'', ''resource''} then ''infrastructure''
                     else fo_failure_class out) in
      bindR fake_fingerprint (\<lambda>fingerprint.
      bindR (cache_key q fingerprint) (\<lambda>request_hash.
      mapr (\<lambda>r. (script', bare_execution r)) (ToolRun_init parse_iso ((request_run q ''runner.fake'' request_hash)
        \<lparr>tr_status := fo_status out, tr_output_artifact_ids := fo_output_artifact_ids out,
         tr_gates := fo_gates out, tr_failure_class := failure, tr_exit_code := fo_exit_code out,
         tr_started_at := PStr started, tr_finished_at := PStr finished,
         tr_elapsed_s := PFloat (FFin False 0 0), tr_message := fo_message out,
         tr_metadata := dict_union (dict_union (dict_union [(KStr ''runner_fingerprint'', PStr fingerprint)]
             (rq_metadata q)) (unmeasured (fo_metadata out)))
           (resource_guard_metadata None @ runtime_guard_metadata None
            @ [(KStr ''fresh_execution'', PBool False), (KStr ''fresh_tool_truth'', PBool False),
               (KStr ''authority'', PStr ''synthetic''), (KStr ''tool_truth'', PBool False),
               (KStr ''staging_isolated'', PBool False), (KStr ''staged_output_manifest'', PList [])])\<rparr>)))))"

end
