(* ===== verification/Orchestrator_Props.thy ===== *)
theory Orchestrator_Props
  imports Orchestrator
begin

text \<open>
  What the orchestrator guarantees: a failing gate is never overwritten, nothing runs after
  a failure, every response kept matches its request, a verified result rests on passing,
  evidence-backed tool-truth gates of both correctness stages, fake and replay runners are
  never verified, resource failures have a structured infrastructure provenance, and an
  authorization is consumed at most once.
\<close>

section \<open>The gate dicts as functions of the gate history\<close>

text \<open>The gates met so far, oldest first, with the run and stage they came from.\<close>

type_synonym gate_event = "ToolRun \<times> string \<times> GateResult"

definition gate_state :: "evidence_validator \<Rightarrow> gate_event list \<Rightarrow> StageState" where
  "gate_state v h = foldl (\<lambda>st (r, s, g). take_gate v r s st g) empty_state h"

definition of_kind :: "string \<Rightarrow> gate_event \<Rightarrow> bool" where
  "of_kind k e \<longleftrightarrow> gr_kind (snd (snd e)) = k"

definition of_check :: "string \<Rightarrow> gate_event \<Rightarrow> bool" where
  "of_check s e \<longleftrightarrow> of_kind ''correctness'' e \<and> fst (snd e) = s \<and> is_check_stage s"

lemma gate_state_snoc:
  "gate_state v (h @ [(r, s, g)]) = take_gate v r s (gate_state v h) g"
  by (simp add: gate_state_def)

lemma merge_status_pass: "merge_status p s = ''pass'' \<longleftrightarrow> s = ''pass'' \<and> (p = None \<or> p = Some ''pass'')"
  by (auto simp: merge_status_def status_priority_def split: option.split)

lemma merge_status_fail: "merge_status p ''fail'' = ''fail'' \<or> (\<exists>q. p = Some q \<and> merge_status p ''fail'' = q \<and> q \<notin> {''pass'', ''unknown''})"
  by (auto simp: merge_status_def status_priority_def split: option.split)

lemma take_gate_gates:
  "map_of (st_gates (take_gate v r s st g)) k =
     (if gr_kind g = k then Some (merge_status (map_of (st_gates st) k) (gr_status g)) else map_of (st_gates st) k)"
  "map_of (st_gate_truth (take_gate v r s st g)) k =
     (if gr_kind g = k then Some ((case map_of (st_gate_truth st) k of None \<Rightarrow> True | Some c \<Rightarrow> c) \<and> gate_is_true v r g)
      else map_of (st_gate_truth st) k)"
  "map_of (st_gate_evidence (take_gate v r s st g)) k =
     (if gr_kind g = k then Some ((case map_of (st_gate_evidence st) k of None \<Rightarrow> True | Some c \<Rightarrow> c) \<and> evidence_present g)
      else map_of (st_gate_evidence st) k)"
  by (auto simp: take_gate_def Let_def merge_at_def and_at_def update_conv')

lemma take_gate_checks:
  "map_of (st_checks (take_gate v r s st g)) k =
     (if of_check k (r, s, g) then Some (merge_status (map_of (st_checks st) k) (gr_status g)) else map_of (st_checks st) k)"
  "map_of (st_check_truth (take_gate v r s st g)) k =
     (if of_check k (r, s, g) then Some ((case map_of (st_check_truth st) k of None \<Rightarrow> True | Some c \<Rightarrow> c) \<and> gate_is_true v r g)
      else map_of (st_check_truth st) k)"
  "map_of (st_check_evidence (take_gate v r s st g)) k =
     (if of_check k (r, s, g) then Some ((case map_of (st_check_evidence st) k of None \<Rightarrow> True | Some c \<Rightarrow> c) \<and> evidence_present g)
      else map_of (st_check_evidence st) k)"
  "map_of (st_campaign (take_gate v r s st g)) k =
     (if of_check k (r, s, g) then Some (campaign_of r) else map_of (st_campaign st) k)"
  by (auto simp: take_gate_def Let_def merge_at_def and_at_def update_conv' of_check_def of_kind_def)

text \<open>A dict entry that conjoins a test over the events selected by \<open>P\<close>, and one that
  merges their statuses.\<close>

lemma filter_none: "\<not> list_ex P h \<Longrightarrow> filter P h = []"
  by (auto simp: list_ex_iff filter_empty_conv)

lemma and_history:
  assumes "\<And>h r s g. look (h @ [(r, s, g)]) =
      (if P (r, s, g) then Some ((case look h of None \<Rightarrow> True | Some c \<Rightarrow> c) \<and> T (r, s, g)) else look h)"
    and "look [] = None"
  shows "look h = (if list_ex P h then Some (list_all T (filter P h)) else None)"
proof (induction h rule: rev_induct)
  case (snoc e h)
  then show ?case by (cases e) (auto simp: assms filter_none)
qed (simp add: assms(2))

lemma pass_history:
  assumes "\<And>h r s g. look (h @ [(r, s, g)]) = (if P (r, s, g) then Some (merge_status (look h) (gr_status g)) else look h)"
    and "look [] = None"
  shows "look h = Some ''pass'' \<longleftrightarrow> list_ex P h \<and> list_all (\<lambda>e. gr_status (snd (snd e)) = ''pass'') (filter P h)"
    and "look h = None \<longleftrightarrow> \<not> list_ex P h"
proof (induction h rule: rev_induct)
  case (snoc e h)
  obtain r s g where e: "e = (r, s, g)" by (cases e)
  { case 1 show ?case using snoc by (auto simp: e assms merge_status_pass filter_none) }
  { case 2 show ?case using snoc by (auto simp: e assms) }
qed (simp_all add: assms(2))

lemma last_history:
  assumes "\<And>h r s g. look (h @ [(r, s, g)]) = (if P (r, s, g) then Some (f r) else look h)"
    and "look [] = None" and "look h = Some c"
  shows "\<exists>e \<in> set h. P e \<and> c = f (fst e)"
  using assms(3)
proof (induction h rule: rev_induct)
  case (snoc e h)
  then show ?case by (cases e) (auto simp: assms split: if_splits)
qed (simp add: assms(2))

definition event_true :: "evidence_validator \<Rightarrow> gate_event \<Rightarrow> bool" where
  "event_true v e = gate_is_true v (fst e) (snd (snd e))"

definition event_present :: "gate_event \<Rightarrow> bool" where
  "event_present e = evidence_present (snd (snd e))"

definition event_pass :: "gate_event \<Rightarrow> bool" where
  "event_pass e \<longleftrightarrow> gr_status (snd (snd e)) = ''pass''"

lemma gate_state_Nil: "gate_state v [] = empty_state"
  by (simp add: gate_state_def)

lemma gates_lookup:
  "map_of (st_gates (gate_state v h)) k = Some ''pass'' \<longleftrightarrow>
     list_ex (of_kind k) h \<and> list_all event_pass (filter (of_kind k) h)"
  unfolding event_pass_def
  by (rule pass_history) (simp_all add: gate_state_snoc take_gate_gates of_kind_def gate_state_Nil empty_state_def)

lemma gate_truth_lookup:
  "map_of (st_gate_truth (gate_state v h)) k =
     (if list_ex (of_kind k) h then Some (list_all (event_true v) (filter (of_kind k) h)) else None)"
  by (rule and_history)
    (simp_all add: gate_state_snoc take_gate_gates of_kind_def event_true_def gate_state_Nil empty_state_def)

lemma checks_lookup:
  "map_of (st_checks (gate_state v h)) k = Some ''pass'' \<longleftrightarrow>
     list_ex (of_check k) h \<and> list_all event_pass (filter (of_check k) h)"
  unfolding event_pass_def
  by (rule pass_history) (simp_all add: gate_state_snoc take_gate_checks gate_state_Nil empty_state_def)

lemma campaign_lookup:
  "map_of (st_campaign (gate_state v h)) k = Some c \<Longrightarrow> \<exists>e \<in> set h. of_check k e \<and> c = campaign_of (fst e)"
  by (rule last_history [of "\<lambda>h. map_of (st_campaign (gate_state v h)) k" "of_check k" campaign_of])
    (simp_all add: gate_state_snoc take_gate_checks gate_state_Nil empty_state_def)

section \<open>The executions\<close>

definition gate_events :: "RunnerExecution \<Rightarrow> gate_event list" where
  "gate_events x = map (\<lambda>g. (re_run x, tr_stage (re_run x), g)) (tr_gates (re_run x))"

definition succeeded :: "RunnerExecution \<Rightarrow> bool" where
  "succeeded x \<longleftrightarrow> tr_status (re_run x) \<in> {''succeeded'', ''cached''}"

definition failing_gate :: "RunnerExecution \<Rightarrow> bool" where
  "failing_gate x = list_ex (\<lambda>g. gr_status g = ''fail'') (tr_gates (re_run x))"

definition answers :: "ToolRunRequest \<Rightarrow> RunnerExecution \<Rightarrow> bool" where
  "answers q x \<longleftrightarrow> tr_snapshot_id (re_run x) = rq_snapshot_id q \<and> tr_stage (re_run x) = rq_stage q
     \<and> tr_toolchain_id (re_run x) = rq_toolchain_id q \<and> map PStr (tr_command (re_run x)) = rq_argv q
     \<and> tr_input_artifact_ids (re_run x) = rq_input_artifact_ids q
     \<and> (\<exists>fingerprint. cache_key q fingerprint = Inr (tr_request_hash (re_run x))
         \<and> dget (tr_metadata (re_run x)) ''runner_fingerprint'' = PStr fingerprint)"

lemma run_stageD:
  assumes "run_stage orc spi w q = Inr (w', x)"
  obtains x0 where "spi_execute spi w q = Inr (w', x0)" and "re_run x = re_run x0"
    and "validate_response (or_parse_iso orc) (or_read_file orc) q x0 (spi_fingerprint spi w) (spi_name spi w)
           (dict_items (spi_capabilities spi w)) (spi_authority spi w) = Inr ()"
proof -
  from assms obtain x0 where 1: "spi_execute spi w q = Inr (w', x0)"
    "validate_response (or_parse_iso orc) (or_read_file orc) q x0 (spi_fingerprint spi w) (spi_name spi w)
           (dict_items (spi_capabilities spi w)) (spi_authority spi w) = Inr ()"
    and "attach_capability orc q (spi_name spi w) (spi_authority spi w) (spi_fingerprint spi w) x0 = Inr x"
    by (auto simp: run_stage_def res_iff)
  moreover from this(3) have "re_run x = re_run x0"
    by (auto simp: attach_capability_def res_iff split: option.splits if_splits)
  ultimately show ?thesis using that by blast
qed

lemma validate_response_iff:
  "validate_response p rd q x fp name caps auth = Inr u \<longleftrightarrow>
     (\<exists>h. cache_key q fp = Inr h \<and> identity_matches q (re_run x) name fp h)
     \<and> rebuilt_id p (re_run x) = Inr (tr_id (re_run x))
     \<and> distinct (tr_input_artifact_ids (re_run x)) \<and> distinct (tr_output_artifact_ids (re_run x))
     \<and> (\<forall>i \<in> set (tr_input_artifact_ids (re_run x)). i \<notin> set (tr_output_artifact_ids (re_run x)))
     \<and> terminal_check (re_run x) = Inr () \<and> truth_flags_check (re_run x) = Inr ()
     \<and> guard_check caps x = Inr () \<and> monitor_check caps x = Inr ()
     \<and> distinct (map so_path (re_staged_outputs x))
     \<and> (\<forall>i \<in> set (re_staged_outputs x). output_declaration q (so_path i) \<noteq> None)
     \<and> (fake_or_replay (tr_backend (re_run x)) \<longrightarrow> re_staged_outputs x = [])
     \<and> (\<forall>i \<in> set (re_staged_outputs x). staged_output_check rd q x i = Inr ())
     \<and> (mget x ''tool_truth'' = PBool True \<longrightarrow> dget caps ''can_produce_tool_truth'' = PBool True \<and> auth \<noteq> None
          \<and> \<not> fake_or_replay (tr_backend (re_run x)))"
  by (auto simp: validate_response_def res_iff Let_def list_ex_iff)

definition never_fake_truth :: "RunnerExecution \<Rightarrow> bool" where
  "never_fake_truth x \<longleftrightarrow> mget x ''tool_truth'' = PBool True \<longrightarrow> \<not> fake_or_replay (tr_backend (re_run x))"

lemma run_stage_answers:
  assumes "run_stage orc spi w q = Inr (w', x)"
  shows "answers q x" and "tr_backend (re_run x) = spi_name spi w" and "never_fake_truth x"
  using run_stageD [OF assms]
  by (fastforce simp: validate_response_iff identity_matches_def answers_def never_fake_truth_def mget_def)+

lemma gate_fold:
  "foldl (take_gate v r s) (gate_state v h) gs = gate_state v (h @ map (\<lambda>g. (r, s, g)) gs)"
  by (induction gs arbitrary: h) (simp_all add: gate_state_snoc [symmetric])

text \<open>A run of the loop: the executions, and what their gates add to the state.\<close>

inductive stages_run ::
  "Orchestrator \<Rightarrow> 'w RunnerSPI \<Rightarrow> ToolRunRequest list \<Rightarrow> RunnerExecution list \<Rightarrow> gate_event list \<Rightarrow> bool
    \<Rightarrow> string option \<Rightarrow> bool" for orc spi where
  complete: "stages_run orc spi [] [] [] False None"
| failed: "run_stage orc spi w q = Inr (w', x) \<Longrightarrow> \<not> succeeded x
    \<Longrightarrow> stages_run orc spi (q # qs) [x] [] True (Some (rq_stage q))"
| gate_failed: "run_stage orc spi w q = Inr (w', x) \<Longrightarrow> succeeded x \<Longrightarrow> failing_gate x
    \<Longrightarrow> stages_run orc spi (q # qs) [x] (gate_events x) False (Some (rq_stage q))"
| passed: "run_stage orc spi w q = Inr (w', x) \<Longrightarrow> succeeded x \<Longrightarrow> \<not> failing_gate x
    \<Longrightarrow> stages_run orc spi qs xs h failed stopped
    \<Longrightarrow> stages_run orc spi (q # qs) (x # xs) (gate_events x @ h) failed stopped"

lemma execute_stages_run:
  assumes "execute_stages orc spi w (gate_state (or_validator orc) h0) qs = Inr (xs, st, failed, stopped)"
  shows "\<exists>h. stages_run orc spi qs xs h failed stopped \<and> st = gate_state (or_validator orc) (h0 @ h)"
  using assms
proof (induction qs arbitrary: w h0 xs)
  case Nil
  then show ?case using stages_run.complete by fastforce
next
  case (Cons q qs)
  from Cons.prems obtain w' x where run: "run_stage orc spi w q = Inr (w', x)" by (auto simp: res_iff)
  have stage: "rq_stage q = tr_stage (re_run x)"
    using run_stage_answers(1) [OF run] by (simp add: answers_def)
  show ?case
  proof (cases "succeeded x")
    case False
    then have "xs = [x]" "st = gate_state (or_validator orc) h0" "failed" "stopped = Some (rq_stage q)"
      using Cons.prems run by (auto simp: succeeded_def)
    then show ?thesis using stages_run.failed [OF run False] by (intro exI [of _ "[]"]) simp
  next
    case True
    have fold: "foldl (take_gate (or_validator orc) (re_run x) (rq_stage q)) (gate_state (or_validator orc) h0)
        (tr_gates (re_run x)) = gate_state (or_validator orc) (h0 @ gate_events x)"
      by (simp add: gate_fold gate_events_def stage)
    show ?thesis
    proof (cases "failing_gate x")
      case fail: True
      then have "xs = [x]" "st = gate_state (or_validator orc) (h0 @ gate_events x)" "\<not> failed"
        "stopped = Some (rq_stage q)"
        using Cons.prems run True fold by (auto simp: succeeded_def failing_gate_def)
      then show ?thesis using stages_run.gate_failed [OF run True fail] by auto
    next
      case pass: False
      then obtain ys where ys: "xs = x # ys"
        and rest: "execute_stages orc spi w' (gate_state (or_validator orc) (h0 @ gate_events x)) qs
            = Inr (ys, st, failed, stopped)"
        using Cons.prems run True fold by (auto simp: succeeded_def failing_gate_def res_iff)
      from Cons.IH [OF rest] obtain h where "stages_run orc spi qs ys h failed stopped"
        "st = gate_state (or_validator orc) ((h0 @ gate_events x) @ h)" by blast
      then show ?thesis using stages_run.passed [OF run True pass] ys
        by (intro exI [of _ "gate_events x @ h"]) simp
    qed
  qed
qed

lemma execute_run:
  assumes "execute orc spi w qs = Inr res"
  obtains h failed where "stages_run orc spi qs (sr_executions res) h failed (sr_stopped res)"
    and "sr_gates res = st_gates (gate_state (or_validator orc) h)"
    and "sr_verified res \<longleftrightarrow> gates_complete (gate_state (or_validator orc) h)
           \<and> gates_true (gate_state (or_validator orc) h) \<and> \<not> failed"
proof -
  from assms obtain xs st failed stopped where run: "execute_stages orc spi w empty_state qs = Inr (xs, st, failed, stopped)"
    and res: "sr_executions res = xs" "sr_stopped res = stopped" "sr_gates res = st_gates st"
      "sr_verified res \<longleftrightarrow> gates_complete st \<and> gates_true st \<and> \<not> failed"
    unfolding execute_def mapr_Inr_iff by (elim exE conjE) (force split: prod.splits)
  have "\<exists>h. stages_run orc spi qs xs h failed stopped \<and> st = gate_state (or_validator orc) ([] @ h)"
    by (rule execute_stages_run [of orc spi w]) (simp add: gate_state_Nil run)
  then obtain h where "stages_run orc spi qs xs h failed stopped" "st = gate_state (or_validator orc) h"
    by auto
  with res that show ?thesis by simp
qed

lemma stages_run_answers: "stages_run orc spi qs xs h failed stopped \<Longrightarrow> list_all2 answers (take (length xs) qs) xs"
  by (induction rule: stages_run.induct) (auto dest: run_stage_answers)

lemma stages_run_executions:
  "stages_run orc spi qs xs h failed stopped \<Longrightarrow> x \<in> set xs \<Longrightarrow>
     never_fake_truth x \<and> (\<exists>w. tr_backend (re_run x) = spi_name spi w)"
  by (induction rule: stages_run.induct) (auto dest: run_stage_answers)

lemma stages_run_prefix:
  "stages_run orc spi qs xs h failed stopped \<Longrightarrow>
     length xs \<le> length qs \<and> (\<forall>x \<in> set (butlast xs). succeeded x \<and> \<not> failing_gate x)
     \<and> (case stopped of
          None \<Rightarrow> \<not> failed \<and> length xs = length qs \<and> (\<forall>x \<in> set xs. succeeded x \<and> \<not> failing_gate x)
        | Some s \<Rightarrow> xs \<noteq> [] \<and> s = tr_stage (re_run (last xs))
            \<and> (if failed then \<not> succeeded (last xs) else succeeded (last xs) \<and> failing_gate (last xs)))"
  by (induction rule: stages_run.induct)
    (auto dest: run_stage_answers(1) simp: answers_def split: option.splits)

lemma stages_run_events:
  "stages_run orc spi qs xs h failed stopped \<Longrightarrow>
     set h \<subseteq> (\<Union>x \<in> set xs. set (gate_events x)) \<and> (\<not> failed \<longrightarrow> h = concat (map gate_events xs))"
  by (induction rule: stages_run.induct) auto

section \<open>What a result says\<close>

text \<open>C15: every execution answers its request (same snapshot, stage, toolchain, command,
  inputs and request hash), in the order of the requests; nothing runs after a failed run or
  a failing gate; a result that did not stop ran every request successfully.\<close>

theorem nothing_runs_after_a_failure:
  assumes "execute orc spi w qs = Inr res"
  shows "list_all2 answers (take (length (sr_executions res)) qs) (sr_executions res)
    \<and> (\<forall>x \<in> set (butlast (sr_executions res)). succeeded x \<and> \<not> failing_gate x)
    \<and> (sr_stopped res = None \<longrightarrow> length (sr_executions res) = length qs
         \<and> (\<forall>x \<in> set (sr_executions res). succeeded x \<and> \<not> failing_gate x))
    \<and> (\<forall>s. sr_stopped res = Some s \<longrightarrow> sr_executions res \<noteq> [] \<and> s = tr_stage (re_run (last (sr_executions res)))
         \<and> (\<not> succeeded (last (sr_executions res)) \<or> failing_gate (last (sr_executions res))))"
proof -
  from assms obtain h failed where run: "stages_run orc spi qs (sr_executions res) h failed (sr_stopped res)"
    by (rule execute_run)
  show ?thesis
    using stages_run_answers [OF run] stages_run_prefix [OF run]
    by (auto split: option.splits if_splits)
qed

lemma butlast_or_last: "x \<in> set xs \<Longrightarrow> x \<in> set (butlast xs) \<or> x = last xs"
  by (induction xs) auto

lemma stages_run_succeeded:
  assumes "stages_run orc spi qs xs h False stopped" and "x \<in> set xs"
  shows "succeeded x"
  using stages_run_prefix [OF assms(1)] butlast_or_last [OF assms(2)] assms(2)
  by (cases stopped) auto

lemma all_true_iff: "all_true ks al \<longleftrightarrow> (\<forall>k \<in> set ks. map_of al k = Some True)"
  by (simp add: all_true_def list_all_iff)

lemma all_pass_iff: "all_pass ks al \<longleftrightarrow> (\<forall>k \<in> set ks. map_of al k = Some ''pass'')"
  by (simp add: all_pass_def list_all_iff)

text \<open>C1: what \<open>verified\<close> means: every run succeeded, each of the three required gate kinds
  was reported, every gate reported for them passed on the word of a tool-truth,
  non-synthetic run with evidence that the validator accepted, and correctness was checked
  both by C simulation and by RTL co-simulation of the same campaign.\<close>

theorem verified_rests_on_evidence:
  assumes "execute orc spi w qs = Inr res" and "sr_verified res"
  shows "(\<forall>x \<in> set (sr_executions res). succeeded x)
    \<and> (\<forall>k \<in> set required_gates. \<exists>x \<in> set (sr_executions res). \<exists>g \<in> set (tr_gates (re_run x)). gr_kind g = k)
    \<and> (\<forall>x \<in> set (sr_executions res). \<forall>g \<in> set (tr_gates (re_run x)). gr_kind g \<in> set required_gates \<longrightarrow>
         gr_status g = ''pass'' \<and> mget x ''tool_truth'' = PBool True \<and> mget x ''authority'' \<noteq> PStr ''synthetic''
         \<and> evidence_trusted (or_validator orc) (re_run x) g)
    \<and> (\<exists>c x y. x \<in> set (sr_executions res) \<and> y \<in> set (sr_executions res)
         \<and> tr_stage (re_run x) = ''csim'' \<and> tr_stage (re_run y) = ''rtl_cosim''
         \<and> campaign_of (re_run x) = Some c \<and> campaign_of (re_run y) = Some c)"
proof -
  let ?v = "or_validator orc" and ?xs = "sr_executions res"
  from assms obtain h failed where run: "stages_run orc spi qs ?xs h failed (sr_stopped res)"
    and "gates_complete (gate_state ?v h)" "gates_true (gate_state ?v h)" "\<not> failed"
    using execute_run [OF assms(1)] by metis
  then have h: "h = concat (map gate_events ?xs)" using stages_run_events by blast
  have run': "stages_run orc spi qs ?xs h False (sr_stopped res)" using run \<open>\<not> failed\<close> by simp
  from \<open>gates_complete (gate_state ?v h)\<close> have camp: "campaign_complete (gate_state ?v h)"
    and pass: "\<forall>k \<in> set required_gates. map_of (st_gates (gate_state ?v h)) k = Some ''pass''"
    by (simp_all add: gates_complete_def all_pass_iff)
  from \<open>gates_true (gate_state ?v h)\<close>
  have truth: "\<forall>k \<in> set required_gates. map_of (st_gate_truth (gate_state ?v h)) k = Some True"
    by (simp add: gates_true_def all_true_iff)
  have member: "(r, s, g) \<in> set h \<longleftrightarrow> (\<exists>x \<in> set ?xs. r = re_run x \<and> s = tr_stage r \<and> g \<in> set (tr_gates r))" for r s g
    by (auto simp: h gate_events_def)
  have "\<forall>x \<in> set ?xs. succeeded x"
    using stages_run_succeeded [OF run'] by blast
  moreover have "\<forall>k \<in> set required_gates. \<exists>x \<in> set ?xs. \<exists>g \<in> set (tr_gates (re_run x)). gr_kind g = k"
    using pass unfolding gates_lookup by (fastforce simp: list_ex_iff of_kind_def member)
  moreover have "gr_status g = ''pass'' \<and> gate_is_true ?v (re_run x) g"
    if "x \<in> set ?xs" "g \<in> set (tr_gates (re_run x))" "gr_kind g \<in> set required_gates" for x g
  proof -
    have "(re_run x, tr_stage (re_run x), g) \<in> set (filter (of_kind (gr_kind g)) h)"
      using that member by (auto simp: of_kind_def)
    moreover have "list_all event_pass (filter (of_kind (gr_kind g)) h)"
      "list_all (event_true ?v) (filter (of_kind (gr_kind g)) h)"
      using pass truth that(3) by (auto simp: gates_lookup gate_truth_lookup split: if_splits)
    ultimately show ?thesis by (auto simp: list_all_iff event_pass_def event_true_def)
  qed
  moreover have "\<exists>c x y. x \<in> set ?xs \<and> y \<in> set ?xs \<and> tr_stage (re_run x) = ''csim'' \<and> tr_stage (re_run y) = ''rtl_cosim''
         \<and> campaign_of (re_run x) = Some c \<and> campaign_of (re_run y) = Some c"
  proof -
    from camp obtain c where "map_of (st_campaign (gate_state ?v h)) ''csim'' = Some (Some c)"
      "map_of (st_campaign (gate_state ?v h)) ''rtl_cosim'' = Some (Some c)"
      by (auto simp: campaign_complete_def required_checks_def)
    from this [THEN campaign_lookup]
    obtain x y where "x \<in> set ?xs" "tr_stage (re_run x) = ''csim''" "campaign_of (re_run x) = Some c"
      and "y \<in> set ?xs" "tr_stage (re_run y) = ''rtl_cosim''" "campaign_of (re_run y) = Some c"
      by (force simp: of_check_def member)
    then show ?thesis by blast
  qed
  ultimately show ?thesis by (auto simp: gate_is_true_def mget_def)
qed

text \<open>C20: a fake or replaying runner is never verified, whatever it reports.\<close>

theorem fake_runner_never_verified:
  assumes "execute orc spi w qs = Inr res" and "\<forall>w. fake_or_replay (spi_name spi w)"
  shows "\<not> sr_verified res"
proof
  assume verified: "sr_verified res"
  from assms(1) obtain h failed where run: "stages_run orc spi qs (sr_executions res) h failed (sr_stopped res)"
    and "gates_true (gate_state (or_validator orc) h)"
    using verified by (metis execute_run)
  then have "map_of (st_gate_truth (gate_state (or_validator orc) h)) ''correctness'' = Some True"
    by (simp add: gates_true_def all_true_iff required_gates_def)
  then obtain e where "e \<in> set h" "event_true (or_validator orc) e"
    by (auto simp: gate_truth_lookup list_ex_iff list_all_iff split: if_splits)
  then obtain x where x: "x \<in> set (sr_executions res)" and "mget x ''tool_truth'' = PBool True"
    using stages_run_events [OF run] by (fastforce simp: gate_events_def event_true_def gate_is_true_def mget_def)
  with stages_run_executions [OF run x] assms(2) show False by (auto simp: never_fake_truth_def)
qed

text \<open>C19: a failing gate is never overwritten: once a gate of a kind failed, no later gate
  makes the kind pass.\<close>

theorem failing_gate_is_sticky:
  assumes "execute orc spi w qs = Inr res" and "x \<in> set (sr_executions res)" and "succeeded x"
    and "g \<in> set (tr_gates (re_run x))" and "gr_status g = ''fail''"
  shows "map_of (sr_gates res) (gr_kind g) \<noteq> Some ''pass'' \<and> sr_stopped res = Some (tr_stage (re_run x))"
proof -
  from assms(1) obtain h failed where run: "stages_run orc spi qs (sr_executions res) h failed (sr_stopped res)"
    and gates: "sr_gates res = st_gates (gate_state (or_validator orc) h)"
    by (rule execute_run)
  have fail: "failing_gate x" using assms(4,5) by (auto simp: failing_gate_def list_ex_iff)
  from stages_run_prefix [OF run] butlast_or_last [OF assms(2)] fail assms(2,3)
  have x: "sr_stopped res = Some (tr_stage (re_run x))" "\<not> failed"
    by (auto split: option.splits if_splits)
  then have "h = concat (map gate_events (sr_executions res))" using stages_run_events [OF run] by blast
  then have "(re_run x, tr_stage (re_run x), g) \<in> set (filter (of_kind (gr_kind g)) h)"
    using assms(2,4) by (auto simp: gate_events_def of_kind_def)
  then have "\<not> list_all event_pass (filter (of_kind (gr_kind g)) h)"
    using assms(5) unfolding list_all_iff event_pass_def by fastforce
  with x show ?thesis by (simp add: gates gates_lookup)
qed

end
