(* ===== verification/Orchestrator_Witness.thy ===== *)
theory Orchestrator_Witness
  imports Orchestrator_Props
begin

text \<open>
  Concrete executions: a runner that answers every request with a well-formed run, whose
  gates pass or fail and which claims tool truth or not.  The properties of the orchestrator
  are applied to what \<open>execute\<close> computes with it.
\<close>

definition witness_gates :: "string \<Rightarrow> GateResult list" where
  "witness_gates status = map (\<lambda>k. \<lparr>gr_kind = k, gr_status = status, gr_evidence_ids = [''e1''], gr_reason = None\<rparr>)
     [''correctness'', ''resource_fits'', ''post_route_timing'']"

definition witness_fingerprint :: string where
  "witness_fingerprint = replicate 64 (CHR ''f'')"

definition witness_response :: "string \<Rightarrow> string \<Rightarrow> bool \<Rightarrow> ToolRunRequest \<Rightarrow> string \<Rightarrow> ToolRun" where
  "witness_response name status truth q request_hash =
     (request_run q name request_hash)
       \<lparr>tr_status := ''succeeded'', tr_exit_code := PInt 0, tr_gates := witness_gates status,
        tr_metadata := [(KStr ''runner_fingerprint'', PStr witness_fingerprint), (KStr ''campaign_id'', PStr ''c1''),
          (KStr ''fresh_execution'', PBool False), (KStr ''fresh_tool_truth'', PBool False),
          (KStr ''tool_truth'', PBool truth)]\<rparr>"

definition witness_runner :: "string \<Rightarrow> string \<Rightarrow> bool \<Rightarrow> unit RunnerSPI" where
  "witness_runner name status truth =
     \<lparr>spi_name = \<lambda>_. name, spi_fingerprint = \<lambda>_. witness_fingerprint, spi_authority = \<lambda>_. Some ''runner'',
      spi_capabilities = \<lambda>_. pdict
        [(''protocol_version'', PStr PROTOCOL_VERSION), (''name'', PStr name),
         (''fingerprint'', PStr witness_fingerprint), (''can_report_resource_guard'', PBool False),
         (''can_report_runtime_resource_guard'', PBool False), (''can_produce_tool_truth'', PBool truth)],
      spi_execute = \<lambda>_ q. bindR (cache_key q witness_fingerprint) (\<lambda>h.
        mapr (\<lambda>r. ((), bare_execution r)) (ToolRun_init (\<lambda>_. None) (witness_response name status truth q h)))\<rparr>"

definition witness_orchestrator :: Orchestrator where
  "witness_orchestrator =
     \<lparr>or_parse_iso = \<lambda>_. None, or_read_file = \<lambda>_ _ _ _ _. Inl (StagingError ''none''),
      or_validator = Some (\<lambda>r i. i = ''e1''), or_context = None\<rparr>"

definition witness_stage_request :: "string \<Rightarrow> ToolRunRequest" where
  "witness_stage_request stage = witness_request\<lparr>rq_stage := stage\<rparr>"

lemma witness_cache_key:
  assumes "stage \<in> {''csim'', ''rtl_cosim''}"
  obtains h where "cache_key (witness_stage_request stage) witness_fingerprint = Inr h" and "is_sha256_lower h"
proof -
  have "is_ok (canonical_json (pdict
     [(''protocol'', PStr (rq_protocol_version q)), (''snapshot'', PStr (rq_snapshot_id q)),
      (''stage'', PStr (rq_stage q)), (''argv'', PList (rq_argv q)), (''cwd'', PStr (rq_working_directory q)),
      (''environment'', pdict (sort_key fst (rq_environment q))),
      (''environment_hash'', opt_str (rq_environment_hash q)), (''toolchain'', opt_str (rq_toolchain_id q)),
      (''inputs'', str_list (sort (rq_input_artifact_ids q))),
      (''input_manifest'', PList (map RunnerInput_identity_payload
         (sort_key (\<lambda>i. (ri_staged_path i, ri_artifact_id i)) (rq_inputs q)))),
      (''declared_outputs'', PList (map DeclaredOutput_identity_payload (sort_key do_path (rq_declared_outputs q)))),
      (''timeout_s'', rq_timeout_s q), (''nonzero_failure'', PStr (rq_nonzero_failure q)),
      (''metadata'', PDict (rq_metadata q)), (''runner'', PStr witness_fingerprint)]))"
    if "q = witness_stage_request ''csim'' \<or> q = witness_stage_request ''rtl_cosim''" for q
    using that by (elim disjE; hypsubst; code_simp)
  then show ?thesis using assms that by (fastforce simp: cache_key_def stable_hash_def is_ok_iff)
qed

text \<open>A run that passes the constructor's checks unchanged only gains its id, and is rebuilt
  with the same id.\<close>

lemma built_run:
  assumes "ToolRun_shape p r = Inr ()" and "guard_contract r = Inr ()"
    and "reject_embedded_body_fields (PDict (tr_metadata r)) = Inr ()"
    and "\<exists>t. canonical_json (ToolRun_identity r) = Inr t" and "tr_id r = []"
    and "lower (tr_request_hash r) = tr_request_hash r" and "map_option lower (tr_environment_hash r) = tr_environment_hash r"
    and "lower_fingerprint (tr_metadata r) = tr_metadata r"
  obtains i where "ToolRun_init p r = Inr (r\<lparr>tr_id := i\<rparr>)"
proof -
  have "r\<lparr>tr_request_hash := tr_request_hash r\<rparr> = r" by simp
  with assms(4,5,6) obtain i where "default_id (tr_id r) ''run'' (ToolRun_identity (r\<lparr>tr_request_hash := lower (tr_request_hash r)\<rparr>)) = Inr i"
    by (auto simp: default_id_def default_id_n_def stable_id_n_def stable_hash_def)
  then have "ToolRun_init p r = Inr (r\<lparr>tr_id := i\<rparr>)"
    unfolding ToolRun_init_iff using assms by simp
  then show ?thesis by (rule that)
qed

lemma rebuilt_run_id:
  assumes "ToolRun_init p r = Inr (r\<lparr>tr_id := i\<rparr>)" and "tr_id r = []"
    and "mapR GateResult_init (tr_gates r) = Inr (tr_gates r)"
    and "\<exists>j. json_ready (ToolRun_val (r\<lparr>tr_id := i\<rparr>)) = Inr j"
    and "\<exists>j. json_ready (PDict (tr_metadata r)) = Inr j \<and> dict_items (of_json j) = tr_metadata r"
  shows "rebuilt_id p (r\<lparr>tr_id := i\<rparr>) = Inr i"
proof -
  have "r\<lparr>tr_id := []\<rparr> = r" using assms(2) by (cases r) simp
  with assms(1) have "ToolRun_init p (r\<lparr>tr_id := []\<rparr>) = Inr (r\<lparr>tr_id := i\<rparr>)" by simp
  then show ?thesis
    using assms(3-5) by (auto simp: rebuilt_id_def rebuilt_run_def ToolRun_from_dict_def res_iff)
qed

lemma witness_response_built:
  assumes "stage \<in> {''csim'', ''rtl_cosim''}" and "status \<in> {''pass'', ''fail''}" and "name \<in> {''tool'', ''runner.fake''}"
    and h: "is_sha256_lower h"
  obtains i where "ToolRun_init p (witness_response name status truth (witness_stage_request stage) h)
      = Inr (witness_response name status truth (witness_stage_request stage) h\<lparr>tr_id := i\<rparr>)"
proof -
  let ?r = "witness_response name status truth (witness_stage_request stage) h"
  have names: "is_namespaced ''csim''" "is_namespaced ''rtl_cosim''" "is_namespaced ''s1''" "is_namespaced ''y''"
    "is_namespaced ''a1''" "is_namespaced ''a2''" "is_namespaced ''tool''" "is_namespaced ''runner.fake''"
    "is_sha256_lower witness_fingerprint" "strip ''.'' \<noteq> []" "\<not> has_nul ''.''" "strip ''r'' \<noteq> []" "\<not> has_nul ''r''"
    by code_simp+
  have body: "reject_embedded_body_fields (PDict (tr_metadata ?r)) = Inr ()"
    by (cases truth) (simp_all add: witness_response_def, code_simp+)
  have shape: "ToolRun_shape p ?r = Inr ()"
    using assms(1,3) names
    by (auto simp: ToolRun_shape_def witness_response_def request_run_def witness_stage_request_def witness_request_def
        checks_eval require_namespaced_def opt_namespaced_def run_ids_check_def run_times_check_def run_timestamp_def
        fingerprint_check_def dhas_def dget_def enum_value_def RunStatus_def FailureClass_def is_sha256_lower_imp [OF h]
        is_sha256_lower_imp)
  have guard: "guard_contract ?r = Inr ()"
    by (simp add: guard_contract_def witness_response_def request_run_def reject_def Let_def)
  have "\<exists>t. canonical_json (ToolRun_identity ?r) = Inr t"
    by (simp add: ToolRun_identity_def witness_response_def request_run_def canonical_json_def pdict_def dict_of_pairs_def)
  moreover have "lower_fingerprint (tr_metadata ?r) = tr_metadata ?r"
    using names by (simp add: lower_fingerprint_def witness_response_def dhas_def dget_def lower_sha256_lower)
  moreover have "tr_id ?r = []" "lower (tr_request_hash ?r) = tr_request_hash ?r"
    "map_option lower (tr_environment_hash ?r) = tr_environment_hash ?r"
    by (simp_all add: witness_response_def request_run_def lower_sha256_lower [OF h] witness_stage_request_def
        witness_request_def)
  ultimately show ?thesis using built_run [OF shape guard body] that by blast
qed

lemma witness_rebuilt:
  assumes "stage \<in> {''csim'', ''rtl_cosim''}" and "status \<in> {''pass'', ''fail''}" and "name \<in> {''tool'', ''runner.fake''}"
    and h: "is_sha256_lower h"
    and built: "ToolRun_init p (witness_response name status truth (witness_stage_request stage) h)
      = Inr (witness_response name status truth (witness_stage_request stage) h\<lparr>tr_id := i\<rparr>)"
  shows "rebuilt_id p (witness_response name status truth (witness_stage_request stage) h\<lparr>tr_id := i\<rparr>) = Inr i"
proof -
  let ?r = "witness_response name status truth (witness_stage_request stage) h"
  have gates: "mapR GateResult_init (tr_gates ?r) = Inr (tr_gates ?r)"
    using assms(2) by (simp add: witness_response_def) (elim disjE; hypsubst; code_simp)
  have "\<exists>j. json_ready (ToolRun_val (?r\<lparr>tr_id := i\<rparr>)) = Inr j"
    by (simp add: ToolRun_val_def witness_response_def request_run_def witness_gates_def GateResult_val_def
        witness_stage_request_def witness_request_def opt_str_def str_list_def)
  moreover have "\<exists>j. json_ready (PDict (tr_metadata ?r)) = Inr j \<and> dict_items (of_json j) = tr_metadata ?r"
    by (simp add: witness_response_def dict_of_pairs_def)
  moreover have "tr_id ?r = []" by (simp add: witness_response_def request_run_def)
  ultimately show ?thesis using rebuilt_run_id [OF built _ gates] by blast
qed

lemma witness_run_stage:
  assumes "stage \<in> {''csim'', ''rtl_cosim''}" and "status \<in> {''pass'', ''fail''}" and "name \<in> {''tool'', ''runner.fake''}"
    and "truth \<longrightarrow> name = ''tool''"
  obtains h i where "run_stage witness_orchestrator (witness_runner name status truth) () (witness_stage_request stage)
    = Inr ((), bare_execution (witness_response name status truth (witness_stage_request stage) h\<lparr>tr_id := i\<rparr>))"
proof -
  obtain h where h: "cache_key (witness_stage_request stage) witness_fingerprint = Inr h" "is_sha256_lower h"
    using witness_cache_key [OF assms(1)] by blast
  obtain i where i: "ToolRun_init (\<lambda>_. None) (witness_response name status truth (witness_stage_request stage) h)
      = Inr (witness_response name status truth (witness_stage_request stage) h\<lparr>tr_id := i\<rparr>)"
    using witness_response_built [OF assms(1-3) h(2)] by blast
  let ?r = "witness_response name status truth (witness_stage_request stage) h"
  let ?spi = "witness_runner name status truth" and ?q = "witness_stage_request stage"
  have rebuilt: "rebuilt_id (\<lambda>_. None) (?r\<lparr>tr_id := i\<rparr>) = Inr i"
    by (rule witness_rebuilt [OF assms(1-3) h(2) i])
  have fake: "\<not> fake_or_replay ''tool''" by code_simp
  have caps: "capabilities_check ?spi () = Inr ()"
    by (simp add: capabilities_check_def witness_runner_def pdict_def dict_of_pairs_def dget_def refuse_def reject_with_def)
  have "spi_execute ?spi () ?q = Inr ((), bare_execution (?r\<lparr>tr_id := i\<rparr>))"
    using h i by (simp add: witness_runner_def)
  moreover have "validate_response (or_parse_iso witness_orchestrator) (or_read_file witness_orchestrator) ?q
      (bare_execution (?r\<lparr>tr_id := i\<rparr>)) (spi_fingerprint ?spi ()) (spi_name ?spi ())
      (dict_items (spi_capabilities ?spi ())) (spi_authority ?spi ()) = Inr ()"
    unfolding validate_response_iff using h rebuilt assms(4) fake
    by (simp add: bare_execution_def witness_orchestrator_def witness_runner_def identity_matches_def witness_response_def
        request_run_def witness_stage_request_def witness_request_def dget_def mget_def terminal_check_def refuse_def
        truth_flags_check_def guard_check_def monitor_check_def checks_eval Let_def clean_exit_def pdict_def dict_of_pairs_def)
  moreover have "attach_capability witness_orchestrator ?q (spi_name ?spi ()) (spi_authority ?spi ()) (spi_fingerprint ?spi ())
      (bare_execution (?r\<lparr>tr_id := i\<rparr>)) = Inr (bare_execution (?r\<lparr>tr_id := i\<rparr>))"
    by (simp add: attach_capability_def witness_orchestrator_def)
  ultimately have "run_stage witness_orchestrator ?spi () ?q = Inr ((), bare_execution (?r\<lparr>tr_id := i\<rparr>))"
    using caps by (simp add: run_stage_def)
  then show ?thesis by (rule that)
qed

text \<open>Two requests of one campaign: C simulation and RTL co-simulation.\<close>

definition witness_requests :: "ToolRunRequest list" where
  "witness_requests = [witness_stage_request ''csim'', witness_stage_request ''rtl_cosim'']"

definition witness_state :: "string list \<Rightarrow> string \<Rightarrow> bool \<Rightarrow> StageState" where
  "witness_state stages status truth =
     \<lparr>st_gates = map (\<lambda>k. (k, status)) required_gates, st_checks = map (\<lambda>s. (s, status)) stages,
      st_gate_truth = map (\<lambda>k. (k, truth)) required_gates, st_gate_evidence = map (\<lambda>k. (k, True)) required_gates,
      st_check_truth = map (\<lambda>s. (s, truth)) stages, st_check_evidence = map (\<lambda>s. (s, True)) stages,
      st_campaign = map (\<lambda>s. (s, Some ''c1'')) stages\<rparr>"

lemma witness_gates_taken:
  assumes r: "tr_metadata r = tr_metadata (witness_response name status truth q h)" and "status \<in> {''pass'', ''fail''}"
    and v: "v = Some (\<lambda>r i. i = ''e1'')"
  shows "foldl (take_gate v r ''csim'') empty_state (witness_gates status) = witness_state [''csim''] status truth"
    and "foldl (take_gate v r ''rtl_cosim'') (witness_state [''csim''] status truth) (witness_gates status)
      = witness_state required_checks status truth"
proof -
  have "gate_is_true v r g = truth" "evidence_present g" if "gr_evidence_ids g = [''e1'']" for g
    using that by (auto simp: gate_is_true_def evidence_trusted_def evidence_present_def r v witness_response_def dget_def)
  moreover have "campaign_of r = Some ''c1''"
    by (simp add: campaign_of_def r witness_response_def dget_def)
  ultimately show "foldl (take_gate v r ''csim'') empty_state (witness_gates status) = witness_state [''csim''] status truth"
    "foldl (take_gate v r ''rtl_cosim'') (witness_state [''csim''] status truth) (witness_gates status)
      = witness_state required_checks status truth"
    by (simp_all add: witness_gates_def take_gate_def empty_state_def witness_state_def merge_at_def and_at_def
        merge_status_def is_check_stage_def required_gates_def required_checks_def Let_def)
qed

lemma witness_execute:
  assumes "status \<in> {''pass'', ''fail''}" and "name \<in> {''tool'', ''runner.fake''}" and "truth \<longrightarrow> name = ''tool''"
  obtains res x h i h' i' where "execute witness_orchestrator (witness_runner name status truth) () witness_requests = Inr res"
    and "sr_executions res = (if status = ''pass'' then [x, bare_execution
           (witness_response name status truth (witness_stage_request ''rtl_cosim'') h'\<lparr>tr_id := i'\<rparr>)] else [x])"
    and "x = bare_execution (witness_response name status truth (witness_stage_request ''csim'') h\<lparr>tr_id := i\<rparr>)"
    and "sr_verified res \<longleftrightarrow> status = ''pass'' \<and> truth"
    and "map_of (sr_gates res) ''correctness'' = Some status"
proof -
  let ?spi = "witness_runner name status truth"
  have stages: "''csim'' \<in> {''csim'', ''rtl_cosim''}" "''rtl_cosim'' \<in> {''csim'', ''rtl_cosim''}" by simp_all
  obtain h i where x: "run_stage witness_orchestrator ?spi () (witness_stage_request ''csim'')
    = Inr ((), bare_execution (witness_response name status truth (witness_stage_request ''csim'') h\<lparr>tr_id := i\<rparr>))"
    by (rule witness_run_stage [OF stages(1) assms])
  obtain h' i' where y: "run_stage witness_orchestrator ?spi () (witness_stage_request ''rtl_cosim'')
    = Inr ((), bare_execution (witness_response name status truth (witness_stage_request ''rtl_cosim'') h'\<lparr>tr_id := i'\<rparr>))"
    by (rule witness_run_stage [OF stages(2) assms])
  let ?x = "bare_execution (witness_response name status truth (witness_stage_request ''csim'') h\<lparr>tr_id := i\<rparr>)"
  let ?y = "bare_execution (witness_response name status truth (witness_stage_request ''rtl_cosim'') h'\<lparr>tr_id := i'\<rparr>)"
  have fields: "tr_status (re_run (bare_execution (witness_response name status truth q h\<lparr>tr_id := i\<rparr>))) = ''succeeded''"
    "tr_gates (re_run (bare_execution (witness_response name status truth q h\<lparr>tr_id := i\<rparr>))) = witness_gates status"
    "tr_metadata (re_run (bare_execution (witness_response name status truth q h\<lparr>tr_id := i\<rparr>)))
      = tr_metadata (witness_response name status truth q h)" for q h i
    by (simp_all add: bare_execution_def witness_response_def)
  have fail: "list_ex (\<lambda>g. gr_status g = ''fail'') (witness_gates status) \<longleftrightarrow> status \<noteq> ''pass''"
    using assms(1) by (auto simp: witness_gates_def)
  have stage: "rq_stage (witness_stage_request s) = s" for s by (simp add: witness_stage_request_def)
  have validator: "or_validator witness_orchestrator = Some (\<lambda>r i. i = ''e1'')" by (simp add: witness_orchestrator_def)
  note taken = witness_gates_taken [OF fields(3) assms(1) validator]
  have "execute_stages witness_orchestrator ?spi () empty_state witness_requests
    = Inr (if status = ''pass'' then ([?x, ?y], witness_state required_checks status truth, False, None)
           else ([?x], witness_state [''csim''] status truth, False, Some ''csim''))"
    unfolding witness_requests_def execute_stages.simps using x y taken fields fail
    by (cases "status = ''pass''") (simp_all add: stage Let_def)
  then have "execute witness_orchestrator ?spi () witness_requests = Inr
     (if status = ''pass''
      then \<lparr>sr_gates = map (\<lambda>k. (k, status)) required_gates, sr_checks = map (\<lambda>s. (s, status)) required_checks,
           sr_gates_complete = True, sr_tool_truth = truth, sr_verified = truth, sr_stopped = None, sr_executions = [?x, ?y]\<rparr>
      else \<lparr>sr_gates = map (\<lambda>k. (k, status)) required_gates, sr_checks = [(''csim'', status)], sr_gates_complete = False,
           sr_tool_truth = False, sr_verified = False, sr_stopped = Some ''csim'', sr_executions = [?x]\<rparr>)"
    by (simp add: execute_def gates_complete_def gates_true_def campaign_complete_def all_true_def all_pass_def
        required_gates_def required_checks_def witness_state_def)
  then show ?thesis
    by (rule that [OF _ _ refl]) (auto simp: required_gates_def)
qed

section \<open>The properties at concrete executions\<close>

theorem nothing_runs_after_a_failure_witness:
  "\<exists>res. execute witness_orchestrator (witness_runner ''tool'' ''fail'' True) () witness_requests = Inr res
     \<and> length (sr_executions res) = 1 \<and> list_all2 answers [witness_stage_request ''csim''] (sr_executions res)
     \<and> failing_gate (last (sr_executions res))"
proof -
  obtain res x h i h' i' where res: "execute witness_orchestrator (witness_runner ''tool'' ''fail'' True) () witness_requests = Inr res"
    and x: "sr_executions res = [x]"
      "x = bare_execution (witness_response ''tool'' ''fail'' True (witness_stage_request ''csim'') h\<lparr>tr_id := i\<rparr>)"
    by (rule witness_execute [of "''fail''" "''tool''" True]) auto
  have "failing_gate x" by (simp add: x(2) failing_gate_def bare_execution_def witness_response_def witness_gates_def)
  moreover have "list_all2 answers [witness_stage_request ''csim''] (sr_executions res)"
    using nothing_runs_after_a_failure [OF res] by (simp add: x(1) witness_requests_def)
  ultimately show ?thesis using res x(1) by auto
qed

theorem verified_rests_on_evidence_witness:
  "\<exists>res. execute witness_orchestrator (witness_runner ''tool'' ''pass'' True) () witness_requests = Inr res
     \<and> sr_verified res
     \<and> (\<exists>c x y. x \<in> set (sr_executions res) \<and> y \<in> set (sr_executions res)
         \<and> tr_stage (re_run x) = ''csim'' \<and> tr_stage (re_run y) = ''rtl_cosim''
         \<and> campaign_of (re_run x) = Some c \<and> campaign_of (re_run y) = Some c)"
proof -
  obtain res where res: "execute witness_orchestrator (witness_runner ''tool'' ''pass'' True) () witness_requests = Inr res"
    and v: "sr_verified res"
    by (rule witness_execute [of "''pass''" "''tool''" True]) auto
  from verified_rests_on_evidence [OF res v] res v show ?thesis by blast
qed

theorem fake_runner_never_verified_witness:
  "\<exists>res. execute witness_orchestrator (witness_runner ''runner.fake'' ''pass'' False) () witness_requests = Inr res
     \<and> length (sr_executions res) = 2 \<and> map_of (sr_gates res) ''correctness'' = Some ''pass'' \<and> \<not> sr_verified res"
proof -
  obtain res x y where res: "execute witness_orchestrator (witness_runner ''runner.fake'' ''pass'' False) () witness_requests = Inr res"
    and "sr_executions res = [x, y]" "map_of (sr_gates res) ''correctness'' = Some ''pass''"
    by (rule witness_execute [of "''pass''" "''runner.fake''" False]) auto
  moreover have "\<forall>w. fake_or_replay (spi_name (witness_runner ''runner.fake'' ''pass'' False) w)"
  proof -
    have "fake_or_replay ''runner.fake''" by code_simp
    then show ?thesis by (simp add: witness_runner_def)
  qed
  ultimately show ?thesis using fake_runner_never_verified [OF res] by auto
qed

theorem failing_gate_is_sticky_witness:
  "\<exists>res. execute witness_orchestrator (witness_runner ''tool'' ''fail'' True) () witness_requests = Inr res
     \<and> map_of (sr_gates res) ''correctness'' \<noteq> Some ''pass'' \<and> sr_stopped res = Some ''csim''"
proof -
  obtain res x h i h' i' where res: "execute witness_orchestrator (witness_runner ''tool'' ''fail'' True) () witness_requests = Inr res"
    and x: "sr_executions res = [x]"
      "x = bare_execution (witness_response ''tool'' ''fail'' True (witness_stage_request ''csim'') h\<lparr>tr_id := i\<rparr>)"
    by (rule witness_execute [of "''fail''" "''tool''" True]) auto
  let ?g = "hd (witness_gates ''fail'')"
  have "x \<in> set (sr_executions res)" "succeeded x" "?g \<in> set (tr_gates (re_run x))" "gr_status ?g = ''fail''"
    "gr_kind ?g = ''correctness''" "tr_stage (re_run x) = ''csim''"
    by (simp_all add: x(1)) (simp_all add: x(2) succeeded_def bare_execution_def witness_response_def request_run_def
        witness_gates_def witness_stage_request_def)
  with failing_gate_is_sticky [OF res] res show ?thesis by metis
qed

end
