(* ===== verification/Authorization.thy ===== *)
theory Authorization
  imports Orchestrator_Props
begin

text \<open>
  The one-shot authorization of a tool-truth commit as a state machine: orchestrators
  authorize (\<open>_ExecutionCapability.authorize\<close>), the ledger consumes
  (\<open>_consume_execution_authorization\<close>), and callers may present anything, copies and
  authorizations consumed before included.
\<close>

section \<open>Issuing\<close>

lemma commit_attestation_iff:
  "commit_attestation p c r artifacts = Inr x \<longleftrightarrow>
     \<not> ca_used c
     \<and> tr_id r = ca_run_id c \<and> tr_snapshot_id r = ds_id (ca_snapshot c) \<and> tr_backend r = ca_runner_identity c
     \<and> tr_request_hash r = ca_request_hash c
     \<and> dget (tr_metadata r) ''runner_fingerprint'' = PStr (ca_runner_fingerprint c)
     \<and> dget (tr_metadata r) ''tool_truth'' = PBool True \<and> dget (tr_metadata r) ''fresh_execution'' = PBool True
     \<and> dget (tr_metadata r) ''fresh_tool_truth'' = PBool True
     \<and> tool_run_stable_id_error p r = Inr None
     \<and> execution_attestation_error p x r (ca_snapshot c) (ca_manifest c) artifacts = Inr None
     \<and> commit_attestation p c r artifacts = Inr x"
  by (auto simp: commit_attestation_def res_iff Let_def split: option.splits)

lemma authorize_iff:
  "authorize p c r artifacts z = (Inr a, c', z') \<longleftrightarrow>
     commit_attestation p c r artifacts = Inr (eca_attestation a) \<and> eca_object a = az_next z
     \<and> map_of (az_active z) (xa_id (eca_attestation a)) = None \<and> c' = c\<lparr>ca_used := True\<rparr>
     \<and> z' = z\<lparr>az_next := Suc (az_next z), az_active := AList.update (xa_id (eca_attestation a)) a (az_active z)\<rparr>"
  by (cases a) (auto simp: authorize_def Let_def split: sum.splits if_splits)

lemma authorize_keeps: "authorize p c r artifacts z = (Inl e, c', z') \<Longrightarrow>
    az_active z' = az_active z \<and> az_next z \<le> az_next z'"
  by (auto simp: authorize_def Let_def split: sum.splits if_splits)

text \<open>C16: an authorization is issued only for an unused capability, for the very run the
  orchestrator validated, for fresh tool truth, and with an attestation that closes over the
  run, the snapshot, the manifest and the artifacts; it uses the capability up, and the
  ledger then consumes exactly that attestation, leaving the registry as it was.\<close>

theorem authorization_is_exact:
  assumes "authorize p c r artifacts z = (Inr a, c', z')"
  shows "tr_id r = ca_run_id c \<and> tr_request_hash r = ca_request_hash c
    \<and> dget (tr_metadata r) ''tool_truth'' = PBool True \<and> dget (tr_metadata r) ''fresh_execution'' = PBool True
    \<and> execution_attestation_error p (eca_attestation a) r (ca_snapshot c) (ca_manifest c) artifacts = Inr None
    \<and> (\<forall>r2 artifacts2 z2. \<exists>e. authorize p c' r2 artifacts2 z2 = (Inl e, c', z2))
    \<and> (\<exists>z2. consume_execution_authorization a z' = (Inr (eca_attestation a), z2) \<and> az_active z2 = az_active z
         \<and> (\<exists>e. consume_execution_authorization a z2 = (Inl e, z2)))"
proof -
  note iff = assms [unfolded authorize_iff]
  have "\<exists>e. authorize p c' r2 artifacts2 z2 = (Inl e, c', z2)" for r2 artifacts2 z2
  proof (cases "commit_attestation p c' r2 artifacts2")
    case (Inr x)
    then have "\<not> ca_used c'" by (subst (asm) commit_attestation_iff) blast
    with iff show ?thesis by simp
  qed (simp add: authorize_def)
  moreover let ?i = "xa_id (eca_attestation a)"
  have fresh: "?i \<notin> fst ` set (az_active z)" using iff by (simp add: map_of_eq_None_iff)
  then have del: "AList.delete ?i (AList.update ?i a (az_active z)) = az_active z"
    by (simp add: delete_update_same)
  define z2 where "z2 = z'\<lparr>az_active := az_active z\<rparr>"
  have "consume_execution_authorization a z' = (Inr (eca_attestation a), z2)"
    using iff del by (simp add: consume_execution_authorization_def Let_def z2_def update_conv)
  moreover have "\<exists>e. consume_execution_authorization a z2 = (Inl e, z2)"
    using iff fresh by (simp add: consume_execution_authorization_def Let_def z2_def delete_id)
  moreover have "az_active z2 = az_active z" by (simp add: z2_def)
  moreover have "commit_attestation p c r artifacts = Inr (eca_attestation a)" using iff by blast
  then have "tr_id r = ca_run_id c \<and> tr_request_hash r = ca_request_hash c
    \<and> dget (tr_metadata r) ''tool_truth'' = PBool True \<and> dget (tr_metadata r) ''fresh_execution'' = PBool True
    \<and> execution_attestation_error p (eca_attestation a) r (ca_snapshot c) (ca_manifest c) artifacts = Inr None"
    by (subst (asm) commit_attestation_iff) blast
  ultimately show ?thesis by blast
qed

section \<open>Histories\<close>

datatype commit_event =
  Issued ExecutionCommitAuthorization
| Consumed ExecutionCommitAuthorization ExecutionAttestation
| Rejected

text \<open>One object has one content: what is presented under the number of an issued
  authorization is that authorization.\<close>

definition presentable :: "commit_event list \<Rightarrow> ExecutionCommitAuthorization \<Rightarrow> bool" where
  "presentable es a = list_all (\<lambda>e. case e of Issued b \<Rightarrow> eca_object b = eca_object a \<longrightarrow> b = a | _ \<Rightarrow> True) es"

definition empty_registry :: AuthorizationRegistry where
  "empty_registry = \<lparr>az_active = [], az_next = 0\<rparr>"

inductive authorization_run :: "iso_parser \<Rightarrow> commit_event list \<Rightarrow> AuthorizationRegistry \<Rightarrow> bool" for p where
  start: "authorization_run p [] empty_registry"
| issue: "authorization_run p es z \<Longrightarrow> authorize p c r artifacts z = (Inr a, c', z')
    \<Longrightarrow> authorization_run p (es @ [Issued a]) z'"
| issue_refused: "authorization_run p es z \<Longrightarrow> authorize p c r artifacts z = (Inl e, c', z')
    \<Longrightarrow> authorization_run p (es @ [Rejected]) z'"
| consume: "authorization_run p es z \<Longrightarrow> presentable es a
    \<Longrightarrow> consume_execution_authorization a z = (Inr x, z') \<Longrightarrow> authorization_run p (es @ [Consumed a x]) z'"
| consume_refused: "authorization_run p es z \<Longrightarrow> presentable es a
    \<Longrightarrow> consume_execution_authorization a z = (Inl e, z') \<Longrightarrow> authorization_run p (es @ [Rejected]) z'"

fun consumed_object :: "commit_event \<Rightarrow> nat list" where
  "consumed_object (Consumed a x) = [eca_object a]"
| "consumed_object _ = []"

definition consumed_objects :: "commit_event list \<Rightarrow> nat list" where
  "consumed_objects es = concat (map consumed_object es)"

text \<open>The invariant of the registry with respect to its history.\<close>

definition registry_ok :: "commit_event list \<Rightarrow> AuthorizationRegistry \<Rightarrow> bool" where
  "registry_ok es z \<longleftrightarrow>
     distinct (map fst (az_active z)) \<and> distinct (consumed_objects es)
     \<and> (\<forall>a. Issued a \<in> set es \<longrightarrow> eca_object a < az_next z)
     \<and> (\<forall>n \<in> set (consumed_objects es). n < az_next z)
     \<and> (\<forall>i a. (i, a) \<in> set (az_active z) \<longrightarrow> i = xa_id (eca_attestation a) \<and> Issued a \<in> set es
          \<and> eca_object a \<notin> set (consumed_objects es))
     \<and> (\<forall>i a j b. (i, a) \<in> set (az_active z) \<longrightarrow> (j, b) \<in> set (az_active z) \<longrightarrow> eca_object a = eca_object b \<longrightarrow> i = j)"

lemma consumed_objects_snoc [simp]: "consumed_objects (es @ [e]) = consumed_objects es @ consumed_object e"
  by (simp add: consumed_objects_def)

lemma consume_Inr_iff:
  "consume_execution_authorization a z = (Inr x, z') \<longleftrightarrow>
     (\<exists>b. map_of (az_active z) (xa_id (eca_attestation a)) = Some b \<and> eca_object b = eca_object a)
     \<and> x = eca_attestation a \<and> z' = z\<lparr>az_active := AList.delete (xa_id (eca_attestation a)) (az_active z)\<rparr>"
  by (auto simp: consume_execution_authorization_def Let_def)

lemma consume_Inl:
  "consume_execution_authorization a z = (Inl e, z') \<Longrightarrow>
     z' = z\<lparr>az_active := AList.delete (xa_id (eca_attestation a)) (az_active z)\<rparr>"
  by (auto simp: consume_execution_authorization_def Let_def split: if_splits)

lemma set_delete: "(k, v) \<in> set (AList.delete i al) \<longleftrightarrow> k \<noteq> i \<and> (k, v) \<in> set al"
  by (auto simp: AList.delete_eq)

lemma update_unregistered: "map_of al k = None \<Longrightarrow> AList.update k v al = al @ [(k, v)]"
  by (induction al) (auto split: if_splits)

lemma registry_ok_delete:
  "registry_ok es z \<Longrightarrow> registry_ok es (z\<lparr>az_active := AList.delete i (az_active z)\<rparr>)"
  unfolding registry_ok_def by (simp add: distinct_delete set_delete) blast

lemma registry_ok_issue:
  assumes "registry_ok es z" and "authorize p c r artifacts z = (Inr a, c', z')"
  shows "registry_ok (es @ [Issued a]) z'"
proof -
  note iff = assms(2) [unfolded authorize_iff]
  then have z': "az_active z' = az_active z @ [(xa_id (eca_attestation a), a)]" "az_next z' = Suc (az_next z)"
    "eca_object a = az_next z" "xa_id (eca_attestation a) \<notin> fst ` set (az_active z)"
    by (simp_all add: update_unregistered map_of_eq_None_iff)
  have "eca_object b \<noteq> az_next z" if "(i, b) \<in> set (az_active z)" for i b
    using assms(1) that unfolding registry_ok_def by fastforce
  with assms(1) z' show ?thesis
    unfolding registry_ok_def by (fastforce simp: less_Suc_eq)
qed

lemma registry_ok_rejected: "registry_ok (es @ [Rejected]) z \<longleftrightarrow> registry_ok es z"
  by (simp add: registry_ok_def)

lemma registry_ok_reject:
  assumes "registry_ok es z" and "authorize p c r artifacts z = (Inl e, c', z')"
  shows "registry_ok (es @ [Rejected]) z'"
  using assms(1) authorize_keeps [OF assms(2)] unfolding registry_ok_rejected
  unfolding registry_ok_def by (auto intro: less_le_trans)

lemma registry_ok_consumed:
  assumes ok: "registry_ok es z" and a: "(i, a) \<in> set (az_active z)" "i = xa_id (eca_attestation a)"
    and "eca_object a \<notin> set (consumed_objects es)" "eca_object a < az_next z"
  shows "registry_ok (es @ [Consumed a x]) (z\<lparr>az_active := AList.delete i (az_active z)\<rparr>)"
proof -
  have "eca_object b \<noteq> eca_object a" if "(j, b) \<in> set (az_active z)" "j \<noteq> i" for j b
    using ok a that unfolding registry_ok_def by blast
  with registry_ok_delete [OF ok, of i] assms(4,5) show ?thesis
    unfolding registry_ok_def by (auto simp: set_delete)
qed

lemma registry_ok_consume:
  assumes "registry_ok es z" and "presentable es a" and "consume_execution_authorization a z = (Inr x, z')"
  shows "Issued a \<in> set es" and "x = eca_attestation a" and "registry_ok (es @ [Consumed a x]) z'"
proof -
  note iff = assms(3) [unfolded consume_Inr_iff]
  then obtain b where b: "(xa_id (eca_attestation a), b) \<in> set (az_active z)" "eca_object b = eca_object a"
    by (auto dest: map_of_SomeD)
  with assms(1) have "Issued b \<in> set es" "eca_object b \<notin> set (consumed_objects es)" "eca_object b < az_next z"
    unfolding registry_ok_def by fastforce+
  moreover from this(1) assms(2) b(2) have "b = a" by (force simp: presentable_def list_all_iff)
  ultimately show "Issued a \<in> set es" "x = eca_attestation a"
    and "registry_ok (es @ [Consumed a x]) z'"
    using iff registry_ok_consumed [OF assms(1), of "xa_id (eca_attestation a)" a x] b \<open>b = a\<close> by simp_all
qed

lemma authorization_run_ok: "authorization_run p es z \<Longrightarrow> registry_ok es z"
proof (induction rule: authorization_run.induct)
  case start
  then show ?case by (simp add: registry_ok_def empty_registry_def consumed_objects_def)
next
  case (consume_refused es z a e z')
  then show ?case using registry_ok_delete [of es z] consume_Inl [OF consume_refused(3)]
    by (simp add: registry_ok_rejected)
next
  case (issue es z c r artifacts a c' z')
  show ?case by (rule registry_ok_issue [OF issue(3,2)])
next
  case (issue_refused es z c r artifacts e c' z')
  show ?case by (rule registry_ok_reject [OF issue_refused(3,2)])
next
  case (consume es z a x z')
  show ?case by (rule registry_ok_consume(3) [OF consume(4,2,3)])
qed

definition justified :: "commit_event list \<Rightarrow> bool" where
  "justified es \<longleftrightarrow> (\<forall>i a x. i < length es \<longrightarrow> es ! i = Consumed a x
     \<longrightarrow> Issued a \<in> set (take i es) \<and> x = eca_attestation a)"

lemma justified_snoc:
  assumes "justified es" and "\<And>a x. e = Consumed a x \<Longrightarrow> Issued a \<in> set es \<and> x = eca_attestation a"
  shows "justified (es @ [e])"
  unfolding justified_def
proof (intro allI impI)
  fix i a x
  assume i: "i < length (es @ [e])" "(es @ [e]) ! i = Consumed a x"
  show "Issued a \<in> set (take i (es @ [e])) \<and> x = eca_attestation a"
  proof (cases "i < length es")
    case True
    with i assms(1) show ?thesis by (simp add: justified_def nth_append)
  next
    case False
    with i have "i = length es" by simp
    with i assms(2) show ?thesis by simp
  qed
qed

lemma justified_Nil: "justified []"
  by (simp add: justified_def)

lemma authorization_run_justified: "authorization_run p es z \<Longrightarrow> justified es"
proof (induction rule: authorization_run.induct)
  case (consume es z a x z')
  show ?case using registry_ok_consume(1,2) [OF authorization_run_ok [OF consume(1)] consume(2,3)]
    by (intro justified_snoc [OF consume(4)]) simp
next
  case (issue es z c r artifacts a c' z')
  show ?case by (rule justified_snoc [OF issue(3)]) simp
next
  case (issue_refused es z c r artifacts e c' z')
  show ?case by (rule justified_snoc [OF issue_refused(3)]) simp
next
  case (consume_refused es z a e z')
  show ?case by (rule justified_snoc [OF consume_refused(4)]) simp
qed (rule justified_Nil)

text \<open>C2: whatever is presented in whatever order, an authorization is consumed at most
  once, only after it was issued, and the ledger receives the attestation it was issued
  with.\<close>

theorem authorization_is_one_shot:
  assumes "authorization_run p es z"
  shows "distinct (consumed_objects es)
    \<and> (\<forall>i a x. i < length es \<longrightarrow> es ! i = Consumed a x \<longrightarrow> Issued a \<in> set (take i es) \<and> x = eca_attestation a)"
  using authorization_run_ok [OF assms] authorization_run_justified [OF assms]
  by (simp add: registry_ok_def justified_def)

section \<open>A concrete authorization\<close>

definition witness_capability :: "string \<Rightarrow> ManifestHashes \<Rightarrow> ExecutionCapability" where
  "witness_capability i h =
     \<lparr>ca_snapshot = witness_snapshot h, ca_manifest = witness_manifest, ca_request_hash = replicate 64 (CHR ''a''),
      ca_run_id = i, ca_runner_authority = ''hlsgraph.runner_authority.builtin_local.v1'',
      ca_runner_identity = ''runner.local'', ca_runner_fingerprint = replicate 64 (CHR ''a''), ca_used = False\<rparr>"

lemma attestation_id_unchecked:
  "execution_attestation_error p (x\<lparr>xa_id := j\<rparr>) r s m artifacts = execution_attestation_error p x r s m artifacts"
proof -
  have "run_identity_check (x\<lparr>xa_id := j\<rparr>) = run_identity_check x" "manifest_hash_check (x\<lparr>xa_id := j\<rparr>) = manifest_hash_check x"
    by (simp_all add: run_identity_check_def manifest_hash_check_def fun_eq_iff)
  moreover have outputs: "xa_outputs (x\<lparr>xa_id := j\<rparr>) = xa_outputs x" by simp
  have "outputs_check (x\<lparr>xa_id := j\<rparr>) = outputs_check x"
    unfolding fun_eq_iff outputs_check_def outputs by simp
  ultimately show ?thesis by (simp add: execution_attestation_error_def)
qed

lemma stable_hash_shape: "stable_hash v = Inr h \<Longrightarrow> is_sha256_lower h"
  by (auto simp: stable_hash_def res_iff)

lemma manifest_hashes_shape:
  "manifest_hashes m = Inr h \<Longrightarrow> is_sha256_lower (mh_manifest h) \<and> is_sha256_lower (mh_build h)
     \<and> is_sha256_lower (mh_target h) \<and> is_sha256_lower (mh_constraint h) \<and> is_sha256_lower (mh_toolchain h)"
  by (auto simp: manifest_hashes_def res_iff dest: stable_hash_shape)

lemma witness_attestation_built:
  assumes st: "st \<in> witness_stages" and h: "manifest_hashes witness_manifest = Inr h"
    and rh: "payload_hash (ToolRun_val (witness_stage_run st i)) = Inr run_hash" and "is_namespaced i"
  obtains j where "ExecutionAttestation_init ((witness_attestation (witness_stage_run st i) run_hash h)\<lparr>xa_id := []\<rparr>)
      = Inr ((witness_attestation (witness_stage_run st i) run_hash h)\<lparr>xa_id := j\<rparr>)"
proof -
  let ?x = "witness_attestation (witness_stage_run st i) run_hash h"
  have lists: "sort_key xd_path (witness_declared st) = witness_declared st"
    "sort_key xo_path (witness_attested_outputs st) = witness_attested_outputs st"
    "distinct (map xd_path (witness_declared st))" "distinct (map xo_path (witness_attested_outputs st))"
    "distinct (map xo_artifact_id (witness_attested_outputs st))"
    by (simp_all add: witness_declared_def witness_attested_outputs_def)
  have "is_sha256_lower run_hash" using rh by (auto simp: payload_hash_def res_iff dest: stable_hash_shape)
  moreover have "is_sha256_lower (replicate 64 (CHR ''a''))" by code_simp
  moreover have "is_namespaced ''s1''" "is_namespaced ''runner.local''" "is_namespaced ''y''"
    "is_namespaced ''hlsgraph.runner_authority.builtin_local.v1''" "is_namespaced EXECUTION_ATTESTATION_PROTOCOL"
    "is_namespaced EXECUTION_ATTESTATION_VALIDATOR"
    by code_simp+
  moreover have "is_namespaced st" by (rule witness_stage_cases [OF st]; code_simp)
  moreover have "\<exists>t. canonical_json (ExecutionAttestation_identity ?x) = Inr t"
    by (simp add: ExecutionAttestation_identity_def witness_attestation_def witness_declared_def witness_attested_outputs_def
        canonical_json_def pdict_def dict_of_pairs_def ExecutionDeclaredOutput_val_def ExecutionOutputAttestation_val_def)
  then have "\<exists>j. closed_id_n [] ''execution_attestation'' (ExecutionAttestation_identity ?x) 32
       ''execution attestation stable id does not match'' = Inr j"
    by (auto simp: res_iff stable_id_n_def stable_hash_def)
  then obtain j where "closed_id_n [] ''execution_attestation'' (ExecutionAttestation_identity ?x) 32
       ''execution attestation stable id does not match'' = Inr j" ..
  moreover have "ExecutionAttestation_identity (?x\<lparr>xa_id := []\<rparr>) = ExecutionAttestation_identity ?x"
    by (simp add: ExecutionAttestation_identity_def)
  ultimately have "ExecutionAttestation_init (?x\<lparr>xa_id := []\<rparr>) = Inr (?x\<lparr>xa_id := j\<rparr>)"
    using manifest_hashes_shape [OF h] assms(4)
    by (simp add: ExecutionAttestation_init_def witness_attestation_def witness_stage_run_def lists checks_eval
        digest_check_def require_namespaced_def casefold_sha256_lower)
  then show ?thesis by (rule that)
qed

lemma stable_run_id_namespaced: "tool_run_stable_id_error p r = Inr None \<Longrightarrow> is_namespaced (tr_id r)"
proof -
  assume "tool_run_stable_id_error p r = Inr None"
  then obtain j where j: "(case rebuilt_run p r j of
       Inr expected \<Rightarrow> blame (tr_id r \<noteq> tr_id expected) ''run stable ID does not match''
     | Inl e \<Rightarrow> (if lookup_or_value_error e
                then Inr (Some ''run payload cannot be canonically reconstructed: '') else Inl e)) = Inr None"
    unfolding tool_run_stable_id_error_def bindR_Inr_iff by blast
  then obtain e where "rebuilt_run p r j = Inr e" "tr_id e = tr_id r"
    by (cases "rebuilt_run p r j") (auto simp: blame_iff split: if_splits)
  then obtain gs m where "tr_id r = tr_id e" "ToolRun_init p (r\<lparr>tr_id := [], tr_metadata := m, tr_gates := gs\<rparr>) = Inr e"
    unfolding rebuilt_run_def ToolRun_from_dict_def bindR_Inr_iff by metis
  moreover have "is_namespaced ''run''" by code_simp
  ultimately show ?thesis by (auto simp: ToolRun_init_iff default_id_def default_id_n_def dest: stable_id_namespaced)
qed

lemma witness_issued:
  assumes st: "st \<in> witness_stages"
  obtains i h run_hash j where "tool_run_stable_id_error (\<lambda>_. None) (witness_stage_run st i) = Inr None"
    "manifest_hashes witness_manifest = Inr h" "payload_hash (ToolRun_val (witness_stage_run st i)) = Inr run_hash"
    "commit_attestation (\<lambda>_. None) (witness_capability i h) (witness_stage_run st i) (witness_outputs st i)
       = Inr ((witness_attestation (witness_stage_run st i) run_hash h)\<lparr>xa_id := j\<rparr>)"
proof -
  obtain i where i: "tool_run_stable_id_error (\<lambda>_. None) (witness_stage_run st i) = Inr None"
    using witness_stage_run_id [OF st] ..
  obtain h where h: "manifest_hashes witness_manifest = Inr h" using witness_manifest_hashes ..
  obtain run_hash where rh: "payload_hash (ToolRun_val (witness_stage_run st i)) = Inr run_hash"
    using witness_stage_run_hash ..
  have "is_namespaced i" using stable_run_id_namespaced [OF i] by (simp add: witness_stage_run_def)
  obtain j where j: "ExecutionAttestation_init ((witness_attestation (witness_stage_run st i) run_hash h)\<lparr>xa_id := []\<rparr>)
      = Inr ((witness_attestation (witness_stage_run st i) run_hash h)\<lparr>xa_id := j\<rparr>)"
    by (rule witness_attestation_built [OF st h rh \<open>is_namespaced i\<close>])
  let ?x = "(witness_attestation (witness_stage_run st i) run_hash h)\<lparr>xa_id := j\<rparr>"
  have "mapR declared_output_of (stage_outputs_of witness_manifest st) = Inr (witness_declared st)"
    by (rule witness_stage_cases [OF st]; code_simp)
  moreover have "list_all (\<lambda>out. ExecutionOutputAttestation_init out = Inr out) (witness_attested_outputs st)"
    by (rule witness_stage_cases [OF st]; code_simp)
  then have "mapR (\<lambda>a. ExecutionOutputAttestation_init
        \<lparr>xo_artifact_id = ar_id a, xo_path = (let v = dget (ar_metadata a) ''declared_output_path'' in
           if dhas (ar_metadata a) ''declared_output_path'' then py_str v else []), xo_kind = ar_kind a,
         xo_sha256 = ar_sha256 a, xo_size = PInt (ar_size a)\<rparr>) (witness_outputs st i) = Inr (witness_attested_outputs st)"
    by (cases "st = ''lint''") (simp_all add: witness_outputs_def witness_attested_outputs_def witness_output_def
        witness_artifact_def dget_def dhas_def py_str_def)
  moreover have "execution_attestation_error (\<lambda>_. None) ?x (witness_stage_run st i) (witness_snapshot h) witness_manifest
      (witness_outputs st i) = Inr None"
    using witness_attested [OF st i h rh] by (simp only: attestation_id_unchecked)
  ultimately have "commit_attestation (\<lambda>_. None) (witness_capability i h) (witness_stage_run st i) (witness_outputs st i) = Inr ?x"
    using i rh j
    by (simp add: commit_attestation_def witness_capability_def checks_eval refuse_def witness_stage_run_def
        witness_snapshot_def dget_def witness_attestation_def)
  with i h rh show ?thesis by (rule that)
qed

lemma witness_authorized:
  assumes st: "st \<in> witness_stages"
  obtains i h x where "authorize (\<lambda>_. None) (witness_capability i h) (witness_stage_run st i) (witness_outputs st i) empty_registry
    = (Inr \<lparr>eca_attestation = x, eca_object = 0\<rparr>, (witness_capability i h)\<lparr>ca_used := True\<rparr>,
       \<lparr>az_active = [(xa_id x, \<lparr>eca_attestation = x, eca_object = 0\<rparr>)], az_next = Suc 0\<rparr>)"
proof -
  obtain i h run_hash j where "commit_attestation (\<lambda>_. None) (witness_capability i h) (witness_stage_run st i) (witness_outputs st i)
       = Inr ((witness_attestation (witness_stage_run st i) run_hash h)\<lparr>xa_id := j\<rparr>)"
    by (rule witness_issued [OF st])
  then show ?thesis
    by (intro that [of i h "(witness_attestation (witness_stage_run st i) run_hash h)\<lparr>xa_id := j\<rparr>"])
      (simp add: authorize_def empty_registry_def Let_def)
qed

theorem authorization_is_exact_witness:
  "\<exists>i h a c' z'. authorize (\<lambda>_. None) (witness_capability i h) (witness_stage_run ''csim'' i) (witness_outputs ''csim'' i) empty_registry
       = (Inr a, c', z')
     \<and> (\<exists>z2. consume_execution_authorization a z' = (Inr (eca_attestation a), z2) \<and> az_active z2 = [])"
proof -
  obtain i h x where a: "authorize (\<lambda>_. None) (witness_capability i h) (witness_stage_run ''csim'' i) (witness_outputs ''csim'' i) empty_registry
    = (Inr \<lparr>eca_attestation = x, eca_object = 0\<rparr>, (witness_capability i h)\<lparr>ca_used := True\<rparr>,
       \<lparr>az_active = [(xa_id x, \<lparr>eca_attestation = x, eca_object = 0\<rparr>)], az_next = Suc 0\<rparr>)"
    by (rule witness_authorized [OF witness_stage_names(1)])
  have "\<exists>z2. consume_execution_authorization \<lparr>eca_attestation = x, eca_object = 0\<rparr>
      \<lparr>az_active = [(xa_id x, \<lparr>eca_attestation = x, eca_object = 0\<rparr>)], az_next = Suc 0\<rparr> = (Inr x, z2) \<and> az_active z2 = []"
    using authorization_is_exact [OF a] by (auto simp: empty_registry_def)
  then show ?thesis by (intro exI) (rule conjI [OF a], simp)
qed

text \<open>One authorization, presented twice.\<close>

theorem authorization_is_one_shot_witness:
  "\<exists>a x z. authorization_run (\<lambda>_. None) [Issued a, Consumed a x, Rejected] z \<and> x = eca_attestation a"
proof -
  obtain i h x where a: "authorize (\<lambda>_. None) (witness_capability i h) (witness_stage_run ''csim'' i) (witness_outputs ''csim'' i) empty_registry
    = (Inr \<lparr>eca_attestation = x, eca_object = 0\<rparr>, (witness_capability i h)\<lparr>ca_used := True\<rparr>,
       \<lparr>az_active = [(xa_id x, \<lparr>eca_attestation = x, eca_object = 0\<rparr>)], az_next = Suc 0\<rparr>)" (is "_ = (Inr ?a, _, ?z)")
    by (rule witness_authorized [OF witness_stage_names(1)])
  let ?z' = "\<lparr>az_active = [], az_next = Suc 0\<rparr>"
  have issued: "authorization_run (\<lambda>_. None) ([] @ [Issued ?a]) ?z"
    by (rule authorization_run.issue [OF authorization_run.start a])
  have "consume_execution_authorization ?a ?z = (Inr x, ?z')"
    by (simp add: consume_execution_authorization_def Let_def)
  from authorization_run.consume [OF issued _ this]
  have consumed: "authorization_run (\<lambda>_. None) (([] @ [Issued ?a]) @ [Consumed ?a x]) ?z'"
    by (simp add: presentable_def)
  obtain e where "consume_execution_authorization ?a ?z' = (Inl e, ?z')"
    by (simp add: consume_execution_authorization_def Let_def)
  from authorization_run.consume_refused [OF consumed _ this]
  have run: "authorization_run (\<lambda>_. None) [Issued ?a, Consumed ?a x, Rejected] ?z'"
    by (simp add: presentable_def)
  from authorization_is_one_shot [OF run]
  have "x = eca_attestation ?a" by (auto dest: spec [of _ "Suc 0"])
  with run show ?thesis by (intro exI conjI)
qed

end
