(* ===== verification/Knowledge_Match.thy ===== *)
theory Knowledge_Match
  imports Model_Knowledge PyRepr
begin

text \<open>
  Matching of knowledge rules and bindings against a context (\<open>hlsgraph/knowledge/core.py\<close>):
  version keys and their order, the comparison of context scalars, the constraint matcher,
  and the pack-load proof that a binding is at least as strong as the condition of its rule.
\<close>

section \<open>Versions\<close>

text \<open>The tuples \<open>(0, int)\<close> and \<open>(1, str)\<close> and their order: numbers come before words.\<close>

datatype version_part = VNum nat | VWord string

instantiation version_part :: linorder
begin

fun less_eq_version_part :: "version_part \<Rightarrow> version_part \<Rightarrow> bool" where
  "VNum m \<le> VNum n \<longleftrightarrow> m \<le> n"
| "VNum m \<le> VWord t \<longleftrightarrow> True"
| "VWord s \<le> VNum n \<longleftrightarrow> False"
| "VWord s \<le> VWord t \<longleftrightarrow> s \<le> t"

definition less_version_part :: "version_part \<Rightarrow> version_part \<Rightarrow> bool" where
  "(a :: version_part) < b \<longleftrightarrow> a \<le> b \<and> \<not> b \<le> a"

instance
proof
  fix a b c :: version_part
  show "a < b \<longleftrightarrow> a \<le> b \<and> \<not> b \<le> a" by (rule less_version_part_def)
  show "a \<le> a" by (cases a) simp_all
  show "a \<le> b \<Longrightarrow> b \<le> c \<Longrightarrow> a \<le> c" by (cases a; cases b; cases c) auto
  show "a \<le> b \<Longrightarrow> b \<le> a \<Longrightarrow> a = b" by (cases a; cases b) auto
  show "a \<le> b \<or> b \<le> a" by (cases a; cases b) auto
qed

end

text \<open>\<open>re.findall(r"\\d+|[A-Za-z]+", s)\<close>, read as integers and folded words.\<close>

function version_parts :: "string \<Rightarrow> version_part list" where
  "version_parts [] = []"
| "version_parts (c # cs) =
     (if is_digit c then VNum (read_nat (c # takeWhile is_digit cs)) # version_parts (dropWhile is_digit cs)
      else if is_alpha c then VWord (casefold (c # takeWhile is_alpha cs)) # version_parts (dropWhile is_alpha cs)
      else version_parts cs)"
  by pat_completeness auto

termination
  by (relation "measure length") (auto simp: le_imp_less_Suc length_dropWhile_le)

definition version_key :: "pyval \<Rightarrow> version_part list" where
  "version_key v = version_parts (py_str v)"

section \<open>Scalars\<close>

definition canonical_context_scalar :: "pyval \<Rightarrow> pyval" where
  "canonical_context_scalar v =
     (case v of
        PBool b \<Rightarrow> PStr (if b then ''hlsgraph.__context_bool__.true.v1'' else ''hlsgraph.__context_bool__.false.v1'')
      | PStr s \<Rightarrow> PStr (casefold s)
      | _ \<Rightarrow> v)"

definition same :: "pyval \<Rightarrow> pyval \<Rightarrow> bool" where
  "same l r =
     (if is_bool l \<or> is_bool r then is_bool l \<and> is_bool r \<and> l = r
      else py_eq (canonical_context_scalar l) (canonical_context_scalar r))"

section \<open>The matcher\<close>

definition any_value :: "pyval \<Rightarrow> bool" where
  "any_value constraint \<longleftrightarrow> constraint = PNone \<or> constraint = PStr ''*''"

definition pack_error :: "'a res \<Rightarrow> 'a res" where
  "pack_error m = (case m of Inl (ValueError e) \<Rightarrow> Inl (KnowledgePackError e) | _ \<Rightarrow> m)"

definition known_operators :: "pydict \<Rightarrow> bool" where
  "known_operators d = list_all (\<lambda>kv. known_operator (fst kv)) d"

definition required_ok :: "pydict \<Rightarrow> bool" where
  "required_ok d \<longleftrightarrow> (dhas d ''required'' \<longrightarrow> dget d ''required'' = PBool True)"

definition at_least :: "pydict \<Rightarrow> pyval \<Rightarrow> bool" where
  "at_least d v \<longleftrightarrow> (dhas d ''min_version'' \<longrightarrow> \<not> version_key v < version_key (dget d ''min_version''))"

definition at_most :: "pydict \<Rightarrow> pyval \<Rightarrow> bool" where
  "at_most d v \<longleftrightarrow> (dhas d ''max_version'' \<longrightarrow> \<not> version_key (dget d ''max_version'') < version_key v)"

definition operators_hold :: "pydict \<Rightarrow> pyval \<Rightarrow> bool" where
  "operators_hold d v \<longleftrightarrow>
     v \<noteq> PNone
     \<and> (dhas d ''equals'' \<longrightarrow> same (dget d ''equals'') v)
     \<and> (dhas d ''one_of'' \<longrightarrow>
          is_list (dget d ''one_of'') \<and> list_ex (\<lambda>i. same i v) (items_of (dget d ''one_of'')))
     \<and> at_least d v \<and> at_most d v"

definition matches_single :: "pyval \<Rightarrow> pyval \<Rightarrow> bool res" where
  "matches_single constraint v =
     (case constraint of
        PList _ \<Rightarrow> Inr False
      | PTuple _ \<Rightarrow> Inr False
      | PDict d \<Rightarrow>
          checks
            [pack_error (unsupported_operators (filter (\<lambda>k. \<not> known_operator k) (map fst d))),
             reject_with (\<not> required_ok d)
               (KnowledgePackError ''applicability required operator only accepts true'')]
            (operators_hold d v)
      | _ \<Rightarrow> Inr (v \<noteq> PNone \<and> same constraint v))"

fun matches_constraint :: "pyval \<Rightarrow> pyval \<Rightarrow> bool res" where
  "matches_constraint c (PList xs) = (if any_value c then Inr True else anyR (matches_constraint c) xs)"
| "matches_constraint c (PTuple xs) = (if any_value c then Inr True else anyR (matches_constraint c) xs)"
| "matches_constraint c (PSet xs) = (if any_value c then Inr True else anyR (matches_constraint c) xs)"
| "matches_constraint c v = (if any_value c then Inr True else matches_single c v)"

section \<open>Entailment\<close>

definition hashed_scalar :: "pyval \<Rightarrow> pyval res" where
  "hashed_scalar v =
     (let c = canonical_context_scalar v in if hashable c then Inr c else Inl (TypeError ''unhashable type''))"

definition candidates :: "pydict \<Rightarrow> pyval list option res" where
  "candidates d =
     (if dhas d ''equals'' then mapr (\<lambda>v. Some [v]) (hashed_scalar (dget d ''equals''))
      else if dhas d ''one_of'' then
        (case dget d ''one_of'' of
           PList (x # xs) \<Rightarrow> mapr Some (mapR hashed_scalar (x # xs))
         | _ \<Rightarrow> Inr None)
      else Inr None)"

definition values_within :: "pyval list option \<Rightarrow> pyval list option \<Rightarrow> bool" where
  "values_within required condition =
     (case condition of
        None \<Rightarrow> True
      | Some cs \<Rightarrow> opt_any (list_all (\<lambda>x. list_ex (py_eq x) cs)) required)"

definition bounds_entail :: "pydict \<Rightarrow> pydict \<Rightarrow> bool" where
  "bounds_entail r c \<longleftrightarrow>
     (dhas c ''min_version'' \<longrightarrow>
        dhas r ''min_version'' \<and> \<not> version_key (dget r ''min_version'') < version_key (dget c ''min_version''))
     \<and> (dhas c ''max_version'' \<longrightarrow>
        dhas r ''max_version'' \<and> \<not> version_key (dget c ''max_version'') < version_key (dget r ''max_version''))"

definition entails_operators :: "pyval \<Rightarrow> pydict \<Rightarrow> bool res" where
  "entails_operators required c =
     (if \<not> known_operators c \<or> \<not> required_ok c then Inr False
      else case required of
        PDict r \<Rightarrow>
          (if \<not> known_operators r \<or> \<not> required_ok r then Inr False
           else if dget c ''required'' = PBool True \<and> r = [] then Inr False
           else bindR (candidates r) (\<lambda>rs. bindR (candidates c) (\<lambda>cs.
                  Inr (values_within rs cs \<and> bounds_entail r c))))
      | _ \<Rightarrow> (if any_value required then Inr False else matches_constraint (PDict c) required))"

definition entails_scalar :: "pyval \<Rightarrow> pyval \<Rightarrow> bool" where
  "entails_scalar required condition =
     (case required of
        PDict r \<Rightarrow>
          known_operators r
          \<and> (if dhas r ''equals'' then same (dget r ''equals'') condition
             else if dhas r ''one_of'' then
               is_list (dget r ''one_of'') \<and> items_of (dget r ''one_of'') \<noteq> []
               \<and> list_all (\<lambda>i. same i condition) (items_of (dget r ''one_of''))
             else False)
      | _ \<Rightarrow> same required condition)"

definition constraint_entails :: "pyval \<Rightarrow> pyval \<Rightarrow> bool res" where
  "constraint_entails required condition =
     (if any_value condition then Inr True
      else if is_seq required \<or> is_seq condition then Inr False
      else case condition of
        PDict c \<Rightarrow> entails_operators required c
      | _ \<Rightarrow> Inr (entails_scalar required condition))"

section \<open>Scalars of a validated constraint\<close>

text \<open>What comparison of context scalars distinguishes: booleans, numbers by value, and
  folded strings.\<close>

datatype scalar_class = SNone | SBool bool | SNum rat | SInf bool | SStr string

fun scalar_class_of :: "pyval \<Rightarrow> scalar_class option" where
  "scalar_class_of PNone = Some SNone"
| "scalar_class_of (PBool b) = Some (SBool b)"
| "scalar_class_of (PInt i) = Some (SNum (of_int i))"
| "scalar_class_of (PFloat (FFin n m e)) = Some (SNum (fin_val n m e))"
| "scalar_class_of (PFloat (FInf n)) = Some (SInf n)"
| "scalar_class_of (PStr s) = Some (SStr (casefold s))"
| "scalar_class_of _ = None"

definition json_scalar :: "pyval \<Rightarrow> bool" where
  "json_scalar v \<longleftrightarrow> \<not> is_seq v \<and> \<not> is_dict v \<and> (case v of PSet _ \<Rightarrow> False | PObj _ \<Rightarrow> False | _ \<Rightarrow> True)"

lemma same_iff:
  assumes "json_scalar a"
  shows "same a b \<longleftrightarrow> scalar_class_of a \<noteq> None \<and> scalar_class_of a = scalar_class_of b"
proof (cases a)
  case (PFloat f)
  then show ?thesis
    by (cases f; cases b rule: scalar_class_of.cases) (auto simp: same_def canonical_context_scalar_def)
qed (use assms in \<open>(cases b rule: scalar_class_of.cases;
      auto simp: same_def canonical_context_scalar_def json_scalar_def)+\<close>)

text \<open>The grammar reserves the tokens of the booleans, so hashing a validated scalar does not
  confuse a boolean with a string.\<close>

lemma reserved_token:
  assumes "validate_scalar (PStr s) = Inr ()"
  shows "casefold s \<noteq> ''hlsgraph.__context_bool__.true.v1''" and "casefold s \<noteq> ''hlsgraph.__context_bool__.false.v1''"
proof -
  have "starts_with ''hlsgraph.__context_bool__.'' ''hlsgraph.__context_bool__.true.v1''"
    "starts_with ''hlsgraph.__context_bool__.'' ''hlsgraph.__context_bool__.false.v1''" by code_simp+
  with assms show "casefold s \<noteq> ''hlsgraph.__context_bool__.true.v1''" "casefold s \<noteq> ''hlsgraph.__context_bool__.false.v1''"
    by (auto simp: Let_def res_iff split: if_splits)
qed

lemma canonical_eq_same:
  assumes "validate_scalar a = Inr ()" and "validate_scalar b = Inr ()"
    and "py_eq (canonical_context_scalar a) (canonical_context_scalar b)"
  shows "same a b"
proof (cases "is_bool a \<or> is_bool b")
  case True
  have token: "c = PStr s \<Longrightarrow> casefold s \<noteq> ''hlsgraph.__context_bool__.true.v1''
      \<and> casefold s \<noteq> ''hlsgraph.__context_bool__.false.v1''" if "validate_scalar c = Inr ()" for c s
    using that reserved_token by blast
  from True show ?thesis
    using token [OF assms(1)] token [OF assms(2)] assms(3)
    by (cases a; cases b) (auto simp: same_def canonical_context_scalar_def split: if_splits)
qed (use assms(3) in \<open>simp add: same_def\<close>)

lemma same_chain:
  assumes "json_scalar a" and "json_scalar b" and "same a v" and "same a b"
  shows "same b v"
  using assms by (metis same_iff)

lemma same_sym: "json_scalar a \<Longrightarrow> json_scalar b \<Longrightarrow> same a b \<longleftrightarrow> same b a"
  by (metis same_iff)

section \<open>What the matcher accepts\<close>

lemma known_operators_iff: "known_operators d \<longleftrightarrow> filter (\<lambda>k. \<not> known_operator k) (map fst d) = []"
  by (auto simp: known_operators_def list_all_iff filter_empty_conv)

lemma pack_error_Inr_iff [res_iff]: "pack_error m = Inr x \<longleftrightarrow> m = Inr x"
  by (auto simp: pack_error_def split: sum.split py_exn.split)

lemma unsupported_operators_iff: "unsupported_operators ks = Inr () \<longleftrightarrow> ks = []"
  by (simp add: unsupported_operators_def)

lemma matches_dict_iff:
  "matches_single (PDict d) v = Inr b \<longleftrightarrow> known_operators d \<and> required_ok d \<and> b = operators_hold d v"
  by (auto simp: matches_single_def res_iff unsupported_operators_iff known_operators_iff)

lemma matches_scalar_iff:
  "json_scalar c \<Longrightarrow> matches_single c v = Inr True \<longleftrightarrow> v \<noteq> PNone \<and> same c v"
  by (cases c) (auto simp: matches_single_def json_scalar_def)

definition is_collection :: "pyval \<Rightarrow> bool" where
  "is_collection v \<longleftrightarrow> is_seq v \<or> (case v of PSet _ \<Rightarrow> True | _ \<Rightarrow> False)"

lemma matches_leaf: "\<not> is_collection v \<Longrightarrow>
    matches_constraint c v = (if any_value c then Inr True else matches_single c v)"
  by (cases v) (simp_all add: is_collection_def)

section \<open>Equal scalars have equal versions\<close>

text \<open>Except for floats (\<open>1 == 1.0\<close>, but \<open>str\<close> tells them apart) and for strings whose folding
  is longer than they are.\<close>

definition plain_scalar :: "pyval \<Rightarrow> bool" where
  "plain_scalar v \<longleftrightarrow>
     (case v of PStr s \<Rightarrow> CHR 0xDF \<notin> set s | PInt _ \<Rightarrow> True | PBool _ \<Rightarrow> True | PNone \<Rightarrow> True | _ \<Rightarrow> False)"

lemma casefold_map: "CHR 0xDF \<notin> set s \<Longrightarrow> casefold s = map lower_char s"
proof (induction s)
  case (Cons c s)
  have "code c \<noteq> 223"
  proof
    assume "code c = 223"
    then have "code c = code (CHR 0xDF)" by simp
    then have "c = CHR 0xDF" by (simp only: of_char_eq_iff)
    with Cons.prems show False by simp
  qed
  with Cons show ?case by (simp add: casefold_def casefold_char_def)
qed (simp add: casefold_def)

lemma lower_char_class: "is_digit (lower_char c) = is_digit c" "is_alpha (lower_char c) = is_alpha c"
proof -
  have "code c < 256" by simp
  then show "is_digit (lower_char c) = is_digit c" "is_alpha (lower_char c) = is_alpha c"
    by (auto simp: lower_char_def char_class_defs)
qed

lemma lower_digit: "is_digit c \<Longrightarrow> lower_char c = c"
  by (simp add: lower_char_def char_class_defs)

lemma casefold_lower_alpha: "list_all is_alpha s \<Longrightarrow> casefold (map lower_char s) = casefold s"
proof (induction s)
  case (Cons c s)
  then have "code c \<noteq> 223" by (auto simp: char_class_defs)
  with Cons show ?case by (simp add: casefold_def casefold_char_def lower_char_not_223)
qed simp

lemma takeWhile_lower:
  "takeWhile is_digit (map lower_char s) = takeWhile is_digit s"
  "takeWhile is_alpha (map lower_char s) = map lower_char (takeWhile is_alpha s)"
  "dropWhile is_digit (map lower_char s) = map lower_char (dropWhile is_digit s)"
  "dropWhile is_alpha (map lower_char s) = map lower_char (dropWhile is_alpha s)"
  by (induction s) (simp_all add: lower_char_class lower_digit)

lemma version_parts_lower: "version_parts (map lower_char s) = version_parts s"
proof (induction s rule: version_parts.induct)
  case (2 c cs)
  have "casefold (lower_char c # map lower_char (takeWhile is_alpha cs)) = casefold (c # takeWhile is_alpha cs)"
    if "is_alpha c"
  proof -
    have "list_all is_alpha (c # takeWhile is_alpha cs)"
      using that by (auto simp: list_all_iff dest: set_takeWhileD)
    from casefold_lower_alpha [OF this] show ?thesis by simp
  qed
  with 2 show ?case by (simp add: lower_char_class takeWhile_lower lower_digit)
qed simp

lemma version_key_same: "plain_scalar a \<Longrightarrow> plain_scalar b \<Longrightarrow> same a b \<Longrightarrow> version_key a = version_key b"
proof -
  assume plain: "plain_scalar a" "plain_scalar b" and "same a b"
  then have eq: "scalar_class_of a = scalar_class_of b"
    by (subst (asm) same_iff) (auto simp: plain_scalar_def json_scalar_def split: pyval.splits)
  have "version_parts s = version_parts t" if "casefold s = casefold t" "CHR 0xDF \<notin> set s" "CHR 0xDF \<notin> set t" for s t
    using that version_parts_lower by (metis casefold_map)
  note version = this
  show ?thesis
  proof (cases a)
    case (PStr s)
    with eq plain obtain t where "b = PStr t" "casefold s = casefold t"
      by (cases b rule: scalar_class_of.cases) (simp_all add: plain_scalar_def)
    with PStr plain version [of s t] show ?thesis by (simp add: plain_scalar_def version_key_def py_str_def)
  next
    case (PInt i)
    with eq plain have "b = a" by (cases b rule: scalar_class_of.cases) (simp_all add: plain_scalar_def)
    then show ?thesis by simp
  next
    case (PBool x)
    with eq have "b = a" by (cases b rule: scalar_class_of.cases) simp_all
    then show ?thesis by simp
  next
    case PNone
    with eq have "b = a" by (cases b rule: scalar_class_of.cases) simp_all
    then show ?thesis by simp
  qed (use plain in \<open>simp_all add: plain_scalar_def\<close>)
qed

section \<open>Entailment is sound\<close>

text \<open>What \<open>json.loads\<close> returns.\<close>

fun json_value :: "pyval \<Rightarrow> bool" where
  "json_value (PList xs) = list_all json_value xs"
| "json_value (PDict kvs) = list_all (\<lambda>kv. json_value (snd kv)) kvs"
| "json_value (PTuple _) = False"
| "json_value (PSet _) = False"
| "json_value (PObj _) = False"
| "json_value _ = True"

fun plain_context :: "pyval \<Rightarrow> bool" where
  "plain_context (PList xs) = list_all plain_context xs"
| "plain_context (PTuple xs) = list_all plain_context xs"
| "plain_context (PSet xs) = list_all plain_context xs"
| "plain_context v = plain_scalar v"

definition checked_scalar :: "pyval \<Rightarrow> bool" where
  "checked_scalar v \<longleftrightarrow> json_scalar v \<and> validate_scalar v = Inr ()"

lemma checked_scalarI: "json_value v \<Longrightarrow> validate_scalar v = Inr () \<Longrightarrow> checked_scalar v"
  by (cases v) (auto simp: checked_scalar_def json_scalar_def)

lemma json_value_dget: "json_value (PDict d) \<Longrightarrow> dhas d k \<Longrightarrow> json_value (dget d k)"
  by (fastforce simp: dget_def dhas_def list_all_iff dest: map_of_SomeD)

lemma validated_dict:
  assumes "validate_constraint (PDict d) = Inr ()" and "json_value (PDict d)"
  shows "known_operators d" and "required_ok d" and "d \<noteq> []"
    and "dhas d ''equals'' \<Longrightarrow> checked_scalar (dget d ''equals'')"
    and "dhas d ''one_of'' \<Longrightarrow> \<exists>xs. dget d ''one_of'' = PList xs \<and> xs \<noteq> [] \<and> (\<forall>x \<in> set xs. checked_scalar x)"
proof -
  have v: "known_operators d" "required_ok d" "d \<noteq> []"
    "dhas d ''equals'' \<Longrightarrow> validate_scalar (dget d ''equals'') = Inr ()"
    "dhas d ''one_of'' \<Longrightarrow> validate_choices (dget d ''one_of'') = Inr ()"
    using assms(1) by (auto simp: validate_constraint_def res_iff unsupported_operators_iff known_operators_iff required_ok_def)
  then show "known_operators d" "required_ok d" "d \<noteq> []" by blast+
  show "dhas d ''equals'' \<Longrightarrow> checked_scalar (dget d ''equals'')"
    using v(4) json_value_dget [OF assms(2)] by (simp add: checked_scalarI)
  assume one: "dhas d ''one_of''"
  then obtain xs where xs: "dget d ''one_of'' = PList xs" "xs \<noteq> []" "\<forall>x \<in> set xs. validate_scalar x = Inr ()"
    using v(5) by (auto simp: validate_choices_def res_iff split: pyval.splits list.splits)
  have "json_value (PList xs)" using json_value_dget [OF assms(2) one] xs(1) by simp
  then have "\<forall>x \<in> set xs. checked_scalar x" using xs(3) by (auto simp: list_all_iff checked_scalarI)
  with xs show "\<exists>xs. dget d ''one_of'' = PList xs \<and> xs \<noteq> [] \<and> (\<forall>x \<in> set xs. checked_scalar x)" by blast
qed

text \<open>The alternatives a constraint names, when it names any.\<close>

definition choice_holds :: "pydict \<Rightarrow> pyval \<Rightarrow> bool" where
  "choice_holds d v \<longleftrightarrow> (dhas d ''equals'' \<longrightarrow> same (dget d ''equals'') v)
     \<and> (dhas d ''one_of'' \<longrightarrow> is_list (dget d ''one_of'') \<and> list_ex (\<lambda>i. same i v) (items_of (dget d ''one_of'')))"

lemma operators_hold_iff:
  "operators_hold d v \<longleftrightarrow> v \<noteq> PNone \<and> choice_holds d v \<and> at_least d v \<and> at_most d v"
  by (auto simp: operators_hold_def choice_holds_def)

lemma hashed_scalar_iff: "hashed_scalar v = Inr c \<longleftrightarrow> c = canonical_context_scalar v \<and> hashable c"
  by (auto simp: hashed_scalar_def Let_def)

lemma mapR_hashed: "mapR hashed_scalar xs = Inr cs \<Longrightarrow> cs = map canonical_context_scalar xs"
  by (induction xs arbitrary: cs) (auto simp: res_iff hashed_scalar_iff)

lemma candidates_cases:
  assumes "validate_constraint (PDict d) = Inr ()" and "json_value (PDict d)" and "candidates d = Inr cs"
  obtains "cs = None" and "\<not> dhas d ''equals''" and "\<not> dhas d ''one_of''"
  | "cs = Some [canonical_context_scalar (dget d ''equals'')]" and "dhas d ''equals''"
  | xs where "cs = Some (map canonical_context_scalar xs)" and "\<not> dhas d ''equals''" and "dhas d ''one_of''"
      and "dget d ''one_of'' = PList xs"
proof (cases "dhas d ''equals''")
  case True
  with assms(3) that(2) show ?thesis by (auto simp: candidates_def res_iff hashed_scalar_iff)
next
  case False
  show ?thesis
  proof (cases "dhas d ''one_of''")
    case True
    then obtain xs where "dget d ''one_of'' = PList xs" "xs \<noteq> []" using validated_dict(5) [OF assms(1,2)] by blast
    with False True assms(3) that(3) show ?thesis
      by (cases xs) (auto simp: candidates_def mapr_Inr_iff simp del: mapR.simps dest: mapR_hashed)
  qed (use False assms(3) that(1) in \<open>auto simp: candidates_def\<close>)
qed

lemma candidate_of_value:
  assumes "validate_constraint (PDict d) = Inr ()" and "json_value (PDict d)" and "candidates d = Inr (Some rs)"
    and "choice_holds d v"
  obtains i where "checked_scalar i" and "same i v" and "canonical_context_scalar i \<in> set rs"
  using assms(1-3)
proof (cases rule: candidates_cases)
  case 2
  with assms(4) validated_dict(4) [OF assms(1,2)] that show ?thesis by (auto simp: choice_holds_def)
next
  case (3 xs)
  with assms(4) obtain i where "i \<in> set xs" "same i v" by (auto simp: choice_holds_def list_ex_iff)
  moreover have "checked_scalar i" using validated_dict(5) [OF assms(1,2)] 3 \<open>i \<in> set xs\<close> by auto
  ultimately show ?thesis using 3 that by auto
qed simp

lemma value_of_candidate:
  assumes "validate_constraint (PDict d) = Inr ()" and "json_value (PDict d)" and "candidates d = Inr (Some cs)"
    and "\<not> (dhas d ''equals'' \<and> dhas d ''one_of'')" and "y \<in> set cs"
  obtains e where "checked_scalar e" and "y = canonical_context_scalar e" and "\<And>v. same e v \<Longrightarrow> choice_holds d v"
  using assms(1-3)
proof (cases rule: candidates_cases)
  case 2
  with assms(4,5) validated_dict(4) [OF assms(1,2)] that show ?thesis by (auto simp: choice_holds_def)
next
  case (3 xs)
  with assms(5) obtain e where e: "e \<in> set xs" "y = canonical_context_scalar e" by auto
  moreover have "checked_scalar e" using validated_dict(5) [OF assms(1,2)] 3 e by auto
  moreover have "choice_holds d v" if "same e v" for v
    using 3 e that by (auto simp: choice_holds_def list_ex_iff)
  ultimately show ?thesis using that by blast
qed simp

lemma bounds_entail_sound:
  assumes "bounds_entail r c" and "at_least r v" and "at_most r v"
  shows "at_least c v \<and> at_most c v"
  using assms unfolding bounds_entail_def at_least_def at_most_def not_less by (meson order_trans)

lemma entails_dicts_sound:
  assumes r: "validate_constraint (PDict r) = Inr ()" "json_value (PDict r)"
    and c: "validate_constraint (PDict c) = Inr ()" "json_value (PDict c)"
    and single: "\<not> (dhas c ''equals'' \<and> dhas c ''one_of'')"
    and entails: "entails_operators (PDict r) c = Inr True" and holds: "operators_hold r v"
  shows "operators_hold c v"
proof -
  from entails obtain rs cs where rs: "candidates r = Inr rs" and cs: "candidates c = Inr cs"
    and within: "values_within rs cs" and bounds: "bounds_entail r c"
    by (auto simp: entails_operators_def res_iff split: if_splits)
  have "choice_holds c v"
  proof (cases cs)
    case None
    from c cs [unfolded None] have "\<not> dhas c ''equals'' \<and> \<not> dhas c ''one_of''"
      by (cases rule: candidates_cases) auto
    then show ?thesis by (simp add: choice_holds_def)
  next
    case (Some cs')
    with within obtain rs' where rs': "rs = Some rs'" by (auto simp: values_within_def)
    obtain i where i: "checked_scalar i" "same i v" "canonical_context_scalar i \<in> set rs'"
      using candidate_of_value [OF r rs [unfolded rs']] holds by (auto simp: operators_hold_iff)
    from i(3) within Some rs' obtain y where y: "y \<in> set cs'" "py_eq (canonical_context_scalar i) y"
      by (auto simp: values_within_def list_all_iff list_ex_iff)
    obtain e where e: "checked_scalar e" "y = canonical_context_scalar e" "\<And>v. same e v \<Longrightarrow> choice_holds c v"
      using value_of_candidate [OF c cs [unfolded Some] single y(1)] by blast
    have "same i e" using canonical_eq_same i(1) e(1,2) y(2) by (simp add: checked_scalar_def)
    then have "same e v" using same_chain i(1,2) e(1) by (metis checked_scalar_def)
    then show ?thesis by (rule e(3))
  qed
  with holds bounds_entail_sound [OF bounds] show ?thesis by (simp add: operators_hold_iff)
qed

lemma any_value_str: "same (PStr ''*'') c \<Longrightarrow> json_scalar c \<Longrightarrow> any_value c"
proof -
  assume "same (PStr ''*'') c" "json_scalar c"
  then obtain s where c: "c = PStr s" and fold: "casefold s = casefold ''*''"
    by (cases c rule: scalar_class_of.cases) (auto simp: same_iff json_scalar_def)
  have star: "casefold ''*'' = ''*''" by code_simp
  show ?thesis
  proof (cases s)
    case (Cons x xs)
    from fold star have *: "casefold_char x @ casefold xs = ''*''" by (simp add: Cons casefold_def)
    then have "code x \<noteq> 223" by (auto simp: casefold_char_def)
    with * have "lower_char x = CHR ''*''" "casefold xs = []" by (simp_all add: casefold_char_def)
    moreover have "xs = []" using \<open>casefold xs = []\<close> by (cases xs) (simp_all add: casefold_def casefold_char_def split: if_splits)
    moreover have "x = CHR ''*''"
    proof -
      have "code (lower_char x) = 42" using \<open>lower_char x = CHR ''*''\<close> by simp
      moreover have "code x < 256" by simp
      ultimately have "code x = code (CHR ''*'')"
        by (auto simp: lower_char_def in_range_def split: if_splits)
      then show ?thesis by (simp only: of_char_eq_iff)
    qed
    ultimately show ?thesis by (simp add: c Cons any_value_def)
  qed (use fold star in \<open>simp add: casefold_def\<close>)
qed

lemma validated_scalar:
  assumes "validate_constraint x = Inr ()" and "json_value x" and "\<not> is_dict x"
  shows "json_scalar x" and "\<not> is_collection x"
  using assms by (cases x; simp add: validate_constraint_def json_scalar_def is_collection_def)+

lemma scalar_entails_dict:
  assumes r: "json_scalar r" "\<not> is_collection r" "\<not> is_dict r"
    and c: "validate_constraint (PDict c) = Inr ()" "json_value (PDict c)"
    and "plain_scalar r" and "plain_scalar v"
    and entails: "entails_operators r c = Inr True" and "matches_single r v = Inr True"
  shows "operators_hold c v"
proof -
  have v: "v \<noteq> PNone" "same r v" using assms(9) by (simp_all add: matches_scalar_iff [OF r(1)])
  from entails r(3) have "matches_constraint (PDict c) r = Inr True"
    by (cases r) (auto simp: entails_operators_def split: if_splits)
  then have "operators_hold c r"
    by (simp add: matches_leaf [OF r(2)] matches_dict_iff any_value_def)
  moreover have "version_key r = version_key v" using assms(6,7) v(2) by (rule version_key_same)
  moreover have eq: "same e v" if "checked_scalar e" "same e r" for e
    using that v(2) r(1) same_sym same_chain by (metis checked_scalar_def)
  moreover have "list_ex (\<lambda>e. same e v) xs" if "list_ex (\<lambda>e. same e r) xs" "\<forall>x \<in> set xs. checked_scalar x" for xs
    using that eq by (auto simp: list_ex_iff)
  ultimately show ?thesis
    using v(1) validated_dict(4,5) [OF c]
    by (auto simp: operators_hold_iff choice_holds_def at_least_def at_most_def)
qed

lemma entails_scalar_sound:
  assumes r: "validate_constraint r = Inr ()" "json_value r" and c: "json_scalar c"
    and entails: "entails_scalar r c" and matches: "any_value r \<or> matches_single r v = Inr True"
  shows "any_value c \<or> v \<noteq> PNone \<and> same c v"
proof (cases r)
  case (PDict d)
  note valid = validated_dict [OF r [unfolded PDict]]
  from matches PDict have hold: "v \<noteq> PNone" "choice_holds d v"
    by (auto simp: any_value_def matches_dict_iff operators_hold_iff)
  show ?thesis
  proof (cases "dhas d ''equals''")
    case True
    with entails PDict have "same (dget d ''equals'') c" by (simp add: entails_scalar_def)
    moreover have "same (dget d ''equals'') v" using hold True by (simp add: choice_holds_def)
    ultimately show ?thesis using valid(4) [OF True] c hold same_chain by (metis checked_scalar_def)
  next
    case False
    with entails PDict have one: "dhas d ''one_of''"
      and all: "list_all (\<lambda>i. same i c) (items_of (dget d ''one_of''))"
      by (simp_all add: entails_scalar_def split: if_splits)
    obtain xs where xs: "dget d ''one_of'' = PList xs" "\<forall>x \<in> set xs. checked_scalar x" using valid(5) [OF one] by blast
    with hold one obtain i where "i \<in> set xs" "same i v" by (auto simp: choice_holds_def list_ex_iff)
    with all xs c hold same_chain show ?thesis by (metis checked_scalar_def items_of.simps(1) list_all_iff)
  qed
next
  case (PStr s)
  with entails have "same r c" by (simp add: entails_scalar_def)
  with PStr matches c any_value_str same_chain [of r c v] show ?thesis
    by (auto simp: any_value_def matches_scalar_iff json_scalar_def)
next
  case PNone
  with entails have "same r c" by (simp add: entails_scalar_def)
  with PNone c show ?thesis by (cases c rule: scalar_class_of.cases) (auto simp: same_iff json_scalar_def any_value_def)
qed (use r entails matches c same_chain [of r c v] in
    \<open>simp_all add: entails_scalar_def any_value_def matches_scalar_iff json_scalar_def validate_constraint_def\<close>)

text \<open>The proof that a binding is at least as strong as a condition holds for every value.\<close>

lemma entails_single:
  assumes r: "validate_constraint r = Inr ()" "json_value r" and c: "validate_constraint c = Inr ()" "json_value c"
    and single: "\<not> (dhas (dict_items c) ''equals'' \<and> dhas (dict_items c) ''one_of'')"
    and plain: "is_dict r \<or> plain_scalar r \<and> plain_scalar v"
    and entails: "constraint_entails r c = Inr True" and matches: "any_value r \<or> matches_single r v = Inr True"
    and restrictive: "\<not> any_value c"
  shows "matches_single c v = Inr True"
proof (cases "is_dict c")
  case False
  have "entails_scalar r c" using entails restrictive False
    by (cases c) (auto simp: constraint_entails_def split: if_splits)
  from entails_scalar_sound [OF r validated_scalar(1) [OF c False] this matches] restrictive
  show ?thesis by (simp add: matches_scalar_iff validated_scalar(1) [OF c False])
next
  case True
  then obtain cd where cd: "c = PDict cd" by (cases c) auto
  with entails restrictive have e: "entails_operators r cd = Inr True"
    by (auto simp: constraint_entails_def split: if_splits)
  have "operators_hold cd v"
  proof (cases "is_dict r")
    case True
    then obtain rd where rd: "r = PDict rd" by (cases r) auto
    with matches have "operators_hold rd v" by (auto simp: matches_dict_iff any_value_def)
    from entails_dicts_sound [OF r [unfolded rd] c [unfolded cd] _ e [unfolded rd] this] single
    show ?thesis by (simp add: cd)
  next
    case False
    have "\<not> any_value r" using e False by (cases r) (auto simp: entails_operators_def split: if_splits)
    with matches have "matches_single r v = Inr True" by simp
    from scalar_entails_dict [OF validated_scalar [OF r False] False c [unfolded cd] _ _ e this] plain False
    show ?thesis by simp
  qed
  then show ?thesis using validated_dict(1,2) [OF c [unfolded cd]] by (simp add: cd matches_dict_iff)
qed

lemma anyR_TrueI:
  "x \<in> set xs \<Longrightarrow> f x = Inr True \<Longrightarrow> (\<And>y. y \<in> set xs \<Longrightarrow> \<exists>b. f y = Inr b) \<Longrightarrow> anyR f xs = Inr True"
proof (induction xs)
  case (Cons y ys)
  then obtain b where "f y = Inr b" by (metis list.set_intros(1))
  with Cons show ?case by auto
qed simp

lemma anyR_total: "(\<And>y. y \<in> set xs \<Longrightarrow> \<exists>b. f y = Inr b) \<Longrightarrow> \<exists>b. anyR f xs = Inr b"
proof (induction xs)
  case (Cons y ys)
  then obtain b where "f y = Inr b" by (metis list.set_intros(1))
  with Cons show ?case by auto
qed (simp add: ex_bool_eq)

text \<open>The matcher does not raise on a validated constraint.\<close>

lemma matches_single_total:
  assumes "validate_constraint c = Inr ()" and "json_value c"
  shows "\<exists>b. matches_single c v = Inr b"
proof (cases c)
  case (PDict d)
  with validated_dict(1,2) [of d] assms show ?thesis by (auto simp: matches_dict_iff)
qed (use assms(1) in \<open>auto simp: matches_single_def validate_constraint_def\<close>)

lemma matches_total:
  assumes "validate_constraint c = Inr ()" and "json_value c"
  shows "\<exists>b. matches_constraint c v = Inr b"
  using assms
  by (induction c v rule: matches_constraint.induct)
    (auto intro!: anyR_total matches_single_total simp del: anyR.simps)

lemma matches_any_value: "any_value c \<Longrightarrow> matches_constraint c v = Inr True"
  by (cases v) simp_all

lemma matches_collection:
  "v = PList xs \<or> v = PTuple xs \<or> v = PSet xs \<Longrightarrow>
    matches_constraint c v = (if any_value c then Inr True else anyR (matches_constraint c) xs)"
  by auto

lemma is_collection_cases:
  assumes "is_collection v"
  obtains xs where "v = PList xs \<or> v = PTuple xs \<or> v = PSet xs"
  using assms by (cases v) (simp_all add: is_collection_def)

lemma matches_some_item:
  assumes "validate_constraint c = Inr ()" and "json_value c" and "x \<in> set xs" and "matches_constraint c x = Inr True"
  shows "anyR (matches_constraint c) xs = Inr True"
  using assms(3,4) matches_total [OF assms(1,2)] by (rule anyR_TrueI)

lemma collection_step:
  assumes c: "validate_constraint c = Inr ()" "json_value c" and "\<not> any_value r"
    and step: "\<And>x. x \<in> set xs \<Longrightarrow> p x \<Longrightarrow> matches_constraint r x = Inr True \<Longrightarrow> matches_constraint c x = Inr True"
    and v: "v = PList xs \<or> v = PTuple xs \<or> v = PSet xs"
    and "\<forall>x \<in> set xs. p x" and "matches_constraint r v = Inr True"
  shows "matches_constraint c v = Inr True"
proof -
  from assms(3,7) have "anyR (matches_constraint r) xs = Inr True" by (simp add: matches_collection [OF v])
  then obtain x where "x \<in> set xs" "matches_constraint r x = Inr True" using anyR_True by blast
  with step assms(6) have "matches_constraint c x = Inr True" by blast
  with matches_some_item [OF c \<open>x \<in> set xs\<close>] show ?thesis by (simp add: matches_collection [OF v])
qed

lemma collection_monotone:
  assumes c: "validate_constraint c = Inr ()" "json_value c" and notany: "\<not> any_value r"
    and single: "\<And>v. \<not> is_collection v \<Longrightarrow> restricted \<longrightarrow> plain_context v \<Longrightarrow>
      matches_single r v = Inr True \<Longrightarrow> matches_constraint c v = Inr True"
    and "restricted \<longrightarrow> plain_context v" and "matches_constraint r v = Inr True"
  shows "matches_constraint c v = Inr True"
  using assms(5,6)
proof (induction v rule: plain_context.induct)
  case (1 xs)
  show ?case
    by (rule collection_step [OF c notany, of xs "\<lambda>x. restricted \<longrightarrow> plain_context x", OF 1(1) _ _ 1(3)])
      (use 1(2) in \<open>simp_all add: list_all_iff\<close>)
next
  case (2 xs)
  show ?case
    by (rule collection_step [OF c notany, of xs "\<lambda>x. restricted \<longrightarrow> plain_context x", OF 2(1) _ _ 2(3)])
      (use 2(2) in \<open>simp_all add: list_all_iff\<close>)
next
  case (3 xs)
  show ?case
    by (rule collection_step [OF c notany, of xs "\<lambda>x. restricted \<longrightarrow> plain_context x", OF 3(1) _ _ 3(3)])
      (use 3(2) in \<open>simp_all add: list_all_iff\<close>)
qed (rule single; use notany in \<open>simp add: is_collection_def split: if_splits\<close>)+

lemma nothing_entailed_by_any:
  assumes r: "validate_constraint r = Inr ()" "json_value r" and c: "validate_constraint c = Inr ()" "json_value c"
    and single: "\<not> (dhas (dict_items c) ''equals'' \<and> dhas (dict_items c) ''one_of'')"
    and "constraint_entails r c = Inr True" and "\<not> any_value c"
  shows "\<not> any_value r"
proof
  assume any: "any_value r"
  then have "is_dict r \<or> plain_scalar r \<and> plain_scalar PNone" by (auto simp: any_value_def plain_scalar_def)
  from entails_single [OF r c single this assms(6) _ assms(7)] any have "matches_single c PNone = Inr True" by simp
  then show False
    by (cases c) (auto simp: matches_single_def res_iff operators_hold_def)
qed

text \<open>A binding whose context constraint passes the pack-load proof never applies where
  the condition of its rule fails: for every constraint and condition the loader accepts, and
  every context value, nested collections included, a value the constraint matches is a value
  the condition matches (a scalar constraint, which is compared with version bounds through
  its text, is taken without floats, and a condition does not name its values twice).\<close>

lemma entails_matches:
  assumes r: "validate_constraint r = Inr ()" "json_value r" and c: "validate_constraint c = Inr ()" "json_value c"
    and single: "\<not> (dhas (dict_items c) ''equals'' \<and> dhas (dict_items c) ''one_of'')"
    and plain: "is_dict r \<or> plain_scalar r \<and> plain_context v"
    and entails: "constraint_entails r c = Inr True" and "matches_constraint r v = Inr True"
  shows "matches_constraint c v = Inr True"
proof (cases "any_value c")
  case False
  note notany = nothing_entailed_by_any [OF r c single entails False]
  show ?thesis
  proof (rule collection_monotone [OF c notany, of "\<not> is_dict r"])
    fix w assume w: "\<not> is_collection w" "\<not> is_dict r \<longrightarrow> plain_context w" "matches_single r w = Inr True"
    then have "is_dict r \<or> plain_scalar r \<and> plain_scalar w"
      using plain by (cases w) (auto simp: is_collection_def)
    with w(1,3) entails_single [OF r c single _ entails _ False] show "matches_constraint c w = Inr True"
      by (simp add: matches_leaf)
  qed (use plain assms(8) in auto)
qed (simp add: matches_any_value)

text \<open>The proof reads only \<open>equals\<close> of a condition that also has \<open>one_of\<close>, while the matcher asks for
  both: such a condition passes although no value ever meets it.\<close>

lemma condition_with_two_choices:
  "(let r = PDict [(KStr ''equals'', PStr ''a'')];
        c = PDict [(KStr ''equals'', PStr ''a''), (KStr ''one_of'', PList [PStr ''b''])]
    in validate_constraint c = Inr () \<and> constraint_entails r c = Inr True
       \<and> matches_constraint r (PStr ''a'') = Inr True \<and> matches_constraint c (PStr ''a'') = Inr False)"
  by code_simp

lemma version_parts_digits:
  assumes "s \<noteq> []" and "\<forall>c \<in> set s. is_digit c" and "t = [] \<or> \<not> is_digit (hd t)"
  shows "version_parts (s @ t) = VNum (read_nat s) # version_parts t"
proof (cases s)
  case (Cons c cs)
  have "takeWhile is_digit (cs @ t) = cs" "dropWhile is_digit (cs @ t) = t"
    using assms(2,3) Cons by (cases t; simp add: takeWhile_append2 dropWhile_append2)+
  with Cons assms(2) show ?thesis by simp
qed (use assms(1) in simp)

text \<open>C38: Version bounds compare numerically, field by field: the key of a dotted version is the
  list of its numbers, so that \<open>2022.10\<close> lies above \<open>2022.9\<close>, and any two keys are comparable.\<close>

theorem dotted_versions_compare_numerically:
  "version_key (PStr (join_with ''.'' (map show_nat ns))) = map VNum ns
    \<and> (map VNum ms < map VNum ns) = (ms < ns)"
proof
  show "version_key (PStr (join_with ''.'' (map show_nat ns))) = map VNum ns"
    unfolding version_key_def py_str_def
  proof (simp, induction ns)
    case (Cons n ns)
    have "\<not> is_digit (CHR ''.'')" "\<not> is_alpha (CHR ''.'')" by code_simp+
    with Cons show ?case
      using version_parts_digits [of "show_nat n" "[]"]
      by (cases ns) (simp_all add: version_parts_digits show_nat_digits)
  qed simp
  show "(map VNum ms < map VNum ns) = (ms < ns)"
  proof (induction ms ns rule: list_induct2')
  qed (auto simp: less_version_part_def)
qed

end
