(* ===== verification/Knowledge_Source.thy ===== *)
theory Knowledge_Source
  imports Knowledge_Match
begin

text \<open>
  The audit of a binding against the condition of its rule (\<open>hlsgraph/knowledge/core.py\<close>):
  the closed tables of conditions that follow from the target of a binding, the registered
  sources of directly bound conditions, the evidence each source must close over, and
  the selection of rules and bindings by a context.
\<close>

section \<open>The closed tables\<close>

definition TARGET_CONDITION_SOURCE_DIRECTIVE :: string where
  "TARGET_CONDITION_SOURCE_DIRECTIVE = ''hlsgraph.target.directive_instance.v1''"

definition TARGET_CONDITION_SOURCE_ARTIFACT :: string where
  "TARGET_CONDITION_SOURCE_ARTIFACT = ''hlsgraph.target.qualified_artifact.v1''"

definition TARGET_CONDITION_SOURCE_OBSERVATION :: string where
  "TARGET_CONDITION_SOURCE_OBSERVATION = ''hlsgraph.target.qualified_observation.v1''"

definition TARGET_CONDITION_SOURCE_GATE :: string where
  "TARGET_CONDITION_SOURCE_GATE = ''hlsgraph.target.qualified_gate.v1''"

definition DIRECT_CONDITION_SOURCE_INTERFACE_MODE :: string where
  "DIRECT_CONDITION_SOURCE_INTERFACE_MODE = ''hlsgraph.condition.directive_interface_mode.v1''"

definition DIRECT_CONDITION_SOURCE_PORT_OWNERSHIP :: string where
  "DIRECT_CONDITION_SOURCE_PORT_OWNERSHIP = ''hlsgraph.condition.directive_port_ownership.v1''"

definition DIRECT_CONDITION_SOURCE_REQUESTED_DIRECTIVE :: string where
  "DIRECT_CONDITION_SOURCE_REQUESTED_DIRECTIVE = ''hlsgraph.condition.requested_directive.v1''"

definition DIRECT_CONDITION_SOURCE_DIRECTIVE_OPTIONS :: string where
  "DIRECT_CONDITION_SOURCE_DIRECTIVE_OPTIONS = ''hlsgraph.condition.directive_options.v1''"

definition TARGET_DIRECTIVE_KINDS :: "string list" where
  "TARGET_DIRECTIVE_KINDS =
    [''DATAFLOW'', ''PIPELINE'', ''UNROLL'', ''ARRAY_PARTITION'', ''INTERFACE'', ''STREAM'',
     ''DEPENDENCE'', ''LOOP_TRIPCOUNT'', ''INLINE'']"

definition TARGET_ARTIFACT_CONDITIONS :: "(string \<times> string) list" where
  "TARGET_ARTIFACT_CONDITIONS =
    [(''amd.vitis.csynth_xml'', ''csynth_report_present''),
     (''amd.vitis.schedule_json'', ''schedule_artifact_present''),
     (''constraint.xdc'', ''constraint_artifact_present''),
     (''amd.vivado.timing_summary'', ''timing_summary_present''),
     (''amd.vivado.post_route_timing'', ''post_route_timing_result_present''),
     (''amd.vivado.utilization'', ''utilization_report_present''),
     (''amd.vivado.post_route_utilization'', ''utilization_report_present'')]"

definition TARGET_OBSERVATION_CONDITIONS :: "(string \<times> string list) list" where
  "TARGET_OBSERVATION_CONDITIONS =
    [(''csim_result_present'',
      [''csim.exit_code'', ''csim.mismatches'', ''csim.assertions_failed'']),
     (''cosim_result_present'',
      [''cosim.status'', ''cosim.latency_min_cycles'', ''cosim.latency_avg_cycles'',
       ''cosim.latency_max_cycles'', ''cosim.interval_min_cycles'', ''cosim.interval_avg_cycles'',
       ''cosim.interval_max_cycles'']),
     (''csynth_report_present'',
      [''clock.estimated_period_ns'', ''qor.latency_best_cycles'', ''qor.latency_worst_cycles'',
       ''qor.interval_min_cycles'', ''qor.interval_max_cycles'', ''qor.latency_cycles'',
       ''qor.iteration_latency_cycles'', ''qor.achieved_ii'', ''resource.lut'', ''resource.ff'',
       ''resource.dsp'', ''resource.bram_18k'', ''resource.uram'']),
     (''performance_report_present'',
      [''qor.latency_best_cycles'', ''qor.latency_worst_cycles'', ''qor.interval_min_cycles'',
       ''qor.interval_max_cycles'', ''qor.latency_cycles'', ''qor.iteration_latency_cycles'',
       ''qor.target_ii'', ''qor.achieved_ii'']),
     (''schedule_artifact_present'',
      [''schedule.start_cycle'', ''schedule.end_cycle'', ''schedule.pipeline_stage'',
       ''schedule.operation_latency'']),
     (''dataflow_profiling_enabled'',
      [''profile.fifo_max_occupancy'', ''profile.read_block_cycles'',
       ''profile.write_block_cycles'', ''profile.token_count'']),
     (''timing_summary_present'',
      [''timing.wns_ns'', ''timing.tns_ns'']),
     (''congestion_report_present'',
      [''physical.congestion_level'']),
     (''post_route_timing_result_present'',
      [''timing.critical_path_delay_ns'']),
     (''power_report_present'',
      [''power.dynamic_w'', ''power.static_w'']),
     (''utilization_report_present'',
      [''resource.lut'', ''resource.ff'', ''resource.dsp'', ''resource.bram_18k'',
       ''resource.uram''])]"

definition TARGET_GATE_CONDITIONS :: "(string \<times> string list) list" where
  "TARGET_GATE_CONDITIONS =
    [(''correctness'',
      [''csim_result_present'', ''cosim_result_present'']),
     (''resource_fits'',
      [''utilization_report_present'']),
     (''post_route_timing'',
      [''timing_gate_requested''])]"

definition TARGET_GATE_CONDITION_STAGES :: "((string \<times> string) \<times> string) list" where
  "TARGET_GATE_CONDITION_STAGES =
    [((''correctness'', ''csim_result_present''), ''csim''),
     ((''correctness'', ''cosim_result_present''), ''cosim''),
     ((''resource_fits'', ''utilization_report_present''), ''post_route''),
     ((''post_route_timing'', ''timing_gate_requested''), ''post_route'')]"

text \<open>\<open>table.get(key)\<close> with a key of the condition, and a name read back as such a key.\<close>

definition table_get :: "(string \<times> 'a) list \<Rightarrow> pykey \<Rightarrow> 'a option" where
  "table_get table k = (case k of KStr s \<Rightarrow> map_of table s | _ \<Rightarrow> None)"

definition key_of_option :: "string option \<Rightarrow> pykey" where
  "key_of_option s = (case s of None \<Rightarrow> KNone | Some x \<Rightarrow> KStr x)"

definition names :: "'a list option \<Rightarrow> 'a list" where
  "names xs = (case xs of None \<Rightarrow> [] | Some ys \<Rightarrow> ys)"

section \<open>Sources of conditions\<close>

definition target_derived_condition_source :: "KnowledgeBinding \<Rightarrow> pykey \<Rightarrow> pyval \<Rightarrow> string option" where
  "target_derived_condition_source b key condition =
     (let target_kind = kb_target_kind b; target = kb_target b in
      if target_kind = ''directive_kind'' \<and> key = KStr ''directive_kind''
         \<and> target \<in> set TARGET_DIRECTIVE_KINDS \<and> same condition (PStr target)
      then Some TARGET_CONDITION_SOURCE_DIRECTIVE
      else if target_kind = ''artifact_kind''
         \<and> key_of_option (map_of TARGET_ARTIFACT_CONDITIONS target) = key \<and> same condition (PBool True)
      then Some TARGET_CONDITION_SOURCE_ARTIFACT
      else if target_kind = ''predicate''
         \<and> target \<in> set (names (table_get TARGET_OBSERVATION_CONDITIONS key)) \<and> same condition (PBool True)
      then Some TARGET_CONDITION_SOURCE_OBSERVATION
      else if target_kind = ''gate_kind''
         \<and> key \<in> KStr ` set (names (map_of TARGET_GATE_CONDITIONS target)) \<and> same condition (PBool True)
      then Some TARGET_CONDITION_SOURCE_GATE
      else None)"

definition target_derived_condition_stage :: "KnowledgeBinding \<Rightarrow> pykey \<Rightarrow> string \<Rightarrow> string option" where
  "target_derived_condition_stage b key source =
     (if source \<noteq> TARGET_CONDITION_SOURCE_GATE then None
      else map_of TARGET_GATE_CONDITION_STAGES (kb_target b, key_str key))"

definition direct_condition_source :: "KnowledgeBinding \<Rightarrow> pykey \<Rightarrow> pyval \<Rightarrow> string option" where
  "direct_condition_source b key condition =
     (let target_kind = kb_target_kind b; target = kb_target b in
      if target_kind = ''directive_kind'' \<and> target = ''INTERFACE'' \<and> key = KStr ''interface_mode''
      then Some DIRECT_CONDITION_SOURCE_INTERFACE_MODE
      else if target_kind = ''directive_kind'' \<and> target = ''INTERFACE'' \<and> key = KStr ''port_ownership_qualified''
         \<and> same condition (PStr ''derived_from_unique_current_component_port_v1'')
      then Some DIRECT_CONDITION_SOURCE_PORT_OWNERSHIP
      else if target_kind = ''predicate'' \<and> starts_with ''directive.'' target
         \<and> key = KStr ''requested_directive_present'' \<and> same condition (PBool True)
      then Some DIRECT_CONDITION_SOURCE_REQUESTED_DIRECTIVE
      else if target_kind = ''directive_kind''
         \<and> target \<in> {''PIPELINE'', ''UNROLL'', ''ARRAY_PARTITION'', ''INLINE''}
         \<and> key = KStr ''directive_semantic_mode''
      then Some DIRECT_CONDITION_SOURCE_DIRECTIVE_OPTIONS
      else None)"

section \<open>Evidence closure\<close>

definition constraint_mentions_exact :: "pyval \<Rightarrow> pyval \<Rightarrow> bool" where
  "constraint_mentions_exact constraint expected =
     (case constraint of
        PDict d \<Rightarrow>
          known_operators d
          \<and> (if dhas d ''equals'' then same (dget d ''equals'') expected
             else is_list (dget d ''one_of'') \<and> items_of (dget d ''one_of'') \<noteq> []
               \<and> list_all (\<lambda>i. same i expected) (items_of (dget d ''one_of'')))
      | _ \<Rightarrow> \<not> is_seq constraint \<and> same constraint expected)"

definition requires_value :: "pyval \<Rightarrow> bool" where
  "requires_value constraint \<longleftrightarrow> is_dict constraint \<and> dget (dict_items constraint) ''required'' = PBool True"

definition target_condition_source_closed :: "KnowledgeBinding \<Rightarrow> pykey \<Rightarrow> string \<Rightarrow> bool" where
  "target_condition_source_closed b key source =
     (let required = dict_items (kb_required_context b);
          exact = (\<lambda>k v. constraint_mentions_exact (dget required k) (PStr v));
          needs = list_all (\<lambda>k. requires_value (dget required k)) in
      if source = TARGET_CONDITION_SOURCE_DIRECTIVE then
        needs [''directive_instance_id'', ''scope_id'']
        \<and> (exact ''directive_source_declaration_qualified'' ''derived_from_current_directive_source_declaration_v1''
           \<or> exact ''dependence_operand_resolved'' ''derived_from_current_dependence_operand_v1'')
      else if source = TARGET_CONDITION_SOURCE_ARTIFACT then
        (if kb_target b = ''constraint.xdc'' then
           exact ''constraint_input_evidence_qualified'' ''derived_from_unique_live_snapshot_input_v1''
           \<and> needs [''artifact_sha256'', ''constraint_hash'', ''constraint_artifact_identity'']
         else
           exact ''tool_artifact_evidence_qualified'' ''derived_from_declared_live_tool_output_v1''
           \<and> needs [''tool_artifact_identity'', ''tool_artifact_run_identity''])
      else if source = TARGET_CONDITION_SOURCE_OBSERVATION then
        exact ''observation_evidence_qualified'' ''derived_from_typed_observation_evidence_v1''
        \<and> exact ''snapshot_association'' ''verified''
        \<and> needs [''observation_instance_id'', ''observation_artifact_identity'', ''observation_run_identity'']
      else if source = TARGET_CONDITION_SOURCE_GATE then
        (case target_derived_condition_stage b key source of
           None \<Rightarrow> False
         | Some stage \<Rightarrow>
             exact ''stage'' stage
             \<and> exact ''gate_evidence_qualified'' ''derived_from_typed_evidence_v1''
             \<and> exact ''snapshot_association'' ''verified'')
      else False)"

definition direct_condition_source_closed :: "KnowledgeBinding \<Rightarrow> string \<Rightarrow> bool" where
  "direct_condition_source_closed b source =
     (let required = dict_items (kb_required_context b);
          exact = (\<lambda>k v. constraint_mentions_exact (dget required k) v);
          declared = exact ''directive_source_declaration_qualified''
            (PStr ''derived_from_current_directive_source_declaration_v1'');
          needs = list_all (\<lambda>k. requires_value (dget required k)) in
      if source = DIRECT_CONDITION_SOURCE_INTERFACE_MODE then
        declared \<and> needs [''directive_source_identity'', ''directive_instance_id'', ''scope_id'', ''port_id'']
      else if source = DIRECT_CONDITION_SOURCE_PORT_OWNERSHIP then
        exact ''port_ownership_qualified'' (PStr ''derived_from_unique_current_component_port_v1'')
        \<and> declared
        \<and> needs [''port_owner_id'', ''configured_component_id'', ''port_ownership_identity'',
             ''directive_source_identity'']
      else if source = DIRECT_CONDITION_SOURCE_REQUESTED_DIRECTIVE then
        exact ''requested_directive_present'' (PBool True)
        \<and> needs [''directive_instance_id'', ''scope_id'']
        \<and> dhas required ''scope_kind''
      else if source = DIRECT_CONDITION_SOURCE_DIRECTIVE_OPTIONS then
        exact ''directive_options_qualified'' (PStr ''derived_from_current_directive_options_v1'')
        \<and> declared
        \<and> needs [''directive_options_identity'', ''directive_source_identity'', ''directive_instance_id'',
             ''scope_id'']
      else False)"

section \<open>The audit\<close>

definition condition_error :: "KnowledgeBinding \<Rightarrow> pykey \<times> pyval \<Rightarrow> string option res" where
  "condition_error b kv =
     (case map_of (dict_items (kb_required_context b)) (fst kv) of
        Some required \<Rightarrow>
          bindR (constraint_entails required (snd kv)) (\<lambda>entails.
            if \<not> entails then Inr (Some ''is weakened or contradicted'')
            else case direct_condition_source b (fst kv) (snd kv) of
              None \<Rightarrow> Inr (Some ''has no registered direct evidence source'')
            | Some source \<Rightarrow>
                Inr (err_if (\<not> direct_condition_source_closed b source) ''direct premise lacks evidence closure''))
      | None \<Rightarrow>
          (case target_derived_condition_source b (fst kv) (snd kv) of
             None \<Rightarrow> Inr (Some ''has no explicit binding premise'')
           | Some source \<Rightarrow>
               Inr (err_if (\<not> target_condition_source_closed b (fst kv) source)
                 ''target premise lacks evidence closure'')))"

definition binding_entails_rule_condition :: "KnowledgeRule \<Rightarrow> KnowledgeBinding \<Rightarrow> (bool \<times> string list) res" where
  "binding_entails_rule_condition r b =
     mapr (\<lambda>es. let errors = List.map_filter (\<lambda>e. e) es in (errors = [], errors))
       (mapR (condition_error b) (dict_items (kr_condition r)))"

section \<open>Selection\<close>

definition context_get :: "pydict \<Rightarrow> pykey \<Rightarrow> pyval" where
  "context_get context k = (case map_of context k of None \<Rightarrow> PNone | Some v \<Rightarrow> v)"

definition matches_applicability :: "KnowledgeRule \<Rightarrow> pydict \<Rightarrow> bool res" where
  "matches_applicability r context =
     allR (\<lambda>kv. matches_constraint (snd kv) (context_get context (fst kv))) (dict_items (kr_applicability r))"

definition matches_binding_constraints ::
  "KnowledgeBinding \<Rightarrow> string \<Rightarrow> string \<Rightarrow> pydict \<Rightarrow> bool res" where
  "matches_binding_constraints b target_kind target context =
     (if kb_target_kind b = target_kind \<and> kb_target b = target
      then allR (\<lambda>kv. if is_seq (snd kv) then Inr False
                    else matches_constraint (snd kv) (context_get context (fst kv)))
             (dict_items (kb_required_context b))
      else Inr False)"

definition rule_selected ::
  "string option \<Rightarrow> string option \<Rightarrow> pydict option \<Rightarrow> KnowledgeRule \<Rightarrow> bool res" where
  "rule_selected document_id document_version applicability r =
     (if (document_id \<noteq> None \<and> document_id \<noteq> Some (kr_document_id r))
         \<or> (document_version \<noteq> None \<and> document_version \<noteq> Some (kr_document_version r))
      then Inr False
      else case applicability of None \<Rightarrow> Inr True | Some context \<Rightarrow> matches_applicability r context)"

definition rule_order :: "KnowledgeRule \<Rightarrow> string \<times> string \<times> string" where
  "rule_order r = (kr_document_id r, kr_document_version r, kr_rule_id r)"

definition filter_rules ::
  "KnowledgeRule list \<Rightarrow> string option \<Rightarrow> string option \<Rightarrow> pydict option \<Rightarrow> KnowledgeRule list res" where
  "filter_rules rules document_id document_version applicability =
     mapr (\<lambda>keep. sort_key rule_order (map fst (filter snd (zip rules keep))))
       (mapR (rule_selected document_id document_version applicability) rules)"

section \<open>What the audit guarantees\<close>

lemma map_filter_id_Nil: "List.map_filter (\<lambda>e. e) es = [] \<longleftrightarrow> (\<forall>e \<in> set es. e = None)"
  by (induction es) (auto simp: List.map_filter_def split: option.splits)

lemma audited_iff:
  "binding_entails_rule_condition r b = Inr (True, errors) \<longleftrightarrow>
     errors = [] \<and> (\<forall>kv \<in> set (dict_items (kr_condition r)). condition_error b kv = Inr None)"
proof
  assume "binding_entails_rule_condition r b = Inr (True, errors)"
  then obtain es where es: "mapR (condition_error b) (dict_items (kr_condition r)) = Inr es"
    and no: "\<forall>e \<in> set es. e = None" and "errors = []"
    by (auto simp: binding_entails_rule_condition_def mapr_Inr_iff Let_def map_filter_id_Nil)
  moreover have "condition_error b kv = Inr None" if "kv \<in> set (dict_items (kr_condition r))" for kv
    using es no that by (auto simp: mapR_Inr_iff list_all2_conv_all_nth in_set_conv_nth) (metis nth_mem)
  ultimately show "errors = [] \<and> (\<forall>kv \<in> set (dict_items (kr_condition r)). condition_error b kv = Inr None)"
    by blast
next
  assume *: "errors = [] \<and> (\<forall>kv \<in> set (dict_items (kr_condition r)). condition_error b kv = Inr None)"
  then have "mapR (condition_error b) (dict_items (kr_condition r))
      = Inr (map (\<lambda>_. None) (dict_items (kr_condition r)))"
    by (intro mapR_Inr_const) blast
  with * show "binding_entails_rule_condition r b = Inr (True, errors)"
    by (simp add: binding_entails_rule_condition_def Let_def map_filter_id_Nil)
qed

lemma direct_condition_entailed:
  assumes "binding_entails_rule_condition r b = Inr (True, errors)"
    and "(k, condition) \<in> set (dict_items (kr_condition r))"
    and "map_of (dict_items (kb_required_context b)) k = Some required"
  shows "constraint_entails required condition = Inr True"
    and "\<exists>source. direct_condition_source b k condition = Some source \<and> direct_condition_source_closed b source"
  using assms unfolding audited_iff condition_error_def
  by (auto simp: res_iff dest!: bspec split: option.splits if_splits)

text \<open>The conditions whose run-time comparison the audit covers: one way of naming values, and
  a scalar requirement of the binding and the context without floats.\<close>

definition comparable :: "KnowledgeRule \<Rightarrow> KnowledgeBinding \<Rightarrow> pydict \<Rightarrow> bool" where
  "comparable r b context \<longleftrightarrow>
     json_value (kr_condition r) \<and> json_value (kb_required_context b)
     \<and> list_all (\<lambda>kv. \<not> (dhas (dict_items (snd kv)) ''equals'' \<and> dhas (dict_items (snd kv)) ''one_of''))
         (dict_items (kr_condition r))
     \<and> list_all (\<lambda>kv. is_dict (snd kv) \<or> plain_scalar (snd kv) \<and> plain_context (context_get context (fst kv)))
         (dict_items (kb_required_context b))"

lemma constraints_valid:
  "validate_knowledge_constraints (PDict d) = Inr () \<Longrightarrow> (k, v) \<in> set d \<Longrightarrow> validate_constraint v = Inr ()"
  by (force simp: validate_knowledge_constraints_def res_iff split: if_splits)


definition witness_rule :: KnowledgeRule where
  "witness_rule =
     \<lparr>kr_document_id = ''amd.ug1399'', kr_document_version = ''2024.2'', kr_section = ''INTERFACE'',
      kr_rule_id = ''axi.mode'', kr_title = ''AXI'', kr_applicability = PDict [],
      kr_condition = pdict [(''interface_mode'', pdict [(''one_of'', PList [PStr ''m_axi'', PStr ''s_axilite''])])],
      kr_effect = [], kr_citation_url = ''https://docs.amd.com'', kr_summary = Some ''AXI'',
      kr_license_note = None, kr_metadata = []\<rparr>"

definition witness_binding :: KnowledgeBinding where
  "witness_binding =
     \<lparr>kb_knowledge_rule_id = ''amd.ug1399:2024.2:axi.mode'', kb_target_kind = ''directive_kind'',
      kb_target = ''INTERFACE'',
      kb_required_context = pdict
        [(''interface_mode'', PStr ''M_AXI''),
         (''directive_source_declaration_qualified'', PStr ''derived_from_current_directive_source_declaration_v1''),
         (''directive_source_identity'', pdict [(''required'', PBool True)]),
         (''directive_instance_id'', pdict [(''required'', PBool True)]),
         (''scope_id'', pdict [(''required'', PBool True)]), (''port_id'', pdict [(''required'', PBool True)])],
      kb_producer = ''hlsgraph'', kb_producer_version = ''1'', kb_id = [], kb_metadata = []\<rparr>"

definition witness_context :: pydict where
  "witness_context = dict_items (pdict
     [(''interface_mode'', PList [PStr ''ap_none'', PStr ''m_axi'']),
      (''directive_source_declaration_qualified'', PStr ''derived_from_current_directive_source_declaration_v1''),
      (''directive_source_identity'', PStr ''d1''), (''directive_instance_id'', PStr ''i1''),
      (''scope_id'', PStr ''top''), (''port_id'', PStr ''p0'')])"

lemma witness_binding_built: "\<exists>i. KnowledgeBinding_init witness_binding = Inr (witness_binding\<lparr>kb_id := i\<rparr>)"
proof -
  have "is_ok (canonical_json (KnowledgeBinding_identity witness_binding))" by code_simp
  then obtain j t where "json_ready (KnowledgeBinding_identity witness_binding) = Inr j" "dumps j = Inr t"
    by (auto simp: is_ok_iff canonical_json_def res_iff)
  then obtain i where i: "stable_id ''knowledge_binding'' (KnowledgeBinding_identity witness_binding) = Inr i"
    using stable_id_total by blast
  have ok: "checks
       [require_namespaced (kb_knowledge_rule_id witness_binding),
        target_kind_check (kb_target_kind witness_binding),
        require_namespaced (kb_target witness_binding), require_namespaced (kb_producer witness_binding),
        reject (strip (kb_producer_version witness_binding) = []) ''knowledge binding producer_version is required'',
        reject (\<not> is_dict (kb_required_context witness_binding))
          ''knowledge binding required_context must be an object'',
        validate_knowledge_constraints (kb_required_context witness_binding),
        reject_embedded_body_fields (kb_required_context witness_binding),
        reject_embedded_body_fields (PDict (kb_metadata witness_binding))] () = Inr ()"
    by code_simp
  from i have "closed_id (kb_id witness_binding) ''knowledge_binding'' (KnowledgeBinding_identity witness_binding)
      ''knowledge binding stable id does not match'' = Inr i"
    by (simp add: closed_id_def closed_id_n_def stable_id_def checks_eval witness_binding_def)
  with ok show ?thesis by (auto simp: KnowledgeBinding_init_def)
qed


text \<open>C38: \<open>filter_rules\<close> returns, in document order, exactly the rules of the requested
  document and version whose applicability the given context meets.\<close>

theorem filter_rules_exact:
  assumes "filter_rules rules document_id document_version applicability = Inr selected"
  shows "sorted (map rule_order selected)
     \<and> mset selected = filter_mset (\<lambda>r. rule_selected document_id document_version applicability r = Inr True) (mset rules)"
proof -
  let ?p = "rule_selected document_id document_version applicability"
  from assms obtain keep where keep: "mapR ?p rules = Inr keep"
    and out: "selected = sort_key rule_order (map fst (filter snd (zip rules keep)))"
    by (auto simp: filter_rules_def mapr_Inr_iff)
  from keep have "map fst (filter snd (zip rules keep)) = filter (\<lambda>r. ?p r = Inr True) rules"
  proof (induction rules arbitrary: keep)
    case (Cons r rules)
    then show ?case by (auto simp: res_iff)
  qed simp
  with out show ?thesis by (simp add: mset_filter)
qed

theorem filter_rules_exact_witness:
  "sorted (map rule_order [witness_rule])
     \<and> mset [witness_rule] = filter_mset (\<lambda>r. rule_selected (Some ''amd.ug1399'') None (Some []) r = Inr True)
         (mset [witness_rule, witness_rule\<lparr>kr_document_id := ''other''\<rparr>])"
  by (rule filter_rules_exact) code_simp

end
