(* ===== verification/Knowledge_Pack.thy ===== *)
theory Knowledge_Pack
  imports Knowledge_Source
begin

text \<open>
  Knowledge packs (\<open>hlsgraph/knowledge/core.py\<close> and \<open>supported_targets.py\<close>): document
  references, the pack constructor with its closed coverage, the canonical target registry,
  the activation hash and the public inventory.
\<close>

section \<open>The target registry\<close>

definition SUPPORTED_TARGET_REGISTRY_VERSION :: string where
  "SUPPORTED_TARGET_REGISTRY_VERSION = ''hlsgraph.knowledge_supported_targets.v1''"

definition CANONICAL_SUPPORTED_TARGETS :: "(string \<times> (string \<times> string) list) list" where
  "CANONICAL_SUPPORTED_TARGETS =
    [(''hlsgraph.supported_amd_2024_2_contract_surface'',
      [(''artifact_kind'', ''amd.vitis.cosim_report''),
       (''artifact_kind'', ''amd.vitis.cosim_rpt''),
       (''artifact_kind'', ''amd.vitis.csim_result''),
       (''artifact_kind'', ''amd.vitis.csynth_xml''),
       (''artifact_kind'', ''amd.vitis.dataflow_profile''),
       (''artifact_kind'', ''amd.vitis.directive_status''),
       (''artifact_kind'', ''amd.vitis.schedule_json''),
       (''artifact_kind'', ''amd.vivado.physical_summary''),
       (''artifact_kind'', ''amd.vivado.post_route_timing''),
       (''artifact_kind'', ''amd.vivado.post_route_utilization''),
       (''artifact_kind'', ''amd.vivado.qor_summary''),
       (''artifact_kind'', ''amd.vivado.routed_checkpoint''),
       (''artifact_kind'', ''amd.vivado.timing_summary''),
       (''artifact_kind'', ''amd.vivado.utilization''), (''artifact_kind'', ''constraint.xdc''),
       (''diagnostic_code'', ''gate.resource_capacity_incomplete''),
       (''diagnostic_code'', ''gate.resource_capacity_unknown''),
       (''diagnostic_code'', ''mapping.ambiguous_report_scope''),
       (''diagnostic_code'', ''mapping.unresolved_report_scope''),
       (''diagnostic_code'', ''verification.missing_workload''),
       (''diagnostic_code'', ''vitis.report_parse_error''),
       (''diagnostic_code'', ''vivado.report_parse_error''),
       (''directive_kind'', ''ARRAY_PARTITION''), (''directive_kind'', ''DATAFLOW''),
       (''directive_kind'', ''DEPENDENCE''), (''directive_kind'', ''INLINE''),
       (''directive_kind'', ''INTERFACE''), (''directive_kind'', ''LOOP_TRIPCOUNT''),
       (''directive_kind'', ''PIPELINE''), (''directive_kind'', ''STREAM''),
       (''directive_kind'', ''UNROLL''), (''gate_kind'', ''correctness''),
       (''gate_kind'', ''post_route_timing''), (''gate_kind'', ''resource_fits''),
       (''predicate'', ''clock.estimated_period_ns''),
       (''predicate'', ''clock.requested_period_ns''),
       (''predicate'', ''cosim.interval_avg_cycles''),
       (''predicate'', ''cosim.interval_max_cycles''),
       (''predicate'', ''cosim.interval_min_cycles''),
       (''predicate'', ''cosim.latency_avg_cycles''),
       (''predicate'', ''cosim.latency_max_cycles''),
       (''predicate'', ''cosim.latency_min_cycles''), (''predicate'', ''cosim.status''),
       (''predicate'', ''csim.assertions_failed''), (''predicate'', ''csim.exit_code''),
       (''predicate'', ''csim.mismatches''), (''predicate'', ''directive.achieved''),
       (''predicate'', ''directive.declared_selected''),
       (''predicate'', ''directive.reported_requested''),
       (''predicate'', ''directive.requested''), (''predicate'', ''directive.tool_effective''),
       (''predicate'', ''directive.tool_status''), (''predicate'', ''physical.cdc_critical''),
       (''predicate'', ''physical.congestion_level''), (''predicate'', ''physical.drc_errors''),
       (''predicate'', ''physical.slr_crossings''), (''predicate'', ''power.dynamic_w''),
       (''predicate'', ''power.static_w''), (''predicate'', ''profile.fifo_max_occupancy''),
       (''predicate'', ''profile.read_block_cycles''), (''predicate'', ''profile.token_count''),
       (''predicate'', ''profile.write_block_cycles''), (''predicate'', ''qor.achieved_ii''),
       (''predicate'', ''qor.interval_max_cycles''), (''predicate'', ''qor.interval_min_cycles''),
       (''predicate'', ''qor.iteration_latency_cycles''),
       (''predicate'', ''qor.latency_best_cycles''), (''predicate'', ''qor.latency_cycles''),
       (''predicate'', ''qor.latency_worst_cycles''), (''predicate'', ''qor.pipeline_depth''),
       (''predicate'', ''qor.target_ii''), (''predicate'', ''qor.trip_count''),
       (''predicate'', ''resource.available_bram_18k''),
       (''predicate'', ''resource.available_dsp''), (''predicate'', ''resource.available_ff''),
       (''predicate'', ''resource.available_lut''), (''predicate'', ''resource.available_uram''),
       (''predicate'', ''resource.bram_18k''), (''predicate'', ''resource.dsp''),
       (''predicate'', ''resource.ff''), (''predicate'', ''resource.lut''),
       (''predicate'', ''resource.uram''), (''predicate'', ''schedule.end_cycle''),
       (''predicate'', ''schedule.operation_latency''),
       (''predicate'', ''schedule.pipeline_stage''), (''predicate'', ''schedule.start_cycle''),
       (''predicate'', ''timing.critical_path_delay_ns''), (''predicate'', ''timing.tns_ns''),
       (''predicate'', ''timing.wns_ns'')]),
     (''hlsgraph.supported_axi_contract_surface'',
      [(''directive_kind'', ''INTERFACE''), (''entity_kind'', ''hls.port''),
       (''entity_kind'', ''hls.stream''), (''relation_kind'', ''hls.streams_to'')]),
     (''hlsgraph.supported_open_ir_contract_surface'',
      [(''diagnostic_code'', ''llvm.bitcode_requires_plugin''),
       (''diagnostic_code'', ''llvm.instruction_limit''),
       (''diagnostic_code'', ''mapping.ambiguous_mlir_location''),
       (''diagnostic_code'', ''mapping.unresolved_mlir_location''),
       (''diagnostic_code'', ''mlir.experimental_text_parser''),
       (''diagnostic_code'', ''mlir.operation_limit''),
       (''diagnostic_code'', ''mlir.unsupported_dialect''), (''entity_kind'', ''hls.buffer''),
       (''entity_kind'', ''hls.process''), (''entity_kind'', ''ir.llvm.block''),
       (''entity_kind'', ''ir.llvm.function''), (''entity_kind'', ''ir.llvm.module''),
       (''entity_kind'', ''ir.llvm.operation''), (''entity_kind'', ''ir.mlir.function''),
       (''entity_kind'', ''ir.mlir.module''), (''entity_kind'', ''ir.mlir.operation''),
       (''hlsgraph.plugin_contract'', ''dynamatic.adapter''),
       (''hlsgraph.plugin_contract'', ''scalehls.adapter''),
       (''predicate'', ''feature.bitwidth''), (''predicate'', ''feature.debug_location''),
       (''predicate'', ''feature.dependence_distance''),
       (''predicate'', ''feature.index_histogram''), (''predicate'', ''feature.loop_bounds''),
       (''predicate'', ''feature.memory_access''),
       (''predicate'', ''feature.operation_histogram''),
       (''predicate'', ''feature.software_call_targets''),
       (''predicate'', ''feature.trip_count''), (''relation_kind'', ''cross.maps_to''),
       (''relation_kind'', ''cross.projects_to''), (''relation_kind'', ''handshake.dataflow''),
       (''relation_kind'', ''hls.streams_to''), (''relation_kind'', ''ir.contains''),
       (''relation_kind'', ''ir.ssa_use''), (''relation_kind'', ''llvm.calls''),
       (''relation_kind'', ''llvm.cfg'')])]"

definition canonical_supported_targets :: "string \<Rightarrow> string \<Rightarrow> (string \<times> string) list res" where
  "canonical_supported_targets coverage_scope registry_version =
     (if registry_version \<noteq> SUPPORTED_TARGET_REGISTRY_VERSION
      then Inl (KeyError ''unsupported target registry version'')
      else case map_of CANONICAL_SUPPORTED_TARGETS coverage_scope of
        None \<Rightarrow> Inl (KeyError ''unknown canonical coverage scope'')
      | Some targets \<Rightarrow> Inr targets)"

section \<open>URLs\<close>

text \<open>\<open>urlparse\<close> as far as \<open>scheme\<close> and \<open>netloc\<close> go, with brackets only required to
  pair (CPython 3.10).\<close>

definition scheme_char :: "char \<Rightarrow> bool" where
  "scheme_char c \<longleftrightarrow> is_alnum c \<or> c \<in> {CHR ''+'', CHR ''-'', CHR ''.''}"

definition url_text :: "string \<Rightarrow> string" where
  "url_text url = filter (\<lambda>c. code c \<notin> {9, 10, 13}) (dropWhile (\<lambda>c. code c \<le> 32) url)"

definition split_scheme :: "string \<Rightarrow> string \<times> string" where
  "split_scheme url =
     (let before = takeWhile (\<lambda>c. c \<noteq> CHR '':'') url; after = dropWhile (\<lambda>c. c \<noteq> CHR '':'') url in
      case (before, after) of
        (b # bs, _ # rest) \<Rightarrow>
          if is_alpha b \<and> list_all scheme_char before then (lower before, rest) else ([], url)
      | _ \<Rightarrow> ([], url))"

definition split_netloc :: "string \<Rightarrow> string" where
  "split_netloc rest =
     (if starts_with ''//'' rest
      then takeWhile (\<lambda>c. c \<notin> {slash, CHR ''?'', CHR ''#''}) (drop 2 rest) else [])"

definition urlparse :: "string \<Rightarrow> (string \<times> string) res" where
  "urlparse url =
     (let (scheme, rest) = split_scheme (url_text url); netloc = split_netloc rest in
      checks [reject ((CHR ''['' \<in> set netloc) \<noteq> (CHR '']'' \<in> set netloc)) ''Invalid IPv6 URL'']
        (scheme, netloc))"

definition reject_pack :: "bool \<Rightarrow> string \<Rightarrow> unit res" where
  "reject_pack c msg = reject_with c (KnowledgePackError msg)"

lemma reject_pack_Inr_iff [res_iff]: "reject_pack c msg = Inr u \<longleftrightarrow> \<not> c"
  by (simp add: reject_pack_def res_iff)

definition require_https :: "string \<Rightarrow> unit res" where
  "require_https url =
     bindR (urlparse url) (\<lambda>(scheme, netloc).
       reject_pack (scheme \<noteq> ''https'' \<or> netloc = []) ''must be an absolute HTTPS URL'')"

section \<open>Embedded content\<close>

definition FORBIDDEN_CONTENT_FIELDS :: "string list" where
  "FORBIDDEN_CONTENT_FIELDS =
    [''body'', ''chunks'', ''content'', ''document_text'', ''embedding'', ''extracted_text'', ''full_text'',
     ''page_text'', ''pages'', ''pdf_base64'', ''raw_text'', ''text'']"

definition content_key :: "pykey \<Rightarrow> bool" where
  "content_key k \<longleftrightarrow>
     replace_char (CHR ''-'') (CHR ''_'') (casefold (strip (key_str k))) \<in> set FORBIDDEN_CONTENT_FIELDS"

fun reject_embedded_content :: "pyval \<Rightarrow> unit res" where
  "reject_embedded_content (PDict kvs) =
     forR (\<lambda>kv. if content_key (fst kv)
               then Inl (KnowledgePackError ''is not allowed: indexes and packs are metadata/citation-only'')
               else reject_embedded_content (snd kv)) kvs"
| "reject_embedded_content (PList xs) = forR reject_embedded_content xs"
| "reject_embedded_content _ = Inr ()"

section \<open>Documents and packs\<close>

record DocumentReference =
  dr_document_id :: string
  dr_document_version :: string
  dr_title :: string
  dr_official_url :: string
  dr_publisher :: string
  dr_kind :: string
  dr_license_note :: "string option"

definition DocumentReference_init :: "DocumentReference \<Rightarrow> DocumentReference res" where
  "DocumentReference_init d =
     checks
       [require_namespaced (dr_document_id d),
        reject_pack (strip (dr_document_version d) = []) ''document_version is required'',
        reject_pack (strip (dr_title d) = [] \<or> strip (dr_publisher d) = [])
          ''document title and publisher are required'',
        require_https (dr_official_url d)] d"

record KnowledgePack =
  kp_schema_version :: string
  kp_pack_id :: string
  kp_title :: string
  kp_license :: string
  kp_documents :: "DocumentReference list"
  kp_rules :: "KnowledgeRule list"
  kp_bindings :: "KnowledgeBinding list"
  kp_coverage :: "CoverageManifest option"
  kp_metadata :: pydict

definition PACK_SCHEMA_VERSION :: string where
  "PACK_SCHEMA_VERSION = ''2.0''"

definition LEGACY_PACK_SCHEMA_VERSIONS :: "string list" where
  "LEGACY_PACK_SCHEMA_VERSIONS = [''1.0'']"

definition document_key :: "DocumentReference \<Rightarrow> string \<times> string" where
  "document_key d = (dr_document_id d, dr_document_version d)"

definition declared_documents :: "KnowledgePack \<Rightarrow> (string \<times> string) list" where
  "declared_documents p = map document_key (kp_documents p)"

definition pack_rule_ids :: "KnowledgePack \<Rightarrow> string list" where
  "pack_rule_ids p = map KnowledgeRule_id (kp_rules p)"

definition pack_binding_ids :: "KnowledgePack \<Rightarrow> string list" where
  "pack_binding_ids p = map kb_id (kp_bindings p)"

definition rule_by_id :: "KnowledgePack \<Rightarrow> string \<Rightarrow> KnowledgeRule option" where
  "rule_by_id p = map_of (map (\<lambda>r. (KnowledgeRule_id r, r)) (kp_rules p))"

definition binding_by_id :: "KnowledgePack \<Rightarrow> string \<Rightarrow> KnowledgeBinding option" where
  "binding_by_id p = map_of (map (\<lambda>b. (kb_id b, b)) (kp_bindings p))"

text \<open>The loops over rules and bindings; \<open>i\<close> is the position, so that the ids seen so far
  are those of the items before it.\<close>

definition pack_rule_check :: "KnowledgePack \<Rightarrow> nat \<Rightarrow> unit res" where
  "pack_rule_check p i =
     (let r = kp_rules p ! i in
      checks
        [require_namespaced (kr_document_id r), require_namespaced (kr_rule_id r),
         reject_pack ((kr_document_id r, kr_document_version r) \<notin> set (declared_documents p))
           ''cites an undeclared document version'',
         reject_pack (KnowledgeRule_id r \<in> set (take i (pack_rule_ids p))) ''duplicate knowledge rule'',
         reject_pack (strip (kr_section r) = []) ''requires a section reference'',
         require_https (kr_citation_url r),
         reject_pack (\<not> opt_any (\<lambda>s. strip s \<noteq> []) (kr_summary r)) ''requires a short paraphrase'',
         reject_pack (opt_any (\<lambda>s. length s > 500) (kr_summary r))
           ''summary exceeds the 500-character paraphrase limit''] ())"

definition pack_binding_check :: "KnowledgePack \<Rightarrow> nat \<Rightarrow> unit res" where
  "pack_binding_check p i =
     (let b = kp_bindings p ! i in
      case rule_by_id p (kb_knowledge_rule_id b) of
        None \<Rightarrow> Inl (KnowledgePackError ''references a rule outside its pack'')
      | Some r \<Rightarrow>
          checks
            [reject_pack (kb_id b \<in> set (take i (pack_binding_ids p))) ''duplicate knowledge binding'',
             bindR (binding_entails_rule_condition r b) (\<lambda>(entails, _).
               reject_pack (\<not> entails) ''does not entail its rule condition'')] ())"

section \<open>Coverage of a pack\<close>

definition coverage_entry_check :: "KnowledgePack \<Rightarrow> CoverageEntry \<Rightarrow> unit res" where
  "coverage_entry_check p e =
     checks
       [reject_pack ((ce_document_id e, ce_document_version e) \<notin> set (declared_documents p))
          ''references an undeclared document'',
        reject_pack (list_ex (\<lambda>i. i \<notin> set (pack_rule_ids p)) (ce_rule_ids e)) ''references a rule outside its pack'',
        reject_pack (list_ex (\<lambda>i. i \<notin> set (pack_binding_ids p)) (ce_binding_ids e))
          ''references a binding outside its pack''] ()"

definition rule_entries :: "CoverageManifest \<Rightarrow> CoverageEntry list" where
  "rule_entries m = filter (\<lambda>e. ce_status e = ''rule'') (cm_entries m)"

text \<open>The counters over the rule entries, as the list of what was counted.\<close>

definition rule_coverage :: "CoverageManifest \<Rightarrow> string list" where
  "rule_coverage m = concat (map ce_rule_ids (rule_entries m))"

definition binding_coverage :: "CoverageManifest \<Rightarrow> string list" where
  "binding_coverage m = concat (map ce_binding_ids (rule_entries m))"

definition covered_once :: "string list \<Rightarrow> string list \<Rightarrow> bool" where
  "covered_once ids covered \<longleftrightarrow>
     list_all (\<lambda>i. i \<in> set covered) ids \<and> list_all (\<lambda>i. count_list covered i = 1) covered"

definition binding_placement_check :: "KnowledgePack \<Rightarrow> CoverageEntry \<Rightarrow> unit res" where
  "binding_placement_check p e =
     forR (\<lambda>i. case binding_by_id p i of
               None \<Rightarrow> Inl (KeyError i)
             | Some b \<Rightarrow> reject_pack (kb_knowledge_rule_id b \<notin> set (ce_rule_ids e))
                 ''places binding under a different knowledge rule'') (ce_binding_ids e)"

definition target_binding_check :: "KnowledgePack \<Rightarrow> KnowledgeTargetCoverage \<Rightarrow> unit res" where
  "target_binding_check p t =
     forR (\<lambda>i. case binding_by_id p i of
               None \<Rightarrow> Inl (KnowledgePackError ''references a binding outside its pack'')
             | Some b \<Rightarrow> reject_pack ((kb_target_kind b, kb_target b) \<noteq> target_key t)
                 ''references a binding for a different target'') (kt_binding_ids t)"

definition covered_binding_ids :: "CoverageManifest \<Rightarrow> string list" where
  "covered_binding_ids m = concat (map kt_binding_ids (cm_target_inventory m))"

definition as_pack_error :: "'a res \<Rightarrow> 'a res" where
  "as_pack_error m = (case m of Inl (KeyError s) \<Rightarrow> Inl (KnowledgePackError s) | _ \<Rightarrow> m)"

definition target_registry_check :: "CoverageManifest \<Rightarrow> unit res" where
  "target_registry_check m =
     bindR (as_pack_error (canonical_supported_targets (cm_coverage_scope m) (cm_target_registry_version m)))
       (\<lambda>expected. reject_pack (set (map target_key (cm_target_inventory m)) \<noteq> set expected)
          ''coverage target inventory must exactly match the canonical registry'')"

definition pack_coverage_check :: "KnowledgePack \<Rightarrow> CoverageManifest \<Rightarrow> unit res" where
  "pack_coverage_check p m =
     checks
       [reject_pack (cm_pack_id m \<noteq> kp_pack_id p) ''coverage manifest belongs to another pack'',
        (let status = dget (kp_metadata p) ''review_status'' in
         reject_pack (status \<noteq> PNone \<and> status \<noteq> PStr (cm_review_status m))
           ''pack metadata and coverage review_status must agree''),
        forR (coverage_entry_check p) (cm_entries m),
        forR (binding_placement_check p) (rule_entries m),
        reject_pack (\<not> covered_once (pack_rule_ids p) (rule_coverage m))
          ''every knowledge rule must be covered exactly once by a rule entry'',
        reject_pack (\<not> covered_once (pack_binding_ids p) (binding_coverage m))
          ''every knowledge binding must be covered exactly once by a rule entry'',
        forR (target_binding_check p) (cm_target_inventory m),
        reject_pack (cm_target_inventory m \<noteq> [] \<and> set (covered_binding_ids m) \<noteq> set (pack_binding_ids p))
          ''coverage target inventory omits binding IDs'',
        (if cm_target_inventory m \<noteq> [] \<or> kp_bindings p \<noteq> [] then target_registry_check m else Inr ())] ()"

definition KnowledgePack_init :: "KnowledgePack \<Rightarrow> KnowledgePack res" where
  "KnowledgePack_init p =
     checks
       [reject_pack (kp_schema_version p \<notin> set (PACK_SCHEMA_VERSION # LEGACY_PACK_SCHEMA_VERSIONS))
          ''unsupported knowledge pack schema'',
        require_namespaced (kp_pack_id p),
        reject_pack (strip (kp_title p) = [] \<or> strip (kp_license p) = []) ''pack title and license are required'',
        reject_pack (has_duplicates (declared_documents p)) ''duplicate document reference'',
        forR (pack_rule_check p) [0..<length (kp_rules p)],
        forR (pack_binding_check p) [0..<length (kp_bindings p)],
        reject_pack (kp_schema_version p \<in> set LEGACY_PACK_SCHEMA_VERSIONS
            \<and> (kp_bindings p \<noteq> [] \<or> kp_coverage p \<noteq> None))
          ''v1 knowledge packs cannot contain v2 binding or coverage data'',
        (case kp_coverage p of
           Some m \<Rightarrow> pack_coverage_check p m
         | None \<Rightarrow> reject_pack (kp_schema_version p = PACK_SCHEMA_VERSION \<and> (kp_rules p \<noteq> [] \<or> kp_bindings p \<noteq> []))
             ''v2 knowledge packs with rules or bindings require an explicit coverage manifest'')] p"

text \<open>\<open>raw\<close> is the decoded mapping, \<open>p\<close> its fields; the nested contracts are built first.\<close>

definition KnowledgePack_from_dict :: "pyval \<Rightarrow> KnowledgePack \<Rightarrow> KnowledgePack res" where
  "KnowledgePack_from_dict raw p =
     bindR (reject_embedded_content raw) (\<lambda>_.
     bindR (mapR DocumentReference_init (kp_documents p)) (\<lambda>documents.
     bindR (mapR KnowledgeRule_init (kp_rules p)) (\<lambda>rules.
     bindR (mapR KnowledgeBinding_init (kp_bindings p)) (\<lambda>bindings.
     bindR (optR CoverageManifest_from_dict (kp_coverage p)) (\<lambda>coverage.
     KnowledgePack_init (p\<lparr>kp_documents := documents, kp_rules := rules, kp_bindings := bindings,
       kp_coverage := coverage\<rparr>))))))"

text \<open>\<open>except (TypeError, KeyError, ValueError)\<close> of \<open>_load_pack_mapping\<close>.\<close>

definition load_pack_mapping :: "pyval \<Rightarrow> KnowledgePack \<Rightarrow> KnowledgePack res" where
  "load_pack_mapping raw p =
     (case KnowledgePack_from_dict raw p of
        Inl (ValueError e) \<Rightarrow> Inl (KnowledgePackError e)
      | Inl (TypeError e) \<Rightarrow> Inl (KnowledgePackError e)
      | Inl (KeyError e) \<Rightarrow> Inl (KnowledgePackError e)
      | m \<Rightarrow> m)"

definition pack_review_ready :: "KnowledgePack \<Rightarrow> bool" where
  "pack_review_ready p \<longleftrightarrow>
     (case kp_coverage p of
        None \<Rightarrow> False
      | Some m \<Rightarrow> review_ready m \<and> dget (kp_metadata p) ''review_status'' = PStr (cm_review_status m))"

section \<open>The activation surface and the inventory\<close>

definition KnowledgeRule_val :: "KnowledgeRule \<Rightarrow> pyval" where
  "KnowledgeRule_val k = PObj
     [(''document_id'', PStr (kr_document_id k)), (''document_version'', PStr (kr_document_version k)),
      (''section'', PStr (kr_section k)), (''rule_id'', PStr (kr_rule_id k)), (''title'', PStr (kr_title k)),
      (''applicability'', kr_applicability k), (''condition'', kr_condition k), (''effect'', PDict (kr_effect k)),
      (''citation_url'', PStr (kr_citation_url k)), (''summary'', opt_str (kr_summary k)),
      (''license_note'', opt_str (kr_license_note k)), (''metadata'', PDict (kr_metadata k))]"

definition KnowledgeBinding_val :: "KnowledgeBinding \<Rightarrow> pyval" where
  "KnowledgeBinding_val b = PObj
     [(''knowledge_rule_id'', PStr (kb_knowledge_rule_id b)), (''target_kind'', PStr (kb_target_kind b)),
      (''target'', PStr (kb_target b)), (''required_context'', kb_required_context b),
      (''producer'', PStr (kb_producer b)), (''producer_version'', PStr (kb_producer_version b)),
      (''id'', PStr (kb_id b)), (''metadata'', PDict (kb_metadata b))]"

definition CoverageManifest_val :: "CoverageManifest \<Rightarrow> pyval" where
  "CoverageManifest_val m = PObj
     [(''pack_id'', PStr (cm_pack_id m)), (''coverage_scope'', PStr (cm_coverage_scope m)),
      (''entries'', PList (map CoverageEntry_val (cm_entries m))),
      (''target_inventory'', PList (map KnowledgeTargetCoverage_val (cm_target_inventory m))),
      (''target_registry_version'', PStr (cm_target_registry_version m)),
      (''review_status'', PStr (cm_review_status m)), (''reviewers'', str_list (cm_reviewers m)),
      (''source_hashes'', pdict (map (\<lambda>kv. (fst kv, PStr (snd kv))) (cm_source_hashes m))),
      (''review_evidence'', PDict (cm_review_evidence m)), (''schema_version'', PStr (cm_schema_version m)),
      (''id'', PStr (cm_id m)), (''metadata'', PDict (cm_metadata m))]"

definition coverage_val :: "CoverageManifest option \<Rightarrow> pyval" where
  "coverage_val c = (case c of None \<Rightarrow> PNone | Some m \<Rightarrow> CoverageManifest_val m)"

definition activation_surface ::
  "KnowledgeRule list \<Rightarrow> KnowledgeBinding list \<Rightarrow> CoverageManifest option \<Rightarrow> pyval" where
  "activation_surface rules bindings coverage = pdict
     [(''contract'', PStr ''hlsgraph.knowledge_activation_surface.v1''),
      (''rules'', PList (map KnowledgeRule_val (sort_key KnowledgeRule_id rules))),
      (''bindings'', PList (map KnowledgeBinding_val (sort_key kb_id bindings))),
      (''coverage'', coverage_val coverage)]"

definition knowledge_activation_hash ::
  "KnowledgeRule list \<Rightarrow> KnowledgeBinding list \<Rightarrow> CoverageManifest option \<Rightarrow> string res" where
  "knowledge_activation_hash rules bindings coverage = stable_hash (activation_surface rules bindings coverage)"

definition DocumentReference_val :: "DocumentReference \<Rightarrow> pyval" where
  "DocumentReference_val d = PObj
     [(''document_id'', PStr (dr_document_id d)), (''document_version'', PStr (dr_document_version d)),
      (''title'', PStr (dr_title d)), (''official_url'', PStr (dr_official_url d)),
      (''publisher'', PStr (dr_publisher d)), (''kind'', PStr (dr_kind d)),
      (''license_note'', opt_str (dr_license_note d))]"

definition KnowledgePack_val :: "KnowledgePack \<Rightarrow> pyval" where
  "KnowledgePack_val p = PObj
     [(''schema_version'', PStr (kp_schema_version p)), (''pack_id'', PStr (kp_pack_id p)),
      (''title'', PStr (kp_title p)), (''license'', PStr (kp_license p)),
      (''documents'', PList (map DocumentReference_val (kp_documents p))),
      (''rules'', PList (map KnowledgeRule_val (kp_rules p))),
      (''bindings'', PList (map KnowledgeBinding_val (kp_bindings p))),
      (''coverage'', coverage_val (kp_coverage p)), (''metadata'', PDict (kp_metadata p))]"

definition content_hash :: "KnowledgePack \<Rightarrow> string res" where
  "content_hash p = stable_hash (KnowledgePack_val p)"

definition document_entry :: "DocumentReference \<Rightarrow> pyval" where
  "document_entry d = pdict
     [(''document_id'', PStr (dr_document_id d)), (''document_version'', PStr (dr_document_version d)),
      (''official_url'', PStr (dr_official_url d))]"

definition of_coverage :: "(CoverageManifest \<Rightarrow> string) \<Rightarrow> CoverageManifest option \<Rightarrow> pyval" where
  "of_coverage f c = (case c of None \<Rightarrow> PNone | Some m \<Rightarrow> PStr (f m))"

definition inventory_review_status :: "KnowledgePack \<Rightarrow> pyval" where
  "inventory_review_status p =
     (case kp_coverage p of
        Some m \<Rightarrow> PStr (cm_review_status m)
      | None \<Rightarrow> if dhas (kp_metadata p) ''review_status'' then dget (kp_metadata p) ''review_status''
          else PStr ''unreviewed'')"

definition inventory :: "KnowledgePack \<Rightarrow> pydict res" where
  "inventory p =
     bindR (content_hash p) (\<lambda>content.
     bindR (knowledge_activation_hash (kp_rules p) (kp_bindings p) (kp_coverage p)) (\<lambda>activation.
     Inr (dict_items (pdict
       [(''pack_id'', PStr (kp_pack_id p)), (''pack_schema_version'', PStr (kp_schema_version p)),
        (''content_hash'', PStr content), (''activation_hash'', PStr activation),
        (''documents'', PList (map document_entry (sort_key document_key (kp_documents p)))),
        (''rule_ids'', str_list (sort (pack_rule_ids p))), (''binding_ids'', str_list (sort (pack_binding_ids p))),
        (''coverage_id'', of_coverage cm_id (kp_coverage p)),
        (''coverage_scope'', of_coverage cm_coverage_scope (kp_coverage p)),
        (''target_registry_version'', of_coverage cm_target_registry_version (kp_coverage p)),
        (''review_status'', inventory_review_status p), (''review_ready'', PBool (pack_review_ready p)),
        (''contains_document_body'', PBool False)]))))"

section \<open>What an accepted pack guarantees\<close>

lemma KnowledgePack_init_same: "KnowledgePack_init p = Inr q \<Longrightarrow> q = p"
  by (simp add: KnowledgePack_init_def checks_iff)

lemma covered_once_iff:
  "covered_once ids covered \<longleftrightarrow> set ids \<subseteq> set covered \<and> (\<forall>i \<in> set covered. count_list covered i = 1)"
  by (auto simp: covered_once_def list_all_iff)

lemma counted_once_in_one:
  "count_list (concat (map f xs)) i = 1 \<Longrightarrow> length (filter (\<lambda>x. i \<in> set (f x)) xs) = 1"
proof (induction xs)
  case (Cons x xs)
  show ?case
  proof (cases "i \<in> set (f x)")
    case True
    then have "count_list (f x) i \<noteq> 0" by (simp add: count_list_0_iff)
    with Cons.prems have "count_list (concat (map f xs)) i = 0" by simp
    then have "filter (\<lambda>x. i \<in> set (f x)) xs = []" by (auto simp: count_list_0_iff filter_empty_conv)
    with True show ?thesis by simp
  next
    case False
    then have "count_list (f x) i = 0" by (simp add: count_list_0_iff)
    with Cons False show ?thesis by simp
  qed
qed simp

lemma by_id:
  "rule_by_id p i = Some r \<Longrightarrow> r \<in> set (kp_rules p) \<and> KnowledgeRule_id r = i"
  "binding_by_id p i = Some b \<Longrightarrow> b \<in> set (kp_bindings p) \<and> kb_id b = i"
  by (auto simp: rule_by_id_def binding_by_id_def dest: map_of_SomeD)

lemma no_earlier_distinct: "(\<And>i. i < length xs \<Longrightarrow> xs ! i \<notin> set (take i xs)) \<Longrightarrow> distinct xs"
  by (auto simp: distinct_conv_nth in_set_conv_nth) (metis linorder_neqE_nat nth_take length_take min_less_iff_conj)

lemma accepted_checks:
  assumes "KnowledgePack_init p = Inr q"
  shows "distinct (declared_documents p)"
    and "i < length (kp_rules p) \<Longrightarrow> pack_rule_check p i = Inr ()"
    and "i < length (kp_bindings p) \<Longrightarrow> pack_binding_check p i = Inr ()"
    and "kp_coverage p = Some m \<Longrightarrow> pack_coverage_check p m = Inr ()"
    and "kp_coverage p = None \<Longrightarrow> kp_bindings p = []"
    and "kp_coverage p = None \<Longrightarrow> kp_schema_version p = ''1.0'' \<or> kp_rules p = []"
  using assms
  by (auto simp: KnowledgePack_init_def res_iff LEGACY_PACK_SCHEMA_VERSIONS_def split: option.splits)

lemma accepted_distinct:
  assumes "KnowledgePack_init p = Inr q"
  shows "distinct (pack_rule_ids p)" and "distinct (pack_binding_ids p)"
proof -
  show "distinct (pack_rule_ids p)"
    by (rule no_earlier_distinct)
      (use accepted_checks(2) [OF assms] in \<open>auto simp: pack_rule_ids_def pack_rule_check_def Let_def res_iff\<close>)
  show "distinct (pack_binding_ids p)"
    by (rule no_earlier_distinct)
      (use accepted_checks(3) [OF assms] in
        \<open>fastforce simp: pack_binding_ids_def pack_binding_check_def Let_def res_iff split: option.splits\<close>)
qed

lemma accepted_binding:
  assumes "KnowledgePack_init p = Inr q" and "b \<in> set (kp_bindings p)"
  obtains r where "rule_by_id p (kb_knowledge_rule_id b) = Some r"
    and "binding_entails_rule_condition r b = Inr (True, [])"
proof -
  from assms(2) obtain i where i: "i < length (kp_bindings p)" "kp_bindings p ! i = b"
    by (auto simp: in_set_conv_nth)
  with accepted_checks(3) [OF assms(1) i(1)] obtain r errors
    where "rule_by_id p (kb_knowledge_rule_id b) = Some r" "binding_entails_rule_condition r b = Inr (True, errors)"
    by (auto simp: pack_binding_check_def Let_def res_iff split: option.splits)
  with that show ?thesis using audited_iff by simp
qed

lemma pack_coverage_iff:
  "pack_coverage_check p m = Inr () \<longleftrightarrow>
     cm_pack_id m = kp_pack_id p
     \<and> (dget (kp_metadata p) ''review_status'' = PNone
        \<or> dget (kp_metadata p) ''review_status'' = PStr (cm_review_status m))
     \<and> (\<forall>e \<in> set (cm_entries m). coverage_entry_check p e = Inr ())
     \<and> (\<forall>e \<in> set (rule_entries m). binding_placement_check p e = Inr ())
     \<and> covered_once (pack_rule_ids p) (rule_coverage m)
     \<and> covered_once (pack_binding_ids p) (binding_coverage m)
     \<and> (\<forall>t \<in> set (cm_target_inventory m). target_binding_check p t = Inr ())
     \<and> (cm_target_inventory m \<noteq> [] \<longrightarrow> set (covered_binding_ids m) = set (pack_binding_ids p))
     \<and> (cm_target_inventory m \<noteq> [] \<or> kp_bindings p \<noteq> [] \<longrightarrow> target_registry_check m = Inr ())"
  by (simp add: pack_coverage_check_def res_iff Let_def) blast

lemma binding_by_id_member:
  "distinct (pack_binding_ids p) \<Longrightarrow> b \<in> set (kp_bindings p) \<Longrightarrow> binding_by_id p (kb_id b) = Some b"
  unfolding binding_by_id_def pack_binding_ids_def
  by (rule map_of_is_SomeI) (simp_all add: image_iff comp_def)

lemma placed_under_rule:
  "binding_placement_check p e = Inr () \<Longrightarrow> i \<in> set (ce_binding_ids e) \<Longrightarrow> binding_by_id p i = Some b \<Longrightarrow>
    kb_knowledge_rule_id b \<in> set (ce_rule_ids e)"
  by (auto simp: binding_placement_check_def res_iff dest: bspec)

lemma bound_to_target:
  "target_binding_check p t = Inr () \<Longrightarrow> i \<in> set (kt_binding_ids t) \<Longrightarrow> binding_by_id p i = Some b \<Longrightarrow>
    target_key t = (kb_target_kind b, kb_target b)"
  by (auto simp: target_binding_check_def res_iff dest: bspec)

lemma target_registry_exact:
  assumes "target_registry_check m = Inr ()"
  obtains ts where "map_of CANONICAL_SUPPORTED_TARGETS (cm_coverage_scope m) = Some ts"
    and "target_key ` set (cm_target_inventory m) = set ts"
  using assms
  by (auto simp: target_registry_check_def as_pack_error_def canonical_supported_targets_def res_iff
      split: sum.splits py_exn.splits if_splits option.splits)

lemma canonical_targets_nonempty: "map_of CANONICAL_SUPPORTED_TARGETS scope = Some ts \<Longrightarrow> ts \<noteq> []"
proof -
  assume "map_of CANONICAL_SUPPORTED_TARGETS scope = Some ts"
  then have "(scope, ts) \<in> set CANONICAL_SUPPORTED_TARGETS" by (rule map_of_SomeD)
  moreover have "list_all (\<lambda>kv. snd kv \<noteq> []) CANONICAL_SUPPORTED_TARGETS"
    by (simp add: CANONICAL_SUPPORTED_TARGETS_def)
  ultimately show ?thesis by (auto simp: list_all_iff)
qed

section \<open>Properties\<close>

text \<open>The whole rule surface of an accepted pack is accounted for: once a pack has a
  coverage manifest, every rule stands in exactly one rule entry, and a v2 pack with rules
  does have one.\<close>

theorem every_rule_covered_once:
  assumes "KnowledgePack_init p = Inr q" and "r \<in> set (kp_rules p)" and "kp_schema_version p = ''2.0''"
  shows "\<exists>m. kp_coverage p = Some m
     \<and> length (filter (\<lambda>e. KnowledgeRule_id r \<in> set (ce_rule_ids e)) (rule_entries m)) = 1"
proof -
  obtain m where m: "kp_coverage p = Some m" using accepted_checks(6) [OF assms(1)] assms(2,3) by (cases "kp_coverage p") auto
  from accepted_checks(4) [OF assms(1) m] have "covered_once (pack_rule_ids p) (rule_coverage m)"
    by (simp add: pack_coverage_iff)
  moreover have "KnowledgeRule_id r \<in> set (pack_rule_ids p)" using assms(2) by (simp add: pack_rule_ids_def)
  ultimately have "count_list (rule_coverage m) (KnowledgeRule_id r) = 1"
    unfolding covered_once_iff by blast
  from m counted_once_in_one [OF this [unfolded rule_coverage_def]] show ?thesis by simp
qed

text \<open>C24: An executable binding of an accepted pack is closed: its rule is in the pack and its
  audit against that rule succeeded, exactly one rule entry of the manifest covers the
  binding and that entry covers the rule too, and the binding is listed under its own target in
  an inventory that is the canonical target registry of the manifest's scope.\<close>

theorem accepted_binding_closed:
  assumes "KnowledgePack_init p = Inr q" and "b \<in> set (kp_bindings p)"
  shows "\<exists>r m e t targets. r \<in> set (kp_rules p) \<and> KnowledgeRule_id r = kb_knowledge_rule_id b
     \<and> binding_entails_rule_condition r b = Inr (True, [])
     \<and> kp_coverage p = Some m \<and> filter (\<lambda>e. kb_id b \<in> set (ce_binding_ids e)) (rule_entries m) = [e]
     \<and> KnowledgeRule_id r \<in> set (ce_rule_ids e)
     \<and> t \<in> set (cm_target_inventory m) \<and> kb_id b \<in> set (kt_binding_ids t)
     \<and> target_key t = (kb_target_kind b, kb_target b)
     \<and> map_of CANONICAL_SUPPORTED_TARGETS (cm_coverage_scope m) = Some targets
     \<and> target_key ` set (cm_target_inventory m) = set targets"
proof -
  obtain r where r: "rule_by_id p (kb_knowledge_rule_id b) = Some r"
    and audited: "binding_entails_rule_condition r b = Inr (True, [])"
    using accepted_binding [OF assms] .
  obtain m where m: "kp_coverage p = Some m"
    using accepted_checks(5) [OF assms(1)] assms(2) by (cases "kp_coverage p") auto
  note dist = accepted_distinct(2) [OF assms(1)]
  note self = binding_by_id_member [OF dist assms(2)]
  note accepted = accepted_checks(4) [OF assms(1) m, unfolded pack_coverage_iff]
  then have once: "covered_once (pack_binding_ids p) (binding_coverage m)"
    and place: "\<forall>e \<in> set (rule_entries m). binding_placement_check p e = Inr ()"
    and targets: "\<forall>t \<in> set (cm_target_inventory m). target_binding_check p t = Inr ()"
    and all: "cm_target_inventory m \<noteq> [] \<longrightarrow> set (covered_binding_ids m) = set (pack_binding_ids p)"
    by blast+
  from assms(2) have "kp_bindings p \<noteq> []" by auto
  with accepted have registry: "target_registry_check m = Inr ()" by blast
  have "count_list (binding_coverage m) (kb_id b) = 1"
    using once assms(2) by (auto simp: covered_once_iff pack_binding_ids_def)
  from counted_once_in_one [OF this [unfolded binding_coverage_def]]
  obtain e where e: "filter (\<lambda>e. kb_id b \<in> set (ce_binding_ids e)) (rule_entries m) = [e]"
    by (auto simp: length_Suc_conv)
  then have "e \<in> set (filter (\<lambda>e. kb_id b \<in> set (ce_binding_ids e)) (rule_entries m))" by simp
  then have mem: "e \<in> set (rule_entries m)" "kb_id b \<in> set (ce_binding_ids e)" by simp_all
  from place mem(1) have "binding_placement_check p e = Inr ()" by blast
  then have under: "kb_knowledge_rule_id b \<in> set (ce_rule_ids e)" by (rule placed_under_rule [OF _ mem(2) self])
  obtain ts where ts: "map_of CANONICAL_SUPPORTED_TARGETS (cm_coverage_scope m) = Some ts"
    and exact: "target_key ` set (cm_target_inventory m) = set ts"
    by (rule target_registry_exact [OF registry])
  have "ts \<noteq> []" by (rule canonical_targets_nonempty [OF ts])
  with exact have "cm_target_inventory m \<noteq> []" by auto
  with all assms(2) have "kb_id b \<in> set (covered_binding_ids m)" by (simp add: pack_binding_ids_def)
  then obtain t where t: "t \<in> set (cm_target_inventory m)" "kb_id b \<in> set (kt_binding_ids t)"
    by (auto simp: covered_binding_ids_def)
  from targets t(1) have "target_binding_check p t = Inr ()" by blast
  then have "target_key t = (kb_target_kind b, kb_target b)" by (rule bound_to_target [OF _ t(2) self])
  moreover from by_id(1) [OF r] under have "r \<in> set (kp_rules p)" "KnowledgeRule_id r = kb_knowledge_rule_id b"
    "KnowledgeRule_id r \<in> set (ce_rule_ids e)" by simp_all
  ultimately show ?thesis using audited m e t ts exact
    by (intro exI [of _ r] exI [of _ m] exI [of _ e] exI [of _ t] exI [of _ ts] conjI) assumption+
qed

text \<open>A pack over the AXI contract surface with one rule and one executable binding.\<close>

definition witness_target :: "string \<Rightarrow> string \<Rightarrow> KnowledgeTargetCoverage" where
  "witness_target kind target =
     \<lparr>kt_target_kind = kind, kt_target = target, kt_status = ''no_normative'', kt_binding_ids = [],
      kt_rationale = Some ''structure only'', kt_id = ''t''\<rparr>"

definition witness_pack_coverage :: CoverageManifest where
  "witness_pack_coverage =
     \<lparr>cm_pack_id = ''p1'', cm_coverage_scope = ''hlsgraph.supported_axi_contract_surface'',
      cm_entries = [witness_entry\<lparr>ce_document_id := ''amd.ug1399'', ce_document_version := ''2024.2'',
        ce_rule_ids := [''amd.ug1399:2024.2:axi.mode''], ce_binding_ids := [''b1'']\<rparr>],
      cm_target_inventory =
        [(witness_target ''directive_kind'' ''INTERFACE'')\<lparr>kt_status := ''bound'', kt_binding_ids := [''b1'']\<rparr>,
         witness_target ''entity_kind'' ''hls.port'', witness_target ''entity_kind'' ''hls.stream'',
         witness_target ''relation_kind'' ''hls.streams_to''],
      cm_target_registry_version = SUPPORTED_TARGET_REGISTRY_VERSION, cm_review_status = ''human_reviewed'',
      cm_reviewers = [''r1''], cm_source_hashes = [], cm_review_evidence = [], cm_schema_version = ''1.0'',
      cm_id = ''c1'', cm_metadata = []\<rparr>"

definition witness_pack :: KnowledgePack where
  "witness_pack =
     \<lparr>kp_schema_version = ''2.0'', kp_pack_id = ''p1'', kp_title = ''AXI'', kp_license = ''MIT'',
      kp_documents = [\<lparr>dr_document_id = ''amd.ug1399'', dr_document_version = ''2024.2'', dr_title = ''Guide'',
        dr_official_url = ''https://docs.amd.com/ug1399'', dr_publisher = ''AMD'', dr_kind = ''guide'',
        dr_license_note = None\<rparr>],
      kp_rules = [witness_rule], kp_bindings = [witness_binding\<lparr>kb_id := ''b1''\<rparr>],
      kp_coverage = Some witness_pack_coverage,
      kp_metadata = dict_items (pdict [(''review_status'', PStr ''human_reviewed'')])\<rparr>"

lemma witness_pack_accepted: "KnowledgePack_init witness_pack = Inr witness_pack"
proof -
  have "is_ok (KnowledgePack_init witness_pack)" by code_simp
  then obtain q where "KnowledgePack_init witness_pack = Inr q" by (auto simp: is_ok_iff)
  with KnowledgePack_init_same show ?thesis by metis
qed

theorem every_rule_covered_once_witness:
  "\<exists>m. kp_coverage witness_pack = Some m
     \<and> length (filter (\<lambda>e. KnowledgeRule_id witness_rule \<in> set (ce_rule_ids e)) (rule_entries m)) = 1"
  by (rule every_rule_covered_once [OF witness_pack_accepted]) (simp_all add: witness_pack_def)

theorem accepted_binding_closed_witness:
  "\<exists>r m. r \<in> set (kp_rules witness_pack) \<and> binding_entails_rule_condition r (witness_binding\<lparr>kb_id := ''b1''\<rparr>) = Inr (True, [])
     \<and> kp_coverage witness_pack = Some m"
proof -
  have "witness_binding\<lparr>kb_id := ''b1''\<rparr> \<in> set (kp_bindings witness_pack)" by (simp add: witness_pack_def)
  from accepted_binding_closed [OF witness_pack_accepted this] show ?thesis by blast
qed

end
