(* ===== verification/Knowledge_Ledger.thy ===== *)
theory Knowledge_Ledger
  imports Knowledge_Pack
begin

text \<open>
  The knowledge tables of the ledger (\<open>hlsgraph/store/sqlite.py\<close>) and the catalog that
  installs packs into them (\<open>hlsgraph/knowledge/core.py\<close>).  A table is the list of its rows
  under their primary keys; \<open>write\<close> commits or rolls back, so a failed operation has no
  state.  The catalog knows the store through the locale \<open>pack_store\<close>.
\<close>

section \<open>Tables\<close>

record rule_row =
  rr_document_id :: string
  rr_document_version :: string
  rr_section :: string
  rr_payload :: string

record pack_row =
  pr_schema_version :: string
  pr_content_hash :: string
  pr_installed_at :: string
  pr_payload :: string

record binding_row =
  br_knowledge_rule_id :: string
  br_target_kind :: string
  br_target :: string
  br_payload :: string

record coverage_row =
  cr_pack_id :: string
  cr_coverage_scope :: string
  cr_payload :: string

record KnowledgeLedger =
  kl_rules :: "(string \<times> rule_row) list"
  kl_packs :: "(string \<times> pack_row) list"
  kl_bindings :: "(string \<times> binding_row) list"
  kl_coverage :: "(string \<times> coverage_row) list"
  kl_fts5 :: bool
  kl_rules_fts :: "(string \<times> string list) list"

definition empty_ledger :: "bool \<Rightarrow> KnowledgeLedger" where
  "empty_ledger fts5 =
     \<lparr>kl_rules = [], kl_packs = [], kl_bindings = [], kl_coverage = [], kl_fts5 = fts5, kl_rules_fts = []\<rparr>"

text \<open>\<open>_immutable_payload\<close> for the knowledge tables: a row with this id is there already, with
  this payload, or the write is refused.\<close>

definition immutable_payload :: "(string \<times> 'row) list \<Rightarrow> ('row \<Rightarrow> string) \<Rightarrow> string \<Rightarrow> string \<Rightarrow> bool res" where
  "immutable_payload table payload_of item_id payload =
     (case map_of table item_id of
        None \<Rightarrow> Inr False
      | Some row \<Rightarrow> if payload_of row \<noteq> payload then Inl (StoreError ''immutable row changed'') else Inr True)"

definition index_knowledge_rule :: "KnowledgeRule \<Rightarrow> KnowledgeLedger \<Rightarrow> KnowledgeLedger" where
  "index_knowledge_rule r s =
     (if kl_fts5 s
      then s\<lparr>kl_rules_fts := (KnowledgeRule_id r,
               [kr_rule_id r, kr_document_id r, kr_document_version r, kr_section r, kr_title r,
                (case kr_summary r of None \<Rightarrow> [] | Some t \<Rightarrow> t)])
             # AList.delete (KnowledgeRule_id r) (kl_rules_fts s)\<rparr>
      else s)"

definition insert_rule :: "KnowledgeRule \<Rightarrow> string \<Rightarrow> KnowledgeLedger \<Rightarrow> KnowledgeLedger" where
  "insert_rule r payload s =
     s\<lparr>kl_rules := (KnowledgeRule_id r,
        \<lparr>rr_document_id = kr_document_id r, rr_document_version = kr_document_version r,
         rr_section = kr_section r, rr_payload = payload\<rparr>) # kl_rules s\<rparr>"

definition revalidated_rule :: "KnowledgeRule \<Rightarrow> KnowledgeRule res" where
  "revalidated_rule = revalidate_model KnowledgeRule_init (\<lambda>_. []) (\<lambda>_ r. r)"

definition revalidated_binding :: "KnowledgeBinding \<Rightarrow> KnowledgeBinding res" where
  "revalidated_binding = revalidate_model KnowledgeBinding_init kb_id (\<lambda>i. kb_id_update (\<lambda>_. i))"

definition revalidated_coverage :: "CoverageManifest \<Rightarrow> CoverageManifest res" where
  "revalidated_coverage = revalidate_model CoverageManifest_from_dict cm_id (\<lambda>i. cm_id_update (\<lambda>_. i))"

text \<open>\<open>add_knowledge_rules\<close> leaves a rule that is there alone; the installation of a pack
  indexes it again.\<close>

definition add_knowledge_rule :: "KnowledgeLedger \<Rightarrow> KnowledgeRule \<Rightarrow> KnowledgeLedger res" where
  "add_knowledge_rule s r =
     bindR (canonical_json (KnowledgeRule_val r)) (\<lambda>payload.
     bindR (immutable_payload (kl_rules s) rr_payload (KnowledgeRule_id r) payload) (\<lambda>present.
     Inr (if present then s else index_knowledge_rule r (insert_rule r payload s))))"

definition add_knowledge_rules :: "KnowledgeRule list \<Rightarrow> KnowledgeLedger \<Rightarrow> KnowledgeLedger res" where
  "add_knowledge_rules values s =
     bindR (mapR revalidated_rule values) (\<lambda>rules. foldR add_knowledge_rule s rules)"

definition install_rule :: "KnowledgeLedger \<Rightarrow> KnowledgeRule \<Rightarrow> KnowledgeLedger res" where
  "install_rule s r =
     bindR (canonical_json (KnowledgeRule_val r)) (\<lambda>payload.
     bindR (immutable_payload (kl_rules s) rr_payload (KnowledgeRule_id r) payload) (\<lambda>present.
     Inr (index_knowledge_rule r (if present then s else insert_rule r payload s))))"

definition install_binding :: "KnowledgeLedger \<Rightarrow> KnowledgeBinding \<Rightarrow> KnowledgeLedger res" where
  "install_binding s b =
     bindR (canonical_json (KnowledgeBinding_val b)) (\<lambda>payload.
     bindR (immutable_payload (kl_bindings s) br_payload (kb_id b) payload) (\<lambda>present.
     Inr (if present then s
          else s\<lparr>kl_bindings := (kb_id b,
                   \<lparr>br_knowledge_rule_id = kb_knowledge_rule_id b, br_target_kind = kb_target_kind b,
                    br_target = kb_target b, br_payload = payload\<rparr>) # kl_bindings s\<rparr>)))"

definition install_coverage :: "string \<Rightarrow> CoverageManifest option \<Rightarrow> KnowledgeLedger \<Rightarrow> KnowledgeLedger res" where
  "install_coverage pack_id coverage s =
     (case coverage of
        None \<Rightarrow> Inr s
      | Some m \<Rightarrow>
          bindR (canonical_json (CoverageManifest_val m)) (\<lambda>payload.
          bindR (immutable_payload (kl_coverage s) cr_payload (cm_id m) payload) (\<lambda>present.
          Inr (if present then s
               else s\<lparr>kl_coverage := (cm_id m,
                        \<lparr>cr_pack_id = pack_id, cr_coverage_scope = cm_coverage_scope m, cr_payload = payload\<rparr>)
                      # kl_coverage s\<rparr>))))"

section \<open>What the store asks of a pack\<close>

record pack_install =
  pi_pack_id :: string
  pi_schema_version :: string
  pi_content_hash :: string
  pi_installed_at :: string
  pi_inventory :: pydict
  pi_rules :: "KnowledgeRule list"
  pi_bindings :: "KnowledgeBinding list"
  pi_coverage :: "CoverageManifest option"

definition reject_store :: "bool \<Rightarrow> string \<Rightarrow> unit res" where
  "reject_store c msg = reject_with c (StoreError msg)"

lemma reject_store_Inr_iff [res_iff]: "reject_store c msg = Inr u \<longleftrightarrow> \<not> c"
  by (simp add: reject_store_def res_iff)

fun key_value :: "pykey \<Rightarrow> pyval" where
  "key_value (KStr s) = PStr s"
| "key_value (KInt i) = PInt i"
| "key_value (KBool b) = PBool b"
| "key_value KNone = PNone"

text \<open>\<open>set(v) != ids\<close> for a value read from a dict.\<close>

definition iterated :: "pyval \<Rightarrow> pyval list res" where
  "iterated v =
     (case v of
        PStr s \<Rightarrow> Inr (map (\<lambda>c. PStr [c]) s)
      | PList xs \<Rightarrow> Inr xs
      | PTuple xs \<Rightarrow> Inr xs
      | PSet xs \<Rightarrow> Inr xs
      | PDict d \<Rightarrow> Inr (map (\<lambda>kv. key_value (fst kv)) d)
      | _ \<Rightarrow> Inl (TypeError ''object is not iterable''))"

definition ids_differ :: "pydict \<Rightarrow> string \<Rightarrow> string list \<Rightarrow> string \<Rightarrow> unit res" where
  "ids_differ invt key ids msg =
     bindR (iterated (if dhas invt key then dget invt key else PList [])) (\<lambda>xs.
       if list_all hashable xs then reject_store (set xs \<noteq> PStr ` set ids) msg
       else Inl (TypeError ''unhashable type''))"

definition supplied_binding :: "KnowledgeBinding list \<Rightarrow> string \<Rightarrow> KnowledgeBinding option" where
  "supplied_binding bindings = map_of (map (\<lambda>b. (kb_id b, b)) bindings)"

definition store_entry_check :: "string list \<Rightarrow> string list \<Rightarrow> CoverageEntry \<Rightarrow> unit res" where
  "store_entry_check rule_ids binding_ids e =
     checks
       [reject_store (list_ex (\<lambda>i. i \<notin> set rule_ids) (ce_rule_ids e))
          ''knowledge coverage references a rule outside its pack'',
        reject_store (list_ex (\<lambda>i. i \<notin> set binding_ids) (ce_binding_ids e))
          ''knowledge coverage references a binding outside its pack''] ()"

definition store_placement_check :: "KnowledgeBinding list \<Rightarrow> CoverageEntry \<Rightarrow> unit res" where
  "store_placement_check bindings e =
     forR (\<lambda>i. case supplied_binding bindings i of
               None \<Rightarrow> Inl (KeyError i)
             | Some b \<Rightarrow> reject_store (kb_knowledge_rule_id b \<notin> set (ce_rule_ids e))
                 ''knowledge coverage places a binding under a different rule'') (ce_binding_ids e)"

definition store_target_check :: "KnowledgeBinding list \<Rightarrow> KnowledgeTargetCoverage \<Rightarrow> unit res" where
  "store_target_check bindings t =
     forR (\<lambda>i. reject_store
         (case supplied_binding bindings i of
            None \<Rightarrow> True
          | Some b \<Rightarrow> (kb_target_kind b, kb_target b) \<noteq> target_key t)
         ''knowledge target inventory references a missing or different binding'') (kt_binding_ids t)"

definition covers_exactly :: "string list \<Rightarrow> string list \<Rightarrow> bool" where
  "covers_exactly ids covered \<longleftrightarrow> set covered = set ids \<and> list_all (\<lambda>i. count_list covered i = 1) covered"

definition store_registry_check :: "CoverageManifest \<Rightarrow> unit res" where
  "store_registry_check m =
     bindR (case canonical_supported_targets (cm_coverage_scope m) (cm_target_registry_version m) of
              Inl (KeyError s) \<Rightarrow> Inl (StoreError s) | r \<Rightarrow> r)
       (\<lambda>expected. reject_store (set (map target_key (cm_target_inventory m)) \<noteq> set expected)
          ''knowledge target inventory does not match its canonical registry'')"

definition store_coverage_check :: "pydict \<Rightarrow> KnowledgeRule list \<Rightarrow> KnowledgeBinding list \<Rightarrow> CoverageManifest \<Rightarrow> unit res" where
  "store_coverage_check invt rules bindings m =
     (let rule_ids = map KnowledgeRule_id rules; binding_ids = map kb_id bindings in
      checks
        [reject_store (dget invt ''coverage_id'' \<noteq> PStr (cm_id m))
           ''knowledge inventory coverage ID does not match the manifest'',
         reject_store (dget invt ''coverage_scope'' \<noteq> PStr (cm_coverage_scope m))
           ''knowledge inventory coverage scope does not match the manifest'',
         reject_store (dget invt ''target_registry_version'' \<noteq> PStr (cm_target_registry_version m))
           ''knowledge inventory target registry version does not match the manifest'',
         forR (store_entry_check rule_ids binding_ids) (cm_entries m),
         forR (store_placement_check bindings) (rule_entries m),
         reject_store (\<not> covers_exactly rule_ids (rule_coverage m))
           ''every knowledge rule must be covered exactly once by a rule entry'',
         reject_store (\<not> covers_exactly binding_ids (binding_coverage m))
           ''every knowledge binding must be covered exactly once by a rule entry'',
         (if cm_target_inventory m \<noteq> [] \<or> bindings \<noteq> [] then store_registry_check m else Inr ()),
         forR (store_target_check bindings) (cm_target_inventory m),
         reject_store (set (covered_binding_ids m) \<noteq> set binding_ids)
           ''knowledge target inventory must cover every binding exactly once''] ())"

definition installable :: "CoverageManifest option \<Rightarrow> pydict \<Rightarrow> bool" where
  "installable coverage invt \<longleftrightarrow>
     (case coverage of
        None \<Rightarrow> False
      | Some m \<Rightarrow> review_ready m \<and> dget invt ''review_ready'' = PBool True
          \<and> dget invt ''review_status'' = PStr (cm_review_status m))"

definition as_store_value_error :: "'a res \<Rightarrow> 'a res" where
  "as_store_value_error m = (case m of Inl (ValueError s) \<Rightarrow> Inl (StoreError s) | _ \<Rightarrow> m)"

lemma as_store_value_error_Inr_iff [res_iff]: "as_store_value_error m = Inr x \<longleftrightarrow> m = Inr x"
  by (auto simp: as_store_value_error_def split: sum.splits py_exn.splits)

definition install_content_check ::
  "pack_install \<Rightarrow> KnowledgeRule list \<Rightarrow> KnowledgeBinding list \<Rightarrow> CoverageManifest option \<Rightarrow> unit res" where
  "install_content_check p rules bindings coverage =
     (let invt = pi_inventory p; rule_ids = map KnowledgeRule_id rules; binding_ids = map kb_id bindings in
      checks
        [reject_store (opt_any (\<lambda>m. cm_pack_id m \<noteq> pi_pack_id p) coverage)
           ''knowledge coverage belongs to another pack'',
         reject_store (has_duplicates rule_ids \<or> has_duplicates binding_ids)
           ''knowledge pack contains duplicate rule or binding IDs'',
         reject_store (list_ex (\<lambda>b. kb_knowledge_rule_id b \<notin> set rule_ids) bindings)
           ''knowledge binding references a rule outside its pack'',
         reject_store (dget invt ''pack_id'' \<noteq> PStr (pi_pack_id p)) ''knowledge inventory belongs to another pack'',
         bindR (knowledge_activation_hash rules bindings coverage) (\<lambda>h.
           reject_store (dget invt ''activation_hash'' \<noteq> PStr h)
             ''knowledge inventory activation hash does not match supplied content''),
         ids_differ invt ''rule_ids'' rule_ids ''knowledge inventory rule IDs do not match supplied rules'',
         ids_differ invt ''binding_ids'' binding_ids
           ''knowledge inventory binding IDs do not match supplied bindings'',
         (case coverage of
            Some m \<Rightarrow> store_coverage_check invt rules bindings m
          | None \<Rightarrow> reject_store (pi_schema_version p \<noteq> ''1.0'' \<and> (rules \<noteq> [] \<or> bindings \<noteq> []))
              ''knowledge rules or bindings require coverage''),
         reject_store (bindings \<noteq> [] \<and> \<not> installable coverage invt)
           ''executable knowledge bindings require a review_ready pack''] ())"

definition install_arguments_check :: "pack_install \<Rightarrow> unit res" where
  "install_arguments_check p =
     checks
       [reject_store (strip (pi_pack_id p) = []) ''knowledge pack_id is required'',
        reject_store (strip (pi_schema_version p) = []) ''knowledge pack schema version is required'',
        reject_store (\<not> is_sha256_lower (pi_content_hash p)) ''knowledge pack content_hash must be lowercase SHA-256'',
        as_store_value_error (reject_embedded_body_fields (PDict (pi_inventory p)))] ()"

text \<open>Everything before the transaction: the revalidated content and the inventory payload.\<close>

definition checked_content ::
  "pack_install \<Rightarrow> (KnowledgeRule list \<times> KnowledgeBinding list \<times> CoverageManifest option \<times> string) res" where
  "checked_content p =
     bindR (install_arguments_check p) (\<lambda>_.
     bindR (mapR revalidated_rule (pi_rules p)) (\<lambda>rules.
     bindR (mapR revalidated_binding (pi_bindings p)) (\<lambda>bindings.
     bindR (optR revalidated_coverage (pi_coverage p)) (\<lambda>coverage.
     bindR (install_content_check p rules bindings coverage) (\<lambda>_.
     bindR (canonical_json (PDict (pi_inventory p))) (\<lambda>payload.
     Inr (rules, bindings, coverage, payload)))))))"

definition install_knowledge_pack :: "pack_install \<Rightarrow> KnowledgeLedger \<Rightarrow> (bool \<times> KnowledgeLedger) res" where
  "install_knowledge_pack p s =
     bindR (checked_content p) (\<lambda>(rules, bindings, coverage, payload).
       case map_of (kl_packs s) (pi_pack_id p) of
         Some row \<Rightarrow>
           if pr_content_hash row \<noteq> pi_content_hash p \<or> pr_payload row \<noteq> payload
           then Inl (StoreError ''installed knowledge pack changed without a new pack_id'')
           else Inr (False, s)
       | None \<Rightarrow>
           bindR (foldR install_rule s rules) (\<lambda>s.
           bindR (foldR install_binding
                    (s\<lparr>kl_packs := (pi_pack_id p,
                         \<lparr>pr_schema_version = pi_schema_version p, pr_content_hash = pi_content_hash p,
                          pr_installed_at = pi_installed_at p, pr_payload = payload\<rparr>) # kl_packs s\<rparr>) bindings) (\<lambda>s.
           bindR (install_coverage (pi_pack_id p) coverage s) (\<lambda>s.
           Inr (True, s)))))"

section \<open>The catalog\<close>

definition available_packs :: "KnowledgePack list \<Rightarrow> (string \<times> KnowledgePack) list" where
  "available_packs packs = dict_of_pairs (map (\<lambda>p. (kp_pack_id p, p)) packs)"

definition requested_ids :: "pyval option \<Rightarrow> string list option res" where
  "requested_ids pack_ids =
     (case pack_ids of
        None \<Rightarrow> Inr None
      | Some (PStr _) \<Rightarrow> Inl (KnowledgePackError ''pack_ids must be an iterable of complete pack IDs'')
      | Some v \<Rightarrow>
          bindR (iterated v) (\<lambda>xs.
          bindR (reject_pack (list_ex (\<lambda>x. \<not> is_str x \<or> strip (str_of x) = []) xs \<or> has_duplicates xs)
                   ''pack_ids must be unique non-empty strings'') (\<lambda>_.
          Inr (Some (map str_of xs)))))"

definition install_request :: "(string \<Rightarrow> string) \<Rightarrow> KnowledgePack \<Rightarrow> pack_install res" where
  "install_request now p =
     bindR (reject_pack (kp_bindings p \<noteq> [] \<and> \<not> pack_review_ready p)
              ''contains executable bindings but is not review_ready'') (\<lambda>_.
     bindR (content_hash p) (\<lambda>content.
     bindR (inventory p) (\<lambda>invt.
     Inr \<lparr>pi_pack_id = kp_pack_id p, pi_schema_version = kp_schema_version p, pi_content_hash = content,
          pi_installed_at = now (kp_pack_id p), pi_inventory = invt, pi_rules = kp_rules p,
          pi_bindings = kp_bindings p, pi_coverage = kp_coverage p\<rparr>)))"

definition install_report :: "pack_install \<Rightarrow> bool \<Rightarrow> pyval" where
  "install_report q installed = pdict
     [(''pack_id'', PStr (pi_pack_id q)), (''content_hash'', PStr (pi_content_hash q)),
      (''status'', PStr (if installed then ''installed'' else ''unchanged''))]"

text \<open>The loop over the selected packs; every pack is a transaction of its own, so packs
  installed before a failure stay.\<close>

fun catalog_loop ::
  "(pack_install \<Rightarrow> 's \<Rightarrow> (bool \<times> 's) res) \<Rightarrow> (string \<Rightarrow> string) \<Rightarrow> KnowledgePack list \<Rightarrow> 's
    \<Rightarrow> pyval list res \<times> 's" where
  "catalog_loop install now [] s = (Inr [], s)"
| "catalog_loop install now (p # ps) s =
     (case bindR (install_request now p) (\<lambda>q. mapr (Pair q) (install q s)) of
        Inl e \<Rightarrow> (Inl e, s)
      | Inr (q, installed, s') \<Rightarrow>
          (let (reports, t) = catalog_loop install now ps s' in
           (mapr (Cons (install_report q installed)) reports, t)))"

definition catalog_install ::
  "(pack_install \<Rightarrow> 's \<Rightarrow> (bool \<times> 's) res) \<Rightarrow> (string \<Rightarrow> string) \<Rightarrow> KnowledgePack list \<Rightarrow> pyval option \<Rightarrow> 's
    \<Rightarrow> pyval list res \<times> 's" where
  "catalog_install install now packs pack_ids s =
     (case requested_ids pack_ids of
        Inl e \<Rightarrow> (Inl e, s)
      | Inr requested \<Rightarrow>
          (let available = available_packs packs in
           if opt_any (list_ex (\<lambda>i. i \<notin> fst ` set available)) requested
           then (Inl (KnowledgePackError ''unknown knowledge pack IDs''), s)
           else catalog_loop install now
                  (map snd (filter (\<lambda>ip. case requested of None \<Rightarrow> True | Some ids \<Rightarrow> fst ip \<in> set ids)
                     (sort_key fst available))) s))"

section \<open>The store as the catalog sees it\<close>

locale pack_store =
  fixes install :: "pack_install \<Rightarrow> 's \<Rightarrow> (bool \<times> 's) res"
    and holds :: "pack_install \<Rightarrow> 's \<Rightarrow> bool"
  assumes installed: "install q s = Inr (b, s') \<Longrightarrow> holds q s'"
    and again: "holds q s \<Longrightarrow> install (q\<lparr>pi_installed_at := t\<rparr>) s = Inr (False, s)"
    and kept: "holds q s \<Longrightarrow> install r s = Inr (b, s') \<Longrightarrow> holds q s'"
begin

lemma loop_kept: "holds q s \<Longrightarrow> catalog_loop install now ps s = (r, s') \<Longrightarrow> holds q s'"
proof (induction ps arbitrary: s r s')
  case (Cons p ps)
  show ?case
  proof (cases "bindR (install_request now p) (\<lambda>q. mapr (Pair q) (install q s))")
    case (Inr x)
    then obtain r' b t where x: "x = (r', b, t)" "install r' s = Inr (b, t)" by (auto simp: res_iff)
    obtain u v where uv: "catalog_loop install now ps t = (u, v)" by fastforce
    with Cons.prems(2) Inr x have "v = s'" by simp
    with Cons.IH [OF kept [OF Cons.prems(1) x(2)] uv] show ?thesis by simp
  qed (use Cons.prems in simp)
qed simp

lemma loop_Cons:
  assumes "catalog_loop install now (p # ps) s = (Inr rs, s')"
  obtains q b t ts where "install_request now p = Inr q" and "install q s = Inr (b, t)"
    and "catalog_loop install now ps t = (Inr ts, s')" and "rs = install_report q b # ts"
  using assms by (auto simp: res_iff Let_def split: sum.splits prod.splits)

lemma request_again:
  "install_request now p = Inr q \<Longrightarrow> install_request now' p = Inr (q\<lparr>pi_installed_at := now' (kp_pack_id p)\<rparr>)"
  by (auto simp: install_request_def res_iff)

lemma loop_again:
  "catalog_loop install now ps s = (Inr rs, s') \<Longrightarrow>
   \<exists>ts. catalog_loop install now' ps s' = (Inr ts, s')
      \<and> list_all2 (\<lambda>r t. \<exists>q b. r = install_report q b \<and> t = install_report q False) rs ts"
proof (induction ps arbitrary: s rs)
  case (Cons p ps)
  from loop_Cons [OF Cons.prems] obtain q b t ts
    where q: "install_request now p = Inr q" and inst: "install q s = Inr (b, t)"
      and rest: "catalog_loop install now ps t = (Inr ts, s')" and rs: "rs = install_report q b # ts" .
  have "holds q s'" using loop_kept [OF installed [OF inst] rest] .
  then have "install (q\<lparr>pi_installed_at := now' (kp_pack_id p)\<rparr>) s' = Inr (False, s')" by (rule again)
  moreover obtain us where us: "catalog_loop install now' ps s' = (Inr us, s')"
    "list_all2 (\<lambda>r t. \<exists>q b. r = install_report q b \<and> t = install_report q False) ts us"
    using Cons.IH [OF rest] by blast
  moreover have "install_report (q\<lparr>pi_installed_at := now' (kp_pack_id p)\<rparr>) False = install_report q False"
    by (simp add: install_report_def)
  ultimately show ?case using request_again [OF q, of now'] rs by auto
qed simp

lemma install_twice:
  assumes "catalog_install install now packs pack_ids s = (Inr rs, s')"
  shows "\<exists>ts. catalog_install install now' packs pack_ids s' = (Inr ts, s')
      \<and> list_all2 (\<lambda>r t. \<exists>q b. r = install_report q b \<and> t = install_report q False) rs ts"
proof -
  from assms obtain requested where ok: "requested_ids pack_ids = Inr requested"
    "\<not> opt_any (list_ex (\<lambda>i. i \<notin> fst ` set (available_packs packs))) requested"
    and loop: "catalog_loop install now
       (map snd (filter (\<lambda>ip. case requested of None \<Rightarrow> True | Some ids \<Rightarrow> fst ip \<in> set ids)
          (sort_key fst (available_packs packs)))) s = (Inr rs, s')"
    by (auto simp: catalog_install_def Let_def split: sum.splits if_splits)
  from loop_again [OF loop, of now'] ok show ?thesis by (simp add: catalog_install_def Let_def)
qed

end

section \<open>The ledger is such a store\<close>

definition pack_held :: "pack_install \<Rightarrow> KnowledgeLedger \<Rightarrow> bool" where
  "pack_held q s \<longleftrightarrow>
     (case checked_content q of
        Inl _ \<Rightarrow> False
      | Inr (_, _, _, payload) \<Rightarrow>
          opt_any (\<lambda>row. pr_content_hash row = pi_content_hash q \<and> pr_payload row = payload)
            (map_of (kl_packs s) (pi_pack_id q)))"

lemma install_content_check_time:
  "install_content_check (q\<lparr>pi_installed_at := t\<rparr>) rules bindings coverage = install_content_check q rules bindings coverage"
  by (cases coverage) (simp_all add: install_content_check_def)

lemma checked_content_time: "checked_content (q\<lparr>pi_installed_at := t\<rparr>) = checked_content q"
  by (simp add: checked_content_def install_arguments_check_def install_content_check_time)

lemma index_knowledge_rule_fields [simp]:
  "kl_rules (index_knowledge_rule r s) = kl_rules s" "kl_packs (index_knowledge_rule r s) = kl_packs s"
  "kl_bindings (index_knowledge_rule r s) = kl_bindings s" "kl_coverage (index_knowledge_rule r s) = kl_coverage s"
  "kl_fts5 (index_knowledge_rule r s) = kl_fts5 s"
  by (simp_all add: index_knowledge_rule_def)

lemma insert_rule_fields [simp]:
  "kl_packs (insert_rule r t s) = kl_packs s" "kl_bindings (insert_rule r t s) = kl_bindings s"
  "kl_coverage (insert_rule r t s) = kl_coverage s" "kl_fts5 (insert_rule r t s) = kl_fts5 s"
  by (simp_all add: insert_rule_def)

lemma install_parts_packs:
  "install_rule s r = Inr s' \<Longrightarrow> kl_packs s' = kl_packs s"
  "install_binding s b = Inr s' \<Longrightarrow> kl_packs s' = kl_packs s"
  "install_coverage i c s = Inr s' \<Longrightarrow> kl_packs s' = kl_packs s"
  by (auto simp: install_rule_def install_binding_def install_coverage_def res_iff split: option.splits if_splits)

lemma foldR_packs:
  "foldR install_rule s rs = Inr s' \<Longrightarrow> kl_packs s' = kl_packs s"
  "foldR install_binding s bs = Inr s' \<Longrightarrow> kl_packs s' = kl_packs s"
  by (erule foldR_invariant; use install_parts_packs in auto)+

lemma install_cases:
  assumes "install_knowledge_pack q s = Inr (b, s')"
  obtains (unchanged) rules bindings coverage payload where "checked_content q = Inr (rules, bindings, coverage, payload)"
      and "pack_held q s" and "\<not> b" and "s' = s"
  | (fresh) rules bindings coverage payload s1 s2 where "checked_content q = Inr (rules, bindings, coverage, payload)"
      and "map_of (kl_packs s) (pi_pack_id q) = None" and "b"
      and "foldR install_rule s rules = Inr s1"
      and "foldR install_binding (s1\<lparr>kl_packs := (pi_pack_id q,
             \<lparr>pr_schema_version = pi_schema_version q, pr_content_hash = pi_content_hash q,
              pr_installed_at = pi_installed_at q, pr_payload = payload\<rparr>) # kl_packs s1\<rparr>) bindings = Inr s2"
      and "install_coverage (pi_pack_id q) coverage s2 = Inr s'"
proof -
  from assms obtain rules bindings coverage payload
    where c: "checked_content q = Inr (rules, bindings, coverage, payload)"
    by (auto simp: install_knowledge_pack_def bindR_Inr_iff)
  show ?thesis
  proof (cases "map_of (kl_packs s) (pi_pack_id q)")
    case None
    with assms c fresh [OF c None] show ?thesis by (auto simp: install_knowledge_pack_def bindR_Inr_iff)
  next
    case (Some row)
    with assms c unchanged [OF c] show ?thesis
      by (auto simp: install_knowledge_pack_def pack_held_def split: if_splits)
  qed
qed

lemma install_packs:
  assumes "install_knowledge_pack q s = Inr (b, s')"
  shows "pack_held q s'" and "map_of (kl_packs s) \<subseteq>\<^sub>m map_of (kl_packs s')"
  using assms
  by (cases rule: install_cases;
      auto simp: pack_held_def map_le_def dest!: foldR_packs install_parts_packs(3))+

interpretation knowledge_store: pack_store install_knowledge_pack pack_held
proof
  fix q r :: pack_install and s s' :: KnowledgeLedger and b :: bool and t :: string
  show "pack_held q s'" if "install_knowledge_pack q s = Inr (b, s')" by (rule install_packs(1) [OF that])
  show "install_knowledge_pack (q\<lparr>pi_installed_at := t\<rparr>) s = Inr (False, s)" if "pack_held q s"
    using that
    by (auto simp: pack_held_def install_knowledge_pack_def checked_content_time split: sum.splits)
  show "pack_held q s'" if "pack_held q s" and "install_knowledge_pack r s = Inr (b, s')"
    using that(1) install_packs(2) [OF that(2)]
    by (auto simp: pack_held_def map_le_def split: sum.splits) (metis domI option.inject)
qed

section \<open>The invariant of the knowledge tables\<close>

text \<open>Primary keys, foreign keys, and a full-text index of exactly the rules.\<close>

definition keys :: "('k \<times> 'v) list \<Rightarrow> 'k set" where
  "keys table = fst ` set table"

lemma keys_simps [simp]: "keys [] = {}" "keys (kv # t) = insert (fst kv) (keys t)"
  by (simp_all add: keys_def)

lemma not_key_iff: "map_of t k = None \<longleftrightarrow> k \<notin> keys t"
  by (simp add: keys_def map_of_eq_None_iff)

definition index_ok :: "KnowledgeLedger \<Rightarrow> bool" where
  "index_ok s \<longleftrightarrow>
     (if kl_fts5 s then distinct (map fst (kl_rules_fts s)) \<and> keys (kl_rules_fts s) = keys (kl_rules s)
      else kl_rules_fts s = [])"

definition ledger_ok :: "KnowledgeLedger \<Rightarrow> bool" where
  "ledger_ok s \<longleftrightarrow>
     distinct (map fst (kl_rules s)) \<and> distinct (map fst (kl_packs s))
     \<and> distinct (map fst (kl_bindings s)) \<and> distinct (map fst (kl_coverage s))
     \<and> list_all (\<lambda>kv. br_knowledge_rule_id (snd kv) \<in> keys (kl_rules s)) (kl_bindings s)
     \<and> list_all (\<lambda>kv. cr_pack_id (snd kv) \<in> keys (kl_packs s)) (kl_coverage s)
     \<and> index_ok s"

definition ledger_extends :: "KnowledgeLedger \<Rightarrow> KnowledgeLedger \<Rightarrow> bool" where
  "ledger_extends s t \<longleftrightarrow>
     map_of (kl_rules s) \<subseteq>\<^sub>m map_of (kl_rules t) \<and> map_of (kl_packs s) \<subseteq>\<^sub>m map_of (kl_packs t)
     \<and> map_of (kl_bindings s) \<subseteq>\<^sub>m map_of (kl_bindings t) \<and> map_of (kl_coverage s) \<subseteq>\<^sub>m map_of (kl_coverage t)"

lemma ledger_extends_refl [simp, intro]: "ledger_extends s s"
  by (simp add: ledger_extends_def)

lemma ledger_extends_trans: "ledger_extends s t \<Longrightarrow> ledger_extends t u \<Longrightarrow> ledger_extends s u"
  unfolding ledger_extends_def by (meson map_le_trans)

lemma map_le_Cons: "map_of t k = None \<Longrightarrow> map_of t \<subseteq>\<^sub>m map_of ((k, v) # t)"
  by (auto simp: map_le_def)

lemma ledger_extends_keys: "ledger_extends s t \<Longrightarrow> keys (kl_rules s) \<subseteq> keys (kl_rules t)"
proof -
  assume "ledger_extends s t"
  then have "dom (map_of (kl_rules s)) \<subseteq> dom (map_of (kl_rules t))"
    by (simp add: ledger_extends_def map_le_implies_dom_le)
  then show ?thesis by (simp add: dom_map_of_conv_image_fst keys_def)
qed

lemma foldR_extends:
  assumes "foldR f s xs = Inr t" and "\<And>s x t. f s x = Inr t \<Longrightarrow> ledger_extends s t"
  shows "ledger_extends s t"
  using assms(1) by (rule foldR_invariant) (use assms(2) ledger_extends_trans in blast)+

lemma immutable_payload_cases:
  "immutable_payload t f k p = Inr b \<longleftrightarrow>
     (\<not> b \<and> map_of t k = None) \<or> (b \<and> (\<exists>row. map_of t k = Some row \<and> f row = p))"
  by (auto simp: immutable_payload_def split: option.splits)

lemma keys_delete [simp]: "keys (AList.delete k t) = keys t - {k}"
  unfolding keys_def by (metis AList.delete_keys image_set set_removeAll)

lemma distinct_Cons_delete: "distinct (map fst t) \<Longrightarrow> distinct (map fst ((k, v) # AList.delete k t))"
  by (simp add: AList.distinct_delete AList.delete_notin_dom)

lemma index_ok_present:
  "index_ok s \<Longrightarrow> KnowledgeRule_id r \<in> keys (kl_rules s) \<Longrightarrow> index_ok (index_knowledge_rule r s)"
  by (auto simp: index_ok_def index_knowledge_rule_def AList.distinct_delete AList.delete_notin_dom)

lemma index_ok_inserted:
  "index_ok s \<Longrightarrow> index_ok (index_knowledge_rule r (insert_rule r payload s))"
  by (auto simp: index_ok_def index_knowledge_rule_def insert_rule_def AList.distinct_delete AList.delete_notin_dom)

lemma not_key_fst: "map_of t k = None \<longleftrightarrow> k \<notin> fst ` set t"
  by (simp add: map_of_eq_None_iff)

lemma ledger_ok_insert_rule:
  assumes "ledger_ok s" and "map_of (kl_rules s) (KnowledgeRule_id r) = None"
  shows "ledger_ok (index_knowledge_rule r (insert_rule r payload s))"
    and "ledger_extends s (index_knowledge_rule r (insert_rule r payload s))"
proof -
  have "index_ok (index_knowledge_rule r (insert_rule r payload s))"
    using assms(1) by (intro index_ok_inserted) (simp add: ledger_ok_def)
  with assms show "ledger_ok (index_knowledge_rule r (insert_rule r payload s))"
    by (simp add: ledger_ok_def insert_rule_def not_key_fst) (auto simp: list_all_iff)
  show "ledger_extends s (index_knowledge_rule r (insert_rule r payload s))"
    using assms(2) by (simp add: ledger_extends_def insert_rule_def map_le_Cons del: map_of.simps)
qed

lemma present_key: "map_of t k = Some v \<Longrightarrow> k \<in> keys t"
  by (metis not_key_iff option.distinct(1))

lemma ledger_ok_index_rule:
  "ledger_ok s \<Longrightarrow> KnowledgeRule_id r \<in> keys (kl_rules s) \<Longrightarrow> ledger_ok (index_knowledge_rule r s)"
  using index_ok_present by (simp add: ledger_ok_def)

lemma index_rule_extends: "ledger_extends s (index_knowledge_rule r s)"
  by (simp add: ledger_extends_def)

text \<open>Each write of a row keeps the invariant and the rows that are there.\<close>

lemma install_rule_ok:
  assumes "install_rule s r = Inr t" and "ledger_ok s"
  shows "ledger_ok t \<and> ledger_extends s t \<and> KnowledgeRule_id r \<in> keys (kl_rules t)"
proof -
  from assms(1) obtain payload present
    where imm: "immutable_payload (kl_rules s) rr_payload (KnowledgeRule_id r) payload = Inr present"
      and t: "t = index_knowledge_rule r (if present then s else insert_rule r payload s)"
    by (auto simp: install_rule_def res_iff)
  show ?thesis
  proof (cases present)
    case True
    with imm have "KnowledgeRule_id r \<in> keys (kl_rules s)" by (auto simp: immutable_payload_cases dest: present_key)
    with True t assms(2) show ?thesis by (simp add: ledger_ok_index_rule index_rule_extends)
  next
    case False
    with imm have "map_of (kl_rules s) (KnowledgeRule_id r) = None" by (simp add: immutable_payload_cases)
    with ledger_ok_insert_rule [OF assms(2) this, of payload] False t show ?thesis by (simp add: insert_rule_def)
  qed
qed

lemma add_rule_ok:
  assumes "add_knowledge_rule s r = Inr t" and "ledger_ok s"
  shows "ledger_ok t \<and> ledger_extends s t"
proof -
  from assms(1) obtain payload present
    where imm: "immutable_payload (kl_rules s) rr_payload (KnowledgeRule_id r) payload = Inr present"
      and t: "t = (if present then s else index_knowledge_rule r (insert_rule r payload s))"
    by (auto simp: add_knowledge_rule_def res_iff)
  then show ?thesis
    using assms(2) ledger_ok_insert_rule [OF assms(2)] by (auto simp: immutable_payload_cases)
qed

lemma install_binding_ok:
  assumes "install_binding s b = Inr t" and "ledger_ok s" and "kb_knowledge_rule_id b \<in> keys (kl_rules s)"
  shows "ledger_ok t \<and> ledger_extends s t"
proof -
  from assms(1) obtain payload present
    where imm: "immutable_payload (kl_bindings s) br_payload (kb_id b) payload = Inr present"
      and t: "t = (if present then s
          else s\<lparr>kl_bindings := (kb_id b,
                   \<lparr>br_knowledge_rule_id = kb_knowledge_rule_id b, br_target_kind = kb_target_kind b,
                    br_target = kb_target b, br_payload = payload\<rparr>) # kl_bindings s\<rparr>)"
    by (auto simp: install_binding_def res_iff)
  show ?thesis
  proof (cases present)
    case False
    with imm have new: "map_of (kl_bindings s) (kb_id b) = None" by (simp add: immutable_payload_cases)
    with False t assms(2,3) have "ledger_ok t" by (simp add: ledger_ok_def index_ok_def not_key_fst)
    moreover from new False t have "ledger_extends s t"
      by (simp add: ledger_extends_def map_le_Cons del: map_of.simps)
    ultimately show ?thesis ..
  qed (use t assms(2) in simp)
qed

lemma install_coverage_ok:
  assumes "install_coverage i c s = Inr t" and "ledger_ok s" and "i \<in> keys (kl_packs s)"
  shows "ledger_ok t \<and> ledger_extends s t"
proof (cases c)
  case (Some m)
  with assms(1) obtain payload present
    where imm: "immutable_payload (kl_coverage s) cr_payload (cm_id m) payload = Inr present"
      and t: "t = (if present then s
          else s\<lparr>kl_coverage := (cm_id m,
                   \<lparr>cr_pack_id = i, cr_coverage_scope = cm_coverage_scope m, cr_payload = payload\<rparr>) # kl_coverage s\<rparr>)"
    by (auto simp: install_coverage_def res_iff)
  show ?thesis
  proof (cases present)
    case False
    with imm have new: "map_of (kl_coverage s) (cm_id m) = None" by (simp add: immutable_payload_cases)
    with False t assms(2,3) have "ledger_ok t" by (simp add: ledger_ok_def index_ok_def not_key_fst)
    moreover from new False t have "ledger_extends s t"
      by (simp add: ledger_extends_def map_le_Cons del: map_of.simps)
    ultimately show ?thesis ..
  qed (use t assms(2) in simp)
qed (use assms in \<open>simp add: install_coverage_def\<close>)

lemma install_rules_ok:
  "foldR install_rule s rs = Inr t \<Longrightarrow> ledger_ok s \<Longrightarrow>
   ledger_ok t \<and> ledger_extends s t \<and> KnowledgeRule_id ` set rs \<subseteq> keys (kl_rules t)"
proof (induction rs arbitrary: s)
  case (Cons r rs)
  then obtain u where u: "install_rule s r = Inr u" "foldR install_rule u rs = Inr t" by (auto simp: res_iff)
  note one = install_rule_ok [OF u(1) Cons.prems(2)]
  with Cons.IH [OF u(2)] have rest: "ledger_ok t" "ledger_extends u t" "KnowledgeRule_id ` set rs \<subseteq> keys (kl_rules t)"
    by simp_all
  moreover have "KnowledgeRule_id r \<in> keys (kl_rules t)" using one ledger_extends_keys [OF rest(2)] by blast
  ultimately show ?case using one ledger_extends_trans by auto
qed simp

lemma install_bindings_ok:
  "foldR install_binding s bs = Inr t \<Longrightarrow> ledger_ok s \<Longrightarrow> \<forall>b \<in> set bs. kb_knowledge_rule_id b \<in> keys (kl_rules s) \<Longrightarrow>
   ledger_ok t \<and> ledger_extends s t"
proof (induction bs arbitrary: s)
  case (Cons b bs)
  then obtain u where u: "install_binding s b = Inr u" "foldR install_binding u bs = Inr t" by (auto simp: res_iff)
  have one: "ledger_ok u" "ledger_extends s u" using install_binding_ok [OF u(1) Cons.prems(2)] Cons.prems(3) by simp_all
  have "\<forall>b \<in> set bs. kb_knowledge_rule_id b \<in> keys (kl_rules u)"
    using Cons.prems(3) ledger_extends_keys [OF one(2)] by auto
  from Cons.IH [OF u(2) one(1) this] one(2) show ?case using ledger_extends_trans by blast
qed simp

lemma checked_content_rules:
  assumes "checked_content q = Inr (rules, bindings, coverage, payload)"
  shows "\<forall>b \<in> set bindings. kb_knowledge_rule_id b \<in> KnowledgeRule_id ` set rules"
proof -
  from assms have "install_content_check q rules bindings coverage = Inr ()"
    by (auto simp: checked_content_def res_iff)
  then show ?thesis by (simp add: install_content_check_def Let_def res_iff list_ex_iff)
qed

lemma insert_pack_ok:
  assumes "ledger_ok s" and "map_of (kl_packs s) i = None"
  shows "ledger_ok (s\<lparr>kl_packs := (i, row) # kl_packs s\<rparr>)"
    and "ledger_extends s (s\<lparr>kl_packs := (i, row) # kl_packs s\<rparr>)"
proof -
  have "list_all (\<lambda>kv. cr_pack_id (snd kv) \<in> keys ((i, row) # kl_packs s)) (kl_coverage s)"
    using assms(1) by (auto simp: ledger_ok_def list_all_iff)
  with assms show "ledger_ok (s\<lparr>kl_packs := (i, row) # kl_packs s\<rparr>)"
    by (simp add: ledger_ok_def index_ok_def not_key_fst)
  show "ledger_extends s (s\<lparr>kl_packs := (i, row) # kl_packs s\<rparr>)"
    using assms(2) by (simp add: ledger_extends_def map_le_Cons del: map_of.simps)
qed

lemma install_pack_ok:
  assumes "install_knowledge_pack q s = Inr (b, t)" and "ledger_ok s"
  shows "ledger_ok t \<and> ledger_extends s t"
  using assms(1)
proof (cases rule: install_cases)
  case (fresh rules bindings coverage payload s1 s2)
  let ?row = "\<lparr>pr_schema_version = pi_schema_version q, pr_content_hash = pi_content_hash q,
       pr_installed_at = pi_installed_at q, pr_payload = payload\<rparr>"
  let ?u = "s1\<lparr>kl_packs := (pi_pack_id q, ?row) # kl_packs s1\<rparr>"
  from install_rules_ok [OF fresh(4) assms(2)]
  have s1: "ledger_ok s1" "ledger_extends s s1" "KnowledgeRule_id ` set rules \<subseteq> keys (kl_rules s1)" by simp_all
  have new: "map_of (kl_packs s1) (pi_pack_id q) = None" using foldR_packs(1) [OF fresh(4)] fresh(2) by simp
  note u = insert_pack_ok [OF s1(1) new, of ?row]
  have "\<forall>b \<in> set bindings. kb_knowledge_rule_id b \<in> keys (kl_rules ?u)"
    using checked_content_rules [OF fresh(1)] s1(3) by auto
  from install_bindings_ok [OF fresh(5) u(1) this] have s2: "ledger_ok s2" "ledger_extends ?u s2" by simp_all
  have "pi_pack_id q \<in> keys (kl_packs s2)" using foldR_packs(2) [OF fresh(5)] by simp
  from install_coverage_ok [OF fresh(6) s2(1) this] have t: "ledger_ok t" "ledger_extends s2 t" by simp_all
  from ledger_extends_trans [OF ledger_extends_trans [OF s1(2) u(2)] ledger_extends_trans [OF s2(2) t(2)]] t(1)
  show ?thesis by simp
qed (use assms(2) in simp)

lemma add_rules_ok:
  "foldR add_knowledge_rule s rs = Inr t \<Longrightarrow> ledger_ok s \<Longrightarrow> ledger_ok t \<and> ledger_extends s t"
proof (induction rs arbitrary: s)
  case (Cons r rs)
  then obtain u where u: "add_knowledge_rule s r = Inr u" "foldR add_knowledge_rule u rs = Inr t" by (auto simp: res_iff)
  from add_rule_ok [OF u(1) Cons.prems(2)] Cons.IH [OF u(2)] show ?case using ledger_extends_trans by blast
qed simp

section \<open>Properties\<close>

inductive ledger_step :: "KnowledgeLedger \<Rightarrow> KnowledgeLedger \<Rightarrow> bool" where
  add_rules: "add_knowledge_rules values s = Inr t \<Longrightarrow> ledger_step s t"
| install_pack: "install_knowledge_pack q s = Inr (b, t) \<Longrightarrow> ledger_step s t"

lemma ledger_step_ok: "ledger_step s t \<Longrightarrow> ledger_ok s \<Longrightarrow> ledger_ok t \<and> ledger_extends s t"
proof (induction rule: ledger_step.induct)
  case (add_rules rs s t)
  then obtain rules where "foldR add_knowledge_rule s rules = Inr t" by (auto simp: add_knowledge_rules_def res_iff)
  then show ?case using add_rules.prems by (rule add_rules_ok)
next
  case (install_pack q s b t)
  then show ?case by (rule install_pack_ok)
qed

lemma ledger_steps_ok: "ledger_step\<^sup>*\<^sup>* s t \<Longrightarrow> ledger_ok s \<Longrightarrow> ledger_ok t \<and> ledger_extends s t"
proof (induction rule: rtranclp_induct)
  case (step t u)
  then show ?case using ledger_step_ok [OF step(2)] ledger_extends_trans by blast
qed simp

text \<open>C22: Whatever sequence of rule and pack installations a ledger went through, its tables have
  unique primary keys, every binding row refers to a stored rule and every coverage row to
  a stored pack (so no foreign key is ever violated), and the full-text index lists exactly the
  stored rules, each once; and no operation changes or removes a row that was stored before.\<close>

theorem ledger_stays_consistent:
  assumes "ledger_step\<^sup>*\<^sup>* (empty_ledger fts5) s" and "ledger_step\<^sup>*\<^sup>* s t"
  shows "ledger_ok t \<and> ledger_extends s t"
proof -
  have "ledger_ok (empty_ledger fts5)" by (simp add: ledger_ok_def empty_ledger_def index_ok_def)
  with ledger_steps_ok [OF assms(1)] ledger_steps_ok [OF assms(2)] show ?thesis by blast
qed

text \<open>C39: A second sync of the same packs, whenever it happens, changes nothing: every pack is
  reported unchanged, under the id and the content hash of the first report, and the ledger is
  the one the first sync left.\<close>

theorem sync_twice:
  assumes "catalog_install install_knowledge_pack now packs pack_ids s = (Inr reports, s')"
  shows "\<exists>again. catalog_install install_knowledge_pack later packs pack_ids s' = (Inr again, s')
     \<and> list_all2 (\<lambda>r t. \<exists>q b. r = install_report q b \<and> t = install_report q False) reports again"
  by (rule knowledge_store.install_twice [OF assms])

text \<open>C40: Nothing executable enters the ledger without a review: when an installation succeeds
  with bindings, the pack brings a coverage manifest whose sections are all decided and whose
  review status is not \<open>unreviewed\<close>, and the public inventory states that status.\<close>

theorem bindings_need_review:
  assumes "install_knowledge_pack q s = Inr (b, t)" and "pi_bindings q \<noteq> []"
  shows "\<exists>m. pi_coverage q = Some m \<and> cm_pack_id m = pi_pack_id q \<and> coverage_complete m
     \<and> cm_review_status m \<noteq> ''unreviewed''
     \<and> dget (pi_inventory q) ''review_status'' = PStr (cm_review_status m)"
proof -
  obtain rules bindings coverage payload where c: "checked_content q = Inr (rules, bindings, coverage, payload)"
    using assms(1) by (cases rule: install_cases)
  then have bs: "mapR revalidated_binding (pi_bindings q) = Inr bindings"
    and cov: "optR revalidated_coverage (pi_coverage q) = Inr coverage"
    and ok: "install_content_check q rules bindings coverage = Inr ()"
    by (auto simp: checked_content_def res_iff)
  have "bindings \<noteq> []" using mapR_length [OF bs] assms(2) by auto
  with ok obtain m where m: "coverage = Some m" "cm_pack_id m = pi_pack_id q" "review_ready m"
    "dget (pi_inventory q) ''review_status'' = PStr (cm_review_status m)"
    by (auto simp: install_content_check_def Let_def res_iff installable_def split: option.splits)
  moreover from cov m(1) have "pi_coverage q = Some m"
    by (auto simp: optR_Inr_iff revalidated_coverage_def coverage.revalidate_iff)
  ultimately show ?thesis by (simp add: review_ready_def)
qed

end
