(* ===== verification/Knowledge_Install.thy ===== *)
theory Knowledge_Install
  imports Knowledge_Ledger
begin

text \<open>
  The loader of packs and the store validate a pack independently.  Here the two are
  compared: what the catalog asks the ledger to install from a loaded pack passes every check
  the store makes, and enters a ledger that has none of its rows.
\<close>

section \<open>Serialisable values\<close>

definition jsonable :: "pyval \<Rightarrow> bool" where
  "jsonable v = is_ok (canonical_json v)"

lemma mapR_ok: "is_ok (mapR f xs) \<longleftrightarrow> (\<forall>x \<in> set xs. is_ok (f x))"
proof
  assume "is_ok (mapR f xs)"
  then obtain ys where "mapR f xs = Inr ys" by (auto simp: is_ok_iff)
  then show "\<forall>x \<in> set xs. is_ok (f x)"
    by (induction xs arbitrary: ys) (auto simp: res_iff is_ok_iff)
next
  show "\<forall>x \<in> set xs. is_ok (f x) \<Longrightarrow> is_ok (mapR f xs)"
    by (induction xs) (auto simp: is_ok_iff)
qed

lemma mapR_compose:
  "mapR f xs = Inr ys \<Longrightarrow> is_ok (mapR g ys) \<longleftrightarrow> (\<forall>x \<in> set xs. is_ok (bindR (f x) g))"
  by (induction xs arbitrary: ys) (auto simp: res_iff mapR_ok)

lemma bindR_ok: "is_ok (bindR m f) \<longleftrightarrow> (\<exists>x. m = Inr x \<and> is_ok (f x))"
  by (cases m) (auto simp: is_ok_iff)

lemma mapr_ok: "is_ok (mapr f m) = is_ok m"
  by (cases m) simp_all

lemma jsonable_PList: "jsonable (PList xs) \<longleftrightarrow> (\<forall>x \<in> set xs. jsonable x)"
proof (cases "mapR json_ready xs")
  case (Inl e)
  then have "\<not> is_ok (mapR json_ready xs)" by simp
  then obtain x where "x \<in> set xs" "\<not> is_ok (json_ready x)" by (auto simp: mapR_ok)
  moreover from this have "\<not> jsonable x" by (auto simp: jsonable_def canonical_json_def bindR_ok)
  moreover have "\<not> jsonable (PList xs)" using Inl by (simp add: jsonable_def canonical_json_def)
  ultimately show ?thesis by blast
next
  case (Inr js)
  then show ?thesis by (simp add: jsonable_def canonical_json_def mapr_ok mapR_compose [OF Inr])
qed

lemma jsonable_PObj: "jsonable (PObj kvs) \<longleftrightarrow> (\<forall>kv \<in> set kvs. jsonable (snd kv))"
proof (cases "mapR (\<lambda>kv. mapr (Pair (fst kv)) (json_ready (snd kv))) kvs")
  case (Inl e)
  then have "\<not> is_ok (mapR (\<lambda>kv. mapr (Pair (fst kv)) (json_ready (snd kv))) kvs)" by simp
  then obtain kv where "kv \<in> set kvs" "\<not> is_ok (mapr (Pair (fst kv)) (json_ready (snd kv)))" by (auto simp: mapR_ok)
  moreover from this have "\<not> jsonable (snd kv)"
    by (cases "json_ready (snd kv)") (auto simp: jsonable_def canonical_json_def)
  moreover have "\<not> jsonable (PObj kvs)" using Inl by (simp add: jsonable_def canonical_json_def)
  ultimately show ?thesis by blast
next
  case (Inr js)
  have "is_ok (bindR (mapr (Pair k) m) (\<lambda>kv. mapr (Pair (fst kv)) (dumps (snd kv)))) = is_ok (bindR m dumps)"
    for k :: string and m
    by (cases m) (simp_all add: mapr_ok)
  with Inr show ?thesis by (simp add: jsonable_def canonical_json_def mapr_ok mapR_compose [OF Inr])
qed

lemma json_ready_pdict:
  assumes "distinct (map fst kvs)"
  shows "json_ready (pdict kvs) = json_ready (PObj kvs)"
proof -
  have "mapR (\<lambda>kv. mapr (Pair (key_str (fst kv))) (json_ready (snd kv))) (map (\<lambda>kv. (KStr (fst kv), snd kv)) kvs)
      = mapR (\<lambda>kv. mapr (Pair (fst kv)) (json_ready (snd kv))) kvs"
    by (induction kvs) simp_all
  moreover have "dict_of_pairs ps = ps" if "mapR (\<lambda>kv. mapr (Pair (fst kv)) (json_ready (snd kv))) kvs = Inr ps" for ps
  proof -
    from that have "map fst ps = map fst kvs" by (induction kvs arbitrary: ps) (auto simp: res_iff)
    with assms show ?thesis by (simp add: dict_of_pairs_distinct)
  qed
  ultimately show ?thesis
    by (cases "mapR (\<lambda>kv. mapr (Pair (fst kv)) (json_ready (snd kv))) kvs") (simp_all add: pdict_def)
qed

lemma jsonable_pdict: "distinct (map fst kvs) \<Longrightarrow> jsonable (pdict kvs) \<longleftrightarrow> (\<forall>kv \<in> set kvs. jsonable (snd kv))"
  using jsonable_PObj [of kvs] by (simp add: jsonable_def canonical_json_def json_ready_pdict)

lemma jsonable_simps [simp]: "jsonable (PStr s)" "jsonable PNone" "jsonable (PBool b)"
  by (simp_all add: jsonable_def canonical_json_def)

lemma jsonable_str_list [simp]: "jsonable (str_list xs)"
  by (simp add: str_list_def jsonable_PList)

section \<open>Loaded contracts are revalidated unchanged\<close>

lemma revalidated_rule_built: "KnowledgeRule_init r0 = Inr r \<Longrightarrow> revalidated_rule r = Inr r"
proof -
  assume "KnowledgeRule_init r0 = Inr r"
  then have "KnowledgeRule_init r = Inr r" by (rule rule.idem)
  then show ?thesis by (simp add: revalidated_rule_def revalidate_model_def checks_eval as_store_error_def)
qed

lemma revalidated_binding_built: "KnowledgeBinding_init b0 = Inr b \<Longrightarrow> revalidated_binding b = Inr b"
proof -
  assume "KnowledgeBinding_init b0 = Inr b"
  then have "KnowledgeBinding_init (b\<lparr>kb_id := []\<rparr>) = Inr b"
    by (auto simp: KnowledgeBinding_init_def KnowledgeBinding_identity_def res_iff)
  then show ?thesis by (simp add: revalidated_binding_def binding.revalidate_iff)
qed

lemma coverage_init_cleared:
  assumes "CoverageManifest_init m = Inr n"
  shows "CoverageManifest_init (m\<lparr>cm_id := []\<rparr>) = Inr n"
proof -
  have "machine_review_check (m\<lparr>cm_id := []\<rparr>) = machine_review_check m"
    by (rule machine_review_check_fields) simp_all
  with assms show ?thesis
    unfolding CoverageManifest_init_iff Let_def by (auto simp: CoverageManifest_identity_def)
qed

lemma revalidated_coverage_built: "CoverageManifest_from_dict m0 = Inr m \<Longrightarrow> revalidated_coverage m = Inr m"
proof -
  assume "CoverageManifest_from_dict m0 = Inr m"
  then have "CoverageManifest_from_dict m = Inr m" by (rule coverage.idem)
  then obtain es ts where parts: "mapR CoverageEntry_init (cm_entries m) = Inr es"
      "mapR KnowledgeTargetCoverage_init (cm_target_inventory m) = Inr ts"
    and m: "CoverageManifest_init (m\<lparr>cm_entries := es, cm_target_inventory := ts\<rparr>) = Inr m"
    by (auto simp: CoverageManifest_from_dict_def res_iff)
  have swap: "m\<lparr>cm_id := [], cm_entries := es, cm_target_inventory := ts\<rparr>
      = m\<lparr>cm_entries := es, cm_target_inventory := ts, cm_id := []\<rparr>" by simp
  have "CoverageManifest_from_dict (m\<lparr>cm_id := []\<rparr>) = Inr m"
    using coverage_init_cleared [OF m] parts by (simp add: CoverageManifest_from_dict_def swap)
  then show ?thesis by (simp add: revalidated_coverage_def coverage.revalidate_iff)
qed

section \<open>The loader's checks imply the store's\<close>

lemma namespaced_not_blank: "is_namespaced s \<Longrightarrow> strip s \<noteq> []"
proof -
  assume "is_namespaced s"
  then obtain c cs where s: "s = c # cs" "is_alnum c" by (cases s) (auto simp: is_namespaced.simps)
  then have "\<not> is_space c" by (auto simp: char_class_defs)
  then have "lstrip s = s" "\<exists>x \<in> set (rev s). \<not> is_space x" using s by (auto simp: lstrip_def)
  then show ?thesis by (auto simp: strip_def lstrip_def dropWhile_eq_Nil_conv)
qed

lemma loaded_parts:
  assumes "KnowledgePack_from_dict raw p0 = Inr p"
  shows "KnowledgePack_init p = Inr p" and "r \<in> set (kp_rules p) \<Longrightarrow> revalidated_rule r = Inr r"
    and "b \<in> set (kp_bindings p) \<Longrightarrow> revalidated_binding b = Inr b"
    and "optR revalidated_coverage (kp_coverage p) = Inr (kp_coverage p)"
proof -
  from assms obtain ds rs bs c where parts: "mapR KnowledgeRule_init (kp_rules p0) = Inr rs"
      "mapR KnowledgeBinding_init (kp_bindings p0) = Inr bs" "optR CoverageManifest_from_dict (kp_coverage p0) = Inr c"
    and init: "KnowledgePack_init (p0\<lparr>kp_documents := ds, kp_rules := rs, kp_bindings := bs, kp_coverage := c\<rparr>) = Inr p"
    by (auto simp: KnowledgePack_from_dict_def res_iff)
  have p: "p = p0\<lparr>kp_documents := ds, kp_rules := rs, kp_bindings := bs, kp_coverage := c\<rparr>"
    by (rule KnowledgePack_init_same [OF init])
  with init show "KnowledgePack_init p = Inr p" by simp
  show "revalidated_rule r = Inr r" if "r \<in> set (kp_rules p)"
    using that mapR_set [OF parts(1)] revalidated_rule_built p by auto
  show "revalidated_binding b = Inr b" if "b \<in> set (kp_bindings p)"
    using that mapR_set [OF parts(2)] revalidated_binding_built p by auto
  show "optR revalidated_coverage (kp_coverage p) = Inr (kp_coverage p)"
    using parts(3) p by (auto simp: optR_Inr_iff intro: revalidated_coverage_built)
qed

lemma dget_pdict: "dget (dict_items (pdict kvs)) k = (case map_of kvs k of None \<Rightarrow> PNone | Some v \<Rightarrow> v)"
proof -
  have "map_of (map (\<lambda>kv. (KStr (fst kv), snd kv)) kvs) (KStr k) = map_of kvs k" by (induction kvs) auto
  then show ?thesis by (simp add: dget_def pdict_def)
qed

lemma dhas_pdict: "dhas (dict_items (pdict kvs)) k \<longleftrightarrow> map_of kvs k \<noteq> None"
proof -
  have "map_of (map (\<lambda>kv. (KStr (fst kv), snd kv)) kvs) (KStr k) = map_of kvs k" by (induction kvs) auto
  then show ?thesis by (simp add: dhas_def pdict_def)
qed

lemma ids_agree:
  assumes "dget d k = str_list (sort ids)" and "dhas d k"
  shows "ids_differ d k ids msg = Inr ()"
proof -
  have "list_all hashable (map PStr (sort ids))" by (simp add: list_all_iff)
  with assms show ?thesis by (simp add: ids_differ_def iterated_def str_list_def reject_store_def reject_with_def)
qed

lemma supplied_binding_eq: "supplied_binding (kp_bindings p) = binding_by_id p"
  by (simp add: supplied_binding_def binding_by_id_def)

text \<open>The coverage checks of the loader imply those of the store.\<close>

lemma pack_placement_store:
  "binding_placement_check p e = Inr () \<Longrightarrow> store_placement_check (kp_bindings p) e = Inr ()"
  by (auto simp: binding_placement_check_def store_placement_check_def supplied_binding_eq res_iff
      split: option.splits dest!: bspec)

lemma pack_target_store:
  "target_binding_check p t = Inr () \<Longrightarrow> store_target_check (kp_bindings p) t = Inr ()"
  by (auto simp: target_binding_check_def store_target_check_def supplied_binding_eq res_iff
      split: option.splits dest!: bspec)

lemma pack_entry_store:
  "coverage_entry_check p e = Inr () \<Longrightarrow>
    store_entry_check (map KnowledgeRule_id (kp_rules p)) (map kb_id (kp_bindings p)) e = Inr ()"
  by (simp add: coverage_entry_check_def store_entry_check_def pack_rule_ids_def pack_binding_ids_def res_iff)

lemma pack_registry_store: "target_registry_check m = Inr () \<Longrightarrow> store_registry_check m = Inr ()"
  by (auto simp: target_registry_check_def as_pack_error_def canonical_supported_targets_def res_iff
      store_registry_check_def split: sum.splits py_exn.splits if_splits option.splits)

lemma covered_exactly:
  "covered_once ids covered \<Longrightarrow> set covered \<subseteq> set ids \<Longrightarrow> covers_exactly ids covered"
  by (auto simp: covered_once_iff covers_exactly_def list_all_iff)

lemma covered_within:
  assumes "\<forall>e \<in> set (cm_entries m). coverage_entry_check p e = Inr ()"
  shows "set (rule_coverage m) \<subseteq> set (pack_rule_ids p)" and "set (binding_coverage m) \<subseteq> set (pack_binding_ids p)"
  using assms
  by (auto simp: rule_coverage_def binding_coverage_def rule_entries_def coverage_entry_check_def res_iff list_ex_iff)

lemma pack_coverage_store:
  assumes "pack_coverage_check p m = Inr ()"
    and "dget invt ''coverage_id'' = PStr (cm_id m)" and "dget invt ''coverage_scope'' = PStr (cm_coverage_scope m)"
    and "dget invt ''target_registry_version'' = PStr (cm_target_registry_version m)"
  shows "store_coverage_check invt (kp_rules p) (kp_bindings p) m = Inr ()"
proof -
  note c = assms(1) [unfolded pack_coverage_iff]
  then have entries: "\<forall>e \<in> set (cm_entries m). coverage_entry_check p e = Inr ()"
    and once: "covered_once (pack_rule_ids p) (rule_coverage m)" "covered_once (pack_binding_ids p) (binding_coverage m)"
    and registry: "cm_target_inventory m \<noteq> [] \<or> kp_bindings p \<noteq> [] \<longrightarrow> target_registry_check m = Inr ()"
    and targets: "cm_target_inventory m \<noteq> [] \<longrightarrow> set (covered_binding_ids m) = set (pack_binding_ids p)"
    by blast+
  have "set (covered_binding_ids m) = set (pack_binding_ids p)"
  proof (cases "cm_target_inventory m = []")
    case True
    have "kp_bindings p = []"
    proof (rule ccontr)
      assume "kp_bindings p \<noteq> []"
      with registry obtain ts where "map_of CANONICAL_SUPPORTED_TARGETS (cm_coverage_scope m) = Some ts"
        "target_key ` set (cm_target_inventory m) = set ts" using target_registry_exact by metis
      with True canonical_targets_nonempty show False by auto
    qed
    with True show ?thesis by (simp add: covered_binding_ids_def pack_binding_ids_def)
  qed (use targets in simp)
  moreover have "covers_exactly (pack_rule_ids p) (rule_coverage m)" "covers_exactly (pack_binding_ids p) (binding_coverage m)"
    using covered_exactly once covered_within [OF entries] by blast+
  ultimately show ?thesis
    using c assms(2-4) pack_placement_store pack_target_store pack_entry_store pack_registry_store
    by (simp add: store_coverage_check_def Let_def res_iff pack_rule_ids_def [symmetric] pack_binding_ids_def [symmetric])
qed

section \<open>What the catalog requests\<close>

lemma inventory_cases:
  assumes "inventory p = Inr d"
  obtains h a where "content_hash p = Inr h" and "knowledge_activation_hash (kp_rules p) (kp_bindings p) (kp_coverage p) = Inr a"
    and "d = dict_items (pdict
       [(''pack_id'', PStr (kp_pack_id p)), (''pack_schema_version'', PStr (kp_schema_version p)),
        (''content_hash'', PStr h), (''activation_hash'', PStr a),
        (''documents'', PList (map document_entry (sort_key document_key (kp_documents p)))),
        (''rule_ids'', str_list (sort (pack_rule_ids p))), (''binding_ids'', str_list (sort (pack_binding_ids p))),
        (''coverage_id'', of_coverage cm_id (kp_coverage p)),
        (''coverage_scope'', of_coverage cm_coverage_scope (kp_coverage p)),
        (''target_registry_version'', of_coverage cm_target_registry_version (kp_coverage p)),
        (''review_status'', inventory_review_status p), (''review_ready'', PBool (pack_review_ready p)),
        (''contains_document_body'', PBool False)])"
  using assms by (auto simp: inventory_def res_iff)

lemma inventory_get:
  assumes "inventory p = Inr d"
  shows "dget d ''pack_id'' = PStr (kp_pack_id p)" and "dget d ''rule_ids'' = str_list (sort (pack_rule_ids p))"
    and "dget d ''binding_ids'' = str_list (sort (pack_binding_ids p))" and "dhas d ''rule_ids''" and "dhas d ''binding_ids''"
    and "dget d ''coverage_id'' = of_coverage cm_id (kp_coverage p)"
    and "dget d ''coverage_scope'' = of_coverage cm_coverage_scope (kp_coverage p)"
    and "dget d ''target_registry_version'' = of_coverage cm_target_registry_version (kp_coverage p)"
    and "dget d ''review_status'' = inventory_review_status p" and "dget d ''review_ready'' = PBool (pack_review_ready p)"
    and "knowledge_activation_hash (kp_rules p) (kp_bindings p) (kp_coverage p) = Inr (str_of (dget d ''activation_hash''))"
    and "dget d ''activation_hash'' = PStr (str_of (dget d ''activation_hash''))"
  using assms by (cases rule: inventory_cases; simp add: dget_pdict dhas_pdict)+

lemma body_free_entry: "reject_embedded_body_fields (document_entry d) = Inr ()"
proof -
  have "list_all (\<lambda>k. \<not> body_key (KStr k)) [''document_id'', ''document_version'', ''official_url'']" by code_simp
  then show ?thesis
    by (simp add: document_entry_def pdict_def reject_embedded_body_fields.simps checks_eval)
qed

lemma body_free_inventory:
  assumes "inventory p = Inr d" and "is_str (inventory_review_status p)"
  shows "reject_embedded_body_fields (PDict d) = Inr ()"
proof -
  have keys: "list_all (\<lambda>k. \<not> body_key (KStr k))
      [''pack_id'', ''pack_schema_version'', ''content_hash'', ''activation_hash'', ''documents'', ''rule_ids'',
       ''binding_ids'', ''coverage_id'', ''coverage_scope'', ''target_registry_version'', ''review_status'',
       ''review_ready'', ''contains_document_body'']"
    by code_simp
  have docs: "reject_embedded_body_fields (PList (map document_entry ds)) = Inr ()" for ds
    by (simp add: reject_embedded_body_fields.simps res_iff body_free_entry)
  have ids: "reject_embedded_body_fields (str_list xs) = Inr ()" for xs
    by (auto simp: str_list_def reject_embedded_body_fields.simps res_iff)
  have cover: "reject_embedded_body_fields (of_coverage f c) = Inr ()" for f c
    by (simp add: of_coverage_def reject_embedded_body_fields.simps split: option.split)
  have status: "reject_embedded_body_fields (inventory_review_status p) = Inr ()"
    using assms(2) by (cases "inventory_review_status p") (simp_all add: reject_embedded_body_fields.simps)
  from assms(1) show ?thesis
    by (cases rule: inventory_cases)
      (use keys docs ids cover status in \<open>simp add: pdict_def reject_embedded_body_fields.simps checks_eval\<close>)
qed

lemma jsonable_inventory:
  assumes "inventory p = Inr d" and "is_str (inventory_review_status p)"
  shows "jsonable (PDict d)"
proof -
  have entry: "jsonable (document_entry e)" for e by (simp add: document_entry_def jsonable_pdict)
  have cover: "jsonable (of_coverage f c)" for f c by (simp add: of_coverage_def split: option.split)
  have status: "jsonable (inventory_review_status p)"
    using assms(2) by (cases "inventory_review_status p") simp_all
  have items: "PDict (dict_items (pdict kvs)) = pdict kvs" for kvs by (simp add: pdict_def)
  from assms(1) show ?thesis
    by (cases rule: inventory_cases) (simp add: items jsonable_pdict jsonable_PList entry cover status)
qed

lemma content_hash_shape: "content_hash p = Inr h \<Longrightarrow> is_sha256_lower h"
  by (auto simp: content_hash_def stable_hash_def res_iff)

lemma request_cases:
  assumes "install_request now p = Inr q"
  obtains h d where "content_hash p = Inr h" and "inventory p = Inr d"
    and "kp_bindings p \<noteq> [] \<longrightarrow> pack_review_ready p"
    and "q = \<lparr>pi_pack_id = kp_pack_id p, pi_schema_version = kp_schema_version p, pi_content_hash = h,
          pi_installed_at = now (kp_pack_id p), pi_inventory = d, pi_rules = kp_rules p,
          pi_bindings = kp_bindings p, pi_coverage = kp_coverage p\<rparr>"
  using assms by (auto simp: install_request_def res_iff)

lemma accepted_head:
  assumes "KnowledgePack_init p = Inr q"
  shows "is_namespaced (kp_pack_id p)" and "kp_schema_version p = ''2.0'' \<or> kp_schema_version p = ''1.0''"
  using assms
  by (auto simp: KnowledgePack_init_def res_iff PACK_SCHEMA_VERSION_def LEGACY_PACK_SCHEMA_VERSIONS_def)

lemma requested_content_check:
  assumes init: "KnowledgePack_init p = Inr p" and q: "install_request now p = Inr q"
  shows "install_content_check q (kp_rules p) (kp_bindings p) (kp_coverage p) = Inr ()"
  using q
proof (cases rule: request_cases)
  case (1 h d)
  note get = inventory_get [OF 1(2)]
  note dist = accepted_distinct [OF init]
  have bound: "\<not> list_ex (\<lambda>b. kb_knowledge_rule_id b \<notin> set (map KnowledgeRule_id (kp_rules p))) (kp_bindings p)"
  proof -
    have "kb_knowledge_rule_id b \<in> KnowledgeRule_id ` set (kp_rules p)" if "b \<in> set (kp_bindings p)" for b
      using accepted_binding [OF init that] by_id(1) by (metis image_eqI)
    then show ?thesis by (auto simp: list_ex_iff)
  qed
  have cover: "(case kp_coverage p of
      Some m \<Rightarrow> store_coverage_check d (kp_rules p) (kp_bindings p) m
    | None \<Rightarrow> reject_store (kp_schema_version p \<noteq> ''1.0'' \<and> (kp_rules p \<noteq> [] \<or> kp_bindings p \<noteq> []))
        ''knowledge rules or bindings require coverage'') = Inr ()"
  proof (cases "kp_coverage p")
    case None
    with accepted_checks(5,6) [OF init] show ?thesis by (auto simp: res_iff)
  next
    case (Some m)
    from pack_coverage_store [OF accepted_checks(4) [OF init Some], of d] get Some
    show ?thesis by (simp add: of_coverage_def)
  qed
  have same_pack: "\<not> opt_any (\<lambda>m. cm_pack_id m \<noteq> kp_pack_id p) (kp_coverage p)"
    using accepted_checks(4) [OF init] by (auto simp: pack_coverage_iff)
  have ready: "\<not> (kp_bindings p \<noteq> [] \<and> \<not> installable (kp_coverage p) d)"
    using 1(3) get by (auto simp: installable_def pack_review_ready_def inventory_review_status_def split: option.splits)
  have "ids_differ d ''rule_ids'' (map KnowledgeRule_id (kp_rules p)) msg = Inr ()" for msg
    by (rule ids_agree) (use get in \<open>simp_all add: pack_rule_ids_def\<close>)
  moreover have "ids_differ d ''binding_ids'' (map kb_id (kp_bindings p)) msg = Inr ()" for msg
    by (rule ids_agree) (use get in \<open>simp_all add: pack_binding_ids_def\<close>)
  moreover have "\<not> (has_duplicates (map KnowledgeRule_id (kp_rules p)) \<or> has_duplicates (map kb_id (kp_bindings p)))"
    using dist by (simp add: pack_rule_ids_def pack_binding_ids_def)
  moreover have "bindR (knowledge_activation_hash (kp_rules p) (kp_bindings p) (kp_coverage p)) (\<lambda>h.
           reject_store (dget d ''activation_hash'' \<noteq> PStr h) msg) = Inr ()" for msg
    using get(11,12) by (simp add: res_iff)
  ultimately show ?thesis
    using cover same_pack ready bound get(1)
    unfolding install_content_check_def Let_def checks_Cons_iff checks_Nil_iff reject_store_Inr_iff 1(4) pack_install.select_convs
    by simp
qed

lemma requested_content:
  assumes loaded: "KnowledgePack_from_dict raw p0 = Inr p" and q: "install_request now p = Inr q"
    and "is_str (inventory_review_status p)"
  shows "\<exists>payload. checked_content q = Inr (kp_rules p, kp_bindings p, kp_coverage p, payload)"
  using q
proof (cases rule: request_cases)
  case (1 h d)
  note parts = loaded_parts [OF loaded]
  obtain payload where payload: "canonical_json (PDict d) = Inr payload"
    using jsonable_inventory [OF 1(2) assms(3)] by (auto simp: jsonable_def is_ok_iff)
  have "strip (kp_pack_id p) \<noteq> []" using accepted_head(1) [OF parts(1)] by (rule namespaced_not_blank)
  moreover have "strip (kp_schema_version p) \<noteq> []"
  proof -
    have "strip ''2.0'' \<noteq> []" "strip ''1.0'' \<noteq> []" by code_simp+
    with accepted_head(2) [OF parts(1)] show ?thesis by metis
  qed
  ultimately have "install_arguments_check q = Inr ()"
    using content_hash_shape [OF 1(1)] body_free_inventory [OF 1(2) assms(3)] 1(4)
    by (simp add: install_arguments_check_def res_iff)
  moreover have "mapR revalidated_rule (kp_rules p) = Inr (kp_rules p)" "mapR revalidated_binding (kp_bindings p) = Inr (kp_bindings p)"
    using parts by (simp_all add: mapR_fixed_iff)
  ultimately show ?thesis
    using requested_content_check [OF parts(1) q] parts(4) payload 1(4) by (simp add: checked_content_def)
qed

section \<open>Entering a ledger\<close>

lemma jsonableE: "jsonable v \<Longrightarrow> (\<And>t. canonical_json v = Inr t \<Longrightarrow> P) \<Longrightarrow> P"
  by (auto simp: jsonable_def is_ok_iff)

lemma immutable_new: "k \<notin> keys t \<Longrightarrow> immutable_payload t f k p = Inr False"
  by (simp add: immutable_payload_cases not_key_iff)

lemma install_rule_new:
  assumes "jsonable (KnowledgeRule_val r)" and "KnowledgeRule_id r \<notin> keys (kl_rules s)"
  shows "\<exists>t. install_rule s r = Inr t \<and> keys (kl_rules t) = insert (KnowledgeRule_id r) (keys (kl_rules s))
     \<and> kl_bindings t = kl_bindings s \<and> kl_coverage t = kl_coverage s"
  using assms(1)
  by (rule jsonableE) (simp add: install_rule_def immutable_new [OF assms(2)] insert_rule_def)

lemma install_rules_new:
  "\<forall>r \<in> set rs. jsonable (KnowledgeRule_val r) \<Longrightarrow> distinct (map KnowledgeRule_id rs) \<Longrightarrow>
   KnowledgeRule_id ` set rs \<inter> keys (kl_rules s) = {} \<Longrightarrow>
   \<exists>t. foldR install_rule s rs = Inr t \<and> kl_bindings t = kl_bindings s \<and> kl_coverage t = kl_coverage s"
proof (induction rs arbitrary: s)
  case (Cons r rs)
  then obtain t where t: "install_rule s r = Inr t" "keys (kl_rules t) = insert (KnowledgeRule_id r) (keys (kl_rules s))"
    "kl_bindings t = kl_bindings s" "kl_coverage t = kl_coverage s"
    using install_rule_new [of r s] by auto
  have "KnowledgeRule_id ` set rs \<inter> keys (kl_rules t) = {}" using Cons.prems(2,3) t(2) by auto
  with Cons.IH [of t] Cons.prems(1,2) t show ?case by auto
qed simp

lemma install_bindings_new:
  "\<forall>b \<in> set bs. jsonable (KnowledgeBinding_val b) \<Longrightarrow> distinct (map kb_id bs) \<Longrightarrow>
   kb_id ` set bs \<inter> keys (kl_bindings s) = {} \<Longrightarrow>
   \<exists>t. foldR install_binding s bs = Inr t \<and> kl_coverage t = kl_coverage s
      \<and> keys (kl_bindings t) = kb_id ` set bs \<union> keys (kl_bindings s)"
proof (induction bs arbitrary: s)
  case (Cons b bs)
  then have new: "kb_id b \<notin> keys (kl_bindings s)" by auto
  from Cons.prems(1) have "jsonable (KnowledgeBinding_val b)" by simp
  then obtain t where t: "install_binding s b = Inr t" "keys (kl_bindings t) = insert (kb_id b) (keys (kl_bindings s))"
    "kl_coverage t = kl_coverage s"
    by (rule jsonableE) (simp add: install_binding_def immutable_new [OF new])
  have "kb_id ` set bs \<inter> keys (kl_bindings t) = {}" using Cons.prems(2,3) t(2) by auto
  with Cons.IH [of t] Cons.prems(1,2) t show ?case by auto
qed simp

lemma install_coverage_new:
  assumes "jsonable (coverage_val c)" and "\<not> opt_any (\<lambda>m. cm_id m \<in> keys (kl_coverage s)) c"
  shows "\<exists>t. install_coverage i c s = Inr t \<and> kl_bindings t = kl_bindings s"
proof (cases c)
  case (Some m)
  with assms(1) have "jsonable (CoverageManifest_val m)" by (simp add: coverage_val_def)
  moreover have "cm_id m \<notin> keys (kl_coverage s)" using assms(2) Some by simp
  ultimately show ?thesis using Some
    by (elim jsonableE) (simp add: install_coverage_def immutable_new)
qed (simp add: install_coverage_def)

lemma jsonable_pack:
  assumes "content_hash p = Inr h"
  shows "r \<in> set (kp_rules p) \<Longrightarrow> jsonable (KnowledgeRule_val r)"
    and "b \<in> set (kp_bindings p) \<Longrightarrow> jsonable (KnowledgeBinding_val b)" and "jsonable (coverage_val (kp_coverage p))"
proof -
  from assms have "jsonable (KnowledgePack_val p)"
    by (auto simp: content_hash_def stable_hash_def jsonable_def is_ok_iff mapr_Inr_iff)
  then show "r \<in> set (kp_rules p) \<Longrightarrow> jsonable (KnowledgeRule_val r)"
    "b \<in> set (kp_bindings p) \<Longrightarrow> jsonable (KnowledgeBinding_val b)" "jsonable (coverage_val (kp_coverage p))"
    by (simp_all add: KnowledgePack_val_def jsonable_PObj jsonable_PList)
qed

text \<open>The ledger holds nothing under the identifiers of the pack.\<close>

definition untouched_by :: "KnowledgePack \<Rightarrow> KnowledgeLedger \<Rightarrow> bool" where
  "untouched_by p s \<longleftrightarrow>
     kp_pack_id p \<notin> keys (kl_packs s)
     \<and> list_all (\<lambda>i. i \<notin> keys (kl_rules s)) (pack_rule_ids p)
     \<and> list_all (\<lambda>i. i \<notin> keys (kl_bindings s)) (pack_binding_ids p)
     \<and> \<not> opt_any (\<lambda>m. cm_id m \<in> keys (kl_coverage s)) (kp_coverage p)"

lemma request_installs:
  assumes loaded: "KnowledgePack_from_dict raw p0 = Inr p" and q: "install_request now p = Inr q"
    and "is_str (inventory_review_status p)" and new: "untouched_by p s"
  shows "\<exists>t. install_knowledge_pack q s = Inr (True, t) \<and> pack_held q t
     \<and> set (pack_binding_ids p) \<subseteq> keys (kl_bindings t)"
  using q
proof (cases rule: request_cases)
  case (1 h d)
  obtain payload where c: "checked_content q = Inr (kp_rules p, kp_bindings p, kp_coverage p, payload)"
    using requested_content [OF loaded q assms(3)] ..
  note json = jsonable_pack [OF 1(1)]
  note dist = accepted_distinct [OF loaded_parts(1) [OF loaded], unfolded pack_rule_ids_def pack_binding_ids_def]
  obtain s1 where s1: "foldR install_rule s (kp_rules p) = Inr s1" "kl_bindings s1 = kl_bindings s" "kl_coverage s1 = kl_coverage s"
    using install_rules_new [of "kp_rules p" s] json(1) dist(1) new
    by (auto simp: untouched_by_def list_all_iff pack_rule_ids_def)
  let ?u = "s1\<lparr>kl_packs := (pi_pack_id q,
      \<lparr>pr_schema_version = pi_schema_version q, pr_content_hash = pi_content_hash q,
       pr_installed_at = pi_installed_at q, pr_payload = payload\<rparr>) # kl_packs s1\<rparr>"
  obtain s2 where s2: "foldR install_binding ?u (kp_bindings p) = Inr s2" "kl_coverage s2 = kl_coverage s"
    "keys (kl_bindings s2) = kb_id ` set (kp_bindings p) \<union> keys (kl_bindings s)"
    using install_bindings_new [of "kp_bindings p" ?u] json(2) dist(2) new s1
    by (auto simp: untouched_by_def list_all_iff pack_binding_ids_def)
  obtain t where t: "install_coverage (pi_pack_id q) (kp_coverage p) s2 = Inr t" "kl_bindings t = kl_bindings s2"
    using install_coverage_new [OF json(3), of s2 "pi_pack_id q"] new s2(2) by (auto simp: untouched_by_def)
  have "map_of (kl_packs s) (pi_pack_id q) = None" using new 1(4) by (simp add: untouched_by_def not_key_iff)
  with c s1(1) s2(1) t(1) have "install_knowledge_pack q s = Inr (True, t)"
    by (simp add: install_knowledge_pack_def)
  moreover from install_packs(1) [OF this] have "pack_held q t" .
  moreover have "set (pack_binding_ids p) \<subseteq> keys (kl_bindings t)" using t(2) s2(3) by (simp add: pack_binding_ids_def)
  ultimately show ?thesis by blast
qed

section \<open>Properties\<close>


end
