(* ===== verification/Knowledge_Witness.thy ===== *)
theory Knowledge_Witness
  imports Knowledge_Install
begin

text \<open>
  A pack over the AXI contract surface, loaded with its computed identifiers, requested by the
  catalog and installed: the properties of the knowledge ledger at concrete inputs.
\<close>

section \<open>Loading\<close>

lemma stable_id_exists: "jsonable v \<Longrightarrow> \<exists>i. stable_id p v = Inr i"
  by (auto simp: jsonable_def is_ok_iff stable_id_def stable_id_n_def stable_hash_def)

definition loaded_binding :: "string \<Rightarrow> KnowledgeBinding" where
  "loaded_binding i = witness_binding\<lparr>kb_id := i\<rparr>"

definition loaded_entry :: "string \<Rightarrow> CoverageEntry" where
  "loaded_entry i =
     \<lparr>ce_document_id = ''amd.ug1399'', ce_document_version = ''2024.2'', ce_section = ''INTERFACE'', ce_status = ''rule'',
      ce_rule_ids = [''amd.ug1399:2024.2:axi.mode''], ce_binding_ids = [i], ce_rationale = None, ce_id = []\<rparr>"

definition loaded_target :: "string \<Rightarrow> string \<Rightarrow> KnowledgeTargetCoverage" where
  "loaded_target kind target = (witness_target kind target)\<lparr>kt_id := []\<rparr>"

definition loaded_bound_target :: "string \<Rightarrow> KnowledgeTargetCoverage" where
  "loaded_bound_target i =
     (loaded_target ''directive_kind'' ''INTERFACE'')\<lparr>kt_status := ''bound'', kt_binding_ids := [i]\<rparr>"

definition loaded_coverage :: "string \<Rightarrow> CoverageManifest" where
  "loaded_coverage i = witness_pack_coverage\<lparr>cm_entries := [loaded_entry i],
     cm_target_inventory := [loaded_bound_target i, loaded_target ''entity_kind'' ''hls.port'',
       loaded_target ''entity_kind'' ''hls.stream'', loaded_target ''relation_kind'' ''hls.streams_to''],
     cm_id := []\<rparr>"

definition unloaded_pack :: "string \<Rightarrow> KnowledgePack" where
  "unloaded_pack i = witness_pack\<lparr>kp_bindings := [witness_binding], kp_coverage := Some (loaded_coverage i)\<rparr>"

lemma entry_built:
  assumes "is_namespaced i"
  shows "\<exists>j. CoverageEntry_init (loaded_entry i) = Inr ((loaded_entry i)\<lparr>ce_id := j\<rparr>)"
proof -
  have "jsonable (CoverageEntry_identity (loaded_entry i))"
    by (simp add: CoverageEntry_identity_def loaded_entry_def jsonable_pdict opt_str_def)
  then obtain j where j: "stable_id ''coverage_entry'' (CoverageEntry_identity (loaded_entry i)) = Inr j"
    using stable_id_exists by blast
  have same: "(loaded_entry i)\<lparr>ce_rule_ids := sort (ce_rule_ids (loaded_entry i)),
      ce_binding_ids := sort (ce_binding_ids (loaded_entry i))\<rparr> = loaded_entry i"
    by (simp add: loaded_entry_def)
  have "is_namespaced ''amd.ug1399'' \<and> strip ''2024.2'' \<noteq> [] \<and> strip ''INTERFACE'' \<noteq> []
      \<and> \<not> has_nul ''INTERFACE'' \<and> is_namespaced ''amd.ug1399:2024.2:axi.mode''"
    by code_simp
  with j assms have "CoverageEntry_init (loaded_entry i)
      = Inr (loaded_entry i\<lparr>ce_rule_ids := sort (ce_rule_ids (loaded_entry i)),
          ce_binding_ids := sort (ce_binding_ids (loaded_entry i)), ce_id := j\<rparr>)"
    unfolding CoverageEntry_init_iff same
    by (simp add: loaded_entry_def CoverageStatus_def coverage_ids_check_def bounded_rationale_def res_iff)
  then show ?thesis unfolding same by blast
qed

lemma target_built:
  assumes "kind \<in> set BUILTIN_KNOWLEDGE_TARGET_KINDS" and "is_namespaced target"
  shows "\<exists>j. KnowledgeTargetCoverage_init (loaded_target kind target) = Inr ((loaded_target kind target)\<lparr>kt_id := j\<rparr>)"
proof -
  have "jsonable (KnowledgeTargetCoverage_identity (loaded_target kind target))"
    by (simp add: KnowledgeTargetCoverage_identity_def loaded_target_def witness_target_def jsonable_pdict opt_str_def)
  then obtain j where j: "stable_id ''knowledge_target_coverage''
      (KnowledgeTargetCoverage_identity (loaded_target kind target)) = Inr j"
    using stable_id_exists by blast
  have "strip ''structure only'' \<noteq> []" "\<not> has_nul ''structure only''" by code_simp+
  with j assms have "KnowledgeTargetCoverage_init (loaded_target kind target) = Inr ((loaded_target kind target)\<lparr>kt_id := j\<rparr>)"
    by (simp add: KnowledgeTargetCoverage_init_def res_iff target_kind_check_def loaded_target_def witness_target_def
        TargetCoverageStatus_def bounded_rationale_def)
  then show ?thesis ..
qed

lemma bound_target_built:
  assumes "is_namespaced i"
  shows "\<exists>j. KnowledgeTargetCoverage_init (loaded_bound_target i) = Inr ((loaded_bound_target i)\<lparr>kt_id := j\<rparr>)"
proof -
  have "jsonable (KnowledgeTargetCoverage_identity (loaded_bound_target i))"
    by (simp add: KnowledgeTargetCoverage_identity_def loaded_bound_target_def loaded_target_def witness_target_def
        jsonable_pdict opt_str_def)
  then obtain j where j: "stable_id ''knowledge_target_coverage''
      (KnowledgeTargetCoverage_identity (loaded_bound_target i)) = Inr j"
    using stable_id_exists by blast
  have "strip ''structure only'' \<noteq> [] \<and> \<not> has_nul ''structure only'' \<and> is_namespaced ''INTERFACE''
      \<and> ''directive_kind'' \<in> set BUILTIN_KNOWLEDGE_TARGET_KINDS" by code_simp
  with j assms have "KnowledgeTargetCoverage_init (loaded_bound_target i) = Inr ((loaded_bound_target i)\<lparr>kt_id := j\<rparr>)"
    by (simp add: KnowledgeTargetCoverage_init_def res_iff target_kind_check_def loaded_bound_target_def loaded_target_def
        witness_target_def TargetCoverageStatus_def bounded_rationale_def)
  then show ?thesis ..
qed

lemma targets_built:
  assumes "is_namespaced i"
  obtains ts where "mapR KnowledgeTargetCoverage_init (cm_target_inventory (loaded_coverage i)) = Inr ts"
    and "map target_key ts = [(''directive_kind'', ''INTERFACE''), (''entity_kind'', ''hls.port''),
      (''entity_kind'', ''hls.stream''), (''relation_kind'', ''hls.streams_to'')]"
    and "map kt_binding_ids ts = [[i], [], [], []]"
proof -
  obtain a where a: "KnowledgeTargetCoverage_init (loaded_bound_target i) = Inr ((loaded_bound_target i)\<lparr>kt_id := a\<rparr>)"
    using bound_target_built [OF assms] ..
  have names: "''entity_kind'' \<in> set BUILTIN_KNOWLEDGE_TARGET_KINDS" "''relation_kind'' \<in> set BUILTIN_KNOWLEDGE_TARGET_KINDS"
    "is_namespaced ''hls.port''" "is_namespaced ''hls.stream''" "is_namespaced ''hls.streams_to''"
    by code_simp+
  obtain b where b: "KnowledgeTargetCoverage_init (loaded_target ''entity_kind'' ''hls.port'')
      = Inr ((loaded_target ''entity_kind'' ''hls.port'')\<lparr>kt_id := b\<rparr>)" using target_built [OF names(1,3)] ..
  obtain c where c: "KnowledgeTargetCoverage_init (loaded_target ''entity_kind'' ''hls.stream'')
      = Inr ((loaded_target ''entity_kind'' ''hls.stream'')\<lparr>kt_id := c\<rparr>)" using target_built [OF names(1,4)] ..
  obtain d where d: "KnowledgeTargetCoverage_init (loaded_target ''relation_kind'' ''hls.streams_to'')
      = Inr ((loaded_target ''relation_kind'' ''hls.streams_to'')\<lparr>kt_id := d\<rparr>)" using target_built [OF names(2,5)] ..
  let ?ts = "[(loaded_bound_target i)\<lparr>kt_id := a\<rparr>, (loaded_target ''entity_kind'' ''hls.port'')\<lparr>kt_id := b\<rparr>,
      (loaded_target ''entity_kind'' ''hls.stream'')\<lparr>kt_id := c\<rparr>,
      (loaded_target ''relation_kind'' ''hls.streams_to'')\<lparr>kt_id := d\<rparr>]"
  have "mapR KnowledgeTargetCoverage_init (cm_target_inventory (loaded_coverage i)) = Inr ?ts"
    by (simp add: loaded_coverage_def a b c d)
  then show ?thesis
    by (rule that) (simp_all add: target_key_def loaded_bound_target_def loaded_target_def witness_target_def)
qed

lemma jsonable_opt_str [simp]: "jsonable (opt_str s)"
  by (simp add: opt_str_def split: option.split)

lemma jsonable_coverage_identity:
  assumes "cm_source_hashes m = []" and "cm_review_evidence m = []"
  shows "jsonable (CoverageManifest_identity m)"
proof -
  have "jsonable (CoverageEntry_val e)" for e by (simp add: CoverageEntry_val_def jsonable_PObj)
  moreover have "jsonable (KnowledgeTargetCoverage_val t)" for t by (simp add: KnowledgeTargetCoverage_val_def jsonable_PObj)
  moreover have "jsonable (PDict [])" using jsonable_pdict [of "[]"] by (simp add: pdict_def)
  ultimately show ?thesis
    using assms by (simp add: CoverageManifest_identity_def jsonable_pdict jsonable_PList)
qed

lemma coverage_built:
  assumes "is_namespaced i"
  obtains n j ts where "CoverageManifest_from_dict (loaded_coverage i) = Inr n"
    and "cm_entries n = [(loaded_entry i)\<lparr>ce_id := j\<rparr>]" and "set (cm_target_inventory n) = set ts"
    and "map target_key ts = [(''directive_kind'', ''INTERFACE''), (''entity_kind'', ''hls.port''),
      (''entity_kind'', ''hls.stream''), (''relation_kind'', ''hls.streams_to'')]"
    and "map kt_binding_ids ts = [[i], [], [], []]"
    and "cm_pack_id n = ''p1''" and "cm_coverage_scope n = ''hlsgraph.supported_axi_contract_surface''"
    and "cm_target_registry_version n = SUPPORTED_TARGET_REGISTRY_VERSION" and "cm_review_status n = ''human_reviewed''"
    and "cm_source_hashes n = []" and "cm_review_evidence n = []" and "cm_metadata n = []"
proof -
  obtain j where e: "CoverageEntry_init (loaded_entry i) = Inr ((loaded_entry i)\<lparr>ce_id := j\<rparr>)" using entry_built [OF assms] ..
  obtain ts where ts: "mapR KnowledgeTargetCoverage_init (cm_target_inventory (loaded_coverage i)) = Inr ts"
    "map target_key ts = [(''directive_kind'', ''INTERFACE''), (''entity_kind'', ''hls.port''),
      (''entity_kind'', ''hls.stream''), (''relation_kind'', ''hls.streams_to'')]"
    "map kt_binding_ids ts = [[i], [], [], []]"
    by (rule targets_built [OF assms])
  let ?m = "(loaded_coverage i)\<lparr>cm_entries := [(loaded_entry i)\<lparr>ce_id := j\<rparr>], cm_target_inventory := ts\<rparr>"
  let ?m' = "?m\<lparr>cm_entries := sort_key entry_order (cm_entries ?m),
      cm_target_inventory := sort_key target_order (cm_target_inventory ?m), cm_reviewers := sort (cm_reviewers ?m)\<rparr>"
  have "jsonable (CoverageManifest_identity ?m')"
    by (rule jsonable_coverage_identity) (simp_all add: loaded_coverage_def witness_pack_coverage_def)
  then obtain k where k: "stable_id ''coverage'' (CoverageManifest_identity ?m') = Inr k" using stable_id_exists by blast
  have closed: "is_namespaced ''p1'' \<and> is_namespaced ''hlsgraph.supported_axi_contract_surface''
      \<and> is_namespaced SUPPORTED_TARGET_REGISTRY_VERSION \<and> strip ''r1'' \<noteq> [] \<and> \<not> has_nul ''r1''"
    by code_simp
  have dist: "distinct (map target_key ts)" by (simp add: ts(2))
  have "CoverageManifest_init ?m = Inr (?m'\<lparr>cm_id := k\<rparr>)"
    unfolding CoverageManifest_init_iff Let_def
    using k closed dist
    by (simp add: loaded_coverage_def witness_pack_coverage_def REVIEW_STATUSES_def machine_review_check_def
        reject_embedded_body_fields.simps)
  moreover have "mapR CoverageEntry_init (cm_entries (loaded_coverage i)) = Inr [(loaded_entry i)\<lparr>ce_id := j\<rparr>]"
    using e by (simp add: loaded_coverage_def)
  ultimately have "CoverageManifest_from_dict (loaded_coverage i) = Inr (?m'\<lparr>cm_id := k\<rparr>)"
    using ts(1) by (simp add: CoverageManifest_from_dict_def)
  then show ?thesis
    by (rule that [OF _ _ _ ts(2,3)]) (simp_all add: loaded_coverage_def witness_pack_coverage_def)
qed

definition loaded_pack :: "string \<Rightarrow> CoverageManifest \<Rightarrow> KnowledgePack" where
  "loaded_pack i n = witness_pack\<lparr>kp_bindings := [loaded_binding i], kp_coverage := Some n\<rparr>"

lemma loaded_pack_rule: "pack_rule_check (loaded_pack i n) 0 = Inr ()"
proof -
  have "pack_rule_check witness_pack 0 = Inr ()" by code_simp
  then show ?thesis
    by (simp add: pack_rule_check_def loaded_pack_def declared_documents_def pack_rule_ids_def)
qed

lemma loaded_pack_binding: "pack_binding_check (loaded_pack i n) 0 = Inr ()"
proof -
  have "binding_entails_rule_condition witness_rule witness_binding = Inr (True, [])" by code_simp
  moreover have "condition_error (loaded_binding i) = condition_error witness_binding"
  proof -
    let ?b = "loaded_binding i"
    have fields: "kb_target_kind ?b = kb_target_kind witness_binding" "kb_target ?b = kb_target witness_binding"
      "kb_required_context ?b = kb_required_context witness_binding"
      by (simp_all add: loaded_binding_def)
    show ?thesis
      unfolding condition_error_def fun_eq_iff direct_condition_source_def direct_condition_source_closed_def
        target_derived_condition_source_def target_condition_source_closed_def target_derived_condition_stage_def fields
      by simp
  qed
  ultimately have "binding_entails_rule_condition witness_rule (loaded_binding i) = Inr (True, [])"
    by (simp add: binding_entails_rule_condition_def)
  moreover have "rule_by_id (loaded_pack i n) (kb_knowledge_rule_id (loaded_binding i)) = Some witness_rule"
    by (simp add: rule_by_id_def loaded_pack_def witness_pack_def loaded_binding_def witness_binding_def
        witness_rule_def KnowledgeRule_id_def)
  ultimately show ?thesis
    by (simp add: pack_binding_check_def loaded_pack_def res_iff)
qed

lemma loaded_pack_coverage:
  assumes n: "cm_entries n = [(loaded_entry i)\<lparr>ce_id := j\<rparr>]" "set (cm_target_inventory n) = set ts"
    "map target_key ts = [(''directive_kind'', ''INTERFACE''), (''entity_kind'', ''hls.port''),
      (''entity_kind'', ''hls.stream''), (''relation_kind'', ''hls.streams_to'')]"
    "map kt_binding_ids ts = [[i], [], [], []]"
    "cm_pack_id n = ''p1''" "cm_coverage_scope n = ''hlsgraph.supported_axi_contract_surface''"
    "cm_target_registry_version n = SUPPORTED_TARGET_REGISTRY_VERSION" "cm_review_status n = ''human_reviewed''"
  shows "pack_coverage_check (loaded_pack i n) n = Inr ()"
proof -
  let ?p = "loaded_pack i n"
  have ids: "pack_rule_ids ?p = [''amd.ug1399:2024.2:axi.mode'']" "pack_binding_ids ?p = [i]"
    by (simp_all add: pack_rule_ids_def pack_binding_ids_def loaded_pack_def witness_pack_def witness_rule_def
        KnowledgeRule_id_def loaded_binding_def)
  have self: "binding_by_id ?p i = Some (loaded_binding i)"
    by (simp add: binding_by_id_def loaded_pack_def loaded_binding_def)
  have rules: "rule_entries n = [(loaded_entry i)\<lparr>ce_id := j\<rparr>]" by (simp add: rule_entries_def n(1) loaded_entry_def)
  have targets: "target_binding_check ?p t = Inr ()" if "t \<in> set (cm_target_inventory n)" for t
  proof -
    from n(3,4) that n(2) have "target_key t = (''directive_kind'', ''INTERFACE'') \<and> kt_binding_ids t = [i] \<or> kt_binding_ids t = []"
      by (auto simp: map_eq_Cons_conv)
    then show ?thesis
      by (auto simp: target_binding_check_def self res_iff loaded_binding_def witness_binding_def)
  qed
  have covered: "set (covered_binding_ids n) = {i}"
  proof -
    have "set (covered_binding_ids n) = \<Union> (set (map set (map kt_binding_ids ts)))"
      using n(2) by (simp add: covered_binding_ids_def)
    then show ?thesis by (simp add: n(4))
  qed
  have "target_registry_check n = Inr ()"
  proof -
    have "canonical_supported_targets ''hlsgraph.supported_axi_contract_surface'' SUPPORTED_TARGET_REGISTRY_VERSION
        = Inr [(''directive_kind'', ''INTERFACE''), (''entity_kind'', ''hls.port''),
      (''entity_kind'', ''hls.stream''), (''relation_kind'', ''hls.streams_to'')]" by code_simp
    moreover have "target_key ` set (cm_target_inventory n) = set (map target_key ts)" using n(2) by simp
    ultimately show ?thesis
      by (simp add: target_registry_check_def as_pack_error_def n(3,6,7) res_iff)
  qed
  moreover have "coverage_entry_check ?p e = Inr ()" if "e \<in> set (cm_entries n)" for e
    using that n(1) ids
    by (simp add: coverage_entry_check_def loaded_entry_def res_iff declared_documents_def loaded_pack_def witness_pack_def
        document_key_def)
  moreover have "binding_placement_check ?p e = Inr ()" if "e \<in> set (rule_entries n)" for e
    using that rules
    by (simp add: binding_placement_check_def loaded_entry_def self loaded_binding_def witness_binding_def res_iff)
  moreover have "covered_once (pack_rule_ids ?p) (rule_coverage n) \<and> covered_once (pack_binding_ids ?p) (binding_coverage n)"
    by (simp add: covered_once_def rule_coverage_def binding_coverage_def rules ids loaded_entry_def)
  moreover have "cm_pack_id n = kp_pack_id ?p" "dget (kp_metadata ?p) ''review_status'' = PStr (cm_review_status n)"
    by (simp_all add: n loaded_pack_def witness_pack_def dget_pdict)
  ultimately show ?thesis
    using targets covered ids by (simp add: pack_coverage_iff)
qed

lemma witness_loaded:
  obtains i n where "KnowledgePack_from_dict (PDict []) (unloaded_pack i) = Inr (loaded_pack i n)"
    and "cm_review_status n = ''human_reviewed''" and "review_ready n"
    and "cm_source_hashes n = []" "cm_review_evidence n = []" "cm_metadata n = []"
proof -
  obtain i where b: "KnowledgeBinding_init witness_binding = Inr (witness_binding\<lparr>kb_id := i\<rparr>)"
    using witness_binding_built ..
  then have "stable_id ''knowledge_binding'' (KnowledgeBinding_identity witness_binding) = Inr i"
    by (auto simp: KnowledgeBinding_init_def res_iff witness_binding_def)
  moreover have "is_namespaced ''knowledge_binding''" by code_simp
  ultimately have "is_namespaced i" using stable_id_namespaced by (auto simp: stable_id_def)
  from coverage_built [OF this] obtain n j ts where n: "CoverageManifest_from_dict (loaded_coverage i) = Inr n"
    "cm_entries n = [(loaded_entry i)\<lparr>ce_id := j\<rparr>]" "set (cm_target_inventory n) = set ts"
    "map target_key ts = [(''directive_kind'', ''INTERFACE''), (''entity_kind'', ''hls.port''),
      (''entity_kind'', ''hls.stream''), (''relation_kind'', ''hls.streams_to'')]"
    "map kt_binding_ids ts = [[i], [], [], []]"
    "cm_pack_id n = ''p1''" "cm_coverage_scope n = ''hlsgraph.supported_axi_contract_surface''"
    "cm_target_registry_version n = SUPPORTED_TARGET_REGISTRY_VERSION" "cm_review_status n = ''human_reviewed''"
    and rest: "cm_source_hashes n = []" "cm_review_evidence n = []" "cm_metadata n = []"
    by metis
  have "is_namespaced ''p1'' \<and> strip ''AXI'' \<noteq> [] \<and> strip ''MIT'' \<noteq> []" by code_simp
  then have "KnowledgePack_init (loaded_pack i n) = Inr (loaded_pack i n)"
    using loaded_pack_rule loaded_pack_binding loaded_pack_coverage [OF n(2-9)]
    unfolding KnowledgePack_init_def
    by (simp add: res_iff loaded_pack_def witness_pack_def declared_documents_def PACK_SCHEMA_VERSION_def
        LEGACY_PACK_SCHEMA_VERSIONS_def)
  moreover have "mapR DocumentReference_init (kp_documents witness_pack) = Inr (kp_documents witness_pack)" by code_simp
  moreover have "KnowledgeRule_init witness_rule = Inr witness_rule" by code_simp
  ultimately have "KnowledgePack_from_dict (PDict []) (unloaded_pack i) = Inr (loaded_pack i n)"
    using b n(1)
    by (simp add: KnowledgePack_from_dict_def unloaded_pack_def loaded_pack_def witness_pack_def optR_def loaded_binding_def
        forR.simps)
  moreover have "review_ready n" by (simp add: review_ready_def coverage_complete_def n loaded_entry_def)
  ultimately show ?thesis using that n(9) rest by blast
qed

lemma witness_content:
  assumes "cm_source_hashes n = []" and "cm_review_evidence n = []" and "cm_metadata n = []"
  shows "jsonable (KnowledgePack_val (loaded_pack i n))"
    and "jsonable (activation_surface (kp_rules (loaded_pack i n)) (kp_bindings (loaded_pack i n)) (kp_coverage (loaded_pack i n)))"
proof -
  have empty: "jsonable (PDict [])" using jsonable_pdict [of "[]"] by (simp add: pdict_def)
  have rule: "jsonable (KnowledgeRule_val witness_rule)" by code_simp
  have "jsonable (kb_required_context witness_binding)" by code_simp
  then have binding: "jsonable (KnowledgeBinding_val (loaded_binding i))"
    using empty by (simp add: KnowledgeBinding_val_def loaded_binding_def jsonable_PObj witness_binding_def)
  have "jsonable (CoverageEntry_val e)" for e by (simp add: CoverageEntry_val_def jsonable_PObj)
  moreover have "jsonable (KnowledgeTargetCoverage_val t)" for t by (simp add: KnowledgeTargetCoverage_val_def jsonable_PObj)
  ultimately have coverage: "jsonable (CoverageManifest_val n)"
    using assms empty by (simp add: CoverageManifest_val_def jsonable_PObj jsonable_PList jsonable_pdict)
  have meta: "jsonable (PDict (kp_metadata witness_pack))" by code_simp
  have "jsonable (DocumentReference_val d)" for d by (simp add: DocumentReference_val_def jsonable_PObj)
  with rule binding coverage meta show "jsonable (KnowledgePack_val (loaded_pack i n))"
    by (simp add: KnowledgePack_val_def jsonable_PObj jsonable_PList loaded_pack_def witness_pack_def coverage_val_def)
  from rule binding coverage
  show "jsonable (activation_surface (kp_rules (loaded_pack i n)) (kp_bindings (loaded_pack i n)) (kp_coverage (loaded_pack i n)))"
    by (simp add: activation_surface_def jsonable_pdict jsonable_PList loaded_pack_def witness_pack_def coverage_val_def)
qed

lemma jsonable_hash: "jsonable v \<Longrightarrow> \<exists>h. stable_hash v = Inr h"
  by (auto simp: jsonable_def is_ok_iff stable_hash_def)

lemma witness_requested:
  obtains i n q where "KnowledgePack_from_dict (PDict []) (unloaded_pack i) = Inr (loaded_pack i n)"
    and "install_request (\<lambda>_. ''2024-01-01'') (loaded_pack i n) = Inr q" and "pi_bindings q = [loaded_binding i]"
    and "is_str (inventory_review_status (loaded_pack i n))"
proof -
  obtain i n where load: "KnowledgePack_from_dict (PDict []) (unloaded_pack i) = Inr (loaded_pack i n)"
    "cm_review_status n = ''human_reviewed''" "review_ready n"
    and plain: "cm_source_hashes n = []" "cm_review_evidence n = []" "cm_metadata n = []"
    by (rule witness_loaded)
  obtain h where h: "content_hash (loaded_pack i n) = Inr h"
    using jsonable_hash [OF witness_content(1) [OF plain]] by (auto simp: content_hash_def)
  obtain a where "knowledge_activation_hash (kp_rules (loaded_pack i n)) (kp_bindings (loaded_pack i n))
      (kp_coverage (loaded_pack i n)) = Inr a"
    using jsonable_hash [OF witness_content(2) [OF plain]] by (auto simp: knowledge_activation_hash_def)
  with h obtain d where d: "inventory (loaded_pack i n) = Inr d" by (simp add: inventory_def)
  have "pack_review_ready (loaded_pack i n)"
    using load(2,3) by (simp add: pack_review_ready_def loaded_pack_def witness_pack_def dget_pdict)
  with h d obtain q where "install_request (\<lambda>_. ''2024-01-01'') (loaded_pack i n) = Inr q" "pi_bindings q = [loaded_binding i]"
    by (auto simp: install_request_def res_iff loaded_pack_def)
  moreover have "is_str (inventory_review_status (loaded_pack i n))" by (simp add: inventory_review_status_def loaded_pack_def)
  ultimately show ?thesis using that load(1) by blast
qed

lemma untouched_empty: "untouched_by p (empty_ledger b)"
  by (simp add: untouched_by_def empty_ledger_def list_all_iff)

lemma witness_installed:
  obtains i n q t where "install_request (\<lambda>_. ''2024-01-01'') (loaded_pack i n) = Inr q" and "pi_bindings q = [loaded_binding i]"
    and "install_knowledge_pack q (empty_ledger True) = Inr (True, t)" and "kl_bindings t \<noteq> []"
proof -
  obtain i n q where load: "KnowledgePack_from_dict (PDict []) (unloaded_pack i) = Inr (loaded_pack i n)"
    and q: "install_request (\<lambda>_. ''2024-01-01'') (loaded_pack i n) = Inr q" "pi_bindings q = [loaded_binding i]"
    and str: "is_str (inventory_review_status (loaded_pack i n))"
    by (rule witness_requested)
  obtain t where t: "install_knowledge_pack q (empty_ledger True) = Inr (True, t)"
    "set (pack_binding_ids (loaded_pack i n)) \<subseteq> keys (kl_bindings t)"
    using request_installs [OF load q(1) str untouched_empty] by blast
  then have "kl_bindings t \<noteq> []" by (auto simp: pack_binding_ids_def loaded_pack_def)
  with that q t(1) show ?thesis by blast
qed

section \<open>Witnesses\<close>


theorem bindings_need_review_witness:
  "\<exists>q t m. install_knowledge_pack q (empty_ledger True) = Inr (True, t) \<and> pi_coverage q = Some m \<and> coverage_complete m"
proof -
  obtain i n q t where q: "pi_bindings q = [loaded_binding i]"
    and t: "install_knowledge_pack q (empty_ledger True) = Inr (True, t)"
    by (rule witness_installed)
  have "pi_bindings q \<noteq> []" by (simp add: q)
  from bindings_need_review [OF t this] t show ?thesis by blast
qed

theorem ledger_stays_consistent_witness:
  "\<exists>t. ledger_step\<^sup>*\<^sup>* (empty_ledger True) t \<and> kl_bindings t \<noteq> [] \<and> ledger_ok t"
proof -
  obtain i n q t where "install_knowledge_pack q (empty_ledger True) = Inr (True, t)" "kl_bindings t \<noteq> []"
    by (rule witness_installed)
  moreover from this have step: "ledger_step\<^sup>*\<^sup>* (empty_ledger True) t" by (blast intro: install_pack)
  ultimately show ?thesis using ledger_stays_consistent [OF step rtranclp.rtrancl_refl] by blast
qed

theorem sync_twice_witness:
  "\<exists>p t q. catalog_install install_knowledge_pack (\<lambda>_. ''2024-01-01'') [p] None (empty_ledger True) = (Inr [install_report q True], t)
     \<and> catalog_install install_knowledge_pack (\<lambda>_. ''2025-01-01'') [p] None t = (Inr [install_report q False], t)"
proof -
  obtain i n q t where q: "install_request (\<lambda>_. ''2024-01-01'') (loaded_pack i n) = Inr q"
    and t: "install_knowledge_pack q (empty_ledger True) = Inr (True, t)"
    by (rule witness_installed)
  then have first: "catalog_install install_knowledge_pack (\<lambda>_. ''2024-01-01'') [loaded_pack i n] None (empty_ledger True)
      = (Inr [install_report q True], t)"
    by (simp add: catalog_install_def requested_ids_def available_packs_def dict_of_pairs_def)
  from sync_twice [OF first, of "\<lambda>_. ''2025-01-01''"] obtain r b
    where "catalog_install install_knowledge_pack (\<lambda>_. ''2025-01-01'') [loaded_pack i n] None t = (Inr [install_report r False], t)"
      and "install_report q True = install_report r b"
    by (auto simp: list_all2_Cons1)
  moreover from this(2) have "install_report r False = install_report q False" by (simp add: install_report_def pdict_def)
  ultimately show ?thesis using first by metis
qed

end
