(* ===== verification/Model_Views.thy ===== *)
theory Model_Views
  imports Model_Dataset Evidence_Policy Graph
begin

text \<open>
  The views of the remaining data contracts of \<open>hlsgraph/model.py\<close>: what \<open>json_ready\<close> sees
  of an instance, its dataclass fields in declaration order.  The payload column of a ledger
  row is the canonical text of the view.
\<close>

definition str_dict :: "(string \<times> string) list \<Rightarrow> pyval" where
  "str_dict d = pdict (map (\<lambda>kv. (fst kv, PStr (snd kv))) d)"

definition ArtifactRef_val :: "ArtifactRef \<Rightarrow> pyval" where
  "ArtifactRef_val r = PObj
     [(''kind'', PStr (ar_kind r)), (''uri'', PStr (ar_uri r)), (''sha256'', PStr (ar_sha256 r)),
      (''size'', PInt (ar_size r)), (''id'', PStr (ar_id r)), (''media_type'', opt_str (ar_media_type r)),
      (''role'', opt_str (ar_role r)), (''license'', opt_str (ar_license r)),
      (''producer_run_id'', opt_str (ar_producer_run_id r)), (''retention'', PStr (ar_retention r)),
      (''access'', PStr (ar_access r)), (''metadata'', PDict (ar_metadata r))]"

definition ProjectManifest_val :: "ProjectManifest \<Rightarrow> pyval" where
  "ProjectManifest_val m = PObj
     [(''project_id'', PStr (pm_project_id m)), (''name'', PStr (pm_name m)),
      (''build'', BuildContext_val (pm_build m)), (''target'', TargetProfile_val (pm_target m)),
      (''constraints'', ConstraintSet_val (pm_constraints m)),
      (''toolchains'', PList (map ToolchainContext_val (pm_toolchains m))),
      (''artifact_paths'', PList (pm_artifact_paths m)),
      (''stage_commands'', pdict (map (\<lambda>sc. (fst sc, PList (snd sc))) (pm_stage_commands m))),
      (''stage_outputs'',
         pdict (map (\<lambda>so. (fst so, PList (map ToolOutputSpec_val (snd so)))) (pm_stage_outputs m))),
      (''stage_toolchains'', str_dict (pm_stage_toolchains m)),
      (''schema_version'', PStr (pm_schema_version m)), (''metadata'', PDict (pm_metadata m))]"

definition DesignSnapshot_val :: "DesignSnapshot \<Rightarrow> pyval" where
  "DesignSnapshot_val s = PObj
     [(''project_id'', PStr (ds_project_id s)), (''manifest_hash'', PStr (ds_manifest_hash s)),
      (''artifact_hashes'', str_dict (ds_artifact_hashes s)), (''build_hash'', PStr (ds_build_hash s)),
      (''target_hash'', PStr (ds_target_hash s)), (''constraint_hash'', PStr (ds_constraint_hash s)),
      (''toolchain_hash'', PStr (ds_toolchain_hash s)), (''extraction_hash'', PStr (ds_extraction_hash s)),
      (''id'', PStr (ds_id s)), (''parent_snapshot_id'', opt_str (ds_parent_snapshot_id s)),
      (''action_id'', opt_str (ds_action_id s)), (''created_at'', PStr (ds_created_at s)),
      (''metadata'', PDict (ds_metadata s))]"

definition VariantAction_val :: "VariantAction \<Rightarrow> pyval" where
  "VariantAction_val a = PObj
     [(''parent_snapshot_id'', PStr (va_parent_snapshot_id a)), (''kind'', PStr (va_kind a)),
      (''scope_id'', opt_str (va_scope_id a)), (''delta'', PDict (va_delta a)),
      (''proposer'', PStr (va_proposer a)), (''id'', PStr (va_id a)),
      (''rationale'', opt_str (va_rationale a)), (''created_at'', PStr (va_created_at a))]"

definition ActionMaterialization_val :: "ActionMaterialization \<Rightarrow> pyval" where
  "ActionMaterialization_val a = PObj
     [(''action_id'', PStr (am_action_id a)), (''parent_snapshot_id'', PStr (am_parent_snapshot_id a)),
      (''status'', PStr (am_status a)), (''id'', PStr (am_id a)),
      (''result_snapshot_id'', opt_str (am_result_snapshot_id a)),
      (''diagnostic_ids'', str_list (am_diagnostic_ids a)),
      (''evidence_refs'', PList (map EvidenceRef_val (am_evidence_refs a))),
      (''attempted_at'', am_attempted_at a), (''metadata'', PDict (am_metadata a))]"

definition EntityCorrespondence_val :: "EntityCorrespondence \<Rightarrow> pyval" where
  "EntityCorrespondence_val c = PObj
     [(''source_snapshot_id'', PStr (ec_source_snapshot_id c)),
      (''source_entity_id'', PStr (ec_source_entity_id c)),
      (''target_snapshot_id'', PStr (ec_target_snapshot_id c)),
      (''target_entity_id'', PStr (ec_target_entity_id c)), (''kind'', PStr (ec_kind c)),
      (''producer'', PStr (ec_producer c)), (''producer_version'', PStr (ec_producer_version c)),
      (''evidence_refs'', PList (map EvidenceRef_val (ec_evidence_refs c))), (''id'', PStr (ec_id c)),
      (''authority'', PStr (ec_authority c)), (''completeness'', PStr (ec_completeness c)),
      (''metadata'', PDict (ec_metadata c))]"

definition Observation_val :: "Observation \<Rightarrow> pyval" where
  "Observation_val b = PObj
     [(''snapshot_id'', PStr (ob_snapshot_id b)), (''subject_id'', PStr (ob_subject_id b)),
      (''predicate'', PStr (ob_predicate b)), (''value'', ob_value b), (''stage'', PStr (ob_stage b)),
      (''authority'', PStr (ob_authority b)), (''id'', PStr (ob_id b)), (''unit'', opt_str (ob_unit b)),
      (''run_id'', opt_str (ob_run_id b)), (''artifact_id'', opt_str (ob_artifact_id b)),
      (''anchor'', opt_anchor (ob_anchor b)), (''completeness'', PStr (ob_completeness b)),
      (''workload_id'', opt_str (ob_workload_id b)), (''observed_at'', opt_str (ob_observed_at b)),
      (''metadata'', PDict (ob_metadata b)),
      (''source'', case ob_source b of None \<Rightarrow> PNone | Some s \<Rightarrow> ObservationSource_val s)]"

definition Derivation_val :: "Derivation \<Rightarrow> pyval" where
  "Derivation_val d = PObj
     [(''snapshot_id'', PStr (dv_snapshot_id d)), (''subject_id'', PStr (dv_subject_id d)),
      (''predicate'', PStr (dv_predicate d)), (''value'', dv_value d),
      (''algorithm'', PStr (dv_algorithm d)), (''algorithm_version'', PStr (dv_algorithm_version d)),
      (''input_observation_ids'', str_list (dv_input_observation_ids d)), (''id'', PStr (dv_id d)),
      (''unit'', opt_str (dv_unit d)), (''stage'', PStr (dv_stage d)), (''authority'', PStr (dv_authority d)),
      (''completeness'', PStr (dv_completeness d)), (''metadata'', PDict (dv_metadata d)),
      (''evidence_refs'', PList (map EvidenceRef_val (dv_evidence_refs d)))]"

definition Diagnostic_val :: "Diagnostic \<Rightarrow> pyval" where
  "Diagnostic_val d = PObj
     [(''snapshot_id'', PStr (dg_snapshot_id d)), (''code'', PStr (dg_code d)),
      (''severity'', PStr (dg_severity d)), (''message'', dg_message d), (''id'', PStr (dg_id d)),
      (''stage'', PStr (dg_stage d)), (''run_id'', opt_str (dg_run_id d)),
      (''subject_id'', opt_str (dg_subject_id d)), (''artifact_id'', opt_str (dg_artifact_id d)),
      (''anchor'', opt_anchor (dg_anchor d)), (''guidance'', opt_str (dg_guidance d)),
      (''metadata'', PDict (dg_metadata d))]"

definition VerificationResult_val :: "VerificationResult \<Rightarrow> pyval" where
  "VerificationResult_val v = PObj
     [(''snapshot_id'', PStr (vr_snapshot_id v)), (''kind'', PStr (vr_kind v)),
      (''status'', PStr (vr_status v)), (''id'', PStr (vr_id v)), (''run_id'', opt_str (vr_run_id v)),
      (''workload_id'', opt_str (vr_workload_id v)), (''evidence_ids'', str_list (vr_evidence_ids v)),
      (''details'', PDict (vr_details v))]"

definition ExecutionCommitReceipt_val :: "ExecutionCommitReceipt \<Rightarrow> pyval" where
  "ExecutionCommitReceipt_val r = PObj
     [(''attestation_id'', PStr (xr_attestation_id r)), (''run_id'', PStr (xr_run_id r)),
      (''snapshot_id'', PStr (xr_snapshot_id r)), (''run_payload_hash'', PStr (xr_run_payload_hash r)),
      (''attestation_payload_hash'', PStr (xr_attestation_payload_hash r)),
      (''receipt_contract'', PStr (xr_receipt_contract r)), (''validator'', PStr (xr_validator r)),
      (''id'', PStr (xr_id r))]"

definition prediction_fields :: "PredictionEnvelope \<Rightarrow> (string \<times> pyval) list" where
  "prediction_fields p =
     [(''snapshot_id'', PStr (pe_snapshot_id p)), (''subject_id'', PStr (pe_subject_id p)),
      (''predicate'', PStr (pe_predicate p)), (''value'', pe_value p), (''model_id'', PStr (pe_model_id p)),
      (''model_version'', PStr (pe_model_version p)),
      (''input_schema_version'', PStr (pe_input_schema_version p)), (''id'', PStr (pe_id p)),
      (''unit'', opt_str (pe_unit p)), (''trainset_hash'', opt_str (pe_trainset_hash p)),
      (''uncertainty'', pe_uncertainty p), (''applicability'', PDict (pe_applicability p)),
      (''ood'', PDict (pe_ood p)), (''created_at'', PStr (pe_created_at p)),
      (''metadata'', PDict (pe_metadata p))]"

definition PredictionEnvelope_val :: "PredictionEnvelope \<Rightarrow> pyval" where
  "PredictionEnvelope_val p = PObj (prediction_fields p @ [(''action_id'', opt_str (pe_action_id p))])"

end
