(* ===== verification/Canonical_Fields.thy ===== *)
theory Canonical_Fields
  imports Canonical
begin

text \<open>
  What equal payload texts say of records with floats in them: the text of a value is
  self-delimiting, so two dataclass payloads with the same text have the same text in every
  field, and string and string-list fields are equal.
\<close>

section \<open>Texts are self-delimiting\<close>

definition number_char :: "char \<Rightarrow> bool" where
  "number_char c \<longleftrightarrow> int_char c \<or> c \<in> {CHR ''+'', CHR ''.'', CHR ''e''}"

lemma number_char_facts [simp]:
  "\<not> number_char (CHR ''n'')" "\<not> number_char (CHR ''t'')" "\<not> number_char (CHR ''f'')"
  "\<not> number_char (CHR 0x22)" "\<not> number_char (CHR ''['')" "\<not> number_char (CHR ''{'')"
  "\<not> number_char (CHR '','')" "\<not> number_char (CHR '']'')" "\<not> number_char (CHR ''}'')"
  "int_char c \<Longrightarrow> number_char c" "number_char (CHR ''0'')" "number_char (CHR ''+'')" "number_char (CHR ''.'')" "number_char (CHR ''e'')"
  by (auto simp: number_char_def int_char_def char_class_defs)

lemma show_nat_number: "c \<in> set (show_nat n) \<Longrightarrow> number_char c"
  by (auto dest: show_nat_digits)

lemma float_repr_chars: "c \<in> set (float_repr neg m e) \<Longrightarrow> number_char c"
  by (auto simp: float_repr_def Let_def dest!: in_set_takeD in_set_dropD show_nat_number split: if_splits)

lemma float_repr_not_Nil: "float_repr neg m e \<noteq> []"
  by (auto simp: float_repr_def Let_def split: if_splits)

datatype text_kind = TWord | TNumber | TString | TArray | TObject

fun kind_of :: "json \<Rightarrow> text_kind" where
  "kind_of JNull = TWord"
| "kind_of (JBool _) = TWord"
| "kind_of (JInt _) = TNumber"
| "kind_of (JFloat _) = TNumber"
| "kind_of (JStr _) = TString"
| "kind_of (JArr _) = TArray"
| "kind_of (JObj _) = TObject"

definition head_kind :: "char \<Rightarrow> text_kind" where
  "head_kind c = (if number_char c then TNumber else if c = CHR 0x22 then TString
     else if c = CHR ''['' then TArray else if c = CHR ''{'' then TObject else TWord)"

lemma number_text: "dumps v = Inr t \<Longrightarrow> kind_of v = TNumber \<Longrightarrow> t \<noteq> [] \<and> (\<forall>c \<in> set t. number_char c)"
proof (cases v)
  case (JInt i)
  assume "dumps v = Inr t"
  with JInt show ?thesis by (auto dest: show_int_chars)
next
  case (JFloat f)
  assume "dumps v = Inr t"
  with JFloat show ?thesis by (cases f) (auto simp: float_repr_not_Nil dest: float_repr_chars)
qed simp_all

lemma head_text: "dumps v = Inr t \<Longrightarrow> t \<noteq> [] \<and> head_kind (hd (t @ r)) = kind_of v"
proof (cases "kind_of v = TNumber")
  case True
  assume "dumps v = Inr t"
  from number_text [OF this True] True show ?thesis by (cases t) (auto simp: head_kind_def)
next
  case False
  assume "dumps v = Inr t"
  with False show ?thesis by (cases v) (auto simp: head_kind_def quote_def mapr_Inr_iff split: if_splits)
qed

lemma same_kind: "dumps v = Inr t \<Longrightarrow> dumps w = Inr u \<Longrightarrow> t @ r = u @ s \<Longrightarrow> kind_of w = kind_of v"
  using head_text [of v t r] head_text [of w u s] by metis

definition is_text :: "string \<Rightarrow> bool" where
  "is_text t \<longleftrightarrow> (\<exists>v. dumps v = Inr t)"

definition field_text :: "string \<times> string \<Rightarrow> string" where
  "field_text p = quote (fst p) @ '':'' @ snd p"

lemma dumps_object:
  "dumps (JObj kvs) = Inr t \<longleftrightarrow>
     (\<exists>ps. mapR (\<lambda>kv. mapr (Pair (fst kv)) (dumps (snd kv))) kvs = Inr ps
           \<and> t = ''{'' @ join_with '','' (map field_text (sort_key fst ps)) @ ''}'')"
  by (auto simp: mapr_Inr_iff field_text_def [abs_def])

lemma text_not_close: "is_text t \<Longrightarrow> e \<in> {CHR '']'', CHR ''}''} \<Longrightarrow> hd (t @ r) \<noteq> e"
proof -
  assume "is_text t" and e: "e \<in> {CHR '']'', CHR ''}''}"
  then obtain v where v: "dumps v = Inr t" by (auto simp: is_text_def)
  show ?thesis
  proof (cases "kind_of v = TWord")
    case True
    with v e show ?thesis by (cases v) (auto split: if_splits)
  next
    case False
    with head_text [OF v, of r] e show ?thesis by (auto simp: head_kind_def)
  qed
qed

lemma word_text: "dumps v = Inr t \<Longrightarrow> kind_of v = TWord \<Longrightarrow> t \<in> {''null'', ''true'', ''false''}"
  by (cases v) (auto split: if_splits)

lemma text_cancel:
  "dumps v = Inr t \<Longrightarrow> dumps w = Inr u \<Longrightarrow> follow r \<Longrightarrow> follow s \<Longrightarrow> t @ r = u @ s \<Longrightarrow> t = u \<and> r = s"
proof (induction v arbitrary: w t u r s)
  case (JArr xs)
  obtain ts where ts: "mapR dumps xs = Inr ts" and t: "t = ''['' @ join_with '','' ts @ '']''"
    using JArr.prems(1) by (auto simp: mapr_Inr_iff)
  have "kind_of w = TArray"
    using same_kind [OF JArr.prems(1,2,5)] by simp
  then obtain ys where "w = JArr ys" by (cases w) auto
  with JArr.prems(2) obtain us where us: "mapR dumps ys = Inr us" and u: "u = ''['' @ join_with '','' us @ '']''"
    by (auto simp: mapr_Inr_iff)
  have ok: "\<forall>y \<in> set us. is_text y" using us by (auto simp: is_text_def dest: mapR_set)
  have ok': "\<forall>y \<in> set ts. is_text y" using ts by (auto simp: is_text_def dest: mapR_set)
  have "\<forall>x \<in> set ts. cancels (\<lambda>x. x) is_text x"
    unfolding cancels_def
  proof (intro ballI allI impI)
    fix x y p q
    assume "x \<in> set ts" and y: "is_text y" "follow p" "follow q" "x @ p = y @ q"
    with ts obtain z where "z \<in> set xs" "dumps z = Inr x" by (auto dest: mapR_set)
    moreover from y(1) obtain y' where "dumps y' = Inr y" by (auto simp: is_text_def)
    ultimately show "x = y \<and> p = q" using JArr.IH y(2-4) by blast
  qed
  moreover have "join_with '','' (map (\<lambda>x. x) ts) @ CHR '']'' # r = join_with '','' (map (\<lambda>x. x) us) @ CHR '']'' # s"
    using JArr.prems(5) by (simp add: t u)
  moreover have "hd (x @ z) \<noteq> CHR '']''" if "x \<in> set ts \<union> set us" for x z
    by (rule text_not_close) (use that ok ok' in auto)
  ultimately have "ts = us \<and> r = s"
    by (intro join_cancel [where e = "CHR '']''" and f = "\<lambda>x. x" and ok = is_text]) (use ok in simp_all)
  then show ?case by (simp add: t u)
next
  case (JObj kvs)
  let ?g = "\<lambda>kv. mapr (Pair (fst kv)) (dumps (snd kv))"
  obtain ps where ps: "mapR ?g kvs = Inr ps" and t: "t = ''{'' @ join_with '','' (map field_text (sort_key fst ps)) @ ''}''"
    using JObj.prems(1) by (auto simp: dumps_object simp del: dumps.simps)
  have "kind_of w = TObject"
    using same_kind [OF JObj.prems(1,2,5)] by simp
  then obtain ys where "w = JObj ys" by (cases w) auto
  with JObj.prems(2) obtain qs where qs: "mapR ?g ys = Inr qs"
    and u: "u = ''{'' @ join_with '','' (map field_text (sort_key fst qs)) @ ''}''"
    by (auto simp: dumps_object simp del: dumps.simps)
  have ok: "\<forall>p \<in> set (sort_key fst qs). is_text (snd p)"
    using qs by (auto simp: is_text_def mapr_Inr_iff dest!: mapR_set)
  have "\<forall>x \<in> set (sort_key fst ps). cancels field_text (\<lambda>p. is_text (snd p)) x"
    unfolding cancels_def
  proof (intro ballI allI impI)
    fix x y p q
    assume "x \<in> set (sort_key fst ps)" and y: "is_text (snd y)" "follow p" "follow q"
      and eq: "field_text x @ p = field_text y @ q"
    then have "x \<in> set ps" by simp
    from mapR_set [OF ps this] obtain z where z: "z \<in> set kvs" "dumps (snd z) = Inr (snd x)"
      by (auto simp: mapr_Inr_iff)
    from y(1) obtain y' where y': "dumps y' = Inr (snd y)" by (auto simp: is_text_def)
    from eq have "fst x = fst y \<and> CHR '':'' # snd x @ p = CHR '':'' # snd y @ q"
      by (intro quote_cancel) (simp add: field_text_def)
    moreover from this JObj.IH [of z "snd z" "snd x" y' "snd y" p q] z y' y(2,3)
    have "snd x = snd y \<and> p = q" by (cases z) (auto intro: snds.intros)
    ultimately show "x = y \<and> p = q" by (simp add: prod_eq_iff)
  qed
  moreover have "join_with '','' (map field_text (sort_key fst ps)) @ CHR ''}'' # r
      = join_with '','' (map field_text (sort_key fst qs)) @ CHR ''}'' # s"
    using JObj.prems(5) by (simp add: t u)
  moreover have "hd (field_text x @ z) \<noteq> CHR ''}''" for x z by (simp add: field_text_def)
  ultimately have "sort_key fst ps = sort_key fst qs \<and> r = s"
    by (intro join_cancel [where e = "CHR ''}''" and f = field_text and ok = "\<lambda>p. is_text (snd p)"])
       (use ok in auto)
  then show ?case by (simp add: t u)
next
  case (JStr x)
  have "kind_of w = TString"
    using same_kind [OF JStr.prems(1,2,5)] by simp
  then obtain y where "w = JStr y" by (cases w) auto
  with JStr.prems quote_cancel [of x r y s] show ?case by auto
next
  case (JInt i)
  have k: "kind_of w = TNumber"
    using same_kind [OF JInt.prems(1,2,5)] by simp
  have tw: "takeWhile number_char (x @ z) = x" if "\<forall>c \<in> set x. number_char c" "follow z" for x z
    using that by (cases z) (auto simp: follow_def takeWhile_append)
  from number_text [OF JInt.prems(1)] number_text [OF JInt.prems(2) k] have "t = u"
    using tw [OF _ JInt.prems(3), of t] tw [OF _ JInt.prems(4), of u] JInt.prems(5) by simp
  with JInt.prems(5) show ?case by simp
next
  case (JFloat f)
  have k: "kind_of w = TNumber"
    using same_kind [OF JFloat.prems(1,2,5)] by simp
  have tw: "takeWhile number_char (x @ z) = x" if "\<forall>c \<in> set x. number_char c" "follow z" for x z
    using that by (cases z) (auto simp: follow_def takeWhile_append)
  from number_text [OF JFloat.prems(1)] number_text [OF JFloat.prems(2) k] have "t = u"
    using tw [OF _ JFloat.prems(3), of t] tw [OF _ JFloat.prems(4), of u] JFloat.prems(5) by simp
  with JFloat.prems(5) show ?case by simp
next
  case JNull
  have "kind_of w = TWord"
    using same_kind [OF JNull.prems(1,2,5)] by simp
  from word_text [OF JNull.prems(2) this] JNull.prems show ?case by auto
next
  case (JBool b)
  have "kind_of w = TWord"
    using same_kind [OF JBool.prems(1,2,5)] by simp
  from word_text [OF JBool.prems(2) this] JBool.prems show ?case by (auto split: if_splits)
qed

section \<open>Payloads and their fields\<close>

lemma object_texts:
  assumes "dumps (JObj kvs) = Inr t" and "dumps (JObj lws) = Inr t"
  obtains ps qs where "mapR (\<lambda>kv. mapr (Pair (fst kv)) (dumps (snd kv))) kvs = Inr ps"
    and "mapR (\<lambda>kv. mapr (Pair (fst kv)) (dumps (snd kv))) lws = Inr qs" and "set ps = set qs"
proof -
  let ?g = "\<lambda>kv. mapr (Pair (fst kv)) (dumps (snd kv))"
  obtain ps where ps: "mapR ?g kvs = Inr ps" and t: "t = ''{'' @ join_with '','' (map field_text (sort_key fst ps)) @ ''}''"
    using assms(1) by (auto simp: dumps_object simp del: dumps.simps)
  obtain qs where qs: "mapR ?g lws = Inr qs" and u: "t = ''{'' @ join_with '','' (map field_text (sort_key fst qs)) @ ''}''"
    using assms(2) by (auto simp: dumps_object simp del: dumps.simps)
  have ok: "is_text (snd p)" if "mapR ?g xs = Inr zs" "p \<in> set zs" for xs zs p
    using mapR_set [OF that] by (auto simp: is_text_def mapr_Inr_iff)
  have c: "cancels field_text (\<lambda>p. is_text (snd p)) x" if "is_text (snd x)" for x
    unfolding cancels_def
  proof (intro allI impI)
    fix y p q
    assume y: "is_text (snd y)" "follow p" "follow q" and eq: "field_text x @ p = field_text y @ q"
    then have "fst x = fst y \<and> CHR '':'' # snd x @ p = CHR '':'' # snd y @ q"
      by (intro quote_cancel) (simp add: field_text_def)
    with y that text_cancel [of _ "snd x" _ "snd y" p q] show "x = y \<and> p = q"
      by (auto simp: is_text_def prod_eq_iff)
  qed
  have "hd (field_text x @ z) \<noteq> CHR ''}''" for x z by (simp add: field_text_def)
  moreover have "join_with '','' (map field_text (sort_key fst ps)) @ CHR ''}'' # []
      = join_with '','' (map field_text (sort_key fst qs)) @ CHR ''}'' # []"
    using t u by simp
  ultimately have "sort_key fst ps = sort_key fst qs \<and> [] = ([] :: string)"
    by (intro join_cancel [where e = "CHR ''}''" and f = field_text and ok = "\<lambda>p. is_text (snd p)"])
       (use ok [OF ps] ok [OF qs] c in auto)
  then have "set ps = set qs" by (metis set_sort)
  with ps qs that show thesis by blast
qed

text \<open>Equal payload texts: a field of one is, as text, a field of the other.\<close>

lemma payload_field:
  assumes t: "canonical_json (PObj kvs) = Inr t" "canonical_json (PObj lws) = Inr t"
    and k: "(k, x) \<in> set kvs" "(k, y) \<in> set lws" and d: "distinct (map fst lws)"
  shows "canonical_json x = canonical_json y"
proof -
  let ?j = "\<lambda>kv. mapr (Pair (fst kv)) (json_ready (snd kv))"
  obtain as bs where as: "mapR ?j kvs = Inr as" "dumps (JObj as) = Inr t"
    and bs: "mapR ?j lws = Inr bs" "dumps (JObj bs) = Inr t"
    using t by (auto simp: canonical_json_def res_iff)
  from object_texts [OF as(2) bs(2)] obtain ps qs
    where ps: "mapR (\<lambda>kv. mapr (Pair (fst kv)) (dumps (snd kv))) as = Inr ps"
      and qs: "mapR (\<lambda>kv. mapr (Pair (fst kv)) (dumps (snd kv))) bs = Inr qs" and eq: "set ps = set qs" .
  have pair: "\<exists>p \<in> set zs. fst p = fst kv \<and> canonical_json (snd kv) = Inr (snd p)"
    if "mapR ?j xs = Inr cs" "mapR (\<lambda>kv. mapr (Pair (fst kv)) (dumps (snd kv))) cs = Inr zs" "kv \<in> set xs"
    for xs cs zs kv
    using that by (induction xs arbitrary: cs zs) (auto simp: res_iff canonical_json_def)
  have keys: "map fst cs = map fst xs"
    if "mapR (\<lambda>kv. mapr (Pair (fst kv)) (f (snd kv))) xs = Inr cs" for f :: "'p \<Rightarrow> 'q res" and xs :: "(string \<times> 'p) list" and cs
    using that by (induction xs arbitrary: cs) (auto simp: res_iff)
  have "map fst qs = map fst lws" using keys [OF qs] keys [OF bs(1)] by simp
  with d have dq: "distinct (map fst qs)" by simp
  from pair [OF as(1) ps k(1)] obtain p where p: "p \<in> set ps" "fst p = k" "canonical_json x = Inr (snd p)" by auto
  from pair [OF bs(1) qs k(2)] obtain q where q: "q \<in> set qs" "fst q = k" "canonical_json y = Inr (snd q)" by auto
  have "p = q" using p q eq dq by (metis eq_key_imp_eq_value prod.collapse)
  with p q show ?thesis by simp
qed

lemma canonical_str: "canonical_json (PStr a) = canonical_json (PStr b) \<longleftrightarrow> a = b"
  using quote_cancel [of a "[]" b "[]"] by (auto simp: canonical_json_def)

lemma canonical_opt_str: "canonical_json (opt_str a) = canonical_json (opt_str b) \<longleftrightarrow> a = b"
  using canonical_str by (cases a; cases b) (auto simp: opt_str_def canonical_json_def quote_def)

lemma canonical_str_list: "canonical_json (str_list xs) = canonical_json (str_list ys) \<longleftrightarrow> xs = ys"
proof
  assume eq: "canonical_json (str_list xs) = canonical_json (str_list ys)"
  have m: "mapR json_ready (map PStr zs) = Inr (map JStr zs)" "mapR dumps (map JStr zs) = Inr (map quote zs)" for zs
    by (induction zs) simp_all
  have "join_with '','' (map quote xs) @ CHR '']'' # [] = join_with '','' (map quote ys) @ CHR '']'' # []"
    using eq by (simp add: str_list_def canonical_json_def m)
  moreover have "cancels quote (\<lambda>_. True) x" for x by (auto simp: cancels_def dest: quote_cancel)
  ultimately have "xs = ys \<and> [] = ([] :: string)"
    by (intro join_cancel [where e = "CHR '']''" and f = quote and ok = "\<lambda>_. True"]) auto
  then show "xs = ys" by simp
qed simp

lemma payload_str:
  assumes "canonical_json (PObj kvs) = Inr t" "canonical_json (PObj lws) = Inr t"
    and "(k, PStr a) \<in> set kvs" "(k, PStr b) \<in> set lws" and "distinct (map fst lws)"
  shows "a = b"
  using payload_field [OF assms] by (simp add: canonical_str)

lemma payload_str_list:
  assumes "canonical_json (PObj kvs) = Inr t" "canonical_json (PObj lws) = Inr t"
    and "(k, str_list a) \<in> set kvs" "(k, str_list b) \<in> set lws" and "distinct (map fst lws)"
  shows "a = b"
  using payload_field [OF assms] by (simp add: canonical_str_list)

end
