(* ===== verification/Ledger_State.thy ===== *)
theory Ledger_State
  imports Model_Views Knowledge_Ledger
begin

text \<open>
  The tables of the ledger (\<open>hlsgraph/store/sqlite.py\<close>), the lookups its operations share and
  the evidence lineage.  A table is the list of its rows under their primary keys, newest
  first, so that \<open>ORDER BY rowid DESC LIMIT 1\<close> is the first match.  A row of a content-addressed
  table holds the instance and the payload text it was written with; \<open>from_dict\<close> of the
  payload is the instance again, because \<open>_revalidate_model\<close> precedes every write.
\<close>

section \<open>Tables\<close>

record 'a row =
  rw_value :: 'a
  rw_payload :: string

record manifest_row =
  mr_hash :: string
  mr_manifest :: ProjectManifest
  mr_payload :: string

record view_row =
  gv_schema_version :: string
  gv_metadata :: pydict
  gv_payload :: string

text \<open>The public half of a consumed index authorization, and the receipt made from it.\<close>

record IndexPayload =
  ix_protocol_version :: string
  ix_snapshot_id :: string
  ix_graph_hash :: string
  ix_artifact_hashes :: "(string \<times> string) list"
  ix_standard_derivation_hashes :: "(string \<times> string) list"
  ix_static_aggregate_receipt_hashes :: "(string \<times> string) list"
  ix_origin_manifest_sha256 :: string

record IndexReceipt =
  ic_payload :: IndexPayload
  ic_run_id :: string
  ic_run_payload_sha256 :: string
  ic_id :: string

record Ledger =
  lg_projects :: "(string \<times> manifest_row) list"
  lg_snapshots :: "(string \<times> DesignSnapshot row) list"
  lg_snapshot_manifests :: "(string \<times> manifest_row) list"
  lg_project_state :: "(string \<times> string \<times> string) list"
  lg_graph_views :: "(string \<times> view_row) list"
  lg_artifacts :: "(string \<times> ArtifactRef row) list"
  lg_snapshot_artifacts :: "((string \<times> string) \<times> string option) list"
  lg_entities :: "((string \<times> string) \<times> Entity row) list"
  lg_relations :: "((string \<times> string) \<times> Relation row) list"
  lg_correspondences :: "(string \<times> EntityCorrespondence row) list"
  lg_observations :: "(string \<times> Observation row) list"
  lg_derivations :: "(string \<times> Derivation row) list"
  lg_runs :: "(string \<times> ToolRun row) list"
  lg_index_receipts :: "(string \<times> IndexReceipt row) list"
  lg_attestations :: "(string \<times> ExecutionAttestation row) list"
  lg_receipts :: "(string \<times> ExecutionCommitReceipt row) list"
  lg_diagnostics :: "(string \<times> Diagnostic row) list"
  lg_verifications :: "(string \<times> VerificationResult row) list"
  lg_variants :: "(string \<times> VariantAction row) list"
  lg_materializations :: "(string \<times> ActionMaterialization row) list"
  lg_predictions :: "(string \<times> PredictionEnvelope row) list"
  lg_fts5 :: bool
  lg_entities_fts :: "((string \<times> string) \<times> string list) list"

definition initial_ledger :: "bool \<Rightarrow> Ledger" where
  "initial_ledger fts5 =
     \<lparr>lg_projects = [], lg_snapshots = [], lg_snapshot_manifests = [], lg_project_state = [],
      lg_graph_views = [], lg_artifacts = [], lg_snapshot_artifacts = [], lg_entities = [],
      lg_relations = [], lg_correspondences = [], lg_observations = [], lg_derivations = [],
      lg_runs = [], lg_index_receipts = [], lg_attestations = [], lg_receipts = [], lg_diagnostics = [],
      lg_verifications = [], lg_variants = [], lg_materializations = [], lg_predictions = [],
      lg_fts5 = fts5, lg_entities_fts = []\<rparr>"

text \<open>A violated constraint of the schema is an \<open>sqlite3.IntegrityError\<close>.\<close>

definition constraint :: "bool \<Rightarrow> string \<Rightarrow> unit res" where
  "constraint ok msg = reject_with (\<not> ok) (IntegrityError msg)"

lemma constraint_Inr_iff [res_iff]: "constraint ok msg = Inr u \<longleftrightarrow> ok"
  by (simp add: constraint_def res_iff)

definition has_snapshot :: "Ledger \<Rightarrow> string \<Rightarrow> bool" where
  "has_snapshot s i \<longleftrightarrow> map_of (lg_snapshots s) i \<noteq> None"

definition snapshot_reference :: "Ledger \<Rightarrow> string \<Rightarrow> unit res" where
  "snapshot_reference s i = constraint (has_snapshot s i) ''FOREIGN KEY constraint failed''"

text \<open>\<open>_immutable_payload\<close> and the \<open>INSERT\<close> of a new row behind it; \<open>schema\<close> are the
  constraints of the table.\<close>

definition put_row ::
  "(Ledger \<Rightarrow> (string \<times> 'a row) list) \<Rightarrow>
   (((string \<times> 'a row) list \<Rightarrow> (string \<times> 'a row) list) \<Rightarrow> Ledger \<Rightarrow> Ledger) \<Rightarrow>
   (Ledger \<Rightarrow> unit res) \<Rightarrow> string \<Rightarrow> 'a \<Rightarrow> pyval \<Rightarrow> Ledger \<Rightarrow> Ledger res" where
  "put_row get upd schema i v view s =
     bindR (canonical_json view) (\<lambda>payload.
     bindR (immutable_payload (get s) rw_payload i payload) (\<lambda>present.
     if present then Inr s
     else bindR (schema s) (\<lambda>_. Inr (upd (Cons (i, \<lparr>rw_value = v, rw_payload = payload\<rparr>)) s))))"

section \<open>Lookups\<close>

text \<open>\<open>SELECT ... WHERE snapshot_id=? AND id=?\<close>.\<close>

definition row_in :: "('a \<Rightarrow> string) \<Rightarrow> (string \<times> 'a row) list \<Rightarrow> string \<Rightarrow> string \<Rightarrow> 'a option" where
  "row_in snapshot_of table snap i =
     (case map_of table i of
        Some r \<Rightarrow> if snapshot_of (rw_value r) = snap then Some (rw_value r) else None
      | None \<Rightarrow> None)"

definition observation_in :: "Ledger \<Rightarrow> string \<Rightarrow> string \<Rightarrow> Observation option" where
  "observation_in s = row_in ob_snapshot_id (lg_observations s)"

definition derivation_in :: "Ledger \<Rightarrow> string \<Rightarrow> string \<Rightarrow> Derivation option" where
  "derivation_in s = row_in dv_snapshot_id (lg_derivations s)"

definition verification_in :: "Ledger \<Rightarrow> string \<Rightarrow> string \<Rightarrow> VerificationResult option" where
  "verification_in s = row_in vr_snapshot_id (lg_verifications s)"

definition diagnostic_in :: "Ledger \<Rightarrow> string \<Rightarrow> string \<Rightarrow> Diagnostic option" where
  "diagnostic_in s = row_in dg_snapshot_id (lg_diagnostics s)"

definition run_in :: "Ledger \<Rightarrow> string \<Rightarrow> string \<Rightarrow> ToolRun option" where
  "run_in s = row_in tr_snapshot_id (lg_runs s)"

definition entity_in :: "Ledger \<Rightarrow> string \<Rightarrow> string \<Rightarrow> Entity option" where
  "entity_in s snap i = map_option rw_value (map_of (lg_entities s) (snap, i))"

definition relation_in :: "Ledger \<Rightarrow> string \<Rightarrow> string \<Rightarrow> Relation option" where
  "relation_in s snap i = map_option rw_value (map_of (lg_relations s) (snap, i))"

definition attached :: "Ledger \<Rightarrow> string \<Rightarrow> string \<Rightarrow> bool" where
  "attached s snap i \<longleftrightarrow> map_of (lg_snapshot_artifacts s) (snap, i) \<noteq> None"

text \<open>\<open>artifacts a JOIN snapshot_artifacts sa ON a.id=sa.artifact_id\<close>: one row, all rows.\<close>

definition artifact_in :: "Ledger \<Rightarrow> string \<Rightarrow> string \<Rightarrow> ArtifactRef option" where
  "artifact_in s snap i =
     (if attached s snap i then map_option rw_value (map_of (lg_artifacts s) i) else None)"

definition attached_ids :: "Ledger \<Rightarrow> string \<Rightarrow> string list" where
  "attached_ids s snap = map (snd \<circ> fst) (filter (\<lambda>row. fst (fst row) = snap) (lg_snapshot_artifacts s))"

definition artifacts_of :: "Ledger \<Rightarrow> string \<Rightarrow> ArtifactRef list" where
  "artifacts_of s snap =
     List.map_filter (\<lambda>i. map_option rw_value (map_of (lg_artifacts s) i)) (attached_ids s snap)"

definition require_subject :: "Ledger \<Rightarrow> string \<Rightarrow> string \<Rightarrow> unit res" where
  "require_subject s snap i =
     reject_store (entity_in s snap i = None \<and> \<not> attached s snap i) ''subject does not exist in snapshot''"

definition require_artifact :: "Ledger \<Rightarrow> string \<Rightarrow> string \<Rightarrow> unit res" where
  "require_artifact s snap i = reject_store (\<not> attached s snap i) ''artifact is not attached to snapshot''"

definition require_run :: "Ledger \<Rightarrow> string \<Rightarrow> string \<Rightarrow> unit res" where
  "require_run s snap i = reject_store (run_in s snap i = None) ''run does not exist in snapshot''"

definition store_fact_authority :: "string \<Rightarrow> unit res" where
  "store_fact_authority a = reject_store (a \<in> set NON_FACT_AUTHORITIES)
     ''knowledge rules and predictions belong in dedicated tables''"

text \<open>\<open>if value:\<close> for an optional string.\<close>

definition given :: "string option \<Rightarrow> string list" where
  "given v = (case v of None \<Rightarrow> [] | Some x \<Rightarrow> if x = [] then [] else [x])"

definition require_artifact_producer :: "string list \<Rightarrow> Ledger \<Rightarrow> string \<Rightarrow> ArtifactRef \<Rightarrow> unit res" where
  "require_artifact_producer future_run_ids s snap a =
     forR (\<lambda>producer.
        if producer \<in> set future_run_ids then Inr ()
        else (case run_in s snap producer of
           Some r \<Rightarrow> checks
             [reject_store (ar_id a \<notin> set (tr_output_artifact_ids r))
                ''artifact names a producer but the run does not declare it as an output'',
              reject_store (ar_id a \<in> set (tr_input_artifact_ids r))
                ''an artifact cannot be both input and output of its producer run''] ()
         | None \<Rightarrow> Inl (StoreError
             (if map_of (lg_runs s) producer \<noteq> None then ''artifact producer run belongs to another snapshot''
              else ''artifact producer run does not exist in snapshot''))))
       (given (ar_producer_run_id a))"

section \<open>Evidence\<close>

definition evidence_kind :: "Ledger \<Rightarrow> string \<Rightarrow> string \<Rightarrow> string option" where
  "evidence_kind s snap i =
     (if observation_in s snap i \<noteq> None then Some ''observation''
      else if derivation_in s snap i \<noteq> None then Some ''derivation''
      else if verification_in s snap i \<noteq> None then Some ''verification''
      else if diagnostic_in s snap i \<noteq> None then Some ''diagnostic''
      else if run_in s snap i \<noteq> None then Some ''run''
      else if attached s snap i then Some ''artifact'' else None)"

definition evidence_exists :: "string list \<Rightarrow> Ledger \<Rightarrow> string \<Rightarrow> string \<Rightarrow> bool" where
  "evidence_exists future_evidence_ids s snap i \<longleftrightarrow>
     i \<in> set future_evidence_ids \<or> observation_in s snap i \<noteq> None \<or> derivation_in s snap i \<noteq> None
     \<or> verification_in s snap i \<noteq> None \<or> diagnostic_in s snap i \<noteq> None \<or> run_in s snap i \<noteq> None
     \<or> attached s snap i"

text \<open>An anchor given with a reference to an entity or relation is one of its anchors, and its
  artifact is attached.\<close>

definition same_anchor :: "SourceAnchor \<Rightarrow> SourceAnchor \<Rightarrow> bool res" where
  "same_anchor a b =
     bindR (canonical_json (SourceAnchor_val a)) (\<lambda>x.
     bindR (canonical_json (SourceAnchor_val b)) (\<lambda>y. Inr (x = y)))"

definition anchored :: "Ledger \<Rightarrow> string \<Rightarrow> SourceAnchor list \<Rightarrow> SourceAnchor option \<Rightarrow> bool res" where
  "anchored s snap anchors a =
     (case a of
        None \<Rightarrow> Inr True
      | Some x \<Rightarrow>
          bindR (anyR (\<lambda>y. same_anchor y x) anchors) (\<lambda>found.
          if found then mapr (\<lambda>_. True) (require_artifact s snap (str_of (sa_artifact_id x))) else Inr False))"

definition reference_exists :: "Ledger \<Rightarrow> EvidenceRef \<Rightarrow> string \<Rightarrow> bool res" where
  "reference_exists s e snap =
     (if er_kind e = ''observation'' then Inr (observation_in s snap (er_target_id e) \<noteq> None)
      else if er_kind e = ''derivation'' then Inr (derivation_in s snap (er_target_id e) \<noteq> None)
      else if er_kind e = ''artifact'' then Inr (attached s snap (er_target_id e))
      else if er_kind e = ''entity_anchor''
      then (case entity_in s snap (er_target_id e) of
              None \<Rightarrow> Inr False | Some x \<Rightarrow> anchored s snap (en_anchors x) (er_anchor e))
      else if er_kind e = ''relation''
      then (case relation_in s snap (er_target_id e) of
              None \<Rightarrow> Inr False | Some x \<Rightarrow> anchored s snap (rl_anchors x) (er_anchor e))
      else Inr False)"

definition resolve_evidence_ref :: "string list \<Rightarrow> Ledger \<Rightarrow> EvidenceRef \<Rightarrow> string res" where
  "resolve_evidence_ref allowed s e =
     bindR (checks
       [reject_store (allowed = []) ''evidence resolution requires at least one allowed snapshot'',
        reject_store (opt_any (\<lambda>x. x \<notin> set allowed) (er_snapshot_id e))
          ''evidence belongs to disallowed snapshot''] ()) (\<lambda>_.
     bindR (mapR (\<lambda>snap. mapr (Pair snap) (reference_exists s e snap))
              (case er_snapshot_id e of Some x \<Rightarrow> [x] | None \<Rightarrow> sorted_set allowed)) (\<lambda>found.
     case map fst (filter snd found) of
       [] \<Rightarrow> Inl (StoreError ''evidence does not exist in an allowed snapshot'')
     | [snap] \<Rightarrow> Inr snap
     | _ \<Rightarrow> Inl (StoreError ''evidence is ambiguous across snapshots'')))"

section \<open>Lineage\<close>

text \<open>
  \<open>_evidence_producer_runs\<close>, \<open>_evidence_workloads\<close> and \<open>_evidence_observation_leaves\<close> are the
  same walk over different lineages: an id on the stack raises, an id without a row yields
  nothing, and a row yields what it contributes itself followed by what the ids it cites
  yield.  A lineage lists, for the rows of a snapshot in the order the code looks them up,
  the contribution and the cited ids.
\<close>

type_synonym 'a lineage = "(string \<times> 'a list \<times> string list) list"

function walk :: "string \<Rightarrow> 'a lineage \<Rightarrow> string list \<Rightarrow> string \<Rightarrow> 'a list res" where
  "walk msg g stack i =
     (if i \<in> set stack then Inl (StoreError msg)
      else (case map_of g i of
              None \<Rightarrow> Inr []
            | Some (own, cited) \<Rightarrow> mapr (\<lambda>xss. own @ concat xss) (mapR (walk msg g (i # stack)) cited)))"
  by pat_completeness auto

termination
proof (relation "measure (\<lambda>(msg, g, stack, i). card (fst ` set g - set stack))")
  fix msg i and g :: "'a lineage" and stack x own_cited own cited j
  assume "i \<notin> set stack" and "map_of g i = Some own_cited"
  then have "i \<in> fst ` set g - set stack" by (force dest: map_of_SomeD)
  then have "card (fst ` set g - set (i # stack)) < card (fst ` set g - set stack)"
    by (intro psubset_card_mono) auto
  then show "((msg, g, i # stack, j), (msg, g, stack, i))
      \<in> measure (\<lambda>(msg, g, stack, i). card (fst ` set g - set stack))" by simp
qed simp

declare walk.simps [simp del]

definition rows_of :: "('a \<Rightarrow> string) \<Rightarrow> (string \<times> 'a row) list \<Rightarrow> string \<Rightarrow> (string \<times> 'a) list" where
  "rows_of snapshot_of table snap =
     map (\<lambda>(i, r). (i, rw_value r)) (filter (\<lambda>(_, r). snapshot_of (rw_value r) = snap) table)"

definition anchor_artifact :: "SourceAnchor option \<Rightarrow> string option" where
  "anchor_artifact a = map_option (\<lambda>x. str_of (sa_artifact_id x)) a"

definition cited_artifact_ids :: "Observation \<Rightarrow> string list" where
  "cited_artifact_ids b = remdups (given (ob_artifact_id b) @ given (anchor_artifact (ob_anchor b)))"

definition derivation_cites :: "Derivation \<Rightarrow> string list" where
  "derivation_cites d = concat (map (\<lambda>e.
     if er_kind e \<in> {''observation'', ''derivation'', ''artifact''} then [er_target_id e]
     else (case anchor_artifact (er_anchor e) of None \<Rightarrow> [] | Some a \<Rightarrow> [a])) (dv_evidence_refs d))"

definition observation_cites :: "Derivation \<Rightarrow> string list" where
  "observation_cites d =
     map er_target_id (filter (\<lambda>e. er_kind e \<in> {''observation'', ''derivation''}) (dv_evidence_refs d))"

text \<open>\<open>a JOIN sa\<close> rows as id and artifact.\<close>

definition artifact_rows :: "Ledger \<Rightarrow> string \<Rightarrow> (string \<times> ArtifactRef) list" where
  "artifact_rows s snap = List.map_filter
     (\<lambda>i. map_option (\<lambda>r. (i, rw_value r)) (map_of (lg_artifacts s) i)) (attached_ids s snap)"

definition producer_lineage :: "Ledger \<Rightarrow> string \<Rightarrow> string lineage" where
  "producer_lineage s snap =
     map (\<lambda>(i, b). (i, given (ob_run_id b), cited_artifact_ids b))
       (rows_of ob_snapshot_id (lg_observations s) snap)
     @ map (\<lambda>(i, d). (i, [], derivation_cites d)) (rows_of dv_snapshot_id (lg_derivations s) snap)
     @ map (\<lambda>(i, v). (i, given (vr_run_id v), vr_evidence_ids v))
         (rows_of vr_snapshot_id (lg_verifications s) snap)
     @ map (\<lambda>(i, a). (i, given (ar_producer_run_id a), [])) (artifact_rows s snap)"

definition evidence_producer_runs :: "Ledger \<Rightarrow> string \<Rightarrow> string \<Rightarrow> string list res" where
  "evidence_producer_runs s snap =
     walk ''cyclic evidence producer lineage'' (producer_lineage s snap) []"

definition artifact_workload :: "ArtifactRef \<Rightarrow> string list" where
  "artifact_workload a =
     (case dget (ar_metadata a) ''workload_id'' of PStr w \<Rightarrow> given (Some w) | _ \<Rightarrow> [])"

definition workload_lineage :: "Ledger \<Rightarrow> string \<Rightarrow> string lineage" where
  "workload_lineage s snap =
     map (\<lambda>(i, b). (i, given (ob_workload_id b), [])) (rows_of ob_snapshot_id (lg_observations s) snap)
     @ map (\<lambda>(i, d). (i, [], derivation_cites d)) (rows_of dv_snapshot_id (lg_derivations s) snap)
     @ map (\<lambda>(i, v). (i, given (vr_workload_id v), vr_evidence_ids v))
         (rows_of vr_snapshot_id (lg_verifications s) snap)
     @ map (\<lambda>(i, a). (i, artifact_workload a, [])) (artifact_rows s snap)"

definition evidence_workloads :: "Ledger \<Rightarrow> string \<Rightarrow> string \<Rightarrow> string list res" where
  "evidence_workloads s snap = walk ''cyclic evidence workload lineage'' (workload_lineage s snap) []"

definition observation_lineage :: "Ledger \<Rightarrow> string \<Rightarrow> Observation lineage" where
  "observation_lineage s snap =
     map (\<lambda>(i, b). (i, [b], [])) (rows_of ob_snapshot_id (lg_observations s) snap)
     @ map (\<lambda>(i, d). (i, [], observation_cites d)) (rows_of dv_snapshot_id (lg_derivations s) snap)"

definition evidence_observation_leaves :: "Ledger \<Rightarrow> string \<Rightarrow> string \<Rightarrow> Observation list res" where
  "evidence_observation_leaves s snap =
     walk ''cyclic evidence observation lineage'' (observation_lineage s snap) []"

definition observation_artifacts :: "Ledger \<Rightarrow> string \<Rightarrow> Observation \<Rightarrow> ArtifactRef list res" where
  "observation_artifacts s snap b =
     mapR (\<lambda>i. case artifact_in s snap i of
                 None \<Rightarrow> Inl (StoreError ''evidence observation cites missing artifact'')
               | Some a \<Rightarrow> Inr a) (sort (cited_artifact_ids b))"

end
