(* ===== verification/Ledger_Evidence.thy ===== *)
theory Ledger_Evidence
  imports Ledger_State PyRepr
begin

text \<open>
  What the ledger asks of evidence before it accepts a claim that rests on it
  (\<open>hlsgraph/store/sqlite.py\<close>): the live validation of an execution attestation, the typed
  evidence of a passing verification, the physical gates, and the parser-owned source of a
  tool observation.  Three things are outside the ledger and are the fields of
  \<open>store_env\<close>: \<open>datetime.fromisoformat\<close>, whether the managed bytes of an artifact are the
  ones on disk, and the replay of a report through its parser
  (\<open>extract/observation_replay.py\<close>).
\<close>

section \<open>Doubles\<close>

text \<open>Round-to-nearest-even to 53 bits, for the subtraction the capacity test performs on floats.\<close>

fun bit_length :: "nat \<Rightarrow> nat" where
  "bit_length n = (if n = 0 then 0 else Suc (bit_length (n div 2)))"

declare bit_length.simps [simp del]

definition two_to :: "int \<Rightarrow> rat" where
  "two_to e = (if 0 \<le> e then 2 ^ nat e else 1 / 2 ^ nat (- e))"

definition round_half_even :: "rat \<Rightarrow> int" where
  "round_half_even x =
     (let f = \<lfloor>x\<rfloor>; r = x - of_int f in
      if r < 1 / 2 then f else if 1 / 2 < r then f + 1 else if even f then f else f + 1)"

definition unit_exponent :: "rat \<Rightarrow> int" where
  "unit_exponent x =
     (let (n, d) = quotient_of \<bar>x\<bar>; k = int (bit_length (nat n)) - int (bit_length (nat d));
          e = (if \<bar>x\<bar> < two_to k then k - 1 else k)
      in max (e - 52) (- 1074))"

definition double :: "rat \<Rightarrow> rat" where
  "double x = (if x = 0 then 0
     else let u = unit_exponent x in of_int (round_half_even (x / two_to u)) * two_to u)"

text \<open>\<open>float(v)\<close> of a number, \<open>None\<close> for what is not an \<open>int\<close> or finite \<open>float\<close>: the tests
  \<open>isinstance(v, bool) or not isinstance(v, (int, float)) or not math.isfinite(float(v))\<close>.\<close>

definition finite_float :: "pyval \<Rightarrow> rat option res" where
  "finite_float v =
     (case v of
        PInt i \<Rightarrow> if float_overflows i then Inl (OverflowError ''int too large to convert to float'')
                  else Inr (Some (double (of_int i)))
      | PFloat (FFin neg m e) \<Rightarrow> Inr (Some (double (fin_val neg m e)))
      | _ \<Rightarrow> Inr None)"

definition float_of :: "pyval \<Rightarrow> rat res" where
  "float_of v =
     bindR (finite_float v) (\<lambda>x. case x of
       None \<Rightarrow> Inl (TypeError ''float() argument must be a string or a real number'') | Some r \<Rightarrow> Inr r)"

section \<open>Policies\<close>

record report_policy =
  rp_run_stage :: string
  rp_observation_stages :: "string list"
  rp_artifact_kinds :: "string list"

definition VERIFICATION_REPORT_POLICY :: "(string \<times> report_policy) list" where
  "VERIFICATION_REPORT_POLICY =
     [(''csim'', \<lparr>rp_run_stage = ''csim'', rp_observation_stages = [''csim''],
        rp_artifact_kinds = [''amd.vitis.csim_result'']\<rparr>),
      (''rtl_cosim'', \<lparr>rp_run_stage = ''rtl_cosim'', rp_observation_stages = [''cosim''],
        rp_artifact_kinds = [''amd.vitis.cosim_rpt'', ''amd.vitis.cosim_report'']\<rparr>)]"

definition PHYSICAL_GATE_REPORT_KINDS :: "(string \<times> string list) list" where
  "PHYSICAL_GATE_REPORT_KINDS =
     [(''gate.resource_fits'', [''amd.vivado.post_route_utilization'', ''amd.vivado.utilization'']),
      (''gate.post_route_timing'', [''amd.vivado.post_route_timing'', ''amd.vivado.timing_summary''])]"

definition TOOL_EVIDENCE_AUTHORITIES :: "string list" where
  "TOOL_EVIDENCE_AUTHORITIES = [''tool_observation'', ''verification_evidence'', ''physical_measurement'']"

record store_env =
  se_parse_iso :: iso_parser
  se_live_bytes :: "ArtifactRef \<Rightarrow> bool"
  se_replay :: "ProjectManifest \<Rightarrow> DesignSnapshot \<Rightarrow> CanonicalGraph \<Rightarrow> ArtifactRef \<Rightarrow> Observation \<Rightarrow> verdict"

definition managed_artifact_bytes_valid :: "store_env \<Rightarrow> ArtifactRef \<Rightarrow> bool" where
  "managed_artifact_bytes_valid env a \<longleftrightarrow> ar_retention a = ''managed'' \<and> se_live_bytes env a"

text \<open>A \<open>str | None\<close> reason as the \<open>StoreError\<close> it is raised as.\<close>

definition no_error :: "verdict \<Rightarrow> string \<Rightarrow> unit res" where
  "no_error v msg = bindR v (\<lambda>err. reject_store (err \<noteq> None) msg)"

lemma no_error_Inr_iff [res_iff]: "no_error v msg = Inr u \<longleftrightarrow> v = Inr None"
  by (auto simp: no_error_def res_iff)

definition or_store_error :: "'a option \<Rightarrow> string \<Rightarrow> 'a res" where
  "or_store_error v msg = (case v of None \<Rightarrow> Inl (StoreError msg) | Some x \<Rightarrow> Inr x)"

lemma or_store_error_Inr_iff [res_iff]: "or_store_error v msg = Inr x \<longleftrightarrow> v = Some x"
  by (cases v) (auto simp: or_store_error_def)

section \<open>Execution attestations\<close>

definition snapshot_manifest_for_evidence :: "Ledger \<Rightarrow> string \<Rightarrow> ProjectManifest res" where
  "snapshot_manifest_for_evidence s snap =
     bindR (or_store_error (map_of (lg_snapshot_manifests s) snap) ''snapshot has no immutable manifest context'')
       (\<lambda>row. ProjectManifest_rebuild (mr_manifest row))"

definition stored_attestation :: "Ledger \<Rightarrow> ToolRun \<Rightarrow> ExecutionAttestation option" where
  "stored_attestation s r = map_option (rw_value \<circ> snd)
     (find (\<lambda>(_, row). xa_snapshot_id (rw_value row) = tr_snapshot_id r \<and> xa_run_id (rw_value row) = tr_id r)
        (lg_attestations s))"

definition stored_receipt :: "Ledger \<Rightarrow> ToolRun \<Rightarrow> ExecutionAttestation \<Rightarrow> ExecutionCommitReceipt option" where
  "stored_receipt s r x = map_option (rw_value \<circ> snd)
     (find (\<lambda>(_, row). xr_snapshot_id (rw_value row) = tr_snapshot_id r \<and> xr_run_id (rw_value row) = tr_id r
              \<and> xr_attestation_id (rw_value row) = xa_id x) (lg_receipts s))"

definition attested_artifacts :: "Ledger \<Rightarrow> ToolRun \<Rightarrow> ArtifactRef list res" where
  "attested_artifacts s r =
     (let outputs = List.map_filter (artifact_in s (tr_snapshot_id r)) (tr_output_artifact_ids r) in
      bindR (reject_store (length outputs \<noteq> length (tr_output_artifact_ids r))
               ''trusted run has unattached attested output artifacts'') (\<lambda>_. Inr outputs))"

definition validate_execution_attestation ::
  "store_env \<Rightarrow> Ledger \<Rightarrow> ToolRun \<Rightarrow> ExecutionAttestation option \<Rightarrow> bool \<Rightarrow> ExecutionAttestation res" where
  "validate_execution_attestation env s r given_attestation require_receipt =
     bindR (case given_attestation of
              Some x \<Rightarrow> Inr x
            | None \<Rightarrow> or_store_error (stored_attestation s r)
                ''trusted run has no pipeline-issued execution attestation'') (\<lambda>x.
     bindR (or_store_error (map_of (lg_snapshots s) (tr_snapshot_id r)) ''unknown run snapshot'') (\<lambda>snapshot.
     bindR (snapshot_manifest_for_evidence s (tr_snapshot_id r)) (\<lambda>manifest.
     bindR (attested_artifacts s r) (\<lambda>outputs.
     checks
       [no_error (execution_attestation_error (se_parse_iso env) x r (rw_value snapshot) manifest outputs)
          ''trusted run execution attestation is invalid'',
        reject_store (list_ex (\<lambda>a. \<not> managed_artifact_bytes_valid env a) outputs)
          ''trusted run attested output bytes are not live in managed CAS'',
        (if require_receipt
         then bindR (or_store_error (stored_receipt s r x) ''trusted run has no execution commit receipt'')
                (\<lambda>receipt. no_error (execution_commit_receipt_error receipt x r)
                   ''trusted run execution receipt is invalid'')
         else Inr ())] x))))"

definition require_real_tool_run :: "store_env \<Rightarrow> Ledger \<Rightarrow> ToolRun \<Rightarrow> string \<Rightarrow> unit res" where
  "require_real_tool_run env s r stage =
     (let m = tr_metadata r in
      bindR (reject_store
        (tr_stage r \<noteq> stage \<or> tr_status r \<notin> {''succeeded'', ''cached''} \<or> tr_failure_class r \<noteq> ''none''
         \<or> \<not> clean_exit (tr_exit_code r)
         \<or> dget m ''tool_truth'' \<noteq> PBool True \<or> dget m ''fresh_execution'' \<noteq> PBool True
         \<or> dget m ''fresh_tool_truth'' \<noteq> PBool True
         \<or> dget m ''authority'' \<in> {PStr ''synthetic'', PStr ''fake'', PStr ''replay''}
         \<or> casefold (tr_backend r) \<in> {''runner.fake'', ''runner.replay''})
        ''requires one successful real tool run'') (\<lambda>_.
      mapr (\<lambda>_. ()) (validate_execution_attestation env s r None True)))"

section \<open>Passing verifications\<close>

definition text_or_empty :: "pyval \<Rightarrow> string" where
  "text_or_empty v = (if truthy v then py_str v else [])"

definition with_predicate :: "string \<Rightarrow> Observation list \<Rightarrow> Observation list" where
  "with_predicate p leaves = filter (\<lambda>b. ob_predicate b = p) leaves"

definition CSIM_PREDICATES :: "string list" where
  "CSIM_PREDICATES = [''csim.exit_code'', ''csim.mismatches'', ''csim.assertions_failed'']"

definition zero_count :: "Observation \<Rightarrow> unit res" where
  "zero_count b =
     bindR (finite_float (ob_value b)) (\<lambda>x.
     reject_store (x \<noteq> Some 0 \<or> ob_unit b \<noteq> Some ''count'') ''passing verification contradicts its observation'')"

definition require_verification_value_semantics ::
  "VerificationResult \<Rightarrow> Observation list \<Rightarrow> string option \<Rightarrow> unit res" where
  "require_verification_value_semantics v leaves expected_workload = checks
     [reject_store (given expected_workload \<noteq> [] \<and> list_ex (\<lambda>b. ob_workload_id b \<noteq> expected_workload) leaves)
        ''verification observations do not share workload'',
      (if vr_kind v = ''csim''
       then bindR (reject_store (list_ex (\<lambda>p. length (with_predicate p leaves) \<noteq> 1) CSIM_PREDICATES)
                ''verification requires one observation for each CSim exit/mismatch/assertion predicate'') (\<lambda>_.
            forR (\<lambda>p. forR zero_count (with_predicate p leaves)) CSIM_PREDICATES)
       else if vr_kind v = ''rtl_cosim''
       then reject_store
              (case with_predicate ''cosim.status'' leaves of
                 [b] \<Rightarrow> \<not> is_str (ob_value b) \<or> casefold (str_of (ob_value b)) \<noteq> ''pass'' \<or> ob_unit b \<noteq> None
               | _ \<Rightarrow> True) ''verification requires one cosim.status='pass' observation''
       else Inr ())] ()"

text \<open>One observation leaf and the reports it cites.\<close>

definition typed_leaf ::
  "store_env \<Rightarrow> report_policy \<Rightarrow> string \<Rightarrow> Observation \<Rightarrow> ArtifactRef list \<Rightarrow> bool" where
  "typed_leaf env p run_id b artifacts \<longleftrightarrow>
     ob_completeness b = ''complete'' \<and> ob_stage b \<in> set (rp_observation_stages p)
     \<and> ob_authority b \<in> set TOOL_EVIDENCE_AUTHORITIES \<and> ob_run_id b = Some run_id \<and> artifacts \<noteq> []
     \<and> list_all (\<lambda>a. ar_kind a \<in> set (rp_artifact_kinds p) \<and> ar_producer_run_id a = Some run_id
                     \<and> managed_artifact_bytes_valid env a) artifacts"

definition typed_verification_leaves ::
  "store_env \<Rightarrow> Ledger \<Rightarrow> report_policy \<Rightarrow> string \<Rightarrow> string \<Rightarrow> string \<Rightarrow> Observation list res" where
  "typed_verification_leaves env s p snap run_id i =
     bindR (reject_store (evidence_kind s snap i = Some ''artifact'')
              ''verification cannot infer PASS from a bare report artifact'') (\<lambda>_.
     bindR (evidence_observation_leaves s snap i) (\<lambda>leaves.
     bindR (reject_store (leaves = []) ''verification evidence is not a typed report or observation'') (\<lambda>_.
     bindR (forR (\<lambda>b. bindR (observation_artifacts s snap b) (\<lambda>artifacts.
              reject_store (\<not> typed_leaf env p run_id b artifacts)
                ''verification evidence is not a complete, stage-aligned tool observation'')) leaves) (\<lambda>_.
     Inr leaves))))"

definition run_workload :: "ToolRun \<Rightarrow> string option" where
  "run_workload r =
     (let w = dget (tr_metadata r) ''workload_id'' in if truthy w then Some (py_str w) else None)"

definition or_else :: "string option \<Rightarrow> string option \<Rightarrow> string option" where
  "or_else a b = (if given a \<noteq> [] then a else b)"

definition require_typed_verification_evidence ::
  "store_env \<Rightarrow> Ledger \<Rightarrow> VerificationResult \<Rightarrow> ToolRun \<Rightarrow> unit res" where
  "require_typed_verification_evidence env s v r =
     bindR (or_store_error (map_of VERIFICATION_REPORT_POLICY (vr_kind v))
              ''passing verification kind has no typed report policy'') (\<lambda>p.
     bindR (require_real_tool_run env s r (rp_run_stage p)) (\<lambda>_.
     bindR (mapR (typed_verification_leaves env s p (vr_snapshot_id v) (tr_id r)) (vr_evidence_ids v)) (\<lambda>leaves.
     bindR (reject_store (concat leaves = []) ''verification has no typed report evidence'') (\<lambda>_.
     require_verification_value_semantics v (concat leaves) (or_else (vr_workload_id v) (run_workload r))))))"

section \<open>Physical gates\<close>

definition physical_artifact_scope_valid :: "ArtifactRef \<Rightarrow> ProjectManifest \<Rightarrow> bool" where
  "physical_artifact_scope_valid a m =
     (case dget (ar_metadata a) ''scope'' of
        PDict scope \<Rightarrow>
          dget scope ''kind'' = PStr ''kernel''
          \<and> text_or_empty (dget scope ''top'') = bc_top (pm_build m)
          \<and> text_or_empty (dget scope ''instance'') = bc_top (pm_build m)
          \<and> list_all (\<lambda>part. text_or_empty (dget scope ''part'') = part) (given (tp_part (pm_target m)))
          \<and> list_all (\<lambda>pf. text_or_empty (dget scope ''platform'') = pf) (given (tp_platform (pm_target m)))
          \<and> (ar_kind a \<in> {''amd.vivado.post_route_timing'', ''amd.vivado.timing_summary''} \<longrightarrow>
               text_or_empty (dget scope ''clock'') = ''all''
               \<or> text_or_empty (dget scope ''clock'') \<in> cc_name ` set (tp_clocks (pm_target m)))
      | _ \<Rightarrow> False)"

definition timing_gate_semantics :: "Derivation \<Rightarrow> Observation list \<Rightarrow> unit res" where
  "timing_gate_semantics d leaves =
     bindR (reject_store (dv_algorithm d \<noteq> ''hlsgraph.gate.wns_nonnegative'' \<or> dv_algorithm_version d \<noteq> ''1'')
              ''physical gate uses an unsupported timing derivation algorithm'') (\<lambda>_.
     (case with_predicate ''timing.wns_ns'' leaves of
        [wns] \<Rightarrow>
          bindR (finite_float (ob_value wns)) (\<lambda>x. checks
            [reject_store (case x of None \<Rightarrow> True | Some r \<Rightarrow> dv_value d \<noteq> PBool (0 \<le> r))
               ''physical gate value contradicts its post-route WNS'',
             reject_store (list_ex (\<lambda>b. ob_predicate b \<notin> {''timing.wns_ns'', ''timing.tns_ns''}) leaves)
               ''physical gate contains unrelated timing evidence'',
             reject_store (list_ex (\<lambda>b. ob_unit b \<noteq> Some ''ns'') leaves)
               ''physical gate timing evidence must use ns''] ())
      | _ \<Rightarrow> Inl (StoreError ''physical gate requires exactly one timing.wns_ns observation'')))"

text \<open>\<open>{str(key).lower(): float(value) for ...}\<close>; the last of two keys that agree wins.\<close>

definition float_map :: "pydict \<Rightarrow> (string \<times> rat) list res" where
  "float_map d = mapr dict_of_pairs (mapR (\<lambda>kv. mapr (Pair (lower (key_str (fst kv)))) (float_of (snd kv))) d)"

text \<open>The resource a leaf measures, behind \<open>resource.\<close>, and its value.\<close>

definition add_usage :: "(string \<times> rat) list \<Rightarrow> Observation \<Rightarrow> (string \<times> rat) list res" where
  "add_usage usage b =
     bindR (reject_store (\<not> starts_with ''resource.'' (ob_predicate b))
              ''physical gate contains unrelated resource evidence'') (\<lambda>_.
     (let name = lower (drop 9 (ob_predicate b)) in
      bindR (if map_of usage name \<noteq> None then Inr None else finite_float (ob_value b)) (\<lambda>x.
      case x of
        Some r \<Rightarrow> if r < 0 \<or> ob_unit b \<noteq> Some ''count''
                  then Inl (StoreError ''physical gate has invalid resource observation'')
                  else Inr ((name, r) # usage)
      | None \<Rightarrow> Inl (StoreError ''physical gate has invalid resource observation''))))"

definition fits :: "(string \<times> rat) list \<Rightarrow> (string \<times> rat) list \<Rightarrow> (string \<times> rat) list \<Rightarrow> bool" where
  "fits usage capacities reserved \<longleftrightarrow>
     list_all (\<lambda>(name, cap). the (map_of usage name)
        \<le> double (cap - (case map_of reserved name of None \<Rightarrow> 0 | Some r \<Rightarrow> r))) capacities"

definition resource_gate_semantics :: "ProjectManifest \<Rightarrow> Derivation \<Rightarrow> Observation list \<Rightarrow> unit res" where
  "resource_gate_semantics m d leaves =
     bindR (reject_store (dv_algorithm d \<noteq> ''hlsgraph.gate.capacity_compare'' \<or> dv_algorithm_version d \<noteq> ''1'')
              ''physical gate uses an unsupported resource derivation algorithm'') (\<lambda>_.
     bindR (float_map (tp_capacities (pm_target m))) (\<lambda>capacities.
     bindR (float_map (tp_reserved_resources (pm_target m))) (\<lambda>reserved.
     bindR (foldR add_usage [] leaves) (\<lambda>usage.
     bindR (reject_store (capacities = [] \<or> fst ` set usage \<noteq> fst ` set capacities
                          \<or> \<not> fst ` set reserved \<subseteq> fst ` set capacities)
              ''physical gate does not cover the complete target capacity set'') (\<lambda>_.
     bindR (reject_store (dv_value d \<noteq> PBool (fits usage capacities reserved))
              ''physical gate value contradicts target resource capacity'') (\<lambda>_.
     bindR (stable_hash (TargetProfile_val (pm_target m))) (\<lambda>h.
     reject_store (dget (dv_metadata d) ''target_profile_hash'' \<noteq> PStr h)
       ''physical gate target_profile_hash does not match its snapshot'')))))))"

definition require_physical_derivation_semantics :: "Ledger \<Rightarrow> Derivation \<Rightarrow> Observation list \<Rightarrow> unit res" where
  "require_physical_derivation_semantics s d leaves =
     bindR (snapshot_manifest_for_evidence s (dv_snapshot_id d)) (\<lambda>m.
     if dv_predicate d = ''gate.post_route_timing'' then timing_gate_semantics d leaves
     else resource_gate_semantics m d leaves)"

definition physical_leaf ::
  "store_env \<Rightarrow> ProjectManifest \<Rightarrow> string list \<Rightarrow> string \<Rightarrow> Observation \<Rightarrow> ArtifactRef list \<Rightarrow> bool" where
  "physical_leaf env m kinds producer b artifacts \<longleftrightarrow>
     ob_stage b = ''post_route'' \<and> ob_completeness b = ''complete''
     \<and> ob_authority b \<in> set TOOL_EVIDENCE_AUTHORITIES \<and> ob_run_id b = Some producer \<and> artifacts \<noteq> []
     \<and> list_all (\<lambda>a. ar_kind a \<in> set kinds \<and> ar_producer_run_id a = Some producer
           \<and> managed_artifact_bytes_valid env a \<and> physical_artifact_scope_valid a m
           \<and> (ar_kind a \<in> {''amd.vivado.utilization'', ''amd.vivado.timing_summary''}
              \<longrightarrow> dget (ar_metadata a) ''stage'' = PStr ''post_route'')) artifacts"

definition physical_leaves ::
  "store_env \<Rightarrow> Ledger \<Rightarrow> ProjectManifest \<Rightarrow> string list \<Rightarrow> string \<Rightarrow> string \<Rightarrow> string \<Rightarrow> Observation list res" where
  "physical_leaves env s m kinds snap producer i =
     bindR (evidence_producer_runs s snap i) (\<lambda>producers.
     bindR (reject_store (set producers \<noteq> {producer})
              ''physical gate evidence must close to exactly one producer run'') (\<lambda>_.
     bindR (evidence_observation_leaves s snap i) (\<lambda>leaves.
     bindR (reject_store (leaves = []) ''physical gate has no observation evidence'') (\<lambda>_.
     bindR (forR (\<lambda>b. bindR (observation_artifacts s snap b) (\<lambda>artifacts.
              reject_store (\<not> physical_leaf env m kinds producer b artifacts)
                ''physical gate requires complete post_route observations from an allowed typed report'')) leaves) (\<lambda>_.
     Inr leaves)))))"

definition require_physical_gate_evidence :: "store_env \<Rightarrow> Ledger \<Rightarrow> Derivation \<Rightarrow> string \<Rightarrow> unit res" where
  "require_physical_gate_evidence env s d producer =
     bindR (or_store_error (run_in s (dv_snapshot_id d) producer) ''physical gate cites a missing producer run'') (\<lambda>r.
     bindR (require_real_tool_run env s r ''post_route'') (\<lambda>_.
     bindR (reject_store (dv_stage d \<noteq> ''post_route'') ''physical gate must use the post_route stage'') (\<lambda>_.
     bindR (case map_of PHYSICAL_GATE_REPORT_KINDS (dv_predicate d) of
              None \<Rightarrow> Inl (KeyError (dv_predicate d)) | Some kinds \<Rightarrow> Inr kinds) (\<lambda>kinds.
     bindR (reject_store (dv_input_observation_ids d = []) ''physical gate has no observation evidence'') (\<lambda>_.
     bindR (snapshot_manifest_for_evidence s (dv_snapshot_id d)) (\<lambda>m.
     bindR (mapR (physical_leaves env s m kinds (dv_snapshot_id d) producer) (dv_input_observation_ids d)) (\<lambda>leaves.
     require_physical_derivation_semantics s d (concat leaves))))))))"

section \<open>Parser-owned observations\<close>

definition load_graph_from_connection :: "Ledger \<Rightarrow> string \<Rightarrow> CanonicalGraph res" where
  "load_graph_from_connection s snap =
     (let unsupported = ''snapshot has no supported canonical graph for parser replay'' in
      bindR (or_store_error (map_of (lg_graph_views s) snap) unsupported) (\<lambda>view.
      bindR (reject_store (gv_schema_version view \<notin> set SUPPORTED_GRAPH_SCHEMA_VERSIONS) unsupported) (\<lambda>_.
      bindR (CanonicalGraph_init (empty_graph snap (gv_metadata view) (gv_schema_version view))) (\<lambda>g.
      bindR (foldR add_entity g (map (rw_value \<circ> snd)
               (sort_key (snd \<circ> fst) (filter (\<lambda>row. fst (fst row) = snap) (lg_entities s))))) (\<lambda>g.
      foldR (add_relation False) g (map (rw_value \<circ> snd)
               (sort_key (snd \<circ> fst) (filter (\<lambda>row. fst (fst row) = snap) (lg_relations s)))))))))"

definition source_report_check :: "Observation \<Rightarrow> ArtifactRef list \<Rightarrow> (ObservationSource \<times> ArtifactRef) res" where
  "source_report_check b cited =
     (case ob_source b of
        None \<Rightarrow> Inl (StoreError ''tool-backed observation lacks parser-issued source provenance'')
      | Some source \<Rightarrow>
          bindR (reject_store (ob_artifact_id b = None \<or> ob_artifact_id b \<noteq> anchor_artifact (ob_anchor b)
                               \<or> Some (so_artifact_id source) \<noteq> ob_artifact_id b)
                   ''tool-backed observation does not have one canonical source report'') (\<lambda>_.
          case cited of
            [a] \<Rightarrow> if ar_id a \<noteq> so_artifact_id source
                   then Inl (StoreError ''tool-backed observation cites multiple or missing source reports'')
                   else Inr (source, a)
          | _ \<Rightarrow> Inl (StoreError ''tool-backed observation cites multiple or missing source reports'')))"

definition declared_at :: "ArtifactRef \<Rightarrow> pyval" where
  "declared_at a = dget (ar_metadata a) ''declared_output_path''"

definition declaration_check :: "ProjectManifest \<Rightarrow> ToolRun \<Rightarrow> ArtifactRef \<Rightarrow> unit res" where
  "declaration_check m r a =
     bindR (reject_store (str_of (declared_at a) = []) ''tool-backed observation source has no declared output path'') (\<lambda>_.
     (case filter (\<lambda>spec. os_path spec = str_of (declared_at a)) (stage_outputs_of m (tr_stage r)) of
        [spec] \<Rightarrow> reject_store
          (os_kind spec \<noteq> ar_kind a \<or> Some (os_role spec) \<noteq> ar_role a \<or> os_access spec \<noteq> ar_access a
           \<or> os_license spec \<noteq> ar_license a) ''tool-backed observation source disagrees with declared output''
      | _ \<Rightarrow> Inl (StoreError ''tool-backed observation source path lacks unique declaration'')))"

definition owned_at :: "Ledger \<Rightarrow> string \<Rightarrow> string \<Rightarrow> pyval \<Rightarrow> string list" where
  "owned_at s snap run_id path = map ar_id
     (filter (\<lambda>a. ar_producer_run_id a = Some run_id \<and> declared_at a = path) (artifacts_of s snap))"

definition require_single_observation_source ::
  "store_env \<Rightarrow> Ledger \<Rightarrow> Observation \<Rightarrow> ToolRun \<Rightarrow> ArtifactRef list \<Rightarrow> unit res" where
  "require_single_observation_source env s b r cited =
     bindR (source_report_check b cited) (\<lambda>(source, a).
     bindR (reject_store (so_artifact_sha256 source \<noteq> ar_sha256 a)
              ''tool-backed observation parser source hash does not match artifact'') (\<lambda>_.
     bindR (no_error (ObservationSource_validation_error source (ob_predicate b) (ob_value b) (ob_unit b))
              ''tool-backed observation'') (\<lambda>_.
     bindR (or_store_error (map_of (lg_snapshot_manifests s) (ob_snapshot_id b))
              ''tool-backed observation has no immutable snapshot manifest'') (\<lambda>row.
     bindR (ProjectManifest_rebuild (mr_manifest row)) (\<lambda>m.
     bindR (declaration_check m r a) (\<lambda>_.
     bindR (reject_store (owned_at s (ob_snapshot_id b) (tr_id r) (declared_at a) \<noteq> [ar_id a])
              ''tool-backed observation source path has ambiguous run ownership'') (\<lambda>_.
     bindR (or_store_error (map_of (lg_snapshots s) (ob_snapshot_id b))
              ''tool-backed observation has no snapshot'') (\<lambda>snapshot.
     bindR (load_graph_from_connection s (ob_snapshot_id b)) (\<lambda>g.
     no_error (se_replay env m (rw_value snapshot) g a b) ''tool-backed observation parser replay failed'')))))))))"

end
