(* ===== verification/Ledger_Write.thy ===== *)
theory Ledger_Write
  imports Ledger_Evidence Orchestrator
begin

text \<open>
  The write operations of the ledger (\<open>hlsgraph/store/sqlite.py\<close>), each a function from the
  ledger to the ledger or the exception: \<open>write\<close> commits or rolls back, so a failed
  operation has no state.  The private operations \<open>_add_x\<close> work inside a transaction of
  their caller; \<open>commit_run_result\<close>, \<open>commit_index_success\<close> and \<open>commit_index_failure\<close>
  compose them.  \<open>utc_now()\<close> is an argument.
\<close>

section \<open>Projects, snapshots, artifacts\<close>

definition save_project :: "ProjectManifest \<Rightarrow> Ledger \<Rightarrow> Ledger res" where
  "save_project m s =
     bindR (canonical_json (ProjectManifest_val m)) (\<lambda>payload.
     if map_option mr_payload (map_of (lg_projects s) (pm_project_id m)) = Some payload then Inr s
     else bindR (bindR (ProjectManifest_identity_payload m) stable_hash) (\<lambda>h.
          Inr (s\<lparr>lg_projects := AList.update (pm_project_id m)
                   \<lparr>mr_hash = h, mr_manifest = m, mr_payload = payload\<rparr> (lg_projects s)\<rparr>)))"

definition revalidated_snapshot :: "DesignSnapshot \<Rightarrow> DesignSnapshot res" where
  "revalidated_snapshot = revalidate_model DesignSnapshot_init ds_id (\<lambda>i. ds_id_update (\<lambda>_. i))"

definition revalidated_artifact :: "ArtifactRef \<Rightarrow> ArtifactRef res" where
  "revalidated_artifact = revalidate_model ArtifactRef_init ar_id (\<lambda>i. ar_id_update (\<lambda>_. i))"

definition snapshot_context :: "DesignSnapshot \<Rightarrow> ManifestHashes" where
  "snapshot_context d =
     \<lparr>mh_manifest = ds_manifest_hash d, mh_build = ds_build_hash d, mh_target = ds_target_hash d,
      mh_constraint = ds_constraint_hash d, mh_toolchain = ds_toolchain_hash d\<rparr>"

definition snapshot_lineage_check :: "Ledger \<Rightarrow> DesignSnapshot \<Rightarrow> unit res" where
  "snapshot_lineage_check s d = checks
     [forR (\<lambda>parent. reject_store
              (map_option (ds_project_id \<circ> rw_value) (map_of (lg_snapshots s) parent) \<noteq> Some (ds_project_id d))
              ''snapshot parent must exist in the same project'') (given (ds_parent_snapshot_id d)),
      forR (\<lambda>action. case map_of (lg_variants s) action of
              None \<Rightarrow> Inr ()
            | Some row \<Rightarrow> reject_store (ds_parent_snapshot_id d \<noteq> Some (va_parent_snapshot_id (rw_value row)))
                ''snapshot parent_snapshot_id does not match its recorded action'') (given (ds_action_id d))] ()"

definition insert_snapshot :: "DesignSnapshot \<Rightarrow> Ledger \<Rightarrow> Ledger res" where
  "insert_snapshot d s =
     bindR (canonical_json (DesignSnapshot_val d)) (\<lambda>payload.
     case map_of (lg_snapshots s) (ds_id d) of
       Some row \<Rightarrow> mapr (\<lambda>_. s)
         (reject_store (DesignSnapshot_identity (rw_value row) \<noteq> DesignSnapshot_identity d) ''snapshot identity collision'')
     | None \<Rightarrow> Inr (s\<lparr>lg_snapshots := (ds_id d, \<lparr>rw_value = d, rw_payload = payload\<rparr>) # lg_snapshots s\<rparr>))"

definition insert_snapshot_manifest :: "string \<Rightarrow> manifest_row \<Rightarrow> Ledger \<Rightarrow> Ledger res" where
  "insert_snapshot_manifest i project s =
     (case map_of (lg_snapshot_manifests s) i of
        Some row \<Rightarrow> mapr (\<lambda>_. s) (reject_store (mr_hash row \<noteq> mr_hash project \<or> mr_payload row \<noteq> mr_payload project)
                            ''immutable snapshot manifest changed'')
      | None \<Rightarrow> Inr (s\<lparr>lg_snapshot_manifests := (i, project) # lg_snapshot_manifests s\<rparr>))"

definition insert_artifact :: "ArtifactRef \<Rightarrow> string \<Rightarrow> Ledger \<Rightarrow> Ledger res" where
  "insert_artifact a payload s =
     (case map_of (lg_artifacts s) (ar_id a) of
        Some row \<Rightarrow> mapr (\<lambda>_. s) (reject_store (rw_payload row \<noteq> payload) ''artifact id collision'')
      | None \<Rightarrow> Inr (s\<lparr>lg_artifacts := (ar_id a, \<lparr>rw_value = a, rw_payload = payload\<rparr>) # lg_artifacts s\<rparr>))"

definition attach_artifact :: "string \<Rightarrow> ArtifactRef \<Rightarrow> Ledger \<Rightarrow> Ledger" where
  "attach_artifact snap a s =
     (if attached s snap (ar_id a) then s
      else s\<lparr>lg_snapshot_artifacts := ((snap, ar_id a), ar_role a) # lg_snapshot_artifacts s\<rparr>)"

definition store_artifact :: "string list \<Rightarrow> string \<Rightarrow> Ledger \<Rightarrow> ArtifactRef \<Rightarrow> Ledger res" where
  "store_artifact future_run_ids snap s a =
     bindR (require_artifact_producer future_run_ids s snap a) (\<lambda>_.
     bindR (canonical_json (ArtifactRef_val a)) (\<lambda>payload.
     mapr (attach_artifact snap a) (insert_artifact a payload s)))"

definition save_snapshot :: "DesignSnapshot \<Rightarrow> ArtifactRef list \<Rightarrow> Ledger \<Rightarrow> Ledger res" where
  "save_snapshot snapshot artifacts s =
     bindR (revalidated_snapshot snapshot) (\<lambda>d.
     bindR (mapR revalidated_artifact artifacts) (\<lambda>artifacts.
     bindR (checks
       [reject_store (has_duplicates (map ar_id artifacts)) ''snapshot artifact identifiers must be unique'',
        reject_store (has_duplicates (map ar_uri artifacts)) ''snapshot artifact URIs must be unique'',
        reject_store (\<not> py_eq (str_dict (ds_artifact_hashes d)) (str_dict (artifact_hash_map artifacts)))
          ''snapshot artifact hash closure does not match attached artifacts''] ()) (\<lambda>_.
     bindR (or_store_error (map_of (lg_projects s) (ds_project_id d)) ''snapshot project is not registered'') (\<lambda>project.
     bindR (as_store_error (ProjectManifest_rebuild (mr_manifest project))) (\<lambda>manifest.
     bindR (manifest_hashes manifest) (\<lambda>context.
     bindR (checks
       [reject_store (mr_hash project \<noteq> mh_manifest context)
          ''registered project manifest hash is internally inconsistent'',
        reject_store (snapshot_context d \<noteq> context)
          ''snapshot manifest hash does not match the registered project context'',
        snapshot_lineage_check s d] ()) (\<lambda>_.
     bindR (insert_snapshot d s) (\<lambda>s.
     bindR (insert_snapshot_manifest (ds_id d) project s) (\<lambda>s.
     foldR (store_artifact [] (ds_id d)) s artifacts)))))))))"

definition add_artifact_in :: "string list \<Rightarrow> string \<Rightarrow> Ledger \<Rightarrow> ArtifactRef \<Rightarrow> Ledger res" where
  "add_artifact_in future_run_ids snap s artifact =
     bindR (revalidated_artifact artifact) (\<lambda>a.
     bindR (reject_with (\<not> has_snapshot s snap) (KeyError snap)) (\<lambda>_.
     store_artifact future_run_ids snap s a))"

definition add_artifact :: "string \<Rightarrow> ArtifactRef \<Rightarrow> Ledger \<Rightarrow> Ledger res" where
  "add_artifact snap a s = add_artifact_in [] snap s a"

section \<open>Graphs\<close>

definition revalidated_entity :: "Entity \<Rightarrow> Entity res" where
  "revalidated_entity = revalidate_model Entity_from_dict en_id (\<lambda>i. en_id_update (\<lambda>_. i))"

definition revalidated_relation :: "Relation \<Rightarrow> Relation res" where
  "revalidated_relation = revalidate_model Relation_from_dict rl_id (\<lambda>i. rl_id_update (\<lambda>_. i))"

definition graph_anchor_check :: "Ledger \<Rightarrow> string \<Rightarrow> SourceAnchor list \<Rightarrow> unit res" where
  "graph_anchor_check s snap anchors =
     forR (\<lambda>a. reject_store (\<not> attached s snap (str_of (sa_artifact_id a)))
                 ''anchor artifact is not attached to snapshot'') anchors"

definition validate_entity :: "Ledger \<Rightarrow> CanonicalGraph \<Rightarrow> string \<times> Entity \<Rightarrow> unit res" where
  "validate_entity s g kv =
     bindR (revalidated_entity (snd kv)) (\<lambda>_. checks
       [reject_store (fst kv \<noteq> en_id (snd kv)) ''canonical entity dictionary key disagrees with id'',
        reject_store (en_snapshot_id (snd kv) \<noteq> cg_snapshot_id g) ''entity belongs to another snapshot'',
        store_fact_authority (en_authority (snd kv)),
        graph_anchor_check s (cg_snapshot_id g) (en_anchors (snd kv))] ())"

definition validate_relation :: "Ledger \<Rightarrow> CanonicalGraph \<Rightarrow> string \<times> Relation \<Rightarrow> unit res" where
  "validate_relation s g kv =
     bindR (revalidated_relation (snd kv)) (\<lambda>_. checks
       [reject_store (fst kv \<noteq> rl_id (snd kv)) ''canonical relation dictionary key disagrees with id'',
        reject_store (rl_snapshot_id (snd kv) \<noteq> cg_snapshot_id g) ''relation belongs to another snapshot'',
        store_fact_authority (rl_authority (snd kv)),
        reject_store (\<not> has_entity g (rl_src (snd kv)) \<or> \<not> has_entity g (rl_dst (snd kv)))
          ''relation endpoints must exist in the canonical graph'',
        graph_anchor_check s (cg_snapshot_id g) (rl_anchors (snd kv))] ())"

definition validate_graph :: "Ledger \<Rightarrow> CanonicalGraph \<Rightarrow> unit res" where
  "validate_graph s g = checks
     [reject_store (cg_schema_version g \<noteq> SCHEMA_VERSION) ''canonical graph schema is not supported by this build'',
      as_store_value_error (reject_embedded_body_fields (PDict (cg_metadata g))),
      reject_store (\<not> has_snapshot s (cg_snapshot_id g)) ''unknown snapshot'',
      forR (validate_entity s g) (cg_entities g),
      forR (validate_relation s g) (cg_relations g)] ()"

definition stored_ids :: "((string \<times> string) \<times> 'a row) list \<Rightarrow> string \<Rightarrow> string set" where
  "stored_ids table snap = (snd \<circ> fst) ` {row \<in> set table. fst (fst row) = snap}"

definition save_view :: "CanonicalGraph \<Rightarrow> Ledger \<Rightarrow> Ledger res" where
  "save_view g s =
     bindR (json_ready (PDict (cg_metadata g))) (\<lambda>j.
     bindR (dumps j) (\<lambda>payload.
     case map_of (lg_graph_views s) (cg_snapshot_id g) of
       Some view \<Rightarrow> mapr (\<lambda>_. s) (checks
         [reject_store (gv_schema_version view \<noteq> cg_schema_version g \<or> gv_payload view \<noteq> payload)
            ''immutable graph metadata changed'',
          reject_store (stored_ids (lg_entities s) (cg_snapshot_id g) \<noteq> fst ` set (cg_entities g))
            ''immutable graph entity set changed'',
          reject_store (stored_ids (lg_relations s) (cg_snapshot_id g) \<noteq> fst ` set (cg_relations g))
            ''immutable graph relation set changed''] ())
     | None \<Rightarrow> Inr (s\<lparr>lg_graph_views := (cg_snapshot_id g,
           \<lparr>gv_schema_version = cg_schema_version g, gv_metadata = dict_items (of_json j), gv_payload = payload\<rparr>)
           # lg_graph_views s\<rparr>)))"

definition save_entity :: "string \<Rightarrow> Ledger \<Rightarrow> Entity \<Rightarrow> Ledger res" where
  "save_entity snap s e =
     bindR (canonical_json (Entity_val e)) (\<lambda>payload.
     case map_of (lg_entities s) (snap, en_id e) of
       Some row \<Rightarrow> mapr (\<lambda>_. s) (reject_store (rw_payload row \<noteq> payload) ''immutable entity changed'')
     | None \<Rightarrow> Inr (s\<lparr>lg_entities := ((snap, en_id e), \<lparr>rw_value = e, rw_payload = payload\<rparr>) # lg_entities s\<rparr>))"

definition save_relation :: "string \<Rightarrow> Ledger \<Rightarrow> Relation \<Rightarrow> Ledger res" where
  "save_relation snap s r =
     bindR (canonical_json (Relation_val r)) (\<lambda>payload.
     case map_of (lg_relations s) (snap, rl_id r) of
       Some row \<Rightarrow> mapr (\<lambda>_. s) (reject_store (rw_payload row \<noteq> payload) ''immutable relation changed'')
     | None \<Rightarrow> Inr (s\<lparr>lg_relations := ((snap, rl_id r), \<lparr>rw_value = r, rw_payload = payload\<rparr>) # lg_relations s\<rparr>))"

definition fts_row :: "Entity \<Rightarrow> string list res" where
  "fts_row e = mapr (\<lambda>attrs.
     [en_name e, (case en_qualified_name e of None \<Rightarrow> [] | Some q \<Rightarrow> q), join_with '' '' (en_aliases e), attrs])
     (canonical_json (PDict (en_attrs e)))"

definition index_entities :: "CanonicalGraph \<Rightarrow> Ledger \<Rightarrow> Ledger res" where
  "index_entities g s =
     (if lg_fts5 s
      then mapr (\<lambda>rows. s\<lparr>lg_entities_fts :=
             rows @ filter (\<lambda>row. fst (fst row) \<noteq> cg_snapshot_id g) (lg_entities_fts s)\<rparr>)
             (mapR (\<lambda>e. mapr (Pair (cg_snapshot_id g, en_id e)) (fts_row e))
                (sort_key en_id (map snd (cg_entities g))))
      else Inr s)"

definition save_graph :: "CanonicalGraph \<Rightarrow> Ledger \<Rightarrow> Ledger res" where
  "save_graph g s =
     bindR (validate_graph s g) (\<lambda>_.
     bindR (save_view g s) (\<lambda>s.
     bindR (foldR (save_entity (cg_snapshot_id g)) s (sort_key en_id (map snd (cg_entities g)))) (\<lambda>s.
     bindR (foldR (save_relation (cg_snapshot_id g)) s (sort_key rl_id (map snd (cg_relations g)))) (\<lambda>s.
     index_entities g s))))"

definition set_active_snapshot :: "string \<Rightarrow> string \<Rightarrow> string \<Rightarrow> Ledger \<Rightarrow> Ledger res" where
  "set_active_snapshot now project_id snap s =
     bindR (case map_of (lg_snapshots s) snap of None \<Rightarrow> Inl (KeyError snap) | Some row \<Rightarrow> Inr (rw_value row)) (\<lambda>d.
     bindR (reject_store (ds_project_id d \<noteq> project_id) ''active snapshot belongs to another project'') (\<lambda>_.
     bindR (or_store_error (map_of (lg_graph_views s) snap)
              ''only a successful canonical graph can become active'') (\<lambda>view.
     bindR (reject_store (gv_schema_version view \<notin> set SUPPORTED_GRAPH_SCHEMA_VERSIONS)
              ''canonical graph schema is not supported by this build; refusing to activate it'') (\<lambda>_.
     Inr (s\<lparr>lg_project_state := AList.update project_id (snap, now) (lg_project_state s)\<rparr>)))))"

section \<open>Correspondences\<close>

definition revalidated_correspondence :: "EntityCorrespondence \<Rightarrow> EntityCorrespondence res" where
  "revalidated_correspondence =
     revalidate_model EntityCorrespondence_from_dict ec_id (\<lambda>i. ec_id_update (\<lambda>_. i))"

definition project_of :: "Ledger \<Rightarrow> string \<Rightarrow> string option" where
  "project_of s snap = map_option (ds_project_id \<circ> rw_value) (map_of (lg_snapshots s) snap)"

definition add_correspondence_row :: "Ledger \<Rightarrow> EntityCorrespondence \<Rightarrow> Ledger res" where
  "add_correspondence_row s value =
     bindR (revalidated_correspondence value) (\<lambda>c.
     bindR (checks
       [reject_store (project_of s (ec_source_snapshot_id c) = None \<or> project_of s (ec_target_snapshot_id c) = None)
          ''correspondence snapshots do not exist: '',
        reject_store (project_of s (ec_source_snapshot_id c) \<noteq> project_of s (ec_target_snapshot_id c))
          ''correspondence endpoints must belong to one project'',
        reject_store (entity_in s (ec_source_snapshot_id c) (ec_source_entity_id c) = None)
          ''correspondence source entity does not exist in snapshot'',
        reject_store (entity_in s (ec_target_snapshot_id c) (ec_target_entity_id c) = None)
          ''correspondence target entity does not exist in snapshot'',
        forR (\<lambda>e. mapr (\<lambda>_. ()) (resolve_evidence_ref [ec_source_snapshot_id c, ec_target_snapshot_id c] s e))
          (ec_evidence_refs c)] ()) (\<lambda>_.
     put_row lg_correspondences lg_correspondences_update (\<lambda>_. Inr ()) (ec_id c) c (EntityCorrespondence_val c) s))"

definition add_correspondences :: "EntityCorrespondence list \<Rightarrow> Ledger \<Rightarrow> Ledger res" where
  "add_correspondences values s = foldR add_correspondence_row s values"

section \<open>Observations and diagnostics\<close>

definition revalidated_observation :: "Observation \<Rightarrow> Observation res" where
  "revalidated_observation = revalidate_model Observation_from_dict ob_id (\<lambda>i. ob_id_update (\<lambda>_. i))"

definition observation_references :: "string list \<Rightarrow> Ledger \<Rightarrow> Observation \<Rightarrow> unit res" where
  "observation_references future_run_ids s b = checks
     [store_fact_authority (ob_authority b),
      require_subject s (ob_snapshot_id b) (ob_subject_id b),
      forR (require_artifact s (ob_snapshot_id b)) (given (ob_artifact_id b)),
      forR (require_artifact s (ob_snapshot_id b))
        (case anchor_artifact (ob_anchor b) of None \<Rightarrow> [] | Some a \<Rightarrow> [a]),
      forR (require_run s (ob_snapshot_id b))
        (filter (\<lambda>r. r \<notin> set future_run_ids) (given (ob_run_id b)))] ()"

definition cited_artifacts :: "Ledger \<Rightarrow> Observation \<Rightarrow> ArtifactRef list" where
  "cited_artifacts s b = List.map_filter (artifact_in s (ob_snapshot_id b)) (cited_artifact_ids b)"

definition producers_of :: "ArtifactRef list \<Rightarrow> string list" where
  "producers_of artifacts = concat (map (\<lambda>a. given (ar_producer_run_id a)) artifacts)"

text \<open>A run that claims tool truth: its attestation is live, the stage policy admits the
  reports, and one parser owns the value.\<close>

definition tool_truth_evidence :: "store_env \<Rightarrow> Ledger \<Rightarrow> Observation \<Rightarrow> unit res" where
  "tool_truth_evidence env s b =
     (case run_in s (ob_snapshot_id b) (the (ob_run_id b)) of
        None \<Rightarrow> Inr ()
      | Some r \<Rightarrow>
          if \<not> run_claims_tool_truth r then Inr ()
          else bindR (validate_execution_attestation env s r None True) (\<lambda>_.
               checks
                 [no_error (tool_evidence_compatibility_error b r (cited_artifacts s b))
                    ''observation violates the tool evidence policy'',
                  require_single_observation_source env s b r (cited_artifacts s b)] ()))"

definition observation_evidence :: "store_env \<Rightarrow> Ledger \<Rightarrow> Observation \<Rightarrow> unit res" where
  "observation_evidence env s b =
     (let producers = producers_of (cited_artifacts s b) in checks
        [reject_store (producers \<noteq> [] \<and> set (map Some producers) \<noteq> {ob_run_id b})
           ''observation run does not match cited artifact producer'',
         reject_store (given (ob_run_id b) \<noteq> [] \<and> ob_authority b \<in> set TOOL_EVIDENCE_AUTHORITIES \<and> producers = [])
           ''tool-backed observation must cite an artifact produced by its run'',
         (if given (ob_run_id b) \<noteq> []
             \<and> (ob_authority b \<in> set TOOL_EVIDENCE_AUTHORITIES \<or> ob_authority b = ''compiler_decision'')
          then tool_truth_evidence env s b else Inr ())] ())"

definition add_observation ::
  "store_env \<Rightarrow> string list \<Rightarrow> Ledger \<Rightarrow> Observation \<Rightarrow> Ledger res" where
  "add_observation env future_run_ids s value =
     bindR (revalidated_observation value) (\<lambda>b.
     bindR (observation_references future_run_ids s b) (\<lambda>_.
     bindR (observation_evidence env s b) (\<lambda>_.
     put_row lg_observations lg_observations_update (\<lambda>s. snapshot_reference s (ob_snapshot_id b))
       (ob_id b) b (Observation_val b) s)))"

definition add_observations :: "store_env \<Rightarrow> Observation list \<Rightarrow> Ledger \<Rightarrow> Ledger res" where
  "add_observations env values s = foldR (add_observation env []) s values"

definition revalidated_diagnostic :: "Diagnostic \<Rightarrow> Diagnostic res" where
  "revalidated_diagnostic = revalidate_model Diagnostic_from_dict dg_id (\<lambda>i. dg_id_update (\<lambda>_. i))"

definition add_diagnostic :: "string list \<Rightarrow> Ledger \<Rightarrow> Diagnostic \<Rightarrow> Ledger res" where
  "add_diagnostic future_run_ids s value =
     bindR (revalidated_diagnostic value) (\<lambda>d.
     bindR (checks
       [forR (require_subject s (dg_snapshot_id d)) (given (dg_subject_id d)),
        forR (require_artifact s (dg_snapshot_id d)) (given (dg_artifact_id d)),
        forR (require_artifact s (dg_snapshot_id d))
          (case anchor_artifact (dg_anchor d) of None \<Rightarrow> [] | Some a \<Rightarrow> [a]),
        forR (require_run s (dg_snapshot_id d))
          (filter (\<lambda>r. r \<notin> set future_run_ids) (given (dg_run_id d)))] ()) (\<lambda>_.
     put_row lg_diagnostics lg_diagnostics_update (\<lambda>s. snapshot_reference s (dg_snapshot_id d))
       (dg_id d) d (Diagnostic_val d) s))"

definition add_diagnostics :: "Diagnostic list \<Rightarrow> Ledger \<Rightarrow> Ledger res" where
  "add_diagnostics values s = foldR (add_diagnostic []) s values"

section \<open>Runs\<close>

definition revalidated_run :: "store_env \<Rightarrow> ToolRun \<Rightarrow> ToolRun res" where
  "revalidated_run env = revalidate_model (ToolRun_from_dict (se_parse_iso env)) tr_id (\<lambda>i. tr_id_update (\<lambda>_. i))"

definition run_artifact_ids :: "ToolRun \<Rightarrow> string list" where
  "run_artifact_ids r = tr_input_artifact_ids r @ tr_output_artifact_ids r"

definition tool_truth_claim_check :: "Ledger \<Rightarrow> ToolRun \<Rightarrow> unit res" where
  "tool_truth_claim_check s r =
     bindR (reject_store (real_tool_run_claim_error r \<noteq> None) ''trusted run has an invalid real-tool claim'') (\<lambda>_.
     bindR (snapshot_manifest_for_evidence s (tr_snapshot_id r)) (\<lambda>m. checks
       [reject_store (tool_run_manifest_identity_error r m \<noteq> None)
          ''trusted run does not match the snapshot manifest'',
        reject_store (list_ex (\<lambda>a. ar_producer_run_id a = None \<and> ar_id a \<notin> set (tr_input_artifact_ids r))
                        (artifacts_of s (tr_snapshot_id r)))
          ''trusted run omits immutable snapshot input artifacts''] ()))"

definition run_artifacts_check :: "Ledger \<Rightarrow> ToolRun \<Rightarrow> unit res" where
  "run_artifacts_check s r = checks
     [reject_store (list_ex (\<lambda>i. \<not> attached s (tr_snapshot_id r) i) (run_artifact_ids r))
        ''run references artifacts not attached to its snapshot'',
      forR (\<lambda>i. reject_store
                  (opt_any (\<lambda>a. ar_producer_run_id a = Some (tr_id r)) (artifact_in s (tr_snapshot_id r) i) = False)
                  ''run output does not name run as producer; use commit_run_result'') (tr_output_artifact_ids r),
      forR (\<lambda>i. reject_store
                  (opt_any (\<lambda>a. ar_producer_run_id a = Some (tr_id r)) (artifact_in s (tr_snapshot_id r) i))
                  ''a run cannot consume an artifact it claims to produce'') (tr_input_artifact_ids r)] ()"

definition gate_evidence_check ::
  "string list \<Rightarrow> Ledger \<Rightarrow> ToolRun \<Rightarrow> string \<Rightarrow> string \<Rightarrow> unit res" where
  "gate_evidence_check future_evidence_ids s r status i =
     bindR (checks
       [reject_store (i = tr_id r) ''run cannot cite itself as gate evidence'',
        reject_store (\<not> evidence_exists future_evidence_ids s (tr_snapshot_id r) i)
          ''run gate evidence does not exist in snapshot''] ()) (\<lambda>_.
     if i \<in> set future_evidence_ids then Inr ()
     else
       bindR (reject_store (status = ''pass'' \<and> evidence_kind s (tr_snapshot_id r) i
                 \<notin> {Some ''observation'', Some ''derivation'', Some ''verification'', Some ''artifact''})
                ''passing run gate evidence must be report-backed non-run evidence'') (\<lambda>_.
       bindR (evidence_producer_runs s (tr_snapshot_id r) i) (\<lambda>producers.
       reject_store ((producers \<noteq> [] \<or> status = ''pass'') \<and> set producers \<noteq> {tr_id r})
         ''run gate evidence belongs to another producer run'')))"

definition gate_check :: "string list \<Rightarrow> Ledger \<Rightarrow> ToolRun \<Rightarrow> GateResult \<Rightarrow> unit res" where
  "gate_check future_evidence_ids s r g = checks
     [reject_store (gr_status g = ''pass'' \<and> gr_evidence_ids g = [])
        ''a passing run gate must cite at least one evidence_id'',
      forR (gate_evidence_check future_evidence_ids s r (gr_status g)) (gr_evidence_ids g)] ()"

definition add_run_in ::
  "store_env \<Rightarrow> string list \<Rightarrow> string list \<Rightarrow> ExecutionAttestation option \<Rightarrow> ToolRun \<Rightarrow> Ledger \<Rightarrow> Ledger res" where
  "add_run_in env future_evidence_ids future_diagnostic_ids future_attestation value s =
     bindR (revalidated_run env value) (\<lambda>r.
     bindR (checks
       [reject_store (\<not> has_snapshot s (tr_snapshot_id r)) ''unknown run snapshot'',
        reject_store (has_duplicates (tr_input_artifact_ids r)) ''run input_artifact_ids contains duplicates'',
        reject_store (has_duplicates (tr_output_artifact_ids r)) ''run output_artifact_ids contains duplicates'',
        reject_store (list_ex (\<lambda>i. i \<in> set (tr_output_artifact_ids r)) (tr_input_artifact_ids r))
          ''run input and output artifacts must be disjoint: '',
        (if run_claims_tool_truth r then tool_truth_claim_check s r else Inr ()),
        run_artifacts_check s r,
        (if run_claims_tool_truth r
         then mapr (\<lambda>_. ()) (validate_execution_attestation env s r future_attestation (future_attestation = None))
         else Inr ()),
        forR (gate_check future_evidence_ids s r) (tr_gates r),
        forR (\<lambda>i. reject_store (i \<notin> set future_diagnostic_ids \<and> diagnostic_in s (tr_snapshot_id r) i = None)
                    ''run diagnostic does not exist in snapshot'') (tr_diagnostics r)] ()) (\<lambda>_.
     put_row lg_runs lg_runs_update (\<lambda>s. snapshot_reference s (tr_snapshot_id r)) (tr_id r) r (ToolRun_val r) s))"

definition add_run :: "store_env \<Rightarrow> ToolRun \<Rightarrow> Ledger \<Rightarrow> Ledger res" where
  "add_run env r s = add_run_in env [] [] None r s"

text \<open>\<open>UNIQUE\<close> and \<open>REFERENCES\<close> of the attestation and receipt tables.\<close>

definition attestation_schema :: "ToolRun \<Rightarrow> Ledger \<Rightarrow> unit res" where
  "attestation_schema r s = checks
     [constraint (list_all (\<lambda>row. xa_run_id (rw_value (snd row)) \<noteq> tr_id r) (lg_attestations s))
        ''UNIQUE constraint failed'',
      constraint (map_of (lg_runs s) (tr_id r) \<noteq> None) ''FOREIGN KEY constraint failed'',
      snapshot_reference s (tr_snapshot_id r)] ()"

definition receipt_schema :: "ToolRun \<Rightarrow> ExecutionAttestation \<Rightarrow> Ledger \<Rightarrow> unit res" where
  "receipt_schema r x s = checks
     [constraint (list_all (\<lambda>row. xr_attestation_id (rw_value (snd row)) \<noteq> xa_id x
                                  \<and> xr_run_id (rw_value (snd row)) \<noteq> tr_id r) (lg_receipts s))
        ''UNIQUE constraint failed'',
      constraint (map_of (lg_attestations s) (xa_id x) \<noteq> None \<and> map_of (lg_runs s) (tr_id r) \<noteq> None)
        ''FOREIGN KEY constraint failed'',
      snapshot_reference s (tr_snapshot_id r)] ()"

definition commit_receipt :: "ToolRun \<Rightarrow> ExecutionAttestation \<Rightarrow> ExecutionCommitReceipt res" where
  "commit_receipt r x =
     bindR (payload_hash (ToolRun_val r)) (\<lambda>run_hash.
     bindR (payload_hash (ExecutionAttestation_val x)) (\<lambda>attestation_hash.
     ExecutionCommitReceipt_init
       \<lparr>xr_attestation_id = xa_id x, xr_run_id = tr_id r, xr_snapshot_id = tr_snapshot_id r,
        xr_run_payload_hash = run_hash, xr_attestation_payload_hash = attestation_hash,
        xr_receipt_contract = EXECUTION_RECEIPT_CONTRACT, xr_validator = EXECUTION_RECEIPT_VALIDATOR, xr_id = []\<rparr>))"

definition add_execution_commit ::
  "store_env \<Rightarrow> ToolRun \<Rightarrow> ExecutionAttestation \<Rightarrow> Ledger \<Rightarrow> Ledger res" where
  "add_execution_commit env r x s =
     bindR (validate_execution_attestation env s r (Some x) False) (\<lambda>_.
     bindR (put_row lg_attestations lg_attestations_update (attestation_schema r) (xa_id x) x
              (ExecutionAttestation_val x) s) (\<lambda>s.
     bindR (commit_receipt r x) (\<lambda>receipt.
     put_row lg_receipts lg_receipts_update (receipt_schema r x) (xr_id receipt) receipt
       (ExecutionCommitReceipt_val receipt) s)))"

end
