(* ===== verification/Ledger_Commit.thy ===== *)
theory Ledger_Commit
  imports Ledger_Write
begin

text \<open>
  Derivations, verifications, actions and predictions, the three composed commits of the
  ledger, and its snapshot queries (\<open>hlsgraph/store/sqlite.py\<close>).  The authorization of a
  tool-truth commit is consumed from the registry of \<open>runner/core.py\<close> before the transaction
  opens; the index authorization (\<open>extract/index_authorization.py\<close>) is an argument, the
  function that consumes it.
\<close>

section \<open>Derivations\<close>

definition STANDARD_STATIC_AGGREGATE_PREDICATES :: "string list" where
  "STANDARD_STATIC_AGGREGATE_PREDICATES =
     [''feature.operation_histogram'', ''feature.index_histogram'', ''feature.bitwidth'',
      ''feature.memory_access'', ''feature.trip_count'', ''feature.loop_bounds'',
      ''feature.dependence_distance'']"

definition is_complete_standard_aggregate :: "Derivation \<Rightarrow> bool" where
  "is_complete_standard_aggregate d \<longleftrightarrow>
     dv_predicate d \<in> set STANDARD_STATIC_AGGREGATE_PREDICATES \<and> dv_completeness d = ''complete''
     \<and> dv_value d \<noteq> PNone"

definition revalidated_derivation :: "Derivation \<Rightarrow> Derivation res" where
  "revalidated_derivation = revalidate_model Derivation_from_dict dv_id (\<lambda>i. dv_id_update (\<lambda>_. i))"

definition derivation_reference ::
  "string list \<Rightarrow> Ledger \<Rightarrow> Derivation \<Rightarrow> EvidenceRef \<Rightarrow> unit res" where
  "derivation_reference future_observation_ids s d e =
     (if er_kind e = ''observation'' \<and> er_target_id e \<in> set future_observation_ids then Inr ()
      else bindR (reject_store (er_kind e = ''derivation'' \<and> er_target_id e = dv_id d)
                    ''derivation cannot cite itself'') (\<lambda>_.
           mapr (\<lambda>_. ()) (resolve_evidence_ref [dv_snapshot_id d] s e)))"

definition physical_gate_check :: "store_env \<Rightarrow> Ledger \<Rightarrow> Derivation \<Rightarrow> unit res" where
  "physical_gate_check env s d =
     bindR (reject_store (list_ex (\<lambda>e. er_kind e \<noteq> ''observation'') (dv_evidence_refs d))
              ''physical gate accepts observation evidence only'') (\<lambda>_.
     bindR (mapR (evidence_producer_runs s (dv_snapshot_id d)) (dv_input_observation_ids d)) (\<lambda>producers.
     case remdups (concat producers) of
       [] \<Rightarrow> Inr ()
     | [producer] \<Rightarrow> require_physical_gate_evidence env s d producer
     | _ \<Rightarrow> Inl (StoreError ''physical gate evidence must close to exactly one post_route producer run'')))"

definition add_derivation ::
  "store_env \<Rightarrow> string list \<Rightarrow> string list \<Rightarrow> Ledger \<Rightarrow> Derivation \<Rightarrow> Ledger res" where
  "add_derivation env future_observation_ids authorized_static_aggregate_ids s value =
     bindR (revalidated_derivation value) (\<lambda>d.
     bindR (checks
       [reject_store (dv_predicate d \<in> set STANDARD_STATIC_AGGREGATE_PREDICATES
                      \<and> dv_completeness d = ''complete'' \<and> dv_value d = PNone)
          ''a complete standard static aggregate must carry a known value; use missing or partial for unknown'',
        reject_store (is_complete_standard_aggregate d \<and> dv_id d \<notin> set authorized_static_aggregate_ids)
          ''complete standard static aggregates require a consumed pipeline index authorization'',
        store_fact_authority (dv_authority d),
        require_subject s (dv_snapshot_id d) (dv_subject_id d),
        forR (derivation_reference future_observation_ids s d) (dv_evidence_refs d),
        (if map_of PHYSICAL_GATE_REPORT_KINDS (dv_predicate d) \<noteq> None
         then physical_gate_check env s d else Inr ())] ()) (\<lambda>_.
     put_row lg_derivations lg_derivations_update (\<lambda>s. snapshot_reference s (dv_snapshot_id d))
       (dv_id d) d (Derivation_val d) s))"

definition add_derivations :: "store_env \<Rightarrow> string list \<Rightarrow> Derivation list \<Rightarrow> Ledger \<Rightarrow> Ledger res" where
  "add_derivations env authorized values s = foldR (add_derivation env [] authorized) s values"

section \<open>Verifications\<close>

definition revalidated_verification :: "VerificationResult \<Rightarrow> VerificationResult res" where
  "revalidated_verification = revalidate_model VerificationResult_init vr_id (\<lambda>i. vr_id_update (\<lambda>_. i))"

definition referenced_run :: "Ledger \<Rightarrow> VerificationResult \<Rightarrow> ToolRun option" where
  "referenced_run s v = (case given (vr_run_id v) of [] \<Rightarrow> None | i # _ \<Rightarrow> run_in s (vr_snapshot_id v) i)"

definition verification_stage_check :: "Ledger \<Rightarrow> VerificationResult \<Rightarrow> unit res" where
  "verification_stage_check s v =
     (case referenced_run s v of
        None \<Rightarrow> Inr ()
      | Some r \<Rightarrow> reject_store (vr_kind v \<in> {''csim'', ''rtl_cosim''} \<and> tr_stage r \<noteq> vr_kind v)
          ''verification kind requires a producer run of its stage'')"

text \<open>One cited id: it exists, and yields its producer runs and workloads.\<close>

definition verification_evidence ::
  "string list \<Rightarrow> Ledger \<Rightarrow> VerificationResult \<Rightarrow> string \<Rightarrow> (string list \<times> string list) res" where
  "verification_evidence future_evidence_ids s v i =
     bindR (checks
       [reject_store (i = vr_id v) ''verification cannot cite itself as evidence'',
        reject_store (\<not> evidence_exists future_evidence_ids s (vr_snapshot_id v) i)
          ''verification evidence does not exist in snapshot'',
        reject_store (vr_status v = ''pass'' \<and> evidence_kind s (vr_snapshot_id v) i
             \<notin> {Some ''observation'', Some ''derivation'', Some ''artifact''})
          ''passing verification evidence must be an observation, derivation, or report artifact''] ()) (\<lambda>_.
     bindR (evidence_producer_runs s (vr_snapshot_id v) i) (\<lambda>producers.
     bindR (evidence_workloads s (vr_snapshot_id v) i) (\<lambda>workloads.
     Inr (producers, workloads))))"

definition verification_run_check ::
  "store_env \<Rightarrow> Ledger \<Rightarrow> VerificationResult \<Rightarrow> string list \<Rightarrow> string list \<Rightarrow> unit res" where
  "verification_run_check env s v producers workloads =
     (let r = referenced_run s v; own = (case r of None \<Rightarrow> None | Some x \<Rightarrow> run_workload x);
          expected = or_else (vr_workload_id v) own in checks
        [reject_store ((producers \<noteq> [] \<or> vr_status v = ''pass'') \<and> set (map Some producers) \<noteq> {vr_run_id v})
           ''verification evidence does not belong to its producer run'',
         reject_store (given (vr_workload_id v) \<noteq> [] \<and> given own \<noteq> [] \<and> vr_workload_id v \<noteq> own)
           ''verification workload does not match its producer run'',
         reject_store (given expected \<noteq> [] \<and> \<not> set (map Some workloads) \<subseteq> {expected})
           ''verification evidence belongs to another workload'',
         (case r of
            Some x \<Rightarrow> if vr_status v = ''pass'' then require_typed_verification_evidence env s v x else Inr ()
          | None \<Rightarrow> Inr ())] ())"

definition add_verification ::
  "store_env \<Rightarrow> string list \<Rightarrow> string list \<Rightarrow> Ledger \<Rightarrow> VerificationResult \<Rightarrow> Ledger res" where
  "add_verification env future_run_ids future_evidence_ids s value =
     bindR (revalidated_verification value) (\<lambda>v.
     bindR (checks
       [forR (require_run s (vr_snapshot_id v)) (filter (\<lambda>r. r \<notin> set future_run_ids) (given (vr_run_id v))),
        verification_stage_check s v] ()) (\<lambda>_.
     bindR (mapR (verification_evidence future_evidence_ids s v) (vr_evidence_ids v)) (\<lambda>evidence.
     bindR (if given (vr_run_id v) \<noteq> []
            then verification_run_check env s v (concat (map fst evidence)) (concat (map snd evidence))
            else Inr ()) (\<lambda>_.
     put_row lg_verifications lg_verifications_update (\<lambda>s. snapshot_reference s (vr_snapshot_id v))
       (vr_id v) v (VerificationResult_val v) s))))"

definition add_verifications ::
  "store_env \<Rightarrow> string list \<Rightarrow> VerificationResult list \<Rightarrow> Ledger \<Rightarrow> Ledger res" where
  "add_verifications env future_evidence_ids values s = foldR (add_verification env [] future_evidence_ids) s values"

section \<open>Actions and predictions\<close>

definition revalidated_variant :: "VariantAction \<Rightarrow> VariantAction res" where
  "revalidated_variant = revalidate_model VariantAction_init va_id (\<lambda>i. va_id_update (\<lambda>_. i))"

definition all_snapshots :: "Ledger \<Rightarrow> DesignSnapshot list" where
  "all_snapshots s = map (rw_value \<circ> snd) (rev (lg_snapshots s))"

definition add_variant :: "VariantAction \<Rightarrow> Ledger \<Rightarrow> Ledger res" where
  "add_variant value s =
     bindR (revalidated_variant value) (\<lambda>a.
     bindR (checks
       [reject_with (\<not> has_snapshot s (va_parent_snapshot_id a)) (KeyError (va_parent_snapshot_id a)),
        reject_store (map_of (lg_graph_views s) (va_parent_snapshot_id a) = None)
          ''variant actions require a successful parent graph'',
        forR (require_subject s (va_parent_snapshot_id a)) (given (va_scope_id a)),
        reject_store (list_ex (\<lambda>d. ds_action_id d = Some (va_id a)
                                 \<and> ds_parent_snapshot_id d \<noteq> Some (va_parent_snapshot_id a)) (all_snapshots s))
          ''variant action parent_snapshot_id conflicts with existing snapshot lineage''] ()) (\<lambda>_.
     put_row lg_variants lg_variants_update (\<lambda>_. Inr ()) (va_id a) a (VariantAction_val a) s))"

definition revalidated_materialization :: "store_env \<Rightarrow> ActionMaterialization \<Rightarrow> ActionMaterialization res" where
  "revalidated_materialization env =
     revalidate_model (ActionMaterialization_from_dict (se_parse_iso env)) am_id (\<lambda>i. am_id_update (\<lambda>_. i))"

text \<open>The parent and every snapshot that names the action with this parent, in the project.\<close>

definition attempt_snapshots :: "Ledger \<Rightarrow> ActionMaterialization \<Rightarrow> string \<Rightarrow> string list" where
  "attempt_snapshots s a project =
     am_parent_snapshot_id a
     # map ds_id (filter (\<lambda>d. ds_project_id d = project \<and> ds_action_id d = Some (am_action_id a)
                            \<and> ds_parent_snapshot_id d = Some (am_parent_snapshot_id a)) (all_snapshots s))"

definition materialization_result_check :: "Ledger \<Rightarrow> ActionMaterialization \<Rightarrow> string \<Rightarrow> unit res" where
  "materialization_result_check s a project =
     (case am_result_snapshot_id a of
        None \<Rightarrow> Inr ()
      | Some i \<Rightarrow>
          bindR (or_store_error (map_of (lg_snapshots s) i) ''materialization result snapshot does not exist'') (\<lambda>row.
          reject_store (ds_project_id (rw_value row) \<noteq> project
              \<or> ds_action_id (rw_value row) \<noteq> Some (am_action_id a)
              \<or> ds_parent_snapshot_id (rw_value row) \<noteq> Some (am_parent_snapshot_id a))
            ''materialization result snapshot has inconsistent action lineage''))"

definition diagnostic_home :: "(string \<times> string) list \<Rightarrow> Ledger \<Rightarrow> string \<Rightarrow> string option" where
  "diagnostic_home future_diagnostics s i =
     (case map_of (lg_diagnostics s) i of
        Some row \<Rightarrow> Some (dg_snapshot_id (rw_value row))
      | None \<Rightarrow> map_of future_diagnostics i)"

definition add_materialization_row ::
  "store_env \<Rightarrow> (string \<times> string) list \<Rightarrow> Ledger \<Rightarrow> ActionMaterialization \<Rightarrow> Ledger res" where
  "add_materialization_row env future_diagnostics s value =
     bindR (revalidated_materialization env value) (\<lambda>a.
     bindR (or_store_error (map_of (lg_variants s) (am_action_id a)) ''materialization action does not exist'') (\<lambda>action.
     bindR (reject_store (va_parent_snapshot_id (rw_value action) \<noteq> am_parent_snapshot_id a)
              ''materialization parent_snapshot_id does not match its action'') (\<lambda>_.
     bindR (or_store_error (project_of s (am_parent_snapshot_id a))
              ''materialization parent snapshot does not exist'') (\<lambda>project.
     bindR (materialization_result_check s a project) (\<lambda>_.
     (let allowed = attempt_snapshots s a project
                    @ (case am_result_snapshot_id a of None \<Rightarrow> [] | Some i \<Rightarrow> [i]) in
      bindR (checks
        [forR (\<lambda>i. reject_store
             (case diagnostic_home future_diagnostics s i of None \<Rightarrow> True | Some snap \<Rightarrow> snap \<notin> set allowed)
             ''materialization diagnostic is missing or does not belong to this action attempt'')
           (am_diagnostic_ids a),
         forR (\<lambda>e. mapr (\<lambda>_. ()) (resolve_evidence_ref allowed s e)) (am_evidence_refs a)] ()) (\<lambda>_.
      put_row lg_materializations lg_materializations_update (\<lambda>_. Inr ()) (am_id a) a
        (ActionMaterialization_val a) s)))))))"

definition add_materializations :: "store_env \<Rightarrow> ActionMaterialization list \<Rightarrow> Ledger \<Rightarrow> Ledger res" where
  "add_materializations env values s = foldR (add_materialization_row env []) s values"

definition revalidated_prediction :: "PredictionEnvelope \<Rightarrow> PredictionEnvelope res" where
  "revalidated_prediction = revalidate_model PredictionEnvelope_init pe_id (\<lambda>i. pe_id_update (\<lambda>_. i))"

text \<open>A row written before \<open>action_id\<close> existed: both payloads as JSON, without the key.\<close>

definition same_legacy_prediction :: "PredictionEnvelope \<Rightarrow> PredictionEnvelope \<Rightarrow> bool" where
  "same_legacy_prediction old new \<longleftrightarrow>
     pe_action_id old = None \<and> pe_action_id new = None
     \<and> (case (json_ready (PObj (prediction_fields old)), json_ready (PObj (prediction_fields new))) of
          (Inr a, Inr b) \<Rightarrow> py_eq (of_json a) (of_json b)
        | _ \<Rightarrow> False)"

definition prediction_present :: "Ledger \<Rightarrow> PredictionEnvelope \<Rightarrow> string \<Rightarrow> bool res" where
  "prediction_present s p payload =
     (case map_of (lg_predictions s) (pe_id p) of
        None \<Rightarrow> Inr False
      | Some row \<Rightarrow>
          if rw_payload row \<noteq> payload \<and> same_legacy_prediction (rw_value row) p then Inr True
          else immutable_payload (lg_predictions s) rw_payload (pe_id p) payload)"

definition prediction_action_check :: "Ledger \<Rightarrow> PredictionEnvelope \<Rightarrow> unit res" where
  "prediction_action_check s p =
     (case pe_action_id p of
        None \<Rightarrow> Inr ()
      | Some i \<Rightarrow> (case map_of (lg_variants s) i of
            None \<Rightarrow> Inl (KeyError i)
          | Some row \<Rightarrow> reject_store (va_parent_snapshot_id (rw_value row) \<noteq> pe_snapshot_id p)
              ''prediction action must belong to its input snapshot''))"

definition add_prediction :: "PredictionEnvelope \<Rightarrow> Ledger \<Rightarrow> Ledger res" where
  "add_prediction value s =
     bindR (revalidated_prediction value) (\<lambda>p.
     bindR (checks [require_subject s (pe_snapshot_id p) (pe_subject_id p), prediction_action_check s p] ()) (\<lambda>_.
     bindR (canonical_json (PredictionEnvelope_val p)) (\<lambda>payload.
     bindR (prediction_present s p payload) (\<lambda>present.
     if present then Inr s
     else Inr (s\<lparr>lg_predictions :=
            (pe_id p, \<lparr>rw_value = p, rw_payload = payload\<rparr>) # lg_predictions s\<rparr>)))))"

section \<open>Committing a run\<close>

record run_batch =
  rb_run :: ToolRun
  rb_artifacts :: "ArtifactRef list"
  rb_observations :: "Observation list"
  rb_derivations :: "Derivation list"
  rb_verifications :: "VerificationResult list"
  rb_diagnostics :: "Diagnostic list"

definition require_batch_snapshot :: "string \<Rightarrow> string list \<Rightarrow> string \<Rightarrow> unit res" where
  "require_batch_snapshot snap snapshots msg = reject_store (list_ex (\<lambda>x. x \<noteq> snap) snapshots) msg"

definition batch_snapshots_check ::
  "string \<Rightarrow> Observation list \<Rightarrow> Derivation list \<Rightarrow> VerificationResult list \<Rightarrow> Diagnostic list \<Rightarrow> unit res" where
  "batch_snapshots_check snap bs ds vs gs = checks
     [require_batch_snapshot snap (map ob_snapshot_id bs) ''observations belong to another snapshot'',
      require_batch_snapshot snap (map dv_snapshot_id ds) ''derivations belong to another snapshot'',
      require_batch_snapshot snap (map vr_snapshot_id vs) ''verifications belong to another snapshot'',
      require_batch_snapshot snap (map dg_snapshot_id gs) ''diagnostics belong to another snapshot''] ()"

definition run_batch_check :: "run_batch \<Rightarrow> unit res" where
  "run_batch_check q =
     (let r = rb_run q; as = rb_artifacts q in checks
        [batch_snapshots_check (tr_snapshot_id r) (rb_observations q) (rb_derivations q) (rb_verifications q)
           (rb_diagnostics q),
         reject_store (has_duplicates (map ar_id as)) ''run batch contains duplicate artifact identifiers'',
         reject_store (has_duplicates (tr_output_artifact_ids r)) ''run output_artifact_ids contains duplicates'',
         reject_store (set (tr_output_artifact_ids r)
                       \<noteq> set (map ar_id (filter (\<lambda>a. ar_producer_run_id a = Some (tr_id r)) as)))
           ''run/output artifact contract mismatch; ''] ())"

definition commit_run_rows :: "store_env \<Rightarrow> run_batch \<Rightarrow> ExecutionAttestation option \<Rightarrow> Ledger \<Rightarrow> Ledger res" where
  "commit_run_rows env q attestation s =
     (let r = rb_run q;
          verification_ids = map vr_id (rb_verifications q); diagnostic_ids = map dg_id (rb_diagnostics q);
          evidence_ids = map ob_id (rb_observations q) @ map dv_id (rb_derivations q)
                         @ verification_ids @ diagnostic_ids in
      bindR (foldR (add_artifact_in [tr_id r] (tr_snapshot_id r)) s (rb_artifacts q)) (\<lambda>s.
      bindR (add_run_in env evidence_ids diagnostic_ids attestation r s) (\<lambda>s.
      bindR (case attestation of None \<Rightarrow> Inr s | Some x \<Rightarrow> add_execution_commit env r x s) (\<lambda>s.
      bindR (add_observations env (rb_observations q) s) (\<lambda>s.
      bindR (add_derivations env [] (rb_derivations q) s) (\<lambda>s.
      bindR (add_verifications env (verification_ids @ diagnostic_ids) (rb_verifications q) s) (\<lambda>s.
      bindR (add_diagnostics (rb_diagnostics q) s) (\<lambda>s.
      add_run env r s))))))))"

text \<open>The authorization is consumed before anything else is looked at, and stays consumed
  when the commit is refused.\<close>

definition claim_authorization ::
  "run_batch \<Rightarrow> ExecutionCommitAuthorization option \<Rightarrow> AuthorizationRegistry
    \<Rightarrow> ExecutionAttestation option res \<times> AuthorizationRegistry" where
  "claim_authorization q authorization z =
     (if run_claims_tool_truth (rb_run q)
      then (case authorization of
         None \<Rightarrow> (Inl (StoreError ''tool-truth commit requires a StageOrchestrator-issued authorization''), z)
       | Some a \<Rightarrow>
           (case consume_execution_authorization a z of
              (Inr x, z') \<Rightarrow> (Inr (Some x), z')
            | (Inl (RunnerProtocolError msg), z') \<Rightarrow> (Inl (StoreError msg), z')
            | (Inl e, z') \<Rightarrow> (Inl e, z')))
      else if authorization \<noteq> None
      then (Inl (StoreError ''execution authorization cannot be attached to a non-tool-truth run''), z)
      else (Inr None, z))"

definition commit_run_result ::
  "store_env \<Rightarrow> run_batch \<Rightarrow> ExecutionCommitAuthorization option \<Rightarrow> Ledger \<Rightarrow> AuthorizationRegistry
    \<Rightarrow> Ledger res \<times> AuthorizationRegistry" where
  "commit_run_result env q authorization s z =
     (case claim_authorization q authorization z of
        (Inl e, z') \<Rightarrow> (Inl e, z')
      | (Inr attestation, z') \<Rightarrow>
          (bindR (run_batch_check q) (\<lambda>_. commit_run_rows env q attestation s), z'))"

section \<open>Committing an index\<close>

record index_batch =
  ib_project_id :: string
  ib_graph :: CanonicalGraph
  ib_run :: ToolRun
  ib_observations :: "Observation list"
  ib_derivations :: "Derivation list"
  ib_verifications :: "VerificationResult list"
  ib_diagnostics :: "Diagnostic list"
  ib_materialization :: "ActionMaterialization option"

type_synonym index_consumer = "CanonicalGraph \<Rightarrow> Derivation list \<Rightarrow> ArtifactRef list \<Rightarrow> IndexPayload res"

definition pair_list :: "(string \<times> string) list \<Rightarrow> pyval" where
  "pair_list ps = PList (map (\<lambda>p. PList [PStr (fst p), PStr (snd p)]) ps)"

definition IndexPayload_fields :: "IndexPayload \<Rightarrow> (string \<times> pyval) list" where
  "IndexPayload_fields p =
     [(''protocol_version'', PStr (ix_protocol_version p)), (''snapshot_id'', PStr (ix_snapshot_id p)),
      (''graph_hash'', PStr (ix_graph_hash p)), (''artifact_hashes'', pair_list (ix_artifact_hashes p)),
      (''standard_derivation_hashes'', pair_list (ix_standard_derivation_hashes p)),
      (''static_aggregate_receipt_hashes'', pair_list (ix_static_aggregate_receipt_hashes p)),
      (''origin_manifest_sha256'', PStr (ix_origin_manifest_sha256 p))]"

definition IndexReceipt_identity :: "IndexReceipt \<Rightarrow> (string \<times> pyval) list" where
  "IndexReceipt_identity c = IndexPayload_fields (ic_payload c)
     @ [(''run_id'', PStr (ic_run_id c)), (''run_payload_sha256'', PStr (ic_run_payload_sha256 c))]"

definition IndexReceipt_val :: "IndexReceipt \<Rightarrow> pyval" where
  "IndexReceipt_val c = pdict (IndexReceipt_identity c @ [(''id'', PStr (ic_id c))])"

definition build_index_commit_receipt :: "IndexPayload \<Rightarrow> string \<Rightarrow> string \<Rightarrow> IndexReceipt res" where
  "build_index_commit_receipt p run_id run_payload_sha256 =
     (let c = \<lparr>ic_payload = p, ic_run_id = run_id, ic_run_payload_sha256 = run_payload_sha256, ic_id = []\<rparr> in
      mapr (\<lambda>i. c\<lparr>ic_id := i\<rparr>) (stable_id ''index_commit_receipt'' (pdict (IndexReceipt_identity c))))"

text \<open>A receipt of the run or the snapshot that is there already commits to the same content,
  apart from artifacts added since.\<close>

definition same_index_content :: "IndexPayload \<Rightarrow> IndexPayload \<Rightarrow> bool" where
  "same_index_content old new \<longleftrightarrow>
     old\<lparr>ix_artifact_hashes := []\<rparr> = new\<lparr>ix_artifact_hashes := []\<rparr>
     \<and> list_all (\<lambda>p. map_of (dict_of_pairs (ix_artifact_hashes new)) (fst p) = Some (snd p))
          (dict_of_pairs (ix_artifact_hashes old))"

definition add_index_commit_receipt :: "ToolRun \<Rightarrow> IndexPayload \<Rightarrow> Ledger \<Rightarrow> Ledger res" where
  "add_index_commit_receipt r p s =
     bindR (payload_hash (ToolRun_val r)) (\<lambda>run_hash.
     bindR (build_index_commit_receipt p (tr_id r) run_hash) (\<lambda>receipt.
     bindR (canonical_json (IndexReceipt_val receipt)) (\<lambda>payload.
     case find (\<lambda>(_, row). ic_run_id (rw_value row) = tr_id r
                  \<or> ix_snapshot_id (ic_payload (rw_value row)) = tr_snapshot_id r) (lg_index_receipts s) of
       Some (i, row) \<Rightarrow>
         bindR (stable_id ''index_commit_receipt'' (pdict (IndexReceipt_identity (rw_value row)))) (\<lambda>expected.
         mapr (\<lambda>_. s) (reject_store
           (i \<noteq> ic_id (rw_value row) \<or> ic_id (rw_value row) \<noteq> expected
            \<or> \<not> same_index_content (ic_payload (rw_value row)) p)
           ''immutable index commit receipt changed for run or snapshot''))
     | None \<Rightarrow>
         put_row lg_index_receipts lg_index_receipts_update
           (\<lambda>s. constraint (map_of (lg_runs s) (tr_id r) \<noteq> None) ''FOREIGN KEY constraint failed'')
           (ic_id receipt) receipt (IndexReceipt_val receipt) s)))"

definition index_lineage_check :: "index_batch \<Rightarrow> DesignSnapshot \<Rightarrow> unit res" where
  "index_lineage_check q d =
     (case ib_materialization q of
        None \<Rightarrow> Inr ()
      | Some a \<Rightarrow> checks
          [reject_store (am_status a \<noteq> ''materialized'')
             ''successful index materialization must use materialized status'',
           reject_store (am_result_snapshot_id a \<noteq> Some (cg_snapshot_id (ib_graph q))
               \<or> Some (am_action_id a) \<noteq> ds_action_id d \<or> Some (am_parent_snapshot_id a) \<noteq> ds_parent_snapshot_id d)
             ''successful index materialization does not match graph snapshot lineage''] ())"

definition index_batch_ids :: "index_batch \<Rightarrow> string list" where
  "index_batch_ids q = tr_id (ib_run q) # map ob_id (ib_observations q) @ map dv_id (ib_derivations q)
     @ map vr_id (ib_verifications q) @ map dg_id (ib_diagnostics q)"

definition complete_aggregate_ids :: "index_batch \<Rightarrow> string list" where
  "complete_aggregate_ids q = map dv_id (filter is_complete_standard_aggregate (ib_derivations q))"

definition claim_index_authorization ::
  "index_batch \<Rightarrow> index_consumer option \<Rightarrow> Ledger \<Rightarrow> IndexPayload option res" where
  "claim_index_authorization q authorization s =
     (if complete_aggregate_ids q \<noteq> []
      then (case authorization of
         None \<Rightarrow> Inl (StoreError ''complete standard static aggregates require a pipeline index authorization'')
       | Some consume \<Rightarrow>
           (case consume (ib_graph q) (ib_derivations q)
                   (sort_key ar_id (artifacts_of s (cg_snapshot_id (ib_graph q)))) of
              Inr p \<Rightarrow> Inr (Some p)
            | Inl e \<Rightarrow> if lookup_or_value_error e
                       then Inl (StoreError ''invalid pipeline index authorization: '') else Inl e))
      else if authorization \<noteq> None
      then Inl (StoreError ''pipeline index authorization supplied without a complete standard static aggregate'')
      else Inr None)"

definition index_batch_check :: "index_batch \<Rightarrow> Ledger \<Rightarrow> unit res" where
  "index_batch_check q s =
     (let snap = cg_snapshot_id (ib_graph q); r = ib_run q in
      bindR (case map_of (lg_snapshots s) snap of None \<Rightarrow> Inl (KeyError snap) | Some row \<Rightarrow> Inr (rw_value row)) (\<lambda>d.
      checks
        [reject_store (tr_snapshot_id r \<noteq> snap) ''index run belongs to another snapshot'',
         reject_store (tr_stage r \<noteq> ''index'' \<or> tr_status r \<notin> {''succeeded'', ''cached''})
           ''successful index commit requires a succeeded/cached index run'',
         index_lineage_check q d,
         batch_snapshots_check snap (ib_observations q) (ib_derivations q) (ib_verifications q) (ib_diagnostics q),
         reject_store (has_duplicates (index_batch_ids q)) ''index batch contains duplicate evidence identifiers'']
        ()))"

definition commit_index_rows :: "store_env \<Rightarrow> string \<Rightarrow> index_batch \<Rightarrow> IndexPayload option \<Rightarrow> Ledger \<Rightarrow> Ledger res" where
  "commit_index_rows env now q p s =
     (let r = ib_run q;
          verification_ids = map vr_id (ib_verifications q); diagnostic_ids = map dg_id (ib_diagnostics q);
          evidence_ids = map ob_id (ib_observations q) @ map dv_id (ib_derivations q)
                         @ verification_ids @ diagnostic_ids in
      bindR (save_graph (ib_graph q) s) (\<lambda>s.
      bindR (add_run_in env evidence_ids diagnostic_ids None r s) (\<lambda>s.
      bindR (add_observations env (ib_observations q) s) (\<lambda>s.
      bindR (add_derivations env (complete_aggregate_ids q) (ib_derivations q) s) (\<lambda>s.
      bindR (add_verifications env (verification_ids @ diagnostic_ids) (ib_verifications q) s) (\<lambda>s.
      bindR (add_diagnostics (ib_diagnostics q) s) (\<lambda>s.
      bindR (case ib_materialization q of None \<Rightarrow> Inr s | Some a \<Rightarrow> add_materializations env [a] s) (\<lambda>s.
      bindR (add_run env r s) (\<lambda>s.
      bindR (case p of None \<Rightarrow> Inr s | Some x \<Rightarrow> add_index_commit_receipt r x s) (\<lambda>s.
      set_active_snapshot now (ib_project_id q) (cg_snapshot_id (ib_graph q)) s))))))))))"

definition commit_index_success ::
  "store_env \<Rightarrow> string \<Rightarrow> index_batch \<Rightarrow> index_consumer option \<Rightarrow> Ledger \<Rightarrow> Ledger res" where
  "commit_index_success env now q authorization s =
     bindR (index_batch_check q s) (\<lambda>_.
     bindR (claim_index_authorization q authorization s) (\<lambda>p.
     commit_index_rows env now q p s))"

definition failed_materialization_check :: "ToolRun \<Rightarrow> ActionMaterialization option \<Rightarrow> Ledger \<Rightarrow> unit res" where
  "failed_materialization_check r materialization s =
     (case materialization of
        None \<Rightarrow> Inr ()
      | Some a \<Rightarrow>
          bindR (reject_store (am_status a \<notin> {''no_op'', ''failed''})
                   ''failed index materialization must use no_op or failed status'') (\<lambda>_.
          case map_of (lg_snapshots s) (tr_snapshot_id r) of
            None \<Rightarrow> Inl (KeyError (tr_snapshot_id r))
          | Some row \<Rightarrow> reject_store
              (ds_action_id (rw_value row) \<noteq> Some (am_action_id a)
               \<or> ds_parent_snapshot_id (rw_value row) \<noteq> Some (am_parent_snapshot_id a))
              ''failed index materialization does not match candidate snapshot lineage''))"

definition commit_index_failure ::
  "store_env \<Rightarrow> ToolRun \<Rightarrow> Diagnostic list \<Rightarrow> ActionMaterialization option \<Rightarrow> Ledger \<Rightarrow> Ledger res" where
  "commit_index_failure env r diagnostics materialization s =
     bindR (checks
       [reject_store (tr_stage r \<noteq> ''index'' \<or> tr_status r \<in> {''succeeded'', ''cached''})
          ''failed index commit requires a non-successful index run'',
        failed_materialization_check r materialization s,
        require_batch_snapshot (tr_snapshot_id r) (map dg_snapshot_id diagnostics)
          ''diagnostics belong to another snapshot''] ()) (\<lambda>_.
     bindR (add_run_in env [] (map dg_id diagnostics) None r s) (\<lambda>s.
     bindR (add_diagnostics diagnostics s) (\<lambda>s.
     bindR (case materialization of None \<Rightarrow> Inr s | Some a \<Rightarrow> add_materializations env [a] s) (\<lambda>s.
     add_run env r s))))"

section \<open>Reading snapshots\<close>

definition newest_with_graph :: "Ledger \<Rightarrow> (DesignSnapshot \<Rightarrow> bool) \<Rightarrow> DesignSnapshot option" where
  "newest_with_graph s p =
     find (\<lambda>d. p d \<and> map_of (lg_graph_views s) (ds_id d) \<noteq> None) (map (rw_value \<circ> snd) (lg_snapshots s))"

text \<open>The rows of \<open>project_state\<close> keep their place when they are updated, so the newest is the last.\<close>

definition active_snapshots :: "Ledger \<Rightarrow> (string \<times> DesignSnapshot) list" where
  "active_snapshots s = List.map_filter
     (\<lambda>(project, snap, _). map_option (\<lambda>row. (project, rw_value row)) (map_of (lg_snapshots s) snap))
     (lg_project_state s)"

definition latest_snapshot :: "Ledger \<Rightarrow> string option \<Rightarrow> DesignSnapshot option" where
  "latest_snapshot s project_id =
     (case given project_id of
        p # _ \<Rightarrow> (case map_of (active_snapshots s) p of
                    Some d \<Rightarrow> Some d | None \<Rightarrow> newest_with_graph s (\<lambda>d. ds_project_id d = p))
      | [] \<Rightarrow> (case active_snapshots s of
                [] \<Rightarrow> newest_with_graph s (\<lambda>_. True) | xs \<Rightarrow> Some (snd (last xs))))"

definition latest_candidate :: "Ledger \<Rightarrow> string option \<Rightarrow> DesignSnapshot option" where
  "latest_candidate s project_id =
     find (\<lambda>d. list_all (\<lambda>p. ds_project_id d = p) (given project_id)) (map (rw_value \<circ> snd) (lg_snapshots s))"

definition has_graph :: "Ledger \<Rightarrow> string \<Rightarrow> bool" where
  "has_graph s snap \<longleftrightarrow> map_of (lg_graph_views s) snap \<noteq> None"

definition has_valid_execution_commit :: "store_env \<Rightarrow> Ledger \<Rightarrow> string \<Rightarrow> string \<Rightarrow> bool res" where
  "has_valid_execution_commit env s snap run_id =
     (case run_in s snap run_id of
        None \<Rightarrow> Inr False
      | Some r \<Rightarrow>
          if \<not> run_claims_tool_truth r then Inr False
          else (case validate_execution_attestation env s r None True of
                  Inr _ \<Rightarrow> Inr True
                | Inl (StoreError _) \<Rightarrow> Inr False
                | Inl e \<Rightarrow> if lookup_or_value_error e then Inr False else Inl e))"

definition snapshot_artifacts :: "Ledger \<Rightarrow> string \<Rightarrow> ArtifactRef list" where
  "snapshot_artifacts s snap = sort_key ar_id (artifacts_of s snap)"

definition snapshot_observations :: "Ledger \<Rightarrow> string \<Rightarrow> string option \<Rightarrow> string option \<Rightarrow> Observation list" where
  "snapshot_observations s snap subject predicate =
     filter (\<lambda>b. list_all (\<lambda>i. ob_subject_id b = i) (given subject)
               \<and> list_all (\<lambda>p. ob_predicate b = p) (given predicate))
       (sort_key ob_id (map snd (rows_of ob_snapshot_id (lg_observations s) snap)))"

definition result_snapshots :: "Ledger \<Rightarrow> string \<Rightarrow> string option \<Rightarrow> DesignSnapshot list" where
  "result_snapshots s action_id parent =
     sort_key ds_id (filter (\<lambda>d. ds_action_id d = Some action_id
        \<and> (parent = None \<or> ds_parent_snapshot_id d = parent)) (all_snapshots s))"

end
