(* ===== verification/Ledger_Growth.thy ===== *)
theory Ledger_Growth
  imports Ledger_Commit
begin

text \<open>
  The ledger is append-only.  \<open>extends s t\<close> says that every table of content-addressed rows of
  \<open>t\<close> is that of \<open>s\<close> with rows under new keys in front.  The locale \<open>ledger_table\<close> is the
  interface of a table as \<open>put_row\<close> uses it: reading, and inserting under a new key; its
  interpretations are the tables of the model.  \<open>ledger_step\<close> is one accepted write.
\<close>

section \<open>Growth of a table\<close>

definition grows :: "('k \<times> 'v) list \<Rightarrow> ('k \<times> 'v) list \<Rightarrow> bool" where
  "grows a b \<longleftrightarrow> (\<exists>n. b = n @ a \<and> distinct (map fst n) \<and> fst ` set n \<inter> fst ` set a = {})"

lemma grows_refl [simp]: "grows a a"
  by (simp add: grows_def)

lemma grows_Cons: "map_of a k = None \<Longrightarrow> grows a ((k, v) # a)"
  unfolding grows_def by (rule exI [of _ "[(k, v)]"]) (auto simp: map_of_eq_None_iff)

lemma grows_trans: "grows a b \<Longrightarrow> grows b c \<Longrightarrow> grows a c"
  unfolding grows_def
proof (elim exE conjE)
  fix n m
  assume "b = n @ a" "c = m @ b" "distinct (map fst n)" "distinct (map fst m)"
    "fst ` set n \<inter> fst ` set a = {}" "fst ` set m \<inter> fst ` set b = {}"
  then show "\<exists>k. c = k @ a \<and> distinct (map fst k) \<and> fst ` set k \<inter> fst ` set a = {}"
    by (intro exI [of _ "m @ n"]) auto
qed

lemma grows_lookup: "grows a b \<Longrightarrow> map_of a k = Some v \<Longrightarrow> map_of b k = Some v"
  unfolding grows_def
proof (elim exE conjE)
  fix n
  assume a: "map_of a k = Some v" and b: "b = n @ a" and d: "fst ` set n \<inter> fst ` set a = {}"
  from a have "k \<in> fst ` set a" by (force dest: map_of_SomeD)
  with d have "k \<notin> fst ` set n" by blast
  then have "map_of n k = None" by (simp add: map_of_eq_None_iff)
  with a b show "map_of b k = Some v" by (simp add: map_add_def)
qed

lemma grows_set: "grows a b \<Longrightarrow> set a \<subseteq> set b"
  by (auto simp: grows_def)

lemma grows_distinct: "grows a b \<Longrightarrow> distinct (map fst a) \<Longrightarrow> distinct (map fst b)"
  by (auto simp: grows_def)

section \<open>Growth of the ledger\<close>

definition extends :: "Ledger \<Rightarrow> Ledger \<Rightarrow> bool" where
  "extends s t \<longleftrightarrow>
     grows (lg_snapshots s) (lg_snapshots t) \<and> grows (lg_snapshot_manifests s) (lg_snapshot_manifests t)
     \<and> grows (lg_graph_views s) (lg_graph_views t) \<and> grows (lg_artifacts s) (lg_artifacts t)
     \<and> grows (lg_snapshot_artifacts s) (lg_snapshot_artifacts t)
     \<and> grows (lg_entities s) (lg_entities t) \<and> grows (lg_relations s) (lg_relations t)
     \<and> grows (lg_correspondences s) (lg_correspondences t) \<and> grows (lg_observations s) (lg_observations t)
     \<and> grows (lg_derivations s) (lg_derivations t) \<and> grows (lg_runs s) (lg_runs t)
     \<and> grows (lg_index_receipts s) (lg_index_receipts t)
     \<and> grows (lg_attestations s) (lg_attestations t) \<and> grows (lg_receipts s) (lg_receipts t)
     \<and> grows (lg_diagnostics s) (lg_diagnostics t) \<and> grows (lg_verifications s) (lg_verifications t)
     \<and> grows (lg_variants s) (lg_variants t) \<and> grows (lg_materializations s) (lg_materializations t)
     \<and> grows (lg_predictions s) (lg_predictions t)"

lemma extends_refl [simp]: "extends s s"
  by (simp add: extends_def)

lemma extends_trans: "extends s t \<Longrightarrow> extends t u \<Longrightarrow> extends s u"
  unfolding extends_def by (elim conjE, intro conjI) (erule (1) grows_trans)+

text \<open>The tables one by one.\<close>

lemma extendsD:
  assumes "extends s t"
  shows "grows (lg_snapshots s) (lg_snapshots t)" "grows (lg_snapshot_manifests s) (lg_snapshot_manifests t)"
    "grows (lg_graph_views s) (lg_graph_views t)" "grows (lg_artifacts s) (lg_artifacts t)"
    "grows (lg_snapshot_artifacts s) (lg_snapshot_artifacts t)"
    "grows (lg_entities s) (lg_entities t)" "grows (lg_relations s) (lg_relations t)"
    "grows (lg_correspondences s) (lg_correspondences t)" "grows (lg_observations s) (lg_observations t)"
    "grows (lg_derivations s) (lg_derivations t)" "grows (lg_runs s) (lg_runs t)"
    "grows (lg_index_receipts s) (lg_index_receipts t)"
    "grows (lg_attestations s) (lg_attestations t)" "grows (lg_receipts s) (lg_receipts t)"
    "grows (lg_diagnostics s) (lg_diagnostics t)" "grows (lg_verifications s) (lg_verifications t)"
    "grows (lg_variants s) (lg_variants t)" "grows (lg_materializations s) (lg_materializations t)"
    "grows (lg_predictions s) (lg_predictions t)"
  using assms by (simp_all add: extends_def)

lemma foldR_growth:
  "foldR f s xs = Inr t \<Longrightarrow> (\<And>s x t. f s x = Inr t \<Longrightarrow> extends s t) \<Longrightarrow> extends s t"
proof (induction xs arbitrary: s)
  case (Cons x xs)
  from Cons.prems(1) obtain u where "f s x = Inr u" "foldR f u xs = Inr t" by (auto simp: bindR_Inr_iff)
  with Cons.IH Cons.prems(2) show ?case by (meson extends_trans)
qed simp

section \<open>The interface of a table\<close>

locale ledger_table =
  fixes get :: "Ledger \<Rightarrow> (string \<times> 'a row) list"
    and upd :: "((string \<times> 'a row) list \<Rightarrow> (string \<times> 'a row) list) \<Rightarrow> Ledger \<Rightarrow> Ledger"
  assumes get_upd: "get (upd f s) = f (get s)"
    and upd_grows: "grows (get s) (f (get s)) \<Longrightarrow> extends s (upd f s)"
    and get_grows: "extends s t \<Longrightarrow> grows (get s) (get t)"
    and upd_constant: "upd f s = upd (\<lambda>_. f (get s)) s"
    and upd_id: "upd (\<lambda>_. get s) s = s"
begin

text \<open>What an accepted \<open>put_row\<close> did: the row was there with this payload, or it is now.\<close>

lemma put_row_cases:
  assumes "put_row get upd schema i v view s = Inr t"
  obtains (present) payload row where "canonical_json view = Inr payload" "map_of (get s) i = Some row"
      "rw_payload row = payload" "t = s"
  | (inserted) payload where "canonical_json view = Inr payload" "map_of (get s) i = None" "schema s = Inr ()"
      "t = upd (Cons (i, \<lparr>rw_value = v, rw_payload = payload\<rparr>)) s"
proof -
  from assms obtain payload b where p: "canonical_json view = Inr payload"
    and b: "immutable_payload (get s) rw_payload i payload = Inr b"
    and t: "(if b then Inr s else bindR (schema s) (\<lambda>_. Inr (upd (Cons (i, \<lparr>rw_value = v, rw_payload = payload\<rparr>)) s))) = Inr t"
    by (auto simp: put_row_def bindR_Inr_iff)
  show thesis
  proof (cases "map_of (get s) i")
    case None
    with b t have "schema s = Inr ()" "t = upd (Cons (i, \<lparr>rw_value = v, rw_payload = payload\<rparr>)) s"
      by (auto simp: immutable_payload_def bindR_Inr_iff)
    with p None show thesis by (rule inserted)
  next
    case (Some row)
    with b t have "rw_payload row = payload" "t = s" by (auto simp: immutable_payload_def split: if_splits)
    with p Some show thesis by (intro present)
  qed
qed

lemma put_row_extends: "put_row get upd schema i v view s = Inr t \<Longrightarrow> extends s t"
  by (erule put_row_cases) (auto intro: upd_grows grows_Cons)

lemma put_row_table:
  assumes "put_row get upd schema i v view s = Inr t"
  shows "get t = get s \<or> (\<exists>payload. map_of (get s) i = None \<and> canonical_json view = Inr payload
           \<and> get t = (i, \<lparr>rw_value = v, rw_payload = payload\<rparr>) # get s)"
  using assms by (rule put_row_cases) (simp_all add: get_upd)

lemma put_row_lookup:
  assumes "put_row get upd schema i v view s = Inr t"
  shows "\<exists>row. map_of (get t) i = Some row \<and> canonical_json view = Inr (rw_payload row)
           \<and> (rw_value row = v \<or> map_of (get s) i = Some row)"
  using assms by (rule put_row_cases) (simp_all add: get_upd)

text \<open>Nothing else changes.\<close>

lemma put_row_frame: "put_row get upd schema i v view s = Inr t \<Longrightarrow> \<exists>rows. t = upd (\<lambda>_. rows) s"
  by (erule put_row_cases) (metis upd_id, metis upd_constant)

text \<open>Rows are never replaced.\<close>

lemma row_kept: "extends s t \<Longrightarrow> map_of (get s) i = Some row \<Longrightarrow> map_of (get t) i = Some row"
  by (rule grows_lookup [OF get_grows])

end

interpretation correspondences: ledger_table lg_correspondences lg_correspondences_update
  by unfold_locales (simp_all add: extends_def)

interpretation observations: ledger_table lg_observations lg_observations_update
  by unfold_locales (simp_all add: extends_def)

interpretation derivations: ledger_table lg_derivations lg_derivations_update
  by unfold_locales (simp_all add: extends_def)

interpretation runs: ledger_table lg_runs lg_runs_update
  by unfold_locales (simp_all add: extends_def)

interpretation index_receipts: ledger_table lg_index_receipts lg_index_receipts_update
  by unfold_locales (simp_all add: extends_def)

interpretation attestations: ledger_table lg_attestations lg_attestations_update
  by unfold_locales (simp_all add: extends_def)

interpretation receipts: ledger_table lg_receipts lg_receipts_update
  by unfold_locales (simp_all add: extends_def)

interpretation diagnostics: ledger_table lg_diagnostics lg_diagnostics_update
  by unfold_locales (simp_all add: extends_def)

interpretation verifications: ledger_table lg_verifications lg_verifications_update
  by unfold_locales (simp_all add: extends_def)

interpretation variants: ledger_table lg_variants lg_variants_update
  by unfold_locales (simp_all add: extends_def)

interpretation materializations: ledger_table lg_materializations lg_materializations_update
  by unfold_locales (simp_all add: extends_def)

section \<open>Every operation only adds rows\<close>

named_theorems growth

lemma save_project_extends [growth]: "save_project m s = Inr t \<Longrightarrow> extends s t"
  by (auto simp: save_project_def bindR_Inr_iff extends_def split: if_splits)

lemma insert_snapshot_extends: "insert_snapshot d s = Inr t \<Longrightarrow> extends s t"
  by (cases "map_of (lg_snapshots s) (ds_id d)") (auto simp: insert_snapshot_def bindR_Inr_iff mapr_Inr_iff extends_def grows_Cons)

lemma insert_snapshot_manifest_extends: "insert_snapshot_manifest i p s = Inr t \<Longrightarrow> extends s t"
  by (cases "map_of (lg_snapshot_manifests s) i") (auto simp: insert_snapshot_manifest_def mapr_Inr_iff extends_def grows_Cons)

lemma attach_artifact_extends: "extends s (attach_artifact snap a s)"
  by (simp add: attach_artifact_def attached_def extends_def grows_Cons)

lemma store_artifact_extends: "store_artifact future snap s a = Inr t \<Longrightarrow> extends s t"
proof -
  assume "store_artifact future snap s a = Inr t"
  then obtain payload u where u: "insert_artifact a payload s = Inr u" and t: "t = attach_artifact snap a u"
    by (auto simp: store_artifact_def bindR_Inr_iff mapr_Inr_iff)
  from u have "extends s u"
    by (cases "map_of (lg_artifacts s) (ar_id a)") (auto simp: insert_artifact_def mapr_Inr_iff extends_def grows_Cons)
  then show ?thesis unfolding t using attach_artifact_extends extends_trans by blast
qed

lemma save_snapshot_extends [growth]: "save_snapshot d artifacts s = Inr t \<Longrightarrow> extends s t"
  unfolding save_snapshot_def bindR_Inr_iff
  by (meson extends_trans foldR_growth insert_snapshot_extends insert_snapshot_manifest_extends
      store_artifact_extends)

lemma add_artifact_in_extends: "add_artifact_in future snap s a = Inr t \<Longrightarrow> extends s t"
  unfolding add_artifact_in_def bindR_Inr_iff using store_artifact_extends by blast

lemma add_artifact_extends [growth]: "add_artifact snap a s = Inr t \<Longrightarrow> extends s t"
  unfolding add_artifact_def by (rule add_artifact_in_extends)

lemma save_view_extends: "save_view g s = Inr t \<Longrightarrow> extends s t"
  by (cases "map_of (lg_graph_views s) (cg_snapshot_id g)") (auto simp: save_view_def bindR_Inr_iff mapr_Inr_iff extends_def grows_Cons)

lemma save_entity_extends: "save_entity snap s e = Inr t \<Longrightarrow> extends s t"
  by (cases "map_of (lg_entities s) (snap, en_id e)") (auto simp: save_entity_def bindR_Inr_iff mapr_Inr_iff extends_def grows_Cons)

lemma save_relation_extends: "save_relation snap s e = Inr t \<Longrightarrow> extends s t"
  by (cases "map_of (lg_relations s) (snap, rl_id e)") (auto simp: save_relation_def bindR_Inr_iff mapr_Inr_iff extends_def grows_Cons)

lemma index_entities_extends: "index_entities g s = Inr t \<Longrightarrow> extends s t"
  by (auto simp: index_entities_def mapr_Inr_iff extends_def split: if_splits)

lemma save_graph_extends [growth]: "save_graph g s = Inr t \<Longrightarrow> extends s t"
proof -
  assume "save_graph g s = Inr t"
  then obtain s1 s2 s3 where "save_view g s = Inr s1"
    and 2: "foldR (save_entity (cg_snapshot_id g)) s1 (sort_key en_id (map snd (cg_entities g))) = Inr s2"
    and 3: "foldR (save_relation (cg_snapshot_id g)) s2 (sort_key rl_id (map snd (cg_relations g))) = Inr s3"
    and 4: "index_entities g s3 = Inr t"
    unfolding save_graph_def bindR_Inr_iff by blast
  then have "extends s s1" by (simp add: save_view_extends)
  moreover have "extends s1 s2" by (rule foldR_growth [OF 2 save_entity_extends])
  moreover have "extends s2 s3" by (rule foldR_growth [OF 3 save_relation_extends])
  moreover have "extends s3 t" by (rule index_entities_extends [OF 4])
  ultimately show ?thesis by (meson extends_trans)
qed

lemma set_active_snapshot_extends [growth]: "set_active_snapshot now p snap s = Inr t \<Longrightarrow> extends s t"
  by (auto simp: set_active_snapshot_def bindR_Inr_iff extends_def)

lemma add_correspondences_extends [growth]: "add_correspondences cs s = Inr t \<Longrightarrow> extends s t"
  unfolding add_correspondences_def
  by (erule foldR_growth, unfold add_correspondence_row_def bindR_Inr_iff, elim exE conjE)
     (rule correspondences.put_row_extends)

lemma add_observation_extends: "add_observation env future s b = Inr t \<Longrightarrow> extends s t"
  unfolding add_observation_def bindR_Inr_iff by (elim exE conjE) (rule observations.put_row_extends)

lemma add_observations_extends [growth]: "add_observations env bs s = Inr t \<Longrightarrow> extends s t"
  unfolding add_observations_def by (erule foldR_growth) (rule add_observation_extends)

lemma add_diagnostic_extends: "add_diagnostic future s d = Inr t \<Longrightarrow> extends s t"
  unfolding add_diagnostic_def bindR_Inr_iff by (elim exE conjE) (rule diagnostics.put_row_extends)

lemma add_diagnostics_extends [growth]: "add_diagnostics ds s = Inr t \<Longrightarrow> extends s t"
  unfolding add_diagnostics_def by (erule foldR_growth) (rule add_diagnostic_extends)

lemma add_run_in_extends: "add_run_in env E G x r s = Inr t \<Longrightarrow> extends s t"
  unfolding add_run_in_def bindR_Inr_iff by (elim exE conjE) (rule runs.put_row_extends)

lemma add_run_extends [growth]: "add_run env r s = Inr t \<Longrightarrow> extends s t"
  unfolding add_run_def by (rule add_run_in_extends)

lemma add_execution_commit_extends: "add_execution_commit env r x s = Inr t \<Longrightarrow> extends s t"
  unfolding add_execution_commit_def bindR_Inr_iff
  by (elim exE conjE) (rule extends_trans [OF attestations.put_row_extends receipts.put_row_extends])

lemma add_derivation_extends: "add_derivation env future authorized s d = Inr t \<Longrightarrow> extends s t"
  unfolding add_derivation_def bindR_Inr_iff by (elim exE conjE) (rule derivations.put_row_extends)

lemma add_derivations_extends [growth]: "add_derivations env authorized ds s = Inr t \<Longrightarrow> extends s t"
  unfolding add_derivations_def by (erule foldR_growth) (rule add_derivation_extends)

lemma add_verification_extends: "add_verification env R E s v = Inr t \<Longrightarrow> extends s t"
  unfolding add_verification_def bindR_Inr_iff by (elim exE conjE) (rule verifications.put_row_extends)

lemma add_verifications_extends [growth]: "add_verifications env E vs s = Inr t \<Longrightarrow> extends s t"
  unfolding add_verifications_def by (erule foldR_growth) (rule add_verification_extends)

lemma add_variant_extends [growth]: "add_variant a s = Inr t \<Longrightarrow> extends s t"
  unfolding add_variant_def bindR_Inr_iff by (elim exE conjE) (rule variants.put_row_extends)

lemma add_materialization_row_extends: "add_materialization_row env G s a = Inr t \<Longrightarrow> extends s t"
  unfolding add_materialization_row_def bindR_Inr_iff Let_def by (elim exE conjE) (rule materializations.put_row_extends)

lemma add_materializations_extends [growth]: "add_materializations env as s = Inr t \<Longrightarrow> extends s t"
  unfolding add_materializations_def by (erule foldR_growth) (rule add_materialization_row_extends)

lemma add_prediction_extends [growth]: "add_prediction p s = Inr t \<Longrightarrow> extends s t"
proof -
  assume "add_prediction p s = Inr t"
  then obtain q payload b where b: "prediction_present s q payload = Inr b"
    and t: "t = (if b then s else s\<lparr>lg_predictions := (pe_id q, \<lparr>rw_value = q, rw_payload = payload\<rparr>) # lg_predictions s\<rparr>)"
    by (auto simp: add_prediction_def bindR_Inr_iff split: if_splits)
  show ?thesis
  proof (cases b)
    case False
    with b have "map_of (lg_predictions s) (pe_id q) = None"
      by (auto simp: prediction_present_def immutable_payload_def split: option.splits if_splits)
    with t False show ?thesis by (simp add: extends_def grows_Cons)
  qed (use t in simp)
qed

lemma add_index_commit_receipt_extends: "add_index_commit_receipt r p s = Inr t \<Longrightarrow> extends s t"
  unfolding add_index_commit_receipt_def bindR_Inr_iff
  by (elim exE conjE) (auto simp: bindR_Inr_iff mapr_Inr_iff split: option.splits intro: index_receipts.put_row_extends)

section \<open>The commits\<close>

lemma option_extends: "(case x of None \<Rightarrow> Inr s | Some y \<Rightarrow> f y s) = Inr t
    \<Longrightarrow> (\<And>y s t. f y s = Inr t \<Longrightarrow> extends s t) \<Longrightarrow> extends s t"
  by (cases x) auto

text \<open>The states a commit of a run goes through.\<close>

lemma commit_run_rows_states:
  assumes "commit_run_rows env q x s = Inr t"
  obtains E G s1 s2 s3 s4 s5 s6 s7
  where "E = map ob_id (rb_observations q) @ map dv_id (rb_derivations q) @ map vr_id (rb_verifications q) @ G"
    and "G = map dg_id (rb_diagnostics q)"
    and "foldR (add_artifact_in [tr_id (rb_run q)] (tr_snapshot_id (rb_run q))) s (rb_artifacts q) = Inr s1"
    and "add_run_in env E G x (rb_run q) s1 = Inr s2"
    and "(case x of None \<Rightarrow> Inr s2 | Some y \<Rightarrow> add_execution_commit env (rb_run q) y s2) = Inr s3"
    and "add_observations env (rb_observations q) s3 = Inr s4"
    and "add_derivations env [] (rb_derivations q) s4 = Inr s5"
    and "add_verifications env (map vr_id (rb_verifications q) @ G) (rb_verifications q) s5 = Inr s6"
    and "add_diagnostics (rb_diagnostics q) s6 = Inr s7"
    and "add_run env (rb_run q) s7 = Inr t"
  using assms unfolding commit_run_rows_def Let_def bindR_Inr_iff by (elim exE conjE) (rule that; (assumption | rule refl))

lemma commit_index_rows_states:
  assumes "commit_index_rows env now q p s = Inr t"
  obtains E G s1 s2 s3 s4 s5 s6 s7 s8 s9
  where "E = map ob_id (ib_observations q) @ map dv_id (ib_derivations q) @ map vr_id (ib_verifications q) @ G"
    and "G = map dg_id (ib_diagnostics q)"
    and "save_graph (ib_graph q) s = Inr s1"
    and "add_run_in env E G None (ib_run q) s1 = Inr s2"
    and "add_observations env (ib_observations q) s2 = Inr s3"
    and "add_derivations env (complete_aggregate_ids q) (ib_derivations q) s3 = Inr s4"
    and "add_verifications env (map vr_id (ib_verifications q) @ G) (ib_verifications q) s4 = Inr s5"
    and "add_diagnostics (ib_diagnostics q) s5 = Inr s6"
    and "(case ib_materialization q of None \<Rightarrow> Inr s6 | Some a \<Rightarrow> add_materializations env [a] s6) = Inr s7"
    and "add_run env (ib_run q) s7 = Inr s8"
    and "(case p of None \<Rightarrow> Inr s8 | Some y \<Rightarrow> add_index_commit_receipt (ib_run q) y s8) = Inr s9"
    and "set_active_snapshot now (ib_project_id q) (cg_snapshot_id (ib_graph q)) s9 = Inr t"
  using assms unfolding commit_index_rows_def Let_def bindR_Inr_iff by (elim exE conjE) (rule that; (assumption | rule refl))

lemma commit_run_rows_extends: "commit_run_rows env q x s = Inr t \<Longrightarrow> extends s t"
proof (erule commit_run_rows_states)
  fix E G s1 s2 s3 s4 s5 s6 s7
  assume "foldR (add_artifact_in [tr_id (rb_run q)] (tr_snapshot_id (rb_run q))) s (rb_artifacts q) = Inr s1"
    "add_run_in env E G x (rb_run q) s1 = Inr s2"
    "(case x of None \<Rightarrow> Inr s2 | Some y \<Rightarrow> add_execution_commit env (rb_run q) y s2) = Inr s3"
    "add_observations env (rb_observations q) s3 = Inr s4"
    "add_derivations env [] (rb_derivations q) s4 = Inr s5"
    "add_verifications env (map vr_id (rb_verifications q) @ G) (rb_verifications q) s5 = Inr s6"
    "add_diagnostics (rb_diagnostics q) s6 = Inr s7" "add_run env (rb_run q) s7 = Inr t"
  then have "extends s s1" "extends s1 s2" "extends s2 s3" "extends s3 s4" "extends s4 s5" "extends s5 s6"
    "extends s6 s7" "extends s7 t"
    by (auto elim: growth foldR_growth option_extends
        intro: add_artifact_in_extends add_run_in_extends add_execution_commit_extends)
  then show ?thesis by (meson extends_trans)
qed

lemma commit_index_rows_extends: "commit_index_rows env now q p s = Inr t \<Longrightarrow> extends s t"
proof (erule commit_index_rows_states)
  fix E G s1 s2 s3 s4 s5 s6 s7 s8 s9
  assume "save_graph (ib_graph q) s = Inr s1" "add_run_in env E G None (ib_run q) s1 = Inr s2"
    "add_observations env (ib_observations q) s2 = Inr s3"
    "add_derivations env (complete_aggregate_ids q) (ib_derivations q) s3 = Inr s4"
    "add_verifications env (map vr_id (ib_verifications q) @ G) (ib_verifications q) s4 = Inr s5"
    "add_diagnostics (ib_diagnostics q) s5 = Inr s6"
    "(case ib_materialization q of None \<Rightarrow> Inr s6 | Some a \<Rightarrow> add_materializations env [a] s6) = Inr s7"
    "add_run env (ib_run q) s7 = Inr s8"
    "(case p of None \<Rightarrow> Inr s8 | Some y \<Rightarrow> add_index_commit_receipt (ib_run q) y s8) = Inr s9"
    "set_active_snapshot now (ib_project_id q) (cg_snapshot_id (ib_graph q)) s9 = Inr t"
  then have "extends s s1" "extends s1 s2" "extends s2 s3" "extends s3 s4" "extends s4 s5" "extends s5 s6"
    "extends s6 s7" "extends s7 s8" "extends s8 s9" "extends s9 t"
    by (auto elim: growth option_extends intro: add_run_in_extends add_index_commit_receipt_extends)
  then show ?thesis by (meson extends_trans)
qed

lemma commit_run_result_extends: "fst (commit_run_result env q a s z) = Inr t \<Longrightarrow> extends s t"
  by (auto simp: commit_run_result_def bindR_Inr_iff split: prod.splits sum.splits
      intro: commit_run_rows_extends)

lemma commit_index_success_extends: "commit_index_success env now q a s = Inr t \<Longrightarrow> extends s t"
  by (auto simp: commit_index_success_def bindR_Inr_iff intro: commit_index_rows_extends)

lemma commit_index_failure_extends: "commit_index_failure env r ds m s = Inr t \<Longrightarrow> extends s t"
proof -
  assume "commit_index_failure env r ds m s = Inr t"
  then obtain s1 s2 s3 where "add_run_in env [] (map dg_id ds) None r s = Inr s1"
    "add_diagnostics ds s1 = Inr s2"
    "(case m of None \<Rightarrow> Inr s2 | Some a \<Rightarrow> add_materializations env [a] s2) = Inr s3" "add_run env r s3 = Inr t"
    unfolding commit_index_failure_def bindR_Inr_iff by blast
  then have "extends s s1" "extends s1 s2" "extends s2 s3" "extends s3 t"
    by (auto elim: growth option_extends intro: add_run_in_extends)
  then show ?thesis by (meson extends_trans)
qed

section \<open>Accepted writes\<close>

inductive store_step :: "Ledger \<Rightarrow> Ledger \<Rightarrow> bool" where
  project: "save_project m s = Inr t \<Longrightarrow> store_step s t"
| snapshot: "save_snapshot d artifacts s = Inr t \<Longrightarrow> store_step s t"
| graph: "save_graph g s = Inr t \<Longrightarrow> store_step s t"
| activate: "set_active_snapshot now p snap s = Inr t \<Longrightarrow> store_step s t"
| artifact: "add_artifact snap a s = Inr t \<Longrightarrow> store_step s t"
| correspondence: "add_correspondences cs s = Inr t \<Longrightarrow> store_step s t"
| observation: "add_observations env bs s = Inr t \<Longrightarrow> store_step s t"
| diagnostic: "add_diagnostics gs s = Inr t \<Longrightarrow> store_step s t"
| run: "add_run env r s = Inr t \<Longrightarrow> store_step s t"
| derivation: "add_derivations env [] ds s = Inr t \<Longrightarrow> store_step s t"
| verification: "add_verifications env [] vs s = Inr t \<Longrightarrow> store_step s t"
| run_result: "fst (commit_run_result env q authorization s z) = Inr t \<Longrightarrow> store_step s t"
| index_success: "commit_index_success env now ib consume s = Inr t \<Longrightarrow> store_step s t"
| index_failure: "commit_index_failure env r gs m s = Inr t \<Longrightarrow> store_step s t"
| variant: "add_variant va s = Inr t \<Longrightarrow> store_step s t"
| materialization: "add_materializations env ms s = Inr t \<Longrightarrow> store_step s t"
| prediction: "add_prediction pe s = Inr t \<Longrightarrow> store_step s t"

inductive ledger_run :: "Ledger \<Rightarrow> Ledger \<Rightarrow> bool" where
  none: "ledger_run s s"
| one: "ledger_run s t \<Longrightarrow> store_step t u \<Longrightarrow> ledger_run s u"

lemma store_step_extends: "store_step s t \<Longrightarrow> extends s t"
  by (induction rule: store_step.induct)
     (erule growth commit_run_result_extends commit_index_success_extends commit_index_failure_extends)+

lemma ledger_run_extends: "ledger_run s t \<Longrightarrow> extends s t"
  by (induction rule: ledger_run.induct) (auto intro: store_step_extends extends_trans)

end
