(* ===== verification/Ledger_Lineage.thy ===== *)
theory Ledger_Lineage
  imports Ledger_State
begin

text \<open>
  What the lineage walks of the ledger compute: the contributions of every row reachable over
  citations, and an error exactly when a row on the way reaches itself.
\<close>

section \<open>Walks and reachability\<close>

definition cites :: "'a lineage \<Rightarrow> (string \<times> string) set" where
  "cites g = {(i, j). \<exists>own cited. map_of g i = Some (own, cited) \<and> j \<in> set cited}"

definition contributes :: "'a lineage \<Rightarrow> string \<Rightarrow> 'a \<Rightarrow> bool" where
  "contributes g i x \<longleftrightarrow> (\<exists>own cited. map_of g i = Some (own, cited) \<and> x \<in> set own)"

lemma mapR_raises: "mapR f xs = Inl e \<Longrightarrow> \<exists>x \<in> set xs. f x = Inl e"
  by (induction xs) (auto simp: bindR_Inl_iff)

lemma mapR_member: "mapR f xs = Inr ys \<Longrightarrow> x \<in> set xs \<Longrightarrow> \<exists>y \<in> set ys. f x = Inr y"
  by (induction xs arbitrary: ys) (auto simp: bindR_Inr_iff)

lemma walk_cases:
  assumes "walk msg g stack i = r"
  obtains (cycle) "i \<in> set stack" "r = Inl (StoreError msg)"
  | (unknown) "i \<notin> set stack" "map_of g i = None" "r = Inr []"
  | (row) own cited where "i \<notin> set stack" "map_of g i = Some (own, cited)"
      "r = mapr (\<lambda>xss. own @ concat xss) (mapR (walk msg g (i # stack)) cited)"
  using assms by (subst (asm) walk.simps) (auto split: if_splits option.splits)

lemma reachable_split:
  "(i, k) \<in> (cites g)\<^sup>* \<longleftrightarrow> k = i \<or> (\<exists>own cited. map_of g i = Some (own, cited) \<and> (\<exists>j \<in> set cited. (j, k) \<in> (cites g)\<^sup>*))"
proof
  assume "(i, k) \<in> (cites g)\<^sup>*"
  then show "k = i \<or> (\<exists>own cited. map_of g i = Some (own, cited) \<and> (\<exists>j \<in> set cited. (j, k) \<in> (cites g)\<^sup>*))"
    by (cases rule: converse_rtranclE) (auto simp: cites_def)
next
  assume "k = i \<or> (\<exists>own cited. map_of g i = Some (own, cited) \<and> (\<exists>j \<in> set cited. (j, k) \<in> (cites g)\<^sup>*))"
  then show "(i, k) \<in> (cites g)\<^sup>*"
    by (auto simp: cites_def intro: converse_rtrancl_into_rtrancl)
qed

lemma walk_result:
  "walk msg g stack i = Inr ys \<Longrightarrow> set ys = {x. \<exists>k. (i, k) \<in> (cites g)\<^sup>* \<and> contributes g k x}"
proof (induction msg g stack i arbitrary: ys rule: walk.induct)
  case (1 msg g stack i)
  from "1.prems" show ?case
  proof (cases rule: walk_cases)
    case unknown
    then have "(i, k) \<in> (cites g)\<^sup>* \<longleftrightarrow> k = i" for k by (subst reachable_split) simp
    with unknown show ?thesis by (auto simp: contributes_def)
  next
    case (row own cited)
    from row obtain xss where xss: "mapR (walk msg g (i # stack)) cited = Inr xss" and ys: "ys = own @ concat xss"
      using row(3) [symmetric] by (auto simp: mapr_Inr_iff)
    have IH: "set zs = {x. \<exists>k. (j, k) \<in> (cites g)\<^sup>* \<and> contributes g k x}"
      if "j \<in> set cited" "walk msg g (i # stack) j = Inr zs" for j zs
      by (rule "1.IH" [OF row(1,2) _ that(1,2)]) simp
    have "x \<in> set (concat xss) \<longleftrightarrow> (\<exists>j \<in> set cited. \<exists>k. (j, k) \<in> (cites g)\<^sup>* \<and> contributes g k x)" for x
    proof
      assume "x \<in> set (concat xss)"
      then obtain zs where "zs \<in> set xss" "x \<in> set zs" by auto
      moreover from this obtain j where "j \<in> set cited" "walk msg g (i # stack) j = Inr zs"
        using mapR_set [OF xss] by blast
      ultimately show "\<exists>j \<in> set cited. \<exists>k. (j, k) \<in> (cites g)\<^sup>* \<and> contributes g k x" using IH by blast
    next
      assume "\<exists>j \<in> set cited. \<exists>k. (j, k) \<in> (cites g)\<^sup>* \<and> contributes g k x"
      then obtain j where j: "j \<in> set cited" and x: "\<exists>k. (j, k) \<in> (cites g)\<^sup>* \<and> contributes g k x" by blast
      then obtain zs where "zs \<in> set xss" "walk msg g (i # stack) j = Inr zs" using mapR_member [OF xss] by blast
      with IH [OF j] x show "x \<in> set (concat xss)" by auto
    qed
    moreover have "(\<exists>k. (i, k) \<in> (cites g)\<^sup>* \<and> contributes g k x) \<longleftrightarrow>
        x \<in> set own \<or> (\<exists>j \<in> set cited. \<exists>k. (j, k) \<in> (cites g)\<^sup>* \<and> contributes g k x)" for x
      using row(2) by (subst reachable_split) (auto simp: contributes_def)
    ultimately show ?thesis unfolding ys by auto
  qed simp
qed

lemma walk_error:
  "walk msg g stack i = Inl e \<Longrightarrow> e = StoreError msg \<and>
     (\<exists>k. (i, k) \<in> (cites g)\<^sup>* \<and> (k \<in> set stack \<or> (k, k) \<in> (cites g)\<^sup>+))"
proof (induction msg g stack i rule: walk.induct)
  case (1 msg g stack i)
  from "1.prems" show ?case
  proof (cases rule: walk_cases)
    case cycle
    then show ?thesis by auto
  next
    case (row own cited)
    have "mapR (walk msg g (i # stack)) cited = Inl e"
      using row(3) [symmetric] by (simp add: mapr_def bindR_Inl_iff)
    then obtain j where j: "j \<in> set cited" "walk msg g (i # stack) j = Inl e" using mapR_raises by blast
    have "e = StoreError msg \<and> (\<exists>k. (j, k) \<in> (cites g)\<^sup>* \<and> (k \<in> set (i # stack) \<or> (k, k) \<in> (cites g)\<^sup>+))"
      by (rule "1.IH" [OF row(1,2) _ j]) simp
    then obtain k where e: "e = StoreError msg" and k: "(j, k) \<in> (cites g)\<^sup>*" "k \<in> set (i # stack) \<or> (k, k) \<in> (cites g)\<^sup>+"
      by blast
    have ij: "(i, j) \<in> cites g" using row(2) j(1) by (auto simp: cites_def)
    from k(2) have "k = i \<or> k \<in> set stack \<or> (k, k) \<in> (cites g)\<^sup>+" by auto
    then show ?thesis
    proof (elim disjE)
      assume "k = i"
      with ij k(1) have "(i, i) \<in> (cites g)\<^sup>+" by (auto intro: rtrancl_into_trancl2)
      with e show ?thesis by blast
    qed (use e ij k(1) in \<open>auto intro: converse_rtrancl_into_rtrancl\<close>)
  qed simp
qed

lemma walk_row:
  assumes "walk msg g stack i = Inr ys" "map_of g i = Some (own, cited)"
  obtains xss where "mapR (walk msg g (i # stack)) cited = Inr xss"
  using assms by (subst (asm) walk.simps) (auto simp: mapr_Inr_iff split: if_splits)

lemma walk_reaches:
  "(i, k) \<in> (cites g)\<^sup>+ \<Longrightarrow> walk msg g stack i = Inr ys \<Longrightarrow> \<exists>st zs. walk msg g st k = Inr zs \<and> i \<in> set st"
proof (induction rule: trancl_induct)
  case (base k)
  then obtain own cited where g: "map_of g i = Some (own, cited)" and k: "k \<in> set cited" by (auto simp: cites_def)
  from base.prems g obtain xss where "mapR (walk msg g (i # stack)) cited = Inr xss" by (rule walk_row)
  with k show ?case using mapR_member by (metis list.set_intros(1))
next
  case (step j k)
  then obtain st zs where j: "walk msg g st j = Inr zs" and i: "i \<in> set st" by blast
  from step.hyps(2) obtain own cited where g: "map_of g j = Some (own, cited)" and k: "k \<in> set cited"
    by (auto simp: cites_def)
  from j g obtain xss where "mapR (walk msg g (j # st)) cited = Inr xss" by (rule walk_row)
  with k i show ?case using mapR_member by (metis list.set_intros(2))
qed

lemma walk_acyclic:
  assumes w: "walk msg g stack i = Inr ys" and k: "(i, k) \<in> (cites g)\<^sup>*"
  shows "(k, k) \<notin> (cites g)\<^sup>+"
proof
  assume c: "(k, k) \<in> (cites g)\<^sup>+"
  have "\<exists>st zs. walk msg g st k = Inr zs"
    using k w walk_reaches [OF _ w] by (metis rtranclD)
  then obtain st zs where "walk msg g st k = Inr zs" by blast
  then obtain st' zs' where "walk msg g st' k = Inr zs'" "k \<in> set st'" using walk_reaches [OF c] by blast
  then show False by (auto elim: walk_cases)
qed

text \<open>A lineage that leads from every row to one of lower rank has no cycle.\<close>

lemma walk_ranked:
  fixes rank :: "string \<Rightarrow> nat"
  assumes "\<And>i j. (i, j) \<in> cites g \<Longrightarrow> P i \<Longrightarrow> P j \<and> rank j < rank i" and "P i"
  shows "\<exists>ys. walk msg g [] i = Inr ys"
proof -
  have down: "P k \<and> rank k \<le> rank j" if "(j, k) \<in> (cites g)\<^sup>*" "P j" for j k
    using that by (induction rule: rtrancl_induct) (use assms(1) in \<open>force+\<close>)
  have "(k, k) \<notin> (cites g)\<^sup>+" if "P k" for k
  proof
    assume "(k, k) \<in> (cites g)\<^sup>+"
    then obtain j where "(k, j) \<in> cites g" "(j, k) \<in> (cites g)\<^sup>*" by (meson tranclD)
    with assms(1) that down show False by (metis leD)
  qed
  with down assms(2) have "\<not> (\<exists>k. (i, k) \<in> (cites g)\<^sup>* \<and> (k, k) \<in> (cites g)\<^sup>+)" by blast
  then show ?thesis using walk_error [of msg g "[]" i] by (cases "walk msg g [] i") auto
qed

section \<open>Producers of evidence\<close>

text \<open>C10: the producer runs of a piece of evidence are those named by the observations,
  verifications and artifacts it rests on, directly or over any chain of citations; and the
  search is refused exactly when some row on the way rests on itself.\<close>

theorem producer_runs_are_the_reachable_ones:
  "case evidence_producer_runs s snap i of
     Inr runs \<Rightarrow> set runs = {r. \<exists>k. (i, k) \<in> (cites (producer_lineage s snap))\<^sup>* \<and> contributes (producer_lineage s snap) k r}
       \<and> \<not> (\<exists>k. (i, k) \<in> (cites (producer_lineage s snap))\<^sup>* \<and> (k, k) \<in> (cites (producer_lineage s snap))\<^sup>+)
   | Inl e \<Rightarrow> e = StoreError ''cyclic evidence producer lineage''
       \<and> (\<exists>k. (i, k) \<in> (cites (producer_lineage s snap))\<^sup>* \<and> (k, k) \<in> (cites (producer_lineage s snap))\<^sup>+)"
proof (cases "evidence_producer_runs s snap i")
  case (Inl e)
  then show ?thesis using walk_error [of _ "producer_lineage s snap" "[]"] by (auto simp: evidence_producer_runs_def)
next
  case (Inr runs)
  then have w: "walk ''cyclic evidence producer lineage'' (producer_lineage s snap) [] i = Inr runs"
    by (simp add: evidence_producer_runs_def)
  show ?thesis using walk_result [OF w] walk_acyclic [OF w] by (simp add: Inr)
qed

end
