(* ===== verification/Ledger_Steps.thy ===== *)
theory Ledger_Steps
  imports Ledger_Growth
begin

text \<open>
  Every accepted write is a sequence of \<open>row_step\<close>s, the private operations of the ledger that
  insert one kind of row each.  What holds of every row of a table when it is inserted, and
  is not undone by more rows, holds of every row of a reachable ledger: the rule
  \<open>stored_rows_justified\<close>.
\<close>

section \<open>Steps\<close>

inductive row_step :: "Ledger \<Rightarrow> Ledger \<Rightarrow> bool" where
  project_row: "save_project m s = Inr t \<Longrightarrow> row_step s t"
| snapshot_rows: "save_snapshot d artifacts s = Inr t \<Longrightarrow> row_step s t"
| graph_rows: "save_graph g s = Inr t \<Longrightarrow> row_step s t"
| active_row: "set_active_snapshot now p snap s = Inr t \<Longrightarrow> row_step s t"
| artifact_row: "add_artifact_in future snap s a = Inr t \<Longrightarrow> row_step s t"
| correspondence_row: "add_correspondence_row s c = Inr t \<Longrightarrow> row_step s t"
| observation_row: "add_observation env [] s b = Inr t \<Longrightarrow> row_step s t"
| diagnostic_row: "add_diagnostic [] s g = Inr t \<Longrightarrow> row_step s t"
| run_row: "add_run_in env E G x r s = Inr t \<Longrightarrow> row_step s t"
| attestation_row: "add_execution_commit env r y s = Inr t \<Longrightarrow> row_step s t"
| derivation_row: "add_derivation env [] authorized s dv = Inr t \<Longrightarrow> row_step s t"
| verification_row: "add_verification env [] E s v = Inr t \<Longrightarrow> row_step s t"
| variant_row: "add_variant va s = Inr t \<Longrightarrow> row_step s t"
| materialization_row: "add_materialization_row env F s am = Inr t \<Longrightarrow> row_step s t"
| prediction_row: "add_prediction pe s = Inr t \<Longrightarrow> row_step s t"
| index_receipt_row: "add_index_commit_receipt r ix s = Inr t \<Longrightarrow> row_step s t"

lemma add_correspondence_row_extends: "add_correspondence_row s c = Inr t \<Longrightarrow> extends s t"
  unfolding add_correspondence_row_def bindR_Inr_iff by (elim exE conjE) (rule correspondences.put_row_extends)

lemma row_step_extends: "row_step s t \<Longrightarrow> extends s t"
  by (induction rule: row_step.induct)
     (erule growth add_artifact_in_extends add_observation_extends add_diagnostic_extends add_run_in_extends
        add_execution_commit_extends add_derivation_extends add_verification_extends add_materialization_row_extends
        add_index_commit_receipt_extends add_correspondence_row_extends)+

abbreviation row_steps :: "Ledger \<Rightarrow> Ledger \<Rightarrow> bool" where
  "row_steps \<equiv> row_step\<^sup>*\<^sup>*"

lemma foldR_steps:
  "foldR f s xs = Inr t \<Longrightarrow> (\<And>s x t. f s x = Inr t \<Longrightarrow> row_step s t) \<Longrightarrow> row_steps s t"
proof (induction xs arbitrary: s)
  case (Cons x xs)
  from Cons.prems(1) obtain u where u: "f s x = Inr u" "foldR f u xs = Inr t" by (auto simp: bindR_Inr_iff)
  have "row_step s u" by (rule Cons.prems(2) [OF u(1)])
  moreover have "row_steps u t" by (rule Cons.IH [OF u(2) Cons.prems(2)])
  ultimately show ?case by (rule converse_rtranclp_into_rtranclp)
qed simp

named_theorems stepwise

lemma list_steps [stepwise]:
  "add_correspondences cs s = Inr t \<Longrightarrow> row_steps s t" "add_observations env bs s = Inr t \<Longrightarrow> row_steps s t"
  "add_diagnostics gs s = Inr t \<Longrightarrow> row_steps s t" "add_derivations env authorized ds s = Inr t \<Longrightarrow> row_steps s t"
  "add_verifications env E vs s = Inr t \<Longrightarrow> row_steps s t" "add_materializations env ms s = Inr t \<Longrightarrow> row_steps s t"
  "foldR (add_artifact_in future snap) s as = Inr t \<Longrightarrow> row_steps s t"
  unfolding add_correspondences_def add_observations_def add_diagnostics_def add_derivations_def
    add_verifications_def add_materializations_def
  by (erule foldR_steps, erule row_step.intros)+

lemma option_steps: "(case x of None \<Rightarrow> Inr s | Some y \<Rightarrow> f y s) = Inr t
    \<Longrightarrow> (\<And>y s t. f y s = Inr t \<Longrightarrow> row_steps s t) \<Longrightarrow> row_steps s t"
  by (cases x) auto

lemma single_steps [stepwise]:
  "save_project m s = Inr t \<Longrightarrow> row_steps s t" "save_snapshot d artifacts s = Inr t \<Longrightarrow> row_steps s t"
  "save_graph g s = Inr t \<Longrightarrow> row_steps s t" "set_active_snapshot now p snap s = Inr t \<Longrightarrow> row_steps s t"
  "add_artifact snap a s = Inr t \<Longrightarrow> row_steps s t" "add_run env r s = Inr t \<Longrightarrow> row_steps s t"
  "add_run_in env E G x r s = Inr t \<Longrightarrow> row_steps s t" "add_execution_commit env r y s = Inr t \<Longrightarrow> row_steps s t"
  "add_variant va s = Inr t \<Longrightarrow> row_steps s t" "add_prediction pe s = Inr t \<Longrightarrow> row_steps s t"
  "add_index_commit_receipt r ix s = Inr t \<Longrightarrow> row_steps s t"
  unfolding add_artifact_def add_run_def by (rule r_into_rtranclp, erule row_step.intros)+

lemma commit_run_rows_steps:
  assumes "commit_run_rows env q x s = Inr t"
  shows "row_steps s t"
  using assms
proof (rule commit_run_rows_states)
  fix E G s1 s2 s3 s4 s5 s6 s7
  assume "foldR (add_artifact_in [tr_id (rb_run q)] (tr_snapshot_id (rb_run q))) s (rb_artifacts q) = Inr s1"
    "add_run_in env E G x (rb_run q) s1 = Inr s2"
    "(case x of None \<Rightarrow> Inr s2 | Some y \<Rightarrow> add_execution_commit env (rb_run q) y s2) = Inr s3"
    "add_observations env (rb_observations q) s3 = Inr s4"
    "add_derivations env [] (rb_derivations q) s4 = Inr s5"
    "add_verifications env (map vr_id (rb_verifications q) @ G) (rb_verifications q) s5 = Inr s6"
    "add_diagnostics (rb_diagnostics q) s6 = Inr s7" "add_run env (rb_run q) s7 = Inr t"
  then have "row_steps s s1" "row_steps s1 s2" "row_steps s2 s3" "row_steps s3 s4" "row_steps s4 s5"
    "row_steps s5 s6" "row_steps s6 s7" "row_steps s7 t"
    by (auto elim: stepwise option_steps)
  then show ?thesis by (meson rtranclp_trans)
qed

lemma commit_index_rows_steps:
  assumes "commit_index_rows env now q p s = Inr t"
  shows "row_steps s t"
  using assms
proof (rule commit_index_rows_states)
  fix E G s1 s2 s3 s4 s5 s6 s7 s8 s9
  assume "save_graph (ib_graph q) s = Inr s1" "add_run_in env E G None (ib_run q) s1 = Inr s2"
    "add_observations env (ib_observations q) s2 = Inr s3"
    "add_derivations env (complete_aggregate_ids q) (ib_derivations q) s3 = Inr s4"
    "add_verifications env (map vr_id (ib_verifications q) @ G) (ib_verifications q) s4 = Inr s5"
    "add_diagnostics (ib_diagnostics q) s5 = Inr s6"
    "(case ib_materialization q of None \<Rightarrow> Inr s6 | Some a \<Rightarrow> add_materializations env [a] s6) = Inr s7"
    "add_run env (ib_run q) s7 = Inr s8"
    "(case p of None \<Rightarrow> Inr s8 | Some y \<Rightarrow> add_index_commit_receipt (ib_run q) y s8) = Inr s9"
    "set_active_snapshot now (ib_project_id q) (cg_snapshot_id (ib_graph q)) s9 = Inr t"
  then have "row_steps s s1" "row_steps s1 s2" "row_steps s2 s3" "row_steps s3 s4" "row_steps s4 s5"
    "row_steps s5 s6" "row_steps s6 s7" "row_steps s7 s8" "row_steps s8 s9" "row_steps s9 t"
    by (auto elim: stepwise option_steps)
  then show ?thesis by (meson rtranclp_trans)
qed

lemma commit_index_failure_states:
  assumes "commit_index_failure env r gs m s = Inr t"
  obtains s1 s2 s3 where "add_run_in env [] (map dg_id gs) None r s = Inr s1" "add_diagnostics gs s1 = Inr s2"
    "(case m of None \<Rightarrow> Inr s2 | Some a \<Rightarrow> add_materializations env [a] s2) = Inr s3" "add_run env r s3 = Inr t"
  using assms unfolding commit_index_failure_def bindR_Inr_iff by blast

lemma commit_index_failure_steps: "commit_index_failure env r gs m s = Inr t \<Longrightarrow> row_steps s t"
proof (erule commit_index_failure_states)
  fix s1 s2 s3
  assume "add_run_in env [] (map dg_id gs) None r s = Inr s1" "add_diagnostics gs s1 = Inr s2"
    "(case m of None \<Rightarrow> Inr s2 | Some a \<Rightarrow> add_materializations env [a] s2) = Inr s3" "add_run env r s3 = Inr t"
  then have "row_steps s s1" "row_steps s1 s2" "row_steps s2 s3" "row_steps s3 t"
    by (auto elim: stepwise option_steps)
  then show ?thesis by (meson rtranclp_trans)
qed

lemma commit_run_result_rows:
  assumes "fst (commit_run_result env q a s z) = Inr t"
  obtains x z' where "claim_authorization q a z = (Inr x, z')" "run_batch_check q = Inr ()"
    "commit_run_rows env q x s = Inr t"
  using assms by (auto simp: commit_run_result_def bindR_Inr_iff split: prod.splits sum.splits)

lemma commit_index_success_rows:
  assumes "commit_index_success env now q a s = Inr t"
  obtains p where "index_batch_check q s = Inr ()" "commit_index_rows env now q p s = Inr t"
  using assms by (auto simp: commit_index_success_def bindR_Inr_iff)

lemma commit_run_result_steps: "fst (commit_run_result env q a s z) = Inr t \<Longrightarrow> row_steps s t"
  by (erule commit_run_result_rows) (rule commit_run_rows_steps)

lemma commit_index_success_steps: "commit_index_success env now q a s = Inr t \<Longrightarrow> row_steps s t"
  by (erule commit_index_success_rows) (rule commit_index_rows_steps)

lemma store_step_rows: "store_step s t \<Longrightarrow> row_steps s t"
  by (induction rule: store_step.induct)
     (erule stepwise commit_run_result_steps commit_index_success_steps commit_index_failure_steps)+

lemma ledger_run_rows: "ledger_run s t \<Longrightarrow> row_steps s t"
  by (induction rule: ledger_run.induct) (auto intro: store_step_rows rtranclp_trans)

section \<open>Frames\<close>

text \<open>The tables an operation can change; every other one is as it was.\<close>

named_theorems frame

lemma project_frame [frame]: "save_project m s = Inr t \<Longrightarrow> \<exists>rows. t = s\<lparr>lg_projects := rows\<rparr>"
  by (rule exI [of _ "lg_projects t"]) (auto simp: save_project_def bindR_Inr_iff split: if_splits)

lemma insert_artifact_frame: "insert_artifact a payload s = Inr t \<Longrightarrow> \<exists>x. t = s\<lparr>lg_artifacts := x\<rparr>"
  by (rule exI [of _ "lg_artifacts t"]) (auto simp: insert_artifact_def mapr_Inr_iff split: option.splits)

lemma attach_artifact_frame: "\<exists>y. attach_artifact snap a s = s\<lparr>lg_snapshot_artifacts := y\<rparr>"
  by (rule exI [of _ "lg_snapshot_artifacts (attach_artifact snap a s)"]) (auto simp: attach_artifact_def)

lemma store_artifact_frame:
  "store_artifact future snap s a = Inr t \<Longrightarrow> \<exists>x y. t = s\<lparr>lg_artifacts := x, lg_snapshot_artifacts := y\<rparr>"
  unfolding store_artifact_def bindR_Inr_iff mapr_Inr_iff
  using insert_artifact_frame attach_artifact_frame by metis

lemma store_artifacts_frame:
  "foldR (store_artifact future snap) s as = Inr t \<Longrightarrow> \<exists>x y. t = s\<lparr>lg_artifacts := x, lg_snapshot_artifacts := y\<rparr>"
proof (induction as arbitrary: s)
  case Nil
  then show ?case by (intro exI [of _ "lg_artifacts t"] exI [of _ "lg_snapshot_artifacts t"]) simp
next
  case (Cons a as)
  then obtain u where "store_artifact future snap s a = Inr u" "foldR (store_artifact future snap) u as = Inr t"
    by (auto simp: bindR_Inr_iff)
  moreover from this Cons.IH obtain x y x' y' where "u = s\<lparr>lg_artifacts := x', lg_snapshot_artifacts := y'\<rparr>"
    "t = u\<lparr>lg_artifacts := x, lg_snapshot_artifacts := y\<rparr>"
    using store_artifact_frame by metis
  ultimately have "t = s\<lparr>lg_artifacts := x, lg_snapshot_artifacts := y\<rparr>" by simp
  then show ?case by blast
qed

lemma snapshot_frame [frame]:
  "save_snapshot d artifacts s = Inr t \<Longrightarrow> \<exists>a b x y. t = s\<lparr>lg_snapshots := a, lg_snapshot_manifests := b,
     lg_artifacts := x, lg_snapshot_artifacts := y\<rparr>"
proof -
  assume "save_snapshot d artifacts s = Inr t"
  then obtain e p i as u v where u: "insert_snapshot e s = Inr u" and v: "insert_snapshot_manifest i p u = Inr v"
    and t: "foldR (store_artifact [] i) v as = Inr t"
    unfolding save_snapshot_def bindR_Inr_iff by blast
  from u have "\<exists>a. u = s\<lparr>lg_snapshots := a\<rparr>"
    by (intro exI [of _ "lg_snapshots u"]) (auto simp: insert_snapshot_def bindR_Inr_iff mapr_Inr_iff split: option.splits)
  moreover from v have "\<exists>b. v = u\<lparr>lg_snapshot_manifests := b\<rparr>"
    by (intro exI [of _ "lg_snapshot_manifests v"]) (auto simp: insert_snapshot_manifest_def mapr_Inr_iff split: option.splits)
  ultimately show ?thesis using store_artifacts_frame [OF t] by auto
qed

lemma artifact_frame [frame]:
  "add_artifact_in future snap s a = Inr t \<Longrightarrow> \<exists>x y. t = s\<lparr>lg_artifacts := x, lg_snapshot_artifacts := y\<rparr>"
  unfolding add_artifact_in_def bindR_Inr_iff using store_artifact_frame by blast

lemma foldR_frame:
  assumes "foldR f s xs = Inr t" and "\<And>s x t. f s x = Inr t \<Longrightarrow> \<exists>v. t = upd v s" and "s = upd w s"
    and "\<And>v w s. upd v (upd w s) = upd v s"
  shows "\<exists>v. t = upd v s"
  using assms(1,3)
proof (induction xs arbitrary: s w)
  case Nil
  then show ?case by auto
next
  case (Cons x xs)
  from Cons.prems(1) obtain u where f: "f s x = Inr u" "foldR f u xs = Inr t" by (auto simp: bindR_Inr_iff)
  from assms(2) [OF f(1)] obtain v where u: "u = upd v s" ..
  moreover have "u = upd v u" unfolding u by (simp only: assms(4))
  ultimately obtain v' where "t = upd v' u" using Cons.IH [OF f(2)] by blast
  then show ?case unfolding u assms(4) by blast
qed

lemma view_frame: "save_view g s = Inr t \<Longrightarrow> \<exists>v. t = s\<lparr>lg_graph_views := v\<rparr>"
  by (rule exI [of _ "lg_graph_views t"]) (auto simp: save_view_def bindR_Inr_iff mapr_Inr_iff split: option.splits)

lemma entity_frame: "save_entity snap s e = Inr t \<Longrightarrow> \<exists>v. t = s\<lparr>lg_entities := v\<rparr>"
  by (rule exI [of _ "lg_entities t"]) (auto simp: save_entity_def bindR_Inr_iff mapr_Inr_iff split: option.splits)

lemma relation_frame: "save_relation snap s e = Inr t \<Longrightarrow> \<exists>v. t = s\<lparr>lg_relations := v\<rparr>"
  by (rule exI [of _ "lg_relations t"]) (auto simp: save_relation_def bindR_Inr_iff mapr_Inr_iff split: option.splits)

lemma index_frame: "index_entities g s = Inr t \<Longrightarrow> \<exists>v. t = s\<lparr>lg_entities_fts := v\<rparr>"
  by (rule exI [of _ "lg_entities_fts t"]) (auto simp: index_entities_def mapr_Inr_iff split: if_splits)

lemma graph_frame [frame]:
  assumes "save_graph g s = Inr t"
  shows "\<exists>a b c d. t = s\<lparr>lg_graph_views := a, lg_entities := b, lg_relations := c, lg_entities_fts := d\<rparr>"
proof -
  from assms obtain s1 s2 s3 where 1: "save_view g s = Inr s1"
    and 2: "foldR (save_entity (cg_snapshot_id g)) s1 (sort_key en_id (map snd (cg_entities g))) = Inr s2"
    and 3: "foldR (save_relation (cg_snapshot_id g)) s2 (sort_key rl_id (map snd (cg_relations g))) = Inr s3"
    and 4: "index_entities g s3 = Inr t"
    unfolding save_graph_def bindR_Inr_iff by blast
  obtain a where a: "s1 = s\<lparr>lg_graph_views := a\<rparr>" using view_frame [OF 1] by blast
  obtain b where b: "s2 = s1\<lparr>lg_entities := b\<rparr>"
    using foldR_frame [OF 2, where upd = "\<lambda>v s. s\<lparr>lg_entities := v\<rparr>" and w = "lg_entities s1"] entity_frame by auto
  obtain c where c: "s3 = s2\<lparr>lg_relations := c\<rparr>"
    using foldR_frame [OF 3, where upd = "\<lambda>v s. s\<lparr>lg_relations := v\<rparr>" and w = "lg_relations s2"] relation_frame by auto
  obtain d where "t = s3\<lparr>lg_entities_fts := d\<rparr>" using index_frame [OF 4] by blast
  with a b c show ?thesis by auto
qed

lemma active_frame [frame]: "set_active_snapshot now p snap s = Inr t \<Longrightarrow> \<exists>rows. t = s\<lparr>lg_project_state := rows\<rparr>"
  by (auto simp: set_active_snapshot_def bindR_Inr_iff)

lemma correspondence_frame [frame]: "add_correspondence_row s c = Inr t \<Longrightarrow> \<exists>rows. t = s\<lparr>lg_correspondences := rows\<rparr>"
  unfolding add_correspondence_row_def bindR_Inr_iff by (elim exE conjE) (rule correspondences.put_row_frame)

lemma observation_frame [frame]: "add_observation env F s b = Inr t \<Longrightarrow> \<exists>rows. t = s\<lparr>lg_observations := rows\<rparr>"
  unfolding add_observation_def bindR_Inr_iff by (elim exE conjE) (rule observations.put_row_frame)

lemma diagnostic_frame [frame]: "add_diagnostic F s g = Inr t \<Longrightarrow> \<exists>rows. t = s\<lparr>lg_diagnostics := rows\<rparr>"
  unfolding add_diagnostic_def bindR_Inr_iff by (elim exE conjE) (rule diagnostics.put_row_frame)

lemma run_frame [frame]: "add_run_in env E G x r s = Inr t \<Longrightarrow> \<exists>rows. t = s\<lparr>lg_runs := rows\<rparr>"
  unfolding add_run_in_def bindR_Inr_iff by (elim exE conjE) (rule runs.put_row_frame)

lemma attestation_frame [frame]:
  "add_execution_commit env r y s = Inr t \<Longrightarrow> \<exists>a b. t = s\<lparr>lg_attestations := a, lg_receipts := b\<rparr>"
  unfolding add_execution_commit_def bindR_Inr_iff
  by (elim exE conjE) (auto dest!: attestations.put_row_frame receipts.put_row_frame)

lemma derivation_frame [frame]: "add_derivation env F authorized s d = Inr t \<Longrightarrow> \<exists>rows. t = s\<lparr>lg_derivations := rows\<rparr>"
  unfolding add_derivation_def bindR_Inr_iff by (elim exE conjE) (rule derivations.put_row_frame)

lemma verification_frame [frame]: "add_verification env R E s v = Inr t \<Longrightarrow> \<exists>rows. t = s\<lparr>lg_verifications := rows\<rparr>"
  unfolding add_verification_def bindR_Inr_iff by (elim exE conjE) (rule verifications.put_row_frame)

lemma variant_frame [frame]: "add_variant a s = Inr t \<Longrightarrow> \<exists>rows. t = s\<lparr>lg_variants := rows\<rparr>"
  unfolding add_variant_def bindR_Inr_iff by (elim exE conjE) (rule variants.put_row_frame)

lemma materialization_frame [frame]:
  "add_materialization_row env F s a = Inr t \<Longrightarrow> \<exists>rows. t = s\<lparr>lg_materializations := rows\<rparr>"
  unfolding add_materialization_row_def bindR_Inr_iff Let_def by (elim exE conjE) (rule materializations.put_row_frame)

lemma prediction_frame [frame]: "add_prediction p s = Inr t \<Longrightarrow> \<exists>rows. t = s\<lparr>lg_predictions := rows\<rparr>"
  by (rule exI [of _ "lg_predictions t"]) (auto simp: add_prediction_def bindR_Inr_iff split: if_splits)

lemma index_receipt_frame [frame]:
  assumes "add_index_commit_receipt r p s = Inr t"
  shows "\<exists>rows. t = s\<lparr>lg_index_receipts := rows\<rparr>"
proof -
  have same: "\<exists>rows. s = s\<lparr>lg_index_receipts := rows\<rparr>" by (rule exI [of _ "lg_index_receipts s"]) simp
  show ?thesis
    using assms same index_receipts.put_row_frame unfolding add_index_commit_receipt_def bindR_Inr_iff
    by (elim exE conjE) (auto simp: bindR_Inr_iff mapr_Inr_iff split: option.splits)
qed

text \<open>The step that inserts a row of a table.\<close>

lemma new_verification:
  assumes "row_step s t" "x \<in> set (lg_verifications t)" "x \<notin> set (lg_verifications s)"
  obtains env E v where "add_verification env [] E s v = Inr t"
  using assms by cases (auto dest!: frame)

lemma new_derivation:
  assumes "row_step s t" "x \<in> set (lg_derivations t)" "x \<notin> set (lg_derivations s)"
  obtains env authorized d where "add_derivation env [] authorized s d = Inr t"
  using assms by cases (auto dest!: frame)

lemma new_observation:
  assumes "row_step s t" "x \<in> set (lg_observations t)" "x \<notin> set (lg_observations s)"
  obtains env b where "add_observation env [] s b = Inr t"
  using assms by cases (auto dest!: frame)

lemma new_run:
  assumes "row_step s t" "x \<in> set (lg_runs t)" "x \<notin> set (lg_runs s)"
  obtains env E G y r where "add_run_in env E G y r s = Inr t"
  using assms by cases (auto dest!: frame)

lemma new_attestation:
  assumes "row_step s t" "lg_attestations t \<noteq> lg_attestations s"
  obtains env r y where "add_execution_commit env r y s = Inr t"
  using assms by cases (auto dest!: frame)

section \<open>Justification of rows\<close>

lemma row_steps_justified:
  assumes "row_steps s t" and "\<And>x. x \<in> set (get s) \<Longrightarrow> J s x"
    and "\<And>s t x. extends s t \<Longrightarrow> J s x \<Longrightarrow> J t x"
    and "\<And>s t x. row_step s t \<Longrightarrow> x \<in> set (get t) \<Longrightarrow> x \<notin> set (get s) \<Longrightarrow> J t x"
  shows "x \<in> set (get t) \<Longrightarrow> J t x"
  using assms(1)
proof (induction arbitrary: x rule: rtranclp_induct)
  case base
  then show ?case by (rule assms(2))
next
  case (step t u)
  show ?case
  proof (cases "x \<in> set (get t)")
    case True
    with step.IH have "J t x" .
    with row_step_extends [OF step.hyps(2)] show ?thesis by (rule assms(3))
  next
    case False
    with step show ?thesis by (blast intro: assms(4))
  qed
qed

lemma stored_rows_justified:
  assumes "ledger_run (initial_ledger f) t" and "get (initial_ledger f) = []"
    and "\<And>s t x. extends s t \<Longrightarrow> J s x \<Longrightarrow> J t x"
    and "\<And>s t x. row_step s t \<Longrightarrow> x \<in> set (get t) \<Longrightarrow> x \<notin> set (get s) \<Longrightarrow> J t x"
    and "x \<in> set (get t)"
  shows "J t x"
proof (rule row_steps_justified [where get = get, OF ledger_run_rows [OF assms(1)] _ _ _ assms(5)])
  show "J (initial_ledger f) y" if "y \<in> set (get (initial_ledger f))" for y using that by (simp add: assms(2))
qed (fact assms(3) assms(4))+

end
