(* ===== verification/Ledger_Truth.thy ===== *)
theory Ledger_Truth
  imports Ledger_Steps Ledger_Lineage
begin

text \<open>
  What a claim in the ledger rests on: a run that claims tool truth has an attestation that
  closes over it, a passing simulation has clean counts from its own run, and the value of a
  physical gate is the truth of what it says.  Each is an invariant of every sequence of
  accepted writes.
\<close>

section \<open>Rebuilt values\<close>

text \<open>What the write boundary accepts is what it was given.\<close>

lemma revalidated_same:
  "revalidated_run env r = Inr r' \<Longrightarrow> r' = r" "revalidated_observation b = Inr b' \<Longrightarrow> b' = b"
  "revalidated_derivation d = Inr d' \<Longrightarrow> d' = d" "revalidated_verification v = Inr v' \<Longrightarrow> v' = v"
  "revalidated_artifact a = Inr a' \<Longrightarrow> a' = a" "revalidated_diagnostic g = Inr g' \<Longrightarrow> g' = g"
  unfolding revalidated_run_def revalidated_observation_def revalidated_derivation_def revalidated_verification_def
    revalidated_artifact_def revalidated_diagnostic_def
    run.revalidate_iff observation.revalidate_iff derivation.revalidate_iff verification.revalidate_iff
    artifact.revalidate_iff diagnostic.revalidate_iff
  by simp_all

section \<open>Lookups are kept\<close>

lemma row_in_grows: "grows a b \<Longrightarrow> row_in f a snap i = Some v \<Longrightarrow> row_in f b snap i = Some v"
  by (auto simp: row_in_def split: option.splits dest: grows_lookup)

lemma attached_kept: "extends s t \<Longrightarrow> attached s snap i \<Longrightarrow> attached t snap i"
  unfolding attached_def using grows_lookup [OF extendsD(5)] by blast

lemma artifact_in_kept: "extends s t \<Longrightarrow> artifact_in s snap i = Some a \<Longrightarrow> artifact_in t snap i = Some a"
  unfolding artifact_in_def by (auto simp: attached_kept split: if_splits dest: grows_lookup [OF extendsD(4)])

lemma run_in_kept: "extends s t \<Longrightarrow> run_in s snap i = Some r \<Longrightarrow> run_in t snap i = Some r"
  unfolding run_in_def by (rule row_in_grows [OF extendsD(11)])

lemma observation_in_kept: "extends s t \<Longrightarrow> observation_in s snap i = Some b \<Longrightarrow> observation_in t snap i = Some b"
  unfolding observation_in_def by (rule row_in_grows [OF extendsD(9)])

lemma manifest_kept:
  "extends s t \<Longrightarrow> snapshot_manifest_for_evidence s snap = Inr m \<Longrightarrow> snapshot_manifest_for_evidence t snap = Inr m"
  unfolding snapshot_manifest_for_evidence_def bindR_Inr_iff or_store_error_Inr_iff
  using grows_lookup [OF extendsD(2)] by blast

lemma map_filter_full: "length (List.map_filter f xs) = length xs \<longleftrightarrow> (\<forall>x \<in> set xs. f x \<noteq> None)"
proof (induction xs)
  case (Cons x xs)
  have "length (List.map_filter f xs) \<le> length xs" by (simp add: List.map_filter_def)
  with Cons.IH show ?case by (cases "f x") auto
qed simp

lemma map_filter_kept:
  "\<forall>x \<in> set xs. f x \<noteq> None \<Longrightarrow> (\<And>x y. f x = Some y \<Longrightarrow> g x = Some y) \<Longrightarrow> List.map_filter g xs = List.map_filter f xs"
proof (induction xs)
  case (Cons x xs)
  then obtain y where "f x = Some y" "g x = Some y" by force
  with Cons show ?case by simp
qed simp

lemma attested_artifacts_kept:
  assumes "extends s t" "attested_artifacts s r = Inr outputs"
  shows "attested_artifacts t r = Inr outputs"
proof -
  let ?f = "\<lambda>s. List.map_filter (artifact_in s (tr_snapshot_id r)) (tr_output_artifact_ids r)"
  from assms(2) have l: "length (?f s) = length (tr_output_artifact_ids r)" and o: "outputs = ?f s"
    by (auto simp: attested_artifacts_def Let_def res_iff)
  then have "?f t = ?f s"
    by (intro map_filter_kept) (simp_all add: map_filter_full artifact_in_kept [OF assms(1)])
  with l o show ?thesis by (simp add: attested_artifacts_def reject_store_def reject_with_def)
qed

section \<open>Tool truth\<close>

definition table_values :: "(string \<times> 'a row) list \<Rightarrow> 'a set" where
  "table_values table = rw_value ` snd ` set table"

lemma table_values_kept: "grows a b \<Longrightarrow> x \<in> table_values a \<Longrightarrow> x \<in> table_values b"
  unfolding table_values_def using grows_set by blast

lemma table_values_Cons [simp]: "table_values (kv # table) = insert (rw_value (snd kv)) (table_values table)"
  by (simp add: table_values_def)

text \<open>The attestation, the receipt and everything they close over are in the ledger.\<close>

definition attested :: "Ledger \<Rightarrow> ToolRun \<Rightarrow> bool" where
  "attested s r \<longleftrightarrow> (\<exists>x c p snapshot m outputs.
     x \<in> table_values (lg_attestations s) \<and> xa_snapshot_id x = tr_snapshot_id r \<and> xa_run_id x = tr_id r
     \<and> c \<in> table_values (lg_receipts s) \<and> xr_attestation_id c = xa_id x \<and> xr_run_id c = tr_id r
     \<and> execution_commit_receipt_error c x r = Inr None
     \<and> map_of (lg_snapshots s) (tr_snapshot_id r) = Some snapshot
     \<and> snapshot_manifest_for_evidence s (tr_snapshot_id r) = Inr m \<and> attested_artifacts s r = Inr outputs
     \<and> execution_attestation_error p x r (rw_value snapshot) m outputs = Inr None)"

lemma find_value: "find (\<lambda>(_, row). P (rw_value row)) table = Some (i, row) \<Longrightarrow>
    rw_value row \<in> table_values table \<and> P (rw_value row)"
  by (auto simp: find_Some_iff table_values_def) (metis (no_types, lifting) image_eqI nth_mem snd_conv)+

lemma validated_attested:
  assumes "validate_execution_attestation env s r None True = Inr x"
  shows "attested s r"
proof -
  from assms obtain y snapshot m outputs c where y: "stored_attestation s r = Some y"
    and c: "stored_receipt s r y = Some c"
    and rest: "map_of (lg_snapshots s) (tr_snapshot_id r) = Some snapshot"
      "snapshot_manifest_for_evidence s (tr_snapshot_id r) = Inr m" "attested_artifacts s r = Inr outputs"
      "execution_attestation_error (se_parse_iso env) y r (rw_value snapshot) m outputs = Inr None"
      "execution_commit_receipt_error c y r = Inr None"
    unfolding validate_execution_attestation_def bindR_Inr_iff
    by (elim exE conjE) (auto simp: res_iff split: option.splits)
  from y have "y \<in> table_values (lg_attestations s) \<and> xa_snapshot_id y = tr_snapshot_id r \<and> xa_run_id y = tr_id r"
    unfolding stored_attestation_def
    by (auto dest!: find_value [where P = "\<lambda>y. xa_snapshot_id y = tr_snapshot_id r \<and> xa_run_id y = tr_id r"])
  moreover from c have "c \<in> table_values (lg_receipts s) \<and> xr_attestation_id c = xa_id y \<and> xr_run_id c = tr_id r"
    unfolding stored_receipt_def
    by (auto dest!: find_value [where P = "\<lambda>c. xr_snapshot_id c = tr_snapshot_id r \<and> xr_run_id c = tr_id r
           \<and> xr_attestation_id c = xa_id y"])
  ultimately show ?thesis unfolding attested_def using rest by blast
qed

lemma attested_kept: "extends s t \<Longrightarrow> attested s r \<Longrightarrow> attested t r"
  unfolding attested_def
  by (elim exE conjE, intro exI conjI)
     (assumption | erule (1) table_values_kept [OF extendsD(13)] table_values_kept [OF extendsD(14)]
        grows_lookup [OF extendsD(1)] manifest_kept attested_artifacts_kept)+

text \<open>What an accepted run passed.\<close>

lemma accepted_run:
  assumes "add_run_in env E G y r s = Inr t"
  shows "revalidated_run env r = Inr r" "has_snapshot s (tr_snapshot_id r)"
    "run_claims_tool_truth r \<Longrightarrow> \<exists>x. validate_execution_attestation env s r y (y = None) = Inr x"
    "run_artifacts_check s r = Inr ()" "g \<in> set (tr_gates r) \<Longrightarrow> gate_check E s r g = Inr ()"
    "i \<in> set (tr_diagnostics r) \<Longrightarrow> i \<in> set G \<or> diagnostic_in s (tr_snapshot_id r) i \<noteq> None"
    "put_row lg_runs lg_runs_update (\<lambda>s. snapshot_reference s (tr_snapshot_id r)) (tr_id r) r (ToolRun_val r) s = Inr t"
proof -
  from assms obtain q where q: "revalidated_run env r = Inr q" unfolding add_run_in_def bindR_Inr_iff by blast
  then show r: "revalidated_run env r = Inr r" using revalidated_same(1) by metis
  note a = assms [unfolded add_run_in_def r bindR.simps]
  from a show "put_row lg_runs lg_runs_update (\<lambda>s. snapshot_reference s (tr_snapshot_id r)) (tr_id r) r (ToolRun_val r) s = Inr t"
    by (auto simp: bindR_Inr_iff)
  from a show "has_snapshot s (tr_snapshot_id r)" "run_artifacts_check s r = Inr ()"
    by (auto simp: bindR_Inr_iff checks_Cons_iff reject_store_Inr_iff)
  from a show "run_claims_tool_truth r \<Longrightarrow> \<exists>x. validate_execution_attestation env s r y (y = None) = Inr x"
    by (auto simp: bindR_Inr_iff checks_Cons_iff mapr_Inr_iff)
  from a show "g \<in> set (tr_gates r) \<Longrightarrow> gate_check E s r g = Inr ()"
    by (auto simp: bindR_Inr_iff checks_Cons_iff forR_Inr_iff)
  from a show "i \<in> set (tr_diagnostics r) \<Longrightarrow> i \<in> set G \<or> diagnostic_in s (tr_snapshot_id r) i \<noteq> None"
    by (auto simp: bindR_Inr_iff checks_Cons_iff forR_Inr_iff reject_store_Inr_iff)
qed

lemma add_run_validated: "add_run env r s = Inr t \<Longrightarrow> run_claims_tool_truth r \<Longrightarrow> attested s r"
  unfolding add_run_def using accepted_run(3) validated_attested by fastforce

lemma inserted_run:
  assumes "add_run_in env E G x r s = Inr t" "kv \<in> set (lg_runs t)" "kv \<notin> set (lg_runs s)"
  shows "rw_value (snd kv) = r"
  using runs.put_row_table [OF accepted_run(7) [OF assms(1)]] assms(2,3) by auto

text \<open>The tables other operations leave alone.\<close>

lemma foldR_same: "foldR f s xs = Inr t \<Longrightarrow> (\<And>s x t. f s x = Inr t \<Longrightarrow> get t = get s) \<Longrightarrow> get t = get s"
proof (induction xs arbitrary: s)
  case (Cons x xs)
  from Cons.prems(1) obtain u where u: "f s x = Inr u" "foldR f u xs = Inr t" by (auto simp: bindR_Inr_iff)
  have "get t = get u" by (rule Cons.IH [OF u(2) Cons.prems(2)])
  also have "\<dots> = get s" by (rule Cons.prems(2) [OF u(1)])
  finally show ?case .
qed simp

lemma runs_same:
  "foldR (add_artifact_in future snap) s as = Inr t \<Longrightarrow> lg_runs t = lg_runs s"
  "add_observations env bs s = Inr t \<Longrightarrow> lg_runs t = lg_runs s"
  "add_derivations env authorized ds s = Inr t \<Longrightarrow> lg_runs t = lg_runs s"
  "add_verifications env E vs s = Inr t \<Longrightarrow> lg_runs t = lg_runs s"
  "add_diagnostics gs s = Inr t \<Longrightarrow> lg_runs t = lg_runs s"
  "add_materializations env ms s = Inr t \<Longrightarrow> lg_runs t = lg_runs s"
  "add_correspondences cs s = Inr t \<Longrightarrow> lg_runs t = lg_runs s"
  unfolding add_observations_def add_derivations_def add_verifications_def add_diagnostics_def
    add_materializations_def add_correspondences_def
  by (erule foldR_same, auto dest!: frame)+

lemma committed_run_attested:
  assumes "commit_run_rows env q x s = Inr t" "kv \<in> set (lg_runs t)" "kv \<notin> set (lg_runs s)"
    "run_claims_tool_truth (rw_value (snd kv))"
  shows "attested t (rw_value (snd kv))"
  using assms(1)
proof (rule commit_run_rows_states)
  fix E G s1 s2 s3 s4 s5 s6 s7
  assume 1: "foldR (add_artifact_in [tr_id (rb_run q)] (tr_snapshot_id (rb_run q))) s (rb_artifacts q) = Inr s1"
    and 2: "add_run_in env E G x (rb_run q) s1 = Inr s2"
    and 3: "(case x of None \<Rightarrow> Inr s2 | Some y \<Rightarrow> add_execution_commit env (rb_run q) y s2) = Inr s3"
    and 4: "add_observations env (rb_observations q) s3 = Inr s4"
    and 5: "add_derivations env [] (rb_derivations q) s4 = Inr s5"
    and 6: "add_verifications env (map vr_id (rb_verifications q) @ G) (rb_verifications q) s5 = Inr s6"
    and 7: "add_diagnostics (rb_diagnostics q) s6 = Inr s7" and 8: "add_run env (rb_run q) s7 = Inr t"
  have "lg_runs s3 = lg_runs s2" using 3 by (cases x) (auto dest!: frame)
  then have "lg_runs s7 = lg_runs s2"
    using runs_same(2) [OF 4] runs_same(3) [OF 5] runs_same(4) [OF 6] runs_same(5) [OF 7] by simp
  moreover have "lg_runs s1 = lg_runs s" by (rule runs_same(1) [OF 1])
  ultimately have "kv \<in> set (lg_runs s2) \<and> kv \<notin> set (lg_runs s1) \<or> kv \<notin> set (lg_runs s7)"
    using assms(3) by auto
  then have "rw_value (snd kv) = rb_run q"
    using inserted_run [OF 2] inserted_run [OF 8 [unfolded add_run_def] assms(2)] by blast
  moreover have "extends s7 t" by (rule add_run_extends [OF 8])
  ultimately show ?thesis using add_run_validated [OF 8] assms(4) attested_kept by metis
qed

lemma indexed_run_attested:
  assumes "commit_index_rows env now q p s = Inr t" "kv \<in> set (lg_runs t)" "kv \<notin> set (lg_runs s)"
    "run_claims_tool_truth (rw_value (snd kv))"
  shows "attested t (rw_value (snd kv))"
  using assms(1)
proof (rule commit_index_rows_states)
  fix E G s1 s2 s3 s4 s5 s6 s7 s8 s9
  assume 1: "save_graph (ib_graph q) s = Inr s1" and 2: "add_run_in env E G None (ib_run q) s1 = Inr s2"
    and 3: "add_observations env (ib_observations q) s2 = Inr s3"
    and 4: "add_derivations env (complete_aggregate_ids q) (ib_derivations q) s3 = Inr s4"
    and 5: "add_verifications env (map vr_id (ib_verifications q) @ G) (ib_verifications q) s4 = Inr s5"
    and 6: "add_diagnostics (ib_diagnostics q) s5 = Inr s6"
    and 7: "(case ib_materialization q of None \<Rightarrow> Inr s6 | Some a \<Rightarrow> add_materializations env [a] s6) = Inr s7"
    and 8: "add_run env (ib_run q) s7 = Inr s8"
    and 9: "(case p of None \<Rightarrow> Inr s8 | Some y \<Rightarrow> add_index_commit_receipt (ib_run q) y s8) = Inr s9"
    and 10: "set_active_snapshot now (ib_project_id q) (cg_snapshot_id (ib_graph q)) s9 = Inr t"
  have "lg_runs s7 = lg_runs s6" using 7 by (cases "ib_materialization q") (auto dest: runs_same(6))
  then have "lg_runs s7 = lg_runs s2"
    using runs_same(2) [OF 3] runs_same(3) [OF 4] runs_same(4) [OF 5] runs_same(5) [OF 6] by simp
  moreover have "lg_runs s1 = lg_runs s" using 1 by (auto dest!: frame)
  moreover have "lg_runs s9 = lg_runs s8" using 9 by (cases p) (auto dest!: frame)
  moreover have "lg_runs t = lg_runs s9" using 10 by (auto dest!: frame)
  ultimately have "kv \<in> set (lg_runs s8)"
    and "kv \<in> set (lg_runs s2) \<and> kv \<notin> set (lg_runs s1) \<or> kv \<notin> set (lg_runs s7)"
    using assms(2,3) by auto
  then have "rw_value (snd kv) = ib_run q"
    using inserted_run [OF 2] inserted_run [OF 8 [unfolded add_run_def]] by blast
  moreover have "extends s7 s8" "extends s8 s9" "extends s9 t"
    using 8 9 10 by (auto elim: growth option_extends intro: add_index_commit_receipt_extends)
  then have "extends s7 t" by (meson extends_trans)
  ultimately show ?thesis using add_run_validated [OF 8] assms(4) attested_kept by metis
qed

lemma failed_run_attested:
  assumes "commit_index_failure env r gs m s = Inr t" "kv \<in> set (lg_runs t)" "kv \<notin> set (lg_runs s)"
    "run_claims_tool_truth (rw_value (snd kv))"
  shows "attested t (rw_value (snd kv))"
  using assms(1)
proof (rule commit_index_failure_states)
  fix s1 s2 s3
  assume 1: "add_run_in env [] (map dg_id gs) None r s = Inr s1" and 2: "add_diagnostics gs s1 = Inr s2"
    and 3: "(case m of None \<Rightarrow> Inr s2 | Some a \<Rightarrow> add_materializations env [a] s2) = Inr s3"
    and 4: "add_run env r s3 = Inr t"
  have "lg_runs s3 = lg_runs s2" using 3 by (cases m) (auto dest: runs_same(6))
  then have "lg_runs s3 = lg_runs s1" using runs_same(5) [OF 2] by simp
  then have "kv \<in> set (lg_runs s1) \<and> kv \<notin> set (lg_runs s) \<or> kv \<notin> set (lg_runs s3)" using assms(3) by auto
  then have "rw_value (snd kv) = r"
    using inserted_run [OF 1] inserted_run [OF 4 [unfolded add_run_def] assms(2)] by blast
  moreover have "extends s3 t" by (rule add_run_extends [OF 4])
  ultimately show ?thesis using add_run_validated [OF 4] assms(4) attested_kept by metis
qed

lemma new_run_attested:
  assumes "store_step s t" "kv \<in> set (lg_runs t)" "kv \<notin> set (lg_runs s)" "run_claims_tool_truth (rw_value (snd kv))"
  shows "attested t (rw_value (snd kv))"
  using assms
proof (cases rule: store_step.cases)
  case (run env r)
  then have "rw_value (snd kv) = r" using inserted_run [OF run(1) [unfolded add_run_def]] assms(2,3) by blast
  with add_run_validated [OF run(1)] assms(4) attested_kept [OF add_run_extends [OF run(1)]] show ?thesis by simp
next
  case (run_result env q a z)
  then show ?thesis using committed_run_attested [OF _ assms(2-4)] commit_run_result_rows by metis
next
  case (index_success env now q a)
  then show ?thesis using indexed_run_attested [OF _ assms(2-4)] commit_index_success_rows by metis
next
  case (index_failure env r gs m)
  then show ?thesis using failed_run_attested [OF _ assms(2-4)] by blast
qed (auto simp: add_artifact_def dest: runs_same dest!: frame)

definition tool_truth_attested :: "Ledger \<Rightarrow> bool" where
  "tool_truth_attested s \<longleftrightarrow> (\<forall>r \<in> table_values (lg_runs s). run_claims_tool_truth r \<longrightarrow> attested s r)"

lemma tool_truth_attested_initial: "tool_truth_attested (initial_ledger f)"
  by (simp add: tool_truth_attested_def table_values_def initial_ledger_def)

lemma tool_truth_attested_step:
  assumes "store_step s t" "tool_truth_attested s"
  shows "tool_truth_attested t"
  unfolding tool_truth_attested_def table_values_def
proof (intro ballI impI)
  fix r
  assume "r \<in> rw_value ` snd ` set (lg_runs t)" and c: "run_claims_tool_truth r"
  then obtain kv where kv: "kv \<in> set (lg_runs t)" and r: "r = rw_value (snd kv)" by blast
  show "attested t r"
  proof (cases "kv \<in> set (lg_runs s)")
    case True
    with assms(2) c r have "attested s r" by (auto simp: tool_truth_attested_def table_values_def)
    then show ?thesis by (rule attested_kept [OF store_step_extends [OF assms(1)]])
  next
    case False
    with new_run_attested [OF assms(1) kv] c r show ?thesis by simp
  qed
qed

lemma tool_truth_attested_run: "ledger_run s t \<Longrightarrow> tool_truth_attested s \<Longrightarrow> tool_truth_attested t"
  by (induction rule: ledger_run.induct) (auto intro: tool_truth_attested_step)

section \<open>Attestations\<close>

lemma attestations_same:
  "foldR (add_artifact_in future snap) s as = Inr t \<Longrightarrow> lg_attestations t = lg_attestations s"
  "add_observations env bs s = Inr t \<Longrightarrow> lg_attestations t = lg_attestations s"
  "add_derivations env authorized ds s = Inr t \<Longrightarrow> lg_attestations t = lg_attestations s"
  "add_verifications env E vs s = Inr t \<Longrightarrow> lg_attestations t = lg_attestations s"
  "add_diagnostics gs s = Inr t \<Longrightarrow> lg_attestations t = lg_attestations s"
  "add_materializations env ms s = Inr t \<Longrightarrow> lg_attestations t = lg_attestations s"
  "add_correspondences cs s = Inr t \<Longrightarrow> lg_attestations t = lg_attestations s"
  "add_run env r s = Inr t \<Longrightarrow> lg_attestations t = lg_attestations s"
  unfolding add_observations_def add_derivations_def add_verifications_def add_diagnostics_def
    add_materializations_def add_correspondences_def add_run_def
  by ((erule foldR_same)?, auto dest!: frame)+

lemma attestations_index_rows:
  "commit_index_rows env now q p s = Inr t \<Longrightarrow> lg_attestations t = lg_attestations s"
proof (erule commit_index_rows_states)
  fix E G s1 s2 s3 s4 s5 s6 s7 s8 s9
  assume 1: "save_graph (ib_graph q) s = Inr s1" and 2: "add_run_in env E G None (ib_run q) s1 = Inr s2"
    and 3: "add_observations env (ib_observations q) s2 = Inr s3"
    and 4: "add_derivations env (complete_aggregate_ids q) (ib_derivations q) s3 = Inr s4"
    and 5: "add_verifications env (map vr_id (ib_verifications q) @ G) (ib_verifications q) s4 = Inr s5"
    and 6: "add_diagnostics (ib_diagnostics q) s5 = Inr s6"
    and 7: "(case ib_materialization q of None \<Rightarrow> Inr s6 | Some a \<Rightarrow> add_materializations env [a] s6) = Inr s7"
    and 8: "add_run env (ib_run q) s7 = Inr s8"
    and 9: "(case p of None \<Rightarrow> Inr s8 | Some y \<Rightarrow> add_index_commit_receipt (ib_run q) y s8) = Inr s9"
    and 10: "set_active_snapshot now (ib_project_id q) (cg_snapshot_id (ib_graph q)) s9 = Inr t"
  have "lg_attestations s1 = lg_attestations s" "lg_attestations s2 = lg_attestations s1" "lg_attestations t = lg_attestations s9"
    using 1 2 10 by (auto dest!: frame)
  moreover have "lg_attestations s7 = lg_attestations s6"
    using 7 by (cases "ib_materialization q") (auto dest: attestations_same(6))
  moreover have "lg_attestations s9 = lg_attestations s8" using 9 by (cases p) (auto dest!: frame)
  ultimately show ?thesis
    using attestations_same(2) [OF 3] attestations_same(3) [OF 4] attestations_same(4) [OF 5]
      attestations_same(5) [OF 6] attestations_same(8) [OF 8] by simp
qed

lemma attestations_index_failure:
  "commit_index_failure env r gs m s = Inr t \<Longrightarrow> lg_attestations t = lg_attestations s"
proof (erule commit_index_failure_states)
  fix s1 s2 s3
  assume 1: "add_run_in env [] (map dg_id gs) None r s = Inr s1" and 2: "add_diagnostics gs s1 = Inr s2"
    and 3: "(case m of None \<Rightarrow> Inr s2 | Some a \<Rightarrow> add_materializations env [a] s2) = Inr s3"
    and 4: "add_run env r s3 = Inr t"
  have "lg_attestations s1 = lg_attestations s" using 1 by (auto dest!: frame)
  moreover have "lg_attestations s3 = lg_attestations s2" using 3 by (cases m) (auto dest: attestations_same(6))
  ultimately show ?thesis using attestations_same(5) [OF 2] attestations_same(8) [OF 4] by simp
qed

lemma committed_attestation:
  assumes "commit_run_rows env q x s = Inr t" "y \<in> table_values (lg_attestations t)" "y \<notin> table_values (lg_attestations s)"
  shows "x = Some y \<and> (run_claims_tool_truth (rb_run q) \<longrightarrow> attested t (rb_run q))"
  using assms(1)
proof (rule commit_run_rows_states)
  fix E G s1 s2 s3 s4 s5 s6 s7
  assume 1: "foldR (add_artifact_in [tr_id (rb_run q)] (tr_snapshot_id (rb_run q))) s (rb_artifacts q) = Inr s1"
    and 2: "add_run_in env E G x (rb_run q) s1 = Inr s2"
    and 3: "(case x of None \<Rightarrow> Inr s2 | Some y \<Rightarrow> add_execution_commit env (rb_run q) y s2) = Inr s3"
    and 4: "add_observations env (rb_observations q) s3 = Inr s4"
    and 5: "add_derivations env [] (rb_derivations q) s4 = Inr s5"
    and 6: "add_verifications env (map vr_id (rb_verifications q) @ G) (rb_verifications q) s5 = Inr s6"
    and 7: "add_diagnostics (rb_diagnostics q) s6 = Inr s7" and 8: "add_run env (rb_run q) s7 = Inr t"
  have "lg_attestations t = lg_attestations s3"
    using attestations_same(2) [OF 4] attestations_same(3) [OF 5] attestations_same(4) [OF 6]
      attestations_same(5) [OF 7] attestations_same(8) [OF 8] by simp
  moreover have "lg_attestations s2 = lg_attestations s"
    using attestations_same(1) [OF 1] 2 by (auto dest!: frame)
  ultimately have new: "y \<in> table_values (lg_attestations s3)" "y \<notin> table_values (lg_attestations s2)"
    using assms(2,3) by auto
  then obtain z where x: "x = Some z" and e: "add_execution_commit env (rb_run q) z s2 = Inr s3"
    using 3 by (cases x) auto
  from e obtain u where u: "put_row lg_attestations lg_attestations_update (attestation_schema (rb_run q)) (xa_id z) z
      (ExecutionAttestation_val z) s2 = Inr u" and "lg_attestations s3 = lg_attestations u"
    unfolding add_execution_commit_def bindR_Inr_iff by (elim exE conjE) (auto dest!: receipts.put_row_frame)
  with attestations.put_row_table [OF u] new have "y = z" by auto
  moreover have "attested t (rb_run q)" if "run_claims_tool_truth (rb_run q)"
    using add_run_validated [OF 8 that] attested_kept [OF add_run_extends [OF 8]] by blast
  ultimately show ?thesis using x by simp
qed

lemma consumed_once:
  assumes "consume_execution_authorization a z = (Inr x, z')"
  shows "\<exists>e. consume_execution_authorization a z' = (Inl (RunnerProtocolError e), z')"
proof -
  from assms have "z' = z\<lparr>az_active := AList.delete (xa_id (eca_attestation a)) (az_active z)\<rparr>"
    by (auto simp: consume_execution_authorization_def Let_def split: if_splits option.splits)
  then show ?thesis by (simp add: consume_execution_authorization_def Let_def delete_conv' delete_idem)
qed

lemma spent_authorization_refused:
  assumes "consume_execution_authorization a z = (Inr x, z')"
  shows "\<exists>e. commit_run_result env q (Some a) u z' = (Inl (StoreError e), z')"
proof -
  obtain e where "consume_execution_authorization a z' = (Inl (RunnerProtocolError e), z')" using consumed_once [OF assms] ..
  then show ?thesis by (auto simp: commit_run_result_def claim_authorization_def)
qed

lemma claimed_attestation:
  assumes "claim_authorization q authorization z = (Inr (Some x), z')"
  obtains a where "authorization = Some a" "consume_execution_authorization a z = (Inr x, z')" "run_claims_tool_truth (rb_run q)"
  using assms by (auto simp: claim_authorization_def split: if_splits option.splits prod.splits sum.splits py_exn.splits)

text \<open>C6: an attestation enters the ledger only by the commit of a run that claims tool truth,
  with an authorization from the registry whose attestation it is; the run it attests is then
  in the ledger closed over, and the authorization is spent: no later commit with it succeeds,
  whatever it commits.\<close>

theorem attestations_need_authorization:
  assumes "store_step s t" and new: "y \<in> table_values (lg_attestations t)" "y \<notin> table_values (lg_attestations s)"
  shows "\<exists>env q a z z'. consume_execution_authorization a z = (Inr y, z')
     \<and> commit_run_result env q (Some a) s z = (Inr t, z')
     \<and> run_claims_tool_truth (rb_run q) \<and> attested t (rb_run q)
     \<and> (\<forall>env2 q2 u. \<exists>e. commit_run_result env2 q2 (Some a) u z' = (Inl (StoreError e), z'))"
  using assms(1)
proof (cases rule: store_step.cases)
  case (run_result env q authorization z)
  then obtain x z' where c: "claim_authorization q authorization z = (Inr x, z')"
    and b: "run_batch_check q = Inr ()" and rows: "commit_run_rows env q x s = Inr t"
    by (rule commit_run_result_rows)
  have y: "x = Some y" "run_claims_tool_truth (rb_run q) \<longrightarrow> attested t (rb_run q)"
    using committed_attestation [OF rows new] by simp_all
  obtain a where a: "authorization = Some a" "consume_execution_authorization a z = (Inr y, z')"
      "run_claims_tool_truth (rb_run q)"
    using c unfolding y(1) by (rule claimed_attestation)
  have "commit_run_result env q (Some a) s z = (Inr t, z')"
    using c b rows unfolding a(1) by (simp add: commit_run_result_def)
  with a y(2) spent_authorization_refused [OF a(2)] show ?thesis by blast
next
  case (index_success env now q consume)
  then show ?thesis using attestations_index_rows commit_index_success_rows new by metis
next
  case (index_failure env r gs m)
  then show ?thesis using attestations_index_failure new by metis
qed (use new in \<open>auto simp: add_artifact_def dest: attestations_same dest!: frame\<close>)

text \<open>C3: in every ledger that accepted writes lead to, a run that claims tool truth has its
  attestation and receipt in the ledger, and the attestation closes over the run, its
  snapshot, the manifest of the snapshot and the output artifacts that are attached to it.\<close>

theorem tool_truth_is_attested:
  assumes "tool_truth_attested s" and "ledger_run s t" and "run_in t snap i = Some r" and "run_claims_tool_truth r"
  shows "attested t r"
proof -
  have "r \<in> table_values (lg_runs t)"
    using assms(3) by (auto simp: run_in_def row_in_def table_values_def dest!: map_of_SomeD split: option.splits if_splits
        intro!: image_eqI)
  with tool_truth_attested_run [OF assms(2,1)] assms(4) show ?thesis by (auto simp: tool_truth_attested_def)
qed

end
