(* ===== verification/Ledger_Claims.thy ===== *)
theory Ledger_Claims
  imports Ledger_Truth
begin

text \<open>
  Claims that rest on measurements: passing verifications of a run and physical gates.  An
  accepted claim rests on observations of one real tool run that say what the claim says, and
  they stay in the ledger.
\<close>

section \<open>Real runs and their reports\<close>

text \<open>A successful tool run as \<open>_require_real_tool_run\<close> wants it, attested.\<close>

definition real_run :: "Ledger \<Rightarrow> string \<Rightarrow> ToolRun \<Rightarrow> bool" where
  "real_run s stage r \<longleftrightarrow>
     tr_stage r = stage \<and> tr_status r \<in> {''succeeded'', ''cached''} \<and> tr_failure_class r = ''none''
     \<and> clean_exit (tr_exit_code r) \<and> dget (tr_metadata r) ''tool_truth'' = PBool True
     \<and> dget (tr_metadata r) ''fresh_execution'' = PBool True
     \<and> casefold (tr_backend r) \<notin> {''runner.fake'', ''runner.replay''} \<and> attested s r"

text \<open>A complete observation of the run in the ledger, with a report of the run behind it.\<close>

definition reported :: "Ledger \<Rightarrow> string \<Rightarrow> string list \<Rightarrow> string list \<Rightarrow> string \<Rightarrow> Observation \<Rightarrow> bool" where
  "reported s snap stages kinds run_id b \<longleftrightarrow>
     b \<in> table_values (lg_observations s) \<and> ob_snapshot_id b = snap \<and> ob_run_id b = Some run_id
     \<and> ob_stage b \<in> set stages \<and> ob_completeness b = ''complete'' \<and> ob_authority b \<in> set TOOL_EVIDENCE_AUTHORITIES
     \<and> (\<exists>i a. artifact_in s snap i = Some a \<and> i \<in> set (cited_artifact_ids b) \<and> ar_kind a \<in> set kinds
          \<and> ar_producer_run_id a = Some run_id)"

lemma real_run_kept: "extends s t \<Longrightarrow> real_run s stage r \<Longrightarrow> real_run t stage r"
  unfolding real_run_def by (simp add: attested_kept)

lemma reported_kept: "extends s t \<Longrightarrow> reported s snap stages kinds i b \<Longrightarrow> reported t snap stages kinds i b"
  unfolding reported_def using table_values_kept [OF extendsD(9)] artifact_in_kept by blast

lemma required_real_run: "require_real_tool_run env s r stage = Inr () \<Longrightarrow> real_run s stage r"
  unfolding require_real_tool_run_def Let_def bindR_Inr_iff reject_store_Inr_iff mapr_Inr_iff real_run_def
  using validated_attested by auto

text \<open>The leaves of a piece of evidence are observations of its snapshot.\<close>

lemma leaf_stored:
  assumes "evidence_observation_leaves s snap i = Inr leaves" "b \<in> set leaves"
  shows "b \<in> table_values (lg_observations s) \<and> ob_snapshot_id b = snap"
proof -
  from walk_result [OF assms(1) [unfolded evidence_observation_leaves_def]] assms(2)
  obtain k own cited where "map_of (observation_lineage s snap) k = Some (own, cited)" "b \<in> set own"
    by (auto simp: contributes_def)
  then have "(k, own, cited) \<in> set (observation_lineage s snap)" "b \<in> set own" by (simp_all add: map_of_SomeD)
  then show ?thesis by (force simp: observation_lineage_def rows_of_def table_values_def)
qed

lemma observation_artifacts_iff:
  assumes "observation_artifacts s snap b = Inr artifacts" "a \<in> set artifacts"
  shows "\<exists>i. artifact_in s snap i = Some a \<and> i \<in> set (cited_artifact_ids b)"
  using mapR_set [OF assms(1) [unfolded observation_artifacts_def] assms(2)] by (auto split: option.splits)

section \<open>Passing verifications\<close>

lemma typed_leaf_reported:
  assumes l: "typed_verification_leaves env s p snap run_id i = Inr leaves" and b: "b \<in> set leaves"
  shows "reported s snap (rp_observation_stages p) (rp_artifact_kinds p) run_id b"
proof -
  from l have leaves: "evidence_observation_leaves s snap i = Inr leaves"
    and each: "\<exists>artifacts. observation_artifacts s snap b = Inr artifacts \<and> typed_leaf env p run_id b artifacts"
    unfolding typed_verification_leaves_def bindR_Inr_iff forR_Inr_iff reject_store_Inr_iff using b by auto
  from each obtain artifacts where o: "observation_artifacts s snap b = Inr artifacts" and t: "typed_leaf env p run_id b artifacts"
    by blast
  then have "artifacts \<noteq> []" by (simp add: typed_leaf_def)
  then obtain a where "a \<in> set artifacts" by (cases artifacts) auto
  moreover from observation_artifacts_iff [OF o this] obtain i where "artifact_in s snap i = Some a" "i \<in> set (cited_artifact_ids b)"
    by blast
  ultimately show ?thesis
    using t leaf_stored [OF leaves b] unfolding reported_def typed_leaf_def list_all_iff by blast
qed

text \<open>What the observations of a passing verification say.\<close>

definition clean_value :: "string \<Rightarrow> Observation \<Rightarrow> bool" where
  "clean_value kind b \<longleftrightarrow>
     (if kind = ''csim'' then finite_float (ob_value b) = Inr (Some 0) \<and> ob_unit b = Some ''count''
      else (\<exists>v. ob_value b = PStr v \<and> casefold v = ''pass'') \<and> ob_unit b = None)"

definition required_predicates :: "string \<Rightarrow> string list" where
  "required_predicates kind = (if kind = ''csim'' then CSIM_PREDICATES else [''cosim.status''])"

definition clean_simulation :: "Ledger \<Rightarrow> VerificationResult \<Rightarrow> bool" where
  "clean_simulation s v \<longleftrightarrow> (\<exists>p r.
     map_of VERIFICATION_REPORT_POLICY (vr_kind v) = Some p
     \<and> run_in s (vr_snapshot_id v) (the (vr_run_id v)) = Some r \<and> real_run s (vr_kind v) r
     \<and> (\<forall>q \<in> set (required_predicates (vr_kind v)). \<exists>b.
          reported s (vr_snapshot_id v) (rp_observation_stages p) (rp_artifact_kinds p) (tr_id r) b
          \<and> ob_predicate b = q \<and> clean_value (vr_kind v) b))"

lemma clean_simulation_kept: "extends s t \<Longrightarrow> clean_simulation s v \<Longrightarrow> clean_simulation t v"
  unfolding clean_simulation_def using run_in_kept real_run_kept reported_kept by meson

lemma policy_kinds:
  assumes "map_of VERIFICATION_REPORT_POLICY k = Some p"
  shows "k = ''csim'' \<or> k = ''rtl_cosim''" "rp_run_stage p = k"
  using assms by (auto simp: VERIFICATION_REPORT_POLICY_def split: if_splits)

lemma value_semantics:
  assumes "require_verification_value_semantics v leaves w = Inr ()" and "vr_kind v = ''csim'' \<or> vr_kind v = ''rtl_cosim''"
    and "q \<in> set (required_predicates (vr_kind v))"
  shows "\<exists>b \<in> set leaves. ob_predicate b = q \<and> clean_value (vr_kind v) b"
proof (cases "vr_kind v = ''csim''")
  case True
  with assms(3) have q: "q \<in> set CSIM_PREDICATES" by (simp add: required_predicates_def)
  from assms(1) True have one: "length (with_predicate q leaves) = 1" and zero: "\<forall>b \<in> set (with_predicate q leaves). zero_count b = Inr ()"
    using q by (auto simp: require_verification_value_semantics_def checks_Cons_iff bindR_Inr_iff reject_store_Inr_iff
        forR_Inr_iff list_ex_iff)
  from one obtain b where "b \<in> set (with_predicate q leaves)" by (cases "with_predicate q leaves") auto
  with zero True show ?thesis
    by (intro bexI [of _ b]) (auto simp: zero_count_def with_predicate_def clean_value_def bindR_Inr_iff reject_store_Inr_iff)
next
  case False
  with assms(2,3) have k: "vr_kind v = ''rtl_cosim''" and q: "q = ''cosim.status''" by (auto simp: required_predicates_def)
  from assms(1) obtain b where b: "with_predicate q leaves = [b]" and v: "is_str (ob_value b)"
      "casefold (str_of (ob_value b)) = ''pass''" "ob_unit b = None"
    unfolding require_verification_value_semantics_def k q
    by (auto simp: checks_Cons_iff reject_store_Inr_iff split: list.splits)
  then have "b \<in> set (with_predicate q leaves)" by simp
  then have "b \<in> set leaves" "ob_predicate b = q" by (simp_all add: with_predicate_def)
  moreover have "clean_value (vr_kind v) b" using v k by (cases "ob_value b") (simp_all add: clean_value_def)
  ultimately show ?thesis by blast
qed

lemma accepted_verification:
  assumes "add_verification env [] E s v = Inr t" and "vr_status v = ''pass''" and "given (vr_run_id v) \<noteq> []"
  shows "clean_simulation s v"
proof -
  let ?i = "the (vr_run_id v)"
  have g: "given (vr_run_id v) = [?i]" using assms(3) by (auto simp: given_def split: option.splits if_splits)
  from assms(1) obtain v' where v': "revalidated_verification v = Inr v'" unfolding add_verification_def bindR_Inr_iff by blast
  note v = v' [unfolded revalidated_same(4) [OF v']]
  from assms(1) obtain producers workloads where run: "forR (require_run s (vr_snapshot_id v)) [?i] = Inr ()"
    and stage: "verification_stage_check s v = Inr ()"
    and c: "verification_run_check env s v producers workloads = Inr ()"
    unfolding add_verification_def v bindR.simps bindR_Inr_iff g by (auto simp: checks_Cons_iff)
  from run obtain r where r: "run_in s (vr_snapshot_id v) ?i = Some r"
    by (auto simp: forR_Inr_iff require_run_def reject_store_Inr_iff)
  then have ref: "referenced_run s v = Some r" by (simp add: referenced_run_def g)
  from c have t: "require_typed_verification_evidence env s v r = Inr ()"
    by (auto simp: verification_run_check_def Let_def ref assms(2) checks_Cons_iff)
  then obtain p leaves where p: "map_of VERIFICATION_REPORT_POLICY (vr_kind v) = Some p"
    and real: "require_real_tool_run env s r (rp_run_stage p) = Inr ()"
    and l: "mapR (typed_verification_leaves env s p (vr_snapshot_id v) (tr_id r)) (vr_evidence_ids v) = Inr leaves"
    and sem: "require_verification_value_semantics v (concat leaves) (or_else (vr_workload_id v) (run_workload r)) = Inr ()"
    unfolding require_typed_verification_evidence_def bindR_Inr_iff or_store_error_Inr_iff by auto
  have rep: "reported s (vr_snapshot_id v) (rp_observation_stages p) (rp_artifact_kinds p) (tr_id r) b"
    if b: "b \<in> set (concat leaves)" for b
  proof -
    from b obtain bs where "bs \<in> set leaves" "b \<in> set bs" by auto
    then show ?thesis using mapR_set [OF l] typed_leaf_reported by blast
  qed
  have "\<exists>b. reported s (vr_snapshot_id v) (rp_observation_stages p) (rp_artifact_kinds p) (tr_id r) b
      \<and> ob_predicate b = q \<and> clean_value (vr_kind v) b" if "q \<in> set (required_predicates (vr_kind v))" for q
    using value_semantics [OF sem policy_kinds(1) [OF p] that] rep by blast
  then show ?thesis
    unfolding clean_simulation_def using p r required_real_run [OF real] policy_kinds(2) [OF p] by auto
qed

definition simulations_clean :: "Ledger \<Rightarrow> bool" where
  "simulations_clean s \<longleftrightarrow> (\<forall>v \<in> table_values (lg_verifications s).
     vr_status v = ''pass'' \<longrightarrow> given (vr_run_id v) \<noteq> [] \<longrightarrow> clean_simulation s v)"

lemma simulations_clean_initial: "simulations_clean (initial_ledger f)"
  by (simp add: simulations_clean_def initial_ledger_def table_values_def)

text \<open>An invariant over the rows of a table.\<close>

lemma table_invariant:
  assumes "ledger_run s t" and "\<forall>v \<in> table_values (get s). J s v"
    and "\<And>s t v. extends s t \<Longrightarrow> J s v \<Longrightarrow> J t v"
    and "\<And>s t kv. row_step s t \<Longrightarrow> kv \<in> set (get t) \<Longrightarrow> kv \<notin> set (get s) \<Longrightarrow> J t (rw_value (snd kv))"
  shows "\<forall>v \<in> table_values (get t). J t v"
proof
  fix v
  assume "v \<in> table_values (get t)"
  then obtain kv where kv: "kv \<in> set (get t)" "v = rw_value (snd kv)" by (auto simp: table_values_def)
  have "J t (rw_value (snd kv))"
    by (rule row_steps_justified [where get = get and J = "\<lambda>s kv. J s (rw_value (snd kv))",
          OF ledger_run_rows [OF assms(1)] _ assms(3) assms(4) kv(1)])
       (use assms(2) in \<open>auto simp: table_values_def\<close>)
  with kv(2) show "J t v" by simp
qed

lemma inserted_verification:
  assumes "add_verification env [] E s v = Inr t" "kv \<in> set (lg_verifications t)" "kv \<notin> set (lg_verifications s)"
  shows "rw_value (snd kv) = v"
proof -
  from assms(1) obtain v' where v': "revalidated_verification v = Inr v'" unfolding add_verification_def bindR_Inr_iff by blast
  note v = v' [unfolded revalidated_same(4) [OF v']]
  from assms(1) have "put_row lg_verifications lg_verifications_update (\<lambda>s. snapshot_reference s (vr_snapshot_id v))
       (vr_id v) v (VerificationResult_val v) s = Inr t"
    unfolding add_verification_def v bindR.simps bindR_Inr_iff by blast
  from verifications.put_row_table [OF this] assms(2,3) show ?thesis by auto
qed

lemma new_verification_clean:
  assumes "row_step s t" "kv \<in> set (lg_verifications t)" "kv \<notin> set (lg_verifications s)"
    and "vr_status (rw_value (snd kv)) = ''pass''" "given (vr_run_id (rw_value (snd kv))) \<noteq> []"
  shows "clean_simulation t (rw_value (snd kv))"
proof -
  obtain env E v where a: "add_verification env [] E s v = Inr t" using new_verification [OF assms(1-3)] .
  have v: "rw_value (snd kv) = v" by (rule inserted_verification [OF a assms(2,3)])
  have "clean_simulation s v" by (rule accepted_verification [OF a]) (use assms(4,5) v in simp_all)
  then show ?thesis unfolding v by (rule clean_simulation_kept [OF add_verification_extends [OF a]])
qed


end
