(* ===== verification/Ledger_Gates.thy ===== *)
theory Ledger_Gates
  imports Ledger_Claims
begin

text \<open>
  Physical gates (\<open>gate.post_route_timing\<close>, \<open>gate.resource_fits\<close>): once one of its
  observations comes from a run, the recorded value of a gate is the truth of the comparison
  it stands for, over complete post-route observations of one real run.
\<close>

section \<open>What a gate says\<close>

text \<open>The observations of a gate, each from one run and its post-route reports.\<close>

definition post_route :: "Ledger \<Rightarrow> Derivation \<Rightarrow> string \<Rightarrow> Observation \<Rightarrow> bool" where
  "post_route s d producer b \<longleftrightarrow> (\<exists>kinds. map_of PHYSICAL_GATE_REPORT_KINDS (dv_predicate d) = Some kinds
     \<and> reported s (dv_snapshot_id d) [''post_route''] kinds producer b)"

definition timing_true :: "Ledger \<Rightarrow> Derivation \<Rightarrow> string \<Rightarrow> bool" where
  "timing_true s d producer \<longleftrightarrow> (\<exists>b x. post_route s d producer b \<and> ob_predicate b = ''timing.wns_ns''
     \<and> ob_unit b = Some ''ns'' \<and> finite_float (ob_value b) = Inr (Some x) \<and> dv_value d = PBool (0 \<le> x))"

definition usage_of :: "Observation \<Rightarrow> string \<Rightarrow> rat \<Rightarrow> bool" where
  "usage_of b name x \<longleftrightarrow> starts_with ''resource.'' (ob_predicate b) \<and> lower (drop 9 (ob_predicate b)) = name
     \<and> finite_float (ob_value b) = Inr (Some x) \<and> 0 \<le> x \<and> ob_unit b = Some ''count''"

definition resources_true :: "Ledger \<Rightarrow> Derivation \<Rightarrow> string \<Rightarrow> bool" where
  "resources_true s d producer \<longleftrightarrow> (\<exists>m capacities reserved used.
     snapshot_manifest_for_evidence s (dv_snapshot_id d) = Inr m
     \<and> float_map (tp_capacities (pm_target m)) = Inr capacities \<and> capacities \<noteq> []
     \<and> float_map (tp_reserved_resources (pm_target m)) = Inr reserved
     \<and> (\<forall>name \<in> fst ` set capacities. \<exists>b. post_route s d producer b \<and> usage_of b name (used name))
     \<and> dv_value d = PBool (\<forall>(name, capacity) \<in> set capacities.
          used name \<le> double (capacity - (case map_of reserved name of None \<Rightarrow> 0 | Some r \<Rightarrow> r))))"

definition gate_holds :: "Ledger \<Rightarrow> Derivation \<Rightarrow> bool" where
  "gate_holds s d \<longleftrightarrow> (\<exists>producer r. run_in s (dv_snapshot_id d) producer = Some r \<and> real_run s ''post_route'' r
     \<and> (if dv_predicate d = ''gate.post_route_timing'' then timing_true s d producer else resources_true s d producer))"

text \<open>Some observation of the gate names a run.\<close>

definition backed :: "Ledger \<Rightarrow> Derivation \<Rightarrow> bool" where
  "backed s d \<longleftrightarrow> (\<exists>i \<in> set (dv_input_observation_ids d). \<exists>b.
     observation_in s (dv_snapshot_id d) i = Some b \<and> given (ob_run_id b) \<noteq> [])"

definition inputs_stored :: "Ledger \<Rightarrow> Derivation \<Rightarrow> bool" where
  "inputs_stored s d \<longleftrightarrow> (\<forall>i \<in> set (dv_input_observation_ids d). observation_in s (dv_snapshot_id d) i \<noteq> None)"

lemma post_route_kept: "extends s t \<Longrightarrow> post_route s d p b \<Longrightarrow> post_route t d p b"
  unfolding post_route_def using reported_kept by blast

lemma gate_holds_kept:
  assumes "extends s t" "gate_holds s d"
  shows "gate_holds t d"
proof -
  note kept = run_in_kept [OF assms(1)] real_run_kept [OF assms(1)] post_route_kept [OF assms(1)] manifest_kept [OF assms(1)]
  have "timing_true s d p \<Longrightarrow> timing_true t d p" "resources_true s d p \<Longrightarrow> resources_true t d p" for p
    unfolding timing_true_def resources_true_def using kept(3,4) by meson+
  with assms(2) kept(1,2) show ?thesis unfolding gate_holds_def by meson
qed

lemma inputs_kept: "extends s t \<Longrightarrow> inputs_stored s d \<Longrightarrow> inputs_stored t d"
  unfolding inputs_stored_def using observation_in_kept by blast

lemma backed_before: "extends s t \<Longrightarrow> inputs_stored s d \<Longrightarrow> backed t d \<Longrightarrow> backed s d"
  unfolding backed_def inputs_stored_def using observation_in_kept by (metis not_None_eq option.inject)

section \<open>Evidence of a gate\<close>

lemma map_of_rows: "row_in f table snap i = Some v \<Longrightarrow> map_of (rows_of f table snap) i = Some v"
proof (induction table)
  case (Cons kv table)
  obtain k row where kv: "kv = (k, row)" by (cases kv)
  show ?case
  proof (cases "k = i")
    case True
    with Cons.prems kv show ?thesis by (simp add: row_in_def rows_of_def split: if_splits)
  next
    case False
    with Cons.prems kv have "row_in f table snap i = Some v" by (simp add: row_in_def)
    from Cons.IH [OF this] False kv show ?thesis by (simp add: rows_of_def)
  qed
qed (simp add: row_in_def)

lemma map_of_front: "map_of rows i = Some b \<Longrightarrow> map_of (map (\<lambda>(i, b). (i, F b)) rows @ rest) i = Some (F b)"
  by (induction rows) (auto split: if_splits)

lemma backed_producers:
  assumes "observation_in s snap i = Some b" "given (ob_run_id b) \<noteq> []" "evidence_producer_runs s snap i = Inr runs"
  shows "runs \<noteq> []"
proof -
  obtain r rs where r: "given (ob_run_id b) = r # rs" using assms(2) by (cases "given (ob_run_id b)") auto
  have "map_of (rows_of ob_snapshot_id (lg_observations s) snap) i = Some b"
    using assms(1) map_of_rows by (simp add: observation_in_def)
  then have "map_of (producer_lineage s snap) i = Some (given (ob_run_id b), cited_artifact_ids b)"
    unfolding producer_lineage_def by (rule map_of_front [where F = "\<lambda>b. (given (ob_run_id b), cited_artifact_ids b)"])
  then have "contributes (producer_lineage s snap) i r" by (simp add: contributes_def r)
  with walk_result [OF assms(3) [unfolded evidence_producer_runs_def]] have "r \<in> set runs" by blast
  then show ?thesis by auto
qed

lemma gate_leaf_reported:
  assumes l: "physical_leaves env s m kinds snap producer i = Inr leaves" and b: "b \<in> set leaves"
  shows "reported s snap [''post_route''] kinds producer b"
proof -
  from l have leaves: "evidence_observation_leaves s snap i = Inr leaves"
    and each: "\<exists>artifacts. observation_artifacts s snap b = Inr artifacts \<and> physical_leaf env m kinds producer b artifacts"
    unfolding physical_leaves_def bindR_Inr_iff forR_Inr_iff reject_store_Inr_iff using b by auto
  from each obtain artifacts where o: "observation_artifacts s snap b = Inr artifacts"
    and t: "physical_leaf env m kinds producer b artifacts" by blast
  then have "artifacts \<noteq> []" by (simp add: physical_leaf_def)
  then obtain a where "a \<in> set artifacts" by (cases artifacts) auto
  moreover from observation_artifacts_iff [OF o this] obtain j where "artifact_in s snap j = Some a" "j \<in> set (cited_artifact_ids b)"
    by blast
  ultimately show ?thesis
    using t leaf_stored [OF leaves b] unfolding reported_def physical_leaf_def list_all_iff by auto
qed

lemma timing_semantics:
  assumes "timing_gate_semantics d leaves = Inr ()" and "\<And>b. b \<in> set leaves \<Longrightarrow> post_route s d producer b"
  shows "timing_true s d producer"
proof -
  from assms(1) obtain wns x where w: "with_predicate ''timing.wns_ns'' leaves = [wns]"
    and x: "finite_float (ob_value wns) = Inr (Some x)" "dv_value d = PBool (0 \<le> x)"
    and u: "\<forall>b \<in> set leaves. ob_unit b = Some ''ns''"
    by (auto simp: timing_gate_semantics_def bindR_Inr_iff checks_Cons_iff reject_store_Inr_iff list_ex_iff
        split: list.splits option.splits)
  have "wns \<in> set (with_predicate ''timing.wns_ns'' leaves)" by (simp add: w)
  then have "wns \<in> set leaves" "ob_predicate wns = ''timing.wns_ns''" by (simp_all add: with_predicate_def)
  with x u assms(2) show ?thesis unfolding timing_true_def by blast
qed

lemma add_usage_iff:
  "add_usage u b = Inr u' \<Longrightarrow> \<exists>name x. usage_of b name x \<and> map_of u name = None \<and> u' = (name, x) # u"
  by (auto simp: add_usage_def Let_def bindR_Inr_iff reject_store_Inr_iff usage_of_def
      split: option.splits if_splits)

lemma usage_observed:
  "foldR add_usage u leaves = Inr u' \<Longrightarrow> map_of u' name = Some x \<Longrightarrow>
     map_of u name = Some x \<or> (\<exists>b \<in> set leaves. usage_of b name x)"
proof (induction leaves arbitrary: u)
  case (Cons b leaves)
  then obtain v where v: "add_usage u b = Inr v" "foldR add_usage v leaves = Inr u'" by (auto simp: bindR_Inr_iff)
  from Cons.IH [OF v(2) Cons.prems(2)] add_usage_iff [OF v(1)] show ?case by (auto split: if_splits)
qed simp

lemma resource_semantics:
  assumes "resource_gate_semantics m d leaves = Inr ()" and "snapshot_manifest_for_evidence s (dv_snapshot_id d) = Inr m"
    and "\<And>b. b \<in> set leaves \<Longrightarrow> post_route s d producer b"
  shows "resources_true s d producer"
proof -
  from assms(1) obtain capacities reserved usage where c: "float_map (tp_capacities (pm_target m)) = Inr capacities"
    "float_map (tp_reserved_resources (pm_target m)) = Inr reserved" "foldR add_usage [] leaves = Inr usage"
    "capacities \<noteq> []" "fst ` set usage = fst ` set capacities" "dv_value d = PBool (fits usage capacities reserved)"
    unfolding resource_gate_semantics_def bindR_Inr_iff reject_store_Inr_iff by blast
  let ?used = "\<lambda>name. the (map_of usage name)"
  have "\<exists>b. post_route s d producer b \<and> usage_of b name (?used name)" if "name \<in> fst ` set capacities" for name
  proof -
    from that obtain x where "map_of usage name = Some x" unfolding c(5) [symmetric] by (cases "map_of usage name") (auto simp: map_of_eq_None_iff)
    with usage_observed [OF c(3) this] assms(3) show ?thesis by auto
  qed
  moreover have "fits usage capacities reserved \<longleftrightarrow> (\<forall>(name, capacity) \<in> set capacities.
      ?used name \<le> double (capacity - (case map_of reserved name of None \<Rightarrow> 0 | Some r \<Rightarrow> r)))"
    by (auto simp: fits_def list_all_iff)
  ultimately show ?thesis
    unfolding resources_true_def using assms(2) c(1,2,4,6)
    by (intro exI [of _ m] exI [of _ capacities] exI [of _ reserved] exI [of _ ?used]) simp
qed

lemma required_gate_holds:
  assumes "require_physical_gate_evidence env s d producer = Inr ()"
  shows "gate_holds s d"
proof -
  from assms obtain r kinds m leaves where r: "run_in s (dv_snapshot_id d) producer = Some r"
    and real: "require_real_tool_run env s r ''post_route'' = Inr ()"
    and kinds: "map_of PHYSICAL_GATE_REPORT_KINDS (dv_predicate d) = Some kinds"
    and l: "mapR (physical_leaves env s m kinds (dv_snapshot_id d) producer) (dv_input_observation_ids d) = Inr leaves"
    and sem: "require_physical_derivation_semantics s d (concat leaves) = Inr ()"
    unfolding require_physical_gate_evidence_def bindR_Inr_iff or_store_error_Inr_iff
    by (auto split: option.splits)
  have rep: "post_route s d producer b" if b: "b \<in> set (concat leaves)" for b
  proof -
    from b obtain bs where "bs \<in> set leaves" "b \<in> set bs" by auto
    then show ?thesis using mapR_set [OF l] gate_leaf_reported kinds unfolding post_route_def by blast
  qed
  from sem obtain n where n: "snapshot_manifest_for_evidence s (dv_snapshot_id d) = Inr n"
    and c: "(if dv_predicate d = ''gate.post_route_timing'' then timing_gate_semantics d (concat leaves)
             else resource_gate_semantics n d (concat leaves)) = Inr ()"
    unfolding require_physical_derivation_semantics_def bindR_Inr_iff by blast
  have "if dv_predicate d = ''gate.post_route_timing'' then timing_true s d producer else resources_true s d producer"
  proof (cases "dv_predicate d = ''gate.post_route_timing''")
    case True
    with c have "timing_gate_semantics d (concat leaves) = Inr ()" by simp
    from timing_semantics [OF this rep] True show ?thesis by simp
  next
    case False
    with c have "resource_gate_semantics n d (concat leaves) = Inr ()" by simp
    from resource_semantics [OF this n rep] False show ?thesis by simp
  qed
  then show ?thesis unfolding gate_holds_def using r required_real_run [OF real] by blast
qed

section \<open>Accepted gates\<close>

lemma resolved_observation:
  assumes "resolve_evidence_ref allowed s e = Inr snap'" "er_kind e = ''observation''" "er_snapshot_id e = Some snap"
  shows "observation_in s snap (er_target_id e) \<noteq> None"
proof (rule ccontr)
  assume "\<not> ?thesis"
  then have "reference_exists s e snap = Inr False" by (simp add: reference_exists_def assms(2))
  then have "mapR (\<lambda>snap. mapr (Pair snap) (reference_exists s e snap)) [snap] = Inr [(snap, False)]" by simp
  with assms(1,3) show False by (simp add: resolve_evidence_ref_def bindR_Inr_iff del: mapR.simps)
qed

lemma accepted_derivation:
  assumes "add_derivation env [] authorized s d = Inr t"
  shows "revalidated_derivation d = Inr d"
    "e \<in> set (dv_evidence_refs d) \<Longrightarrow> derivation_reference [] s d e = Inr ()"
    "map_of PHYSICAL_GATE_REPORT_KINDS (dv_predicate d) \<noteq> None \<Longrightarrow> physical_gate_check env s d = Inr ()"
    "require_subject s (dv_snapshot_id d) (dv_subject_id d) = Inr ()"
    "put_row lg_derivations lg_derivations_update (\<lambda>s. snapshot_reference s (dv_snapshot_id d)) (dv_id d) d (Derivation_val d) s = Inr t"
proof -
  from assms obtain d' where d': "revalidated_derivation d = Inr d'" unfolding add_derivation_def bindR_Inr_iff by blast
  show d: "revalidated_derivation d = Inr d" using d' revalidated_same(3) [OF d'] by simp
  note a = assms [unfolded add_derivation_def d bindR.simps]
  from a show "e \<in> set (dv_evidence_refs d) \<Longrightarrow> derivation_reference [] s d e = Inr ()"
    by (auto simp: bindR_Inr_iff checks_Cons_iff forR_Inr_iff)
  from a show "map_of PHYSICAL_GATE_REPORT_KINDS (dv_predicate d) \<noteq> None \<Longrightarrow> physical_gate_check env s d = Inr ()"
    by (auto simp: bindR_Inr_iff checks_Cons_iff)
  from a show "require_subject s (dv_snapshot_id d) (dv_subject_id d) = Inr ()"
    by (auto simp: bindR_Inr_iff checks_Cons_iff)
  from a show "put_row lg_derivations lg_derivations_update (\<lambda>s. snapshot_reference s (dv_snapshot_id d)) (dv_id d) d (Derivation_val d) s = Inr t"
    by (auto simp: bindR_Inr_iff)
qed

lemma input_references:
  assumes "revalidated_derivation d = Inr d" "i \<in> set (dv_input_observation_ids d)"
  obtains e where "e \<in> set (dv_evidence_refs d)" "er_kind e = ''observation''" "er_snapshot_id e = Some (dv_snapshot_id d)"
    "er_target_id e = i"
proof -
  from assms(1) have "Derivation_from_dict (d\<lparr>dv_id := []\<rparr>) = Inr d"
    by (simp add: revalidated_derivation_def derivation.revalidate_iff)
  then have "Derivation_init d = Inr d" using Derivation_from_dict_parts by blast
  then have "i \<in> set (projected_ids d (dv_evidence_refs d))" using Derivation_init_self(2) assms(2) by metis
  then show thesis using that by (auto simp: projected_ids_def is_observation_of_def)
qed

lemma accepted_inputs:
  assumes a: "add_derivation env [] authorized s d = Inr t"
  shows "inputs_stored s d"
  unfolding inputs_stored_def
proof
  fix i
  assume "i \<in> set (dv_input_observation_ids d)"
  then obtain e where e: "e \<in> set (dv_evidence_refs d)" "er_kind e = ''observation''"
    "er_snapshot_id e = Some (dv_snapshot_id d)" "er_target_id e = i"
    using input_references [OF accepted_derivation(1) [OF a]] by blast
  from accepted_derivation(2) [OF a e(1)] e(2) obtain snap where "resolve_evidence_ref [dv_snapshot_id d] s e = Inr snap"
    by (auto simp: derivation_reference_def bindR_Inr_iff mapr_Inr_iff)
  from resolved_observation [OF this e(2,3)] e(4) show "observation_in s (dv_snapshot_id d) i \<noteq> None" by simp
qed

lemma accepted_gate:
  assumes a: "add_derivation env [] authorized s d = Inr t" and g: "map_of PHYSICAL_GATE_REPORT_KINDS (dv_predicate d) \<noteq> None"
    and "backed s d"
  shows "gate_holds s d"
proof -
  from assms(3) obtain i b where i: "i \<in> set (dv_input_observation_ids d)"
    and b: "observation_in s (dv_snapshot_id d) i = Some b" "given (ob_run_id b) \<noteq> []" unfolding backed_def by blast
  from accepted_derivation(3) [OF a g] obtain producers
    where p: "mapR (evidence_producer_runs s (dv_snapshot_id d)) (dv_input_observation_ids d) = Inr producers"
    and c: "(case remdups (concat producers) of [] \<Rightarrow> Inr ()
       | [producer] \<Rightarrow> require_physical_gate_evidence env s d producer
       | _ \<Rightarrow> Inl (StoreError ''physical gate evidence must close to exactly one post_route producer run'')) = Inr ()"
    unfolding physical_gate_check_def bindR_Inr_iff by blast
  obtain runs where "runs \<in> set producers" and r: "evidence_producer_runs s (dv_snapshot_id d) i = Inr runs"
    using mapR_member [OF p i] by blast
  moreover have "runs \<noteq> []" by (rule backed_producers [OF b r])
  ultimately have "concat producers \<noteq> []" by (metis concat_eq_Nil_conv)
  with c obtain producer where "require_physical_gate_evidence env s d producer = Inr ()"
    by (cases "remdups (concat producers)") (auto split: list.splits)
  then show ?thesis by (rule required_gate_holds)
qed

definition gate_ok :: "Ledger \<Rightarrow> Derivation \<Rightarrow> bool" where
  "gate_ok s d \<longleftrightarrow> inputs_stored s d
     \<and> (map_of PHYSICAL_GATE_REPORT_KINDS (dv_predicate d) \<noteq> None \<longrightarrow> backed s d \<longrightarrow> gate_holds s d)"

definition gates_ok :: "Ledger \<Rightarrow> bool" where
  "gates_ok s \<longleftrightarrow> (\<forall>d \<in> table_values (lg_derivations s). gate_ok s d)"

lemma gates_ok_initial: "gates_ok (initial_ledger f)"
  by (simp add: gates_ok_def initial_ledger_def table_values_def)

lemma gate_ok_kept: "extends s t \<Longrightarrow> gate_ok s d \<Longrightarrow> gate_ok t d"
  unfolding gate_ok_def using inputs_kept backed_before gate_holds_kept by blast

lemma new_derivation_ok:
  assumes "row_step s t" "kv \<in> set (lg_derivations t)" "kv \<notin> set (lg_derivations s)"
  shows "gate_ok t (rw_value (snd kv))"
proof -
  obtain env authorized d where a: "add_derivation env [] authorized s d = Inr t" using new_derivation [OF assms] .
  have "rw_value (snd kv) = d"
    using derivations.put_row_table [OF accepted_derivation(5) [OF a]] assms(2,3) by auto
  moreover have "gate_ok s d" unfolding gate_ok_def using accepted_inputs [OF a] accepted_gate [OF a] by blast
  ultimately show ?thesis using gate_ok_kept [OF add_derivation_extends [OF a]] by simp
qed


end
