(* ===== verification/Ledger_Publish.thy ===== *)
theory Ledger_Publish
  imports Ledger_Steps
begin

text \<open>
  Publication of snapshots: the active pointer of a project always leads to a snapshot of the
  project with a graph, a successful index run moves it, a failed one never does.
\<close>

section \<open>Pointers\<close>

definition pointer_ok :: "Ledger \<Rightarrow> string \<Rightarrow> string \<Rightarrow> bool" where
  "pointer_ok s p snap \<longleftrightarrow> has_graph s snap
     \<and> (\<exists>row. map_of (lg_snapshots s) snap = Some row \<and> ds_project_id (rw_value row) = p)"

definition published_ok :: "Ledger \<Rightarrow> bool" where
  "published_ok s \<longleftrightarrow> (\<forall>(i, row) \<in> set (lg_snapshots s). ds_id (rw_value row) = i)
     \<and> (\<forall>(p, snap, now) \<in> set (lg_project_state s). pointer_ok s p snap)"

lemma published_ok_initial: "published_ok (initial_ledger f)"
  by (simp add: published_ok_def initial_ledger_def)

lemma has_graph_kept: "extends s t \<Longrightarrow> has_graph s snap \<Longrightarrow> has_graph t snap"
  unfolding has_graph_def using grows_lookup [OF extendsD(3)] by blast

lemma pointer_ok_kept: "extends s t \<Longrightarrow> pointer_ok s p snap \<Longrightarrow> pointer_ok t p snap"
  unfolding pointer_ok_def using has_graph_kept grows_lookup [OF extendsD(1)] by blast

text \<open>An accepted activation.\<close>

lemma activated:
  assumes "set_active_snapshot now p snap s = Inr t"
  shows "pointer_ok t p snap" "lg_project_state t = AList.update p (snap, now) (lg_project_state s)"
    "lg_snapshots t = lg_snapshots s" "lg_graph_views t = lg_graph_views s"
  using assms
  by (auto simp: set_active_snapshot_def bindR_Inr_iff reject_store_Inr_iff or_store_error_Inr_iff pointer_ok_def
      has_graph_def split: option.splits)

lemma saved_snapshots:
  assumes "save_snapshot d artifacts s = Inr t" "(i, row) \<in> set (lg_snapshots t)"
  shows "(i, row) \<in> set (lg_snapshots s) \<or> ds_id (rw_value row) = i"
proof -
  from assms(1) obtain e p j as u v where u: "insert_snapshot e s = Inr u" and v: "insert_snapshot_manifest j p u = Inr v"
    and t: "foldR (store_artifact [] j) v as = Inr t"
    unfolding save_snapshot_def bindR_Inr_iff by blast
  have "lg_snapshots v = lg_snapshots u" using v by (auto simp: insert_snapshot_manifest_def mapr_Inr_iff split: option.splits)
  moreover have "lg_snapshots t = lg_snapshots v" using store_artifacts_frame [OF t] by auto
  ultimately show ?thesis
    using u assms(2) by (auto simp: insert_snapshot_def bindR_Inr_iff mapr_Inr_iff split: option.splits)
qed

lemma snapshots_step: "row_step s t \<Longrightarrow> (i, row) \<in> set (lg_snapshots t) \<Longrightarrow>
    (i, row) \<in> set (lg_snapshots s) \<or> ds_id (rw_value row) = i"
proof (induction rule: row_step.induct)
  case (snapshot_rows d artifacts s t)
  then show ?case by (rule saved_snapshots)
qed (auto dest!: frame)

lemma updated_member: "x \<in> set (AList.update k v al) \<Longrightarrow> x = (k, v) \<or> x \<in> set al"
  by (induction al) (auto split: if_splits)

lemma pointers_step: "row_step s t \<Longrightarrow> (p, snap, now) \<in> set (lg_project_state t) \<Longrightarrow>
    (p, snap, now) \<in> set (lg_project_state s) \<or> pointer_ok t p snap"
proof (induction rule: row_step.induct)
  case (active_row now' p' snap' s t)
  then have "(p, snap, now) \<in> set (AList.update p' (snap', now') (lg_project_state s))" by (simp add: activated(2))
  then have "(p, snap, now) \<in> set (lg_project_state s) \<or> (p, snap, now) = (p', snap', now')"
    by (auto dest: updated_member)
  then show ?case using activated(1) [OF active_row(1)] by auto
qed (auto dest!: frame)

lemma published_ok_step: "row_step s t \<Longrightarrow> published_ok s \<Longrightarrow> published_ok t"
  using snapshots_step pointers_step pointer_ok_kept [OF row_step_extends]
  unfolding published_ok_def by fast

lemma published_ok_run: "ledger_run s t \<Longrightarrow> published_ok s \<Longrightarrow> published_ok t"
proof -
  have "row_steps s t \<Longrightarrow> published_ok s \<Longrightarrow> published_ok t"
    by (induction rule: rtranclp_induct) (auto intro: published_ok_step)
  then show "ledger_run s t \<Longrightarrow> published_ok s \<Longrightarrow> published_ok t" using ledger_run_rows by blast
qed

section \<open>The latest snapshot\<close>

lemma map_of_active:
  "map_of (lg_project_state s) p = Some (snap, now) \<Longrightarrow> map_of (lg_snapshots s) snap = Some row \<Longrightarrow>
     map_of (active_snapshots s) p = Some (rw_value row)"
proof -
  have "map_of st p = Some (snap, now) \<Longrightarrow> map_of rows snap = Some row \<Longrightarrow>
      map_of (List.map_filter (\<lambda>(project, snap, _). map_option (\<lambda>row. (project, rw_value row)) (map_of rows snap)) st) p
        = Some (rw_value row)" for st and rows :: "(string \<times> DesignSnapshot row) list"
    by (induction st) (auto split: if_splits option.splits)
  then show "map_of (lg_project_state s) p = Some (snap, now) \<Longrightarrow> map_of (lg_snapshots s) snap = Some row \<Longrightarrow>
     map_of (active_snapshots s) p = Some (rw_value row)" unfolding active_snapshots_def .
qed

lemma given_Some: "p \<noteq> [] \<Longrightarrow> given (Some p) = [p]"
  by (simp add: given_def)

lemma latest_pointed:
  "p \<noteq> [] \<Longrightarrow> map_of (lg_project_state s) p = Some (snap, now) \<Longrightarrow> map_of (lg_snapshots s) snap = Some row \<Longrightarrow>
     latest_snapshot s (Some p) = Some (rw_value row)"
  by (simp add: latest_snapshot_def given_Some map_of_active)

text \<open>The tables \<open>latest_snapshot\<close> reads, and the operations that leave them alone.\<close>

definition same_publication :: "Ledger \<Rightarrow> Ledger \<Rightarrow> bool" where
  "same_publication s t \<longleftrightarrow> lg_project_state t = lg_project_state s \<and> lg_snapshots t = lg_snapshots s
     \<and> lg_graph_views t = lg_graph_views s"

lemma same_publication_trans: "same_publication s t \<Longrightarrow> same_publication t u \<Longrightarrow> same_publication s u"
  by (simp add: same_publication_def)

lemma same_latest: "same_publication s t \<Longrightarrow> latest_snapshot t p = latest_snapshot s p \<and> has_graph t i = has_graph s i"
proof -
  assume same: "same_publication s t"
  then have "active_snapshots t = active_snapshots s" and n: "newest_with_graph t = newest_with_graph s"
    by (simp_all add: same_publication_def active_snapshots_def newest_with_graph_def fun_eq_iff)
  then have "latest_snapshot t p = latest_snapshot s p" unfolding latest_snapshot_def by (simp only:)
  with same show ?thesis by (simp add: has_graph_def same_publication_def)
qed

lemma foldR_unpublished:
  "foldR f s xs = Inr t \<Longrightarrow> (\<And>s x t. f s x = Inr t \<Longrightarrow> same_publication s t) \<Longrightarrow> same_publication s t"
proof (induction xs arbitrary: s)
  case (Cons x xs)
  from Cons.prems(1) obtain u where u: "f s x = Inr u" "foldR f u xs = Inr t" by (auto simp: bindR_Inr_iff)
  then show ?case using Cons.IH Cons.prems(2) same_publication_trans by metis
qed (simp add: same_publication_def)

lemma unpublished:
  "add_observations env bs s = Inr t \<Longrightarrow> same_publication s t"
  "add_derivations env authorized ds s = Inr t \<Longrightarrow> same_publication s t"
  "add_verifications env E vs s = Inr t \<Longrightarrow> same_publication s t"
  "add_diagnostics gs s = Inr t \<Longrightarrow> same_publication s t"
  "add_materializations env ms s = Inr t \<Longrightarrow> same_publication s t"
  "add_run env r s = Inr t \<Longrightarrow> same_publication s t"
  "add_run_in env E G x r s = Inr t \<Longrightarrow> same_publication s t"
  unfolding add_observations_def add_derivations_def add_verifications_def add_diagnostics_def
    add_materializations_def add_run_def
  by ((erule foldR_unpublished)?, (auto simp: same_publication_def dest!: frame)[1])+

text \<open>What an accepted index commit ends with.\<close>

lemma index_commit_ends:
  assumes "commit_index_success env now q a s = Inr t"
  obtains s9 where "set_active_snapshot now (ib_project_id q) (cg_snapshot_id (ib_graph q)) s9 = Inr t"
    "lg_project_state s9 = lg_project_state s"
proof -
  obtain p where "commit_index_rows env now q p s = Inr t" using commit_index_success_rows [OF assms] .
  then show thesis
  proof (rule commit_index_rows_states)
    fix E G s1 s2 s3 s4 s5 s6 s7 s8 s9
    assume 1: "save_graph (ib_graph q) s = Inr s1" and 2: "add_run_in env E G None (ib_run q) s1 = Inr s2"
      and 3: "add_observations env (ib_observations q) s2 = Inr s3"
      and 4: "add_derivations env (complete_aggregate_ids q) (ib_derivations q) s3 = Inr s4"
      and 5: "add_verifications env (map vr_id (ib_verifications q) @ G) (ib_verifications q) s4 = Inr s5"
      and 6: "add_diagnostics (ib_diagnostics q) s5 = Inr s6"
      and 7: "(case ib_materialization q of None \<Rightarrow> Inr s6 | Some a \<Rightarrow> add_materializations env [a] s6) = Inr s7"
      and 8: "add_run env (ib_run q) s7 = Inr s8"
      and 9: "(case p of None \<Rightarrow> Inr s8 | Some y \<Rightarrow> add_index_commit_receipt (ib_run q) y s8) = Inr s9"
      and 10: "set_active_snapshot now (ib_project_id q) (cg_snapshot_id (ib_graph q)) s9 = Inr t"
    have "lg_project_state s1 = lg_project_state s" "lg_project_state s2 = lg_project_state s1" using 1 2 by (auto dest!: frame)
    moreover have "lg_project_state s7 = lg_project_state s6"
      using 7 by (cases "ib_materialization q") (auto dest: unpublished(5) simp: same_publication_def)
    moreover have "lg_project_state s9 = lg_project_state s8" using 9 by (cases p) (auto dest!: frame)
    ultimately have "lg_project_state s9 = lg_project_state s"
      using unpublished(1) [OF 3] unpublished(2) [OF 4] unpublished(3) [OF 5] unpublished(4) [OF 6] unpublished(6) [OF 8]
      by (simp add: same_publication_def)
    with 10 show thesis by (rule that)
  qed
qed

text \<open>C7: once an index commit is accepted, the newest snapshot of its project is the one it
  indexed, which belongs to the project and has a graph; the pointers of all other projects
  are where they were.\<close>

theorem index_success_publishes:
  assumes "commit_index_success env now q consume s = Inr t" and "ib_project_id q \<noteq> []"
  shows "\<exists>row. map_of (lg_snapshots t) (cg_snapshot_id (ib_graph q)) = Some row
     \<and> latest_snapshot t (Some (ib_project_id q)) = Some (rw_value row)
     \<and> ds_project_id (rw_value row) = ib_project_id q \<and> has_graph t (cg_snapshot_id (ib_graph q))
     \<and> (\<forall>p. p \<noteq> ib_project_id q \<longrightarrow> map_of (lg_project_state t) p = map_of (lg_project_state s) p)"
proof -
  let ?snap = "cg_snapshot_id (ib_graph q)" and ?p = "ib_project_id q"
  obtain s9 where a: "set_active_snapshot now ?p ?snap s9 = Inr t" and same: "lg_project_state s9 = lg_project_state s"
    using index_commit_ends [OF assms(1)] .
  note act = activated [OF a]
  from act(1) obtain row where row: "map_of (lg_snapshots t) ?snap = Some row" "ds_project_id (rw_value row) = ?p" "has_graph t ?snap"
    unfolding pointer_ok_def by blast
  have state: "lg_project_state t = AList.update ?p (?snap, now) (lg_project_state s)" using act(2) same by simp
  then have "map_of (lg_project_state t) ?p = Some (?snap, now)" by (simp add: update_conv')
  from latest_pointed [OF assms(2) this row(1)] row show ?thesis by (auto simp: state update_conv')
qed

text \<open>C12: the commit of a failed index run publishes nothing: whatever was the newest
  snapshot of any project, or of all, still is, and no snapshot gains a graph.\<close>

theorem index_failure_publishes_nothing:
  assumes "commit_index_failure env r gs m s = Inr t"
  shows "latest_snapshot t p = latest_snapshot s p \<and> has_graph t i = has_graph s i"
  using assms
proof (rule commit_index_failure_states)
  fix s1 s2 s3
  assume 1: "add_run_in env [] (map dg_id gs) None r s = Inr s1" and 2: "add_diagnostics gs s1 = Inr s2"
    and 3: "(case m of None \<Rightarrow> Inr s2 | Some a \<Rightarrow> add_materializations env [a] s2) = Inr s3"
    and 4: "add_run env r s3 = Inr t"
  have "same_publication s2 s3" using 3 by (cases m) (auto dest: unpublished(5) simp: same_publication_def)
  then have "same_publication s t"
    using unpublished(7) [OF 1] unpublished(4) [OF 2] unpublished(6) [OF 4] by (meson same_publication_trans)
  then show ?thesis by (rule same_latest)
qed

text \<open>C8: after any accepted writes, the newest snapshot of a project is a snapshot of this
  project and has a graph: a candidate whose indexing failed is never returned.\<close>

theorem latest_snapshot_is_indexed:
  assumes "published_ok s" and "ledger_run s t" and "latest_snapshot t (Some p) = Some d" and "p \<noteq> []"
  shows "ds_project_id d = p \<and> has_graph t (ds_id d)"
proof (cases "map_of (active_snapshots t) p")
  case None
  with assms(3,4) have "newest_with_graph t (\<lambda>d. ds_project_id d = p) = Some d"
    by (simp add: latest_snapshot_def given_Some)
  then show ?thesis by (auto simp: newest_with_graph_def has_graph_def find_Some_iff)
next
  case (Some e)
  have ok: "published_ok t" by (rule published_ok_run [OF assms(2,1)])
  from Some assms(3,4) have "e = d" by (simp add: latest_snapshot_def given_Some)
  with Some have "(p, d) \<in> set (active_snapshots t)" by (simp add: map_of_SomeD)
  then obtain snap now row where st: "(p, snap, now) \<in> set (lg_project_state t)" "map_of (lg_snapshots t) snap = Some row"
    "rw_value row = d"
    by (auto simp: active_snapshots_def List.map_filter_def split: option.splits)
  from st(2) have "(snap, row) \<in> set (lg_snapshots t)" by (rule map_of_SomeD)
  with ok st(3) have "ds_id d = snap" by (auto simp: published_ok_def)
  moreover from ok st(1) have "pointer_ok t p snap" by (auto simp: published_ok_def)
  ultimately show ?thesis using st(2,3) by (auto simp: pointer_ok_def)
qed

end
