(* ===== verification/Ledger_Closure.thy ===== *)
theory Ledger_Closure
  imports Ledger_Gates
begin

text \<open>
  Referential closure of the facts: every observation and derivation only rests on rows that
  are in the ledger, and a derivation only on derivations that were there before it.  So the
  lineage of a stored fact never runs into a cycle, and the checks that walk it never refuse
  one for that reason.
\<close>

section \<open>Ids\<close>

text \<open>The kind of a row is the prefix of its id.\<close>

definition named :: "string \<Rightarrow> string \<Rightarrow> bool" where
  "named prefix i \<longleftrightarrow> starts_with (prefix @ ''_'') i"

lemma stable_id_named: "stable_id prefix v = Inr i \<Longrightarrow> named prefix i"
  by (auto simp: stable_id_def stable_id_n_def mapr_Inr_iff named_def starts_with_iff)

lemma default_id_named: "default_id [] prefix v = Inr i \<Longrightarrow> named prefix i"
  using stable_id_named by (simp add: default_id_def default_id_n_def stable_id_def)

lemma named_differ:
  "named ''observation'' i \<Longrightarrow> \<not> named ''derivation'' i" "named ''artifact'' i \<Longrightarrow> \<not> named ''derivation'' i"
  "named ''verification'' i \<Longrightarrow> \<not> named ''derivation'' i" "named ''artifact'' i \<Longrightarrow> \<not> named ''observation'' i"
  "named ''verification'' i \<Longrightarrow> \<not> named ''observation'' i" "named ''verification'' i \<Longrightarrow> \<not> named ''artifact'' i"
  by (auto simp: named_def starts_with_iff)

lemma built_named:
  "Observation_from_dict x = Inr b \<Longrightarrow> ob_id x = [] \<Longrightarrow> named ''observation'' (ob_id b)"
  "Derivation_from_dict y = Inr d \<Longrightarrow> dv_id y = [] \<Longrightarrow> named ''derivation'' (dv_id d)"
  "VerificationResult_init z = Inr v \<Longrightarrow> vr_id z = [] \<Longrightarrow> named ''verification'' (vr_id v)"
  "ArtifactRef_init w = Inr a \<Longrightarrow> ar_id w = [] \<Longrightarrow> named ''artifact'' (ar_id a)"
  by (auto simp: Observation_from_dict_def Observation_init_def Derivation_from_dict_def Derivation_init_iff
      VerificationResult_init_def ArtifactRef_init_def res_iff dest: stable_id_named default_id_named)

lemma revalidated_named:
  "revalidated_observation b = Inr b' \<Longrightarrow> named ''observation'' (ob_id b')"
  "revalidated_derivation d = Inr d' \<Longrightarrow> named ''derivation'' (dv_id d')"
  "revalidated_verification v = Inr v' \<Longrightarrow> named ''verification'' (vr_id v')"
  "revalidated_artifact a = Inr a' \<Longrightarrow> named ''artifact'' (ar_id a')"
  unfolding revalidated_observation_def revalidated_derivation_def revalidated_verification_def revalidated_artifact_def
    observation.revalidate_iff derivation.revalidate_iff verification.revalidate_iff artifact.revalidate_iff
  by (auto dest!: built_named)

section \<open>What an accepted fact rests on\<close>

definition subject_known :: "Ledger \<Rightarrow> string \<Rightarrow> string \<Rightarrow> bool" where
  "subject_known s snap i \<longleftrightarrow> entity_in s snap i \<noteq> None \<or> attached s snap i"

definition observation_closed :: "Ledger \<Rightarrow> Observation \<Rightarrow> bool" where
  "observation_closed s b \<longleftrightarrow> subject_known s (ob_snapshot_id b) (ob_subject_id b)
     \<and> (\<forall>i \<in> set (cited_artifact_ids b). attached s (ob_snapshot_id b) i)
     \<and> (\<forall>i \<in> set (given (ob_run_id b)). run_in s (ob_snapshot_id b) i \<noteq> None)"

definition derivation_closed :: "Ledger \<Rightarrow> Derivation \<Rightarrow> bool" where
  "derivation_closed s d \<longleftrightarrow> subject_known s (dv_snapshot_id d) (dv_subject_id d)
     \<and> (\<forall>i \<in> set (derivation_cites d). observation_in s (dv_snapshot_id d) i \<noteq> None
          \<or> derivation_in s (dv_snapshot_id d) i \<noteq> None \<or> attached s (dv_snapshot_id d) i)"

lemma entity_in_kept: "extends s t \<Longrightarrow> entity_in s snap i = Some e \<Longrightarrow> entity_in t snap i = Some e"
  unfolding entity_in_def using grows_lookup [OF extendsD(6)] by fastforce

lemma derivation_in_kept: "extends s t \<Longrightarrow> derivation_in s snap i = Some d \<Longrightarrow> derivation_in t snap i = Some d"
  unfolding derivation_in_def by (rule row_in_grows [OF extendsD(10)])

lemma subject_known_kept: "extends s t \<Longrightarrow> subject_known s snap i \<Longrightarrow> subject_known t snap i"
  unfolding subject_known_def using entity_in_kept attached_kept by blast

lemma observation_closed_kept:
  assumes "extends s t" "observation_closed s b"
  shows "observation_closed t b"
proof -
  note kept = subject_known_kept [OF assms(1)] attached_kept [OF assms(1)] run_in_kept [OF assms(1)]
  have "run_in t snap i \<noteq> None" if "run_in s snap i \<noteq> None" for snap i using that kept(3) by blast
  with assms(2) kept(1,2) show ?thesis by (simp add: observation_closed_def)
qed

lemma derivation_closed_kept:
  assumes "extends s t" "derivation_closed s d"
  shows "derivation_closed t d"
proof -
  note kept = subject_known_kept [OF assms(1)] attached_kept [OF assms(1)]
  have "observation_in t snap i \<noteq> None" if "observation_in s snap i \<noteq> None" for snap i
    using that observation_in_kept [OF assms(1)] by blast
  moreover have "derivation_in t snap i \<noteq> None" if "derivation_in s snap i \<noteq> None" for snap i
    using that derivation_in_kept [OF assms(1)] by blast
  ultimately show ?thesis using assms(2) kept unfolding derivation_closed_def by meson
qed

lemma given_member: "i \<in> set (given x) \<Longrightarrow> x = Some i"
  by (auto simp: given_def split: option.splits if_splits)

lemma referenced_closed:
  assumes "observation_references [] s b = Inr ()"
  shows "observation_closed s b"
proof -
  note r = assms [unfolded observation_references_def]
  from r have s: "require_subject s (ob_snapshot_id b) (ob_subject_id b) = Inr ()"
    and a: "forR (require_artifact s (ob_snapshot_id b)) (given (ob_artifact_id b)) = Inr ()"
    and c: "forR (require_artifact s (ob_snapshot_id b)) (case anchor_artifact (ob_anchor b) of None \<Rightarrow> [] | Some a \<Rightarrow> [a]) = Inr ()"
    and q: "forR (require_run s (ob_snapshot_id b)) (given (ob_run_id b)) = Inr ()"
    by (simp_all add: checks_Cons_iff)
  have "attached s (ob_snapshot_id b) i" if "i \<in> set (cited_artifact_ids b)" for i
  proof -
    from that have "i \<in> set (given (ob_artifact_id b)) \<or> anchor_artifact (ob_anchor b) = Some i"
      by (auto simp: cited_artifact_ids_def dest: given_member)
    then show ?thesis using a c by (auto simp: forR_Inr_iff require_artifact_def reject_store_Inr_iff)
  qed
  with s q show ?thesis
    by (auto simp: observation_closed_def subject_known_def forR_Inr_iff require_subject_def require_run_def reject_store_Inr_iff)
qed

lemma accepted_observation:
  assumes "add_observation env [] s b = Inr t"
  shows "revalidated_observation b = Inr b" "observation_closed s b"
    "put_row lg_observations lg_observations_update (\<lambda>s. snapshot_reference s (ob_snapshot_id b)) (ob_id b) b (Observation_val b) s = Inr t"
proof -
  from assms obtain b' where b': "revalidated_observation b = Inr b'" unfolding add_observation_def bindR_Inr_iff by blast
  show b: "revalidated_observation b = Inr b" using b' revalidated_same(2) [OF b'] by simp
  note a = assms [unfolded add_observation_def b bindR.simps]
  from a have "observation_references [] s b = Inr ()" by (auto simp: bindR_Inr_iff)
  then show "observation_closed s b" by (rule referenced_closed)
  from a show "put_row lg_observations lg_observations_update (\<lambda>s. snapshot_reference s (ob_snapshot_id b)) (ob_id b) b (Observation_val b) s = Inr t"
    by (auto simp: bindR_Inr_iff)
qed

text \<open>A resolved reference to the own snapshot.\<close>

lemma resolved_here:
  assumes "resolve_evidence_ref [snap] s e = Inr snap'"
  shows "reference_exists s e snap = Inr True"
proof -
  from assms have "\<forall>x. er_snapshot_id e = Some x \<longrightarrow> x = snap"
    unfolding resolve_evidence_ref_def bindR_Inr_iff by (auto simp: checks_Cons_iff reject_store_Inr_iff)
  then have here: "(case er_snapshot_id e of Some x \<Rightarrow> [x] | None \<Rightarrow> sorted_set [snap]) = [snap]"
    by (auto simp: sorted_set_def split: option.splits)
  from assms show ?thesis
    unfolding resolve_evidence_ref_def here
    by (cases "reference_exists s e snap") (auto simp: bindR_Inr_iff mapr_Inr_iff split: if_splits)
qed

lemma anchored_attached: "anchored s snap anchors (Some a) = Inr True \<Longrightarrow> attached s snap (str_of (sa_artifact_id a))"
  by (auto simp: anchored_def bindR_Inr_iff mapr_Inr_iff require_artifact_def reject_store_Inr_iff split: if_splits)

lemma cited_exists:
  assumes e: "reference_exists s e snap = Inr True"
    and i: "i \<in> set (if er_kind e \<in> {''observation'', ''derivation'', ''artifact''} then [er_target_id e]
       else (case anchor_artifact (er_anchor e) of None \<Rightarrow> [] | Some a \<Rightarrow> [a]))"
  shows "observation_in s snap i \<noteq> None \<or> derivation_in s snap i \<noteq> None \<or> attached s snap i"
proof (cases "er_kind e \<in> {''observation'', ''derivation'', ''artifact''}")
  case True
  with e i show ?thesis by (auto simp: reference_exists_def)
next
  case False
  then have "er_kind e \<noteq> ''observation''" "er_kind e \<noteq> ''derivation''" "er_kind e \<noteq> ''artifact''" by auto
  with e have x: "\<exists>anchors. anchored s snap anchors (er_anchor e) = Inr True"
    unfolding reference_exists_def by (simp only: if_False) (auto split: if_splits option.splits)
  from False i obtain a where a: "er_anchor e = Some a" "i = str_of (sa_artifact_id a)"
    by (cases "er_anchor e") (simp_all add: anchor_artifact_def)
  with x show ?thesis by (auto dest: anchored_attached)
qed

lemma accepted_derivation_closed:
  assumes a: "add_derivation env [] authorized s d = Inr t"
  shows "derivation_closed s d"
  unfolding derivation_closed_def
proof
  show "subject_known s (dv_snapshot_id d) (dv_subject_id d)"
    using accepted_derivation(4) [OF a] by (auto simp: require_subject_def reject_store_Inr_iff subject_known_def)
  show "\<forall>i \<in> set (derivation_cites d). observation_in s (dv_snapshot_id d) i \<noteq> None
          \<or> derivation_in s (dv_snapshot_id d) i \<noteq> None \<or> attached s (dv_snapshot_id d) i"
  proof
    fix i
    assume "i \<in> set (derivation_cites d)"
    then obtain e where e: "e \<in> set (dv_evidence_refs d)"
      and i: "i \<in> set (if er_kind e \<in> {''observation'', ''derivation'', ''artifact''} then [er_target_id e]
       else (case anchor_artifact (er_anchor e) of None \<Rightarrow> [] | Some a \<Rightarrow> [a]))"
      by (auto simp: derivation_cites_def)
    from accepted_derivation(2) [OF a e] obtain snap where "resolve_evidence_ref [dv_snapshot_id d] s e = Inr snap"
      by (auto simp: derivation_reference_def bindR_Inr_iff mapr_Inr_iff)
    then show "observation_in s (dv_snapshot_id d) i \<noteq> None \<or> derivation_in s (dv_snapshot_id d) i \<noteq> None
        \<or> attached s (dv_snapshot_id d) i"
      by (rule cited_exists [OF resolved_here i])
  qed
qed

section \<open>Closure of the stored facts\<close>

definition facts_closed :: "Ledger \<Rightarrow> bool" where
  "facts_closed s \<longleftrightarrow> (\<forall>b \<in> table_values (lg_observations s). observation_closed s b)
     \<and> (\<forall>d \<in> table_values (lg_derivations s). derivation_closed s d)"

lemma facts_closed_initial: "facts_closed (initial_ledger f)"
  by (simp add: facts_closed_def initial_ledger_def table_values_def)

lemma new_observation_closed:
  assumes "row_step s t" "kv \<in> set (lg_observations t)" "kv \<notin> set (lg_observations s)"
  shows "observation_closed t (rw_value (snd kv))"
proof -
  obtain env b where a: "add_observation env [] s b = Inr t" using new_observation [OF assms] .
  have "rw_value (snd kv) = b"
    using observations.put_row_table [OF accepted_observation(3) [OF a]] assms(2,3) by auto
  with accepted_observation(2) [OF a] show ?thesis
    using observation_closed_kept [OF add_observation_extends [OF a]] by simp
qed

lemma new_derivation_closed:
  assumes "row_step s t" "kv \<in> set (lg_derivations t)" "kv \<notin> set (lg_derivations s)"
  shows "derivation_closed t (rw_value (snd kv))"
proof -
  obtain env authorized d where a: "add_derivation env [] authorized s d = Inr t" using new_derivation [OF assms] .
  have "rw_value (snd kv) = d"
    using derivations.put_row_table [OF accepted_derivation(5) [OF a]] assms(2,3) by auto
  with accepted_derivation_closed [OF a] show ?thesis
    using derivation_closed_kept [OF add_derivation_extends [OF a]] by simp
qed


section \<open>No cycles\<close>

text \<open>Derivations, newest first: each rests on observations, artifacts and older derivations.\<close>

fun rests_back :: "(string \<times> Derivation row) list \<Rightarrow> bool" where
  "rests_back [] \<longleftrightarrow> True"
| "rests_back ((i, row) # rows) \<longleftrightarrow> i \<notin> fst ` set rows \<and> rests_back rows
     \<and> (\<forall>j \<in> set (derivation_cites (rw_value row)).
          named ''observation'' j \<or> named ''artifact'' j \<or> named ''derivation'' j \<and> j \<in> fst ` set rows)"

fun place :: "(string \<times> 'a) list \<Rightarrow> string \<Rightarrow> nat" where
  "place [] i = 0"
| "place ((k, v) # rows) i = (if k = i then Suc (length rows) else place rows i)"

lemma place_bound: "place rows i \<le> length rows"
  by (induction rows) auto

lemma rests_on_older:
  "rests_back rows \<Longrightarrow> (i, row) \<in> set rows \<Longrightarrow> j \<in> set (derivation_cites (rw_value row)) \<Longrightarrow> named ''derivation'' j
    \<Longrightarrow> j \<in> fst ` set rows \<and> place rows j < place rows i"
proof (induction rows)
  case (Cons kv rows)
  obtain k r where kv: "kv = (k, r)" by (cases kv)
  note p = Cons.prems [unfolded kv]
  show ?case
  proof (cases "(i, row) = (k, r)")
    case True
    with p(1,3,4) have "j \<in> fst ` set rows" "j \<noteq> k" by (auto simp: named_differ)
    moreover have "place rows j \<le> length rows" by (rule place_bound)
    ultimately show ?thesis using True kv by auto
  next
    case False
    with p(2) have i: "(i, row) \<in> set rows" by auto
    from p(1) have r: "rests_back rows" "k \<notin> fst ` set rows" by simp_all
    from Cons.IH [OF r(1) i p(3,4)] have "j \<in> fst ` set rows" "place rows j < place rows i" by simp_all
    moreover from i r(2) have "i \<noteq> k" by force
    ultimately show ?thesis using kv r(2) by auto
  qed
qed simp

lemma rests_cited:
  "rests_back rows \<Longrightarrow> (i, row) \<in> set rows \<Longrightarrow> j \<in> set (derivation_cites (rw_value row))
    \<Longrightarrow> named ''observation'' j \<or> named ''artifact'' j \<or> named ''derivation'' j"
  by (induction rows rule: rests_back.induct) auto

lemma placed: "(i, v) \<in> set rows \<Longrightarrow> 0 < place rows i"
  by (induction rows) auto

text \<open>The kinds of the rows, and their order.\<close>

definition lineage_ok :: "Ledger \<Rightarrow> bool" where
  "lineage_ok s \<longleftrightarrow> rests_back (lg_derivations s)
     \<and> (\<forall>(i, row) \<in> set (lg_observations s). named ''observation'' i
          \<and> (\<forall>j \<in> set (cited_artifact_ids (rw_value row)). named ''artifact'' j))
     \<and> (\<forall>i \<in> fst ` set (lg_derivations s). named ''derivation'' i)
     \<and> (\<forall>i \<in> fst ` set (lg_verifications s). named ''verification'' i)
     \<and> (\<forall>k \<in> fst ` set (lg_snapshot_artifacts s). named ''artifact'' (snd k))"

lemma lineage_ok_initial: "lineage_ok (initial_ledger f)"
  by (simp add: lineage_ok_def initial_ledger_def)

lemma stored_row: "row_in f table snap i \<noteq> None \<Longrightarrow> \<exists>row. (i, row) \<in> set table"
  by (auto simp: row_in_def split: option.splits dest: map_of_SomeD)

lemma stored_kinds:
  assumes "lineage_ok s"
  shows "observation_in s snap i \<noteq> None \<Longrightarrow> named ''observation'' i"
    "derivation_in s snap i \<noteq> None \<Longrightarrow> named ''derivation'' i \<and> i \<in> fst ` set (lg_derivations s)"
    "attached s snap i \<Longrightarrow> named ''artifact'' i"
proof -
  assume "observation_in s snap i \<noteq> None"
  from stored_row [OF this [unfolded observation_in_def]] obtain row where "(i, row) \<in> set (lg_observations s)" ..
  with assms show "named ''observation'' i" by (auto simp: lineage_ok_def)
next
  assume "derivation_in s snap i \<noteq> None"
  from stored_row [OF this [unfolded derivation_in_def]] obtain row where "(i, row) \<in> set (lg_derivations s)" ..
  then have "i \<in> fst ` set (lg_derivations s)" by (rule image_eqI [rotated]) simp
  with assms show "named ''derivation'' i \<and> i \<in> fst ` set (lg_derivations s)" unfolding lineage_ok_def by blast
next
  assume "attached s snap i"
  then obtain role where "((snap, i), role) \<in> set (lg_snapshot_artifacts s)" by (auto simp: attached_def dest: map_of_SomeD)
  then have "(snap, i) \<in> fst ` set (lg_snapshot_artifacts s)" by (rule image_eqI [rotated]) simp
  with assms have "named ''artifact'' (snd (snap, i))" unfolding lineage_ok_def by blast
  then show "named ''artifact'' i" by simp
qed

lemma store_artifact_attaches:
  assumes "store_artifact future snap s a = Inr t"
  shows "fst ` set (lg_snapshot_artifacts t) \<subseteq> insert (snap, ar_id a) (fst ` set (lg_snapshot_artifacts s))"
proof -
  from assms obtain p u where u: "insert_artifact a p s = Inr u" and t: "t = attach_artifact snap a u"
    unfolding store_artifact_def bindR_Inr_iff mapr_Inr_iff by blast
  have "lg_snapshot_artifacts u = lg_snapshot_artifacts s" using insert_artifact_frame [OF u] by auto
  with t show ?thesis by (auto simp: attach_artifact_def)
qed

lemma store_artifacts_attach:
  "foldR (store_artifact future snap) s as = Inr t \<Longrightarrow>
     fst ` set (lg_snapshot_artifacts t) \<subseteq> {(snap, ar_id a) | a. a \<in> set as} \<union> fst ` set (lg_snapshot_artifacts s)"
proof (induction as arbitrary: s)
  case (Cons a as)
  then obtain u where u: "store_artifact future snap s a = Inr u" "foldR (store_artifact future snap) u as = Inr t"
    by (auto simp: bindR_Inr_iff)
  from Cons.IH [OF u(2)] store_artifact_attaches [OF u(1)] show ?case by auto
qed simp

lemma added_artifact_named:
  assumes "\<forall>k \<in> fst ` set (lg_snapshot_artifacts s). named ''artifact'' (snd k)" "add_artifact_in future snap s a = Inr t"
  shows "\<forall>k \<in> fst ` set (lg_snapshot_artifacts t). named ''artifact'' (snd k)"
proof
  from assms(2) obtain b where r: "revalidated_artifact a = Inr b" and b: "store_artifact future snap s b = Inr t"
    unfolding add_artifact_in_def bindR_Inr_iff by blast
  fix k
  assume "k \<in> fst ` set (lg_snapshot_artifacts t)"
  from subsetD [OF store_artifact_attaches [OF b] this] show "named ''artifact'' (snd k)"
  proof (rule insertE)
    assume "k = (snap, ar_id b)"
    with revalidated_named(4) [OF r] show ?thesis by simp
  qed (rule bspec [OF assms(1)])
qed

lemma saved_artifacts_named:
  assumes "\<forall>k \<in> fst ` set (lg_snapshot_artifacts s). named ''artifact'' (snd k)" "save_snapshot d as s = Inr t"
  shows "\<forall>k \<in> fst ` set (lg_snapshot_artifacts t). named ''artifact'' (snd k)"
proof
  from assms(2) obtain e p i bs u v where bs: "mapR revalidated_artifact as = Inr bs" and u: "insert_snapshot e s = Inr u"
    and v: "insert_snapshot_manifest i p u = Inr v" and t: "foldR (store_artifact [] i) v bs = Inr t"
    unfolding save_snapshot_def bindR_Inr_iff by blast
  have uv: "lg_snapshot_artifacts u = lg_snapshot_artifacts s" "lg_snapshot_artifacts v = lg_snapshot_artifacts u"
    using u v by (auto simp: insert_snapshot_def insert_snapshot_manifest_def bindR_Inr_iff mapr_Inr_iff split: option.splits)
  fix k
  assume "k \<in> fst ` set (lg_snapshot_artifacts t)"
  then have "(\<exists>b. k = (i, ar_id b) \<and> b \<in> set bs) \<or> k \<in> fst ` set (lg_snapshot_artifacts s)"
    using store_artifacts_attach [OF t] uv by auto
  then show "named ''artifact'' (snd k)"
  proof
    assume "\<exists>b. k = (i, ar_id b) \<and> b \<in> set bs"
    then obtain b where b: "k = (i, ar_id b)" "b \<in> set bs" by blast
    from mapR_set [OF bs b(2)] obtain a where "revalidated_artifact a = Inr b" by blast
    with b(1) show ?thesis using revalidated_named(4) by simp
  qed (use assms(1) in blast)
qed

text \<open>The other parts, one insertion each.\<close>

lemma observed_kinds:
  assumes "lineage_ok s" "add_observation env [] s b = Inr t"
  shows "lineage_ok t"
proof -
  note a = accepted_observation [OF assms(2)]
  have "named ''observation'' (ob_id b)" by (rule revalidated_named(1) [OF a(1)])
  moreover have "named ''artifact'' j" if "j \<in> set (cited_artifact_ids b)" for j
    using a(2) that stored_kinds(3) [OF assms(1)] unfolding observation_closed_def by blast
  moreover obtain rows where t: "t = s\<lparr>lg_observations := rows\<rparr>" using observation_frame [OF assms(2)] by blast
  moreover from observations.put_row_table [OF a(3)] t have "rows = lg_observations s
      \<or> (\<exists>p. rows = (ob_id b, \<lparr>rw_value = b, rw_payload = p\<rparr>) # lg_observations s)" by auto
  ultimately show ?thesis using assms(1) by (elim disjE exE) (simp_all add: lineage_ok_def)
qed

lemma derived_kinds:
  assumes "lineage_ok s" "add_derivation env [] authorized s d = Inr t"
  shows "lineage_ok t"
proof -
  note a = accepted_derivation [OF assms(2)]
  have named: "named ''derivation'' (dv_id d)" by (rule revalidated_named(2) [OF a(1)])
  have cites: "named ''observation'' j \<or> named ''artifact'' j \<or> named ''derivation'' j \<and> j \<in> fst ` set (lg_derivations s)"
    if "j \<in> set (derivation_cites d)" for j
    using accepted_derivation_closed [OF assms(2)] that stored_kinds [OF assms(1)] unfolding derivation_closed_def by blast
  obtain rows where t: "t = s\<lparr>lg_derivations := rows\<rparr>" using derivation_frame [OF assms(2)] by blast
  have "rows = lg_derivations s
      \<or> (\<exists>p. map_of (lg_derivations s) (dv_id d) = None \<and> rows = (dv_id d, \<lparr>rw_value = d, rw_payload = p\<rparr>) # lg_derivations s)"
    using derivations.put_row_table [OF a(5)] t by auto
  then show ?thesis
    using assms(1) named cites by (elim disjE exE conjE) (simp_all add: t lineage_ok_def map_of_eq_None_iff)
qed

lemma verified_kinds:
  assumes "lineage_ok s" "add_verification env [] E s v = Inr t"
  shows "lineage_ok t"
proof -
  from assms(2) obtain v' where v': "revalidated_verification v = Inr v'" unfolding add_verification_def bindR_Inr_iff by blast
  note v = v' [unfolded revalidated_same(4) [OF v']]
  from assms(2) have p: "put_row lg_verifications lg_verifications_update (\<lambda>s. snapshot_reference s (vr_snapshot_id v))
       (vr_id v) v (VerificationResult_val v) s = Inr t"
    unfolding add_verification_def v bindR.simps bindR_Inr_iff by blast
  obtain rows where t: "t = s\<lparr>lg_verifications := rows\<rparr>" using verification_frame [OF assms(2)] by blast
  from verifications.put_row_table [OF p] t have "rows = lg_verifications s
      \<or> (\<exists>p. rows = (vr_id v, \<lparr>rw_value = v, rw_payload = p\<rparr>) # lg_verifications s)" by auto
  then show ?thesis using assms(1) revalidated_named(3) [OF v] t
    by (elim disjE exE) (simp_all add: lineage_ok_def)
qed

lemma lineage_ok_step:
  assumes "row_step s t" "lineage_ok s"
  shows "lineage_ok t"
  using assms
proof (induction rule: row_step.induct)
  case (snapshot_rows d artifacts s t)
  from snapshot_rows.prems have "\<forall>k \<in> fst ` set (lg_snapshot_artifacts s). named ''artifact'' (snd k)"
    by (simp add: lineage_ok_def)
  note named = saved_artifacts_named [OF this snapshot_rows.hyps]
  obtain a b x y where t: "t = s\<lparr>lg_snapshots := a, lg_snapshot_manifests := b, lg_artifacts := x, lg_snapshot_artifacts := y\<rparr>"
    using snapshot_frame [OF snapshot_rows.hyps] by blast
  with named snapshot_rows.prems show ?case by (simp add: lineage_ok_def)
next
  case (artifact_row future snap s a t)
  from artifact_row.prems have "\<forall>k \<in> fst ` set (lg_snapshot_artifacts s). named ''artifact'' (snd k)"
    by (simp add: lineage_ok_def)
  note named = added_artifact_named [OF this artifact_row.hyps]
  obtain x y where t: "t = s\<lparr>lg_artifacts := x, lg_snapshot_artifacts := y\<rparr>"
    using artifact_frame [OF artifact_row.hyps] by blast
  with named artifact_row.prems show ?case by (simp add: lineage_ok_def)
next
  case (observation_row env s b t)
  show ?case by (rule observed_kinds [OF observation_row.prems observation_row.hyps])
next
  case (derivation_row env authorized s d t)
  show ?case by (rule derived_kinds [OF derivation_row.prems derivation_row.hyps])
next
  case (verification_row env E s v t)
  show ?case by (rule verified_kinds [OF verification_row.prems verification_row.hyps])
qed (drule frame, clarsimp simp: lineage_ok_def)+

lemma lineage_ok_run:
  assumes "ledger_run s t" "lineage_ok s"
  shows "lineage_ok t"
  using ledger_run_rows [OF assms(1)] assms(2) by (induction rule: rtranclp_induct) (auto intro: lineage_ok_step)

definition evidence_place :: "Ledger \<Rightarrow> string \<Rightarrow> nat" where
  "evidence_place s i = (if named ''derivation'' i then 1 + place (lg_derivations s) i
     else if named ''observation'' i then 1 else 0)"

lemma producer_lineage_descends:
  assumes ok: "lineage_ok s" and c: "(i, j) \<in> cites (producer_lineage s snap)"
    and i: "named ''observation'' i \<or> named ''artifact'' i \<or> named ''derivation'' i"
  shows "(named ''observation'' j \<or> named ''artifact'' j \<or> named ''derivation'' j) \<and> evidence_place s j < evidence_place s i"
proof -
  from c obtain own cited where "map_of (producer_lineage s snap) i = Some (own, cited)" and j: "j \<in> set cited"
    by (auto simp: cites_def)
  then have "(i, own, cited) \<in> set (producer_lineage s snap)" by (simp add: map_of_SomeD)
  then consider (observation) row where "(i, row) \<in> set (lg_observations s)" "cited = cited_artifact_ids (rw_value row)"
    | (derivation) row where "(i, row) \<in> set (lg_derivations s)" "cited = derivation_cites (rw_value row)"
    | (verification) row where "(i, row) \<in> set (lg_verifications s)"
    | (artifact) "cited = []"
    by (fastforce simp: producer_lineage_def rows_of_def)
  then show ?thesis
  proof cases
    case observation
    with ok j have "named ''observation'' i" "named ''artifact'' j" by (auto simp: lineage_ok_def)
    then show ?thesis by (simp add: evidence_place_def named_differ)
  next
    case derivation
    with ok have d: "named ''derivation'' i" and r: "rests_back (lg_derivations s)" by (force simp: lineage_ok_def)+
    show ?thesis
    proof (cases "named ''derivation'' j")
      case True
      with rests_on_older [OF r derivation(1) j [unfolded derivation(2)]] d show ?thesis by (simp add: evidence_place_def)
    next
      case False
      with rests_cited [OF r derivation(1) j [unfolded derivation(2)]] d show ?thesis
        by (auto simp: evidence_place_def placed [OF derivation(1)])
    qed
  next
    case verification
    with ok have "named ''verification'' i" by (force simp: lineage_ok_def)
    with i show ?thesis by (auto dest: named_differ)
  next
    case artifact
    with j show ?thesis by simp
  qed
qed

text \<open>C11: in a reachable ledger the search for the producer runs of a stored observation,
  derivation or attached artifact always ends with an answer: it never runs into a cycle, so
  the write boundary never refuses a claim because the evidence it cites is cyclic.\<close>

theorem stored_evidence_has_producers:
  assumes "lineage_ok s" and "ledger_run s t"
    and "observation_in t snap i \<noteq> None \<or> derivation_in t snap i \<noteq> None \<or> attached t snap i"
  shows "\<exists>runs. evidence_producer_runs t snap i = Inr runs"
proof -
  have ok: "lineage_ok t" by (rule lineage_ok_run [OF assms(2,1)])
  have "named ''observation'' i \<or> named ''artifact'' i \<or> named ''derivation'' i"
    using assms(3) stored_kinds [OF ok] by blast
  then show ?thesis unfolding evidence_producer_runs_def
    using walk_ranked [where g = "producer_lineage t snap" and rank = "evidence_place t"
        and P = "\<lambda>i. named ''observation'' i \<or> named ''artifact'' i \<or> named ''derivation'' i"]
      producer_lineage_descends [OF ok] by blast
qed

end
