(* ===== verification/Ledger_Witness.thy ===== *)
theory Ledger_Witness
  imports Ledger_Publish Orchestrator_Witness
begin

text \<open>
  Concrete commits of index runs: a ledger with one snapshot, an empty graph for it, and an
  index run that succeeded or failed.
\<close>

definition witness_digest :: string where
  "witness_digest = replicate 64 (CHR ''a'')"

definition witness_indexed :: DesignSnapshot where
  "witness_indexed = witness_snapshot
     \<lparr>mh_manifest = witness_digest, mh_build = witness_digest, mh_target = witness_digest,
      mh_constraint = witness_digest, mh_toolchain = witness_digest\<rparr>"

definition witness_ledger :: Ledger where
  "witness_ledger = (initial_ledger True)
     \<lparr>lg_snapshots := [(''s1'', \<lparr>rw_value = witness_indexed, rw_payload = ''{}''\<rparr>)]\<rparr>"

definition witness_index_run :: "string \<Rightarrow> string \<Rightarrow> ToolRun" where
  "witness_index_run status i =
     \<lparr>tr_snapshot_id = ''s1'', tr_stage = ''index'', tr_backend = ''runner.local'',
      tr_request_hash = witness_digest, tr_id = i, tr_toolchain_id = None,
      tr_status = status, tr_command = [], tr_working_directory = None,
      tr_environment_hash = None, tr_input_artifact_ids = [], tr_output_artifact_ids = [],
      tr_diagnostics = [], tr_gates = [], tr_failure_class = ''none'', tr_exit_code = PNone,
      tr_attempt = PInt 1, tr_started_at = PNone, tr_finished_at = PNone, tr_elapsed_s = PNone,
      tr_message = PNone, tr_metadata = []\<rparr>"

definition witness_env :: store_env where
  "witness_env = \<lparr>se_parse_iso = \<lambda>_. None, se_live_bytes = \<lambda>_. True, se_replay = \<lambda>_ _ _ _ _. Inr None\<rparr>"

lemma witness_index_run_built:
  assumes "status \<in> {''succeeded'', ''failed''}"
  obtains i where "revalidated_run witness_env (witness_index_run status i) = Inr (witness_index_run status i)"
proof -
  let ?r = "witness_index_run status []"
  have facts: "is_namespaced ''s1''" "is_namespaced ''index''" "is_namespaced ''runner.local''" "is_sha256_lower witness_digest"
    by code_simp+
  have shape: "ToolRun_shape (\<lambda>_. None) ?r = Inr ()"
    using assms facts
    by (auto simp: ToolRun_shape_def witness_index_run_def checks_eval require_namespaced_def opt_namespaced_def
        run_ids_check_def run_times_check_def run_timestamp_def fingerprint_check_def dhas_def dget_def enum_value_def
        RunStatus_def FailureClass_def is_sha256_lower_imp)
  have guard: "guard_contract ?r = Inr ()"
    using assms by (auto simp: guard_contract_def witness_index_run_def reject_def Let_def)
  have body: "reject_embedded_body_fields (PDict (tr_metadata ?r)) = Inr ()"
    by (simp add: witness_index_run_def)
  have id: "\<exists>t. canonical_json (ToolRun_identity ?r) = Inr t"
    by (simp add: ToolRun_identity_def witness_index_run_def canonical_json_def pdict_def dict_of_pairs_def)
  have rest: "lower_fingerprint (tr_metadata ?r) = tr_metadata ?r" "tr_id ?r = []"
    "lower (tr_request_hash ?r) = tr_request_hash ?r" "map_option lower (tr_environment_hash ?r) = tr_environment_hash ?r"
    using facts by (simp_all add: lower_fingerprint_def witness_index_run_def dhas_def lower_sha256_lower)
  obtain i where i: "ToolRun_init (\<lambda>_. None) ?r = Inr (?r\<lparr>tr_id := i\<rparr>)"
    by (rule built_run [OF shape guard body id rest(2,3,4,1)])
  have e: "?r\<lparr>tr_id := i\<rparr> = witness_index_run status i" "(witness_index_run status i)\<lparr>tr_id := []\<rparr> = ?r" "tr_gates ?r = []"
    by (simp_all add: witness_index_run_def)
  have g: "?r\<lparr>tr_gates := []\<rparr> = ?r" by (simp add: witness_index_run_def)
  have "ToolRun_from_dict (\<lambda>_. None) ?r = Inr (witness_index_run status i)"
    using i by (simp add: ToolRun_from_dict_def e(1,3) g)
  then have "revalidated_run witness_env (witness_index_run status i) = Inr (witness_index_run status i)"
    by (simp add: revalidated_run_def run.revalidate_iff witness_env_def e(2))
  then show ?thesis by (rule that)
qed

lemma witness_index_run_payload: "\<exists>p. canonical_json (ToolRun_val (witness_index_run status i)) = Inr p"
  by (simp add: ToolRun_val_def witness_index_run_def canonical_json_def opt_str_def str_list_def
      dict_of_pairs_def mapr_def)

text \<open>The run enters a ledger with its snapshot, and again without a change.\<close>

lemma witness_run_added:
  assumes "revalidated_run witness_env (witness_index_run status i) = Inr (witness_index_run status i)"
    and "canonical_json (ToolRun_val (witness_index_run status i)) = Inr p"
    and "has_snapshot s ''s1''" and "lg_runs s = []"
  shows "add_run_in witness_env E G None (witness_index_run status i) s
      = Inr (s\<lparr>lg_runs := [(i, \<lparr>rw_value = witness_index_run status i, rw_payload = p\<rparr>)]\<rparr>)"
    and "add_run witness_env (witness_index_run status i)
        (s\<lparr>lg_runs := [(i, \<lparr>rw_value = witness_index_run status i, rw_payload = p\<rparr>)]\<rparr>)
      = Inr (s\<lparr>lg_runs := [(i, \<lparr>rw_value = witness_index_run status i, rw_payload = p\<rparr>)]\<rparr>)"
proof -
  have fields: "tr_id (witness_index_run status i) = i" "tr_snapshot_id (witness_index_run status i) = ''s1''"
    "tr_input_artifact_ids (witness_index_run status i) = []" "tr_output_artifact_ids (witness_index_run status i) = []"
    "tr_gates (witness_index_run status i) = []" "tr_diagnostics (witness_index_run status i) = []"
    "\<not> run_claims_tool_truth (witness_index_run status i)"
    by (simp_all add: witness_index_run_def run_claims_tool_truth_def dget_def)
  note simps = add_run_def add_run_in_def assms(1,2) fields assms(3,4) checks_eval reject_store_def run_artifacts_check_def
    run_artifact_ids_def put_row_def immutable_payload_def snapshot_reference_def constraint_def has_snapshot_def
  from assms(3) show "add_run_in witness_env E G None (witness_index_run status i) s
      = Inr (s\<lparr>lg_runs := [(i, \<lparr>rw_value = witness_index_run status i, rw_payload = p\<rparr>)]\<rparr>)"
    by (simp add: simps)
  from assms(3) show "add_run witness_env (witness_index_run status i)
        (s\<lparr>lg_runs := [(i, \<lparr>rw_value = witness_index_run status i, rw_payload = p\<rparr>)]\<rparr>)
      = Inr (s\<lparr>lg_runs := [(i, \<lparr>rw_value = witness_index_run status i, rw_payload = p\<rparr>)]\<rparr>)"
    by (simp add: simps)
qed

definition witness_index_batch :: "string \<Rightarrow> index_batch" where
  "witness_index_batch i =
     \<lparr>ib_project_id = ''p'', ib_graph = empty_graph ''s1'' [] SCHEMA_VERSION, ib_run = witness_index_run ''succeeded'' i,
      ib_observations = [], ib_derivations = [], ib_verifications = [], ib_diagnostics = [], ib_materialization = None\<rparr>"

lemma witness_graph_saved:
  "\<exists>view. save_graph (empty_graph ''s1'' [] SCHEMA_VERSION) witness_ledger
     = Inr (witness_ledger\<lparr>lg_graph_views := [(''s1'', view)]\<rparr>) \<and> gv_schema_version view = SCHEMA_VERSION"
proof -
  have b: "reject_embedded_body_fields (PDict []) = Inr ()" by code_simp
  show ?thesis
    by (simp add: save_graph_def validate_graph_def save_view_def index_entities_def empty_graph_def checks_eval b
        reject_store_def as_store_value_error_def witness_ledger_def initial_ledger_def has_snapshot_def
        dict_of_pairs_def mapr_def)
qed

lemma witness_indexed_commit:
  obtains i t where "commit_index_success witness_env ''now'' (witness_index_batch i) None witness_ledger = Inr t"
proof -
  obtain i where i: "revalidated_run witness_env (witness_index_run ''succeeded'' i) = Inr (witness_index_run ''succeeded'' i)"
    by (rule witness_index_run_built [OF insertI1])
  obtain p where p: "canonical_json (ToolRun_val (witness_index_run ''succeeded'' i)) = Inr p"
    using witness_index_run_payload by blast
  obtain view where g: "save_graph (empty_graph ''s1'' [] SCHEMA_VERSION) witness_ledger
     = Inr (witness_ledger\<lparr>lg_graph_views := [(''s1'', view)]\<rparr>)" and v: "gv_schema_version view = SCHEMA_VERSION"
    using witness_graph_saved by blast
  let ?s = "witness_ledger\<lparr>lg_graph_views := [(''s1'', view)]\<rparr>"
  have s: "has_snapshot ?s ''s1''" "lg_runs ?s = []"
    by (simp_all add: witness_ledger_def initial_ledger_def has_snapshot_def)
  note run = witness_run_added [OF i p s]
  have graph: "cg_snapshot_id (empty_graph ''s1'' [] SCHEMA_VERSION) = ''s1''" by (simp add: empty_graph_def)
  have "SCHEMA_VERSION \<in> set SUPPORTED_GRAPH_SCHEMA_VERSIONS" by code_simp
  then have "\<exists>t. set_active_snapshot ''now'' ''p'' ''s1''
      (?s\<lparr>lg_runs := [(i, \<lparr>rw_value = witness_index_run ''succeeded'' i, rw_payload = p\<rparr>)]\<rparr>) = Inr t"
    by (simp add: set_active_snapshot_def witness_ledger_def initial_ledger_def reject_store_def reject_with_def
        or_store_error_def v witness_indexed_def witness_snapshot_def)
  then obtain t where "set_active_snapshot ''now'' ''p'' ''s1''
      (?s\<lparr>lg_runs := [(i, \<lparr>rw_value = witness_index_run ''succeeded'' i, rw_payload = p\<rparr>)]\<rparr>) = Inr t" ..
  then have "commit_index_rows witness_env ''now'' (witness_index_batch i) None witness_ledger = Inr t"
    by (simp add: commit_index_rows_def witness_index_batch_def g run add_observations_def add_derivations_def
        add_verifications_def add_diagnostics_def graph)
  moreover have "index_batch_check (witness_index_batch i) witness_ledger = Inr ()"
    by (simp add: index_batch_check_def witness_index_batch_def witness_ledger_def initial_ledger_def checks_eval
        reject_store_def index_lineage_check_def batch_snapshots_check_def require_batch_snapshot_def index_batch_ids_def
        witness_index_run_def empty_graph_def)
  moreover have "claim_index_authorization (witness_index_batch i) None witness_ledger = Inr None"
    by (simp add: claim_index_authorization_def complete_aggregate_ids_def witness_index_batch_def reject_store_def)
  ultimately have "commit_index_success witness_env ''now'' (witness_index_batch i) None witness_ledger = Inr t"
    by (simp add: commit_index_success_def)
  then show ?thesis by (rule that)
qed

theorem index_success_publishes_witness:
  "\<exists>i t d. commit_index_success witness_env ''now'' (witness_index_batch i) None witness_ledger = Inr t
     \<and> latest_snapshot witness_ledger (Some ''p'') = None \<and> latest_snapshot t (Some ''p'') = Some d"
proof -
  obtain i t where t: "commit_index_success witness_env ''now'' (witness_index_batch i) None witness_ledger = Inr t"
    by (rule witness_indexed_commit)
  have "\<exists>d. latest_snapshot t (Some ''p'') = Some d"
    using index_success_publishes [OF t] by (auto simp: witness_index_batch_def)
  moreover have "latest_snapshot witness_ledger (Some ''p'') = None" by code_simp
  ultimately show ?thesis using t by blast
qed

theorem index_failure_publishes_nothing_witness:
  "\<exists>i t. commit_index_failure witness_env (witness_index_run ''failed'' i) [] None witness_ledger = Inr t
     \<and> latest_snapshot t (Some ''p'') = None"
proof -
  obtain i where i: "revalidated_run witness_env (witness_index_run ''failed'' i) = Inr (witness_index_run ''failed'' i)"
    by (rule witness_index_run_built [OF insertI2 [OF singletonI]])
  obtain p where p: "canonical_json (ToolRun_val (witness_index_run ''failed'' i)) = Inr p"
    using witness_index_run_payload by blast
  have s: "has_snapshot witness_ledger ''s1''" "lg_runs witness_ledger = []"
    by (simp_all add: witness_ledger_def initial_ledger_def has_snapshot_def)
  note run = witness_run_added [OF i p s]
  have "\<exists>t. commit_index_failure witness_env (witness_index_run ''failed'' i) [] None witness_ledger = Inr t"
    by (simp add: commit_index_failure_def run add_diagnostics_def checks_eval reject_store_def
        failed_materialization_check_def require_batch_snapshot_def, simp add: witness_index_run_def)
  then obtain t where t: "commit_index_failure witness_env (witness_index_run ''failed'' i) [] None witness_ledger = Inr t" ..
  have "latest_snapshot witness_ledger (Some ''p'') = None" by code_simp
  then have "latest_snapshot t (Some ''p'') = None" using index_failure_publishes_nothing [OF t] by simp
  with t show ?thesis by blast
qed

theorem latest_snapshot_is_indexed_witness:
  "\<exists>t d. ledger_run witness_ledger t \<and> latest_snapshot t (Some ''p'') = Some d \<and> has_graph t (ds_id d)"
proof -
  obtain i t where t: "commit_index_success witness_env ''now'' (witness_index_batch i) None witness_ledger = Inr t"
    by (rule witness_indexed_commit)
  then have run: "ledger_run witness_ledger t" by (rule ledger_run.one [OF ledger_run.none store_step.index_success])
  have ok: "published_ok witness_ledger"
    by (simp add: published_ok_def witness_ledger_def initial_ledger_def witness_indexed_def witness_snapshot_def)
  obtain s9 where a: "set_active_snapshot ''now'' ''p'' ''s1'' s9 = Inr t"
    using index_commit_ends [OF t] by (auto simp: witness_index_batch_def empty_graph_def)
  have "map_of (lg_project_state t) ''p'' = Some (''s1'', ''now'')" by (simp add: activated(2) [OF a] update_conv')
  moreover obtain row where "map_of (lg_snapshots t) ''s1'' = Some row" using activated(1) [OF a] by (auto simp: pointer_ok_def)
  ultimately have "latest_snapshot t (Some ''p'') = Some (rw_value row)" by (intro latest_pointed) simp_all
  with latest_snapshot_is_indexed [OF ok run this] run show ?thesis by auto
qed

end
