(* ===== verification/Ledger_Claims_Witness.thy ===== *)
theory Ledger_Claims_Witness
  imports Ledger_Witness Ledger_Closure Authorization
begin

text \<open>
  A concrete commit of a run that claims tool truth, with the authorization it needs, and
  concrete ledgers with a passing C simulation and a true timing gate over attested runs.
\<close>

section \<open>A committed tool run\<close>

definition witness_registered :: "ManifestHashes \<Rightarrow> Ledger" where
  "witness_registered h = (initial_ledger True)
     \<lparr>lg_snapshots := [(''s1'', \<lparr>rw_value = witness_snapshot h, rw_payload = ''{}''\<rparr>)],
      lg_snapshot_manifests := [(''s1'', \<lparr>mr_hash = mh_manifest h, mr_manifest = witness_manifest, mr_payload = ''{}''\<rparr>)]\<rparr>"

lemma witness_stage_run_rebuilt:
  assumes "tool_run_stable_id_error (\<lambda>_. None) (witness_stage_run st i) = Inr None"
  shows "revalidated_run witness_env (witness_stage_run st i) = Inr (witness_stage_run st i)"
proof -
  let ?r = "witness_stage_run st []"
  have "\<exists>j. json_ready (PDict (tr_metadata ?r)) = Inr j \<and> dict_items (of_json j) = tr_metadata ?r"
    by (simp add: witness_stage_run_def witness_attested_outputs_def staged_entry_def pdict_def dict_of_pairs_def)
  then obtain j where j: "json_ready (PDict (tr_metadata ?r)) = Inr j" "dict_items (of_json j) = tr_metadata ?r" by blast
  have same: "tr_metadata (witness_stage_run st i) = tr_metadata ?r" "tr_id (witness_stage_run st i) = i"
    "(witness_stage_run st i)\<lparr>tr_id := [], tr_metadata := tr_metadata ?r\<rparr> = ?r" "?r\<lparr>tr_gates := []\<rparr> = ?r"
    "(witness_stage_run st i)\<lparr>tr_id := []\<rparr> = ?r" "tr_gates ?r = []" "tr_id ?r = []" "?r\<lparr>tr_environment_hash := None, tr_id := i\<rparr> = witness_stage_run st i"
    by (simp_all add: witness_stage_run_def)
  from assms obtain e where e: "ToolRun_from_dict (\<lambda>_. None) ?r = Inr e" "tr_id e = i"
    using j same by (auto simp: tool_run_stable_id_error_def rebuilt_run_def bindR_Inr_iff blame_iff
        split: sum.splits if_splits)
  then have "ToolRun_init (\<lambda>_. None) ?r = Inr e" by (simp add: ToolRun_from_dict_def same)
  then have "e = ?r\<lparr>tr_request_hash := lower (tr_request_hash ?r), tr_environment_hash := map_option lower (tr_environment_hash ?r),
      tr_metadata := lower_fingerprint (tr_metadata ?r), tr_id := i\<rparr>"
    unfolding ToolRun_init_iff using e(2) by auto
  moreover have "lower (replicate 64 (CHR ''a'')) = replicate 64 (CHR ''a'')" by code_simp
  then have "lower (tr_request_hash ?r) = tr_request_hash ?r" "lower_fingerprint (tr_metadata ?r) = tr_metadata ?r"
    "tr_environment_hash ?r = None"
    by (simp_all add: witness_stage_run_def lower_fingerprint_def dhas_def dget_def)
  ultimately have "e = witness_stage_run st i" using same(8) by simp
  with e(1) show ?thesis
    by (simp add: revalidated_run_def run.revalidate_iff witness_env_def same)
qed

lemma witness_stage_run_payload: "\<exists>p. canonical_json (ToolRun_val (witness_stage_run st i)) = Inr p"
  by (simp add: ToolRun_val_def witness_stage_run_def witness_attested_outputs_def staged_entry_def opt_str_def
        str_list_def pdict_def dict_of_pairs_def canonical_json_def mapr_def)

lemma witness_attestation_payload:
  "\<exists>p. canonical_json (ExecutionAttestation_val ((witness_attestation (witness_stage_run st i) run_hash h)\<lparr>xa_id := j\<rparr>)) = Inr p"
  "\<exists>p. payload_hash (ExecutionAttestation_val ((witness_attestation (witness_stage_run st i) run_hash h)\<lparr>xa_id := j\<rparr>)) = Inr p"
  by (simp_all add: ExecutionAttestation_val_def witness_attestation_def witness_declared_def witness_attested_outputs_def
        ExecutionDeclaredOutput_val_def ExecutionOutputAttestation_val_def canonical_json_def mapr_def payload_hash_def
        stable_hash_def dict_of_pairs_def)

text \<open>What issuing the attestation of a run gives.\<close>

lemma issued_parts:
  assumes "commit_attestation p c r outputs = Inr x"
  shows "execution_attestation_error p x r (ca_snapshot c) (ca_manifest c) outputs = Inr None" "is_namespaced (xa_id x)"
proof -
  from assms show "execution_attestation_error p x r (ca_snapshot c) (ca_manifest c) outputs = Inr None"
    by (auto simp: commit_attestation_def Let_def bindR_Inr_iff split: option.splits)
  from assms obtain y where "ExecutionAttestation_init y = Inr x"
    by (auto simp: commit_attestation_def Let_def bindR_Inr_iff split: option.splits)
  moreover have "is_namespaced ''execution_attestation''" by code_simp
  ultimately show "is_namespaced (xa_id x)"
    by (auto simp: ExecutionAttestation_init_def bindR_Inr_iff closed_id_n_def checks_Cons_iff dest: stable_id_namespaced)
qed

lemma receipt_built:
  assumes "payload_hash (ToolRun_val r) = Inr run_hash" "payload_hash (ExecutionAttestation_val x) = Inr attestation_hash"
    and "is_namespaced (xa_id x)" "is_namespaced (tr_id r)" "tr_snapshot_id r = ''s1''"
  obtains c where "commit_receipt r x = Inr c"
proof -
  have n: "is_namespaced ''s1''" "is_namespaced EXECUTION_RECEIPT_CONTRACT" "is_namespaced EXECUTION_RECEIPT_VALIDATOR"
    by code_simp+
  have h: "is_sha256_lower run_hash" "is_sha256_lower attestation_hash"
    using assms(1,2) by (auto simp: payload_hash_def bindR_Inr_iff dest: stable_hash_shape)
  have "\<exists>c. commit_receipt r x = Inr c"
    by (simp add: commit_receipt_def assms n h ExecutionCommitReceipt_init_def checks_eval require_namespaced_def
        digest_check_def casefold_sha256_lower closed_id_n_def stable_id_n_def stable_hash_def ExecutionCommitReceipt_identity_def
        canonical_json_def pdict_def dict_of_pairs_def mapr_def)
  then show ?thesis using that by blast
qed

lemma receipt_parts:
  assumes "commit_receipt r x = Inr c"
  shows "execution_commit_receipt_error c x r = Inr None"
    "xr_attestation_id c = xa_id x" "xr_run_id c = tr_id r" "xr_snapshot_id c = tr_snapshot_id r"
    "\<exists>p. canonical_json (ExecutionCommitReceipt_val c) = Inr p"
proof -
  from assms obtain a b i where h: "payload_hash (ToolRun_val r) = Inr a" "payload_hash (ExecutionAttestation_val x) = Inr b"
    and c: "c = \<lparr>xr_attestation_id = xa_id x, xr_run_id = tr_id r, xr_snapshot_id = tr_snapshot_id r,
        xr_run_payload_hash = casefold a, xr_attestation_payload_hash = casefold b,
        xr_receipt_contract = EXECUTION_RECEIPT_CONTRACT, xr_validator = EXECUTION_RECEIPT_VALIDATOR, xr_id = i\<rparr>"
    by (auto simp: commit_receipt_def ExecutionCommitReceipt_init_def bindR_Inr_iff checks_Cons_iff)
  have "casefold a = a" "casefold b = b"
    using h by (auto simp: payload_hash_def bindR_Inr_iff dest!: stable_hash_shape casefold_sha256_lower)
  then show "execution_commit_receipt_error c x r = Inr None"
    by (simp add: execution_commit_receipt_error_def c h verdict_eval)
  show "xr_attestation_id c = xa_id x" "xr_run_id c = tr_id r" "xr_snapshot_id c = tr_snapshot_id r"
    "\<exists>p. canonical_json (ExecutionCommitReceipt_val c) = Inr p"
    by (simp_all add: c ExecutionCommitReceipt_val_def canonical_json_def mapr_def
        dict_of_pairs_def)
qed

definition witness_batch :: "string \<Rightarrow> run_batch" where
  "witness_batch i =
     \<lparr>rb_run = witness_stage_run ''lint'' i, rb_artifacts = [], rb_observations = [], rb_derivations = [],
      rb_verifications = [], rb_diagnostics = []\<rparr>"

lemma witness_lint_run:
  "tr_id (witness_stage_run ''lint'' i) = i" "tr_snapshot_id (witness_stage_run ''lint'' i) = ''s1''"
  "tr_input_artifact_ids (witness_stage_run ''lint'' i) = []" "tr_output_artifact_ids (witness_stage_run ''lint'' i) = []"
  "tr_gates (witness_stage_run ''lint'' i) = []" "tr_diagnostics (witness_stage_run ''lint'' i) = []"
  "run_claims_tool_truth (witness_stage_run ''lint'' i)"
  by (simp_all add: witness_stage_run_def witness_attested_outputs_def run_claims_tool_truth_def dget_def)

lemma witness_truth_claim:
  assumes "tool_run_manifest_identity_error (witness_stage_run ''lint'' i) witness_manifest = None"
    and "map_of (lg_snapshot_manifests s) ''s1'' = Some row" "mr_manifest row = witness_manifest" "lg_snapshot_artifacts s = []"
  shows "tool_truth_claim_check s (witness_stage_run ''lint'' i) = Inr ()"
proof -
  have "real_tool_run_claim_error (witness_stage_run ''lint'' i) = None"
    by (simp add: real_tool_run_claim_error_def Let_def witness_stage_run_def dget_def, code_simp)
  then show ?thesis
    using assms by (simp add: tool_truth_claim_check_def reject_store_def checks_eval snapshot_manifest_for_evidence_def
        or_store_error_def witness_lint_run witness_manifest_rebuilt artifacts_of_def attached_ids_def)
qed

text \<open>Steps of the commit, from a ledger with the context of the snapshot.\<close>

lemma witness_run_commit:
  assumes r: "revalidated_run witness_env r = Inr r" "r = witness_stage_run ''lint'' i"
    and p: "canonical_json (ToolRun_val r) = Inr p" and q: "canonical_json (ExecutionAttestation_val x) = Inr q"
    and e: "execution_attestation_error (\<lambda>_. None) x r (witness_snapshot h) witness_manifest [] = Inr None"
    and x: "xa_run_id x = i" "xa_snapshot_id x = ''s1''" and c: "commit_receipt r x = Inr c"
    and cp: "canonical_json (ExecutionCommitReceipt_val c) = Inr cp"
  shows "commit_run_rows witness_env (witness_batch i) (Some x) (witness_registered h) = Inr ((witness_registered h)
     \<lparr>lg_runs := [(i, \<lparr>rw_value = r, rw_payload = p\<rparr>)], lg_attestations := [(xa_id x, \<lparr>rw_value = x, rw_payload = q\<rparr>)],
      lg_receipts := [(xr_id c, \<lparr>rw_value = c, rw_payload = cp\<rparr>)]\<rparr>)"
    (is "_ = Inr ?t")
proof -
  let ?s = "witness_registered h"
  let ?s1 = "?s\<lparr>lg_runs := [(i, \<lparr>rw_value = r, rw_payload = p\<rparr>)]\<rparr>"
  have ident: "tool_run_manifest_identity_error (witness_stage_run ''lint'' i) witness_manifest = None"
    using e r(2) by (simp add: execution_attestation_iff)
  have claim: "tool_truth_claim_check s r = Inr ()"
    if "lg_snapshot_manifests s = lg_snapshot_manifests ?s" "lg_snapshot_artifacts s = []" for s
    unfolding r(2)
    by (rule witness_truth_claim [OF ident, where row = "\<lparr>mr_hash = mh_manifest h, mr_manifest = witness_manifest, mr_payload = ''{}''\<rparr>"])
      (simp_all add: that, simp add: witness_registered_def)
  have base: "map_of (lg_snapshots ?s) ''s1'' = Some \<lparr>rw_value = witness_snapshot h, rw_payload = ''{}''\<rparr>"
    "snapshot_manifest_for_evidence s ''s1'' = Inr witness_manifest"
    if "lg_snapshot_manifests s = lg_snapshot_manifests ?s" for s
    by (simp_all add: snapshot_manifest_for_evidence_def that, simp_all add: witness_registered_def or_store_error_def
        witness_manifest_rebuilt)
  have valid: "validate_execution_attestation witness_env s r (Some x) False = Inr x"
    if "lg_snapshots s = lg_snapshots ?s" "lg_snapshot_manifests s = lg_snapshot_manifests ?s" for s
    using e base that by (simp add: validate_execution_attestation_def r(2) witness_lint_run or_store_error_def
        attested_artifacts_def reject_store_def checks_eval no_error_def witness_env_def)
  have stored: "validate_execution_attestation witness_env ?t r None True = Inr x"
    using e base [of ?t] receipt_parts [OF c] x
    by (simp add: validate_execution_attestation_def r(2) witness_lint_run or_store_error_def stored_attestation_def
        stored_receipt_def attested_artifacts_def reject_store_def checks_eval no_error_def witness_env_def)
  have empty: "lg_runs ?s = []" "lg_attestations ?s = []" "lg_receipts ?s = []" "lg_snapshot_artifacts ?s = []"
    by (simp_all add: witness_registered_def initial_ledger_def)
  note id = witness_lint_run [of i, folded r(2)]
  have snap: "snapshot_reference s ''s1'' = Inr ()" "has_snapshot s ''s1''" if "lg_snapshots s = lg_snapshots ?s" for s
    by (simp_all add: snapshot_reference_def constraint_def reject_with_def has_snapshot_def that witness_registered_def)
  have run: "add_run_in witness_env E G (Some x) r ?s = Inr ?s1" for E G
    using claim [of ?s] valid [of ?s]
    by (simp add: add_run_in_def r(1) reject_store_def checks_eval empty id snap put_row_def p immutable_payload_def
        run_artifacts_check_def run_artifact_ids_def)
  let ?s2 = "?s1\<lparr>lg_attestations := [(xa_id x, \<lparr>rw_value = x, rw_payload = q\<rparr>)]\<rparr>"
  have "add_execution_commit witness_env r x ?s1 = Inr ?t"
    using valid [of ?s1] c cp
    by (simp add: add_execution_commit_def put_row_def q immutable_payload_def attestation_schema_def receipt_schema_def
        checks_eval constraint_def reject_with_def id snap empty)
  moreover have "add_run witness_env r ?t = Inr ?t"
    using claim [of ?t] stored p
    by (simp add: add_run_def add_run_in_def r(1) reject_store_def checks_eval empty snap put_row_def
        immutable_payload_def id run_artifacts_check_def run_artifact_ids_def)
  ultimately show ?thesis
    using run by (simp add: commit_run_rows_def witness_batch_def r(2)[symmetric] add_observations_def add_derivations_def
        add_verifications_def add_diagnostics_def)
qed

lemma witness_committed:
  obtains i h x p q c cp where
    "fst (commit_run_result witness_env (witness_batch i) (Some \<lparr>eca_attestation = x, eca_object = 0\<rparr>) (witness_registered h)
       \<lparr>az_active = [(xa_id x, \<lparr>eca_attestation = x, eca_object = 0\<rparr>)], az_next = Suc 0\<rparr>)
     = Inr ((witness_registered h)\<lparr>lg_runs := [(i, \<lparr>rw_value = witness_stage_run ''lint'' i, rw_payload = p\<rparr>)],
         lg_attestations := [(xa_id x, \<lparr>rw_value = x, rw_payload = q\<rparr>)], lg_receipts := [(xr_id c, \<lparr>rw_value = c, rw_payload = cp\<rparr>)]\<rparr>)"
proof -
  obtain i h run_hash j where id: "tool_run_stable_id_error (\<lambda>_. None) (witness_stage_run ''lint'' i) = Inr None"
    and h: "manifest_hashes witness_manifest = Inr h" and rh: "payload_hash (ToolRun_val (witness_stage_run ''lint'' i)) = Inr run_hash"
    and issued: "commit_attestation (\<lambda>_. None) (witness_capability i h) (witness_stage_run ''lint'' i) (witness_outputs ''lint'' i)
       = Inr ((witness_attestation (witness_stage_run ''lint'' i) run_hash h)\<lparr>xa_id := j\<rparr>)"
    by (rule witness_issued [OF witness_stage_names(3)])
  let ?x = "(witness_attestation (witness_stage_run ''lint'' i) run_hash h)\<lparr>xa_id := j\<rparr>" and ?r = "witness_stage_run ''lint'' i"
  obtain p where p: "canonical_json (ToolRun_val ?r) = Inr p" using witness_stage_run_payload by blast
  obtain q where q: "canonical_json (ExecutionAttestation_val ?x) = Inr q" using witness_attestation_payload(1) by blast
  obtain ah where ah: "payload_hash (ExecutionAttestation_val ?x) = Inr ah" using witness_attestation_payload(2) by blast
  have "is_namespaced i" using stable_run_id_namespaced [OF id] by (simp add: witness_lint_run)
  then obtain c where c: "commit_receipt ?r ?x = Inr c"
    using receipt_built [OF rh ah issued_parts(2) [OF issued]] witness_lint_run(1,2) by metis
  obtain cp where cp: "canonical_json (ExecutionCommitReceipt_val c) = Inr cp" using receipt_parts(5) [OF c] by blast
  have e: "execution_attestation_error (\<lambda>_. None) ?x ?r (witness_snapshot h) witness_manifest [] = Inr None"
    using issued_parts(1) [OF issued] by (simp add: witness_capability_def witness_outputs_def)
  have x: "xa_run_id ?x = i" "xa_snapshot_id ?x = ''s1''" by (simp_all add: witness_attestation_def witness_lint_run)
  note rows = witness_run_commit [OF witness_stage_run_rebuilt [OF id] refl p q e x c cp]
  have "run_batch_check (witness_batch i) = Inr ()"
    by (simp add: run_batch_check_def witness_batch_def batch_snapshots_check_def require_batch_snapshot_def reject_store_def
        checks_eval witness_lint_run)
  then have "fst (commit_run_result witness_env (witness_batch i) (Some \<lparr>eca_attestation = ?x, eca_object = 0\<rparr>) (witness_registered h)
       \<lparr>az_active = [(xa_id ?x, \<lparr>eca_attestation = ?x, eca_object = 0\<rparr>)], az_next = Suc 0\<rparr>)
     = Inr ((witness_registered h)\<lparr>lg_runs := [(i, \<lparr>rw_value = ?r, rw_payload = p\<rparr>)],
         lg_attestations := [(xa_id ?x, \<lparr>rw_value = ?x, rw_payload = q\<rparr>)], lg_receipts := [(xr_id c, \<lparr>rw_value = c, rw_payload = cp\<rparr>)]\<rparr>)"
    using rows by (simp add: commit_run_result_def claim_authorization_def consume_execution_authorization_def
        witness_batch_def witness_lint_run)
  then show ?thesis by (rule that)
qed

theorem attestations_need_authorization_witness:
  "\<exists>s t y env q a z z'. store_step s t \<and> y \<in> table_values (lg_attestations t) \<and> y \<notin> table_values (lg_attestations s)
     \<and> consume_execution_authorization a z = (Inr y, z') \<and> commit_run_result env q (Some a) s z = (Inr t, z')
     \<and> attested t (rb_run q)"
proof -
  obtain i h x p q c cp where t: "fst (commit_run_result witness_env (witness_batch i) (Some \<lparr>eca_attestation = x, eca_object = 0\<rparr>)
       (witness_registered h) \<lparr>az_active = [(xa_id x, \<lparr>eca_attestation = x, eca_object = 0\<rparr>)], az_next = Suc 0\<rparr>)
     = Inr ((witness_registered h)\<lparr>lg_runs := [(i, \<lparr>rw_value = witness_stage_run ''lint'' i, rw_payload = p\<rparr>)],
         lg_attestations := [(xa_id x, \<lparr>rw_value = x, rw_payload = q\<rparr>)], lg_receipts := [(xr_id c, \<lparr>rw_value = c, rw_payload = cp\<rparr>)]\<rparr>)"
    (is "_ = Inr ?t")
    by (rule witness_committed)
  have step: "store_step (witness_registered h) ?t" by (rule store_step.run_result [OF t])
  have new: "x \<in> table_values (lg_attestations ?t)" "x \<notin> table_values (lg_attestations (witness_registered h))"
    by (simp_all add: table_values_def witness_registered_def initial_ledger_def)
  from attestations_need_authorization [OF step new] step new show ?thesis by blast
qed

theorem tool_truth_is_attested_witness:
  "\<exists>h t i r. ledger_run (witness_registered h) t \<and> run_in t ''s1'' i = Some r \<and> run_claims_tool_truth r \<and> attested t r"
proof -
  obtain i h x p q c cp where t: "fst (commit_run_result witness_env (witness_batch i) (Some \<lparr>eca_attestation = x, eca_object = 0\<rparr>)
       (witness_registered h) \<lparr>az_active = [(xa_id x, \<lparr>eca_attestation = x, eca_object = 0\<rparr>)], az_next = Suc 0\<rparr>)
     = Inr ((witness_registered h)\<lparr>lg_runs := [(i, \<lparr>rw_value = witness_stage_run ''lint'' i, rw_payload = p\<rparr>)],
         lg_attestations := [(xa_id x, \<lparr>rw_value = x, rw_payload = q\<rparr>)], lg_receipts := [(xr_id c, \<lparr>rw_value = c, rw_payload = cp\<rparr>)]\<rparr>)"
    (is "_ = Inr ?t")
    by (rule witness_committed)
  have run: "ledger_run (witness_registered h) ?t" by (rule ledger_run.one [OF ledger_run.none store_step.run_result [OF t]])
  have s: "tool_truth_attested (witness_registered h)"
    by (simp add: tool_truth_attested_def table_values_def witness_registered_def initial_ledger_def)
  have r: "run_in ?t ''s1'' i = Some (witness_stage_run ''lint'' i)"
    by (simp add: run_in_def row_in_def witness_lint_run)
  from tool_truth_is_attested [OF s run r witness_lint_run(7)] run r witness_lint_run(7) show ?thesis by blast
qed

section \<open>Claims over attested runs\<close>

text \<open>A ledger with one attested run of a stage, its report and facts taken from it.\<close>

definition stored :: "('a \<Rightarrow> string) \<Rightarrow> 'a list \<Rightarrow> (string \<times> 'a row) list" where
  "stored id_of = map (\<lambda>v. (id_of v, \<lparr>rw_value = v, rw_payload = ''{}''\<rparr>))"

definition witness_claims :: "string \<Rightarrow> string \<Rightarrow> ManifestHashes \<Rightarrow> ExecutionAttestation \<Rightarrow> ExecutionCommitReceipt
    \<Rightarrow> Observation list \<Rightarrow> Derivation list \<Rightarrow> VerificationResult list \<Rightarrow> Ledger" where
  "witness_claims st i h x c bs ds vs = (witness_registered h)
     \<lparr>lg_artifacts := stored ar_id (witness_outputs st i),
      lg_snapshot_artifacts := map (\<lambda>a. ((''s1'', ar_id a), ar_role a)) (witness_outputs st i),
      lg_runs := stored tr_id [witness_stage_run st i], lg_attestations := stored xa_id [x], lg_receipts := stored xr_id [c],
      lg_observations := stored ob_id bs, lg_derivations := stored dv_id ds, lg_verifications := stored vr_id vs\<rparr>"

lemma table_values_stored: "table_values (stored f vs) = set vs"
  by (auto simp: table_values_def stored_def image_image)

definition witness_fact :: "string \<Rightarrow> string \<Rightarrow> string \<Rightarrow> string \<Rightarrow> string \<Rightarrow> Observation" where
  "witness_fact st i k predicate unit =
     \<lparr>ob_snapshot_id = ''s1'', ob_subject_id = ''a1'', ob_predicate = predicate, ob_value = PInt 0, ob_stage = st,
      ob_authority = ''tool_observation'', ob_id = k, ob_unit = Some unit, ob_run_id = Some i, ob_artifact_id = Some ''a1'',
      ob_anchor = None, ob_completeness = ''complete'', ob_workload_id = None, ob_observed_at = None, ob_metadata = [],
      ob_source = None\<rparr>"

text \<open>The artifact of the run is where the facts say it is, and the run is attested.\<close>

definition witness_ready :: "string \<Rightarrow> string \<Rightarrow> Ledger \<Rightarrow> bool" where
  "witness_ready st i s \<longleftrightarrow> artifact_in s ''s1'' ''a1'' = Some (witness_output st i) \<and> attached s ''s1'' ''a1''
     \<and> run_in s ''s1'' i = Some (witness_stage_run st i) \<and> real_run s st (witness_stage_run st i)
     \<and> snapshot_manifest_for_evidence s ''s1'' = Inr witness_manifest"

lemma witness_claims_run:
  assumes "st \<in> {''csim'', ''post_route''}"
    and h: "manifest_hashes witness_manifest = Inr h"
    and x: "x = (witness_attestation (witness_stage_run st i) run_hash h)\<lparr>xa_id := j\<rparr>"
    and e: "execution_attestation_error (\<lambda>_. None) x (witness_stage_run st i) (witness_snapshot h) witness_manifest
       (witness_outputs st i) = Inr None" and c: "commit_receipt (witness_stage_run st i) x = Inr c"
    and s: "s = witness_claims st i h x c bs ds vs"
  shows "artifact_in s ''s1'' ''a1'' = Some (witness_output st i)" "attached s ''s1'' ''a1''"
    "run_in s ''s1'' i = Some (witness_stage_run st i)" "real_run s st (witness_stage_run st i)"
    "snapshot_manifest_for_evidence s ''s1'' = Inr witness_manifest"
proof -
  have out: "witness_outputs st i = [witness_output st i]" "ar_id (witness_output st i) = ''a1''"
    "tr_output_artifact_ids (witness_stage_run st i) = [''a1'']" "tr_snapshot_id (witness_stage_run st i) = ''s1''"
    "tr_id (witness_stage_run st i) = i"
    using assms(1) by (auto simp: witness_outputs_def witness_output_def witness_artifact_def witness_stage_run_def
        witness_attested_outputs_def)
  show att: "attached s ''s1'' ''a1''" by (simp add: s witness_claims_def attached_def out)
  show a: "artifact_in s ''s1'' ''a1'' = Some (witness_output st i)"
    using att by (simp add: artifact_in_def) (simp add: s witness_claims_def out stored_def)
  show "run_in s ''s1'' i = Some (witness_stage_run st i)"
    by (simp add: s run_in_def row_in_def witness_claims_def stored_def out)
  show m: "snapshot_manifest_for_evidence s ''s1'' = Inr witness_manifest"
    by (simp add: s snapshot_manifest_for_evidence_def witness_claims_def witness_registered_def or_store_error_def
        witness_manifest_rebuilt)
  have outputs: "attested_artifacts s (witness_stage_run st i) = Inr (witness_outputs st i)"
    by (simp add: attested_artifacts_def out a reject_store_def reject_with_def)
  have "map_of (lg_snapshots s) ''s1'' = Some \<lparr>rw_value = witness_snapshot h, rw_payload = ''{}''\<rparr>"
    "x \<in> table_values (lg_attestations s)" "c \<in> table_values (lg_receipts s)"
    by (simp_all add: s witness_claims_def table_values_stored, simp add: witness_registered_def)
  moreover have "xa_snapshot_id x = ''s1''" "xa_run_id x = i" by (simp_all add: x witness_attestation_def out)
  ultimately have "attested s (witness_stage_run st i)"
    unfolding attested_def using e m outputs receipt_parts [OF c] out by (intro exI conjI) auto
  moreover have "casefold ''runner.local'' = ''runner.local''" "clean_exit (PInt 0)" by code_simp+
  ultimately show "real_run s st (witness_stage_run st i)"
    by (simp add: real_run_def) (simp add: witness_stage_run_def dget_def)
qed

lemma witness_claimed:
  assumes "st \<in> {''csim'', ''post_route''}"
  obtains i h x c where "i \<noteq> []" "\<forall>bs ds vs. witness_ready st i (witness_claims st i h x c bs ds vs)"
proof -
  have "st \<in> witness_stages" using assms by (auto simp: witness_stages_def)
  then obtain i h run_hash j where id: "tool_run_stable_id_error (\<lambda>_. None) (witness_stage_run st i) = Inr None"
    and h: "manifest_hashes witness_manifest = Inr h" and rh: "payload_hash (ToolRun_val (witness_stage_run st i)) = Inr run_hash"
    and issued: "commit_attestation (\<lambda>_. None) (witness_capability i h) (witness_stage_run st i) (witness_outputs st i)
       = Inr ((witness_attestation (witness_stage_run st i) run_hash h)\<lparr>xa_id := j\<rparr>)"
    by (rule witness_issued)
  let ?x = "(witness_attestation (witness_stage_run st i) run_hash h)\<lparr>xa_id := j\<rparr>" and ?r = "witness_stage_run st i"
  obtain ah where ah: "payload_hash (ExecutionAttestation_val ?x) = Inr ah" using witness_attestation_payload(2) by blast
  have n: "is_namespaced (tr_id ?r)" "tr_snapshot_id ?r = ''s1''"
    using stable_run_id_namespaced [OF id] by (simp_all add: witness_stage_run_def)
  have "\<not> is_namespaced []" by code_simp
  with n(1) have i: "i \<noteq> []" by (auto simp: witness_stage_run_def)
  obtain c where c: "commit_receipt ?r ?x = Inr c" using receipt_built [OF rh ah issued_parts(2) [OF issued] n] .
  have e: "execution_attestation_error (\<lambda>_. None) ?x ?r (witness_snapshot h) witness_manifest (witness_outputs st i) = Inr None"
    using issued_parts(1) [OF issued] by (simp add: witness_capability_def)
  have "\<forall>bs ds vs. witness_ready st i (witness_claims st i h ?x c bs ds vs)"
    by (simp add: witness_ready_def witness_claims_run [OF assms h refl e c refl])
  with i show ?thesis by (rule that)
qed

text \<open>One more accepted write.\<close>

lemma witness_next:
  assumes "s = witness_claims st i h x c bs ds vs"
  obtains t where "ledger_run s t" "extends s t"
proof -
  have b: "reject_embedded_body_fields (PDict []) = Inr ()" by code_simp
  have "has_snapshot s ''s1''" "lg_graph_views s = []"
    by (simp_all add: assms witness_claims_def witness_registered_def has_snapshot_def initial_ledger_def)
  then have "\<exists>t. save_graph (empty_graph ''s1'' [] SCHEMA_VERSION) s = Inr t"
    by (simp add: save_graph_def validate_graph_def save_view_def index_entities_def empty_graph_def checks_eval b
        reject_store_def as_store_value_error_def dict_of_pairs_def mapr_def)
  then obtain t where t: "save_graph (empty_graph ''s1'' [] SCHEMA_VERSION) s = Inr t" ..
  then have "extends s t" by (elim growth)
  then show ?thesis by (rule that [OF ledger_run.one [OF ledger_run.none store_step.graph [OF t]]])
qed

definition witness_simulation :: "string \<Rightarrow> VerificationResult" where
  "witness_simulation i =
     \<lparr>vr_snapshot_id = ''s1'', vr_kind = ''csim'', vr_status = ''pass'', vr_id = ''v1'', vr_run_id = Some i,
      vr_workload_id = None, vr_evidence_ids = [''o1'', ''o2'', ''o3''], vr_details = []\<rparr>"

definition witness_counts :: "string \<Rightarrow> Observation list" where
  "witness_counts i =
     [witness_fact ''csim'' i ''o1'' ''csim.exit_code'' ''count'', witness_fact ''csim'' i ''o2'' ''csim.mismatches'' ''count'',
      witness_fact ''csim'' i ''o3'' ''csim.assertions_failed'' ''count'']"

lemma zero_measured: "finite_float (PInt 0) = Inr (Some 0)"
  by code_simp

lemma witness_fact_reported:
  assumes "artifact_in s ''s1'' ''a1'' = Some (witness_output st i)" "witness_fact st i k p u \<in> table_values (lg_observations s)"
    and "st \<in> set stages" "witness_kind st \<in> set kinds"
  shows "reported s ''s1'' stages kinds i (witness_fact st i k p u)"
  using assms unfolding reported_def
  by (auto simp: witness_fact_def witness_output_def cited_artifact_ids_def given_def anchor_artifact_def TOOL_EVIDENCE_AUTHORITIES_def)


definition witness_gate :: Derivation where
  "witness_gate =
     \<lparr>dv_snapshot_id = ''s1'', dv_subject_id = ''a1'', dv_predicate = ''gate.post_route_timing'', dv_value = PBool True,
      dv_algorithm = ''hlsgraph.gate.wns_nonnegative'', dv_algorithm_version = ''1'', dv_input_observation_ids = [''o1''],
      dv_id = ''d1'', dv_unit = None, dv_stage = ''post_route'', dv_authority = ''derived'', dv_completeness = ''complete'',
      dv_metadata = [],
      dv_evidence_refs = [\<lparr>er_kind = ''observation'', er_target_id = ''o1'', er_snapshot_id = Some ''s1'', er_anchor = None,
        er_id = ''e1''\<rparr>]\<rparr>"

definition witness_slack :: "string \<Rightarrow> Observation" where
  "witness_slack i = witness_fact ''post_route'' i ''o1'' ''timing.wns_ns'' ''ns''"

text \<open>The ledger of a true timing gate.\<close>

lemma witness_timed:
  assumes "witness_ready ''post_route'' i s" "i \<noteq> []" and s: "s = witness_claims ''post_route'' i h x c [witness_slack i] [witness_gate] vs"
  shows "gates_ok s" "facts_closed s" "derivation_in s ''s1'' ''d1'' = Some witness_gate" "backed s witness_gate"
proof -
  note f = assms(1) [unfolded witness_ready_def]
  have tables: "table_values (lg_observations s) = {witness_slack i}" "table_values (lg_derivations s) = {witness_gate}"
    by (simp_all add: s witness_claims_def table_values_stored)
  have ob: "observation_in s ''s1'' ''o1'' = Some (witness_slack i)"
    by (simp add: s observation_in_def row_in_def witness_claims_def stored_def witness_slack_def witness_fact_def)
  show "derivation_in s ''s1'' ''d1'' = Some witness_gate"
    by (simp add: s derivation_in_def row_in_def witness_claims_def stored_def witness_gate_def)
  show b: "backed s witness_gate"
    using ob assms(2) by (simp add: backed_def witness_gate_def witness_slack_def witness_fact_def given_def)
  have "reported s ''s1'' [''post_route''] [''amd.vivado.post_route_timing'', ''amd.vivado.timing_summary''] i (witness_slack i)"
    using f tables by (auto simp: witness_slack_def witness_kind_def intro!: witness_fact_reported)
  then have "post_route s witness_gate i (witness_slack i)"
    by (simp add: post_route_def witness_gate_def PHYSICAL_GATE_REPORT_KINDS_def)
  then have "timing_true s witness_gate i"
    unfolding timing_true_def
    by (intro exI [of _ "witness_slack i"] exI [of _ 0]) (simp add: witness_slack_def witness_fact_def witness_gate_def zero_measured)
  with f have "gate_holds s witness_gate"
    unfolding gate_holds_def
    by (intro exI [of _ i] exI [of _ "witness_stage_run ''post_route'' i"]) (simp add: witness_gate_def)
  moreover have "inputs_stored s witness_gate" using ob by (simp add: inputs_stored_def witness_gate_def)
  ultimately show "gates_ok s" by (simp add: gates_ok_def gate_ok_def tables)
  have "observation_closed s (witness_slack i)"
    using f by (auto simp: observation_closed_def subject_known_def witness_slack_def witness_fact_def cited_artifact_ids_def
        given_def anchor_artifact_def)
  moreover have "derivation_closed s witness_gate"
    using f ob by (auto simp: derivation_closed_def subject_known_def witness_gate_def derivation_cites_def)
  ultimately show "facts_closed s" by (simp add: facts_closed_def tables)
qed



section \<open>Lineage\<close>

text \<open>A derivation of an observation of a run.\<close>

definition witness_derived :: Ledger where
  "witness_derived = witness_ledger
     \<lparr>lg_observations := stored ob_id [(witness_fact ''csim'' ''r1'' ''observation_1'' ''csim.mismatches'' ''count'')\<lparr>ob_artifact_id := None\<rparr>],
      lg_derivations := stored dv_id [witness_gate\<lparr>dv_id := ''derivation_1'', dv_evidence_refs :=
        [\<lparr>er_kind = ''observation'', er_target_id = ''observation_1'', er_snapshot_id = Some ''s1'', er_anchor = None, er_id = ''e1''\<rparr>]\<rparr>]\<rparr>"

lemma witness_derived_ok: "lineage_ok witness_derived" "derivation_in witness_derived ''s1'' ''derivation_1'' \<noteq> None"
  by (simp_all add: lineage_ok_def witness_derived_def witness_ledger_def initial_ledger_def stored_def witness_fact_def
      witness_gate_def named_def starts_with_iff cited_artifact_ids_def given_def anchor_artifact_def derivation_cites_def
      derivation_in_def row_in_def)

theorem stored_evidence_has_producers_witness:
  "\<exists>t. ledger_run witness_derived t \<and> (\<exists>runs. evidence_producer_runs t ''s1'' ''derivation_1'' = Inr runs)"
proof -
  have b: "reject_embedded_body_fields (PDict []) = Inr ()" by code_simp
  have "has_snapshot witness_derived ''s1''" "lg_graph_views witness_derived = []"
    by (simp_all add: witness_derived_def witness_ledger_def has_snapshot_def initial_ledger_def)
  then have "\<exists>t. save_graph (empty_graph ''s1'' [] SCHEMA_VERSION) witness_derived = Inr t"
    by (simp add: save_graph_def validate_graph_def save_view_def index_entities_def empty_graph_def checks_eval b
        reject_store_def as_store_value_error_def dict_of_pairs_def mapr_def)
  then obtain t where t: "save_graph (empty_graph ''s1'' [] SCHEMA_VERSION) witness_derived = Inr t" ..
  then have "extends witness_derived t" by (elim growth)
  then have "derivation_in t ''s1'' ''derivation_1'' \<noteq> None" using witness_derived_ok(2) derivation_in_kept by blast
  moreover have run: "ledger_run witness_derived t" by (rule ledger_run.one [OF ledger_run.none store_step.graph [OF t]])
  ultimately show ?thesis using stored_evidence_has_producers [OF witness_derived_ok(1)] by blast
qed

end
