(* ===== verification/Spec2Isabelle.thy ===== *)
theory Spec2Isabelle
  imports Canonical ModelBase Contract Model_Core Model_Manifest Model_Facts Model_Run
    Model_Knowledge Model_Dataset Graph Evidence_Policy Runner_Model Orchestrator Orchestrator_Props
    Orchestrator_Witness Authorization PyRepr Knowledge_Match Knowledge_Source Knowledge_Pack Knowledge_Ledger
    Knowledge_Install Knowledge_Witness Model_Views Canonical_Fields Ledger_State Ledger_Evidence Ledger_Write
    Ledger_Commit Ledger_Growth Ledger_Lineage Ledger_Steps Ledger_Truth Ledger_Claims Ledger_Gates Ledger_Publish
    Ledger_Closure Ledger_Witness Ledger_Claims_Witness
begin

text \<open>
  HLSGraph: a verification library.

  HLSGraph (\<open>src/src/hlsgraph\<close>) keeps a content-addressed graph of facts about a high-level
  synthesis design, the tool runs that produced the evidence for them, and the knowledge
  packs that advise on it.  This library models the parts that decide what is stored, what
  counts as evidence and when a result may be called verified.

  \<^bold>\<open>Conventions.\<close>  A dataclass is a record with prefixed fields; \<open>X_init\<close> is its
  \<open>__post_init__\<close>, which returns the normalised instance or the exception (type \<open>'a res\<close>,
  \<open>Inl\<close> the exception \<open>py_exn\<close> with the static part of its message); \<open>X_from_dict\<close>,
  \<open>X_identity\<close> and \<open>X_val\<close> are the constructor from JSON, the identity payload and the view
  \<open>json_ready\<close> takes.  A field whose type the code checks at run time, and free JSON, is a
  \<open>pyval\<close>.  Enumerations are their string values.  Python integers are \<open>int\<close>, floats are
  sign, mantissa and exponent, strings are lists of 8-bit characters.  \<open>datetime.fromisoformat\<close>
  is a parameter (\<open>parse_iso\<close>), as are a runner (\<open>RunnerSPI\<close>: untrusted code with a state of
  its own) and the verified read of a staged file (\<open>file_reader\<close>).

  \<^bold>\<open>Parts and their theories.\<close>
  \<^item> \<open>Prelude\<close>, \<open>PyStr\<close>, \<open>PyValue\<close>, \<open>PyEq\<close>: the exception monad with its \<open>res_iff\<close> and
    \<open>verdict_iff\<close> rule collections, string operations, dynamic values and JSON, equality.
  \<^item> \<open>Sha256\<close>, \<open>Canonical\<close>: \<open>json_ready\<close>, \<open>canonical_json\<close>, \<open>stable_hash\<close>, \<open>stable_id\<close> and
    the embedded-body guard of \<open>model.py\<close>.  Canonical texts are equal exactly for equal
    values; hashes do not depend on the order of keys or set elements.
  \<^item> \<open>ModelBase\<close>: the shared validators of \<open>model.py\<close> (namespaced names, relative paths,
    redaction of anchor texts, finite numbers).
  \<^item> \<open>Contract\<close>: the locales \<open>normaliser\<close> (rebuilding an accepted instance gives it back) and
    \<open>content_addressed\<close> (the id is a function of the content), and \<open>revalidate_model\<close>, the
    write boundary of \<open>store/sqlite.py\<close>.  Every contract of the model interprets them.
  \<^item> \<open>Model_Core\<close>, \<open>Model_Manifest\<close>, \<open>Model_Facts\<close>, \<open>Model_Run\<close>, \<open>Model_Knowledge\<close>,
    \<open>Model_Dataset\<close>: the data contracts of \<open>model.py\<close>.
  \<^item> \<open>Graph\<close>: \<open>CanonicalGraph\<close> of \<open>graph.py\<close>; the breadth-first \<open>traverse\<close> is related to the
    ball of a given radius, and terminates because each round of \<open>traverse_loop\<close> removes a
    queue entry or adds one of finitely many entities (no fuel).
  \<^item> \<open>Evidence_Policy\<close>: \<open>evidence_policy.py\<close>, which says why a tool report may or may not be
    cited for an observation and what an execution attestation must close over.
  \<^item> \<open>Runner_Model\<close>: paths of \<open>runner/staging.py\<close>, requests, resource guards and the cache
    key of \<open>runner/core.py\<close>.
  \<^item> \<open>Orchestrator\<close>: \<open>StageOrchestrator\<close>, capabilities, authorizations, the replay and fake
    runners; \<open>Orchestrator_Props\<close> relates a run of the stage loop to the inductive relation
    \<open>stages_run\<close> and the gate dicts to the history of gates; \<open>Orchestrator_Witness\<close> runs it
    with a concrete runner; \<open>Authorization\<close> is the state machine of one-shot commits.
  \<^item> \<open>PyRepr\<close>: \<open>repr\<close> and \<open>str\<close> of dynamic values, as far as the packs' identifiers use them.
  \<^item> \<open>Knowledge_Match\<close>, \<open>Knowledge_Source\<close>: \<open>knowledge/core.py\<close> (version keys, constraint
    grammar, matcher, and the entailment test, proved sound for the matcher) and the closed
    condition and evidence-source tables of \<open>knowledge/core.py\<close>.
  \<^item> \<open>Knowledge_Pack\<close>: the target registry, document references and \<open>KnowledgePack\<close> of
    \<open>knowledge/core.py\<close>: what a pack that loads is known to contain.
  \<^item> \<open>Knowledge_Ledger\<close>: the knowledge tables of \<open>store/sqlite.py\<close>, \<open>add_knowledge_rules\<close>,
    \<open>install_knowledge_pack\<close> and the catalogue above it; the step relation \<open>ledger_step\<close>
    keeps the tables closed.  \<open>Knowledge_Install\<close> shows that loader and store agree: a pack
    that loads installs; \<open>Knowledge_Witness\<close> runs both on a concrete pack.
  \<^item> \<open>Model_Views\<close>: the values \<open>json_ready\<close> takes of the stored contracts.  \<open>Canonical_Fields\<close>:
    rows with equal payload texts have equal fields.
  \<^item> \<open>Ledger_State\<close>, \<open>Ledger_Evidence\<close>, \<open>Ledger_Write\<close>, \<open>Ledger_Commit\<close>: \<open>LedgerStore\<close> of
    \<open>store/sqlite.py\<close>.  A record of tables is the database, an operation is a function from it
    to the new tables or the exception, and a refused transaction has no state.  The lineage
    of evidence is the function \<open>walk\<close>, which terminates because a recursion only goes on
    through an id with a row that is not on the stack yet.
  \<^item> \<open>Ledger_Growth\<close>: every accepted write (\<open>store_step\<close>) only adds rows; the locale
    \<open>ledger_table\<close> is the interface of a table, interpreted for each of them.  \<open>ledger_run\<close> is
    any sequence of accepted writes.
  \<^item> \<open>Ledger_Lineage\<close>: the lineage walk computes what is reachable over citations, and raises
    exactly on a cycle.
  \<^item> \<open>Ledger_Steps\<close>: an accepted write is a sequence of \<open>row_step\<close>s, one private operation each,
    with the tables each of them leaves alone; a property that every row has when it enters and
    that growth keeps holds of every stored row.
  \<^item> \<open>Ledger_Truth\<close>, \<open>Ledger_Claims\<close>, \<open>Ledger_Gates\<close>: what a stored claim means.  A run that claims
    tool truth is closed over by an attestation and receipt of the ledger; a passing
    simulation and a physical gate say what complete observations of one attested run say.
  \<^item> \<open>Ledger_Publish\<close>: the newest snapshot of a project is indexed, an index commit publishes
    it and a failed one publishes nothing.
  \<^item> \<open>Ledger_Closure\<close>: facts have no dangling references and their lineage has no cycle, so no
    claim is refused for cyclic evidence.
  \<^item> \<open>Ledger_Witness\<close>, \<open>Ledger_Claims_Witness\<close>: concrete commits of index and tool runs, and
    concrete ledgers with a passing simulation and a true gate.  The invariants assumed of
    the first ledger hold in \<open>initial_ledger\<close>.

  \<^bold>\<open>How they interact.\<close>  A project manifest (\<open>Model_Manifest\<close>) fixes toolchains, commands
  and outputs of the stages.  A request (\<open>Runner_Model\<close>) is executed by a runner, whose
  response the orchestrator validates against the request and the manifest; a tool-truth
  response receives a capability, which is exchanged for an attestation
  (\<open>Evidence_Policy\<close>) and a one-shot authorization that the ledger consumes.  Runs,
  attestations and facts are content-addressed (\<open>Canonical\<close>, \<open>Contract\<close>), and the facts form
  the canonical graph.  The ledger (\<open>Ledger_Write\<close>, \<open>Ledger_Commit\<close>) rebuilds each contract at
  its write boundary, and before a run, an observation, a gate or a verification enters, it
  walks the lineage of the evidence cited (\<open>Ledger_State\<close>) and validates the attestation of
  the run behind it (\<open>Ledger_Evidence\<close>).  Knowledge packs are loaded and checked apart from any design
  (\<open>Knowledge_Pack\<close>), installed into the ledger's own tables (\<open>Knowledge_Ledger\<close>), and their
  rules are matched against facts of the design (\<open>Knowledge_Match\<close>).

  \<^bold>\<open>Not modelled.\<close>  Processes, signals, SSH and file I/O (local and SSH runners, staging
  directories), the text of the SQL statements and migrations, the extractors (libclang, XML
  and regular expressions),
  the retrieval ranking, the discovery, migration and activation sidecars of knowledge packs,
  the command line, REST and MCP
  layers, exports and rendering, and the evaluation and release tools.  Concurrency of the
  authorization registry is the interleaving of its atomic operations, which the lock of the
  code makes atomic.  Of what the ledger calls, three things are parameters (\<open>store_env\<close>): the
  reading of dates, whether the managed bytes of an artifact are those on disk, and the replay
  of a report through its parser (\<open>extract/observation_replay.py\<close>); the consumption of an
  index authorization (\<open>extract/index_authorization.py\<close>) is an argument of the commit.
\<close>

end
